(* ===== verification/Prelude.thy ===== *)
theory Prelude
  imports Main "HOL-Library.List_Lexorder" "HOL-Library.Char_ord" "HOL-Library.Multiset"
begin

text \<open>
  The vocabulary every component of the development shares: what the Go language and its
  standard library give the sources (byte strings and the functions of package \<open>strings\<close>,
  maps with an unspecified iteration order, slices, buffered channels, \<open>int32\<close> conversion,
  \<open>time.Time\<close> and \<open>time.Duration\<close>, the error codes of Connect RPC) and the generic lemmas
  on lists and maps the component theories use.

  Conventions.
  \<^item> A Go \<open>string\<close> is its list of bytes, \<^typ>\<open>string\<close>; Go compares strings byte by byte,
    which is the order of \<open>List_Lexorder\<close> over \<open>Char_ord\<close>.
  \<^item> A Go map is a partial function. A \<open>for k := range m\<close> visits the keys in an order the
    runtime chooses anew at every loop: the order is an argument of the definition that
    loops, constrained by \<open>iter_order\<close>, and theorems hold for all such orders.
  \<^item> \<open>time.Time\<close> is the number of nanoseconds since a fixed origin, an \<^typ>\<open>int\<close>;
    \<open>time.Now()\<close> is an argument of the definition that reads the clock.
  \<^item> Random bytes (\<open>crypto/rand.Read\<close>) are an argument of type \<open>byte list option\<close>,
    \<open>None\<close> when the call fails.
\<close>

section \<open>Proof collections\<close>

named_theorems map_ops \<open>looking up an updated map\<close>
named_theorems str_ops \<open>equations of the functions of package strings\<close>

section \<open>Maps and slices\<close>

type_synonym ('k, 'v) gomap = "'k \<Rightarrow> 'v option"

text \<open>The orders in which a range loop may visit the keys of a map.\<close>

definition iter_order :: "('k, 'v) gomap \<Rightarrow> 'k list \<Rightarrow> bool" where
  "iter_order m ks \<longleftrightarrow> distinct ks \<and> set ks = dom m"

text \<open>Reading a slice-valued map: a missing key reads as the nil slice.\<close>

definition get_slice :: "('k, 'v list) gomap \<Rightarrow> 'k \<Rightarrow> 'v list" where
  "get_slice m k = (case m k of None \<Rightarrow> [] | Some vs \<Rightarrow> vs)"

text \<open>Reading a string-valued map: a missing key reads as the empty string.\<close>

definition get_string :: "('k, string) gomap \<Rightarrow> 'k \<Rightarrow> string" where
  "get_string m k = (case m k of None \<Rightarrow> '''' | Some s \<Rightarrow> s)"

text \<open>\<open>m[k] = append(m[k], v)\<close>.\<close>

definition append_at :: "('k, 'v list) gomap \<Rightarrow> 'k \<Rightarrow> 'v \<Rightarrow> ('k, 'v list) gomap" where
  "append_at m k v = m(k \<mapsto> get_slice m k @ [v])"

text \<open>
  The loop \<open>for i, p := range s { if P(p) { s = append(s[:i], s[i+1:]...); break } }\<close>:
  the first element that satisfies \<open>P\<close> is cut out of the slice.
\<close>

fun remove_first :: "('a \<Rightarrow> bool) \<Rightarrow> 'a list \<Rightarrow> 'a list" where
  "remove_first P [] = []"
| "remove_first P (x # xs) = (if P x then xs else x # remove_first P xs)"

lemma iter_order_dom [dest]: "iter_order m ks \<Longrightarrow> set ks = dom m"
  by (simp add: iter_order_def)

lemma iter_order_distinct [dest]: "iter_order m ks \<Longrightarrow> distinct ks"
  by (simp add: iter_order_def)

lemma iter_order_finite: "iter_order m ks \<Longrightarrow> finite (dom m)"
  by (metis List.finite_set iter_order_dom)

lemma iter_order_card: "iter_order m ks \<Longrightarrow> length ks = card (dom m)"
  by (metis distinct_card iter_order_def)

lemma iter_order_mset: "iter_order m ks \<Longrightarrow> iter_order m ks' \<Longrightarrow> mset ks = mset ks'"
  by (metis iter_order_def set_eq_iff_mset_eq_distinct)

lemma iter_order_exists: "finite (dom m) \<Longrightarrow> \<exists>ks. iter_order m ks"
  using finite_distinct_list [of "dom m"] by (auto simp: iter_order_def)

lemma get_slice_upd [simp, map_ops]:
  "get_slice (m(k \<mapsto> v)) j = (if j = k then v else get_slice m j)"
  by (simp add: get_slice_def)

lemma get_slice_del [simp, map_ops]:
  "get_slice (m(k := None)) j = (if j = k then [] else get_slice m j)"
  by (simp add: get_slice_def)

lemma get_slice_empty [simp, map_ops]: "get_slice Map.empty k = []"
  by (simp add: get_slice_def)

lemma get_slice_append_at [simp, map_ops]:
  "get_slice (append_at m k v) j = (if j = k then get_slice m k @ [v] else get_slice m j)"
  by (simp add: append_at_def)

lemma dom_append_at [simp]: "dom (append_at m k v) = insert k (dom m)"
  by (simp add: append_at_def)

lemma get_slice_SomeD: "x \<in> set (get_slice m k) \<Longrightarrow> \<exists>vs. m k = Some vs \<and> x \<in> set vs"
  by (cases "m k") (auto simp: get_slice_def)

lemma remove_first_append:
  "remove_first P (xs @ ys) = (if \<exists>x\<in>set xs. P x then remove_first P xs @ ys else xs @ remove_first P ys)"
  by (induction xs) auto

lemma remove_first_none [simp]: "\<forall>x\<in>set xs. \<not> P x \<Longrightarrow> remove_first P xs = xs"
  by (induction xs) auto

lemma remove_first_notin [simp]: "x \<notin> set xs \<Longrightarrow> remove_first (\<lambda>y. y = x) xs = xs"
  by (rule remove_first_none) auto

lemma set_remove_first_subset: "set (remove_first P xs) \<subseteq> set xs"
  by (induction xs) auto

lemma distinct_remove_first: "distinct xs \<Longrightarrow> distinct (remove_first P xs)"
  by (induction xs) (auto dest: subsetD [OF set_remove_first_subset])

text \<open>When the key \<open>f\<close> identifies the elements, cutting the first match removes exactly it.\<close>

lemma remove_first_key:
  "distinct (map f xs) \<Longrightarrow> remove_first (\<lambda>x. f x = k) xs = filter (\<lambda>x. f x \<noteq> k) xs"
proof (induction xs)
  case (Cons a xs)
  have "f a = k \<Longrightarrow> filter (\<lambda>x. f x \<noteq> k) xs = xs"
    using Cons.prems by (metis (mono_tags, lifting) distinct.simps(2) filter_True imageI list.map(2) list.set_map)
  with Cons show ?case by simp
qed simp

lemma remove_first_eq_remove1: "remove_first (\<lambda>y. y = x) xs = remove1 x xs"
  by (induction xs) auto

lemma mset_remove_first_eq: "mset (remove_first (\<lambda>y. y = x) xs) = mset xs - {#x#}"
  by (simp add: remove_first_eq_remove1)

section \<open>Loops that may stop early\<close>

text \<open>A loop over a slice whose body may not return (\<open>None\<close>).\<close>

fun foldM :: "('a \<Rightarrow> 's \<Rightarrow> 's option) \<Rightarrow> 'a list \<Rightarrow> 's \<Rightarrow> 's option" where
  "foldM f [] s = Some s"
| "foldM f (x # xs) s = (case f x s of None \<Rightarrow> None | Some s' \<Rightarrow> foldM f xs s')"

text \<open>
  The rule for such loops: every round returns, keeps the invariant \<open>I\<close>, moves up in the
  preorder \<open>le\<close> and reaches its own goal \<open>E x\<close>, which later rounds do not lose.
\<close>

lemma foldM_rule:
  assumes "I s"
    and refl: "\<And>s. le s s" and trans: "\<And>s t u. le s t \<Longrightarrow> le t u \<Longrightarrow> le s u"
    and mono: "\<And>x s t. x \<in> set xs \<Longrightarrow> E x s \<Longrightarrow> le s t \<Longrightarrow> E x t"
    and round: "\<And>x s. x \<in> set xs \<Longrightarrow> I s \<Longrightarrow> \<exists>t. f x s = Some t \<and> I t \<and> le s t \<and> E x t"
  shows "\<exists>t. foldM f xs s = Some t \<and> I t \<and> le s t \<and> (\<forall>x\<in>set xs. E x t)"
  using assms(1) mono round
proof (induction xs arbitrary: s)
  case Nil
  then show ?case by (simp add: refl)
next
  case (Cons x xs)
  obtain t where t: "f x s = Some t" "I t" "le s t" "E x t"
    using Cons.prems(3) [OF list.set_intros(1) Cons.prems(1)] by blast
  have "\<exists>u. foldM f xs t = Some u \<and> I u \<and> le t u \<and> (\<forall>y\<in>set xs. E y u)"
  proof (rule Cons.IH [OF t(2)])
    show "E y v" if "y \<in> set xs" "E y w" "le w v" for y w v
      using Cons.prems(2) [of y w v] that by simp
    show "\<exists>v. f y w = Some v \<and> I v \<and> le w v \<and> E y v" if "y \<in> set xs" "I w" for y w
      using Cons.prems(3) [of y w] that by simp
  qed
  then obtain u where u: "foldM f xs t = Some u" "I u" "le t u" "\<forall>y\<in>set xs. E y u"
    by blast
  have "E x u" by (rule Cons.prems(2) [OF list.set_intros(1) t(4) u(3)])
  moreover from t(3) u(3) have "le s u" by (rule trans)
  ultimately show ?case using t(1) u(1,2,4) by simp
qed

section \<open>Package strings\<close>

text \<open>\<open>strings.HasPrefix\<close>, \<open>strings.TrimPrefix\<close>, \<open>strings.HasSuffix\<close>, \<open>strings.TrimSuffix\<close>.\<close>

fun hasPrefix :: "string \<Rightarrow> string \<Rightarrow> bool" where
  "hasPrefix s [] = True"
| "hasPrefix [] (p # ps) = False"
| "hasPrefix (c # s) (p # ps) = (c = p \<and> hasPrefix s ps)"

definition trimPrefix :: "string \<Rightarrow> string \<Rightarrow> string" where
  "trimPrefix s p = (if hasPrefix s p then drop (length p) s else s)"

definition trimSuffix :: "string \<Rightarrow> string \<Rightarrow> string" where
  "trimSuffix s p = (if hasPrefix (rev s) (rev p) then take (length s - length p) s else s)"

definition trimRight :: "char \<Rightarrow> string \<Rightarrow> string" where
  "trimRight c s = rev (dropWhile (\<lambda>x. x = c) (rev s))"

text \<open>\<open>strings.Contains\<close>.\<close>

fun containsStr :: "string \<Rightarrow> string \<Rightarrow> bool" where
  "containsStr [] p = (p = [])"
| "containsStr (c # s) p = (hasPrefix (c # s) p \<or> containsStr s p)"

text \<open>
  \<open>strings.SplitN(s, sep, n)\<close> for a one-byte separator and \<open>n > 0\<close>: at most \<open>n\<close> pieces,
  the last one unsplit. \<open>strings.Split\<close> is the same without the bound.
\<close>

fun cut :: "char \<Rightarrow> string \<Rightarrow> (string \<times> string) option" where
  "cut c [] = None"
| "cut c (x # xs) = (if x = c then Some ([], xs) else map_option (\<lambda>(a, b). (x # a, b)) (cut c xs))"

fun splitN :: "char \<Rightarrow> nat \<Rightarrow> string \<Rightarrow> string list" where
  "splitN c 0 s = []"
| "splitN c (Suc 0) s = [s]"
| "splitN c (Suc (Suc n)) s =
     (case cut c s of None \<Rightarrow> [s] | Some (a, b) \<Rightarrow> a # splitN c (Suc n) b)"

fun splitAll :: "char \<Rightarrow> string \<Rightarrow> string list" where
  "splitAll c [] = [[]]"
| "splitAll c (x # xs) =
     (if x = c then [] # splitAll c xs
      else (case splitAll c xs of [] \<Rightarrow> [[x]] | y # ys \<Rightarrow> (x # y) # ys))"

fun joinStr :: "string \<Rightarrow> string list \<Rightarrow> string" where
  "joinStr sep [] = []"
| "joinStr sep [x] = x"
| "joinStr sep (x # y # ys) = x @ sep @ joinStr sep (y # ys)"

text \<open>
  \<open>strings.ToLower\<close> on ASCII text: the upper-case letters are mapped, every other byte is
  kept. (On text with bytes above 127 Go maps Unicode letters too; the one caller that can
  see such text is \<open>Platform.AddPlugin\<close>, whose theorems do not read the letters.)
\<close>

definition lowerChar :: "char \<Rightarrow> char" where
  "lowerChar c = (let n = of_char c :: nat in if 65 \<le> n \<and> n \<le> 90 then char_of (n + 32) else c)"

definition toLower :: "string \<Rightarrow> string" where
  "toLower s = map lowerChar s"

text \<open>\<open>strings.ReplaceAll(s, old, new)\<close> for one-byte \<open>old\<close> and \<open>new\<close>.\<close>

definition replaceAllChar :: "char \<Rightarrow> char \<Rightarrow> string \<Rightarrow> string" where
  "replaceAllChar a b s = map (\<lambda>c. if c = a then b else c) s"

text \<open>Numbers in decimal, as \<open>%d\<close> writes them.\<close>

fun showNat :: "nat \<Rightarrow> string" where
  "showNat n = (if n < 10 then [char_of (48 + n)] else showNat (n div 10) @ [char_of (48 + n mod 10)])"

declare showNat.simps [simp del]

definition showInt :: "int \<Rightarrow> string" where
  "showInt i = (if i < 0 then ''-'' @ showNat (nat (- i)) else showNat (nat i))"

lemma hasPrefix_iff [str_ops]: "hasPrefix s p \<longleftrightarrow> (\<exists>t. s = p @ t)"
  by (induction s p rule: hasPrefix.induct) auto

lemma hasPrefix_append [simp, str_ops]: "hasPrefix (p @ s) p"
  by (auto simp: hasPrefix_iff)

lemma trimPrefix_append [simp, str_ops]: "trimPrefix (p @ s) p = s"
  by (simp add: trimPrefix_def)

lemma containsStr_iff: "containsStr s p \<longleftrightarrow> (\<exists>a b. s = a @ p @ b)"
proof (induction s)
  case (Cons c s)
  have "(\<exists>a b. c # s = a @ p @ b) \<longleftrightarrow> hasPrefix (c # s) p \<or> (\<exists>a b. s = a @ p @ b)"
    unfolding hasPrefix_iff by (metis append_Cons append_Nil neq_Nil_conv list.inject)
  with Cons.IH show ?case by simp
qed auto

lemma containsStr_single [simp]: "containsStr s [c] \<longleftrightarrow> c \<in> set s"
  by (induction s) auto

lemma cut_None_iff [simp]: "cut c s = None \<longleftrightarrow> c \<notin> set s"
  by (induction s) auto

lemma cut_append [simp]: "c \<notin> set a \<Longrightarrow> cut c (a @ c # b) = Some (a, b)"
  by (induction a) auto

lemma cut_SomeD: "cut c s = Some (a, b) \<Longrightarrow> s = a @ c # b \<and> c \<notin> set a"
  by (induction s arbitrary: a b) (auto split: if_splits)

lemma splitAll_nonempty [simp]: "splitAll c s \<noteq> []"
  by (induction s) (auto split: list.splits)

lemma splitAll_no_sep [simp]: "c \<notin> set s \<Longrightarrow> splitAll c s = [s]"
  by (induction s) auto

lemma splitAll_append [simp]:
  "c \<notin> set a \<Longrightarrow> splitAll c (a @ c # b) = a # splitAll c b"
  by (induction a) auto

lemma joinStr_splitAll: "joinStr [c] (splitAll c s) = s"
proof (induction s)
  case (Cons x xs)
  obtain y ys where y: "splitAll c xs = y # ys"
    using splitAll_nonempty [of c xs] by (cases "splitAll c xs") auto
  with Cons.IH show ?case by (cases ys) auto
qed simp

lemma replaceAllChar_notin: "a \<noteq> b \<Longrightarrow> a \<notin> set (replaceAllChar a b s)"
  by (auto simp: replaceAllChar_def)

section \<open>Components as transition systems\<close>

text \<open>
  A component is its initial states, the steps its operations make, and an invariant; the
  interface below is what every component with an invariant provides, and each component
  theory interprets it on its own operations.
\<close>

inductive reach :: "('s \<Rightarrow> bool) \<Rightarrow> ('s \<Rightarrow> 's \<Rightarrow> bool) \<Rightarrow> 's \<Rightarrow> bool" for init step where
  reach_init: "init s \<Longrightarrow> reach init step s"
| reach_step: "reach init step s \<Longrightarrow> step s t \<Longrightarrow> reach init step t"

lemma reach_mono:
  assumes "reach J step x" and "\<And>y. J y \<Longrightarrow> I y"
  shows "reach I step x"
  using assms(1) by (induction rule: reach.induct) (auto intro: reach.intros assms(2))

locale safe_component =
  fixes init :: "'s \<Rightarrow> bool" and step :: "'s \<Rightarrow> 's \<Rightarrow> bool" and inv :: "'s \<Rightarrow> bool"
  assumes init_inv: "init s \<Longrightarrow> inv s"
    and step_inv: "inv s \<Longrightarrow> step s t \<Longrightarrow> inv t"
begin

lemma reach_inv: "reach init step s \<Longrightarrow> inv s"
  by (induction rule: reach.induct) (auto intro: init_inv step_inv)

end

section \<open>Traces and simulation\<close>

text \<open>
  The traces of a labelled transition system, and a component that is simulated by a simpler one: every
  trace of the first is one of the second.
\<close>

inductive trace :: "('s \<Rightarrow> 'l \<Rightarrow> 's \<Rightarrow> bool) \<Rightarrow> 's \<Rightarrow> 'l list \<Rightarrow> 's \<Rightarrow> bool" for step where
  trace_nil: "trace step s [] s"
| trace_snoc: "trace step s ls t \<Longrightarrow> step t l u \<Longrightarrow> trace step s (ls @ [l]) u"

lemma trace_one: "step s l t \<Longrightarrow> trace step s [l] t"
  using trace_snoc [OF trace_nil] by force

locale simulation =
  fixes stepC :: "'c \<Rightarrow> 'l \<Rightarrow> 'c \<Rightarrow> bool" and stepA :: "'a \<Rightarrow> 'l \<Rightarrow> 'a \<Rightarrow> bool" and rel :: "'c \<Rightarrow> 'a \<Rightarrow> bool"
  assumes simulates: "rel c a \<Longrightarrow> stepC c l c' \<Longrightarrow> \<exists>a'. stepA a l a' \<and> rel c' a'"
begin

lemma trace_inclusion: "trace stepC c ls c' \<Longrightarrow> rel c a \<Longrightarrow> \<exists>a'. trace stepA a ls a' \<and> rel c' a'"
proof (induction rule: trace.induct)
  case (trace_snoc s ls t l u)
  then obtain a1 where "trace stepA a ls a1" "rel t a1" by blast
  then show ?case using simulates trace_snoc.hyps(2) trace.trace_snoc by metis
qed (blast intro: trace_nil)

end

end
