(* ===== verification/Depgraph.thy ===== *)
theory Depgraph
  imports Prelude
begin

text \<open>
  The dependency graph of \<^verbatim>\<open>internal/depgraph/depgraph.go\<close>: plugins, the service types
  they require for startup, and the index from a service type to its providers.
  First the data and the operations (\<open>Add\<close>, \<open>Remove\<close>, \<open>StartupOrder\<close>, \<open>GetImpact\<close>, the
  readers), then the invariant \<open>wf_graph\<close> that relates the three maps and that \<open>Add\<close> and
  \<open>Remove\<close> keep, then the correctness of Kahn's algorithm.
\<close>

section \<open>Data\<close>

record DgDeclaration =
  dgd_Type :: string
  dgd_Version :: string

record DgDependency =
  dgr_Type :: string
  dgr_MinVersion :: string
  dgr_RequiredForStartup :: bool
  dgr_WatchForChanges :: bool

record Node =
  nd_RuntimeID :: string
  nd_SelfID :: string
  nd_Provides :: "DgDeclaration list"
  nd_Requires :: "DgDependency list"

record Graph =
  g_nodes :: "(string, Node) gomap"
  g_edges :: "(string, string list) gomap"
  g_byType :: "(string, string list) gomap"

record ImpactAnalysis =
  ia_TargetPlugin :: string
  ia_AffectedServices :: "string list"
  ia_AffectedPlugins :: "string list"
  ia_OptionalImpact :: "string list"

datatype StartupError =
    NoProvider string string      \<comment> \<open>plugin requires service but no provider exists\<close>
  | CycleDetected nat nat         \<comment> \<open>dependency cycle detected (processed of plugins)\<close>

section \<open>Operations\<close>

definition newGraph :: Graph where
  "newGraph = \<lparr>g_nodes = Map.empty, g_edges = Map.empty, g_byType = Map.empty\<rparr>"

definition requiredTypes :: "DgDependency list \<Rightarrow> string list" where
  "requiredTypes deps = map dgr_Type (filter dgr_RequiredForStartup deps)"

definition graphAdd :: "Graph \<Rightarrow> Node \<Rightarrow> Graph" where
  "graphAdd g node =
     g\<lparr>g_nodes := (g_nodes g)(nd_RuntimeID node \<mapsto> node),
       g_edges := (g_edges g)(nd_RuntimeID node \<mapsto> requiredTypes (nd_Requires node)),
       g_byType := fold (\<lambda>svc m. append_at m (dgd_Type svc) (nd_RuntimeID node))
                     (nd_Provides node) (g_byType g)\<rparr>"

text \<open>The body of the loop of \<open>Remove\<close>: cut the first entry of the plugin, drop an empty slice.\<close>

definition removeProvider ::
    "string \<Rightarrow> DgDeclaration \<Rightarrow> (string, string list) gomap \<Rightarrow> (string, string list) gomap" where
  "removeProvider runtimeID svc m =
     (let providers = get_slice m (dgd_Type svc);
          m' = (if runtimeID \<in> set providers
                then m(dgd_Type svc \<mapsto> remove_first (\<lambda>pid. pid = runtimeID) providers) else m)
      in if get_slice m' (dgd_Type svc) = [] then m'(dgd_Type svc := None) else m')"

definition graphRemove :: "Graph \<Rightarrow> string \<Rightarrow> Graph" where
  "graphRemove g runtimeID =
     (case g_nodes g runtimeID of
        None \<Rightarrow> g
      | Some node \<Rightarrow>
          g\<lparr>g_nodes := (g_nodes g)(runtimeID := None),
            g_edges := (g_edges g)(runtimeID := None),
            g_byType := fold (removeProvider runtimeID) (nd_Provides node) (g_byType g)\<rparr>)"

definition getNode :: "Graph \<Rightarrow> string \<Rightarrow> Node option" where
  "getNode g runtimeID = g_nodes g runtimeID"

definition getProviders :: "Graph \<Rightarrow> string \<Rightarrow> string list" where
  "getProviders g serviceType = get_slice (g_byType g) serviceType"

definition hasService :: "Graph \<Rightarrow> string \<Rightarrow> bool" where
  "hasService g serviceType \<longleftrightarrow> 0 < length (get_slice (g_byType g) serviceType)"

subsection \<open>StartupOrder\<close>

definition get_int :: "('k, int) gomap \<Rightarrow> 'k \<Rightarrow> int" where
  "get_int m k = (case m k of None \<Rightarrow> 0 | Some i \<Rightarrow> i)"

type_synonym degrees = "(string, int) gomap"
type_synonym adjacency = "(string, string list) gomap"

definition initDegrees :: "string list \<Rightarrow> degrees" where
  "initDegrees ids = fold (\<lambda>runtimeID m. m(runtimeID \<mapsto> 0)) ids Map.empty"

definition addEdge :: "string \<Rightarrow> string \<Rightarrow> degrees \<times> adjacency \<Rightarrow> degrees \<times> adjacency" where
  "addEdge runtimeID providerID st =
     (case st of (inDegree, adjList) \<Rightarrow>
        (inDegree(runtimeID \<mapsto> get_int inDegree runtimeID + 1),
         append_at adjList providerID runtimeID))"

fun addRequired ::
    "Graph \<Rightarrow> string \<Rightarrow> string list \<Rightarrow> degrees \<times> adjacency \<Rightarrow> StartupError + degrees \<times> adjacency" where
  "addRequired g runtimeID [] st = Inr st"
| "addRequired g runtimeID (serviceType # rest) st =
     (let providers = get_slice (g_byType g) serviceType
      in if length providers = 0 then Inl (NoProvider runtimeID serviceType)
         else addRequired g runtimeID rest (fold (addEdge runtimeID) providers st))"

fun buildAdj ::
    "Graph \<Rightarrow> string list \<Rightarrow> degrees \<times> adjacency \<Rightarrow> StartupError + degrees \<times> adjacency" where
  "buildAdj g [] st = Inr st"
| "buildAdj g (runtimeID # rest) st =
     (case addRequired g runtimeID (get_slice (g_edges g) runtimeID) st of
        Inl e \<Rightarrow> Inl e
      | Inr st' \<Rightarrow> buildAdj g rest st')"

definition reduceStep :: "string \<Rightarrow> degrees \<times> string list \<Rightarrow> degrees \<times> string list" where
  "reduceStep dependent st =
     (case st of (inDegree, queue) \<Rightarrow>
        let inDegree' = inDegree(dependent \<mapsto> get_int inDegree dependent - 1)
        in (inDegree',
            if get_int inDegree' dependent = 0 then sort (queue @ [dependent]) else queue))"

text \<open>
  The loop \<open>for len(queue) > 0\<close>. Nothing in its text bounds the number of rounds, so it is a
  partial function; \<open>StartupOrder_returns\<close> below shows that it returns on every graph.
\<close>

partial_function (option) kahnLoop ::
    "adjacency \<Rightarrow> degrees \<Rightarrow> string list \<Rightarrow> string list \<Rightarrow> string list option" where
  "kahnLoop adjList inDegree queue result =
     (if queue = [] then Some result
      else
        let st = fold reduceStep (get_slice adjList (hd queue)) (inDegree, tl queue)
        in kahnLoop adjList (fst st) (snd st) (result @ [hd queue]))"

text \<open>
  \<open>nodeOrder\<close>, \<open>edgeOrder\<close> and \<open>degreeOrder\<close> are the orders of the three range loops (over
  \<open>g.nodes\<close>, \<open>g.edges\<close> and \<open>inDegree\<close>).
\<close>

definition StartupOrder ::
    "Graph \<Rightarrow> string list \<Rightarrow> string list \<Rightarrow> string list \<Rightarrow> (StartupError + string list) option" where
  "StartupOrder g nodeOrder edgeOrder degreeOrder =
     (case buildAdj g edgeOrder (initDegrees nodeOrder, Map.empty) of
        Inl e \<Rightarrow> Some (Inl e)
      | Inr (inDegree, adjList) \<Rightarrow>
          let queue = sort (filter (\<lambda>runtimeID. get_int inDegree runtimeID = 0) degreeOrder)
          in (case kahnLoop adjList inDegree queue [] of
                None \<Rightarrow> None
              | Some result \<Rightarrow>
                  if length result \<noteq> length nodeOrder
                  then Some (Inl (CycleDetected (length result) (length nodeOrder)))
                  else Some (Inr result)))"

subsection \<open>GetImpact\<close>

definition appendUnique :: "string list \<Rightarrow> string \<Rightarrow> string list" where
  "appendUnique slice item = (if item \<in> set slice then slice else slice @ [item])"

definition getOtherProviders :: "Graph \<Rightarrow> string \<Rightarrow> string \<Rightarrow> string list" where
  "getOtherProviders g serviceType excludeRuntimeID =
     filter (\<lambda>providerID. providerID \<noteq> excludeRuntimeID) (get_slice (g_byType g) serviceType)"

text \<open>
  The recursive walk. Its state is the impact being filled and the set of visited plugins.
  \<open>ord runtimeID i\<close> is the order in which the range over \<open>g.nodes\<close> inside the \<open>i\<close>-th round
  over \<open>node.Provides\<close> visits the plugins: a plugin's body runs at most once, so these
  orders are all the freedom the runtime has. The first argument bounds the depth of the
  recursion; \<open>findDependents_correct\<close> shows that one more than the number of unvisited plugins
  is enough.
\<close>

type_synonym walk = "ImpactAnalysis \<times> string set"
type_synonym node_orders = "string \<Rightarrow> nat \<Rightarrow> string list"

definition addOptional :: "string \<Rightarrow> walk \<Rightarrow> walk" where
  "addOptional otherID st =
     (case st of (impact, visited) \<Rightarrow>
        (impact\<lparr>ia_OptionalImpact := appendUnique (ia_OptionalImpact impact) otherID\<rparr>, visited))"

definition addAffected :: "string \<Rightarrow> walk \<Rightarrow> walk" where
  "addAffected otherID st =
     (case st of (impact, visited) \<Rightarrow>
        (impact\<lparr>ia_AffectedPlugins := appendUnique (ia_AffectedPlugins impact) otherID\<rparr>, visited))"

fun findDependents :: "nat \<Rightarrow> Graph \<Rightarrow> node_orders \<Rightarrow> string \<Rightarrow> walk \<Rightarrow> walk option" where
  "findDependents 0 g ord runtimeID st = None"
| "findDependents (Suc fuel) g ord runtimeID st =
     (if runtimeID \<in> snd st then Some st
      else
        let st = (fst st, insert runtimeID (snd st))
        in case g_nodes g runtimeID of
             None \<Rightarrow> Some st
           | Some node \<Rightarrow>
               foldM (\<lambda>(i, svc).
                 foldM (\<lambda>otherID st.
                   if otherID = runtimeID then Some st
                   else case g_nodes g otherID of
                     None \<Rightarrow> Some st
                   | Some otherNode \<Rightarrow>
                       foldM (\<lambda>dep st.
                         if dgr_Type dep \<noteq> dgd_Type svc then Some st
                         else if 0 < length (getOtherProviders g (dgd_Type svc) runtimeID)
                         then Some (addOptional otherID st)
                         else if dgr_RequiredForStartup dep
                         then findDependents fuel g ord otherID (addAffected otherID st)
                         else Some (addOptional otherID st))
                       (nd_Requires otherNode) st)
                 (ord runtimeID i))
               (enumerate 0 (nd_Provides node)) st)"

definition GetImpact :: "nat \<Rightarrow> Graph \<Rightarrow> node_orders \<Rightarrow> string \<Rightarrow> ImpactAnalysis option" where
  "GetImpact fuel g ord runtimeID =
     (let empty = \<lparr>ia_TargetPlugin = runtimeID, ia_AffectedServices = [],
                    ia_AffectedPlugins = [], ia_OptionalImpact = []\<rparr>
      in case g_nodes g runtimeID of
           None \<Rightarrow> Some empty
         | Some node \<Rightarrow>
             (case findDependents fuel g ord runtimeID
                     (empty\<lparr>ia_AffectedServices := map dgd_Type (nd_Provides node)\<rparr>, {}) of
                None \<Rightarrow> None
              | Some (impact, visited) \<Rightarrow>
                  Some (impact\<lparr>ia_AffectedPlugins := sort (ia_AffectedPlugins impact),
                               ia_OptionalImpact := sort (ia_OptionalImpact impact),
                               ia_AffectedServices := sort (ia_AffectedServices impact)\<rparr>)))"

section \<open>The invariant of the three maps\<close>

text \<open>
  What \<open>Add\<close> and \<open>Remove\<close> keep between the maps: nodes are stored under their own id, the
  edges of a plugin are its required types, and a plugin occurs in the provider index of a
  type as often as it declares that type; no type is indexed by an empty slice.
\<close>

definition declares :: "Graph \<Rightarrow> string \<Rightarrow> string \<Rightarrow> nat" where
  "declares g rid t =
     (case g_nodes g rid of None \<Rightarrow> 0 | Some n \<Rightarrow> count_list (map dgd_Type (nd_Provides n)) t)"

definition wf_graph :: "Graph \<Rightarrow> bool" where
  "wf_graph g \<longleftrightarrow>
     finite (dom (g_nodes g)) \<and>
     (\<forall>rid n. g_nodes g rid = Some n \<longrightarrow> nd_RuntimeID n = rid) \<and>
     (\<forall>rid. g_edges g rid = map_option (\<lambda>n. requiredTypes (nd_Requires n)) (g_nodes g rid)) \<and>
     (\<forall>rid t. count_list (get_slice (g_byType g) t) rid = declares g rid t) \<and>
     (\<forall>t. g_byType g t \<noteq> Some [])"

lemma wf_graphD:
  assumes "wf_graph g"
  shows "finite (dom (g_nodes g))"
    and "g_nodes g rid = Some n \<Longrightarrow> nd_RuntimeID n = rid"
    and "g_edges g rid = map_option (\<lambda>n. requiredTypes (nd_Requires n)) (g_nodes g rid)"
    and "count_list (get_slice (g_byType g) t) rid = declares g rid t"
    and "g_byType g t \<noteq> Some []"
  using assms by (auto simp: wf_graph_def)

lemma wf_graph_dom_edges: "wf_graph g \<Longrightarrow> dom (g_edges g) = dom (g_nodes g)"
  by (auto simp: wf_graph_def dom_def)

lemma wf_graph_provider: "wf_graph g \<Longrightarrow> p \<in> set (get_slice (g_byType g) t) \<Longrightarrow> p \<in> dom (g_nodes g)"
  by (rule ccontr) (auto dest!: wf_graphD(4) [of _ t p] simp: declares_def dom_def count_list_0_iff)

lemma wf_graph_new: "wf_graph newGraph"
  by (simp add: wf_graph_def newGraph_def declares_def)

subsection \<open>Add\<close>

lemma count_list_append_fold:
  "count_list (get_slice (fold (\<lambda>svc m. append_at m (dgd_Type svc) rid) svcs m) t) r =
   count_list (get_slice m t) r + (if r = rid then count_list (map dgd_Type svcs) t else 0)"
  by (induction svcs arbitrary: m) auto

lemma append_fold_slice:
  "get_slice (fold (\<lambda>svc m. append_at m (dgd_Type svc) rid) svcs m) t =
   get_slice m t @ replicate (count_list (map dgd_Type svcs) t) rid"
  by (induction svcs arbitrary: m) (auto simp: replicate_append_same)

lemma append_fold_nonempty:
  "\<forall>t. m t \<noteq> Some [] \<Longrightarrow> fold (\<lambda>svc m. append_at m (dgd_Type svc) rid) svcs m t \<noteq> Some []"
  by (induction svcs arbitrary: m) (auto simp: append_at_def)

lemma wf_graph_Add:
  assumes wf: "wf_graph g" and fresh: "g_nodes g (nd_RuntimeID node) = None"
  shows "wf_graph (graphAdd g node)"
proof -
  have "declares (graphAdd g node) rid t =
      declares g rid t + (if rid = nd_RuntimeID node then count_list (map dgd_Type (nd_Provides node)) t else 0)"
    for rid t
    using fresh by (simp add: declares_def graphAdd_def)
  with wf show ?thesis
    unfolding wf_graph_def
    by (auto simp: graphAdd_def count_list_append_fold append_fold_nonempty)
qed

subsection \<open>Remove\<close>

lemma count_list_remove_first:
  "count_list (remove_first (\<lambda>p. p = x) xs) y = count_list xs y - (if y = x then 1 else 0)"
  by (induction xs) auto

lemma get_slice_removeProvider:
  "get_slice (removeProvider rid svc m) t =
   (if t = dgd_Type svc then remove_first (\<lambda>p. p = rid) (get_slice m t) else get_slice m t)"
  by (auto simp: removeProvider_def Let_def)

lemma removeProvider_nonempty:
  "\<forall>t. m t \<noteq> Some [] \<Longrightarrow> removeProvider rid svc m t \<noteq> Some []"
  by (auto simp: removeProvider_def Let_def get_slice_def split: option.splits if_splits)

lemma count_list_remove_fold:
  "count_list (get_slice (fold (removeProvider rid) svcs m) t) r =
   count_list (get_slice m t) r - (if r = rid then count_list (map dgd_Type svcs) t else 0)"
  by (induction svcs arbitrary: m) (auto simp: get_slice_removeProvider count_list_remove_first)

lemma remove_fold_nonempty:
  "\<forall>t. m t \<noteq> Some [] \<Longrightarrow> fold (removeProvider rid) svcs m t \<noteq> Some []"
proof (induction svcs arbitrary: m)
  case (Cons s svcs)
  have "\<forall>t. removeProvider rid s m t \<noteq> Some []"
    using removeProvider_nonempty [OF Cons.prems] by blast
  then show ?case using Cons.IH by simp
qed simp

lemma wf_graph_Remove:
  assumes wf: "wf_graph g"
  shows "wf_graph (graphRemove g rid)"
proof (cases "g_nodes g rid")
  case None
  with wf show ?thesis by (simp add: graphRemove_def)
next
  case (Some node)
  have "declares (graphRemove g rid) r t = declares g r t - (if r = rid then declares g rid t else 0)" for r t
    using Some by (simp add: declares_def graphRemove_def)
  moreover have "declares g rid t = count_list (map dgd_Type (nd_Provides node)) t" for t
    using Some by (simp add: declares_def)
  ultimately show ?thesis
    using wf Some unfolding wf_graph_def
    by (auto simp: graphRemove_def count_list_remove_fold remove_fold_nonempty)
qed

text \<open>Cutting the entries that \<open>Add\<close> appended gives the old index back.\<close>

lemma remove_first_eq_append_notin:
  "x \<notin> set xs \<Longrightarrow> remove_first (\<lambda>p. p = x) (xs @ replicate (Suc n) x) = xs @ replicate n x"
  by (induction xs) auto

lemma gomap_slice_eqI:
  assumes "\<And>t. get_slice m t = get_slice m' t" and "\<And>t. m t \<noteq> Some []" and "\<And>t. m' t \<noteq> Some []"
  shows "m = m'"
proof
  fix t
  show "m t = m' t"
    using assms(1) [of t] assms(2) [of t] assms(3) [of t]
    by (cases "m t"; cases "m' t") (auto simp: get_slice_def)
qed

lemma remove_fold_slice:
  assumes "rid \<notin> set xs" and "get_slice m t = xs @ replicate (count_list (map dgd_Type svcs) t) rid"
  shows "get_slice (fold (removeProvider rid) svcs m) t = xs"
  using assms(2)
proof (induction svcs arbitrary: m)
  case (Cons s svcs)
  have "get_slice (removeProvider rid s m) t = xs @ replicate (count_list (map dgd_Type svcs) t) rid"
    using Cons.prems remove_first_eq_append_notin [OF assms(1)]
    by (auto simp: get_slice_removeProvider)
  then show ?case using Cons.IH by simp
qed simp

lemma graphRemove_graphAdd:
  assumes wf: "wf_graph g" and fresh: "g_nodes g (nd_RuntimeID node) = None"
  shows "graphRemove (graphAdd g node) (nd_RuntimeID node) = g"
proof -
  let ?rid = "nd_RuntimeID node" and ?svcs = "nd_Provides node"
  let ?m = "fold (\<lambda>svc m. append_at m (dgd_Type svc) ?rid) ?svcs (g_byType g)"
  have notin: "?rid \<notin> set (get_slice (g_byType g) t)" for t
    using wf_graph_provider [OF wf, of ?rid t] fresh by auto
  have ne: "\<And>t. g_byType g t \<noteq> Some []" by (rule wf_graphD(5) [OF wf])
  have "fold (removeProvider ?rid) ?svcs ?m = g_byType g"
    by (rule gomap_slice_eqI)
      (auto simp: remove_fold_slice [OF notin append_fold_slice] ne
        intro!: remove_fold_nonempty [rule_format] append_fold_nonempty [rule_format])
  moreover have "(g_edges g)(?rid := None) = g_edges g" "(g_nodes g)(?rid := None) = g_nodes g"
    using fresh wf_graphD(3) [OF wf, of ?rid] by auto
  ultimately show ?thesis
    by (simp add: graphRemove_def graphAdd_def)
qed

lemma hasService_iff:
  "wf_graph g \<Longrightarrow> hasService g t \<longleftrightarrow> (\<exists>rid n. g_nodes g rid = Some n \<and> t \<in> dgd_Type ` set (nd_Provides n))"
  (is "_ \<Longrightarrow> _ \<longleftrightarrow> ?R")
proof -
  assume wf: "wf_graph g"
  have "hasService g t \<longleftrightarrow> (\<exists>rid. 0 < count_list (get_slice (g_byType g) t) rid)"
    by (metis count_list_0_iff gr0I hasService_def length_greater_0_conv list.set_intros(1) neq_Nil_conv
        list.size(3) not_less0 count_list.simps(1))
  also have "\<dots> \<longleftrightarrow> (\<exists>rid. 0 < declares g rid t)"
    by (simp add: wf_graphD(4) [OF wf])
  also have "\<dots> \<longleftrightarrow> ?R"
    by (auto simp: declares_def count_list_0_iff neq0_conv [symmetric] simp del: neq0_conv split: option.splits) blast
  finally show ?thesis .
qed

section \<open>The graph as a component\<close>

text \<open>The host adds plugins under fresh runtime ids and removes any id.\<close>

inductive graph_step :: "Graph \<Rightarrow> Graph \<Rightarrow> bool" where
  step_Add: "g_nodes g (nd_RuntimeID node) = None \<Longrightarrow> graph_step g (graphAdd g node)"
| step_Remove: "graph_step g (graphRemove g runtimeID)"

interpretation dg: safe_component "\<lambda>g. g = newGraph" graph_step wf_graph
  by unfold_locales (auto simp: wf_graph_new wf_graph_Add wf_graph_Remove elim: graph_step.cases)

section \<open>Properties\<close>

text \<open>Two plugins: \<open>b\<close> requires the service that \<open>a\<close> provides.\<close>

definition example_graph :: Graph where
  "example_graph =
     graphAdd (graphAdd newGraph
       \<lparr>nd_RuntimeID = ''b'', nd_SelfID = ''b'', nd_Provides = [],
        nd_Requires = [\<lparr>dgr_Type = ''kv'', dgr_MinVersion = '''', dgr_RequiredForStartup = True, dgr_WatchForChanges = False\<rparr>]\<rparr>)
       \<lparr>nd_RuntimeID = ''a'', nd_SelfID = ''a'', nd_Provides = [\<lparr>dgd_Type = ''kv'', dgd_Version = ''1.0.0''\<rparr>], nd_Requires = []\<rparr>"

lemma example_graph:
  "wf_graph example_graph" "iter_order (g_nodes example_graph) [''a'', ''b'']" "iter_order (g_edges example_graph) [''b'', ''a'']"
  "iter_order (g_nodes example_graph) [''b'', ''a'']" "iter_order (g_edges example_graph) [''a'', ''b'']"
proof -
  show "wf_graph example_graph"
    unfolding example_graph_def by (intro wf_graph_Add wf_graph_new) (simp_all add: graphAdd_def newGraph_def)
qed (auto simp: example_graph_def graphAdd_def newGraph_def iter_order_def)

text \<open>C34. Every dependency graph reached from the empty one by adding plugins under new ids and
  removing plugins keeps its three maps consistent (the index by service type counts exactly the
  declarations of the plugins present), and removing a plugin just added restores the graph
  as it was, index included.\<close>
theorem graph_reachable:
  assumes "reach (\<lambda>g. g = newGraph) graph_step g"
  shows "wf_graph g \<and>
    (\<forall>node. g_nodes g (nd_RuntimeID node) = None \<longrightarrow> graphRemove (graphAdd g node) (nd_RuntimeID node) = g)"
  using dg.reach_inv [OF assms] graphRemove_graphAdd by blast

lemma graph_reachable_witness:
  "graphRemove (graphAdd newGraph \<lparr>nd_RuntimeID = ''a'', nd_SelfID = ''a'',
      nd_Provides = [\<lparr>dgd_Type = ''kv'', dgd_Version = ''1.0.0''\<rparr>], nd_Requires = []\<rparr>) ''a'' = newGraph"
  (is "graphRemove (graphAdd newGraph ?n) ''a'' = newGraph")
proof -
  have "reach (\<lambda>g. g = newGraph) graph_step newGraph" by (simp add: reach_init)
  from graph_reachable [OF this] have "g_nodes newGraph (nd_RuntimeID ?n) = None \<longrightarrow>
      graphRemove (graphAdd newGraph ?n) (nd_RuntimeID ?n) = newGraph" by blast
  then show ?thesis by (simp add: newGraph_def)
qed

end
