(* ===== verification/DepgraphStartup.thy ===== *)
theory DepgraphStartup
  imports Depgraph
begin

text \<open>
  Correctness of \<open>StartupOrder\<close> (Kahn's algorithm): it returns on every well-formed graph,
  an order it returns lists every plugin once and every provider before the plugins that
  require it, it fails exactly when a required service has no provider or the requirements
  are cyclic, and its answer does not depend on the iteration order of the Go maps.
\<close>

section \<open>Specification\<close>

text \<open>The providers a plugin waits for, as often as the algorithm counts them.\<close>

definition preds :: "Graph \<Rightarrow> string \<Rightarrow> string list" where
  "preds g r = concat (map (get_slice (g_byType g)) (get_slice (g_edges g) r))"

definition startup_edges :: "Graph \<Rightarrow> (string \<times> string) set" where
  "startup_edges g = {(p, r). r \<in> dom (g_nodes g) \<and> p \<in> set (preds g r)}"

definition unprovided :: "Graph \<Rightarrow> string \<Rightarrow> string \<Rightarrow> bool" where
  "unprovided g r t \<longleftrightarrow> r \<in> dom (g_nodes g) \<and> t \<in> set (get_slice (g_edges g) r) \<and> \<not> hasService g t"

text \<open>Every provider stands before the plugins that wait for it.\<close>

definition topological :: "(string \<Rightarrow> string list) \<Rightarrow> string list \<Rightarrow> bool" where
  "topological pr xs \<longleftrightarrow> (\<forall>i < length xs. set (pr (xs ! i)) \<subseteq> set (take i xs))"

lemma topological_Nil [simp]: "topological pr []"
  by (simp add: topological_def)

lemma topological_snoc: "topological pr (xs @ [x]) \<longleftrightarrow> topological pr xs \<and> set (pr x) \<subseteq> set xs"
  by (auto simp: topological_def nth_append less_Suc_eq)

section \<open>Degrees and adjacency lists\<close>

lemma get_int_upd [simp]: "get_int (m(k \<mapsto> v)) j = (if j = k then v else get_int m j)"
  by (simp add: get_int_def)

lemma fold_addEdge:
  "get_int (fst (fold (addEdge r) ps (d, a))) x = get_int d x + (if x = r then int (length ps) else 0)"
  "count_list (get_slice (snd (fold (addEdge r) ps (d, a))) p) x =
     count_list (get_slice a p) x + (if x = r then count_list ps p else 0)"
  by (induction ps arbitrary: d a) (auto simp: addEdge_def)

lemma dom_fold_addEdge:
  "dom (fst (fold (addEdge r) ps (d, a))) = (if ps = [] then dom d else insert r (dom d))"
  by (induction ps arbitrary: d a) (auto simp: addEdge_def)

lemma addRequired_Inr:
  "addRequired g r ts (d, a) = Inr (d', a') \<Longrightarrow>
     (\<forall>x. get_int d' x = get_int d x +
           (if x = r then int (length (concat (map (get_slice (g_byType g)) ts))) else 0)) \<and>
     (\<forall>p x. count_list (get_slice a' p) x = count_list (get_slice a p) x +
           (if x = r then count_list (concat (map (get_slice (g_byType g)) ts)) p else 0)) \<and>
     dom d \<subseteq> dom d' \<and> dom d' \<subseteq> insert r (dom d) \<and> (\<forall>t\<in>set ts. hasService g t)"
proof (induction ts arbitrary: d a)
  case Nil
  then show ?case by auto
next
  case (Cons t ts)
  let ?ps = "get_slice (g_byType g) t"
  obtain d1 a1 where fe: "fold (addEdge r) ?ps (d, a) = (d1, a1)" by fastforce
  from Cons.prems fe have ps: "?ps \<noteq> []" and rec: "addRequired g r ts (d1, a1) = Inr (d', a')"
    by (auto simp: Let_def split: if_splits)
  note ih = Cons.IH [OF rec]
  have "get_int d1 x = get_int d x + (if x = r then int (length ?ps) else 0)"
    and "count_list (get_slice a1 p) x = count_list (get_slice a p) x + (if x = r then count_list ?ps p else 0)" for p x
    using fold_addEdge [of r ?ps d a] fe by simp_all
  moreover have "dom d1 = insert r (dom d)"
    using dom_fold_addEdge [of r ?ps d a] fe ps by simp
  moreover have "hasService g t" using ps by (simp add: hasService_def)
  ultimately show ?case using ih by (simp add: count_list_append)
qed

lemma addRequired_Inl:
  "addRequired g r ts st = Inl e \<Longrightarrow> \<exists>t\<in>set ts. \<not> hasService g t \<and> e = NoProvider r t"
  by (induction ts arbitrary: st) (auto simp: Let_def hasService_def split: if_splits)

lemma buildAdj_Inl:
  "buildAdj g rs st = Inl e \<Longrightarrow>
   \<exists>r\<in>set rs. \<exists>t\<in>set (get_slice (g_edges g) r). \<not> hasService g t \<and> e = NoProvider r t"
  by (induction rs arbitrary: st) (auto split: sum.splits dest!: addRequired_Inl)

lemma buildAdj_Inr:
  "buildAdj g rs (d, a) = Inr (d', a') \<Longrightarrow> distinct rs \<Longrightarrow>
     (\<forall>x. get_int d' x = get_int d x + (if x \<in> set rs then int (length (preds g x)) else 0)) \<and>
     (\<forall>p x. count_list (get_slice a' p) x = count_list (get_slice a p) x +
           (if x \<in> set rs then count_list (preds g x) p else 0)) \<and>
     dom d \<subseteq> dom d' \<and> dom d' \<subseteq> set rs \<union> dom d \<and>
     (\<forall>r\<in>set rs. \<forall>t\<in>set (get_slice (g_edges g) r). hasService g t)"
proof (induction rs arbitrary: d a)
  case Nil
  then show ?case by auto
next
  case (Cons r rs)
  let ?ts = "get_slice (g_edges g) r"
  obtain d1 a1 where ar: "addRequired g r ?ts (d, a) = Inr (d1, a1)"
    and rec: "buildAdj g rs (d1, a1) = Inr (d', a')"
    using Cons.prems(1) by (auto split: sum.splits)
  have r: "r \<notin> set rs" "distinct rs" using Cons.prems(2) by auto
  show ?case
    using Cons.IH [OF rec r(2)] addRequired_Inr [OF ar] r(1)
    by (simp add: preds_def [symmetric]) blast
qed

lemma get_int_initDegrees [simp]: "get_int (initDegrees ids) x = 0"
proof -
  have "get_int m x = 0 \<Longrightarrow> get_int (fold (\<lambda>r m. m(r \<mapsto> 0)) ids m) x = 0" for m
    by (induction ids arbitrary: m) auto
  then show ?thesis by (simp add: initDegrees_def get_int_def)
qed

lemma dom_initDegrees [simp]: "dom (initDegrees ids) = set ids"
proof -
  have "dom (fold (\<lambda>r m. m(r \<mapsto> (0::int))) ids m) = set ids \<union> dom m" for m
    by (induction ids arbitrary: m) auto
  then show ?thesis by (simp add: initDegrees_def)
qed

section \<open>The loop\<close>

text \<open>
  One round: every occurrence of a dependent lowers its degree, and the dependents whose
  degree reaches zero enter the queue once.
\<close>

lemma reduceStep_pair:
  "reduceStep x (d, q) =
     (d(x \<mapsto> get_int d x - 1), if get_int d x - 1 = 0 then sort (q @ [x]) else q)"
  by (simp add: reduceStep_def)

lemma fold_reduceStep:
  assumes "\<forall>r\<in>set ds. int (count_list ds r) \<le> get_int d r"
    and "set ds \<inter> set q = {}" and "distinct q" and "sorted q"
    and "fold reduceStep ds (d, q) = (d', q')"
  shows "(\<forall>r. get_int d' r = get_int d r - int (count_list ds r)) \<and>
         set q' = set q \<union> {r \<in> set ds. get_int d r = int (count_list ds r)} \<and>
         distinct q' \<and> sorted q'"
  using assms
proof (induction ds arbitrary: d q)
  case Nil
  then show ?case by simp
next
  case (Cons x ds)
  let ?v = "get_int d x - 1"
  let ?d1 = "d(x \<mapsto> ?v)" and ?q1 = "if ?v = 0 then sort (q @ [x]) else q"
  have step: "fold reduceStep ds (?d1, ?q1) = (d', q')"
    using Cons.prems(5) by (simp only: fold_simps reduceStep_pair)
  have x: "1 + int (count_list ds x) \<le> get_int d x"
    using Cons.prems(1) by simp
  have zero: "?v = 0 \<Longrightarrow> x \<notin> set ds"
    using x by (metis add_le_same_cancel1 count_list_0_iff diff_add_cancel le_add_same_cancel2
        of_nat_le_0_iff add.commute cancel_comm_monoid_add_class.diff_cancel diff_eq_diff_eq eq_iff_diff_eq_0)
  have "\<forall>r\<in>set ds. int (count_list ds r) \<le> get_int ?d1 r"
    using Cons.prems(1) x by auto
  moreover have "set ds \<inter> set ?q1 = {}" using Cons.prems(2) zero by auto
  moreover have "distinct ?q1" "sorted ?q1" using Cons.prems(2,3,4) by auto
  ultimately have ih: "(\<forall>r. get_int d' r = get_int ?d1 r - int (count_list ds r)) \<and>
      set q' = set ?q1 \<union> {r \<in> set ds. get_int ?d1 r = int (count_list ds r)} \<and> distinct q' \<and> sorted q'"
    using step by (rule Cons.IH)
  moreover have "set ?q1 \<union> {r \<in> set ds. get_int ?d1 r = int (count_list ds r)} =
      set q \<union> {r \<in> set (x # ds). get_int d r = int (count_list (x # ds) r)}"
  proof (cases "?v = 0")
    case True
    then show ?thesis using zero by (auto simp: count_list_0_iff)
  next
    case False
    then show ?thesis using x by (auto simp: count_list_0_iff)
  qed
  ultimately show ?case by auto
qed

text \<open>What the loop keeps, for the plugins \<open>V\<close> and their providers \<open>pr\<close>.\<close>

definition kahn_adj :: "string set \<Rightarrow> (string \<Rightarrow> string list) \<Rightarrow> adjacency \<Rightarrow> bool" where
  "kahn_adj V pr adj \<longleftrightarrow> finite V \<and> (\<forall>r\<in>V. set (pr r) \<subseteq> V) \<and>
     (\<forall>p r. count_list (get_slice adj p) r = (if r \<in> V then count_list (pr r) p else 0))"

definition kahn_inv ::
    "string set \<Rightarrow> (string \<Rightarrow> string list) \<Rightarrow> degrees \<Rightarrow> string list \<Rightarrow> string list \<Rightarrow> bool" where
  "kahn_inv V pr d q res \<longleftrightarrow>
     sorted q \<and> distinct (res @ q) \<and> set (res @ q) \<subseteq> V \<and> topological pr res \<and>
     (\<forall>r\<in>V. get_int d r = int (length (filter (\<lambda>p. p \<notin> set res) (pr r)))) \<and>
     (\<forall>r\<in>V. r \<in> set (res @ q) \<longleftrightarrow> set (pr r) \<subseteq> set res)"

lemma kahn_adj_set: "kahn_adj V pr adj \<Longrightarrow> set (get_slice adj p) = {r \<in> V. p \<in> set (pr r)}"
proof -
  assume adj: "kahn_adj V pr adj"
  have "r \<in> set (get_slice adj p) \<longleftrightarrow> count_list (get_slice adj p) r \<noteq> 0" for r
    by (simp add: count_list_0_iff)
  also have "\<dots> r \<longleftrightarrow> r \<in> V \<and> p \<in> set (pr r)" for r
    using adj by (auto simp: kahn_adj_def count_list_0_iff simp del: neq0_conv)
  finally show ?thesis by blast
qed

lemma length_filter_notin_insert:
  "p \<notin> A \<Longrightarrow> length (filter (\<lambda>x. x \<notin> A) xs) =
   count_list xs p + length (filter (\<lambda>x. x \<noteq> p \<and> x \<notin> A) xs)"
  by (induction xs) auto

lemma filter_notin_Nil_iff: "length (filter (\<lambda>p. p \<notin> A) xs) = 0 \<longleftrightarrow> set xs \<subseteq> A"
  by (auto simp: filter_empty_conv)

lemma kahn_inv_step:
  assumes adj: "kahn_adj V pr adj" and inv: "kahn_inv V pr d (c # q) res"
    and fold: "fold reduceStep (get_slice adj c) (d, q) = (d', q')"
  shows "kahn_inv V pr d' q' (res @ [c])"
proof -
  let ?ds = "get_slice adj c"
  from inv have so: "sorted q" "distinct q" and di: "distinct (res @ c # q)"
    and V: "set (res @ c # q) \<subseteq> V" and top: "topological pr res"
    and deg: "\<And>r. r \<in> V \<Longrightarrow> get_int d r = int (length (filter (\<lambda>p. p \<notin> set res) (pr r)))"
    and ready: "\<And>r. r \<in> V \<Longrightarrow> r \<in> set (res @ c # q) \<longleftrightarrow> set (pr r) \<subseteq> set res"
    by (auto simp: kahn_inv_def)
  have cnew: "c \<notin> set res" "c \<in> V" using di V by auto
  have ds: "set ?ds = {r \<in> V. c \<in> set (pr r)}" by (rule kahn_adj_set [OF adj])
  have cnt: "r \<in> V \<Longrightarrow> count_list ?ds r = count_list (pr r) c" for r
    using adj by (simp add: kahn_adj_def)
  have split: "r \<in> V \<Longrightarrow> get_int d r =
      int (count_list ?ds r) + int (length (filter (\<lambda>p. p \<notin> set (res @ [c])) (pr r)))" for r
    using deg [of r] length_filter_notin_insert [OF cnew(1), of "pr r"] cnt [of r] by simp
  have "\<forall>r\<in>set ?ds. int (count_list ?ds r) \<le> get_int d r"
    using ds split by auto
  moreover have disj: "set ?ds \<inter> set q = {}"
    using ds ready cnew(1) V by fastforce
  ultimately have res: "\<forall>r. get_int d' r = get_int d r - int (count_list ?ds r)"
      "set q' = set q \<union> {r \<in> set ?ds. get_int d r = int (count_list ?ds r)}" "distinct q'" "sorted q'"
    using fold_reduceStep [OF _ disj so(2) so(1) fold] by auto
  have deg': "\<forall>r\<in>V. get_int d' r = int (length (filter (\<lambda>p. p \<notin> set (res @ [c])) (pr r)))"
    using res(1) split by simp
  have enq: "{r \<in> set ?ds. get_int d r = int (count_list ?ds r)} =
      {r \<in> V. c \<in> set (pr r) \<and> set (pr r) \<subseteq> set (res @ [c])}"
    using ds split filter_notin_Nil_iff [of "set (res @ [c])"] by auto
  have "r \<in> set ((res @ [c]) @ q') \<longleftrightarrow> set (pr r) \<subseteq> set (res @ [c])" if "r \<in> V" for r
  proof -
    have "r \<in> set ((res @ [c]) @ q') \<longleftrightarrow>
        r \<in> set (res @ c # q) \<or> c \<in> set (pr r) \<and> set (pr r) \<subseteq> set (res @ [c])"
      using that unfolding res(2) enq set_append by auto
    also have "\<dots> \<longleftrightarrow> set (pr r) \<subseteq> set (res @ [c])"
      unfolding ready [OF that] by auto
    finally show ?thesis .
  qed
  moreover have "distinct ((res @ [c]) @ q')"
  proof -
    have "r \<notin> set (res @ [c])" if "r \<in> V" "c \<in> set (pr r)" for r
      using ready [OF that(1)] that(2) cnew(1) by auto
    then have "set (res @ [c]) \<inter> set q' = {}"
      using di unfolding res(2) enq by auto
    then show ?thesis using di res(3) by auto
  qed
  moreover have "topological pr (res @ [c])"
    using top ready [OF cnew(2)] by (simp add: topological_snoc)
  moreover have "set ((res @ [c]) @ q') \<subseteq> V" using V res(2) ds by auto
  ultimately show ?thesis using res(4) deg' by (simp add: kahn_inv_def)
qed

lemma kahnLoop_Nil: "kahnLoop adj d [] res = Some res"
  by (subst kahnLoop.simps) simp

lemma kahnLoop_Cons:
  "kahnLoop adj d (c # q) res =
     (case fold reduceStep (get_slice adj c) (d, q) of (d', q') \<Rightarrow> kahnLoop adj d' q' (res @ [c]))"
  by (subst kahnLoop.simps) (simp add: Let_def split: prod.split)

text \<open>Every round moves one plugin into the result, so the loop stops.\<close>

lemma kahn_inv_length: "kahn_adj V pr adj \<Longrightarrow> kahn_inv V pr d q res \<Longrightarrow> length res + length q \<le> card V"
  by (metis card_mono distinct_card kahn_adj_def kahn_inv_def length_append)

lemma kahnLoop_returns:
  assumes "kahn_adj V pr adj" and "kahn_inv V pr d q res"
  shows "\<exists>d' res'. kahnLoop adj d q res = Some res' \<and> kahn_inv V pr d' [] res'"
  using assms(2)
proof (induction "card V - length res" arbitrary: d q res rule: less_induct)
  case less
  show ?case
  proof (cases q)
    case Nil
    then show ?thesis using less.prems by (auto simp: kahnLoop_Nil)
  next
    case (Cons c q1)
    obtain d' q' where f: "fold reduceStep (get_slice adj c) (d, q1) = (d', q')" by fastforce
    have inv': "kahn_inv V pr d' q' (res @ [c])"
      using kahn_inv_step [OF assms(1) _ f] less.prems Cons by simp
    have "length res < card V" using kahn_inv_length [OF assms(1) less.prems] Cons by simp
    then have "card V - length (res @ [c]) < card V - length res" by simp
    from less.hyps [OF this inv'] show ?thesis by (simp add: Cons kahnLoop_Cons f)
  qed
qed

section \<open>StartupOrder\<close>

lemma preds_in_nodes: "wf_graph g \<Longrightarrow> set (preds g r) \<subseteq> dom (g_nodes g)"
  using wf_graph_provider by (fastforce simp: preds_def)

lemma startup_init:
  assumes wf: "wf_graph g" and no: "iter_order (g_nodes g) no" and eo: "iter_order (g_edges g) eo"
    and qo: "iter_order (g_nodes g) qo"
    and b: "buildAdj g eo (initDegrees no, Map.empty) = Inr (d, a)"
  shows "kahn_adj (dom (g_nodes g)) (preds g) a"
    and "kahn_inv (dom (g_nodes g)) (preds g) d (sort (filter (\<lambda>r. get_int d r = 0) qo)) []"
    and "dom d = dom (g_nodes g)"
proof -
  have eo': "set eo = dom (g_nodes g)" "distinct eo"
    using eo wf_graph_dom_edges [OF wf] by (auto simp: iter_order_def)
  note B = buildAdj_Inr [OF b eo'(2)]
  show "kahn_adj (dom (g_nodes g)) (preds g) a"
    using B eo'(1) wf_graphD(1) [OF wf] preds_in_nodes [OF wf] by (simp add: kahn_adj_def)
  have deg: "get_int d r = int (length (preds g r))" if "r \<in> dom (g_nodes g)" for r
    using B eo'(1) that by simp
  have "distinct qo" "set qo = dom (g_nodes g)" using qo by auto
  then show "kahn_inv (dom (g_nodes g)) (preds g) d (sort (filter (\<lambda>r. get_int d r = 0) qo)) []"
    using deg by (auto simp: kahn_inv_def)
  show "dom d = dom (g_nodes g)"
    using B eo'(1) iter_order_dom [OF no] by auto
qed

lemma kahn_inv_topological:
  assumes "kahn_inv V pr d [] res" and "r \<in> set res" and "p \<in> set (pr r)"
  shows "\<exists>xs ys zs. res = xs @ p # ys @ r # zs"
proof -
  from assms(2) obtain i where i: "i < length res" "res ! i = r" by (auto simp: in_set_conv_nth)
  have "p \<in> set (take i res)"
    using assms(1,3) i by (auto simp: kahn_inv_def topological_def)
  then obtain xs ys where "take i res = xs @ p # ys" by (auto dest: split_list)
  then have "res = (xs @ p # ys) @ r # drop (Suc i) res"
    using id_take_nth_drop [OF i(1)] i(2) by simp
  then show ?thesis by (metis append_Cons append_assoc)
qed

text \<open>Plugins left out of the result wait for each other.\<close>

lemma kahn_inv_stuck:
  assumes inv: "kahn_inv V pr d [] res" and fin: "finite V" and cl: "\<forall>r\<in>V. set (pr r) \<subseteq> V"
    and left: "set res \<noteq> V"
  shows "\<not> acyclic {(p, r). r \<in> V \<and> p \<in> set (pr r)}"
proof
  let ?R = "{(p, r). r \<in> V \<and> p \<in> set (pr r)}" and ?U = "V - set res"
  assume "acyclic ?R"
  moreover have "finite ?R" by (rule finite_subset [of _ "V \<times> V"]) (use cl fin in auto)
  ultimately have wf: "wf ?R" by (simp add: finite_acyclic_wf)
  obtain u where u: "u \<in> ?U" using inv left by (auto simp: kahn_inv_def)
  obtain m where m: "m \<in> ?U" and min: "\<And>p. (p, m) \<in> ?R \<Longrightarrow> p \<notin> ?U"
    by (rule wfE_min [OF wf u]) blast
  have "set (pr m) \<subseteq> set res"
  proof
    fix p
    assume p: "p \<in> set (pr m)"
    then have "(p, m) \<in> ?R" using m by simp
    then have "p \<notin> ?U" by (rule min)
    then show "p \<in> set res" using p m cl by blast
  qed
  then show False using inv m by (auto simp: kahn_inv_def)
qed

lemma topological_acyclic:
  assumes top: "topological pr res" and dist: "distinct res" and V: "set res = V"
  shows "acyclic {(p, r). r \<in> V \<and> p \<in> set (pr r)}"
proof -
  let ?ix = "\<lambda>r. LEAST i. i < length res \<and> res ! i = r"
  have ix: "?ix (res ! i) = i" if "i < length res" for i
    using that dist by (intro Least_equality) (auto simp: nth_eq_iff_index_eq)
  have "{(p, r). r \<in> V \<and> p \<in> set (pr r)} \<subseteq> inv_image less_than ?ix"
  proof clarsimp
    fix p r
    assume "r \<in> V" "p \<in> set (pr r)"
    then obtain i where i: "i < length res" "r = res ! i"
      using V by (auto simp: in_set_conv_nth)
    then have "p \<in> set (take i res)" using top \<open>p \<in> set (pr r)\<close> by (auto simp: topological_def)
    then obtain j where "j < i" "p = res ! j" by (auto simp: in_set_conv_nth)
    then show "?ix p < ?ix r" using i ix [of i] ix [of j] by simp
  qed
  moreover have "acyclic (inv_image less_than ?ix)" by (simp add: wf_acyclic)
  ultimately show ?thesis using acyclic_subset by blast
qed

text \<open>The three outcomes of \<open>StartupOrder\<close>; in particular it always returns.\<close>

lemma StartupOrder_cases:
  assumes wf: "wf_graph g" and no: "iter_order (g_nodes g) no" and eo: "iter_order (g_edges g) eo"
    and qo: "iter_order (g_nodes g) qo"
  shows "(\<exists>r t. unprovided g r t \<and> StartupOrder g no eo qo = Some (Inl (NoProvider r t))) \<or>
         (\<nexists>r t. unprovided g r t) \<and> \<not> acyclic (startup_edges g) \<and>
           (\<exists>n < card (dom (g_nodes g)).
             StartupOrder g no eo qo = Some (Inl (CycleDetected n (card (dom (g_nodes g)))))) \<or>
         (\<nexists>r t. unprovided g r t) \<and> acyclic (startup_edges g) \<and>
           (\<exists>xs d. StartupOrder g no eo qo = Some (Inr xs) \<and> set xs = dom (g_nodes g) \<and>
             kahn_inv (dom (g_nodes g)) (preds g) d [] xs)"
proof (cases "buildAdj g eo (initDegrees no, Map.empty)")
  case (Inl e)
  then obtain r t where "r \<in> set eo" "t \<in> set (get_slice (g_edges g) r)" "\<not> hasService g t"
    "e = NoProvider r t" by (auto dest: buildAdj_Inl)
  then have "unprovided g r t \<and> StartupOrder g no eo qo = Some (Inl (NoProvider r t))"
    using Inl eo wf_graph_dom_edges [OF wf] by (auto simp: StartupOrder_def unprovided_def iter_order_def)
  then show ?thesis by blast
next
  case (Inr da)
  obtain d a where da: "da = (d, a)" by fastforce
  let ?V = "dom (g_nodes g)" and ?q = "sort (filter (\<lambda>r. get_int d r = 0) qo)"
  note init = startup_init [OF wf no eo qo Inr [unfolded da]]
  obtain d' xs where run: "kahnLoop a d ?q [] = Some xs" and inv: "kahn_inv ?V (preds g) d' [] xs"
    using kahnLoop_returns [OF init(1,2)] by blast
  have edges: "startup_edges g = {(p, r). r \<in> ?V \<and> p \<in> set (preds g r)}"
    by (simp add: startup_edges_def)
  have none: "\<nexists>r t. unprovided g r t"
    using buildAdj_Inr [OF Inr [unfolded da] iter_order_distinct [OF eo]] eo wf_graph_dom_edges [OF wf]
    by (auto simp: unprovided_def iter_order_def)
  have sub: "set xs \<subseteq> ?V" "distinct xs" "topological (preds g) xs"
    using inv by (auto simp: kahn_inv_def)
  have fin: "finite ?V" by (rule wf_graphD(1) [OF wf])
  have len: "length no = card ?V" by (rule iter_order_card [OF no])
  show ?thesis
  proof (cases "set xs = ?V")
    case True
    then have "length xs = length no" using sub(2) len distinct_card by metis
    then have "StartupOrder g no eo qo = Some (Inr xs)"
      using Inr da run by (simp add: StartupOrder_def)
    moreover have "acyclic (startup_edges g)"
      unfolding edges using sub True by (intro topological_acyclic)
    ultimately show ?thesis using True none inv by blast
  next
    case False
    then have "card (set xs) < card ?V" using sub(1) fin by (intro psubset_card_mono) auto
    then have less: "length xs < card ?V" using sub(2) by (simp add: distinct_card)
    then have "StartupOrder g no eo qo = Some (Inl (CycleDetected (length xs) (card ?V)))"
      using Inr da run len by (simp add: StartupOrder_def)
    moreover have "\<not> acyclic (startup_edges g)"
      unfolding edges using kahn_inv_stuck [OF inv fin _ False] preds_in_nodes [OF wf] by blast
    ultimately show ?thesis using none less by blast
  qed
qed

section \<open>Independence of the iteration orders\<close>

lemma kahn_inv_queue:
  "kahn_inv V pr d q res \<Longrightarrow> q = sorted_list_of_set ({r \<in> V. set (pr r) \<subseteq> set res} - set res)"
proof -
  assume inv: "kahn_inv V pr d q res"
  then have "set q = {r \<in> V. set (pr r) \<subseteq> set res} - set res"
    by (auto simp: kahn_inv_def)
  then show ?thesis using inv sorted_list_of_set.idem_if_sorted_distinct [of q]
    by (simp add: kahn_inv_def)
qed

lemma kahnLoop_unique:
  assumes "kahn_adj V pr adj" and "kahn_adj V pr adj'"
    and "kahn_inv V pr d q res" and "kahn_inv V pr d' q' res"
  shows "kahnLoop adj d q res = kahnLoop adj' d' q' res"
  using assms(3,4)
proof (induction "card V - length res" arbitrary: d q d' q' res rule: less_induct)
  case less
  have q: "q' = q" using kahn_inv_queue less.prems by metis
  show ?case
  proof (cases q)
    case Nil
    then show ?thesis by (simp add: q kahnLoop_Nil)
  next
    case (Cons c q1)
    obtain e p where f: "fold reduceStep (get_slice adj c) (d, q1) = (e, p)" by fastforce
    obtain e' p' where f': "fold reduceStep (get_slice adj' c) (d', q1) = (e', p')" by fastforce
    have "kahn_inv V pr e p (res @ [c])"
      using kahn_inv_step [OF assms(1) _ f] less.prems(1) Cons by simp
    moreover have "kahn_inv V pr e' p' (res @ [c])"
      using kahn_inv_step [OF assms(2) _ f'] less.prems(2) Cons q by simp
    moreover have "card V - length (res @ [c]) < card V - length res"
      using kahn_inv_length [OF assms(1) less.prems(1)] Cons by simp
    ultimately have "kahnLoop adj e p (res @ [c]) = kahnLoop adj' e' p' (res @ [c])"
      by (intro less.hyps)
    then show ?thesis by (simp add: q Cons kahnLoop_Cons f f')
  qed
qed

text \<open>C31. The order \<open>StartupOrder\<close> returns is a function of the graph alone: whatever orders the
  runtime chooses for the three range loops over Go maps, a second run gives the same list.\<close>
theorem StartupOrder_unique:
  assumes wf: "wf_graph g"
    and "iter_order (g_nodes g) no" "iter_order (g_edges g) eo" "iter_order (g_nodes g) qo"
    and "iter_order (g_nodes g) no'" "iter_order (g_edges g) eo'" "iter_order (g_nodes g) qo'"
    and ok: "StartupOrder g no eo qo = Some (Inr xs)"
  shows "StartupOrder g no' eo' qo' = Some (Inr xs)"
proof -
  have none: "\<nexists>r t. unprovided g r t"
    using StartupOrder_cases [OF wf assms(2-4)] ok by auto
  have b: "\<exists>d a. buildAdj g e (initDegrees n, Map.empty) = Inr (d, a)"
    if "iter_order (g_edges g) e" for e n
  proof (cases "buildAdj g e (initDegrees n, Map.empty)")
    case (Inl err)
    then show ?thesis using none that wf_graph_dom_edges [OF wf]
      by (auto dest!: buildAdj_Inl simp: unprovided_def iter_order_def)
  next
    case (Inr da)
    then show ?thesis by (cases da) simp
  qed
  obtain d a where da: "buildAdj g eo (initDegrees no, Map.empty) = Inr (d, a)"
    using b [OF assms(3)] by blast
  obtain d' a' where da': "buildAdj g eo' (initDegrees no', Map.empty) = Inr (d', a')"
    using b [OF assms(6)] by blast
  note i = startup_init [OF wf assms(2-4) da] and i' = startup_init [OF wf assms(5-7) da']
  have len: "length no' = length no" using iter_order_card assms(2,5) by metis
  have "StartupOrder g no' eo' qo' = StartupOrder g no eo qo"
    unfolding StartupOrder_def da da' kahnLoop_unique [OF i(1) i'(1) i(2) i'(2)] len
    by (simp add: kahnLoop_unique [OF i(1) i'(1) i(2) i'(2)])
  then show ?thesis using ok by simp
qed

section \<open>StartupOrder\<close>

text \<open>C1. On a well-formed dependency graph \<open>StartupOrder\<close> always returns, whatever the iteration
  orders of the Go maps. An order it returns lists every plugin once, with every provider of a
  required service before the plugins that require it; the error \<open>NoProvider\<close> names a plugin
  and a service it requires that nobody provides; the cycle error is returned only for cyclic
  requirements, with the number of plugins that could be ordered.\<close>
theorem StartupOrder_correct:
  assumes "wf_graph g" and "iter_order (g_nodes g) no" and "iter_order (g_edges g) eo"
    and "iter_order (g_nodes g) qo"
  shows "\<exists>res. StartupOrder g no eo qo = Some res \<and>
    (case res of
       Inr xs \<Rightarrow> distinct xs \<and> set xs = dom (g_nodes g) \<and> topological (preds g) xs \<and>
                 (\<nexists>r t. unprovided g r t) \<and> acyclic (startup_edges g)
     | Inl (NoProvider r t) \<Rightarrow> unprovided g r t
     | Inl (CycleDetected n m) \<Rightarrow> (\<nexists>r t. unprovided g r t) \<and> \<not> acyclic (startup_edges g) \<and>
                 n < m \<and> m = card (dom (g_nodes g)))"
  using StartupOrder_cases [OF assms] by (auto simp: kahn_inv_def)

lemma example_order:
  "StartupOrder example_graph [''a'', ''b''] [''b'', ''a''] [''b'', ''a''] = Some (Inr [''a'', ''b''])"
  by (simp add: StartupOrder_def example_graph_def graphAdd_def newGraph_def requiredTypes_def initDegrees_def
      addEdge_def append_at_def get_slice_def get_int_def kahnLoop.simps reduceStep_def)

lemma StartupOrder_correct_witness:
  "topological (preds example_graph) [''a'', ''b''] \<and> acyclic (startup_edges example_graph)"
  using StartupOrder_correct [OF example_graph(1,2,3,4)] example_order by simp

lemma StartupOrder_unique_witness:
  "StartupOrder example_graph [''b'', ''a''] [''a'', ''b''] [''a'', ''b''] = Some (Inr [''a'', ''b''])"
  by (rule StartupOrder_unique [OF example_graph(1,2,3,4) example_graph(4,5,2) example_order])

end
