(* ===== verification/DepgraphImpact.thy ===== *)
theory DepgraphImpact
  imports Depgraph
begin

text \<open>
  \<open>GetImpact\<close> against what its result type promises. The recursive walk returns whatever the
  graph (requirement cycles included), and what it computes is described exactly (\<open>goesDown\<close>,
  \<open>hardDep\<close>, \<open>softDep\<close> follow the walk). The promise is stated apart from it, over the
  declarations of the plugins alone: \<open>lost\<close>, the plugins with a required service that will be
  unavailable, and \<open>softened\<close>, those with an optional dependency or an alternative provider.
  The two differ: the walk counts a provider that itself goes down as an alternative. What is
  listed as affected is always really lost; the lists are complete when no service loses two
  providers at once, and \<open>GetImpact_omits_lost\<close> shows a lost plugin that is left out otherwise.
\<close>

section \<open>What the walk computes\<close>

text \<open>Plugin \<open>o'\<close> uses a service of \<open>v\<close> that no other plugin provides and cannot start without it.\<close>

definition hardDep :: "Graph \<Rightarrow> string \<Rightarrow> string \<Rightarrow> bool" where
  "hardDep g v o' \<longleftrightarrow> (\<exists>n svc m dep.
     g_nodes g v = Some n \<and> svc \<in> set (nd_Provides n) \<and> g_nodes g o' = Some m \<and> o' \<noteq> v \<and>
     dep \<in> set (nd_Requires m) \<and> dgr_Type dep = dgd_Type svc \<and>
     getOtherProviders g (dgd_Type svc) v = [] \<and> dgr_RequiredForStartup dep)"

text \<open>Plugin \<open>o'\<close> uses a service of \<open>v\<close> it can do without, or find elsewhere.\<close>

definition softDep :: "Graph \<Rightarrow> string \<Rightarrow> string \<Rightarrow> bool" where
  "softDep g v o' \<longleftrightarrow> (\<exists>n svc m dep.
     g_nodes g v = Some n \<and> svc \<in> set (nd_Provides n) \<and> g_nodes g o' = Some m \<and> o' \<noteq> v \<and>
     dep \<in> set (nd_Requires m) \<and> dgr_Type dep = dgd_Type svc \<and>
     (getOtherProviders g (dgd_Type svc) v \<noteq> [] \<or> \<not> dgr_RequiredForStartup dep))"

text \<open>The plugins that go down with \<open>root\<close>, \<open>root\<close> included.\<close>

inductive goesDown :: "Graph \<Rightarrow> string \<Rightarrow> string \<Rightarrow> bool" for g root where
  down_root: "goesDown g root root"
| down_dep: "goesDown g root v \<Longrightarrow> hardDep g v o' \<Longrightarrow> goesDown g root o'"

definition valid_orders :: "Graph \<Rightarrow> node_orders \<Rightarrow> bool" where
  "valid_orders g ord \<longleftrightarrow> (\<forall>v i. iter_order (g_nodes g) (ord v i))"

section \<open>The walk\<close>

definition walk_le :: "walk \<Rightarrow> walk \<Rightarrow> bool" where
  "walk_le s t \<longleftrightarrow> snd s \<subseteq> snd t \<and>
     set (ia_AffectedPlugins (fst s)) \<subseteq> set (ia_AffectedPlugins (fst t)) \<and>
     set (ia_OptionalImpact (fst s)) \<subseteq> set (ia_OptionalImpact (fst t)) \<and>
     ia_AffectedServices (fst t) = ia_AffectedServices (fst s) \<and>
     ia_TargetPlugin (fst t) = ia_TargetPlugin (fst s)"

text \<open>\<open>open\<close> are the plugins whose bodies are still running.\<close>

definition walk_inv :: "Graph \<Rightarrow> string \<Rightarrow> string set \<Rightarrow> walk \<Rightarrow> bool" where
  "walk_inv g root open s \<longleftrightarrow>
     snd s \<subseteq> Collect (goesDown g root) \<and>
     set (ia_AffectedPlugins (fst s)) \<subseteq> {o'. \<exists>v. goesDown g root v \<and> hardDep g v o'} \<and>
     set (ia_OptionalImpact (fst s)) \<subseteq> {o'. \<exists>v. goesDown g root v \<and> softDep g v o'} \<and>
     distinct (ia_AffectedPlugins (fst s)) \<and> distinct (ia_OptionalImpact (fst s)) \<and>
     (\<forall>v \<in> snd s - open. \<forall>o'.
        (hardDep g v o' \<longrightarrow> o' \<in> set (ia_AffectedPlugins (fst s)) \<and> o' \<in> snd s) \<and>
        (softDep g v o' \<longrightarrow> o' \<in> set (ia_OptionalImpact (fst s))))"

lemma walk_le_refl: "walk_le s s"
  by (simp add: walk_le_def)

lemma walk_le_trans: "walk_le s t \<Longrightarrow> walk_le t u \<Longrightarrow> walk_le s u"
  by (auto simp: walk_le_def)

lemma set_appendUnique [simp]: "set (appendUnique xs x) = insert x (set xs)"
  by (auto simp: appendUnique_def)

lemma distinct_appendUnique: "distinct xs \<Longrightarrow> distinct (appendUnique xs x)"
  by (simp add: appendUnique_def)

lemma addOptional_effect:
  "walk_le s (addOptional x s)" "x \<in> set (ia_OptionalImpact (fst (addOptional x s)))"
  "snd (addOptional x s) = snd s"
  by (cases s; simp add: addOptional_def walk_le_def subset_insertI)+

lemma addAffected_effect:
  "walk_le s (addAffected x s)" "x \<in> set (ia_AffectedPlugins (fst (addAffected x s)))"
  "snd (addAffected x s) = snd s"
  by (cases s; simp add: addAffected_def walk_le_def subset_insertI)+

lemma walk_inv_addOptional:
  "walk_inv g root op s \<Longrightarrow> goesDown g root v \<Longrightarrow> softDep g v x \<Longrightarrow> walk_inv g root op (addOptional x s)"
  by (cases s) (auto simp: walk_inv_def addOptional_def distinct_appendUnique)

lemma walk_inv_addAffected:
  "walk_inv g root op s \<Longrightarrow> goesDown g root v \<Longrightarrow> hardDep g v x \<Longrightarrow> walk_inv g root op (addAffected x s)"
  by (cases s) (auto simp: walk_inv_def addAffected_def distinct_appendUnique)

text \<open>What one dependency of one plugin on one service of \<open>v\<close> leaves behind.\<close>

definition dep_done :: "Graph \<Rightarrow> string \<Rightarrow> string \<Rightarrow> string \<Rightarrow> DgDependency \<Rightarrow> walk \<Rightarrow> bool" where
  "dep_done g v t o' dep s \<longleftrightarrow> (dgr_Type dep = t \<longrightarrow>
     (if getOtherProviders g t v \<noteq> [] \<or> \<not> dgr_RequiredForStartup dep
      then o' \<in> set (ia_OptionalImpact (fst s))
      else o' \<in> set (ia_AffectedPlugins (fst s)) \<and> o' \<in> snd s))"

definition other_done :: "Graph \<Rightarrow> string \<Rightarrow> string \<Rightarrow> string \<Rightarrow> walk \<Rightarrow> bool" where
  "other_done g v t o' s \<longleftrightarrow> (o' \<noteq> v \<longrightarrow>
     (\<forall>m. g_nodes g o' = Some m \<longrightarrow> (\<forall>dep\<in>set (nd_Requires m). dep_done g v t o' dep s)))"

lemma dep_done_mono: "dep_done g v t o' dep s \<Longrightarrow> walk_le s u \<Longrightarrow> dep_done g v t o' dep u"
  by (auto simp: dep_done_def walk_le_def split: if_splits)

lemma other_done_mono: "other_done g v t o' s \<Longrightarrow> walk_le s u \<Longrightarrow> other_done g v t o' u"
  by (auto simp: other_done_def intro: dep_done_mono)

text \<open>When all services of \<open>v\<close> are done, \<open>v\<close> is no longer open.\<close>

lemma walk_inv_close:
  assumes "walk_inv g root (insert v op) s" and "g_nodes g v = Some n"
    and "\<forall>svc\<in>set (nd_Provides n). \<forall>o'\<in>dom (g_nodes g). other_done g v (dgd_Type svc) o' s"
  shows "walk_inv g root op s"
proof -
  have "(hardDep g v o' \<longrightarrow> o' \<in> set (ia_AffectedPlugins (fst s)) \<and> o' \<in> snd s) \<and>
        (softDep g v o' \<longrightarrow> o' \<in> set (ia_OptionalImpact (fst s)))" for o'
  proof (intro conjI impI)
    assume "hardDep g v o'"
    then obtain svc m dep where h: "svc \<in> set (nd_Provides n)" "g_nodes g o' = Some m" "o' \<noteq> v"
      "dep \<in> set (nd_Requires m)" "dgr_Type dep = dgd_Type svc"
      "getOtherProviders g (dgd_Type svc) v = []" "dgr_RequiredForStartup dep"
      using assms(2) by (auto simp: hardDep_def)
    then have "dep_done g v (dgd_Type svc) o' dep s"
      using assms(3) by (auto simp: other_done_def dom_def)
    with h show "o' \<in> set (ia_AffectedPlugins (fst s))" "o' \<in> snd s"
      by (auto simp: dep_done_def)
  next
    assume "softDep g v o'"
    then obtain svc m dep where h: "svc \<in> set (nd_Provides n)" "g_nodes g o' = Some m" "o' \<noteq> v"
      "dep \<in> set (nd_Requires m)" "dgr_Type dep = dgd_Type svc"
      "getOtherProviders g (dgd_Type svc) v \<noteq> [] \<or> \<not> dgr_RequiredForStartup dep"
      using assms(2) by (auto simp: softDep_def)
    then have "dep_done g v (dgd_Type svc) o' dep s"
      using assms(3) by (auto simp: other_done_def dom_def)
    with h show "o' \<in> set (ia_OptionalImpact (fst s))"
      by (auto simp: dep_done_def)
  qed
  with assms(1) show ?thesis unfolding walk_inv_def by blast
qed

lemma walk_inv_open: "walk_inv g root op s \<Longrightarrow> walk_inv g root (insert v op) s"
  unfolding walk_inv_def by blast

lemma walk_inv_visit:
  "walk_inv g root op s \<Longrightarrow> goesDown g root v \<Longrightarrow>
   walk_inv g root (insert v op) (fst s, insert v (snd s))"
  by (simp add: walk_inv_def) blast

text \<open>
  The three nested loops of one body, over an abstract recursive call \<open>rec\<close>. The state of a
  running body of \<open>v\<close>: the invariant with \<open>v\<close> open, and everything visited so far.
\<close>

definition running :: "Graph \<Rightarrow> string \<Rightarrow> string \<Rightarrow> string set \<Rightarrow> string set \<Rightarrow> walk \<Rightarrow> bool" where
  "running g root v op vis u \<longleftrightarrow> walk_inv g root (insert v op) u \<and> vis \<subseteq> snd u"

definition rec_ok ::
    "Graph \<Rightarrow> string \<Rightarrow> string \<Rightarrow> string set \<Rightarrow> string set \<Rightarrow> (string \<Rightarrow> walk \<Rightarrow> walk option) \<Rightarrow> bool" where
  "rec_ok g root v op vis rec \<longleftrightarrow>
     (\<forall>x u. running g root v op vis u \<longrightarrow> goesDown g root x \<longrightarrow>
        (\<exists>w. rec x u = Some w \<and> running g root v op vis w \<and> walk_le u w \<and> x \<in> snd w))"

abbreviation dep_body where
  "dep_body g v rec t x \<equiv> \<lambda>dep u.
     if dgr_Type dep \<noteq> t then Some u
     else if 0 < length (getOtherProviders g t v) then Some (addOptional x u)
     else if dgr_RequiredForStartup dep then rec x (addAffected x u)
     else Some (addOptional x u)"

abbreviation other_body where
  "other_body g v rec t \<equiv> \<lambda>x u.
     if x = v then Some u
     else case g_nodes g x of None \<Rightarrow> Some u | Some m \<Rightarrow> foldM (dep_body g v rec t x) (nd_Requires m) u"

abbreviation svc_body where
  "svc_body g v rec (ord :: node_orders) \<equiv> \<lambda>(i, svc). foldM (other_body g v rec (dgd_Type svc)) (ord v i)"

lemma findDependents_unfold:
  "v \<notin> snd s \<Longrightarrow> g_nodes g v = Some n \<Longrightarrow> findDependents (Suc fuel) g ord v s =
     foldM (svc_body g v (findDependents fuel g ord) ord) (enumerate 0 (nd_Provides n))
       (fst s, insert v (snd s))"
  by (simp add: Let_def)

lemma dep_round:
  assumes rec: "rec_ok g root v op vis rec" and down: "goesDown g root v"
    and v: "g_nodes g v = Some n" "svc \<in> set (nd_Provides n)"
    and x: "x \<noteq> v" "g_nodes g x = Some m" and dep: "dep \<in> set (nd_Requires m)"
    and run: "running g root v op vis u"
  shows "\<exists>w. dep_body g v rec (dgd_Type svc) x dep u = Some w \<and> running g root v op vis w \<and>
             walk_le u w \<and> dep_done g v (dgd_Type svc) x dep w"
proof -
  have inv: "walk_inv g root (insert v op) u" and vis: "vis \<subseteq> snd u"
    using run by (auto simp: running_def)
  consider (skip) "dgr_Type dep \<noteq> dgd_Type svc"
    | (soft) "dgr_Type dep = dgd_Type svc"
        "getOtherProviders g (dgd_Type svc) v \<noteq> [] \<or> \<not> dgr_RequiredForStartup dep"
    | (hard) "dgr_Type dep = dgd_Type svc"
        "getOtherProviders g (dgd_Type svc) v = []" "dgr_RequiredForStartup dep"
    by blast
  then show ?thesis
  proof cases
    case skip
    then show ?thesis using run by (intro exI [of _ u]) (simp add: walk_le_refl dep_done_def)
  next
    case soft
    then have "softDep g v x" using v x dep by (auto simp: softDep_def)
    then have "running g root v op vis (addOptional x u)"
      using walk_inv_addOptional [OF inv down] vis by (simp add: running_def addOptional_effect)
    then show ?thesis
      using soft addOptional_effect(1) [of u x] addOptional_effect(2) [of x u]
      by (intro exI [of _ "addOptional x u"]) (auto simp: dep_done_def)
  next
    case hard
    then have h: "hardDep g v x" using v x dep by (auto simp: hardDep_def)
    have "running g root v op vis (addAffected x u)"
      using walk_inv_addAffected [OF inv down h] vis by (simp add: running_def addAffected_effect)
    then obtain w where w: "rec x (addAffected x u) = Some w" "running g root v op vis w"
        "walk_le (addAffected x u) w" "x \<in> snd w"
      using rec down_dep [OF down h] unfolding rec_ok_def by blast
    have "x \<in> set (ia_AffectedPlugins (fst w))"
      using addAffected_effect(2) [of x u] w(3) by (auto simp: walk_le_def)
    then show ?thesis
      using hard w walk_le_trans [OF addAffected_effect(1) w(3)]
      by (intro exI [of _ w]) (simp add: dep_done_def)
  qed
qed

lemma other_round:
  assumes rec: "rec_ok g root v op vis rec" and down: "goesDown g root v"
    and v: "g_nodes g v = Some n" "svc \<in> set (nd_Provides n)"
    and run: "running g root v op vis u"
  shows "\<exists>w. other_body g v rec (dgd_Type svc) x u = Some w \<and> running g root v op vis w \<and>
             walk_le u w \<and> other_done g v (dgd_Type svc) x w"
proof (cases "x = v \<or> g_nodes g x = None")
  case True
  then show ?thesis using run by (intro exI [of _ u]) (auto simp: walk_le_refl other_done_def)
next
  case False
  then obtain m where m: "x \<noteq> v" "g_nodes g x = Some m" by auto
  have "\<exists>w. foldM (dep_body g v rec (dgd_Type svc) x) (nd_Requires m) u = Some w \<and>
      running g root v op vis w \<and> walk_le u w \<and> (\<forall>d\<in>set (nd_Requires m). dep_done g v (dgd_Type svc) x d w)"
    by (rule foldM_rule [where I = "running g root v op vis",
          OF run walk_le_refl walk_le_trans dep_done_mono dep_round [OF rec down v m]])
  then show ?thesis using m by (auto simp: other_done_def)
qed

definition svc_done :: "Graph \<Rightarrow> string \<Rightarrow> nat \<times> DgDeclaration \<Rightarrow> walk \<Rightarrow> bool" where
  "svc_done g v is w \<longleftrightarrow> (\<forall>x\<in>dom (g_nodes g). other_done g v (dgd_Type (snd is)) x w)"

lemma svc_round:
  assumes ord: "valid_orders g ord" and rec: "rec_ok g root v op vis rec" and down: "goesDown g root v"
    and v: "g_nodes g v = Some n" and "is": "is \<in> set (enumerate 0 (nd_Provides n))"
    and run: "running g root v op vis u"
  shows "\<exists>w. svc_body g v rec ord is u = Some w \<and> running g root v op vis w \<and> walk_le u w \<and> svc_done g v is w"
proof -
  obtain i sv where p: "is = (i, sv)" by fastforce
  then have sv: "sv \<in> set (nd_Provides n)" using "is" by (auto simp: in_set_enumerate_eq)
  have "set (ord v i) = dom (g_nodes g)" using ord by (auto simp: valid_orders_def iter_order_def)
  moreover have "\<exists>w. foldM (other_body g v rec (dgd_Type sv)) (ord v i) u = Some w \<and>
      running g root v op vis w \<and> walk_le u w \<and> (\<forall>x\<in>set (ord v i). other_done g v (dgd_Type sv) x w)"
    by (rule foldM_rule [where I = "running g root v op vis",
          OF run walk_le_refl walk_le_trans other_done_mono other_round [OF rec down v sv]])
  ultimately show ?thesis by (simp add: p svc_done_def)
qed

lemma body_correct:
  assumes ord: "valid_orders g ord" and down: "goesDown g root v" and v: "g_nodes g v = Some n"
    and inv: "walk_inv g root op s"
    and rec: "rec_ok g root v op (insert v (snd s)) rec"
  shows "\<exists>w. foldM (svc_body g v rec ord) (enumerate 0 (nd_Provides n)) (fst s, insert v (snd s)) = Some w \<and>
             walk_inv g root op w \<and> walk_le s w \<and> v \<in> snd w"
proof -
  let ?s0 = "(fst s, insert v (snd s))" and ?R = "running g root v op (insert v (snd s))"
  have "?R ?s0" using walk_inv_visit [OF inv down] by (simp add: running_def)
  then have "\<exists>w. foldM (svc_body g v rec ord) (enumerate 0 (nd_Provides n)) ?s0 = Some w \<and>
      ?R w \<and> walk_le ?s0 w \<and> (\<forall>is\<in>set (enumerate 0 (nd_Provides n)). svc_done g v is w)"
    by (rule foldM_rule [where I = ?R, OF _ walk_le_refl walk_le_trans _ svc_round [OF ord rec down v]])
      (auto simp: svc_done_def intro: other_done_mono)
  then obtain w where w: "foldM (svc_body g v rec ord) (enumerate 0 (nd_Provides n)) ?s0 = Some w"
      "?R w" "walk_le ?s0 w" "\<forall>is\<in>set (enumerate 0 (nd_Provides n)). svc_done g v is w"
    by blast
  have "set (map snd (enumerate 0 (nd_Provides n))) = set (nd_Provides n)"
    by (simp only: map_snd_enumerate)
  then have ex: "\<exists>i. (i, sv) \<in> set (enumerate 0 (nd_Provides n))" if "sv \<in> set (nd_Provides n)" for sv
    using that by (metis (no_types, lifting) imageE list.set_map surjective_pairing)
  have "\<forall>sv\<in>set (nd_Provides n). \<forall>x\<in>dom (g_nodes g). other_done g v (dgd_Type sv) x w"
  proof (intro ballI)
    fix sv x
    assume sv: "sv \<in> set (nd_Provides n)" and x: "x \<in> dom (g_nodes g)"
    obtain i where "(i, sv) \<in> set (enumerate 0 (nd_Provides n))" using ex [OF sv] ..
    then have "svc_done g v (i, sv) w" by (rule bspec [OF w(4)])
    then show "other_done g v (dgd_Type sv) x w" using x by (simp add: svc_done_def)
  qed
  moreover have "walk_inv g root (insert v op) w" using w(2) by (simp add: running_def)
  ultimately have "walk_inv g root op w" using walk_inv_close v by blast
  moreover have "walk_le s w" using w(3) by (auto simp: walk_le_def)
  ultimately show ?thesis using w(1,2) by (auto simp: running_def)
qed

text \<open>The induction on the depth bound.\<close>

lemma findDependents_correct:
  assumes ord: "valid_orders g ord" and fin: "finite (dom (g_nodes g))"
  shows "card (dom (g_nodes g) - snd s) < fuel \<Longrightarrow> goesDown g root v \<Longrightarrow> walk_inv g root op s \<Longrightarrow>
    \<exists>t. findDependents fuel g ord v s = Some t \<and> walk_inv g root op t \<and> walk_le s t \<and> v \<in> snd t"
proof (induction fuel arbitrary: v s op)
  case 0
  then show ?case by simp
next
  case (Suc fuel)
  consider (old) "v \<in> snd s" | (none) "v \<notin> snd s" "g_nodes g v = None"
    | (new) n where "v \<notin> snd s" "g_nodes g v = Some n" by auto
  then show ?case
  proof cases
    case old
    then show ?thesis using Suc.prems(3) by (auto simp: walk_le_refl)
  next
    case none
    have "\<not> hardDep g v x" "\<not> softDep g v x" for x
      using none(2) by (auto simp: hardDep_def softDep_def)
    then have "walk_inv g root op (fst s, insert v (snd s))"
      using walk_inv_visit [OF Suc.prems(3,2)] unfolding walk_inv_def by auto
    then show ?thesis using none by (auto simp: walk_le_def)
  next
    case new
    have "rec_ok g root v op (insert v (snd s)) (findDependents fuel g ord)"
      unfolding rec_ok_def
    proof (intro allI impI)
      fix x u
      assume u: "running g root v op (insert v (snd s)) u" and x: "goesDown g root x"
      have "dom (g_nodes g) - snd u \<subset> dom (g_nodes g) - snd s"
        using u new by (auto simp: running_def)
      then have "card (dom (g_nodes g) - snd u) < card (dom (g_nodes g) - snd s)"
        using fin by (intro psubset_card_mono) auto
      then have "card (dom (g_nodes g) - snd u) < fuel" using Suc.prems(1) by simp
      moreover have "walk_inv g root (insert v op) u" using u by (simp add: running_def)
      ultimately obtain w where w: "findDependents fuel g ord x u = Some w"
          "walk_inv g root (insert v op) w" "walk_le u w" "x \<in> snd w"
        using Suc.IH [OF _ x] by blast
      have "insert v (snd s) \<subseteq> snd w" using u w(3) by (auto simp: running_def walk_le_def)
      then have "running g root v op (insert v (snd s)) w" using w(2) by (simp add: running_def)
      then show "\<exists>w. findDependents fuel g ord x u = Some w \<and>
          running g root v op (insert v (snd s)) w \<and> walk_le u w \<and> x \<in> snd w"
        using w by blast
    qed
    from body_correct [OF ord Suc.prems(2) new(2) Suc.prems(3) this]
    show ?thesis by (simp only: findDependents_unfold [OF new])
  qed
qed

section \<open>GetImpact\<close>

text \<open>At the end no body is running, so the visited set is closed and the sets are exact.\<close>

lemma walk_inv_exact:
  assumes "walk_inv g root {} w" and "root \<in> snd w"
  shows "set (ia_AffectedPlugins (fst w)) = {o'. \<exists>v. goesDown g root v \<and> hardDep g v o'}"
    and "set (ia_OptionalImpact (fst w)) = {o'. \<exists>v. goesDown g root v \<and> softDep g v o'}"
proof -
  have "goesDown g root v \<Longrightarrow> v \<in> snd w" for v
    by (induction rule: goesDown.induct) (use assms in \<open>auto simp: walk_inv_def\<close>)
  then show "set (ia_AffectedPlugins (fst w)) = {o'. \<exists>v. goesDown g root v \<and> hardDep g v o'}"
    and "set (ia_OptionalImpact (fst w)) = {o'. \<exists>v. goesDown g root v \<and> softDep g v o'}"
    using assms(1) by (auto simp: walk_inv_def)
qed

text \<open>The result of \<open>GetImpact\<close>, exactly, in the terms of the walk.\<close>

lemma GetImpact_exact:
  assumes ord: "valid_orders g ord" and fin: "finite (dom (g_nodes g))"
    and fuel: "card (dom (g_nodes g)) < fuel" and n: "g_nodes g root = Some n"
  shows "\<exists>imp. GetImpact fuel g ord root = Some imp \<and>
    ia_TargetPlugin imp = root \<and> ia_AffectedServices imp = sort (map dgd_Type (nd_Provides n)) \<and>
    sorted (ia_AffectedPlugins imp) \<and> distinct (ia_AffectedPlugins imp) \<and>
    set (ia_AffectedPlugins imp) = {o'. \<exists>v. goesDown g root v \<and> hardDep g v o'} \<and>
    sorted (ia_OptionalImpact imp) \<and> distinct (ia_OptionalImpact imp) \<and>
    set (ia_OptionalImpact imp) = {o'. \<exists>v. goesDown g root v \<and> softDep g v o'}"
proof -
  let ?i0 = "\<lparr>ia_TargetPlugin = root, ia_AffectedServices = map dgd_Type (nd_Provides n),
              ia_AffectedPlugins = [], ia_OptionalImpact = []\<rparr>"
  have "walk_inv g root {} (?i0, {})" by (simp add: walk_inv_def)
  moreover have "card (dom (g_nodes g) - snd (?i0, {})) < fuel" using fuel by simp
  ultimately obtain w where w: "findDependents fuel g ord root (?i0, {}) = Some w"
      "walk_inv g root {} w" "walk_le (?i0, {}) w" "root \<in> snd w"
    using findDependents_correct [OF ord fin _ down_root] by blast
  have "distinct (ia_AffectedPlugins (fst w))" "distinct (ia_OptionalImpact (fst w))"
    using w(2) by (auto simp: walk_inv_def)
  moreover have "ia_AffectedServices (fst w) = map dgd_Type (nd_Provides n)" "ia_TargetPlugin (fst w) = root"
    using w(3) by (auto simp: walk_le_def)
  ultimately show ?thesis
    using w(1) n walk_inv_exact [OF w(2,4)] by (cases w) (simp add: GetImpact_def)
qed

section \<open>What the result promises\<close>

text \<open>
  The comments on \<open>ImpactAnalysis\<close>, over the declarations of the plugins. When \<open>root\<close> is removed,
  a plugin is lost if it requires for its startup a service that somebody provides but, in the
  end, nobody who is still there.
\<close>

definition providesType :: "Graph \<Rightarrow> string \<Rightarrow> string \<Rightarrow> bool" where
  "providesType g p t \<longleftrightarrow> (\<exists>n. g_nodes g p = Some n \<and> t \<in> dgd_Type ` set (nd_Provides n))"

inductive lost :: "Graph \<Rightarrow> string \<Rightarrow> string \<Rightarrow> bool" for g root where
  lost_root: "lost g root root"
| lost_dep: "g_nodes g x = Some m \<Longrightarrow> dep \<in> set (nd_Requires m) \<Longrightarrow> dgr_RequiredForStartup dep \<Longrightarrow>
     providesType g v (dgr_Type dep) \<Longrightarrow>
     (\<And>p. providesType g p (dgr_Type dep) \<Longrightarrow> lost g root p) \<Longrightarrow> lost g root x"

text \<open>A dependency on a lost plugin that is optional, or has a provider that stays.\<close>

definition softened :: "Graph \<Rightarrow> string \<Rightarrow> string \<Rightarrow> bool" where
  "softened g root x \<longleftrightarrow> (\<exists>v m dep. lost g root v \<and> g_nodes g x = Some m \<and> x \<noteq> v \<and>
     dep \<in> set (nd_Requires m) \<and> providesType g v (dgr_Type dep) \<and>
     (\<not> dgr_RequiredForStartup dep \<or> (\<exists>p. providesType g p (dgr_Type dep) \<and> \<not> lost g root p)))"

text \<open>No service has two providers and loses all of them.\<close>

definition single_losses :: "Graph \<Rightarrow> string \<Rightarrow> bool" where
  "single_losses g root \<longleftrightarrow> (\<forall>t v w. providesType g v t \<longrightarrow> providesType g w t \<longrightarrow>
     (\<forall>p. providesType g p t \<longrightarrow> lost g root p) \<longrightarrow> v = w)"

lemma count_list_pos: "(count_list xs x \<noteq> 0) = (x \<in> set xs)"
  by (induction xs) auto

lemma provider_index:
  assumes "wf_graph g"
  shows "p \<in> set (get_slice (g_byType g) t) \<longleftrightarrow> providesType g p t"
proof -
  have "p \<in> set (get_slice (g_byType g) t) \<longleftrightarrow> declares g p t \<noteq> 0"
    by (simp only: wf_graphD(4) [OF assms, symmetric] count_list_pos)
  also have "\<dots> \<longleftrightarrow> providesType g p t"
    by (cases "g_nodes g p")
      (simp_all only: declares_def providesType_def count_list_pos set_map option.simps simp_thms)
  finally show ?thesis .
qed

lemma getOtherProviders_Nil:
  "wf_graph g \<Longrightarrow> getOtherProviders g t v = [] \<longleftrightarrow> (\<forall>p. providesType g p t \<longrightarrow> p = v)"
  by (auto simp: getOtherProviders_def filter_empty_conv provider_index)

text \<open>The walk's two notions over the declarations.\<close>

lemma provides_some: "providesType g v t \<longleftrightarrow> (\<exists>n svc. g_nodes g v = Some n \<and> svc \<in> set (nd_Provides n) \<and> dgd_Type svc = t)"
  by (auto simp: providesType_def)

lemma provided_all: "g_nodes g v = Some n \<Longrightarrow>
    (\<forall>svc\<in>set (nd_Provides n). Q (dgd_Type svc)) \<longleftrightarrow> (\<forall>t. providesType g v t \<longrightarrow> Q t)"
  by (auto simp: providesType_def)

lemma hardDep_iff:
  assumes "wf_graph g"
  shows "hardDep g v x \<longleftrightarrow> (\<exists>m dep. g_nodes g x = Some m \<and> x \<noteq> v \<and> dep \<in> set (nd_Requires m) \<and>
     dgr_RequiredForStartup dep \<and> providesType g v (dgr_Type dep) \<and>
     (\<forall>p. providesType g p (dgr_Type dep) \<longrightarrow> p = v))"
proof -
  let ?only = "\<lambda>t. getOtherProviders g t v = []"
  have "hardDep g v x \<longleftrightarrow> (\<exists>m dep. g_nodes g x = Some m \<and> x \<noteq> v \<and> dep \<in> set (nd_Requires m) \<and>
     dgr_RequiredForStartup dep \<and> providesType g v (dgr_Type dep) \<and> ?only (dgr_Type dep))"
    unfolding hardDep_def provides_some by (intro iffI; elim exE conjE) (metis, metis)
  then show ?thesis by (simp only: getOtherProviders_Nil [OF assms])
qed

lemma softDep_iff:
  assumes "wf_graph g"
  shows "softDep g v x \<longleftrightarrow> (\<exists>m dep. g_nodes g x = Some m \<and> x \<noteq> v \<and> dep \<in> set (nd_Requires m) \<and>
     providesType g v (dgr_Type dep) \<and>
     ((\<exists>p. providesType g p (dgr_Type dep) \<and> p \<noteq> v) \<or> \<not> dgr_RequiredForStartup dep))"
proof -
  let ?only = "\<lambda>t. getOtherProviders g t v = []"
  have "softDep g v x \<longleftrightarrow> (\<exists>m dep. g_nodes g x = Some m \<and> x \<noteq> v \<and> dep \<in> set (nd_Requires m) \<and>
     providesType g v (dgr_Type dep) \<and> (\<not> ?only (dgr_Type dep) \<or> \<not> dgr_RequiredForStartup dep))"
    unfolding softDep_def provides_some by metis
  then show ?thesis by (simp only: getOtherProviders_Nil [OF assms] not_all not_imp)
qed

lemma goesDown_lost:
  assumes "wf_graph g"
  shows "goesDown g root x \<Longrightarrow> lost g root x"
proof (induction rule: goesDown.induct)
  case down_root
  show ?case by (rule lost_root)
next
  case (down_dep v x)
  then obtain m dep where d: "g_nodes g x = Some m" "dep \<in> set (nd_Requires m)" "dgr_RequiredForStartup dep"
      "providesType g v (dgr_Type dep)" and only: "\<And>p. providesType g p (dgr_Type dep) \<Longrightarrow> p = v"
    unfolding hardDep_iff [OF assms] by blast
  show ?case using only down_dep.IH by (intro lost_dep [OF d]) simp
qed

lemma lost_goesDown:
  assumes wf: "wf_graph g" and single: "single_losses g root"
  shows "lost g root x \<Longrightarrow> goesDown g root x"
proof (induction rule: lost.induct)
  case lost_root
  show ?case by (rule down_root)
next
  case (lost_dep x m dep v)
  have only: "p = v" if "providesType g p (dgr_Type dep)" for p
    using single [unfolded single_losses_def, rule_format, OF that lost_dep.hyps(4)] lost_dep.hyps(5) by metis
  show ?case
  proof (cases "x = v")
    case True
    then show ?thesis using lost_dep by blast
  next
    case False
    then have "hardDep g v x" unfolding hardDep_iff [OF wf] using lost_dep.hyps only by blast
    then show ?thesis using lost_dep by (blast intro: down_dep)
  qed
qed

text \<open>A lost plugin that the walk does not reach: the first such one has its dependency taken for soft.\<close>

lemma lost_reached_or_soft:
  assumes wf: "wf_graph g"
  shows "lost g root x \<Longrightarrow>
    goesDown g root x \<or> (\<exists>y v. lost g root y \<and> \<not> goesDown g root y \<and> goesDown g root v \<and> softDep g v y)"
proof (induction rule: lost.induct)
  case lost_root
  show ?case by (simp add: down_root)
next
  case (lost_dep x m dep v)
  show ?case
  proof (rule ccontr)
    assume neg: "\<not> ?case"
    then have v: "goesDown g root v" and x: "\<not> goesDown g root x" using lost_dep by blast+
    then have "x \<noteq> v" by blast
    then have "hardDep g v x \<or> softDep g v x"
      unfolding hardDep_iff [OF wf] softDep_iff [OF wf] using lost_dep.hyps by blast
    moreover have "lost g root x" using lost_dep.hyps by (blast intro: lost.lost_dep)
    ultimately show False using neg v x by (blast intro: down_dep)
  qed
qed

lemma affected_goesDown:
  "{x. \<exists>v. goesDown g root v \<and> hardDep g v x} - {root} = Collect (goesDown g root) - {root}"
  by (auto intro: down_dep elim: goesDown.cases)

lemma softDep_softened:
  assumes wf: "wf_graph g" and single: "single_losses g root"
  shows "(\<exists>v. goesDown g root v \<and> softDep g v x) \<longleftrightarrow> softened g root x"
proof -
  have eq: "goesDown g root v = lost g root v" for v
    using goesDown_lost [OF wf] lost_goesDown [OF wf single] by blast
  have alt: "(\<exists>p. providesType g p t \<and> p \<noteq> v) = (\<exists>p. providesType g p t \<and> \<not> lost g root p)"
    if "lost g root v" "providesType g v t" for v t
    using single that unfolding single_losses_def by blast
  show ?thesis unfolding softened_def eq softDep_iff [OF wf] using alt by blast
qed

text \<open>C19. \<open>GetImpact\<close> of a known plugin always returns, also on cyclic requirements, for any
  iteration orders and any recursion bound above the number of plugins. The plugins it lists as
  affected (sorted, without duplicates; in a requirement cycle the plugin itself may be among
  them) are all really lost: a service they require for startup will have no provider left.
  Affected and optional impact are exactly the documented ones when no service has two
  providers and loses them all. Otherwise the report disagrees with its documentation: the walk
  counts a provider that goes down as well as an alternative, so a lost plugin can be missing
  from the affected ones; whenever one is, at least one such plugin is found in the optional
  impact instead. The affected services are all that the plugin provides: they are the documented
  ones (\<open>if no other providers\<close>) exactly when no other plugin provides any of them.\<close>
theorem GetImpact_correct:
  assumes ord: "valid_orders g ord" and wf: "wf_graph g"
    and fuel: "card (dom (g_nodes g)) < fuel" and n: "g_nodes g root = Some n"
  shows "\<exists>imp. GetImpact fuel g ord root = Some imp \<and> ia_TargetPlugin imp = root \<and>
    sorted (ia_AffectedPlugins imp) \<and> distinct (ia_AffectedPlugins imp) \<and>
    sorted (ia_OptionalImpact imp) \<and> distinct (ia_OptionalImpact imp) \<and>
    set (ia_AffectedPlugins imp) - {root} \<subseteq> Collect (lost g root) \<and>
    (single_losses g root \<longrightarrow>
       set (ia_AffectedPlugins imp) - {root} = Collect (lost g root) - {root} \<and>
       set (ia_OptionalImpact imp) = Collect (softened g root)) \<and>
    ((\<exists>x. lost g root x \<and> x \<noteq> root \<and> x \<notin> set (ia_AffectedPlugins imp)) \<longrightarrow>
       (\<exists>x\<in>set (ia_OptionalImpact imp). lost g root x \<and> x \<noteq> root \<and> x \<notin> set (ia_AffectedPlugins imp))) \<and>
    ia_AffectedServices imp = sort (map dgd_Type (nd_Provides n)) \<and>
    (set (ia_AffectedServices imp) = {t. providesType g root t \<and> (\<forall>p. providesType g p t \<longrightarrow> p = root)} \<longleftrightarrow>
       (\<forall>svc\<in>set (nd_Provides n). \<forall>p. providesType g p (dgd_Type svc) \<longrightarrow> p = root))"
proof -
  obtain imp where imp: "GetImpact fuel g ord root = Some imp" "ia_TargetPlugin imp = root"
      "ia_AffectedServices imp = sort (map dgd_Type (nd_Provides n))"
      "sorted (ia_AffectedPlugins imp)" "distinct (ia_AffectedPlugins imp)"
      "sorted (ia_OptionalImpact imp)" "distinct (ia_OptionalImpact imp)"
    and aff: "set (ia_AffectedPlugins imp) = {x. \<exists>v. goesDown g root v \<and> hardDep g v x}"
    and opt: "set (ia_OptionalImpact imp) = {x. \<exists>v. goesDown g root v \<and> softDep g v x}"
    using GetImpact_exact [OF ord wf_graphD(1) [OF wf] fuel n] by blast
  have down: "set (ia_AffectedPlugins imp) - {root} = Collect (goesDown g root) - {root}"
    unfolding aff by (rule affected_goesDown)
  have "set (ia_AffectedPlugins imp) - {root} = Collect (lost g root) - {root} \<and>
      set (ia_OptionalImpact imp) = Collect (softened g root)" if "single_losses g root"
    unfolding down opt softDep_softened [OF wf that]
    using goesDown_lost [OF wf] lost_goesDown [OF wf that] by blast
  moreover have "\<exists>x\<in>set (ia_OptionalImpact imp). lost g root x \<and> x \<noteq> root \<and> x \<notin> set (ia_AffectedPlugins imp)"
    if y: "lost g root y" "y \<noteq> root" "y \<notin> set (ia_AffectedPlugins imp)" for y
  proof -
    have "\<not> goesDown g root y" using down y by blast
    then obtain x v where "lost g root x" "\<not> goesDown g root x" "goesDown g root v" "softDep g v x"
      using lost_reached_or_soft [OF wf y(1)] by blast
    then show ?thesis using down opt down_root by blast
  qed
  moreover have "set (ia_AffectedPlugins imp) - {root} \<subseteq> Collect (lost g root)"
    unfolding down using goesDown_lost [OF wf] by blast
  moreover have svcs: "set (ia_AffectedServices imp) = {t. providesType g root t}"
    using imp(3) n by (auto simp: providesType_def)
  have "set (ia_AffectedServices imp) = {t. providesType g root t \<and> (\<forall>p. providesType g p t \<longrightarrow> p = root)} \<longleftrightarrow>
      (\<forall>svc\<in>set (nd_Provides n). \<forall>p. providesType g p (dgd_Type svc) \<longrightarrow> p = root)"
    unfolding svcs provided_all [OF n, of "\<lambda>t. \<forall>p. providesType g p t \<longrightarrow> p = root"] by auto
  ultimately show ?thesis using imp by (intro exI [of _ imp] conjI impI) (simp_all, blast)
qed

text \<open>Removing \<open>a\<close> takes \<open>b\<close> down.\<close>

lemma GetImpact_correct_witness:
  "\<exists>imp. GetImpact 3 example_graph (\<lambda>_ _. [''a'', ''b'']) ''a'' = Some imp \<and> ''b'' \<in> set (ia_AffectedPlugins imp)"
proof -
  have n: "g_nodes example_graph ''a'' = Some \<lparr>nd_RuntimeID = ''a'', nd_SelfID = ''a'',
      nd_Provides = [\<lparr>dgd_Type = ''kv'', dgd_Version = ''1.0.0''\<rparr>], nd_Requires = []\<rparr>"
    and m: "g_nodes example_graph ''b'' = Some \<lparr>nd_RuntimeID = ''b'', nd_SelfID = ''b'', nd_Provides = [],
        nd_Requires = [\<lparr>dgr_Type = ''kv'', dgr_MinVersion = '''', dgr_RequiredForStartup = True, dgr_WatchForChanges = False\<rparr>]\<rparr>"
    and d: "dom (g_nodes example_graph) = {''a'', ''b''}"
    by (auto simp: example_graph_def graphAdd_def newGraph_def)
  have prov: "providesType example_graph p t \<longleftrightarrow> p = ''a'' \<and> t = ''kv''" for p t
    by (auto simp: providesType_def example_graph_def graphAdd_def newGraph_def)
  have ord: "valid_orders example_graph (\<lambda>_ _. [''a'', ''b''])"
    by (simp add: valid_orders_def example_graph)
  have single: "single_losses example_graph ''a''" by (simp add: single_losses_def prov)
  have lost: "lost example_graph ''a'' ''b''"
    by (rule lost_dep [OF m, of "\<lparr>dgr_Type = ''kv'', dgr_MinVersion = '''', dgr_RequiredForStartup = True, dgr_WatchForChanges = False\<rparr>" "''a''"])
      (simp_all add: prov lost_root)
  have "card (dom (g_nodes example_graph)) < 3" by (simp add: d)
  then obtain imp where imp: "GetImpact 3 example_graph (\<lambda>_ _. [''a'', ''b'']) ''a'' = Some imp"
      "set (ia_AffectedPlugins imp) - {''a''} = Collect (lost example_graph ''a'') - {''a''}"
    using GetImpact_correct [OF ord example_graph(1) _ n, of 3] single by blast
  have "''b'' \<in> set (ia_AffectedPlugins imp) - {''a''}" unfolding imp(2) using lost by simp
  then show ?thesis using imp(1) by blast
qed

section \<open>A lost plugin that is left out\<close>

text \<open>
  Both providers of \<open>kv\<close> need \<open>base\<close>, which only \<open>r\<close> provides. Removing \<open>r\<close> leaves \<open>app\<close> without
  the \<open>kv\<close> it needs to start, but the report lists it as optional impact only.
\<close>

definition needing :: "string \<Rightarrow> string list \<Rightarrow> string list \<Rightarrow> Node" where
  "needing rid provides requires = \<lparr>nd_RuntimeID = rid, nd_SelfID = rid,
     nd_Provides = map (\<lambda>t. \<lparr>dgd_Type = t, dgd_Version = ''1.0.0''\<rparr>) provides,
     nd_Requires = map (\<lambda>t. \<lparr>dgr_Type = t, dgr_MinVersion = '''', dgr_RequiredForStartup = True, dgr_WatchForChanges = False\<rparr>) requires\<rparr>"

definition double_loss_graph :: Graph where
  "double_loss_graph = graphAdd (graphAdd (graphAdd (graphAdd newGraph
     (needing ''r'' [''base''] [])) (needing ''a'' [''kv''] [''base'']))
     (needing ''b'' [''kv''] [''base''])) (needing ''app'' [] [''kv''])"

lemma double_loss_nodes: "g_nodes double_loss_graph = [''r'' \<mapsto> needing ''r'' [''base''] [],
    ''a'' \<mapsto> needing ''a'' [''kv''] [''base''], ''b'' \<mapsto> needing ''b'' [''kv''] [''base''], ''app'' \<mapsto> needing ''app'' [] [''kv'']]"
  by (simp add: double_loss_graph_def graphAdd_def newGraph_def needing_def)

lemma double_loss_provides:
  "providesType double_loss_graph p t \<longleftrightarrow> p = ''r'' \<and> t = ''base'' \<or> p \<in> {''a'', ''b''} \<and> t = ''kv''"
  by (auto simp: providesType_def double_loss_nodes needing_def)

lemma GetImpact_omits_lost:
  "lost double_loss_graph ''r'' ''app'' \<and>
   GetImpact 5 double_loss_graph (\<lambda>_ _. [''r'', ''a'', ''b'', ''app'']) ''r'' =
     Some \<lparr>ia_TargetPlugin = ''r'', ia_AffectedServices = [''base''],
           ia_AffectedPlugins = [''a'', ''b''], ia_OptionalImpact = [''app'']\<rparr>"
proof
  have "lost double_loss_graph ''r'' p" if "p \<in> {''a'', ''b''}" for p
    using that by (intro lost_dep [of _ p "needing p [''kv''] [''base'']" "hd (nd_Requires (needing p [''kv''] [''base'']))" "''r''"])
      (auto simp: double_loss_nodes double_loss_provides needing_def lost_root)
  then show "lost double_loss_graph ''r'' ''app''"
    by (intro lost_dep [of _ "''app''" "needing ''app'' [] [''kv'']" "hd (nd_Requires (needing ''app'' [] [''kv'']))" "''a''"])
      (auto simp: double_loss_nodes double_loss_provides needing_def)
  show "GetImpact 5 double_loss_graph (\<lambda>_ _. [''r'', ''a'', ''b'', ''app'']) ''r'' =
     Some \<lparr>ia_TargetPlugin = ''r'', ia_AffectedServices = [''base''],
           ia_AffectedPlugins = [''a'', ''b''], ia_OptionalImpact = [''app'']\<rparr>"
    by code_simp
qed

end
