(* ===== verification/GoRuntime.thy ===== *)
theory GoRuntime
  imports Prelude
begin

text \<open>
  What the sources use of the Go standard library and of Connect RPC beyond strings and maps:
  instants and durations, the \<open>int32\<close> conversion, Connect's error codes, HTTP headers, and
  buffered channels with a non-blocking send. No file of the repository is modelled here.
\<close>

section \<open>Instants and durations\<close>

text \<open>
  A \<open>time.Duration\<close> is an \<open>int64\<close> of nanoseconds. \<open>Time.Sub\<close> saturates at the bounds of that
  type; \<open>Time.Add\<close> and the comparisons do not overflow at any instant a running program reads.
\<close>

type_synonym time = int
type_synonym duration = int

definition max_duration :: duration where "max_duration = 2 ^ 63 - 1"
definition min_duration :: duration where "min_duration = - (2 ^ 63)"

definition time_sub :: "time \<Rightarrow> time \<Rightarrow> duration" where
  "time_sub t u = max min_duration (min max_duration (t - u))"

definition time_add :: "time \<Rightarrow> duration \<Rightarrow> time" where
  "time_add t d = t + d"

definition time_after :: "time \<Rightarrow> time \<Rightarrow> bool" where
  "time_after t u \<longleftrightarrow> u < t"

definition Millisecond :: duration where "Millisecond = 1000000"
definition Second :: duration where "Second = 1000000000"
definition Minute :: duration where "Minute = 60 * Second"
definition Hour :: duration where "Hour = 3600 * Second"

lemmas time_defs = time_add_def time_after_def Millisecond_def Second_def Minute_def Hour_def

lemma time_sub_ge_iff:
  "d \<le> max_duration \<Longrightarrow> min_duration < d \<Longrightarrow> d \<le> time_sub t u \<longleftrightarrow> d \<le> t - u"
  by (auto simp: time_sub_def max_duration_def min_duration_def)

section \<open>The int32 conversion\<close>

definition int32 :: "int \<Rightarrow> int" where
  "int32 i = (i + 2 ^ 31) mod 2 ^ 32 - 2 ^ 31"

lemma int32_id: "- (2 ^ 31) \<le> i \<Longrightarrow> i < 2 ^ 31 \<Longrightarrow> int32 i = i"
  by (simp add: int32_def)

lemma int32_range: "- (2 ^ 31) \<le> int32 i \<and> int32 i < 2 ^ 31"
  by (simp add: int32_def)

lemma int32_eq_iff: "int32 i = int32 j \<longleftrightarrow> i mod 2 ^ 32 = j mod 2 ^ 32"
proof -
  have "int32 i = int32 j \<longleftrightarrow> (i + 2 ^ 31) mod 2 ^ 32 = (j + 2 ^ 31) mod 2 ^ 32"
    by (simp add: int32_def)
  also have "\<dots> \<longleftrightarrow> i mod 2 ^ 32 = j mod 2 ^ 32"
    by (simp add: mod_eq_dvd_iff)
  finally show ?thesis .
qed

section \<open>Connect errors\<close>

datatype Code =
    CodeCanceled | CodeUnknown | CodeInvalidArgument | CodeDeadlineExceeded | CodeNotFound
  | CodeAlreadyExists | CodePermissionDenied | CodeResourceExhausted | CodeFailedPrecondition
  | CodeAborted | CodeOutOfRange | CodeUnimplemented | CodeInternal | CodeUnavailable
  | CodeDataLoss | CodeUnauthenticated

text \<open>\<open>connect.NewError(code, cause)\<close>.\<close>

datatype 'e connect_error = NewError (error_code: Code) (error_cause: 'e)

section \<open>HTTP headers\<close>

text \<open>
  \<open>http.Header\<close> maps canonical keys to values. \<open>CanonicalHeaderKey\<close> raises the first letter and
  every letter after a hyphen, lowers the others, and leaves a key with a byte that is not a
  token byte as it is.
\<close>

type_synonym http_header = "(string, string list) gomap"

definition upperChar :: "char \<Rightarrow> char" where
  "upperChar c = (let n = of_char c :: nat in if 97 \<le> n \<and> n \<le> 122 then char_of (n - 32) else c)"

definition isTokenByte :: "char \<Rightarrow> bool" where
  "isTokenByte c \<longleftrightarrow> (let n = of_char c :: nat in
     65 \<le> n \<and> n \<le> 90 \<or> 97 \<le> n \<and> n \<le> 122 \<or> 48 \<le> n \<and> n \<le> 57 \<or> c \<in> set ''!#$%&*+-.^_`|~'' \<or> n = 39)"

fun canonicalise :: "bool \<Rightarrow> string \<Rightarrow> string" where
  "canonicalise up [] = []"
| "canonicalise up (c # s) =
     (if up then upperChar c else lowerChar c) # canonicalise (c = CHR ''-'') s"

definition canonicalHeaderKey :: "string \<Rightarrow> string" where
  "canonicalHeaderKey s = (if list_all isTokenByte s then canonicalise True s else s)"

definition header_get :: "http_header \<Rightarrow> string \<Rightarrow> string" where
  "header_get h key = (case get_slice h (canonicalHeaderKey key) of [] \<Rightarrow> '''' | v # _ \<Rightarrow> v)"

definition header_set :: "http_header \<Rightarrow> string \<Rightarrow> string \<Rightarrow> http_header" where
  "header_set h key v = h(canonicalHeaderKey key \<mapsto> [v])"

definition header_add :: "http_header \<Rightarrow> string \<Rightarrow> string \<Rightarrow> http_header" where
  "header_add h key v = append_at h (canonicalHeaderKey key) v"

lemma header_get_set:
  "header_get (header_set h k v) j =
     (if canonicalHeaderKey j = canonicalHeaderKey k then v else header_get h j)"
  by (simp add: header_get_def header_set_def)

lemma canonical_runtime_id: "canonicalHeaderKey ''X-Plugin-Runtime-ID'' = ''X-Plugin-Runtime-Id''"
  by code_simp

lemma canonical_authorization: "canonicalHeaderKey ''Authorization'' = ''Authorization''"
  by code_simp

lemmas canonical_keys = canonical_runtime_id canonical_authorization

section \<open>Buffered channels\<close>

text \<open>
  The buffer of a channel of capacity \<open>n\<close>, oldest value first.
  \<open>select { case ch <- v: default: }\<close> drops the value when the buffer is full, and
  \<open>select { case <-ch: default: }\<close> discards the oldest value when there is one.
\<close>

definition try_send :: "nat \<Rightarrow> 'a \<Rightarrow> 'a list \<Rightarrow> 'a list" where
  "try_send n v ch = (if length ch < n then ch @ [v] else ch)"

definition try_recv :: "'a list \<Rightarrow> 'a list" where
  "try_recv ch = tl ch"

lemma length_try_send: "length ch \<le> n \<Longrightarrow> length (try_send n v ch) \<le> n"
  by (simp add: try_send_def)

section \<open>HTTP handlers\<close>

text \<open>
  What a handler that mediates requests does: answer with a status of its own
  (\<open>http.Error(w, msg, code)\<close>), or hand the request on, as described by a value of type \<open>'f\<close>.
\<close>

datatype 'f http_outcome = HttpError int string | Forward 'f

definition StatusOK :: int where "StatusOK = 200"
definition StatusBadRequest :: int where "StatusBadRequest = 400"
definition StatusUnauthorized :: int where "StatusUnauthorized = 401"
definition StatusNotFound :: int where "StatusNotFound = 404"
definition StatusInternalServerError :: int where "StatusInternalServerError = 500"
definition StatusBadGateway :: int where "StatusBadGateway = 502"
definition StatusServiceUnavailable :: int where "StatusServiceUnavailable = 503"

lemmas status_defs = StatusOK_def StatusBadRequest_def StatusUnauthorized_def StatusNotFound_def
  StatusInternalServerError_def StatusBadGateway_def StatusServiceUnavailable_def

text \<open>The bearer token of a request, as the router and the broker extract it.\<close>

definition bearerToken :: "http_header \<Rightarrow> string option" where
  "bearerToken header =
     (let auth = header_get header ''Authorization''
      in if \<not> hasPrefix auth ''Bearer '' then None else Some (trimPrefix auth ''Bearer ''))"

lemma bearerToken_Some: "bearerToken h = Some tok \<longleftrightarrow> header_get h ''Authorization'' = ''Bearer '' @ tok"
  by (auto simp: bearerToken_def Let_def hasPrefix_iff trimPrefix_def)

lemma header_get_set_same [simp]: "header_get (header_set h k v) k = v"
  by (simp add: header_get_set)

lemma bearerToken_set: "bearerToken (header_set h ''Authorization'' (''Bearer '' @ tok)) = Some tok"
  by (simp add: bearerToken_Some)

section \<open>Errors of calls\<close>

text \<open>
  An error of an RPC is a Connect error with its code or any other Go error;
  \<open>connect.CodeOf\<close> returns the code of the first kind and \<open>CodeUnknown\<close> for the second.
  A nil error is \<open>None\<close> of type \<open>rpc_error option\<close>.
\<close>

datatype rpc_error = ConnectError Code string | OtherError string

definition CodeOf :: "rpc_error \<Rightarrow> Code" where
  "CodeOf err = (case err of ConnectError c _ \<Rightarrow> c | OtherError _ \<Rightarrow> CodeUnknown)"

end
