(* ===== verification/TokenStore.thy ===== *)
theory TokenStore
  imports GoRuntime
begin

text \<open>
  The contract behind the runtime tokens of \<^verbatim>\<open>handshake.go\<close> and the capability grants of
  \<^verbatim>\<open>broker.go\<close>: secrets issued under an id with an expiry instant, checked against the clock,
  and dropped lazily by the check that finds them expired. The lemmas are proved once for the
  contract; both servers interpret it.
\<close>

section \<open>Comparing secrets\<close>

text \<open>\<open>subtle.ConstantTimeCompare\<close>: 1 when the byte slices are equal, 0 otherwise.\<close>

definition constantTimeCompare :: "string \<Rightarrow> string \<Rightarrow> int" where
  "constantTimeCompare x y = (if length x \<noteq> length y then 0 else if x = y then 1 else 0)"

text \<open>The two tests both servers make: lengths first, then the constant-time comparison.\<close>

lemma secret_tests: "length x = length y \<and> constantTimeCompare x y = 1 \<longleftrightarrow> x = y"
  by (auto simp: constantTimeCompare_def)

section \<open>The contract\<close>

text \<open>\<open>peek\<close> is what is stored under an id: the secret and the instant it expires after.\<close>

locale token_store =
  fixes peek :: "'s \<Rightarrow> string \<Rightarrow> (string \<times> time) option"
    and issue :: "string \<Rightarrow> string \<Rightarrow> time \<Rightarrow> 's \<Rightarrow> 's"
    and check :: "time \<Rightarrow> string \<Rightarrow> string \<Rightarrow> 's \<Rightarrow> 's \<times> bool"
  assumes peek_issue: "peek (issue i tok exp s) j = (if j = i then Some (tok, exp) else peek s j)"
    and check_iff: "snd (check now i tok s) \<longleftrightarrow> (\<exists>exp. peek s i = Some (tok, exp) \<and> now \<le> exp)"
    and peek_check: "peek (fst (check now i tok s)) j =
          (if j = i \<and> (\<exists>t exp. peek s i = Some (t, exp) \<and> exp < now) then None else peek s j)"
begin

text \<open>A run of checks by anybody, each with the instant at which it reads the clock.\<close>

definition checks :: "(time \<times> string \<times> string) list \<Rightarrow> 's \<Rightarrow> 's" where
  "checks cs = fold (\<lambda>(now, i, tok) s. fst (check now i tok s)) cs"

lemma checks_simps [simp]:
  "checks [] s = s"
  "checks ((now, i, tok) # cs) s = checks cs (fst (check now i tok s))"
  by (simp_all add: checks_def)

lemma peek_checks:
  "peek (checks cs s) j =
     (case peek s j of
        None \<Rightarrow> None
      | Some (t, exp) \<Rightarrow> if \<exists>(now, i, tok)\<in>set cs. i = j \<and> exp < now then None else Some (t, exp))"
proof (induction cs arbitrary: s)
  case Nil
  then show ?case by (simp split: option.splits)
next
  case (Cons c cs)
  obtain now i tok where c: "c = (now, i, tok)" by (cases c)
  show ?case
    by (cases "peek s j") (auto simp: c Cons.IH peek_check split: option.splits if_splits)
qed

text \<open>Up to its expiry a secret stays valid, however often anybody checks whatever.\<close>

lemma issued_valid:
  assumes "\<forall>(t, i, tok)\<in>set cs. t \<le> now" and "now \<le> exp"
  shows "snd (check now i tok (checks cs (issue i tok exp s)))"
  using assms by (force simp: check_iff peek_checks peek_issue)

text \<open>Only the issued secret is accepted, and none after its expiry.\<close>

lemma issued_only:
  assumes "snd (check now i tok' (checks cs (issue i tok exp s)))"
  shows "tok' = tok \<and> now \<le> exp"
  using assms by (auto simp: check_iff peek_checks peek_issue split: if_splits)

lemma unknown_invalid: "peek s i = None \<Longrightarrow> \<not> snd (check now i tok (checks cs s))"
  by (simp add: check_iff peek_checks)

text \<open>An issue under one id leaves the other ids as they were.\<close>

lemma issue_other: "j \<noteq> i \<Longrightarrow> snd (check now j tok (issue i t exp s)) = snd (check now j tok s)"
  by (simp add: check_iff peek_issue)

end

end
