(* ===== verification/Identity.thy ===== *)
theory Identity
  imports GoRuntime
begin

text \<open>
  The random identifiers of the host: \<open>generateRandomHex\<close> and \<open>generateRuntimeID\<close>
  (\<^verbatim>\<open>handshake.go\<close>), \<open>generateRegistrationID\<close> (\<^verbatim>\<open>registry.go\<close>), \<open>generateGrantID\<close> and
  \<open>generateToken\<close> (\<^verbatim>\<open>broker.go\<close>). The bytes delivered by \<open>crypto/rand.Read\<close> are an argument,
  \<open>None\<close> when the read fails; \<open>rand_ok n\<close> says that a read of \<open>n\<close> bytes delivered \<open>n\<close> bytes.
  The lemmas give the alphabet and the length of every identifier, what the routers' path
  splitting relies on, and that no randomness is lost by the encodings.
\<close>

type_synonym random_read = "string option"

definition rand_ok :: "nat \<Rightarrow> random_read \<Rightarrow> bool" where
  "rand_ok n rnd \<longleftrightarrow> (case rnd of None \<Rightarrow> True | Some bs \<Rightarrow> length bs = n)"

section \<open>Hexadecimal\<close>

definition hexDigit :: "nat \<Rightarrow> char" where
  "hexDigit n = ''0123456789abcdef'' ! (n mod 16)"

text \<open>\<open>hex.EncodeToString\<close>.\<close>

fun hexEncode :: "string \<Rightarrow> string" where
  "hexEncode [] = []"
| "hexEncode (b # bs) = (let n = of_char b :: nat in hexDigit (n div 16) # hexDigit n # hexEncode bs)"

definition generateRandomHex :: "nat \<Rightarrow> random_read \<Rightarrow> string option" where
  "generateRandomHex len rnd =
     (case rnd of None \<Rightarrow> None | Some bs \<Rightarrow> Some (take len (hexEncode bs)))"

definition generateRegistrationID :: "random_read \<Rightarrow> string option" where
  "generateRegistrationID rnd =
     (case generateRandomHex 16 rnd of None \<Rightarrow> None | Some hex \<Rightarrow> Some (''reg-'' @ hex))"

definition generateRuntimeID :: "string \<Rightarrow> random_read \<Rightarrow> string option" where
  "generateRuntimeID selfID rnd =
     (case generateRandomHex 4 rnd of
        None \<Rightarrow> None
      | Some suffix \<Rightarrow>
          let normalized = toLower (replaceAllChar CHR '' '' CHR ''-'' selfID)
          in Some (normalized @ ''-'' @ suffix))"

definition isHexDigit :: "char \<Rightarrow> bool" where
  "isHexDigit c \<longleftrightarrow> c \<in> set ''0123456789abcdef''"

lemma hexDigit_is: "isHexDigit (hexDigit n)"
proof -
  have "n mod 16 < length ''0123456789abcdef''" by simp
  then show ?thesis unfolding isHexDigit_def hexDigit_def by (rule nth_mem)
qed

lemma length_hexEncode [simp]: "length (hexEncode bs) = 2 * length bs"
  by (induction bs) (auto simp: Let_def)

lemma set_hexEncode: "x \<in> set (hexEncode bs) \<Longrightarrow> isHexDigit x"
  by (induction bs) (auto simp: Let_def hexDigit_is)

lemma hexDigit_inj: "hexDigit m = hexDigit n \<Longrightarrow> m mod 16 = n mod 16"
proof -
  assume "hexDigit m = hexDigit n"
  moreover have "distinct ''0123456789abcdef''" by simp
  ultimately show ?thesis
    unfolding hexDigit_def by (subst (asm) nth_eq_iff_index_eq) simp_all
qed

lemma hexEncode_inj: "hexEncode as = hexEncode bs \<Longrightarrow> as = bs"
proof (induction as arbitrary: bs)
  case Nil
  then show ?case by (cases bs) (auto simp: Let_def)
next
  case (Cons a as)
  then obtain b bs' where bs: "bs = b # bs'" by (cases bs) (auto simp: Let_def)
  let ?m = "of_char a :: nat" and ?n = "of_char b :: nat"
  have eq: "hexDigit (?m div 16) = hexDigit (?n div 16)" "hexDigit ?m = hexDigit ?n"
      "hexEncode as = hexEncode bs'"
    using Cons.prems by (auto simp: bs Let_def)
  have lt: "?m div 16 < 16" "?n div 16 < 16"
    by (intro less_mult_imp_div_less; simp)+
  then have "?m div 16 = ?n div 16" "?m mod 16 = ?n mod 16"
    using hexDigit_inj [OF eq(1)] hexDigit_inj [OF eq(2)] by simp_all
  then have "?m = ?n" by (metis div_mult_mod_eq)
  then show ?case using Cons.IH [OF eq(3)] by (simp add: bs)
qed

lemma generateRandomHex_Some:
  assumes "generateRandomHex len rnd = Some h" and "rand_ok ((len + 1) div 2) rnd"
  shows "length h = len \<and> (\<forall>x\<in>set h. isHexDigit x)"
  using assms by (auto simp: generateRandomHex_def rand_ok_def dest: in_set_takeD set_hexEncode split: option.splits)

lemma char_slash_nat: "c = CHR ''/'' \<longleftrightarrow> of_char c = (47::nat)"
proof -
  have "of_char (CHR ''/'') = (47::nat)" by simp
  then show ?thesis by (metis of_char_eq_iff)
qed

lemma lowerChar_slash: "lowerChar c = CHR ''/'' \<longleftrightarrow> c = CHR ''/''"
  unfolding char_slash_nat by (auto simp: lowerChar_def Let_def)

lemma isHexDigit_not_slash: "isHexDigit c \<Longrightarrow> c \<noteq> CHR ''/''"
  by (auto simp: isHexDigit_def)

text \<open>The normalised self id followed by a hyphen and four hexadecimal digits.\<close>

lemma generateRuntimeID_Some:
  assumes "generateRuntimeID selfID rnd = Some rid" and "rand_ok 2 rnd"
  shows "\<exists>h. rid = toLower (replaceAllChar CHR '' '' CHR ''-'' selfID) @ ''-'' @ h \<and>
             length h = 4 \<and> (\<forall>x\<in>set h. isHexDigit x)"
  using assms generateRandomHex_Some [of 4 rnd]
  by (auto simp: generateRuntimeID_def Let_def split: option.splits)

lemma slash_normalised:
  assumes "CHR ''/'' \<in> set (toLower (replaceAllChar CHR '' '' CHR ''-'' s))"
  shows "CHR ''/'' \<in> set s"
proof -
  obtain c where c: "c \<in> set (replaceAllChar CHR '' '' CHR ''-'' s)" "lowerChar c = CHR ''/''"
    using assms by (auto simp: toLower_def)
  from c(2) have "c = CHR ''/''" by (simp only: lowerChar_slash)
  with c(1) show ?thesis by (auto simp: replaceAllChar_def split: if_splits)
qed

lemma generateRuntimeID_no_slash:
  assumes "generateRuntimeID selfID rnd = Some rid" and "rand_ok 2 rnd" and "CHR ''/'' \<notin> set selfID"
  shows "CHR ''/'' \<notin> set rid"
proof -
  obtain h where h: "rid = toLower (replaceAllChar CHR '' '' CHR ''-'' selfID) @ ''-'' @ h"
    "\<forall>x\<in>set h. isHexDigit x"
    using generateRuntimeID_Some [OF assms(1,2)] by blast
  have "CHR ''/'' \<notin> set (toLower (replaceAllChar CHR '' '' CHR ''-'' selfID))"
    using assms(3) by (rule contrapos_nn) (rule slash_normalised)
  then show ?thesis using h isHexDigit_not_slash by auto
qed

lemma generateRuntimeID_nonempty: "generateRuntimeID selfID rnd = Some rid \<Longrightarrow> rid \<noteq> []"
  by (auto simp: generateRuntimeID_def Let_def split: option.splits)

section \<open>URL-safe base64\<close>

definition b64Alphabet :: string where
  "b64Alphabet = ''ABCDEFGHIJKLMNOPQRSTUVWXYZabcdefghijklmnopqrstuvwxyz0123456789-_''"

definition b64Digit :: "nat \<Rightarrow> char" where
  "b64Digit n = b64Alphabet ! (n mod 64)"

text \<open>\<open>base64.URLEncoding.EncodeToString\<close>, with padding.\<close>

fun b64Encode :: "string \<Rightarrow> string" where
  "b64Encode [] = []"
| "b64Encode [x] =
     (let a = of_char x :: nat
      in [b64Digit (a div 4), b64Digit (a mod 4 * 16), CHR ''='', CHR ''=''])"
| "b64Encode [x, y] =
     (let a = of_char x :: nat; b = of_char y :: nat
      in [b64Digit (a div 4), b64Digit (a mod 4 * 16 + b div 16), b64Digit (b mod 16 * 4), CHR ''=''])"
| "b64Encode (x # y # z # rest) =
     (let a = of_char x :: nat; b = of_char y :: nat; c = of_char z :: nat
      in b64Digit (a div 4) # b64Digit (a mod 4 * 16 + b div 16) #
         b64Digit (b mod 16 * 4 + c div 64) # b64Digit (c mod 64) # b64Encode rest)"

definition generateGrantID :: "random_read \<Rightarrow> string option" where
  "generateGrantID rnd = (case rnd of None \<Rightarrow> None | Some b \<Rightarrow> Some (b64Encode b))"

definition generateToken :: "random_read \<Rightarrow> string option" where
  "generateToken rnd = (case rnd of None \<Rightarrow> None | Some b \<Rightarrow> Some (b64Encode b))"

lemma length_b64Alphabet: "length b64Alphabet = 64" "distinct b64Alphabet"
  by (simp_all add: b64Alphabet_def)

lemma b64Digit_in: "b64Digit n \<in> set b64Alphabet"
  unfolding b64Digit_def by (rule nth_mem) (simp add: length_b64Alphabet)

lemma b64Digit_neq: "c \<notin> set b64Alphabet \<Longrightarrow> b64Digit n \<noteq> c"
  using b64Digit_in by metis

lemma b64Digit_eq_iff: "m < 64 \<Longrightarrow> n < 64 \<Longrightarrow> b64Digit m = b64Digit n \<longleftrightarrow> m = n"
  unfolding b64Digit_def by (simp add: nth_eq_iff_index_eq length_b64Alphabet)

lemma b64Digit_pad [simp]: "b64Digit n \<noteq> CHR ''=''" "CHR ''='' \<noteq> b64Digit n"
  using b64Digit_neq [of "CHR ''=''" n] by (auto simp: b64Alphabet_def)

lemma set_b64Encode: "c \<in> set (b64Encode bs) \<Longrightarrow> c = CHR ''='' \<or> c \<in> set b64Alphabet"
  by (induction bs rule: b64Encode.induct) (auto simp: Let_def b64Digit_in)

lemma b64Encode_no_slash: "CHR ''/'' \<notin> set (b64Encode bs)"
  using set_b64Encode [of "CHR ''/''" bs] by (auto simp: b64Alphabet_def)

lemma length_b64Encode: "length (b64Encode bs) = 4 * ((length bs + 2) div 3)"
proof (induction bs rule: b64Encode.induct)
  case (4 x y z rest)
  have "(5 + length rest) div 3 = Suc ((2 + length rest) div 3)" by simp
  then show ?case using 4 by (simp add: Let_def)
qed (simp_all add: Let_def)

text \<open>Two digits read as one number, and the number as one base64 digit.\<close>

lemma nat_eq_parts: "a div n = b div n \<Longrightarrow> a mod n = b mod n \<Longrightarrow> a = (b :: nat)"
  by (metis div_mult_mod_eq)

lemma b64_two:
  assumes "b64Digit (u * k + v) = b64Digit (u' * k + v')" and "u * k + v < 64" and "u' * k + v' < 64"
    and "v < k" and "v' < k"
  shows "u = u' \<and> v = v'"
proof -
  have "u * k + v = u' * k + v'" using assms(1-3) by (simp add: b64Digit_eq_iff)
  moreover have "(u * k + v) div k = u" "(u * k + v) mod k = v"
    "(u' * k + v') div k = u'" "(u' * k + v') mod k = v'"
    using assms(4,5) by simp_all
  ultimately show ?thesis by metis
qed

lemma byte_parts:
  assumes "a < (256::nat)"
  shows "a div 4 < 64" and "a div 16 < 16" and "a div 64 < 4"
  using assms by (auto intro: less_mult_imp_div_less)

lemma b64_digit1:
  "a < 256 \<Longrightarrow> a' < 256 \<Longrightarrow> b64Digit (a div 4) = b64Digit (a' div 4) \<Longrightarrow> a div 4 = a' div 4"
  by (simp add: b64Digit_eq_iff byte_parts)

lemma b64_digit2:
  assumes "b < 256" and "b' < 256"
    and "b64Digit (a mod 4 * 16 + b div 16) = b64Digit (a' mod 4 * 16 + b' div 16)"
  shows "a mod 4 = a' mod 4 \<and> b div 16 = b' div 16"
proof (rule b64_two [OF assms(3)])
  show lt: "b div 16 < 16" "b' div 16 < 16" by (rule byte_parts; fact)+
  have "a mod 4 < 4" "a' mod 4 < 4" by simp_all
  with lt show "a mod 4 * 16 + b div 16 < 64" "a' mod 4 * 16 + b' div 16 < 64" by linarith+
qed

lemma b64_digit3:
  assumes "c < 256" and "c' < 256"
    and "b64Digit (b mod 16 * 4 + c div 64) = b64Digit (b' mod 16 * 4 + c' div 64)"
  shows "b mod 16 = b' mod 16 \<and> c div 64 = c' div 64"
proof (rule b64_two [OF assms(3)])
  show lt: "c div 64 < 4" "c' div 64 < 4" by (rule byte_parts; fact)+
  have "b mod 16 < 16" "b' mod 16 < 16" by simp_all
  with lt show "b mod 16 * 4 + c div 64 < 64" "b' mod 16 * 4 + c' div 64 < 64" by linarith+
qed

lemma b64_digit4: "b64Digit (c mod 64) = b64Digit (c' mod 64) \<Longrightarrow> c mod 64 = c' mod 64"
  by (simp add: b64Digit_eq_iff)

lemma char_eq_parts:
  fixes x x' :: char
  assumes "of_char x div n = (of_char x' div n :: nat)" and "of_char x mod n = (of_char x' mod n :: nat)"
  shows "x = x'"
proof -
  have "of_char x = (of_char x' :: nat)" by (rule nat_eq_parts [OF assms])
  then show ?thesis by (simp only: of_char_eq_iff)
qed

text \<open>No two random reads of the same length give the same token.\<close>

lemma b64Encode_inj: "length as = length bs \<Longrightarrow> b64Encode as = b64Encode bs \<Longrightarrow> as = bs"
proof (induction as arbitrary: bs rule: b64Encode.induct)
  case 1
  then show ?case by simp
next
  case (2 x)
  then obtain x' where bs: "bs = [x']" by (metis length_0_conv length_Suc_conv)
  let ?a = "of_char x :: nat" and ?a' = "of_char x' :: nat"
  have e: "b64Digit (?a div 4) = b64Digit (?a' div 4)"
      "b64Digit (?a mod 4 * 16 + 0 div 16) = b64Digit (?a' mod 4 * 16 + 0 div 16)"
    using "2.prems"(2) by (simp_all add: bs Let_def)
  have "?a div 4 = ?a' div 4" using b64_digit1 [OF _ _ e(1)] by simp
  moreover have "?a mod 4 = ?a' mod 4" using b64_digit2 [OF _ _ e(2)] by simp
  ultimately show ?case by (simp add: bs char_eq_parts)
next
  case (3 x y)
  then obtain x' y' where bs: "bs = [x', y']" by (metis length_0_conv length_Suc_conv)
  let ?a = "of_char x :: nat" and ?a' = "of_char x' :: nat" and ?b = "of_char y :: nat" and ?b' = "of_char y' :: nat"
  have e: "b64Digit (?a div 4) = b64Digit (?a' div 4)"
      "b64Digit (?a mod 4 * 16 + ?b div 16) = b64Digit (?a' mod 4 * 16 + ?b' div 16)"
      "b64Digit (?b mod 16 * 4 + 0 div 64) = b64Digit (?b' mod 16 * 4 + 0 div 64)"
    using "3.prems"(2) by (simp_all add: bs Let_def)
  have "?a div 4 = ?a' div 4" using b64_digit1 [OF _ _ e(1)] by simp
  moreover have "?a mod 4 = ?a' mod 4 \<and> ?b div 16 = ?b' div 16" using b64_digit2 [OF _ _ e(2)] by simp
  moreover have "?b mod 16 = ?b' mod 16" using b64_digit3 [OF _ _ e(3)] by simp
  ultimately show ?case using char_eq_parts [of x 4 x'] char_eq_parts [of y 16 y'] by (simp add: bs)
next
  case (4 x y z rest)
  then obtain x' y' z' rest' where bs: "bs = x' # y' # z' # rest'" by (metis length_Suc_conv)
  let ?a = "of_char x :: nat" and ?a' = "of_char x' :: nat" and ?b = "of_char y :: nat" and ?b' = "of_char y' :: nat"
    and ?c = "of_char z :: nat" and ?c' = "of_char z' :: nat"
  have e: "b64Digit (?a div 4) = b64Digit (?a' div 4)"
      "b64Digit (?a mod 4 * 16 + ?b div 16) = b64Digit (?a' mod 4 * 16 + ?b' div 16)"
      "b64Digit (?b mod 16 * 4 + ?c div 64) = b64Digit (?b' mod 16 * 4 + ?c' div 64)"
      "b64Digit (?c mod 64) = b64Digit (?c' mod 64)" "b64Encode rest = b64Encode rest'"
    using "4.prems"(2) by (simp_all add: bs Let_def)
  have "rest = rest'" using "4.IH" e(5) "4.prems"(1) by (simp add: bs)
  moreover have "?a div 4 = ?a' div 4" using b64_digit1 [OF _ _ e(1)] by simp
  moreover have "?a mod 4 = ?a' mod 4 \<and> ?b div 16 = ?b' div 16" using b64_digit2 [OF _ _ e(2)] by simp
  moreover have "?b mod 16 = ?b' mod 16 \<and> ?c div 64 = ?c' div 64" using b64_digit3 [OF _ _ e(3)] by simp
  moreover have "?c mod 64 = ?c' mod 64" by (rule b64_digit4 [OF e(4)])
  ultimately show ?case
    using char_eq_parts [of x 4 x'] char_eq_parts [of y 16 y'] char_eq_parts [of z 64 z'] by (simp add: bs)
qed

section \<open>Properties\<close>

text \<open>No randomness is lost: from the full reads the code makes, different random bytes give
  different tokens, grant ids and registration ids; a token has 44 characters and none of
  the identifiers that are put into a URL contains a slash.\<close>
theorem identifiers_injective:
  assumes "length as = length bs"
  shows "(generateToken (Some as) = generateToken (Some bs) \<longleftrightarrow> as = bs) \<and>
    (generateGrantID (Some as) = generateGrantID (Some bs) \<longleftrightarrow> as = bs) \<and>
    (length as = 8 \<longrightarrow> (generateRegistrationID (Some as) = generateRegistrationID (Some bs) \<longleftrightarrow> as = bs)) \<and>
    (length as = 32 \<longrightarrow> (\<exists>tok. generateToken (Some as) = Some tok \<and> length tok = 44)) \<and>
    (\<exists>i. generateGrantID (Some as) = Some i \<and> CHR ''/'' \<notin> set i)"
  using b64Encode_inj [OF assms] hexEncode_inj [of as bs] assms
  by (auto simp: generateToken_def generateGrantID_def generateRegistrationID_def generateRandomHex_def
      length_b64Encode b64Encode_no_slash)

lemma identifiers_injective_witness:
  "generateToken (Some (replicate 32 CHR ''a'')) \<noteq> generateToken (Some (replicate 32 CHR ''b''))"
  using identifiers_injective [of "replicate 32 CHR ''a''" "replicate 32 CHR ''b''"] by simp

end
