(* ===== verification/Broker.thy ===== *)
theory Broker
  imports TokenStore Identity
begin

text \<open>
  The capability broker, \<^verbatim>\<open>broker.go\<close>: the host's capabilities, the grants a plugin requests,
  and the HTTP handler that checks a grant and routes to the capability. A handler is a value
  of type \<open>'h\<close>, what it does with a request is not modelled. The grants are interpreted as a
  \<open>token_store\<close>.
\<close>

section \<open>Data\<close>

text \<open>The interface \<open>CapabilityHandler\<close>: the embedded \<open>http.Handler\<close> and the two methods.\<close>

record 'h CapabilityHandler =
  ch_Handler :: 'h
  ch_CapabilityType :: string
  ch_Version :: string

record 'h grantInfo =
  gi_grantID :: string
  gi_capabilityType :: string
  gi_token :: string
  gi_handler :: "'h CapabilityHandler"
  gi_issuedAt :: time
  gi_expiresAt :: time

record 'h CapabilityBroker =
  cb_capabilities :: "(string, 'h CapabilityHandler) gomap"
  cb_grants :: "(string, 'h grantInfo) gomap"
  cb_baseURL :: string
  cb_grantTTL :: duration

record Capability =
  cp_Type :: string
  cp_Version :: string
  cp_Endpoint :: string

record CapabilityGrant =
  cg_GrantId :: string
  cg_EndpointUrl :: string
  cg_BearerToken :: string
  cg_CapabilityType :: string
  cg_Version :: string

datatype BrokerError = CapabilityNotAvailable string | GrantIDFailed | GrantTokenFailed

definition DefaultCapabilityGrantTTL :: duration where
  "DefaultCapabilityGrantTTL = 1 * Hour"

section \<open>Operations\<close>

definition NewCapabilityBroker :: "string \<Rightarrow> 'h CapabilityBroker" where
  "NewCapabilityBroker baseURL =
     \<lparr>cb_capabilities = Map.empty, cb_grants = Map.empty, cb_baseURL = baseURL,
      cb_grantTTL = DefaultCapabilityGrantTTL\<rparr>"

definition RegisterCapability :: "'h CapabilityHandler \<Rightarrow> 'h CapabilityBroker \<Rightarrow> 'h CapabilityBroker" where
  "RegisterCapability handler b =
     b\<lparr>cb_capabilities := (cb_capabilities b)(ch_CapabilityType handler \<mapsto> handler)\<rparr>"

definition ListCapabilities :: "string list \<Rightarrow> 'h CapabilityBroker \<Rightarrow> Capability list" where
  "ListCapabilities order b =
     map (\<lambda>handler. \<lparr>cp_Type = ch_CapabilityType handler, cp_Version = ch_Version handler,
                     cp_Endpoint = cb_baseURL b @ ''/broker''\<rparr>)
       (List.map_filter (cb_capabilities b) order)"

definition storeGrant :: "'h grantInfo \<Rightarrow> 'h CapabilityBroker \<Rightarrow> 'h CapabilityBroker" where
  "storeGrant grant b = b\<lparr>cb_grants := (cb_grants b)(gi_grantID grant \<mapsto> grant)\<rparr>"

definition grantURL :: "'h CapabilityBroker \<Rightarrow> string \<Rightarrow> string \<Rightarrow> string" where
  "grantURL b capabilityType grantID = cb_baseURL b @ ''/capabilities/'' @ capabilityType @ ''/'' @ grantID"

text \<open>\<open>rnd1\<close> and \<open>rnd2\<close> are the random bytes of the grant id and of the token.\<close>

definition RequestCapability ::
    "random_read \<Rightarrow> random_read \<Rightarrow> time \<Rightarrow> string \<Rightarrow> 'h CapabilityBroker \<Rightarrow>
     'h CapabilityBroker \<times> (BrokerError connect_error + CapabilityGrant)" where
  "RequestCapability rnd1 rnd2 now capabilityType b =
     (case cb_capabilities b capabilityType of
        None \<Rightarrow> (b, Inl (NewError CodeNotFound (CapabilityNotAvailable capabilityType)))
      | Some handler \<Rightarrow>
          (case generateGrantID rnd1 of
             None \<Rightarrow> (b, Inl (NewError CodeInternal GrantIDFailed))
           | Some grantID \<Rightarrow>
               (case generateToken rnd2 of
                  None \<Rightarrow> (b, Inl (NewError CodeInternal GrantTokenFailed))
                | Some token \<Rightarrow>
                    (storeGrant
                       \<lparr>gi_grantID = grantID, gi_capabilityType = capabilityType, gi_token = token,
                        gi_handler = handler, gi_issuedAt = now,
                        gi_expiresAt = time_add now (cb_grantTTL b)\<rparr> b,
                     Inr \<lparr>cg_GrantId = grantID, cg_EndpointUrl = grantURL b capabilityType grantID,
                          cg_BearerToken = token, cg_CapabilityType = capabilityType,
                          cg_Version = ch_Version handler\<rparr>))))"

text \<open>The part of the handler that holds the lock and validates the grant.\<close>

datatype GrantCheck = InvalidGrantID | GrantExpired | InvalidToken

definition checkGrant ::
    "time \<Rightarrow> string \<Rightarrow> string \<Rightarrow> 'h CapabilityBroker \<Rightarrow> 'h CapabilityBroker \<times> (GrantCheck + 'h grantInfo)" where
  "checkGrant now grantID token b =
     (case cb_grants b grantID of
        None \<Rightarrow> (b, Inl InvalidGrantID)
      | Some grant \<Rightarrow>
          if time_after now (gi_expiresAt grant)
          then (b\<lparr>cb_grants := (cb_grants b)(grantID := None)\<rparr>, Inl GrantExpired)
          else if length (gi_token grant) \<noteq> length token then (b, Inl InvalidToken)
          else if constantTimeCompare (gi_token grant) token \<noteq> 1 then (b, Inl InvalidToken)
          else (b, Inr grant))"

definition grantMessage :: "GrantCheck \<Rightarrow> string" where
  "grantMessage c = (case c of InvalidGrantID \<Rightarrow> ''invalid grant ID'' | GrantExpired \<Rightarrow> ''grant expired''
                             | InvalidToken \<Rightarrow> ''invalid token'')"

text \<open>A routed request: the capability's handler and the path it sees.\<close>

definition handleCapabilityRequest ::
    "time \<Rightarrow> string \<Rightarrow> http_header \<Rightarrow> 'h CapabilityBroker \<Rightarrow>
     'h CapabilityBroker \<times> ('h CapabilityHandler \<times> string) http_outcome" where
  "handleCapabilityRequest now path header b =
     (let parts = splitAll CHR ''/'' (trimPrefix path ''/capabilities/'')
      in if length parts < 2 then (b, HttpError StatusBadRequest ''invalid capability path'')
         else
           let grantID = parts ! 1
           in case bearerToken header of
                None \<Rightarrow> (b, HttpError StatusUnauthorized ''missing or invalid authorization header'')
              | Some token \<Rightarrow>
                  (case checkGrant now grantID token b of
                     (b', Inl e) \<Rightarrow> (b', HttpError StatusUnauthorized (grantMessage e))
                   | (b', Inr grant) \<Rightarrow>
                       (b', Forward (gi_handler grant,
                          if length parts > 2 then ''/'' @ joinStr ''/'' (drop 2 parts) else ''/''))))"

section \<open>Grants as a token store\<close>

definition grantSecret :: "'h CapabilityBroker \<Rightarrow> string \<Rightarrow> (string \<times> time) option" where
  "grantSecret b i = map_option (\<lambda>g. (gi_token g, gi_expiresAt g)) (cb_grants b i)"

definition grantAccepted :: "time \<Rightarrow> string \<Rightarrow> string \<Rightarrow> 'h CapabilityBroker \<Rightarrow> 'h CapabilityBroker \<times> bool" where
  "grantAccepted now i tok b = map_prod id (\<lambda>res. case res of Inl _ \<Rightarrow> False | Inr _ \<Rightarrow> True) (checkGrant now i tok b)"

lemma checkGrant_iff:
  "snd (checkGrant now i tok b) = Inr g \<longleftrightarrow> cb_grants b i = Some g \<and> gi_token g = tok \<and> now \<le> gi_expiresAt g"
  by (auto simp: checkGrant_def time_after_def constantTimeCompare_def split: option.splits)

lemma checkGrant_grants:
  "cb_grants (fst (checkGrant now i tok b)) j =
     (if j = i \<and> (\<exists>g. cb_grants b i = Some g \<and> gi_expiresAt g < now) then None else cb_grants b j)"
  by (auto simp: checkGrant_def time_after_def split: option.splits)

lemma checkGrant_frame:
  "cb_capabilities (fst (checkGrant now i tok b)) = cb_capabilities b"
  "cb_baseURL (fst (checkGrant now i tok b)) = cb_baseURL b"
  "cb_grantTTL (fst (checkGrant now i tok b)) = cb_grantTTL b"
  by (auto simp: checkGrant_def split: option.splits)

interpretation grants: token_store grantSecret
  "\<lambda>i tok exp. storeGrant \<lparr>gi_grantID = i, gi_capabilityType = c, gi_token = tok, gi_handler = h,
                          gi_issuedAt = t, gi_expiresAt = exp\<rparr>"
  grantAccepted for c h t
proof unfold_locales
  fix i tok exp s j now
  show "grantSecret (storeGrant \<lparr>gi_grantID = i, gi_capabilityType = c, gi_token = tok, gi_handler = h,
                          gi_issuedAt = t, gi_expiresAt = exp\<rparr> s) j =
      (if j = i then Some (tok, exp) else grantSecret s j)"
    by (simp add: grantSecret_def storeGrant_def)
  show "snd (grantAccepted now i tok s) \<longleftrightarrow> (\<exists>exp. grantSecret s i = Some (tok, exp) \<and> now \<le> exp)"
  proof -
    have "snd (grantAccepted now i tok s) \<longleftrightarrow> (\<exists>g. snd (checkGrant now i tok s) = Inr g)"
      by (cases "checkGrant now i tok s") (auto simp: grantAccepted_def split: sum.splits)
    then show ?thesis by (auto simp: checkGrant_iff grantSecret_def)
  qed
  show "grantSecret (fst (grantAccepted now i tok s)) j =
      (if j = i \<and> (\<exists>t exp. grantSecret s i = Some (t, exp) \<and> exp < now) then None else grantSecret s j)"
    by (auto simp: grantAccepted_def grantSecret_def checkGrant_grants)
qed

section \<open>From the grant to the capability\<close>

lemma capability_parts:
  assumes "CHR ''/'' \<notin> set c" and "CHR ''/'' \<notin> set i"
  shows "splitAll CHR ''/'' (trimPrefix (''/capabilities/'' @ c @ ''/'' @ i) ''/capabilities/'') = [c, i]"
    and "splitAll CHR ''/'' (trimPrefix (''/capabilities/'' @ c @ ''/'' @ i @ ''/'' @ rest) ''/capabilities/'') =
         c # i # splitAll CHR ''/'' rest"
  unfolding trimPrefix_append using assms by simp_all

text \<open>The request a plugin makes with its grant reaches the capability's handler.\<close>

lemma handleCapabilityRequest_granted:
  assumes "CHR ''/'' \<notin> set c" and "CHR ''/'' \<notin> set i"
    and "bearerToken h = Some tok" and "cb_grants b i = Some g" and "gi_token g = tok"
  shows "handleCapabilityRequest now (''/capabilities/'' @ c @ ''/'' @ i @ ''/'' @ rest) h b =
    (if now \<le> gi_expiresAt g then (b, Forward (gi_handler g, ''/'' @ rest))
     else (b\<lparr>cb_grants := (cb_grants b)(i := None)\<rparr>, HttpError StatusUnauthorized ''grant expired''))"
proof -
  have "checkGrant now i tok b =
      (if now \<le> gi_expiresAt g then (b, Inr g)
       else (b\<lparr>cb_grants := (cb_grants b)(i := None)\<rparr>, Inl GrantExpired))"
    using assms(4,5) by (simp add: checkGrant_def time_after_def constantTimeCompare_def)
  then show ?thesis
    unfolding handleCapabilityRequest_def capability_parts(2) [OF assms(1,2)]
    by (simp add: assms(3) grantMessage_def joinStr_splitAll)
qed

lemma RequestCapability_granted:
  assumes "RequestCapability rnd1 rnd2 now c b = (b', Inr gr)"
  shows "\<exists>g handler. cb_grants b' = (cb_grants b)(cg_GrantId gr \<mapsto> g) \<and> cb_capabilities b c = Some handler \<and>
    gi_handler g = handler \<and> gi_token g = cg_BearerToken gr \<and> gi_grantID g = cg_GrantId gr \<and>
    gi_expiresAt g = now + cb_grantTTL b \<and> cg_EndpointUrl gr = grantURL b c (cg_GrantId gr) \<and>
    CHR ''/'' \<notin> set (cg_GrantId gr) \<and> cb_capabilities b' = cb_capabilities b"
  using assms
  by (auto simp: RequestCapability_def storeGrant_def generateGrantID_def time_add_def b64Encode_no_slash
      split: option.splits)

section \<open>Properties\<close>

text \<open>C13. A granted capability: requests to the URL of the grant (behind the broker's base URL) with its
  bearer token reach the capability's handler, with the rest of the path, up to the expiry of
  the grant; after it, or with any other token, the answer is 401.\<close>
theorem capability_grant_usable:
  assumes "RequestCapability rnd1 rnd2 now c b = (b', Inr gr)" and "CHR ''/'' \<notin> set c"
    and "bearerToken header = Some tok"
  shows "\<exists>path handler. cg_EndpointUrl gr = cb_baseURL b @ path \<and> cb_capabilities b c = Some handler \<and>
    snd (handleCapabilityRequest t (path @ ''/'' @ rest) header b') =
      (if tok = cg_BearerToken gr \<and> t \<le> now + cb_grantTTL b then Forward (handler, ''/'' @ rest)
       else HttpError StatusUnauthorized (if t \<le> now + cb_grantTTL b then ''invalid token'' else ''grant expired''))"
proof -
  obtain g handler where g: "cb_grants b' = (cb_grants b)(cg_GrantId gr \<mapsto> g)" "cb_capabilities b c = Some handler"
    "gi_handler g = handler" "gi_token g = cg_BearerToken gr" "gi_expiresAt g = now + cb_grantTTL b"
    "cg_EndpointUrl gr = grantURL b c (cg_GrantId gr)" "CHR ''/'' \<notin> set (cg_GrantId gr)"
    using RequestCapability_granted [OF assms(1)] by blast
  let ?path = "''/capabilities/'' @ c @ ''/'' @ cg_GrantId gr"
  have "snd (handleCapabilityRequest t (?path @ ''/'' @ rest) header b') =
      (if tok = cg_BearerToken gr \<and> t \<le> now + cb_grantTTL b then Forward (handler, ''/'' @ rest)
       else HttpError StatusUnauthorized (if t \<le> now + cb_grantTTL b then ''invalid token'' else ''grant expired''))"
  proof -
    have "checkGrant t (cg_GrantId gr) tok b' =
       (if now + cb_grantTTL b < t then (b'\<lparr>cb_grants := (cb_grants b')(cg_GrantId gr := None)\<rparr>, Inl GrantExpired)
        else if tok = cg_BearerToken gr then (b', Inr g) else (b', Inl InvalidToken))"
      using g by (auto simp: checkGrant_def time_after_def constantTimeCompare_def)
    then show ?thesis
      unfolding handleCapabilityRequest_def append_assoc capability_parts(2) [OF assms(2) g(7)]
      by (auto simp: assms(3) grantMessage_def joinStr_splitAll g(3))
  qed
  then show ?thesis using g(2,6) by (intro exI [of _ ?path] exI [of _ handler]) (simp add: grantURL_def)
qed

lemma capability_grant_usable_witness:
  "\<exists>b' gr path. RequestCapability (Some ''0123456789abcdef'') (Some ''0123456789abcdef0123456789abcdef'') 7 ''logger''
        (RegisterCapability \<lparr>ch_Handler = (), ch_CapabilityType = ''logger'', ch_Version = ''1.0.0''\<rparr>
          (NewCapabilityBroker ''http://h'')) = (b', Inr gr) \<and>
     snd (handleCapabilityRequest (7 + Hour) (path @ ''/Log'')
        (header_set Map.empty ''Authorization'' (''Bearer '' @ cg_BearerToken gr)) b') =
       Forward (\<lparr>ch_Handler = (), ch_CapabilityType = ''logger'', ch_Version = ''1.0.0''\<rparr>, ''/Log'')"
proof -
  let ?h = "\<lparr>ch_Handler = (), ch_CapabilityType = ''logger'', ch_Version = ''1.0.0''\<rparr>"
  let ?b = "RegisterCapability ?h (NewCapabilityBroker ''http://h'')"
  have b: "cb_capabilities ?b ''logger'' = Some ?h" "cb_grantTTL ?b = 1 * Hour"
    by (simp_all add: RegisterCapability_def NewCapabilityBroker_def DefaultCapabilityGrantTTL_def)
  then obtain b' gr where gr: "RequestCapability (Some ''0123456789abcdef'') (Some ''0123456789abcdef0123456789abcdef'') 7 ''logger'' ?b =
      (b', Inr gr)"
    by (auto simp: RequestCapability_def generateGrantID_def generateToken_def)
  show ?thesis
    using capability_grant_usable [OF gr, of "header_set Map.empty ''Authorization'' (''Bearer '' @ cg_BearerToken gr)"
        "cg_BearerToken gr" "7 + Hour" "''Log''"] gr b bearerToken_set [of Map.empty "cg_BearerToken gr"]
    by auto
qed

end
