(* ===== verification/PluginSet.thy ===== *)
theory PluginSet
  imports GoRuntime
begin

text \<open>
  Plugins and plugin sets, \<^verbatim>\<open>plugin.go\<close>. A \<open>Plugin\<close> is an interface: the model has a field per
  method, the metadata as a value (the method takes no argument), the two constructors as
  functions of the implementation and of the base URL and HTTP client. Implementations and
  clients are values of type \<open>'a\<close> (Go's \<open>any\<close>), handlers of type \<open>'h\<close>.
\<close>

section \<open>Data\<close>

record ServiceDeclaration =
  sd_Type :: string
  sd_Version :: string
  sd_Path :: string

record ServiceDependency =
  dep_Type :: string
  dep_MinVersion :: string
  dep_RequiredForStartup :: bool
  dep_WatchForChanges :: bool

record PluginMetadata =
  pm_Name :: string
  pm_Path :: string
  pm_Version :: string
  pm_Provides :: "ServiceDeclaration list"
  pm_Requires :: "ServiceDependency list"

text \<open>The clients the code makes are all \<open>&http.Client{}\<close>; a nil one is \<open>None\<close>.\<close>

type_synonym http_client = "unit option"

record ('a, 'h) Plugin =
  pl_Metadata :: PluginMetadata
  pl_ConnectServer :: "'a \<Rightarrow> string + string \<times> 'h"
  pl_ConnectClient :: "string \<Rightarrow> http_client \<Rightarrow> string + 'a"

type_synonym ('a, 'h) PluginSet = "(string, ('a, 'h) Plugin) gomap"

datatype PluginSetError =
    ErrEmptyPluginSet
  | PathConflict string string string
  | NameMismatch string string

section \<open>Operations\<close>

definition PluginSet_Get :: "('a, 'h) PluginSet \<Rightarrow> string \<Rightarrow> ('a, 'h) Plugin option" where
  "PluginSet_Get ps name = ps name"

text \<open>\<open>order\<close> is the order of the range loop in each of the two functions.\<close>

definition PluginSet_Keys :: "string list \<Rightarrow> ('a, 'h) PluginSet \<Rightarrow> string list" where
  "PluginSet_Keys order ps = sort order"

fun validatePlugins ::
    "('a, 'h) PluginSet \<Rightarrow> string list \<Rightarrow> (string, string) gomap \<Rightarrow> PluginSetError option" where
  "validatePlugins ps [] paths = None"
| "validatePlugins ps (name # rest) paths =
     (case ps name of
        None \<Rightarrow> validatePlugins ps rest paths
      | Some plugin \<Rightarrow>
          let metadata = pl_Metadata plugin
          in (case paths (pm_Path metadata) of
               Some existing \<Rightarrow> Some (PathConflict name existing (pm_Path metadata))
             | None \<Rightarrow>
                 if pm_Name metadata \<noteq> name then Some (NameMismatch name (pm_Name metadata))
                 else validatePlugins ps rest (paths(pm_Path metadata \<mapsto> name))))"

definition PluginSet_Validate :: "string list \<Rightarrow> ('a, 'h) PluginSet \<Rightarrow> PluginSetError option" where
  "PluginSet_Validate order ps =
     (if length order = 0 then Some ErrEmptyPluginSet else validatePlugins ps order Map.empty)"

section \<open>What validation means\<close>

definition path_of :: "('a, 'h) PluginSet \<Rightarrow> string \<Rightarrow> string" where
  "path_of ps name = pm_Path (pl_Metadata (the (ps name)))"

definition name_of :: "('a, 'h) PluginSet \<Rightarrow> string \<Rightarrow> string" where
  "name_of ps name = pm_Name (pl_Metadata (the (ps name)))"

lemma inj_on_split:
  assumes "n \<notin> N" and "f n \<notin> D"
  shows "inj_on f N \<and> (\<forall>m\<in>N. f m \<notin> insert (f n) D) \<longleftrightarrow>
         inj_on f (insert n N) \<and> (\<forall>m\<in>insert n N. f m \<notin> D)"
  using assms by (auto simp: inj_on_insert) (metis image_eqI)

lemma validatePlugins_ok:
  assumes "distinct ns" and "set ns \<subseteq> dom ps"
  shows "validatePlugins ps ns paths = None \<longleftrightarrow>
    (\<forall>n\<in>set ns. name_of ps n = n) \<and> inj_on (path_of ps) (set ns) \<and>
    (\<forall>n\<in>set ns. path_of ps n \<notin> dom paths)"
  using assms
proof (induction ns arbitrary: paths)
  case Nil
  then show ?case by simp
next
  case (Cons n ns)
  obtain p where p: "ps n = Some p" using Cons.prems(2) by auto
  have n: "path_of ps n = pm_Path (pl_Metadata p)" "name_of ps n = pm_Name (pl_Metadata p)"
    by (simp_all add: path_of_def name_of_def p)
  have "n \<notin> set ns" "distinct ns" "set ns \<subseteq> dom ps" using Cons.prems by auto
  note ih = Cons.IH [OF this(2,3), of "paths(path_of ps n \<mapsto> n)"]
  show ?case
  proof (cases "path_of ps n \<in> dom paths")
    case True
    then show ?thesis by (auto simp: p n Let_def dom_def)
  next
    case False
    then have "paths (path_of ps n) = None" by auto
    then have "validatePlugins ps (n # ns) paths = None \<longleftrightarrow>
        name_of ps n = n \<and> validatePlugins ps ns (paths(path_of ps n \<mapsto> n)) = None"
      by (simp add: p n Let_def)
    then show ?thesis
      using inj_on_split [of n _ \<open>path_of ps\<close>, OF \<open>n \<notin> set ns\<close> False] by (simp only: ih dom_fun_upd list.set) auto
  qed
qed

lemma PluginSet_Validate_ok:
  "iter_order ps order \<Longrightarrow>
   PluginSet_Validate order ps = None \<longleftrightarrow>
     dom ps \<noteq> {} \<and> (\<forall>n\<in>dom ps. name_of ps n = n) \<and> inj_on (path_of ps) (dom ps)"
proof -
  assume io: "iter_order ps order"
  have e: "dom ps = {} \<longleftrightarrow> order = []" using iter_order_dom [OF io] by (metis set_empty)
  show ?thesis
    unfolding PluginSet_Validate_def e
    using validatePlugins_ok [of order ps Map.empty] io by (simp add: iter_order_def)
qed

lemma PluginSet_Keys_order:
  "iter_order ps order \<Longrightarrow> iter_order ps order' \<Longrightarrow> PluginSet_Keys order ps = PluginSet_Keys order' ps"
  unfolding PluginSet_Keys_def
  by (rule properties_for_sort) (simp_all, metis iter_order_mset)

lemma set_PluginSet_Keys: "iter_order ps order \<Longrightarrow> set (PluginSet_Keys order ps) = dom ps"
  by (auto simp: PluginSet_Keys_def)

end
