(* ===== verification/Validation.thy ===== *)
theory Validation
  imports Prelude
begin

text \<open>
  Input validation, \<^verbatim>\<open>validation.go\<close>. The two regular expressions are data of a small
  expression type with a derivative matcher, proved to decide its language; each validator
  is the code's chain of checks and returns the first error, \<open>None\<close> for Go's \<open>nil\<close>. The
  characterisations at the end say exactly which inputs each validator lets through.
\<close>

section \<open>Regular expressions\<close>

text \<open>
  The fragment of package \<open>regexp\<close> the two patterns use. Both are anchored (\<open>^...$\<close>, without
  the multi-line flag), so \<open>MatchString\<close> asks for a match of the whole string; all classes are
  ASCII, so matching byte by byte agrees with matching rune by rune.
\<close>

datatype rexp =
    Empty | Eps | Class "char \<Rightarrow> bool" | Alt rexp rexp | Seq rexp rexp | Star rexp

definition Plus :: "rexp \<Rightarrow> rexp" where "Plus r = Seq r (Star r)"
definition Opt :: "rexp \<Rightarrow> rexp" where "Opt r = Alt Eps r"
definition Lit :: "char \<Rightarrow> rexp" where "Lit c = Class (\<lambda>x. x = c)"

fun nullable :: "rexp \<Rightarrow> bool" where
  "nullable Empty = False"
| "nullable Eps = True"
| "nullable (Class P) = False"
| "nullable (Alt r s) = (nullable r \<or> nullable s)"
| "nullable (Seq r s) = (nullable r \<and> nullable s)"
| "nullable (Star r) = True"

fun deriv :: "char \<Rightarrow> rexp \<Rightarrow> rexp" where
  "deriv c Empty = Empty"
| "deriv c Eps = Empty"
| "deriv c (Class P) = (if P c then Eps else Empty)"
| "deriv c (Alt r s) = Alt (deriv c r) (deriv c s)"
| "deriv c (Seq r s) =
     (if nullable r then Alt (Seq (deriv c r) s) (deriv c s) else Seq (deriv c r) s)"
| "deriv c (Star r) = Seq (deriv c r) (Star r)"

definition matchString :: "rexp \<Rightarrow> string \<Rightarrow> bool" where
  "matchString r s = nullable (fold deriv s r)"

inductive_set star :: "string set \<Rightarrow> string set" for A where
  star_Nil: "[] \<in> star A"
| star_append: "a \<in> A \<Longrightarrow> b \<in> star A \<Longrightarrow> a @ b \<in> star A"

fun lang :: "rexp \<Rightarrow> string set" where
  "lang Empty = {}"
| "lang Eps = {[]}"
| "lang (Class P) = {[c] | c. P c}"
| "lang (Alt r s) = lang r \<union> lang s"
| "lang (Seq r s) = {a @ b | a b. a \<in> lang r \<and> b \<in> lang s}"
| "lang (Star r) = star (lang r)"

lemma nullable_lang: "nullable r \<longleftrightarrow> [] \<in> lang r"
  by (induction r) (auto intro: star.intros)

lemma star_Cons_iff: "c # s \<in> star A \<longleftrightarrow> (\<exists>a b. s = a @ b \<and> c # a \<in> A \<and> b \<in> star A)"
proof
  show "c # s \<in> star A \<Longrightarrow> \<exists>a b. s = a @ b \<and> c # a \<in> A \<and> b \<in> star A"
    by (induction "c # s" arbitrary: s rule: star.induct) (auto simp: append_eq_Cons_conv)
  show "\<exists>a b. s = a @ b \<and> c # a \<in> A \<and> b \<in> star A \<Longrightarrow> c # s \<in> star A"
    using star_append [of "c # _" A] by fastforce
qed

lemma lang_deriv: "s \<in> lang (deriv c r) \<longleftrightarrow> c # s \<in> lang r"
proof (induction r arbitrary: s)
  case (Seq r1 r2)
  have "c # s \<in> lang (Seq r1 r2) \<longleftrightarrow>
      (\<exists>a b. s = a @ b \<and> c # a \<in> lang r1 \<and> b \<in> lang r2) \<or> ([] \<in> lang r1 \<and> c # s \<in> lang r2)"
    by (auto simp: Cons_eq_append_conv)
  then show ?case using Seq by (auto simp: nullable_lang)
qed (auto simp: star_Cons_iff)

theorem matchString_lang: "matchString r s \<longleftrightarrow> s \<in> lang r"
proof -
  have "[] \<in> lang (fold deriv s r) \<longleftrightarrow> s \<in> lang r"
    by (induction s arbitrary: r) (auto simp: lang_deriv)
  then show ?thesis by (simp add: matchString_def nullable_lang)
qed

lemma star_Class: "s \<in> star {[c] | c. P c} \<longleftrightarrow> (\<forall>x\<in>set s. P x)"
proof
  show "s \<in> star {[c] | c. P c} \<Longrightarrow> \<forall>x\<in>set s. P x"
    by (induction rule: star.induct) auto
  show "\<forall>x\<in>set s. P x \<Longrightarrow> s \<in> star {[c] | c. P c}"
  proof (induction s)
    case (Cons a s)
    then have "[a] @ s \<in> star {[c] | c. P c}" by (intro star_append) auto
    then show ?case by simp
  qed (rule star_Nil)
qed

lemma lang_Plus_Class: "lang (Plus (Class P)) = {s. s \<noteq> [] \<and> (\<forall>x\<in>set s. P x)}"
  by (auto simp: Plus_def star_Class) (metis append_Cons append_Nil list.set_intros neq_Nil_conv)

lemma lang_SeqE:
  assumes "s \<in> lang (Seq r1 r2)"
  obtains a b where "s = a @ b" and "a \<in> lang r1" and "b \<in> lang r2"
  using assms by auto

lemma lang_SeqI: "a \<in> lang r1 \<Longrightarrow> b \<in> lang r2 \<Longrightarrow> a @ b \<in> lang (Seq r1 r2)"
  by auto

lemma lang_Class_Seq: "lang (Seq (Class P) r) = {c # t | c t. P c \<and> t \<in> lang r}"
proof (intro set_eqI iffI)
  fix s
  assume "s \<in> lang (Seq (Class P) r)"
  then show "s \<in> {c # t | c t. P c \<and> t \<in> lang r}" by (rule lang_SeqE) auto
next
  fix s
  assume "s \<in> {c # t | c t. P c \<and> t \<in> lang r}"
  then obtain c t where s: "s = c # t" "P c" "t \<in> lang r" by auto
  then have "[c] @ t \<in> lang (Seq (Class P) r)" by (intro lang_SeqI) simp_all
  then show "s \<in> lang (Seq (Class P) r)" using s by (simp del: lang.simps)
qed

section \<open>The patterns and the bounds\<close>

definition isLetter :: "char \<Rightarrow> bool" where
  "isLetter c \<longleftrightarrow> (let n = of_char c :: nat in 65 \<le> n \<and> n \<le> 90 \<or> 97 \<le> n \<and> n \<le> 122)"

definition isDigit :: "char \<Rightarrow> bool" where
  "isDigit c \<longleftrightarrow> (let n = of_char c :: nat in 48 \<le> n \<and> n \<le> 57)"

definition isKeyChar :: "char \<Rightarrow> bool" where
  "isKeyChar c \<longleftrightarrow> isLetter c \<or> isDigit c \<or> c \<in> set ''_.-''"

definition isPreChar :: "char \<Rightarrow> bool" where
  "isPreChar c \<longleftrightarrow> isLetter c \<or> isDigit c \<or> c \<in> set ''.-''"

definition MaxMetadataEntries :: nat where "MaxMetadataEntries = 100"
definition MaxMetadataKeyLen :: nat where "MaxMetadataKeyLen = 256"
definition MaxMetadataValueLen :: nat where "MaxMetadataValueLen = 4096"
definition MaxServiceTypeLen :: nat where "MaxServiceTypeLen = 128"
definition MaxSelfIDLen :: nat where "MaxSelfIDLen = 128"
definition MaxVersionLen :: nat where "MaxVersionLen = 64"

lemmas max_defs = MaxMetadataEntries_def MaxMetadataKeyLen_def MaxMetadataValueLen_def
  MaxServiceTypeLen_def MaxSelfIDLen_def MaxVersionLen_def

definition validKeyPattern :: rexp where
  "validKeyPattern = Seq (Class isLetter) (Star (Class isKeyChar))"

definition validVersionPattern :: rexp where
  "validVersionPattern =
     Seq (Plus (Class isDigit)) (Seq (Lit CHR ''.'') (Seq (Plus (Class isDigit))
       (Seq (Lit CHR ''.'') (Seq (Plus (Class isDigit))
         (Opt (Seq (Lit CHR ''-'') (Plus (Class isPreChar))))))))"

section \<open>The validators\<close>

datatype ValidationError =
    TooManyMetadataEntries nat | MetadataKeyEmpty | MetadataKeyTooLong nat
  | MetadataKeyInvalid string | MetadataValueTooLong string nat | MetadataNullBytes
  | ServiceTypeEmpty | ServiceTypeTooLong nat | ServiceTypeInvalid string
  | ServiceTypePathTraversal string | ServiceTypeNullBytes
  | SelfIDEmpty | SelfIDTooLong nat | SelfIDInvalid string | SelfIDNullBytes
  | VersionEmpty | VersionTooLong nat | VersionInvalid string | VersionNullBytes
  | EndpointPathEmpty | EndpointPathNoSlash string | EndpointPathTooLong nat | EndpointPathNullBytes

definition NUL :: char where "NUL = CHR 0x00"

text \<open>The body of the loop over the entries.\<close>

definition validateEntry :: "string \<Rightarrow> string \<Rightarrow> ValidationError option" where
  "validateEntry key val =
     (if key = '''' then Some MetadataKeyEmpty
      else if length key > MaxMetadataKeyLen then Some (MetadataKeyTooLong (length key))
      else if \<not> matchString validKeyPattern key then Some (MetadataKeyInvalid key)
      else if length val > MaxMetadataValueLen then Some (MetadataValueTooLong key (length val))
      else if containsStr key [NUL] \<or> containsStr val [NUL] then Some MetadataNullBytes
      else None)"

fun validateEntries :: "(string, string) gomap \<Rightarrow> string list \<Rightarrow> ValidationError option" where
  "validateEntries m [] = None"
| "validateEntries m (key # keys) =
     (case validateEntry key (get_string m key) of Some e \<Rightarrow> Some e | None \<Rightarrow> validateEntries m keys)"

text \<open>\<open>keys\<close> is the order of the range loop, so its length is \<open>len(metadata)\<close>.\<close>

definition ValidateMetadata :: "(string, string) gomap \<Rightarrow> string list \<Rightarrow> ValidationError option" where
  "ValidateMetadata metadata keys =
     (if length keys > MaxMetadataEntries then Some (TooManyMetadataEntries (length keys))
      else validateEntries metadata keys)"

definition ValidateServiceType :: "string \<Rightarrow> ValidationError option" where
  "ValidateServiceType serviceType =
     (if serviceType = '''' then Some ServiceTypeEmpty
      else if length serviceType > MaxServiceTypeLen then Some (ServiceTypeTooLong (length serviceType))
      else if \<not> matchString validKeyPattern serviceType then Some (ServiceTypeInvalid serviceType)
      else if containsStr serviceType ''..'' \<or> containsStr serviceType ''/'' \<or>
              containsStr serviceType [CHR 0x5C] then Some (ServiceTypePathTraversal serviceType)
      else if containsStr serviceType [NUL] then Some ServiceTypeNullBytes
      else None)"

definition ValidateSelfID :: "string \<Rightarrow> ValidationError option" where
  "ValidateSelfID selfID =
     (if selfID = '''' then Some SelfIDEmpty
      else if length selfID > MaxSelfIDLen then Some (SelfIDTooLong (length selfID))
      else if \<not> matchString validKeyPattern selfID then Some (SelfIDInvalid selfID)
      else if containsStr selfID [NUL] then Some SelfIDNullBytes
      else None)"

definition ValidateVersion :: "string \<Rightarrow> ValidationError option" where
  "ValidateVersion version =
     (if version = '''' then Some VersionEmpty
      else if length version > MaxVersionLen then Some (VersionTooLong (length version))
      else if \<not> matchString validVersionPattern version then Some (VersionInvalid version)
      else if containsStr version [NUL] then Some VersionNullBytes
      else None)"

definition ValidateEndpointPath :: "string \<Rightarrow> ValidationError option" where
  "ValidateEndpointPath path =
     (if path = '''' then Some EndpointPathEmpty
      else if \<not> hasPrefix path ''/'' then Some (EndpointPathNoSlash path)
      else if length path > 256 then Some (EndpointPathTooLong (length path))
      else if containsStr path [NUL] then Some EndpointPathNullBytes
      else None)"

section \<open>What the patterns match\<close>

lemma key_pattern:
  "matchString validKeyPattern s \<longleftrightarrow> (\<exists>c t. s = c # t \<and> isLetter c \<and> (\<forall>x\<in>set t. isKeyChar x))"
  by (auto simp: matchString_lang validKeyPattern_def lang_Class_Seq star_Class simp del: lang.simps(5))

lemma letter_key: "isLetter c \<Longrightarrow> isKeyChar c"
  by (simp add: isKeyChar_def)

lemma key_pattern_chars: "matchString validKeyPattern s \<Longrightarrow> x \<in> set s \<Longrightarrow> isKeyChar x"
  by (auto simp: key_pattern letter_key)

lemma isKeyChar_not [simp]:
  "\<not> isKeyChar CHR ''/''" "\<not> isKeyChar CHR 0x5C" "\<not> isKeyChar NUL" "\<not> isKeyChar CHR '' ''"
  by (simp_all add: isKeyChar_def isLetter_def isDigit_def NUL_def)

lemma isPreChar_not [simp]: "\<not> isPreChar NUL" "\<not> isDigit NUL"
  by (simp_all add: isPreChar_def isLetter_def isDigit_def NUL_def)

text \<open>A semantic version: three dot-separated numbers and an optional pre-release tail.\<close>

definition semver :: "string \<Rightarrow> bool" where
  "semver s \<longleftrightarrow> (\<exists>a b c p. s = a @ ''.'' @ b @ ''.'' @ c @ p \<and>
     (\<forall>n\<in>{a, b, c}. n \<noteq> [] \<and> (\<forall>x\<in>set n. isDigit x)) \<and>
     (p = [] \<or> (\<exists>q. p = CHR ''-'' # q \<and> q \<noteq> [] \<and> (\<forall>x\<in>set q. isPreChar x))))"

lemma lang_Lit: "lang (Lit c) = {[c]}"
  by (simp add: Lit_def)

lemma lang_Opt: "lang (Opt r) = insert [] (lang r)"
  by (simp add: Opt_def)

lemma version_pattern: "matchString validVersionPattern s \<longleftrightarrow> semver s"
proof
  assume "matchString validVersionPattern s"
  then have "s \<in> lang validVersionPattern" by (simp add: matchString_lang)
  then obtain a b c p where s: "s = a @ ''.'' @ b @ ''.'' @ c @ p"
    and abc: "\<forall>n\<in>{a, b, c}. n \<in> lang (Plus (Class isDigit))"
    and p: "p \<in> lang (Opt (Seq (Lit CHR ''-'') (Plus (Class isPreChar))))"
    unfolding validVersionPattern_def
    by (elim lang_SeqE) (simp add: lang_Lit)
  have "p = [] \<or> (\<exists>q. p = CHR ''-'' # q \<and> q \<in> lang (Plus (Class isPreChar)))"
    using p unfolding lang_Opt by (auto simp: lang_Lit simp del: lang.simps(5) elim!: lang_SeqE)
  then show "semver s" using s abc unfolding semver_def lang_Plus_Class by blast
next
  assume "semver s"
  then obtain a b c p where s: "s = a @ ''.'' @ b @ ''.'' @ c @ p"
    and abc: "a \<in> lang (Plus (Class isDigit))" "b \<in> lang (Plus (Class isDigit))"
      "c \<in> lang (Plus (Class isDigit))"
    and p: "p = [] \<or> (\<exists>q. p = ''-'' @ q \<and> q \<in> lang (Plus (Class isPreChar)))"
    unfolding semver_def lang_Plus_Class by auto
  have "p \<in> lang (Opt (Seq (Lit CHR ''-'') (Plus (Class isPreChar))))"
    using p unfolding lang_Opt by (auto simp: lang_Lit simp del: lang.simps(5) append.simps intro!: lang_SeqI)
  then show "matchString validVersionPattern s"
    unfolding matchString_lang validVersionPattern_def s
    by (intro lang_SeqI abc) (simp_all add: lang_Lit)
qed

section \<open>What the validators accept\<close>

lemma contains_dotdot: "containsStr s ''..'' \<longleftrightarrow> (\<exists>a b. s = a @ ''..'' @ b)"
  by (rule containsStr_iff)

lemma validateServiceType_ok:
  "ValidateServiceType s = None \<longleftrightarrow>
     length s \<le> 128 \<and> (\<exists>c t. s = c # t \<and> isLetter c \<and> (\<forall>x\<in>set t. isKeyChar x)) \<and>
     (\<nexists>a b. s = a @ ''..'' @ b)"
  unfolding key_pattern [symmetric] contains_dotdot [symmetric]
  by (auto simp: ValidateServiceType_def max_defs dest: key_pattern_chars) (simp add: key_pattern)

lemma validateServiceType_segment:
  assumes "ValidateServiceType s = None"
  shows "s \<noteq> ''''" and "CHR ''/'' \<notin> set s" and "CHR 0x5C \<notin> set s" and "NUL \<notin> set s"
  using assms by (auto simp: ValidateServiceType_def split: if_splits)

lemma validateSelfID_ok:
  "ValidateSelfID s = None \<longleftrightarrow>
     length s \<le> 128 \<and> (\<exists>c t. s = c # t \<and> isLetter c \<and> (\<forall>x\<in>set t. isKeyChar x))"
  unfolding key_pattern [symmetric]
  by (auto simp: ValidateSelfID_def max_defs dest: key_pattern_chars) (simp add: key_pattern)

lemma semver_no_NUL: "semver s \<Longrightarrow> NUL \<notin> set s"
  unfolding semver_def using isPreChar_not by (auto simp: NUL_def)

lemma validateVersion_ok: "ValidateVersion s = None \<longleftrightarrow> length s \<le> 64 \<and> semver s"
  using semver_no_NUL [of s]
  by (auto simp: ValidateVersion_def max_defs version_pattern semver_def)

lemma validateEndpointPath_ok:
  "ValidateEndpointPath s = None \<longleftrightarrow> length s \<le> 256 \<and> (\<exists>t. s = CHR ''/'' # t) \<and> NUL \<notin> set s"
  by (auto simp: ValidateEndpointPath_def hasPrefix_iff)

definition entry_ok :: "string \<Rightarrow> string \<Rightarrow> bool" where
  "entry_ok key val \<longleftrightarrow>
     length key \<le> 256 \<and> (\<exists>c t. key = c # t \<and> isLetter c \<and> (\<forall>x\<in>set t. isKeyChar x)) \<and>
     length val \<le> 4096 \<and> NUL \<notin> set val"

lemma validateEntry_ok: "validateEntry key val = None \<longleftrightarrow> entry_ok key val"
  unfolding entry_ok_def key_pattern [symmetric]
  by (auto simp: validateEntry_def max_defs dest: key_pattern_chars) (simp add: key_pattern)

lemma validateEntries_ok:
  "validateEntries m ks = None \<longleftrightarrow> (\<forall>k\<in>set ks. entry_ok k (get_string m k))"
  by (induction ks) (auto simp: validateEntry_ok [symmetric] split: option.splits)

lemma validateMetadata_ok:
  "iter_order m ks \<Longrightarrow> ValidateMetadata m ks = None \<longleftrightarrow>
     card (dom m) \<le> 100 \<and> (\<forall>k v. m k = Some v \<longrightarrow> entry_ok k v)"
  by (force simp: ValidateMetadata_def max_defs validateEntries_ok iter_order_card iter_order_dom get_string_def)

text \<open>
  The patterns already exclude a zero byte, so the \<open>strings.Contains\<close> tests for one after
  them never fire (for metadata, only the value can trip it), nor do the tests for a
  slash or a backslash in a service type: of those only \<open>..\<close> can fire.
\<close>

lemma null_byte_branches_dead:
  "ValidateServiceType s \<noteq> Some ServiceTypeNullBytes"
  "ValidateSelfID s \<noteq> Some SelfIDNullBytes"
  "ValidateVersion s \<noteq> Some VersionNullBytes"
  using key_pattern_chars [of s NUL] semver_no_NUL [of s]
  by (auto simp: ValidateServiceType_def ValidateSelfID_def ValidateVersion_def version_pattern)

section \<open>Properties\<close>

text \<open>A letter followed by letters, digits, underscores, dots and hyphens.\<close>

definition keyName :: "string \<Rightarrow> bool" where
  "keyName s \<longleftrightarrow> (\<exists>c t. s = c # t \<and> isLetter c \<and> (\<forall>x\<in>set t. isKeyChar x))"

text \<open>What the four single-string validators accept, exactly: a service type is a key name of
  at most 128 bytes without two dots in a row, a self id a key name of at most 128 bytes, a
  version a semantic version (three numbers, an optional pre-release) of at most 64 bytes,
  an endpoint path at most 256 bytes starting with a slash, without a zero byte.\<close>
theorem validators_exact:
  "(ValidateServiceType s = None \<longleftrightarrow> length s \<le> 128 \<and> keyName s \<and> \<not> containsStr s ''..'') \<and>
   (ValidateSelfID s = None \<longleftrightarrow> length s \<le> 128 \<and> keyName s) \<and>
   (ValidateVersion s = None \<longleftrightarrow> length s \<le> 64 \<and> semver s) \<and>
   (ValidateEndpointPath s = None \<longleftrightarrow> length s \<le> 256 \<and> (\<exists>t. s = CHR ''/'' # t) \<and> NUL \<notin> set s)"
  unfolding keyName_def contains_dotdot
  by (intro conjI validateServiceType_ok validateSelfID_ok validateVersion_ok validateEndpointPath_ok)

text \<open>\<open>ValidateMetadata\<close> accepts a map, whatever the order in which it is ranged over, exactly
  when it has at most 100 entries, every key is a key name of at most 256 bytes and
  every value has at most 4096 bytes, none of them zero.\<close>
theorem ValidateMetadata_exact:
  assumes "iter_order m ks"
  shows "ValidateMetadata m ks = None \<longleftrightarrow> card (dom m) \<le> 100 \<and>
    (\<forall>k v. m k = Some v \<longrightarrow> keyName k \<and> length k \<le> 256 \<and> length v \<le> 4096 \<and> NUL \<notin> set v)"
  unfolding validateMetadata_ok [OF assms] entry_ok_def keyName_def by blast

lemma ValidateMetadata_exact_witness:
  "ValidateMetadata [''base_url'' \<mapsto> ''http://h''] [''base_url''] = None \<longleftrightarrow>
   (\<forall>k v. [''base_url'' \<mapsto> ''http://h''] k = Some v \<longrightarrow> keyName k \<and> length k \<le> 256 \<and> length v \<le> 4096 \<and> NUL \<notin> set v)"
  by (subst ValidateMetadata_exact) (simp_all add: iter_order_def)

end
