(* ===== verification/Handshake.thy ===== *)
theory Handshake
  imports Broker PluginSet Validation
begin

text \<open>
  The handshake server, \<^verbatim>\<open>handshake.go\<close>: the handler that checks the cookie and the versions,
  assigns a runtime identity and describes the requested plugins, and the validation of the
  runtime tokens. \<open>ServeConfig\<close> is the part of the configuration (\<^verbatim>\<open>server.go\<close>) that the
  handshake reads; the server theory extends it. The runtime tokens are interpreted as a
  \<open>token_store\<close>.
\<close>

section \<open>Data\<close>

definition DefaultMagicCookieKey :: string where
  "DefaultMagicCookieKey = ''CONNECT_PLUGIN''"

definition DefaultMagicCookieValue :: string where
  "DefaultMagicCookieValue = ''d3f40b3c2e1a5f8b9c4d7e6a1b2c3d4e''"

definition DefaultRuntimeTokenTTL :: duration where
  "DefaultRuntimeTokenTTL = 24 * Hour"

text \<open>A nil map and an empty one are told apart where the code does (\<open>Plugins\<close>, \<open>Impls\<close>).\<close>

record ('a, 'h) ServeConfig =
  cfg_Plugins :: "('a, 'h) PluginSet option"
  cfg_Impls :: "(string, 'a) gomap option"
  cfg_ProtocolVersion :: int
  cfg_MagicCookieKey :: string
  cfg_MagicCookieValue :: string
  cfg_ServerMetadata :: "(string, string) gomap"
  cfg_RuntimeTokenTTL :: duration

record tokenInfo =
  ti_token :: string
  ti_issuedAt :: time
  ti_expiresAt :: time

text \<open>The pointer \<open>cfg\<close> of the server is an argument of its handler.\<close>

record HandshakeServer =
  hs_tokens :: "(string, tokenInfo) gomap"

record HandshakeRequest =
  hr_CoreProtocolVersion :: int
  hr_AppProtocolVersion :: int
  hr_MagicCookieKey :: string
  hr_MagicCookieValue :: string
  hr_RequestedPlugins :: "string list"
  hr_ClientMetadata :: "(string, string) gomap"
  hr_SelfId :: string
  hr_SelfVersion :: string

record PluginInfo =
  pi_Name :: string
  pi_Version :: string
  pi_ServicePath :: string
  pi_Provides :: "ServiceDeclaration list"
  pi_Requires :: "ServiceDependency list"

record HandshakeResponse =
  hp_CoreProtocolVersion :: int
  hp_AppProtocolVersion :: int
  hp_Plugins :: "PluginInfo list"
  hp_ServerMetadata :: "(string, string) gomap"
  hp_HostCapabilities :: "Capability list"
  hp_RuntimeId :: string
  hp_RuntimeToken :: string

datatype HandshakeError =
    InvalidMagicCookie
  | UnsupportedCoreVersion int
  | VersionMismatch int int
  | InvalidSelfID ValidationError
  | RuntimeIDFailed
  | RuntimeTokenFailed

definition NewHandshakeServer :: HandshakeServer where
  "NewHandshakeServer = \<lparr>hs_tokens = Map.empty\<rparr>"

section \<open>The handler\<close>

definition expectedCookie :: "('a, 'h, 'm) ServeConfig_scheme \<Rightarrow> string \<times> string" where
  "expectedCookie cfg =
     (if cfg_MagicCookieKey cfg = '''' then (DefaultMagicCookieKey, DefaultMagicCookieValue)
      else (cfg_MagicCookieKey cfg, cfg_MagicCookieValue cfg))"

definition serverVersion :: "('a, 'h, 'm) ServeConfig_scheme \<Rightarrow> int" where
  "serverVersion cfg = (if cfg_ProtocolVersion cfg = 0 then 1 else cfg_ProtocolVersion cfg)"

definition tokenTTL :: "('a, 'h, 'm) ServeConfig_scheme \<Rightarrow> duration" where
  "tokenTTL cfg =
     (if cfg_RuntimeTokenTTL cfg > 0 then cfg_RuntimeTokenTTL cfg else DefaultRuntimeTokenTTL)"

definition storeToken :: "string \<Rightarrow> tokenInfo \<Rightarrow> HandshakeServer \<Rightarrow> HandshakeServer" where
  "storeToken runtimeID info h = h\<lparr>hs_tokens := (hs_tokens h)(runtimeID \<mapsto> info)\<rparr>"

text \<open>
  The runtime identity: none for a client without a self id, else a fresh id and token, which
  are stored. \<open>rnd1\<close> and \<open>rnd2\<close> are the random bytes of the two.
\<close>

definition assignIdentity ::
    "duration \<Rightarrow> random_read \<Rightarrow> random_read \<Rightarrow> time \<Rightarrow> string \<Rightarrow> HandshakeServer \<Rightarrow>
     HandshakeServer \<times> (HandshakeError connect_error + string \<times> string)" where
  "assignIdentity ttl rnd1 rnd2 now selfId h =
     (if selfId = '''' then (h, Inr ('''', ''''))
      else case ValidateSelfID selfId of
        Some e \<Rightarrow> (h, Inl (NewError CodeInvalidArgument (InvalidSelfID e)))
      | None \<Rightarrow>
          (case generateRuntimeID selfId rnd1 of
             None \<Rightarrow> (h, Inl (NewError CodeInternal RuntimeIDFailed))
           | Some runtimeID \<Rightarrow>
               (case generateToken rnd2 of
                  None \<Rightarrow> (h, Inl (NewError CodeInternal RuntimeTokenFailed))
                | Some runtimeToken \<Rightarrow>
                    (storeToken runtimeID
                       \<lparr>ti_token = runtimeToken, ti_issuedAt = now, ti_expiresAt = time_add now ttl\<rparr> h,
                     Inr (runtimeID, runtimeToken)))))"

definition pluginInfo :: "PluginMetadata \<Rightarrow> PluginInfo" where
  "pluginInfo metadata =
     \<lparr>pi_Name = pm_Name metadata, pi_Version = pm_Version metadata, pi_ServicePath = pm_Path metadata,
      pi_Provides = pm_Provides metadata, pi_Requires = pm_Requires metadata\<rparr>"

text \<open>The loop over the requested names; a plugin that is not there is skipped.\<close>

definition buildPlugins :: "('a, 'h) PluginSet option \<Rightarrow> string list \<Rightarrow> PluginInfo list" where
  "buildPlugins plugins requested =
     List.map_filter (\<lambda>name. map_option (\<lambda>p. pluginInfo (pl_Metadata p))
       (case plugins of None \<Rightarrow> None | Some ps \<Rightarrow> PluginSet_Get ps name)) requested"

text \<open>
  \<open>broker\<close> is the content of \<open>cfg.CapabilityBroker\<close>, \<open>None\<close> when nil, and \<open>capOrder\<close> the order
  of the loop in \<open>ListCapabilities\<close>. The custom metadata override the built-in entry.
\<close>

definition Handshake ::
    "('a, 'h, 'm) ServeConfig_scheme \<Rightarrow> 'h CapabilityBroker option \<Rightarrow> string list \<Rightarrow>
     random_read \<Rightarrow> random_read \<Rightarrow> time \<Rightarrow> HandshakeRequest \<Rightarrow> HandshakeServer \<Rightarrow>
     HandshakeServer \<times> (HandshakeError connect_error + HandshakeResponse)" where
  "Handshake cfg broker capOrder rnd1 rnd2 now req h =
     (if hr_MagicCookieKey req \<noteq> fst (expectedCookie cfg) \<or>
         hr_MagicCookieValue req \<noteq> snd (expectedCookie cfg)
      then (h, Inl (NewError CodeInvalidArgument InvalidMagicCookie))
      else if hr_CoreProtocolVersion req \<noteq> 1
      then (h, Inl (NewError CodeInvalidArgument (UnsupportedCoreVersion (hr_CoreProtocolVersion req))))
      else if hr_AppProtocolVersion req \<noteq> int32 (serverVersion cfg)
      then (h, Inl (NewError CodeFailedPrecondition
                      (VersionMismatch (hr_AppProtocolVersion req) (serverVersion cfg))))
      else (case assignIdentity (tokenTTL cfg) rnd1 rnd2 now (hr_SelfId req) h of
          (h', Inl e) \<Rightarrow> (h', Inl e)
        | (h', Inr (runtimeID, runtimeToken)) \<Rightarrow>
            (h', Inr \<lparr>hp_CoreProtocolVersion = 1,
                     hp_AppProtocolVersion = int32 (serverVersion cfg),
                     hp_Plugins = buildPlugins (cfg_Plugins cfg) (hr_RequestedPlugins req),
                     hp_ServerMetadata = [''server_version'' \<mapsto> ''0.1.0''] ++ cfg_ServerMetadata cfg,
                     hp_HostCapabilities =
                       (case broker of None \<Rightarrow> [] | Some b \<Rightarrow> ListCapabilities capOrder b),
                     hp_RuntimeId = (if runtimeID \<noteq> '''' then runtimeID else ''''),
                     hp_RuntimeToken = (if runtimeID \<noteq> '''' then runtimeToken else '''')\<rparr>)))"

definition ValidateToken :: "time \<Rightarrow> string \<Rightarrow> string \<Rightarrow> HandshakeServer \<Rightarrow> HandshakeServer \<times> bool" where
  "ValidateToken now runtimeID token h =
     (case hs_tokens h runtimeID of
        None \<Rightarrow> (h, False)
      | Some info \<Rightarrow>
          if time_after now (ti_expiresAt info)
          then (h\<lparr>hs_tokens := (hs_tokens h)(runtimeID := None)\<rparr>, False)
          else if length (ti_token info) \<noteq> length token then (h, False)
          else (h, constantTimeCompare (ti_token info) token = 1))"

section \<open>Runtime tokens as a token store\<close>

definition tokenSecret :: "HandshakeServer \<Rightarrow> string \<Rightarrow> (string \<times> time) option" where
  "tokenSecret h i = map_option (\<lambda>info. (ti_token info, ti_expiresAt info)) (hs_tokens h i)"

lemma ValidateToken_iff:
  "snd (ValidateToken now i tok h) \<longleftrightarrow> (\<exists>info. hs_tokens h i = Some info \<and> ti_token info = tok \<and> now \<le> ti_expiresAt info)"
  by (auto simp: ValidateToken_def time_after_def constantTimeCompare_def split: option.splits)

lemma ValidateToken_tokens:
  "hs_tokens (fst (ValidateToken now i tok h)) j =
     (if j = i \<and> (\<exists>info. hs_tokens h i = Some info \<and> ti_expiresAt info < now) then None else hs_tokens h j)"
  by (auto simp: ValidateToken_def time_after_def split: option.splits)

interpretation tokens: token_store tokenSecret
  "\<lambda>i tok exp. storeToken i \<lparr>ti_token = tok, ti_issuedAt = t, ti_expiresAt = exp\<rparr>" ValidateToken for t
  by unfold_locales
    (auto simp: tokenSecret_def storeToken_def ValidateToken_iff ValidateToken_tokens)

section \<open>The handshake\<close>

text \<open>Which requests are accepted, apart from the identity.\<close>

definition protocolOk :: "('a, 'h, 'm) ServeConfig_scheme \<Rightarrow> HandshakeRequest \<Rightarrow> bool" where
  "protocolOk cfg req \<longleftrightarrow>
     (hr_MagicCookieKey req, hr_MagicCookieValue req) = expectedCookie cfg \<and>
     hr_CoreProtocolVersion req = 1 \<and> hr_AppProtocolVersion req = int32 (serverVersion cfg)"

lemma Handshake_protocol:
  "\<not> protocolOk cfg req \<Longrightarrow> \<exists>e. Handshake cfg broker order rnd1 rnd2 now req h = (h, Inl e)"
  by (auto simp: Handshake_def protocolOk_def prod_eq_iff)

lemma assignIdentity_fails:
  "assignIdentity ttl rnd1 rnd2 now sid h = (h', Inl e) \<Longrightarrow> h' = h"
  by (auto simp: assignIdentity_def split: if_splits option.splits)

lemma Handshake_fails: "Handshake cfg broker order rnd1 rnd2 now req h = (h', Inl e) \<Longrightarrow> h' = h"
  by (auto simp: Handshake_def dest!: assignIdentity_fails split: if_splits prod.splits sum.splits)

lemma assignIdentity_ok:
  assumes "assignIdentity ttl rnd1 rnd2 now sid h = (h', Inr (rid, tok))"
  shows "sid = '''' \<and> h' = h \<and> rid = '''' \<and> tok = '''' \<or>
    sid \<noteq> '''' \<and> ValidateSelfID sid = None \<and> generateRuntimeID sid rnd1 = Some rid \<and>
    generateToken rnd2 = Some tok \<and>
    h' = storeToken rid \<lparr>ti_token = tok, ti_issuedAt = now, ti_expiresAt = now + ttl\<rparr> h"
  using assms by (auto simp: assignIdentity_def time_add_def split: if_splits option.splits)

lemma Handshake_ok:
  assumes "Handshake cfg broker order rnd1 rnd2 now req h = (h', Inr resp)"
  shows "protocolOk cfg req \<and> hp_CoreProtocolVersion resp = 1 \<and>
    hp_AppProtocolVersion resp = hr_AppProtocolVersion req \<and>
    hp_Plugins resp = buildPlugins (cfg_Plugins cfg) (hr_RequestedPlugins req) \<and>
    assignIdentity (tokenTTL cfg) rnd1 rnd2 now (hr_SelfId req) h = (h', Inr (hp_RuntimeId resp, hp_RuntimeToken resp))"
proof -
  have ok: "protocolOk cfg req"
    using assms Handshake_protocol [of cfg req broker order rnd1 rnd2 now h] by fastforce
  obtain rid tok where id: "assignIdentity (tokenTTL cfg) rnd1 rnd2 now (hr_SelfId req) h = (h', Inr (rid, tok))"
    and r: "hp_RuntimeId resp = (if rid \<noteq> '''' then rid else '''')" "hp_RuntimeToken resp = (if rid \<noteq> '''' then tok else '''')"
      "hp_CoreProtocolVersion resp = 1" "hp_AppProtocolVersion resp = int32 (serverVersion cfg)"
      "hp_Plugins resp = buildPlugins (cfg_Plugins cfg) (hr_RequestedPlugins req)"
    using assms by (auto simp: Handshake_def split: if_splits prod.splits sum.splits)
  have "rid = '''' \<Longrightarrow> tok = ''''"
    using assignIdentity_ok [OF id] generateRuntimeID_nonempty by blast
  then show ?thesis using ok id r by (auto simp: protocolOk_def)
qed

text \<open>An accepted request answers every condition of the code.\<close>

lemma Handshake_accepts:
  assumes "protocolOk cfg req"
    and "hr_SelfId req = '''' \<or> ValidateSelfID (hr_SelfId req) = None \<and> rnd1 \<noteq> None \<and> rnd2 \<noteq> None"
  shows "\<exists>h' resp. Handshake cfg broker order rnd1 rnd2 now req h = (h', Inr resp)"
proof -
  have "\<exists>h' rid tok. assignIdentity (tokenTTL cfg) rnd1 rnd2 now (hr_SelfId req) h = (h', Inr (rid, tok))"
    using assms(2)
    by (auto simp: assignIdentity_def generateRuntimeID_def generateRandomHex_def generateToken_def Let_def)
  then obtain h' rid tok where id: "assignIdentity (tokenTTL cfg) rnd1 rnd2 now (hr_SelfId req) h = (h', Inr (rid, tok))"
    by blast
  have "expectedCookie cfg = (hr_MagicCookieKey req, hr_MagicCookieValue req)"
      "hr_CoreProtocolVersion req = 1" "hr_AppProtocolVersion req = int32 (serverVersion cfg)"
    using assms(1) by (simp_all add: protocolOk_def)
  then show ?thesis by (simp add: Handshake_def id)
qed

lemma Handshake_issues:
  assumes "Handshake cfg broker order rnd1 rnd2 now req h = (h', Inr resp)" and "hr_SelfId req \<noteq> ''''"
  shows "h' = storeToken (hp_RuntimeId resp)
     \<lparr>ti_token = hp_RuntimeToken resp, ti_issuedAt = now, ti_expiresAt = now + tokenTTL cfg\<rparr> h"
  using Handshake_ok [OF assms(1)] assignIdentity_ok assms(2) by blast

lemma tokenTTL_pos: "0 < tokenTTL cfg"
  by (simp add: tokenTTL_def DefaultRuntimeTokenTTL_def time_defs)

lemma set_buildPlugins:
  "map pi_Name (buildPlugins (Some ps) req) =
     map (\<lambda>n. pm_Name (pl_Metadata (the (ps n)))) (filter (\<lambda>n. ps n \<noteq> None) req)"
  by (induction req) (auto simp: buildPlugins_def map_filter_simps PluginSet_Get_def pluginInfo_def split: option.split)

section \<open>An example\<close>

definition example_config :: "(unit, unit) ServeConfig" where
  "example_config = \<lparr>cfg_Plugins = Some Map.empty, cfg_Impls = Some Map.empty, cfg_ProtocolVersion = 0,
     cfg_MagicCookieKey = '''', cfg_MagicCookieValue = '''', cfg_ServerMetadata = Map.empty, cfg_RuntimeTokenTTL = 0\<rparr>"

definition example_handshake :: HandshakeRequest where
  "example_handshake = \<lparr>hr_CoreProtocolVersion = 1, hr_AppProtocolVersion = 1,
     hr_MagicCookieKey = DefaultMagicCookieKey, hr_MagicCookieValue = DefaultMagicCookieValue,
     hr_RequestedPlugins = [], hr_ClientMetadata = Map.empty, hr_SelfId = ''kv'', hr_SelfVersion = ''1.0.0''\<rparr>"

lemma example_protocol: "protocolOk example_config example_handshake"
  by (simp add: protocolOk_def expectedCookie_def serverVersion_def example_config_def example_handshake_def int32_def)

lemma example_accepted:
  "\<exists>h' resp. Handshake example_config None [] (Some ''ab'') (Some ''0123456789abcdef0123456789abcdef'') 10
     example_handshake h = (h', Inr resp)"
proof (rule Handshake_accepts [OF example_protocol])
  have "ValidateSelfID ''kv'' = None" by code_simp
  then show "hr_SelfId example_handshake = '''' \<or> ValidateSelfID (hr_SelfId example_handshake) = None \<and>
      Some ''ab'' \<noteq> None \<and> Some ''0123456789abcdef0123456789abcdef'' \<noteq> None"
    by (simp add: example_handshake_def)
qed

section \<open>Properties\<close>

text \<open>The lookup of one requested plugin, field by field.\<close>

definition describes :: "('a, 'h) PluginSet option \<Rightarrow> string \<Rightarrow> PluginInfo \<Rightarrow> bool" where
  "describes plugins name info \<longleftrightarrow> (\<exists>ps p. plugins = Some ps \<and> ps name = Some p \<and>
     pi_Name info = pm_Name (pl_Metadata p) \<and> pi_Version info = pm_Version (pl_Metadata p) \<and>
     pi_ServicePath info = pm_Path (pl_Metadata p) \<and> pi_Provides info = pm_Provides (pl_Metadata p) \<and>
     pi_Requires info = pm_Requires (pl_Metadata p))"

lemma buildPlugins_describes:
  "list_all2 (describes plugins)
     (filter (\<lambda>name. \<exists>ps. plugins = Some ps \<and> name \<in> dom ps) requested) (buildPlugins plugins requested)"
proof (cases plugins)
  case None
  then show ?thesis by (induction requested) (simp_all add: buildPlugins_def map_filter_simps)
next
  case (Some ps)
  then show ?thesis
    by (induction requested)
      (auto simp: buildPlugins_def map_filter_simps PluginSet_Get_def pluginInfo_def describes_def split: option.split)
qed

lemma int32_congruent:
  assumes "- (2 ^ 31) \<le> a" and "a < 2 ^ 31"
  shows "a = int32 v \<longleftrightarrow> (v - a) mod 2 ^ 32 = 0"
proof -
  have "a = int32 v \<longleftrightarrow> int32 v = int32 a" using int32_id [OF assms] by auto
  then show ?thesis by (simp only: int32_eq_iff mod_eq_dvd_iff mod_eq_0_iff_dvd)
qed

lemma handshake_metadata:
  "([''server_version'' \<mapsto> ''0.1.0''] ++ m) k =
     (case m k of Some v \<Rightarrow> Some v | None \<Rightarrow> if k = ''server_version'' then Some ''0.1.0'' else None)"
  by (simp add: map_add_def split: option.split)

text \<open>C12. The outcome of a handshake, read off the configuration and the request. The cookie has to
  be the configured key and value, or the default pair when no key is configured; the core version
  has to be 1; the application version has to be the configured one (1 when it is 0) modulo \<open>2^32\<close>,
  as it travels in 32 bits; a self id has to be valid and needs random bytes for the runtime id and
  for the token. Each failed check, in this order, is answered with its own code and leaves the
  token table as it was. Otherwise the answer repeats the version, describes, in the order of the
  request, exactly the requested plugins that are configured, each with the name, version, path
  and declarations of its metadata, carries the configured metadata over the built-in version entry
  and the capabilities of the broker, and, for a client with a self id, a fresh identity, whose
  token is stored with the configured lifetime (a day when there is none).\<close>
theorem Handshake_correct:
  assumes "- (2 ^ 31) \<le> hr_AppProtocolVersion req" and "hr_AppProtocolVersion req < 2 ^ 31"
  shows "case Handshake cfg broker order rnd1 rnd2 now req h of (h', res) \<Rightarrow>
   (let version = (if cfg_ProtocolVersion cfg = 0 then 1 else cfg_ProtocolVersion cfg);
        sid = hr_SelfId req;
        refused = (\<lambda>code cause. h' = h \<and> res = Inl (NewError code cause))
    in
    if (if cfg_MagicCookieKey cfg = ''''
        then hr_MagicCookieKey req \<noteq> ''CONNECT_PLUGIN'' \<or>
             hr_MagicCookieValue req \<noteq> ''d3f40b3c2e1a5f8b9c4d7e6a1b2c3d4e''
        else hr_MagicCookieKey req \<noteq> cfg_MagicCookieKey cfg \<or>
             hr_MagicCookieValue req \<noteq> cfg_MagicCookieValue cfg)
    then refused CodeInvalidArgument InvalidMagicCookie
    else if hr_CoreProtocolVersion req \<noteq> 1
    then refused CodeInvalidArgument (UnsupportedCoreVersion (hr_CoreProtocolVersion req))
    else if (version - hr_AppProtocolVersion req) mod 2 ^ 32 \<noteq> 0
    then refused CodeFailedPrecondition (VersionMismatch (hr_AppProtocolVersion req) version)
    else if sid \<noteq> '''' \<and> ValidateSelfID sid \<noteq> None
    then refused CodeInvalidArgument (InvalidSelfID (the (ValidateSelfID sid)))
    else if sid \<noteq> '''' \<and> rnd1 = None then refused CodeInternal RuntimeIDFailed
    else if sid \<noteq> '''' \<and> rnd2 = None then refused CodeInternal RuntimeTokenFailed
    else \<exists>resp. res = Inr resp \<and> hp_CoreProtocolVersion resp = 1 \<and>
      hp_AppProtocolVersion resp = hr_AppProtocolVersion req \<and>
      list_all2 (describes (cfg_Plugins cfg))
        (filter (\<lambda>name. \<exists>ps. cfg_Plugins cfg = Some ps \<and> name \<in> dom ps) (hr_RequestedPlugins req))
        (hp_Plugins resp) \<and>
      (\<forall>k. hp_ServerMetadata resp k = (case cfg_ServerMetadata cfg k of Some v \<Rightarrow> Some v
         | None \<Rightarrow> if k = ''server_version'' then Some ''0.1.0'' else None)) \<and>
      hp_HostCapabilities resp = (case broker of None \<Rightarrow> [] | Some b \<Rightarrow> ListCapabilities order b) \<and>
      (if sid = '''' then h' = h \<and> hp_RuntimeId resp = '''' \<and> hp_RuntimeToken resp = ''''
       else generateRuntimeID sid rnd1 = Some (hp_RuntimeId resp) \<and> hp_RuntimeId resp \<noteq> '''' \<and>
         generateToken rnd2 = Some (hp_RuntimeToken resp) \<and>
         hs_tokens h' = (hs_tokens h)(hp_RuntimeId resp \<mapsto>
           \<lparr>ti_token = hp_RuntimeToken resp, ti_issuedAt = now,
            ti_expiresAt = now + (if 0 < cfg_RuntimeTokenTTL cfg then cfg_RuntimeTokenTTL cfg
                                  else 24 * 60 * 60 * 1000000000)\<rparr>)))"
proof -
  let ?H = "Handshake cfg broker order rnd1 rnd2 now req h"
  let ?sid = "hr_SelfId req"
  note version = int32_congruent [OF assms, of "serverVersion cfg"]
  note cookie = expectedCookie_def DefaultMagicCookieKey_def DefaultMagicCookieValue_def
  have ttl: "tokenTTL cfg = (if 0 < cfg_RuntimeTokenTTL cfg then cfg_RuntimeTokenTTL cfg else 24 * 60 * 60 * 1000000000)"
    by (simp add: tokenTTL_def DefaultRuntimeTokenTTL_def time_defs)
  consider (protocol) "\<not> protocolOk cfg req" | (anonymous) "protocolOk cfg req" "?sid = ''''"
    | (refused) "protocolOk cfg req" "?sid \<noteq> ''''" "ValidateSelfID ?sid \<noteq> None \<or> rnd1 = None \<or> rnd2 = None"
    | (identity) "protocolOk cfg req" "?sid \<noteq> ''''" "ValidateSelfID ?sid = None" "rnd1 \<noteq> None" "rnd2 \<noteq> None"
    by blast
  then show ?thesis
  proof cases
    case protocol
    then show ?thesis
      using version by (auto simp: Handshake_def protocolOk_def cookie serverVersion_def Let_def split: if_splits)
  next
    case anonymous
    then show ?thesis
      using version
      by (auto simp: Handshake_def protocolOk_def cookie serverVersion_def Let_def assignIdentity_def
        buildPlugins_describes handshake_metadata split: if_splits)
  next
    case refused
    then show ?thesis
      using version
      by (auto simp: Handshake_def protocolOk_def cookie serverVersion_def Let_def assignIdentity_def
        generateRuntimeID_def generateRandomHex_def generateToken_def split: if_splits option.splits)
  next
    case identity
    then obtain rid tok where id: "generateRuntimeID ?sid rnd1 = Some rid" "generateToken rnd2 = Some tok"
      by (auto simp: generateRuntimeID_def generateRandomHex_def generateToken_def Let_def)
    have "rid \<noteq> ''''" by (rule generateRuntimeID_nonempty [OF id(1)])
    then show ?thesis
      using version identity id
      by (auto simp: Handshake_def protocolOk_def cookie serverVersion_def Let_def assignIdentity_def storeToken_def
        time_add_def ttl buildPlugins_describes handshake_metadata split: if_splits)
  qed
qed

text \<open>
  A server with a cookie of its own, version \<open>2^32 + 3\<close> and one plugin. The client asks with version 3
  for that plugin and for one that is not there; with the default cookie it is turned away.
\<close>

definition cookie_server :: "(unit, unit) ServeConfig" where
  "cookie_server = \<lparr>cfg_Plugins = Some [''kv'' \<mapsto> \<lparr>pl_Metadata = \<lparr>pm_Name = ''kv'', pm_Path = ''/kv.v1.KVService/'',
       pm_Version = ''1.0.0'', pm_Provides = [], pm_Requires = []\<rparr>,
       pl_ConnectServer = (\<lambda>_. Inl ''''), pl_ConnectClient = (\<lambda>_ _. Inl '''')\<rparr>], cfg_Impls = Some Map.empty,
     cfg_ProtocolVersion = 2 ^ 32 + 3, cfg_MagicCookieKey = ''APP'', cfg_MagicCookieValue = ''secret'',
     cfg_ServerMetadata = Map.empty, cfg_RuntimeTokenTTL = 0\<rparr>"

definition cookie_request :: "string \<Rightarrow> string \<Rightarrow> HandshakeRequest" where
  "cookie_request key cookie = \<lparr>hr_CoreProtocolVersion = 1, hr_AppProtocolVersion = 3,
     hr_MagicCookieKey = key, hr_MagicCookieValue = cookie, hr_RequestedPlugins = [''cache'', ''kv''],
     hr_ClientMetadata = Map.empty, hr_SelfId = '''', hr_SelfVersion = ''1.0.0''\<rparr>"

lemma Handshake_correct_witness:
  "(\<exists>resp info. Handshake cookie_server None [] None None 0 (cookie_request ''APP'' ''secret'') NewHandshakeServer =
       (NewHandshakeServer, Inr resp) \<and> hp_Plugins resp = [info] \<and> pi_Name info = ''kv'' \<and>
       pi_ServicePath info = ''/kv.v1.KVService/'') \<and>
   Handshake cookie_server None [] None None 0 (cookie_request ''APP'' ''other'') NewHandshakeServer =
       (NewHandshakeServer, Inl (NewError CodeInvalidArgument InvalidMagicCookie))"
  using Handshake_correct [where req = "cookie_request ''APP'' ''secret''" and cfg = cookie_server and broker = None and
      order = "[]" and ?rnd1.0 = None and ?rnd2.0 = None and now = 0 and h = NewHandshakeServer]
    Handshake_correct [where req = "cookie_request ''APP'' ''other''" and cfg = cookie_server and broker = None and
      order = "[]" and ?rnd1.0 = None and ?rnd2.0 = None and now = 0 and h = NewHandshakeServer]
  by (auto simp: cookie_server_def cookie_request_def describes_def list_all2_Cons1 Let_def split: prod.splits)

text \<open>C8. The token a handshake returns with a runtime id is accepted for that id up to the end of its
  lifetime and not after it, and no other token is, whatever validations of whichever tokens
  and ids (each with its lazy cleanup of expired entries) happen in between.\<close>
theorem runtime_token_lifetime:
  assumes "Handshake cfg broker order rnd1 rnd2 now req h = (h', Inr resp)" and "hr_SelfId req \<noteq> ''''"
    and "\<forall>(t, i, tok)\<in>set calls. t \<le> later"
  shows "snd (ValidateToken later (hp_RuntimeId resp) token
           (fold (\<lambda>(t, i, tok) h. fst (ValidateToken t i tok h)) calls h')) \<longleftrightarrow>
         token = hp_RuntimeToken resp \<and> later \<le> now + tokenTTL cfg"
  using tokens.issued_valid [OF assms(3), of "now + tokenTTL cfg"] tokens.issued_only [of later "hp_RuntimeId resp" token calls]
  unfolding Handshake_issues [OF assms(1,2)] tokens.checks_def by blast

lemma runtime_token_lifetime_witness:
  "\<exists>h' resp. Handshake example_config None [] (Some ''ab'') (Some ''0123456789abcdef0123456789abcdef'') 10
      example_handshake NewHandshakeServer = (h', Inr resp) \<and>
    snd (ValidateToken (10 + 24 * Hour) (hp_RuntimeId resp) (hp_RuntimeToken resp) h') \<and>
    \<not> snd (ValidateToken (11 + 24 * Hour) (hp_RuntimeId resp) (hp_RuntimeToken resp) h')"
proof -
  obtain h' resp where ok: "Handshake example_config None [] (Some ''ab'') (Some ''0123456789abcdef0123456789abcdef'') 10
      example_handshake NewHandshakeServer = (h', Inr resp)"
    using example_accepted by blast
  have "tokenTTL example_config = 24 * Hour" "hr_SelfId example_handshake \<noteq> ''''"
    by (simp_all add: tokenTTL_def example_config_def example_handshake_def DefaultRuntimeTokenTTL_def)
  then show ?thesis using ok runtime_token_lifetime [OF ok, of "[]"] by auto
qed

end
