(* ===== verification/Lifecycle.thy ===== *)
theory Lifecycle
  imports GoRuntime
begin

text \<open>
  The health states plugins report to the host, \<^verbatim>\<open>lifecycle.go\<close>: the data, the handler
  \<open>ReportHealth\<close> and the two readers. The locale \<open>health_source\<close> is what the registry and the
  router rely on: a report changes the routing decision of its plugin and of no other.
\<close>

section \<open>Data\<close>

text \<open>The protobuf enum is open: a peer may send any other number.\<close>

datatype HealthState =
    HEALTH_STATE_UNSPECIFIED | HEALTH_STATE_HEALTHY | HEALTH_STATE_DEGRADED | HEALTH_STATE_UNHEALTHY
  | HEALTH_STATE_other int

record PluginHealthState =
  phs_State :: HealthState
  phs_Reason :: string
  phs_UnavailableDependencies :: "string list"

record LifecycleServer =
  lc_states :: "(string, PluginHealthState) gomap"

record ReportHealthRequest =
  rhr_State :: HealthState
  rhr_Reason :: string
  rhr_UnavailableDependencies :: "string list"

datatype LifecycleError = LcRuntimeIDHeaderRequired

section \<open>Operations\<close>

definition NewLifecycleServer :: LifecycleServer where
  "NewLifecycleServer = \<lparr>lc_states = Map.empty\<rparr>"

text \<open>A handler returns the new state of the server and its response or error.\<close>

definition ReportHealth ::
    "http_header \<Rightarrow> ReportHealthRequest \<Rightarrow> LifecycleServer \<Rightarrow>
     LifecycleServer \<times> (LifecycleError connect_error + unit)" where
  "ReportHealth header req l =
     (let runtimeID = header_get header ''X-Plugin-Runtime-ID''
      in if runtimeID = '''' then (l, Inl (NewError CodeInvalidArgument LcRuntimeIDHeaderRequired))
         else (l\<lparr>lc_states := (lc_states l)(runtimeID \<mapsto>
                 \<lparr>phs_State = rhr_State req, phs_Reason = rhr_Reason req,
                  phs_UnavailableDependencies = rhr_UnavailableDependencies req\<rparr>)\<rparr>, Inr ()))"

definition GetHealthState :: "LifecycleServer \<Rightarrow> string \<Rightarrow> PluginHealthState option" where
  "GetHealthState l runtimeID = lc_states l runtimeID"

definition ShouldRouteTraffic :: "LifecycleServer \<Rightarrow> string \<Rightarrow> bool" where
  "ShouldRouteTraffic l runtimeID =
     (case GetHealthState l runtimeID of
        None \<Rightarrow> True
      | Some state \<Rightarrow>
          (case phs_State state of
             HEALTH_STATE_HEALTHY \<Rightarrow> True
           | HEALTH_STATE_DEGRADED \<Rightarrow> True
           | HEALTH_STATE_UNHEALTHY \<Rightarrow> False
           | _ \<Rightarrow> True))"

lemma ShouldRouteTraffic_iff:
  "ShouldRouteTraffic l rid \<longleftrightarrow> (\<forall>st. lc_states l rid = Some st \<longrightarrow> phs_State st \<noteq> HEALTH_STATE_UNHEALTHY)"
  by (auto simp: ShouldRouteTraffic_def GetHealthState_def split: option.splits HealthState.splits)

section \<open>The handler\<close>

lemma ReportHealth_refused:
  "header_get h ''X-Plugin-Runtime-ID'' = '''' \<Longrightarrow>
   ReportHealth h req l = (l, Inl (NewError CodeInvalidArgument LcRuntimeIDHeaderRequired))"
  by (simp add: ReportHealth_def)

lemma ReportHealth_stored:
  assumes "header_get h ''X-Plugin-Runtime-ID'' = rid" and "rid \<noteq> ''''"
  shows "\<exists>l'. ReportHealth h req l = (l', Inr ()) \<and>
    GetHealthState l' rid = Some \<lparr>phs_State = rhr_State req, phs_Reason = rhr_Reason req,
       phs_UnavailableDependencies = rhr_UnavailableDependencies req\<rparr> \<and>
    (\<forall>r. r \<noteq> rid \<longrightarrow> GetHealthState l' r = GetHealthState l r)"
  using assms by (simp add: ReportHealth_def GetHealthState_def)

lemma ShouldRouteTraffic_ReportHealth:
  "ShouldRouteTraffic (fst (ReportHealth h req l)) rid \<longleftrightarrow>
     (if header_get h ''X-Plugin-Runtime-ID'' = rid \<and> rid \<noteq> ''''
      then rhr_State req \<noteq> HEALTH_STATE_UNHEALTHY else ShouldRouteTraffic l rid)"
  by (auto simp: ShouldRouteTraffic_iff ReportHealth_def Let_def)

section \<open>The interface to the registry and the router\<close>

text \<open>
  Where health comes from: a state in which nothing has been reported, the effect of a report
  (who sent it, what it says), and the routing decision. A report without a name is void.
\<close>

locale health_source =
  fixes fresh :: 's
    and report :: "'q \<Rightarrow> 's \<Rightarrow> 's"
    and reporter :: "'q \<Rightarrow> string"
    and verdict :: "'q \<Rightarrow> HealthState"
    and routable :: "'s \<Rightarrow> string \<Rightarrow> bool"
  assumes fresh_routable: "routable fresh rid"
    and routable_report: "routable (report q s) rid \<longleftrightarrow>
          (if reporter q = rid \<and> rid \<noteq> '''' then verdict q \<noteq> HEALTH_STATE_UNHEALTHY
           else routable s rid)"
begin

text \<open>The last report of a plugin decides; without one traffic flows.\<close>

lemma routable_reports:
  "rid \<noteq> '''' \<Longrightarrow> routable (fold report qs fresh) rid \<longleftrightarrow>
     (let own = filter (\<lambda>q. reporter q = rid) qs
      in own = [] \<or> verdict (last own) \<noteq> HEALTH_STATE_UNHEALTHY)"
  by (induction qs rule: rev_induct) (auto simp: fresh_routable routable_report Let_def)

text \<open>Reports of other plugins do not matter.\<close>

lemma routable_frame:
  "\<forall>q\<in>set qs. reporter q \<noteq> rid \<Longrightarrow> routable (fold report qs s) rid = routable s rid"
  by (induction qs arbitrary: s) (auto simp: routable_report)

end

interpretation lc: health_source NewLifecycleServer
  "\<lambda>(header, req) l. fst (ReportHealth header req l)"
  "\<lambda>(header, req). header_get header ''X-Plugin-Runtime-ID''"
  "\<lambda>(header, req). rhr_State req"
  ShouldRouteTraffic
proof unfold_locales
  show "ShouldRouteTraffic NewLifecycleServer rid" for rid
    by (simp add: NewLifecycleServer_def ShouldRouteTraffic_iff)
qed (auto simp: ShouldRouteTraffic_ReportHealth)

section \<open>Properties\<close>

text \<open>After any sequence of health reports, of any plugins, the host routes traffic to a plugin
  unless the last report that carried its runtime id was unhealthy: without a report, or after
  a healthy, degraded or unknown one, traffic flows, and reports of others do not count.\<close>
theorem last_report_decides:
  assumes "rid \<noteq> ''''"
  shows "ShouldRouteTraffic (fold (\<lambda>(header, req) l. fst (ReportHealth header req l)) reports NewLifecycleServer) rid \<longleftrightarrow>
    (let own = filter (\<lambda>(header, req). header_get header ''X-Plugin-Runtime-ID'' = rid) reports
     in own = [] \<or> rhr_State (snd (last own)) \<noteq> HEALTH_STATE_UNHEALTHY)"
  using lc.routable_reports [OF assms, of reports] by (simp add: case_prod_unfold Let_def)

lemma last_report_decides_witness:
  "\<not> ShouldRouteTraffic (fold (\<lambda>(header, req) l. fst (ReportHealth header req l))
      [(header_set Map.empty ''X-Plugin-Runtime-ID'' ''kv-1'', \<lparr>rhr_State = HEALTH_STATE_HEALTHY, rhr_Reason = '''', rhr_UnavailableDependencies = []\<rparr>),
       (header_set Map.empty ''X-Plugin-Runtime-ID'' ''kv-1'', \<lparr>rhr_State = HEALTH_STATE_UNHEALTHY, rhr_Reason = '''', rhr_UnavailableDependencies = []\<rparr>)]
      NewLifecycleServer) ''kv-1''"
  by (subst last_report_decides) simp_all

end
