(* ===== verification/Registry.thy ===== *)
theory Registry
  imports Lifecycle Validation Identity
begin

text \<open>
  The service registry, \<^verbatim>\<open>registry.go\<close>: registration, unregistration, host-controlled
  selection, discovery and watching. This theory holds the data and the operations; their
  correctness is in the theories that follow it.

  Providers are never changed after they are built, so a pointer to one is modelled by its
  value. A watcher is compared by its address, modelled by the number \<open>w_id\<close>. The field
  \<open>lifecycleServer\<close> points to a server that other handlers change: its content at the time of
  the call, \<open>None\<close> for a nil pointer, is the argument \<open>lc\<close>.
\<close>

section \<open>Data\<close>

datatype SelectionStrategy =
    SelectionFirst | SelectionRoundRobin | SelectionRandom | SelectionWeighted | Selection_other int

datatype ServiceState =
    SERVICE_STATE_UNSPECIFIED | SERVICE_STATE_AVAILABLE | SERVICE_STATE_UNAVAILABLE
  | SERVICE_STATE_DEGRADED

record ServiceEndpoint =
  se_ProviderId :: string
  se_Version :: string
  se_EndpointUrl :: string
  se_Metadata :: "(string, string) gomap"

record WatchServiceEvent =
  we_ServiceType :: string
  we_State :: ServiceState
  we_Endpoint :: "ServiceEndpoint option"

record serviceWatcher =
  w_id :: nat
  w_ch :: "WatchServiceEvent list"

record ServiceProvider =
  sp_RegistrationID :: string
  sp_RuntimeID :: string
  sp_ServiceType :: string
  sp_Version :: string
  sp_EndpointPath :: string
  sp_Metadata :: "(string, string) gomap"
  sp_RegisteredAt :: time

record ServiceRegistry =
  r_providers :: "(string, ServiceProvider list) gomap"
  r_registrations :: "(string, ServiceProvider) gomap"
  r_selection :: "(string, SelectionStrategy) gomap"
  r_roundRobinIndex :: "(string, nat) gomap"
  r_allowedServices :: "(string, string list) gomap"
  r_watchers :: "(string, serviceWatcher list) gomap"

record RegisterServiceRequest =
  rsr_ServiceType :: string
  rsr_Version :: string
  rsr_EndpointPath :: string
  rsr_Metadata :: "(string, string) gomap"

record DiscoverServiceResponse =
  dsr_Endpoint :: ServiceEndpoint
  dsr_SingleProvider :: bool

datatype SelectError =
    NoProviders string             \<comment> \<open>no providers for service\<close>
  | NoCompatible string string     \<comment> \<open>no compatible providers (min version)\<close>
  | NoAvailable string             \<comment> \<open>all unhealthy\<close>

datatype RegistryError =
    InvalidInput ValidationError
  | RgRuntimeIDHeaderRequired
  | NotAuthorized string string
  | RegistrationIDFailed
  | RegistrationNotFound string
  | SelectFailed SelectError

type_synonym lifecycle = "LifecycleServer option"

section \<open>Configuration\<close>

definition NewServiceRegistry :: ServiceRegistry where
  "NewServiceRegistry =
     \<lparr>r_providers = Map.empty, r_registrations = Map.empty, r_selection = Map.empty,
      r_roundRobinIndex = Map.empty, r_allowedServices = Map.empty, r_watchers = Map.empty\<rparr>"

definition SetAllowedServices :: "string \<Rightarrow> string list \<Rightarrow> ServiceRegistry \<Rightarrow> ServiceRegistry" where
  "SetAllowedServices runtimeID serviceTypes r =
     r\<lparr>r_allowedServices := (r_allowedServices r)(runtimeID \<mapsto> serviceTypes)\<rparr>"

definition SetSelectionStrategy :: "string \<Rightarrow> SelectionStrategy \<Rightarrow> ServiceRegistry \<Rightarrow> ServiceRegistry" where
  "SetSelectionStrategy serviceType strategy r =
     r\<lparr>r_selection := (r_selection r)(serviceType \<mapsto> strategy)\<rparr>"

section \<open>Selection\<close>

text \<open>\<open>p.Version >= minVersion\<close> is Go's order on strings.\<close>

definition filterCompatibleVersions :: "ServiceProvider list \<Rightarrow> string \<Rightarrow> ServiceProvider list" where
  "filterCompatibleVersions providers minVersion =
     (if minVersion = '''' then providers
      else filter (\<lambda>p. minVersion \<le> sp_Version p) providers)"

definition filterAvailable :: "lifecycle \<Rightarrow> ServiceProvider list \<Rightarrow> ServiceProvider list" where
  "filterAvailable lc providers =
     (case lc of
        None \<Rightarrow> providers
      | Some l \<Rightarrow> filter (\<lambda>p. ShouldRouteTraffic l (sp_RuntimeID p)) providers)"

definition get_index :: "('k, nat) gomap \<Rightarrow> 'k \<Rightarrow> nat" where
  "get_index m k = (case m k of None \<Rightarrow> 0 | Some i \<Rightarrow> i)"

text \<open>
  \<open>draw n\<close> is the value of \<open>rand.Intn(n)\<close>. The round-robin index is only ever assigned a
  remainder, so it is a natural number.
\<close>

definition applyStrategy ::
    "(nat \<Rightarrow> nat) \<Rightarrow> string \<Rightarrow> ServiceProvider list \<Rightarrow> SelectionStrategy \<Rightarrow> ServiceRegistry \<Rightarrow>
     ServiceRegistry \<times> ServiceProvider option" where
  "applyStrategy draw serviceType providers strategy r =
     (if length providers = 0 then (r, None)
      else case strategy of
        SelectionFirst \<Rightarrow> (r, Some (providers ! 0))
      | SelectionRoundRobin \<Rightarrow>
          let idx = get_index (r_roundRobinIndex r) serviceType;
              provider = providers ! (idx mod length providers)
          in (r\<lparr>r_roundRobinIndex :=
                  (r_roundRobinIndex r)(serviceType \<mapsto> (idx + 1) mod length providers)\<rparr>,
              Some provider)
      | SelectionRandom \<Rightarrow> (r, Some (providers ! draw (length providers)))
      | SelectionWeighted \<Rightarrow> (r, Some (providers ! 0))
      | _ \<Rightarrow> (r, Some (providers ! 0)))"

definition strategyOf :: "ServiceRegistry \<Rightarrow> string \<Rightarrow> SelectionStrategy" where
  "strategyOf r serviceType =
     (case r_selection r serviceType of None \<Rightarrow> SelectionFirst | Some s \<Rightarrow> s)"

text \<open>The result is a pointer, nil (\<open>None\<close>) when \<open>applyStrategy\<close> returns nil.\<close>

definition SelectProvider ::
    "(nat \<Rightarrow> nat) \<Rightarrow> lifecycle \<Rightarrow> string \<Rightarrow> string \<Rightarrow> ServiceRegistry \<Rightarrow>
     ServiceRegistry \<times> (SelectError + ServiceProvider option)" where
  "SelectProvider draw lc serviceType minVersion r =
     (let allProviders = get_slice (r_providers r) serviceType
      in if length allProviders = 0 then (r, Inl (NoProviders serviceType))
         else
           let compatible = filterCompatibleVersions allProviders minVersion
           in if length compatible = 0 then (r, Inl (NoCompatible serviceType minVersion))
              else
                let available = filterAvailable lc compatible
                in if length available = 0 then (r, Inl (NoAvailable serviceType))
                   else
                     let (r', p) = applyStrategy draw serviceType available (strategyOf r serviceType) r
                     in (r', Inr p))"

definition HasService ::
    "(nat \<Rightarrow> nat) \<Rightarrow> lifecycle \<Rightarrow> string \<Rightarrow> string \<Rightarrow> ServiceRegistry \<Rightarrow> ServiceRegistry \<times> bool" where
  "HasService draw lc serviceType minVersion r =
     (let (r', res) = SelectProvider draw lc serviceType minVersion r
      in (r', case res of Inl _ \<Rightarrow> False | Inr _ \<Rightarrow> True))"

section \<open>Notification of watchers\<close>

definition serviceURL :: "string \<Rightarrow> string \<Rightarrow> string" where
  "serviceURL serviceType runtimeID = ''/services/'' @ serviceType @ ''/'' @ runtimeID"

definition providerEndpoint :: "ServiceProvider \<Rightarrow> ServiceEndpoint" where
  "providerEndpoint p =
     \<lparr>se_ProviderId = sp_RuntimeID p, se_Version = sp_Version p,
      se_EndpointUrl = serviceURL (sp_ServiceType p) (sp_RuntimeID p),
      se_Metadata = sp_Metadata p\<rparr>"

definition buildServiceEventLocked :: "lifecycle \<Rightarrow> string \<Rightarrow> ServiceRegistry \<Rightarrow> WatchServiceEvent" where
  "buildServiceEventLocked lc serviceType r =
     (let providers = get_slice (r_providers r) serviceType;
          unavailable = \<lparr>we_ServiceType = serviceType, we_State = SERVICE_STATE_UNAVAILABLE,
                         we_Endpoint = None\<rparr>
      in if length providers = 0 then unavailable
         else
           let available = filterAvailable lc providers
           in if length available = 0 then unavailable
              else
                let provider = available ! 0;
                    state =
                      (case lc of
                         None \<Rightarrow> SERVICE_STATE_AVAILABLE
                       | Some l \<Rightarrow>
                           (case GetHealthState l (sp_RuntimeID provider) of
                              None \<Rightarrow> SERVICE_STATE_AVAILABLE
                            | Some hs \<Rightarrow>
                                if phs_State hs = HEALTH_STATE_DEGRADED then SERVICE_STATE_DEGRADED
                                else SERVICE_STATE_AVAILABLE))
                in \<lparr>we_ServiceType = serviceType, we_State = state,
                    we_Endpoint = Some (providerEndpoint provider)\<rparr>)"

definition watchBuffer :: nat where "watchBuffer = 10"

definition notifyWatchersLocked :: "lifecycle \<Rightarrow> string \<Rightarrow> ServiceRegistry \<Rightarrow> ServiceRegistry" where
  "notifyWatchersLocked lc serviceType r =
     (let event = buildServiceEventLocked lc serviceType r
      in case r_watchers r serviceType of
           None \<Rightarrow> r
         | Some ws \<Rightarrow>
             r\<lparr>r_watchers := (r_watchers r)(serviceType \<mapsto>
                 map (\<lambda>w. w\<lparr>w_ch := try_send watchBuffer event (w_ch w)\<rparr>) ws)\<rparr>)"

section \<open>Registration\<close>

text \<open>\<open>keys\<close> is the order of the loop of \<open>ValidateMetadata\<close>, \<open>rnd\<close> the random bytes of the id.\<close>

definition RegisterService ::
    "lifecycle \<Rightarrow> string list \<Rightarrow> random_read \<Rightarrow> time \<Rightarrow> http_header \<Rightarrow> RegisterServiceRequest \<Rightarrow>
     ServiceRegistry \<Rightarrow> ServiceRegistry \<times> (RegistryError connect_error + string)" where
  "RegisterService lc keys rnd now header req r =
     (case ValidateServiceType (rsr_ServiceType req) of
        Some e \<Rightarrow> (r, Inl (NewError CodeInvalidArgument (InvalidInput e)))
      | None \<Rightarrow>
     (case ValidateVersion (rsr_Version req) of
        Some e \<Rightarrow> (r, Inl (NewError CodeInvalidArgument (InvalidInput e)))
      | None \<Rightarrow>
     (case ValidateEndpointPath (rsr_EndpointPath req) of
        Some e \<Rightarrow> (r, Inl (NewError CodeInvalidArgument (InvalidInput e)))
      | None \<Rightarrow>
     (case ValidateMetadata (rsr_Metadata req) keys of
        Some e \<Rightarrow> (r, Inl (NewError CodeInvalidArgument (InvalidInput e)))
      | None \<Rightarrow>
     let runtimeID = header_get header ''X-Plugin-Runtime-ID''
     in if runtimeID = '''' then (r, Inl (NewError CodeInvalidArgument RgRuntimeIDHeaderRequired))
     else if (case r_allowedServices r runtimeID of
                None \<Rightarrow> False
              | Some allowed \<Rightarrow> rsr_ServiceType req \<notin> set allowed)
     then (r, Inl (NewError CodePermissionDenied (NotAuthorized runtimeID (rsr_ServiceType req))))
     else (case generateRegistrationID rnd of
        None \<Rightarrow> (r, Inl (NewError CodeInternal RegistrationIDFailed))
      | Some registrationID \<Rightarrow>
          let provider = \<lparr>sp_RegistrationID = registrationID, sp_RuntimeID = runtimeID,
                sp_ServiceType = rsr_ServiceType req, sp_Version = rsr_Version req,
                sp_EndpointPath = rsr_EndpointPath req, sp_Metadata = rsr_Metadata req,
                sp_RegisteredAt = now\<rparr>;
              r1 = r\<lparr>r_providers := append_at (r_providers r) (rsr_ServiceType req) provider,
                     r_registrations := (r_registrations r)(registrationID \<mapsto> provider)\<rparr>
          in (notifyWatchersLocked lc (rsr_ServiceType req) r1, Inr registrationID))))))"

text \<open>
  The loop that cuts a registration out of the provider list of its type, and the removal
  from both maps that \<open>UnregisterService\<close> and \<open>UnregisterPluginServices\<close> spell out.
\<close>

definition cutProvider ::
    "string \<Rightarrow> string \<Rightarrow> (string, ServiceProvider list) gomap \<Rightarrow> (string, ServiceProvider list) gomap" where
  "cutProvider serviceType regID m =
     (let providers = get_slice m serviceType
      in if \<exists>p\<in>set providers. sp_RegistrationID p = regID
         then m(serviceType \<mapsto> remove_first (\<lambda>p. sp_RegistrationID p = regID) providers)
         else m)"

definition removeRegistration :: "string \<Rightarrow> ServiceProvider \<Rightarrow> ServiceRegistry \<Rightarrow> ServiceRegistry" where
  "removeRegistration regID provider r =
     r\<lparr>r_providers := cutProvider (sp_ServiceType provider) regID (r_providers r),
       r_registrations := (r_registrations r)(regID := None)\<rparr>"

definition UnregisterService ::
    "lifecycle \<Rightarrow> string \<Rightarrow> ServiceRegistry \<Rightarrow> ServiceRegistry \<times> (RegistryError connect_error + unit)" where
  "UnregisterService lc registrationId r =
     (case r_registrations r registrationId of
        None \<Rightarrow> (r, Inl (NewError CodeNotFound (RegistrationNotFound registrationId)))
      | Some provider \<Rightarrow>
          (notifyWatchersLocked lc (sp_ServiceType provider)
             (removeRegistration registrationId provider r), Inr ()))"

text \<open>
  \<open>order\<close> is the order of the range over the registrations. The second loop reads the
  registration again; it is there, because the ids are distinct.
\<close>

definition UnregisterPluginServices :: "string list \<Rightarrow> string \<Rightarrow> ServiceRegistry \<Rightarrow> ServiceRegistry" where
  "UnregisterPluginServices order runtimeID r =
     (let toRemove = filter (\<lambda>regID. map_option sp_RuntimeID (r_registrations r regID) = Some runtimeID) order
      in fold (\<lambda>regID r. case r_registrations r regID of
                           None \<Rightarrow> r
                         | Some provider \<Rightarrow> removeRegistration regID provider r)
           toRemove r)"

section \<open>Readers\<close>

definition GetProvider :: "ServiceRegistry \<Rightarrow> string \<Rightarrow> ServiceProvider option" where
  "GetProvider r registrationID = r_registrations r registrationID"

text \<open>The first hit of the range over the registrations.\<close>

definition GetProviderByRuntimeID :: "string list \<Rightarrow> ServiceRegistry \<Rightarrow> string \<Rightarrow> ServiceProvider option" where
  "GetProviderByRuntimeID order r runtimeID =
     find (\<lambda>p. sp_RuntimeID p = runtimeID) (List.map_filter (r_registrations r) order)"

definition GetServicesBy :: "string list \<Rightarrow> ServiceRegistry \<Rightarrow> string \<Rightarrow> ServiceProvider list" where
  "GetServicesBy order r runtimeID =
     filter (\<lambda>p. sp_RuntimeID p = runtimeID) (List.map_filter (r_registrations r) order)"

definition GetAllProviders :: "ServiceRegistry \<Rightarrow> string \<Rightarrow> ServiceProvider list option" where
  "GetAllProviders r serviceType = r_providers r serviceType"

section \<open>Discovery\<close>

text \<open>
  The lock is released between the selection and the count of the providers; \<open>between\<close> is
  what other handlers do to the registry in the gap (the identity when nothing happens).
\<close>

definition DiscoverService ::
    "(nat \<Rightarrow> nat) \<Rightarrow> lifecycle \<Rightarrow> (ServiceRegistry \<Rightarrow> ServiceRegistry) \<Rightarrow> string \<Rightarrow> string \<Rightarrow>
     ServiceRegistry \<Rightarrow> ServiceRegistry \<times> (RegistryError connect_error + DiscoverServiceResponse option)" where
  "DiscoverService draw lc between serviceType minVersion r =
     (case SelectProvider draw lc serviceType minVersion r of
        (r1, Inl e) \<Rightarrow> (r1, Inl (NewError CodeNotFound (SelectFailed e)))
      | (r1, Inr None) \<Rightarrow> (r1, Inr None)
      | (r1, Inr (Some provider)) \<Rightarrow>
          let r2 = between r1
          in (r2, Inr (Some \<lparr>dsr_Endpoint = providerEndpoint provider,
                dsr_SingleProvider = length (get_slice (r_providers r2) serviceType) = 1\<rparr>)))"

section \<open>Watching\<close>

text \<open>
  \<open>WatchService\<close> under the lock: a new watcher with the present state in its buffer; then the
  stream loop, which takes an event out of the buffer and sends it; and the deferred cleanup.
  \<open>i\<close> is the identity of the new watcher.
\<close>

definition WatchService_start :: "lifecycle \<Rightarrow> nat \<Rightarrow> string \<Rightarrow> ServiceRegistry \<Rightarrow> ServiceRegistry" where
  "WatchService_start lc i serviceType r =
     (let initialEvent = buildServiceEventLocked lc serviceType r
      in r\<lparr>r_watchers := append_at (r_watchers r) serviceType \<lparr>w_id = i, w_ch = [initialEvent]\<rparr>\<rparr>)"

definition WatchService_recv :: "nat \<Rightarrow> string \<Rightarrow> ServiceRegistry \<Rightarrow> (WatchServiceEvent \<times> ServiceRegistry) option" where
  "WatchService_recv i serviceType r =
     (case find (\<lambda>w. w_id w = i) (get_slice (r_watchers r) serviceType) of
        None \<Rightarrow> None
      | Some w \<Rightarrow>
          (case w_ch w of
             [] \<Rightarrow> None
           | event # rest \<Rightarrow>
               Some (event, r\<lparr>r_watchers := (r_watchers r)(serviceType \<mapsto>
                 map (\<lambda>w. if w_id w = i then w\<lparr>w_ch := rest\<rparr> else w)
                   (get_slice (r_watchers r) serviceType))\<rparr>)))"

definition WatchService_exit :: "nat \<Rightarrow> string \<Rightarrow> ServiceRegistry \<Rightarrow> ServiceRegistry" where
  "WatchService_exit i serviceType r =
     (let watchers = get_slice (r_watchers r) serviceType
      in if \<exists>w\<in>set watchers. w_id w = i
         then r\<lparr>r_watchers := (r_watchers r)(serviceType \<mapsto> remove_first (\<lambda>w. w_id w = i) watchers)\<rparr>
         else r)"

end
