(* ===== verification/RegistryInv.thy ===== *)
theory RegistryInv
  imports Registry
begin

text \<open>
  The invariant of the registry: the provider lists and the registration map hold the same
  providers, each under its own type and id, each accepted by the validators; and the buffers
  of the watchers stay within their capacity. Every operation keeps it.
\<close>

section \<open>The invariant\<close>

definition valid_provider :: "ServiceProvider \<Rightarrow> bool" where
  "valid_provider p \<longleftrightarrow>
     sp_RuntimeID p \<noteq> '''' \<and> ValidateServiceType (sp_ServiceType p) = None \<and>
     ValidateVersion (sp_Version p) = None \<and> ValidateEndpointPath (sp_EndpointPath p) = None \<and>
     (\<forall>k v. sp_Metadata p k = Some v \<longrightarrow> entry_ok k v)"

definition wf_registry :: "ServiceRegistry \<Rightarrow> bool" where
  "wf_registry r \<longleftrightarrow>
     finite (dom (r_registrations r)) \<and>
     (\<forall>i p. r_registrations r i = Some p \<longrightarrow> sp_RegistrationID p = i \<and> valid_provider p) \<and>
     (\<forall>t p. p \<in> set (get_slice (r_providers r) t) \<longleftrightarrow>
        r_registrations r (sp_RegistrationID p) = Some p \<and> sp_ServiceType p = t) \<and>
     (\<forall>t. distinct (map sp_RegistrationID (get_slice (r_providers r) t)))"

definition wf_watchers :: "ServiceRegistry \<Rightarrow> bool" where
  "wf_watchers r \<longleftrightarrow> (\<forall>t. distinct (map w_id (get_slice (r_watchers r) t)) \<and>
     (\<forall>w\<in>set (get_slice (r_watchers r) t). length (w_ch w) \<le> watchBuffer))"

lemma wf_registryD:
  assumes "wf_registry r"
  shows "finite (dom (r_registrations r))"
    and "r_registrations r i = Some p \<Longrightarrow> sp_RegistrationID p = i"
    and "r_registrations r i = Some p \<Longrightarrow> valid_provider p"
    and "p \<in> set (get_slice (r_providers r) t) \<longleftrightarrow>
         r_registrations r (sp_RegistrationID p) = Some p \<and> sp_ServiceType p = t"
    and "distinct (map sp_RegistrationID (get_slice (r_providers r) t))"
  using assms unfolding wf_registry_def by blast+

text \<open>Only the two provider maps matter to the first part, only the watchers to the second.\<close>

lemma wf_registry_cong:
  "r_registrations r' = r_registrations r \<Longrightarrow> r_providers r' = r_providers r \<Longrightarrow>
   wf_registry r' = wf_registry r"
  by (simp add: wf_registry_def)

lemma wf_watchers_cong: "r_watchers r' = r_watchers r \<Longrightarrow> wf_watchers r' = wf_watchers r"
  by (simp add: wf_watchers_def)

named_theorems frame \<open>which parts of the state an operation leaves alone\<close>

lemma applyStrategy_frame [frame]:
  "r_registrations (fst (applyStrategy draw t ps s r)) = r_registrations r"
  "r_providers (fst (applyStrategy draw t ps s r)) = r_providers r"
  "r_watchers (fst (applyStrategy draw t ps s r)) = r_watchers r"
  "r_selection (fst (applyStrategy draw t ps s r)) = r_selection r"
  "r_allowedServices (fst (applyStrategy draw t ps s r)) = r_allowedServices r"
  by (auto simp: applyStrategy_def Let_def split: SelectionStrategy.splits)

lemma SelectProvider_frame [frame]:
  "r_registrations (fst (SelectProvider draw lc t v r)) = r_registrations r"
  "r_providers (fst (SelectProvider draw lc t v r)) = r_providers r"
  "r_watchers (fst (SelectProvider draw lc t v r)) = r_watchers r"
  "r_selection (fst (SelectProvider draw lc t v r)) = r_selection r"
  "r_allowedServices (fst (SelectProvider draw lc t v r)) = r_allowedServices r"
  by (simp_all add: SelectProvider_def Let_def case_prod_unfold frame)

lemma notifyWatchersLocked_frame [frame]:
  "r_registrations (notifyWatchersLocked lc t r) = r_registrations r"
  "r_providers (notifyWatchersLocked lc t r) = r_providers r"
  "r_selection (notifyWatchersLocked lc t r) = r_selection r"
  "r_roundRobinIndex (notifyWatchersLocked lc t r) = r_roundRobinIndex r"
  "r_allowedServices (notifyWatchersLocked lc t r) = r_allowedServices r"
  by (simp_all add: notifyWatchersLocked_def Let_def split: option.splits)

lemma removeRegistration_frame [frame]:
  "r_watchers (removeRegistration i p r) = r_watchers r"
  "r_selection (removeRegistration i p r) = r_selection r"
  "r_roundRobinIndex (removeRegistration i p r) = r_roundRobinIndex r"
  "r_allowedServices (removeRegistration i p r) = r_allowedServices r"
  by (simp_all add: removeRegistration_def)

section \<open>Watchers\<close>

lemma get_slice_notify:
  "get_slice (r_watchers (notifyWatchersLocked lc t r)) u =
     (if u = t then map (\<lambda>w. w\<lparr>w_ch := try_send watchBuffer (buildServiceEventLocked lc t r) (w_ch w)\<rparr>)
                        (get_slice (r_watchers r) t)
      else get_slice (r_watchers r) u)"
  by (auto simp: notifyWatchersLocked_def Let_def get_slice_def split: option.splits)

lemma wf_watchers_notify: "wf_watchers r \<Longrightarrow> wf_watchers (notifyWatchersLocked lc t r)"
  by (auto simp: wf_watchers_def get_slice_notify comp_def length_try_send)

lemma wf_watchers_start:
  "wf_watchers r \<Longrightarrow> i \<notin> w_id ` set (get_slice (r_watchers r) t) \<Longrightarrow>
   wf_watchers (WatchService_start lc i t r)"
  by (auto simp: wf_watchers_def WatchService_start_def Let_def watchBuffer_def)

lemma wf_watchers_recv:
  assumes wf: "wf_watchers r" and "WatchService_recv i t r = Some (e, r')"
  shows "wf_watchers r'"
proof -
  obtain w rest where w: "find (\<lambda>w. w_id w = i) (get_slice (r_watchers r) t) = Some w"
    and ch: "w_ch w = e # rest"
    and r': "r' = r\<lparr>r_watchers := (r_watchers r)(t \<mapsto>
       map (\<lambda>w. if w_id w = i then w\<lparr>w_ch := rest\<rparr> else w) (get_slice (r_watchers r) t))\<rparr>"
    using assms(2) by (auto simp: WatchService_recv_def split: option.splits list.splits)
  have "w \<in> set (get_slice (r_watchers r) t)"
    using w by (auto simp: find_Some_iff)
  then have "length rest \<le> watchBuffer"
    using wf ch by (fastforce simp: wf_watchers_def)
  then show ?thesis
    using wf by (auto simp: wf_watchers_def r' comp_def if_distrib [of w_id] cong: if_cong)
qed

lemma wf_watchers_exit: "wf_watchers r \<Longrightarrow> wf_watchers (WatchService_exit i t r)"
  by (auto simp: wf_watchers_def WatchService_exit_def Let_def remove_first_key distinct_map_filter)

section \<open>Registration and removal\<close>

text \<open>When a registration is accepted, and the provider it stores.\<close>

definition mayRegister :: "string list \<Rightarrow> http_header \<Rightarrow> RegisterServiceRequest \<Rightarrow> ServiceRegistry \<Rightarrow> bool" where
  "mayRegister keys h req r \<longleftrightarrow>
     ValidateServiceType (rsr_ServiceType req) = None \<and> ValidateVersion (rsr_Version req) = None \<and>
     ValidateEndpointPath (rsr_EndpointPath req) = None \<and> ValidateMetadata (rsr_Metadata req) keys = None \<and>
     header_get h ''X-Plugin-Runtime-ID'' \<noteq> '''' \<and>
     (\<forall>ts. r_allowedServices r (header_get h ''X-Plugin-Runtime-ID'') = Some ts \<longrightarrow> rsr_ServiceType req \<in> set ts)"

definition newProvider :: "string \<Rightarrow> time \<Rightarrow> http_header \<Rightarrow> RegisterServiceRequest \<Rightarrow> ServiceProvider" where
  "newProvider regID now h req =
     \<lparr>sp_RegistrationID = regID, sp_RuntimeID = header_get h ''X-Plugin-Runtime-ID'',
      sp_ServiceType = rsr_ServiceType req, sp_Version = rsr_Version req,
      sp_EndpointPath = rsr_EndpointPath req, sp_Metadata = rsr_Metadata req, sp_RegisteredAt = now\<rparr>"

definition storeProvider :: "ServiceProvider \<Rightarrow> ServiceRegistry \<Rightarrow> ServiceRegistry" where
  "storeProvider p r =
     r\<lparr>r_providers := append_at (r_providers r) (sp_ServiceType p) p,
       r_registrations := (r_registrations r)(sp_RegistrationID p \<mapsto> p)\<rparr>"

lemma RegisterService_refused:
  "\<not> mayRegister keys h req r \<Longrightarrow> \<exists>e. RegisterService lc keys rnd now h req r = (r, Inl e)"
  by (auto simp: RegisterService_def Let_def mayRegister_def split: option.splits)

lemma RegisterService_accepted:
  "mayRegister keys h req r \<Longrightarrow>
   RegisterService lc keys rnd now h req r =
     (case generateRegistrationID rnd of
        None \<Rightarrow> (r, Inl (NewError CodeInternal RegistrationIDFailed))
      | Some regID \<Rightarrow>
          (notifyWatchersLocked lc (rsr_ServiceType req) (storeProvider (newProvider regID now h req) r),
           Inr regID))"
  by (simp add: RegisterService_def Let_def mayRegister_def newProvider_def storeProvider_def split: option.split)

lemma RegisterService_cases:
  obtains (refused) e where "RegisterService lc keys rnd now h req r = (r, Inl e)"
  | (stored) regID where "mayRegister keys h req r" and "generateRegistrationID rnd = Some regID"
      and "RegisterService lc keys rnd now h req r =
         (notifyWatchersLocked lc (rsr_ServiceType req) (storeProvider (newProvider regID now h req) r), Inr regID)"
proof (cases "mayRegister keys h req r")
  case True
  show ?thesis
  proof (cases "generateRegistrationID rnd")
    case None
    show ?thesis by (rule that(1)) (simp add: RegisterService_accepted [OF True] None)
  next
    case (Some i)
    show ?thesis by (rule that(2) [OF True Some]) (simp add: RegisterService_accepted [OF True] Some)
  qed
next
  case False
  then show ?thesis using RegisterService_refused that(1) by blast
qed

lemma wf_registry_insert:
  assumes wf: "wf_registry r" and fresh: "r_registrations r (sp_RegistrationID p) = None"
    and "valid_provider p"
  shows "wf_registry (storeProvider p r)"
proof -
  have "sp_RegistrationID p \<notin> sp_RegistrationID ` set (get_slice (r_providers r) t)" for t
    using wf_registryD(4) [OF wf] fresh by force
  moreover have "q \<in> set (get_slice (r_providers r) t) \<longleftrightarrow>
      q \<noteq> p \<and> sp_RegistrationID q \<noteq> sp_RegistrationID p \<and>
      r_registrations r (sp_RegistrationID q) = Some q \<and> sp_ServiceType q = t" for q t
    using wf_registryD(4) [OF wf] fresh by force
  ultimately show ?thesis
    using wf assms(3) fresh unfolding wf_registry_def storeProvider_def by auto
qed

lemma wf_registry_RegisterService:
  assumes wf: "wf_registry r" and keys: "iter_order (rsr_Metadata req) keys"
    and fresh: "\<forall>i. generateRegistrationID rnd = Some i \<longrightarrow> r_registrations r i = None"
  shows "wf_registry (fst (RegisterService lc keys rnd now h req r))"
proof (cases rule: RegisterService_cases [of lc keys rnd now h req r])
  case (refused e)
  then show ?thesis using wf by simp
next
  case (stored i)
  have "valid_provider (newProvider i now h req)"
    using stored(1) validateMetadata_ok [OF keys] by (auto simp: newProvider_def mayRegister_def valid_provider_def)
  moreover have "sp_RegistrationID (newProvider i now h req) = i" by (simp add: newProvider_def)
  ultimately have "wf_registry (storeProvider (newProvider i now h req) r)"
    using wf_registry_insert [OF wf] stored(2) fresh by simp
  then show ?thesis
    by (simp add: stored(3) wf_registry_cong [OF notifyWatchersLocked_frame(1,2)])
qed

lemma get_slice_cutProvider:
  "get_slice (cutProvider t i m) u =
     (if u = t then remove_first (\<lambda>p. sp_RegistrationID p = i) (get_slice m t) else get_slice m u)"
  by (auto simp: cutProvider_def Let_def)

text \<open>On a well-formed registry the cut removes exactly the registration, in every list.\<close>

lemma get_slice_removeRegistration:
  assumes wf: "wf_registry r" and p: "r_registrations r i = Some p"
  shows "get_slice (r_providers (removeRegistration i p r)) u =
    filter (\<lambda>q. sp_RegistrationID q \<noteq> i) (get_slice (r_providers r) u)"
proof (cases "u = sp_ServiceType p")
  case True
  then show ?thesis
    by (simp add: removeRegistration_def get_slice_cutProvider remove_first_key [OF wf_registryD(5) [OF wf]])
next
  case False
  have "\<forall>q\<in>set (get_slice (r_providers r) u). sp_RegistrationID q \<noteq> i"
    using wf_registryD(4) [OF wf] p False by auto
  then show ?thesis using False
    by (simp add: removeRegistration_def get_slice_cutProvider filter_True)
qed

lemma wf_registry_removeRegistration:
  assumes wf: "wf_registry r" and p: "r_registrations r i = Some p"
  shows "wf_registry (removeRegistration i p r)"
  using wf unfolding wf_registry_def get_slice_removeRegistration [OF assms]
  by (auto simp: removeRegistration_def distinct_map_filter)

lemma wf_registry_UnregisterService:
  "wf_registry r \<Longrightarrow> wf_registry (fst (UnregisterService lc i r))"
  by (auto simp: UnregisterService_def wf_registry_removeRegistration
      wf_registry_cong [OF notifyWatchersLocked_frame(1,2)] split: option.splits)

text \<open>The loop of \<open>UnregisterPluginServices\<close> over any list of ids.\<close>

definition removeAll_regs :: "string list \<Rightarrow> ServiceRegistry \<Rightarrow> ServiceRegistry" where
  "removeAll_regs ids =
     fold (\<lambda>i r. case r_registrations r i of None \<Rightarrow> r | Some p \<Rightarrow> removeRegistration i p r) ids"

lemma removeAll_regs_correct:
  "wf_registry r \<Longrightarrow>
     wf_registry (removeAll_regs ids r) \<and>
     r_registrations (removeAll_regs ids r) = r_registrations r |` (- set ids) \<and>
     (\<forall>t. get_slice (r_providers (removeAll_regs ids r)) t =
          filter (\<lambda>q. sp_RegistrationID q \<notin> set ids) (get_slice (r_providers r) t)) \<and>
     r_watchers (removeAll_regs ids r) = r_watchers r"
proof (induction ids arbitrary: r)
  case Nil
  then show ?case by (simp add: removeAll_regs_def restrict_map_def)
next
  case (Cons i ids)
  show ?case
  proof (cases "r_registrations r i")
    case None
    then have "\<forall>t. \<forall>q\<in>set (get_slice (r_providers r) t). sp_RegistrationID q \<noteq> i"
      using wf_registryD(4) [OF Cons.prems] by auto
    moreover have "removeAll_regs (i # ids) r = removeAll_regs ids r"
      using None by (simp add: removeAll_regs_def)
    ultimately show ?thesis
      using Cons.IH [OF Cons.prems] None
      by (auto simp: restrict_map_def fun_eq_iff intro!: filter_cong)
  next
    case (Some p)
    let ?r = "removeRegistration i p r"
    have "removeAll_regs (i # ids) r = removeAll_regs ids ?r"
      using Some by (simp add: removeAll_regs_def)
    moreover have "r_registrations ?r |` (- set ids) = r_registrations r |` (- set (i # ids))"
      by (auto simp: removeRegistration_def restrict_map_def)
    ultimately show ?thesis
      using Cons.IH [OF wf_registry_removeRegistration [OF Cons.prems Some]]
      by (simp add: get_slice_removeRegistration [OF Cons.prems Some] frame conj_commute)
  qed
qed

lemma UnregisterPluginServices_unfold:
  "UnregisterPluginServices order rid r =
     removeAll_regs (filter (\<lambda>i. map_option sp_RuntimeID (r_registrations r i) = Some rid) order) r"
  by (simp add: UnregisterPluginServices_def removeAll_regs_def Let_def)

lemma UnregisterPluginServices_correct:
  assumes wf: "wf_registry r" and order: "iter_order (r_registrations r) order"
  shows "wf_registry (UnregisterPluginServices order rid r)"
    and "r_registrations (UnregisterPluginServices order rid r) i =
      (case r_registrations r i of None \<Rightarrow> None | Some p \<Rightarrow> if sp_RuntimeID p = rid then None else Some p)"
    and "get_slice (r_providers (UnregisterPluginServices order rid r)) t =
      filter (\<lambda>p. sp_RuntimeID p \<noteq> rid) (get_slice (r_providers r) t)"
    and "r_watchers (UnregisterPluginServices order rid r) = r_watchers r"
proof -
  let ?ids = "filter (\<lambda>i. map_option sp_RuntimeID (r_registrations r i) = Some rid) order"
  note all = removeAll_regs_correct [OF wf, of ?ids, folded UnregisterPluginServices_unfold]
  have ids: "i \<in> set ?ids \<longleftrightarrow> (\<exists>p. r_registrations r i = Some p \<and> sp_RuntimeID p = rid)" for i
    using iter_order_dom [OF order] by auto
  show "wf_registry (UnregisterPluginServices order rid r)"
    and "r_watchers (UnregisterPluginServices order rid r) = r_watchers r"
    using all by blast+
  show "r_registrations (UnregisterPluginServices order rid r) i =
      (case r_registrations r i of None \<Rightarrow> None | Some p \<Rightarrow> if sp_RuntimeID p = rid then None else Some p)"
    using all ids [of i] by (auto simp: restrict_map_def split: option.splits)
  have "get_slice (r_providers (UnregisterPluginServices order rid r)) t =
      filter (\<lambda>q. sp_RegistrationID q \<notin> set ?ids) (get_slice (r_providers r) t)"
    using all by blast
  also have "\<dots> = filter (\<lambda>p. sp_RuntimeID p \<noteq> rid) (get_slice (r_providers r) t)"
  proof (rule filter_cong [OF refl])
    fix q
    assume "q \<in> set (get_slice (r_providers r) t)"
    then have "r_registrations r (sp_RegistrationID q) = Some q"
      using wf_registryD(4) [OF wf] by blast
    then show "sp_RegistrationID q \<notin> set ?ids \<longleftrightarrow> sp_RuntimeID q \<noteq> rid"
      unfolding ids by auto
  qed
  finally show "get_slice (r_providers (UnregisterPluginServices order rid r)) t =
      filter (\<lambda>p. sp_RuntimeID p \<noteq> rid) (get_slice (r_providers r) t)" .
qed

end
