(* ===== verification/RegistryProps.thy ===== *)
theory RegistryProps
  imports RegistryInv
begin

text \<open>
  What the registry promises its callers: which provider a selection returns and when it fails,
  the fairness of the round robin, what the watchers are told, that unregistering undoes
  registering, and that the readers answer from the registered providers. The registry as a
  transition system closes the theory.
\<close>

section \<open>Selection\<close>

text \<open>The providers a request may be sent to.\<close>

definition eligible :: "lifecycle \<Rightarrow> string \<Rightarrow> string \<Rightarrow> ServiceRegistry \<Rightarrow> ServiceProvider list" where
  "eligible lc t v r = filterAvailable lc (filterCompatibleVersions (get_slice (r_providers r) t) v)"

definition compatible :: "string \<Rightarrow> ServiceProvider \<Rightarrow> bool" where
  "compatible v p \<longleftrightarrow> v = '''' \<or> v \<le> sp_Version p"

definition available :: "lifecycle \<Rightarrow> ServiceProvider \<Rightarrow> bool" where
  "available lc p \<longleftrightarrow> (\<forall>l. lc = Some l \<longrightarrow> ShouldRouteTraffic l (sp_RuntimeID p))"

lemma filterCompatibleVersions_filter: "filterCompatibleVersions ps v = filter (compatible v) ps"
  by (auto simp: filterCompatibleVersions_def compatible_def fun_eq_iff intro!: filter_cong)

lemma filterAvailable_filter: "filterAvailable lc ps = filter (available lc) ps"
  by (auto simp: filterAvailable_def available_def split: option.split intro!: filter_cong)

lemma set_eligible:
  "set (eligible lc t v r) = {p \<in> set (get_slice (r_providers r) t). compatible v p \<and> available lc p}"
  by (auto simp: eligible_def filterCompatibleVersions_filter filterAvailable_filter)

lemma eligible_registered:
  "wf_registry r \<Longrightarrow> set (eligible lc t v r) =
     {p. r_registrations r (sp_RegistrationID p) = Some p \<and> sp_ServiceType p = t \<and> compatible v p \<and> available lc p}"
  using wf_registryD(4) [of r] by (auto simp: set_eligible)

definition draw_ok :: "(nat \<Rightarrow> nat) \<Rightarrow> bool" where
  "draw_ok draw \<longleftrightarrow> (\<forall>n > 0. draw n < n)"

lemma applyStrategy_in:
  "draw_ok draw \<Longrightarrow> ps \<noteq> [] \<Longrightarrow> \<exists>p\<in>set ps. snd (applyStrategy draw t ps s r) = Some p"
  by (auto simp: applyStrategy_def Let_def draw_ok_def split: SelectionStrategy.split)

lemma SelectProvider_fails:
  assumes "eligible lc t v r = []"
  shows "SelectProvider draw lc t v r = (r, Inl
     (if get_slice (r_providers r) t = [] then NoProviders t
      else if filterCompatibleVersions (get_slice (r_providers r) t) v = [] then NoCompatible t v
      else NoAvailable t))"
  using assms by (auto simp: SelectProvider_def eligible_def Let_def)

lemma SelectProvider_applies:
  assumes "eligible lc t v r \<noteq> []"
  shows "SelectProvider draw lc t v r =
     (fst (applyStrategy draw t (eligible lc t v r) (strategyOf r t) r),
      Inr (snd (applyStrategy draw t (eligible lc t v r) (strategyOf r t) r)))"
proof -
  have "get_slice (r_providers r) t \<noteq> []" "filterCompatibleVersions (get_slice (r_providers r) t) v \<noteq> []"
    using assms unfolding eligible_def filterCompatibleVersions_filter filterAvailable_filter
    by (metis filter.simps(1))+
  then show ?thesis using assms by (simp add: SelectProvider_def Let_def eligible_def case_prod_unfold)
qed

lemma SelectProvider_succeeds:
  assumes "draw_ok draw" and "eligible lc t v r \<noteq> []"
  shows "\<exists>p\<in>set (eligible lc t v r). snd (SelectProvider draw lc t v r) = Inr (Some p)"
  using applyStrategy_in [OF assms] by (simp add: SelectProvider_applies [OF assms(2)])

section \<open>Round robin\<close>

text \<open>The answers of \<open>k\<close> selections in a row.\<close>

fun selectMany ::
    "(nat \<Rightarrow> nat) \<Rightarrow> lifecycle \<Rightarrow> string \<Rightarrow> string \<Rightarrow> nat \<Rightarrow> ServiceRegistry \<Rightarrow>
     (SelectError + ServiceProvider option) list" where
  "selectMany draw lc t v 0 r = []"
| "selectMany draw lc t v (Suc k) r =
     snd (SelectProvider draw lc t v r) # selectMany draw lc t v k (fst (SelectProvider draw lc t v r))"

lemma strategyOf_frame [frame]: "r_selection r' = r_selection r \<Longrightarrow> strategyOf r' t = strategyOf r t"
  by (simp add: strategyOf_def)

lemma eligible_cong: "r_providers r' = r_providers r \<Longrightarrow> eligible lc t v r' = eligible lc t v r"
  by (simp add: eligible_def)

lemma selectMany_round_robin:
  assumes "strategyOf r t = SelectionRoundRobin" and ne: "eligible lc t v r \<noteq> []"
  shows "selectMany draw lc t v k r =
    map (\<lambda>j. Inr (Some (eligible lc t v r !
          ((get_index (r_roundRobinIndex r) t + j) mod length (eligible lc t v r))))) [0..<k]"
  using assms
proof (induction k arbitrary: r)
  case 0
  then show ?case by simp
next
  case (Suc k)
  let ?es = "eligible lc t v r" and ?i = "get_index (r_roundRobinIndex r) t"
  let ?r = "fst (SelectProvider draw lc t v r)"
  have es: "eligible lc t v ?r = ?es"
    by (rule eligible_cong) (simp add: SelectProvider_frame)
  have "strategyOf ?r t = SelectionRoundRobin"
    using Suc.prems(1) by (simp add: strategyOf_def SelectProvider_frame)
  moreover have i: "get_index (r_roundRobinIndex ?r) t = (?i + 1) mod length ?es"
    using Suc.prems by (simp add: SelectProvider_applies applyStrategy_def get_index_def Let_def)
  ultimately have ih: "selectMany draw lc t v k ?r =
      map (\<lambda>j. Inr (Some (?es ! (((?i + 1) mod length ?es + j) mod length ?es)))) [0..<k]"
    using Suc.IH [of ?r] Suc.prems(2) by (simp only: es) simp
  have "((?i + 1) mod length ?es + j) mod length ?es = (?i + Suc j) mod length ?es" for j
    by (simp add: mod_add_left_eq)
  moreover have "snd (SelectProvider draw lc t v r) = Inr (Some (?es ! (?i mod length ?es)))"
    using Suc.prems by (simp add: SelectProvider_applies applyStrategy_def Let_def)
  ultimately show ?case
    by (simp only: selectMany.simps ih map_upt_Suc) simp
qed

lemma map_nth_rotate:
  "xs \<noteq> [] \<Longrightarrow> map (\<lambda>j. xs ! ((i + j) mod length xs)) [0..<length xs] = rotate i xs"
  by (rule nth_equalityI) (simp_all add: nth_rotate)

text \<open>C18. Under the round-robin strategy, as many consecutive selections as there are eligible
  providers return each of them once, in their registration order, starting after the one
  returned last: no provider is starved.\<close>
theorem selectMany_fair:
  assumes "strategyOf r t = SelectionRoundRobin" and ne: "eligible lc t v r \<noteq> []"
  shows "selectMany draw lc t v (length (eligible lc t v r)) r =
    map (\<lambda>p. Inr (Some p)) (rotate (get_index (r_roundRobinIndex r) t) (eligible lc t v r))"
  unfolding selectMany_round_robin [OF assms] map_nth_rotate [OF ne, symmetric] by simp

section \<open>What watchers are told\<close>

lemma eligible_any: "eligible lc t '''' r = filterAvailable lc (get_slice (r_providers r) t)"
  by (simp add: eligible_def filterCompatibleVersions_def)

definition degraded :: "lifecycle \<Rightarrow> string \<Rightarrow> bool" where
  "degraded lc rid \<longleftrightarrow> (\<exists>l hs. lc = Some l \<and> GetHealthState l rid = Some hs \<and> phs_State hs = HEALTH_STATE_DEGRADED)"

lemma buildServiceEventLocked_eq:
  "buildServiceEventLocked lc t r =
     (case eligible lc t '''' r of
        [] \<Rightarrow> \<lparr>we_ServiceType = t, we_State = SERVICE_STATE_UNAVAILABLE, we_Endpoint = None\<rparr>
      | p # _ \<Rightarrow> \<lparr>we_ServiceType = t,
           we_State = (if degraded lc (sp_RuntimeID p) then SERVICE_STATE_DEGRADED else SERVICE_STATE_AVAILABLE),
           we_Endpoint = Some (providerEndpoint p)\<rparr>)"
proof (cases "eligible lc t '''' r")
  case Nil
  then show ?thesis by (simp add: buildServiceEventLocked_def eligible_any Let_def)
next
  case (Cons p ps)
  then have "get_slice (r_providers r) t \<noteq> []"
    by (auto simp: eligible_any filterAvailable_filter)
  with Cons show ?thesis
    by (auto simp: buildServiceEventLocked_def eligible_any Let_def degraded_def split: option.splits)
qed

lemma event_matches_selection:
  "we_State (buildServiceEventLocked lc t r) = SERVICE_STATE_UNAVAILABLE \<longleftrightarrow>
     (\<exists>e. snd (SelectProvider draw lc t '''' r) = Inl e)"
  by (cases "eligible lc t '''' r")
    (simp_all add: buildServiceEventLocked_eq SelectProvider_fails SelectProvider_applies)

lemma notify_delivers:
  assumes "w \<in> set (get_slice (r_watchers r) t)" and "length (w_ch w) < watchBuffer"
  shows "w\<lparr>w_ch := w_ch w @ [buildServiceEventLocked lc t r]\<rparr> \<in>
           set (get_slice (r_watchers (notifyWatchersLocked lc t r)) t)"
  using assms by (force simp: get_slice_notify try_send_def)

lemma notify_full_drops:
  assumes "w \<in> set (get_slice (r_watchers r) t)" and "length (w_ch w) = watchBuffer"
  shows "w \<in> set (get_slice (r_watchers (notifyWatchersLocked lc t r)) t)"
  using assms by (force simp: get_slice_notify try_send_def)

lemma buildServiceEventLocked_notify:
  "buildServiceEventLocked lc t (notifyWatchersLocked lc' u r) = buildServiceEventLocked lc t r"
  by (simp add: buildServiceEventLocked_def frame)

section \<open>Unregistering undoes registering\<close>

text \<open>Unregistering with the id a registration returned always succeeds and undoes the
  registration: both maps of the registry are as before, whatever the health of the plugins.\<close>
theorem UnregisterService_RegisterService:
  assumes wf: "wf_registry r" and keys: "iter_order (rsr_Metadata req) keys"
    and reg: "RegisterService lc keys rnd now h req r = (r1, Inr regID)"
    and fresh: "r_registrations r regID = None"
  shows "\<exists>r2. UnregisterService lc' regID r1 = (r2, Inr ()) \<and> r_registrations r2 = r_registrations r \<and>
    (\<forall>t. get_slice (r_providers r2) t = get_slice (r_providers r) t)"
proof -
  let ?p = "newProvider regID now h req"
  have may: "mayRegister keys h req r" and gen: "generateRegistrationID rnd = Some regID"
    and r1: "r1 = notifyWatchersLocked lc (rsr_ServiceType req) (storeProvider ?p r)"
    using reg by (cases rule: RegisterService_cases [of lc keys rnd now h req r]; simp)+
  have id: "sp_RegistrationID ?p = regID" by (simp add: newProvider_def)
  have regs: "r_registrations r1 = (r_registrations r)(regID \<mapsto> ?p)"
    and prov: "get_slice (r_providers r1) t =
       (if t = sp_ServiceType ?p then get_slice (r_providers r) t @ [?p] else get_slice (r_providers r) t)" for t
    by (simp_all add: r1 frame storeProvider_def id)
  have "wf_registry r1"
    using wf_registry_RegisterService [OF wf keys, of rnd lc now h] gen fresh reg by simp
  then have "get_slice (r_providers (removeRegistration regID ?p r1)) t =
      filter (\<lambda>q. sp_RegistrationID q \<noteq> regID) (get_slice (r_providers r1) t)" for t
    by (rule get_slice_removeRegistration) (simp add: regs)
  moreover have "\<forall>q\<in>set (get_slice (r_providers r) t). sp_RegistrationID q \<noteq> regID" for t
    using wf_registryD(4) [OF wf] fresh by auto
  ultimately have "get_slice (r_providers (removeRegistration regID ?p r1)) t = get_slice (r_providers r) t" for t
    by (simp add: prov id filter_True)
  moreover have "UnregisterService lc' regID r1 =
      (notifyWatchersLocked lc' (sp_ServiceType ?p) (removeRegistration regID ?p r1), Inr ())"
    by (simp add: UnregisterService_def regs)
  moreover have "r_registrations (removeRegistration regID ?p r1) = r_registrations r"
    using fresh by (auto simp: removeRegistration_def regs)
  ultimately show ?thesis by (simp add: frame)
qed

section \<open>Readers\<close>

lemma set_map_filter_registrations:
  assumes "iter_order (r_registrations r) order"
  shows "set (List.map_filter (r_registrations r) order) = ran (r_registrations r)"
proof -
  have "set (List.map_filter (r_registrations r) order) = {p. \<exists>i\<in>set order. r_registrations r i = Some p}"
    by (induction order) (auto simp: map_filter_simps split: option.split)
  also have "\<dots> = ran (r_registrations r)"
    unfolding iter_order_dom [OF assms] by (auto simp: ran_def dom_def)
  finally show ?thesis .
qed

lemma GetProviderByRuntimeID_correct:
  assumes "iter_order (r_registrations r) order"
  shows "GetProviderByRuntimeID order r rid = None \<longleftrightarrow> (\<forall>p\<in>ran (r_registrations r). sp_RuntimeID p \<noteq> rid)"
    and "GetProviderByRuntimeID order r rid = Some p \<Longrightarrow> p \<in> ran (r_registrations r) \<and> sp_RuntimeID p = rid"
proof -
  let ?ps = "List.map_filter (r_registrations r) order"
  have s: "set ?ps = ran (r_registrations r)" by (rule set_map_filter_registrations [OF assms])
  show "GetProviderByRuntimeID order r rid = None \<longleftrightarrow> (\<forall>p\<in>ran (r_registrations r). sp_RuntimeID p \<noteq> rid)"
    by (auto simp: GetProviderByRuntimeID_def find_None_iff s)
  show "p \<in> ran (r_registrations r) \<and> sp_RuntimeID p = rid" if "GetProviderByRuntimeID order r rid = Some p"
  proof -
    have "p \<in> set ?ps" "sp_RuntimeID p = rid"
      using that nth_mem [of _ ?ps] by (auto simp: GetProviderByRuntimeID_def find_Some_iff)
    then show ?thesis by (simp add: s)
  qed
qed

lemma GetServicesBy_correct:
  "iter_order (r_registrations r) order \<Longrightarrow>
   set (GetServicesBy order r rid) = {p \<in> ran (r_registrations r). sp_RuntimeID p = rid}"
  by (auto simp: GetServicesBy_def set_map_filter_registrations)

section \<open>The registry as a component\<close>

text \<open>
  The steps of the registry. The random id of a new registration is one that is not in use;
  \<open>lc\<close> is whatever the lifecycle server holds at the time.
\<close>

inductive registry_step :: "ServiceRegistry \<Rightarrow> ServiceRegistry \<Rightarrow> bool" where
  st_register: "iter_order (rsr_Metadata req) keys \<Longrightarrow>
      (\<forall>i. generateRegistrationID rnd = Some i \<longrightarrow> r_registrations r i = None) \<Longrightarrow>
      registry_step r (fst (RegisterService lc keys rnd now h req r))"
| st_unregister: "registry_step r (fst (UnregisterService lc i r))"
| st_unregister_plugin: "iter_order (r_registrations r) order \<Longrightarrow>
      registry_step r (UnregisterPluginServices order rid r)"
| st_select: "registry_step r (fst (SelectProvider draw lc t v r))"
| st_allow: "registry_step r (SetAllowedServices rid ts r)"
| st_strategy: "registry_step r (SetSelectionStrategy t s r)"
| st_watch: "i \<notin> w_id ` set (get_slice (r_watchers r) t) \<Longrightarrow> registry_step r (WatchService_start lc i t r)"
| st_recv: "WatchService_recv i t r = Some (e, r') \<Longrightarrow> registry_step r r'"
| st_exit: "registry_step r (WatchService_exit i t r)"

definition registry_inv :: "ServiceRegistry \<Rightarrow> bool" where
  "registry_inv r \<longleftrightarrow> wf_registry r \<and> wf_watchers r"

lemma wf_watchers_store: "wf_watchers (storeProvider p r) = wf_watchers r"
  by (simp add: storeProvider_def wf_watchers_def)

lemma wf_watchers_RegisterService: "wf_watchers r \<Longrightarrow> wf_watchers (fst (RegisterService lc keys rnd now h req r))"
  by (cases rule: RegisterService_cases [of lc keys rnd now h req r])
    (auto intro!: wf_watchers_notify simp: wf_watchers_store)

lemma wf_watchers_UnregisterService: "wf_watchers r \<Longrightarrow> wf_watchers (fst (UnregisterService lc i r))"
  by (auto simp: UnregisterService_def wf_watchers_cong [OF removeRegistration_frame(1)]
      intro!: wf_watchers_notify split: option.splits)

lemma WatchService_frame [frame]:
  "r_registrations (WatchService_start lc i t r) = r_registrations r"
  "r_providers (WatchService_start lc i t r) = r_providers r"
  "r_registrations (WatchService_exit i t r) = r_registrations r"
  "r_providers (WatchService_exit i t r) = r_providers r"
  by (simp_all add: WatchService_start_def WatchService_exit_def Let_def)

lemma WatchService_recv_frame [frame]:
  "WatchService_recv i t r = Some (e, r') \<Longrightarrow> r_registrations r' = r_registrations r \<and> r_providers r' = r_providers r"
  by (auto simp: WatchService_recv_def split: option.splits list.splits)

lemma registry_inv_step: "registry_inv r \<Longrightarrow> registry_step r r' \<Longrightarrow> registry_inv r'"
  unfolding registry_inv_def
proof (elim conjE, cases r r' rule: registry_step.cases)
qed (auto simp: wf_registry_RegisterService wf_watchers_RegisterService wf_registry_UnregisterService
    wf_watchers_UnregisterService UnregisterPluginServices_correct(1)
    wf_watchers_cong [OF UnregisterPluginServices_correct(4)]
    wf_registry_cong [OF SelectProvider_frame(1,2)] wf_watchers_cong [OF SelectProvider_frame(3)]
    SetAllowedServices_def SetSelectionStrategy_def wf_watchers_start wf_watchers_recv wf_watchers_exit
    wf_registry_cong [OF WatchService_frame(1,2)] wf_registry_cong [OF WatchService_frame(3,4)]
    intro: wf_registry_cong [THEN iffD2] wf_watchers_cong [THEN iffD2] dest: WatchService_recv_frame)

lemma registry_inv_new: "registry_inv NewServiceRegistry"
  by (simp add: registry_inv_def NewServiceRegistry_def wf_registry_def wf_watchers_def)

interpretation rg: safe_component "\<lambda>r. r = NewServiceRegistry" registry_step registry_inv
  by unfold_locales (simp_all add: registry_inv_new registry_inv_step)

section \<open>An example\<close>

definition example_header :: http_header where
  "example_header = header_set Map.empty ''X-Plugin-Runtime-ID'' ''kv-a1b2''"

definition example_request :: RegisterServiceRequest where
  "example_request = \<lparr>rsr_ServiceType = ''kv'', rsr_Version = ''1.0.0'', rsr_EndpointPath = ''/kv'', rsr_Metadata = Map.empty\<rparr>"

definition example_provider :: ServiceProvider where
  "example_provider = newProvider ''reg-6162636465666768'' 5 example_header example_request"

definition example_registry :: ServiceRegistry where
  "example_registry = storeProvider example_provider NewServiceRegistry"

lemma example_may: "r_allowedServices r = Map.empty \<Longrightarrow> mayRegister [] example_header example_request r"
proof -
  assume "r_allowedServices r = Map.empty"
  moreover have "ValidateServiceType ''kv'' = None" "ValidateVersion ''1.0.0'' = None" "ValidateEndpointPath ''/kv'' = None"
    by code_simp+
  ultimately show ?thesis
    by (simp add: mayRegister_def example_request_def example_header_def ValidateMetadata_def)
qed

lemma example_register:
  "RegisterService lc [] (Some ''abcdefgh'') 5 example_header example_request NewServiceRegistry =
     (example_registry, Inr ''reg-6162636465666768'')"
proof -
  have "generateRegistrationID (Some ''abcdefgh'') = Some ''reg-6162636465666768''" by code_simp
  moreover have "mayRegister [] example_header example_request NewServiceRegistry"
    by (rule example_may) (simp add: NewServiceRegistry_def)
  ultimately show ?thesis
    by (simp add: RegisterService_accepted example_registry_def example_provider_def notifyWatchersLocked_def
        storeProvider_def NewServiceRegistry_def newProvider_def)
qed

lemma example_reach: "reach (\<lambda>r. r = NewServiceRegistry) registry_step example_registry"
proof -
  have "registry_step NewServiceRegistry (fst (RegisterService None [] (Some ''abcdefgh'') 5 example_header example_request NewServiceRegistry))"
    by (rule st_register) (simp_all add: example_request_def iter_order_def NewServiceRegistry_def)
  with reach_init [of "\<lambda>r. r = NewServiceRegistry" NewServiceRegistry registry_step] show ?thesis
    by (auto simp: example_register intro: reach_step)
qed

lemma example_providers:
  "get_slice (r_providers example_registry) t = (if t = ''kv'' then [example_provider] else [])"
  "r_registrations example_registry = [''reg-6162636465666768'' \<mapsto> example_provider]"
  by (simp_all add: example_registry_def storeProvider_def NewServiceRegistry_def example_provider_def newProvider_def example_request_def)

section \<open>Properties\<close>

text \<open>C6. In every state the registry reaches from the empty one, whatever the sequence of calls of
  its operations, the list of providers by type and the map of registrations describe the
  same registrations, each once, each under its id and with validated fields, and no
  watcher's buffer exceeds its capacity.\<close>
theorem registry_reachable:
  assumes "reach (\<lambda>r. r = NewServiceRegistry) registry_step r"
  shows "wf_registry r \<and> wf_watchers r"
  using rg.reach_inv [OF assms] by (simp add: registry_inv_def)

lemma registry_reachable_witness: "wf_registry example_registry"
  using registry_reachable [OF example_reach] by simp

lemma wf_example: "wf_registry example_registry"
  using rg.reach_inv [OF example_reach] by (simp add: registry_inv_def)

lemma UnregisterService_RegisterService_witness:
  "\<exists>r2. UnregisterService None ''reg-6162636465666768'' example_registry = (r2, Inr ()) \<and>
     r_registrations r2 = Map.empty"
  using UnregisterService_RegisterService [OF _ _ example_register, of None] registry_inv_new
  by (simp add: registry_inv_def NewServiceRegistry_def example_request_def iter_order_def) blast

text \<open>C4. \<open>SelectProvider\<close> succeeds exactly when some registered provider of the service type has a
  version at least the required one (in string order) and is not reported unhealthy, whatever
  the strategy; it returns such a provider, and on failure leaves the registry unchanged.\<close>
theorem SelectProvider_correct:
  assumes "wf_registry r" and "draw_ok draw"
  shows "(case snd (SelectProvider draw lc t v r) of
      Inr p \<Rightarrow> \<exists>q. p = Some q \<and> r_registrations r (sp_RegistrationID q) = Some q \<and> sp_ServiceType q = t \<and>
                 compatible v q \<and> available lc q
    | Inl e \<Rightarrow> fst (SelectProvider draw lc t v r) = r \<and>
        (\<nexists>i q. r_registrations r i = Some q \<and> sp_ServiceType q = t \<and> compatible v q \<and> available lc q))"
proof (cases "eligible lc t v r = []")
  case True
  then have "\<nexists>q. r_registrations r (sp_RegistrationID q) = Some q \<and> sp_ServiceType q = t \<and> compatible v q \<and> available lc q"
    using eligible_registered [OF assms(1), of lc t v] by auto
  then show ?thesis
    using wf_registryD(2) [OF assms(1)] by (auto simp: SelectProvider_fails [OF True])
next
  case False
  then show ?thesis
    using SelectProvider_succeeds [OF assms(2) False] eligible_registered [OF assms(1), of lc t v] by auto
qed

lemma SelectProvider_correct_witness:
  "snd (SelectProvider (\<lambda>n. 0) None ''kv'' ''2.0.0'' example_registry) = Inl (NoCompatible ''kv'' ''2.0.0'') \<and>
   (\<nexists>i q. r_registrations example_registry i = Some q \<and> sp_ServiceType q = ''kv'' \<and> compatible ''2.0.0'' q \<and> available None q)"
proof -
  have "snd (SelectProvider (\<lambda>n. 0) None ''kv'' ''2.0.0'' example_registry) = Inl (NoCompatible ''kv'' ''2.0.0'')"
    by (simp add: SelectProvider_def example_providers filterCompatibleVersions_def example_provider_def newProvider_def
        example_request_def less_eq_char_def)
  then show ?thesis
    using SelectProvider_correct [OF wf_example, of "\<lambda>n. 0" None "''kv''" "''2.0.0''"] by (simp add: draw_ok_def)
qed

lemma selectMany_fair_witness:
  "selectMany (\<lambda>n. 0) None ''kv'' '''' 1 (SetSelectionStrategy ''kv'' SelectionRoundRobin example_registry) =
   [Inr (Some example_provider)]"
proof -
  let ?r = "SetSelectionStrategy ''kv'' SelectionRoundRobin example_registry"
  have e: "eligible None ''kv'' '''' ?r = [example_provider]" "strategyOf ?r ''kv'' = SelectionRoundRobin"
    "get_index (r_roundRobinIndex ?r) ''kv'' = 0"
    by (simp_all add: eligible_def SetSelectionStrategy_def example_registry_def storeProvider_def NewServiceRegistry_def
        filterCompatibleVersions_def filterAvailable_def strategyOf_def get_index_def example_provider_def newProvider_def
        example_request_def)
  show ?thesis
    using selectMany_fair [of ?r "''kv''" None "''''" "\<lambda>n. 0"] by (simp add: e)
qed

text \<open>\<open>RegisterService\<close> registers exactly the requests that pass the four validators, carry a
  runtime id and, when the host has set an allow list for it, ask for a service type on
  that list (and it needs the random bytes of the id); the provider it stores has the fields
  of the request and of the header; a refused request changes nothing.\<close>
theorem RegisterService_correct:
  "(if mayRegister keys h req r \<and> rnd \<noteq> None
    then \<exists>i. snd (RegisterService lc keys rnd now h req r) = Inr i \<and> generateRegistrationID rnd = Some i \<and>
           r_registrations (fst (RegisterService lc keys rnd now h req r)) =
             (r_registrations r)(i \<mapsto> newProvider i now h req)
    else \<exists>e. RegisterService lc keys rnd now h req r = (r, Inl e))"
proof (cases "mayRegister keys h req r \<and> rnd \<noteq> None")
  case True
  then obtain i where i: "generateRegistrationID rnd = Some i"
    by (auto simp: generateRegistrationID_def generateRandomHex_def)
  then show ?thesis
    using True by (simp add: RegisterService_accepted frame) (simp add: storeProvider_def newProvider_def)
next
  case False
  then show ?thesis
    using RegisterService_refused [of keys h req r]
    by (cases "mayRegister keys h req r")
      (auto simp: RegisterService_accepted generateRegistrationID_def generateRandomHex_def)
qed

text \<open>Every watcher of a service type that has room in its buffer is told of each accepted
  registration and each unregistration of that type, last in its buffer; the event says
  unavailable exactly when a selection without version bound would fail in the new state.\<close>
theorem watchers_told:
  assumes "w \<in> set (get_slice (r_watchers r) t)" and "length (w_ch w) < watchBuffer"
    and "r' = fst (RegisterService lc keys rnd now h req r) \<and> rsr_ServiceType req = t \<and>
           snd (RegisterService lc keys rnd now h req r) = Inr i \<or>
         r' = fst (UnregisterService lc i r) \<and> (\<exists>p. r_registrations r i = Some p \<and> sp_ServiceType p = t)"
  shows "\<exists>e. w\<lparr>w_ch := w_ch w @ [e]\<rparr> \<in> set (get_slice (r_watchers r') t) \<and> we_ServiceType e = t \<and>
    (we_State e = SERVICE_STATE_UNAVAILABLE \<longleftrightarrow> (\<exists>err. snd (SelectProvider draw lc t '''' r') = Inl err))"
proof -
  obtain r1 where r1: "r' = notifyWatchersLocked lc t r1" and ws: "r_watchers r1 = r_watchers r"
    using assms(3)
  proof (elim disjE conjE exE)
    assume "r' = fst (RegisterService lc keys rnd now h req r)" "rsr_ServiceType req = t"
      "snd (RegisterService lc keys rnd now h req r) = Inr i"
    then show thesis
      by (cases rule: RegisterService_cases [of lc keys rnd now h req r])
        (auto intro!: that simp: storeProvider_def)
  next
    fix p
    assume "r' = fst (UnregisterService lc i r)" "r_registrations r i = Some p" "sp_ServiceType p = t"
    then show thesis by (intro that [of "removeRegistration i p r"]) (simp_all add: UnregisterService_def frame)
  qed
  have "w\<lparr>w_ch := w_ch w @ [buildServiceEventLocked lc t r1]\<rparr> \<in> set (get_slice (r_watchers r') t)"
    unfolding r1 by (rule notify_delivers) (use assms(1,2) ws in simp_all)
  moreover have "buildServiceEventLocked lc t r1 = buildServiceEventLocked lc t r'"
    by (simp add: r1 buildServiceEventLocked_notify)
  moreover have "we_ServiceType (buildServiceEventLocked lc t r') = t"
    by (simp add: buildServiceEventLocked_eq split: list.split)
  ultimately show ?thesis using event_matches_selection [of lc t r' draw] by metis
qed

lemma watchers_told_witness:
  "\<exists>e. \<lparr>w_id = 1, w_ch = [buildServiceEventLocked None ''kv'' NewServiceRegistry, e]\<rparr> \<in>
     set (get_slice (r_watchers (fst (RegisterService None [] (Some ''abcdefgh'') 5 example_header example_request
       (WatchService_start None 1 ''kv'' NewServiceRegistry)))) ''kv'')"
proof -
  let ?r = "WatchService_start None 1 ''kv'' NewServiceRegistry"
  let ?w = "\<lparr>w_id = 1, w_ch = [buildServiceEventLocked None ''kv'' NewServiceRegistry]\<rparr>"
  have "mayRegister [] example_header example_request ?r"
    by (rule example_may) (simp add: WatchService_start_def NewServiceRegistry_def)
  then have "snd (RegisterService None [] (Some ''abcdefgh'') 5 example_header example_request ?r) = Inr (''reg-'' @ hexEncode ''abcdefgh'')"
    by (simp add: RegisterService_accepted generateRegistrationID_def generateRandomHex_def)
  then show ?thesis
    using watchers_told [of ?w ?r "''kv''" "fst (RegisterService None [] (Some ''abcdefgh'') 5 example_header example_request ?r)"
        None "[]" "Some ''abcdefgh''" 5 example_header example_request "''reg-'' @ hexEncode ''abcdefgh''" "\<lambda>n. 0"]
    by (auto simp: WatchService_start_def NewServiceRegistry_def watchBuffer_def example_request_def)
qed

text \<open>Unregistering a plugin's services removes exactly the registrations that carry its runtime
  id, from both maps, and leaves those of the others in their order. Nothing is sent to the
  watchers: whoever watches one of these services is not told that it is gone.\<close>
theorem UnregisterPluginServices_exact:
  assumes "wf_registry r" and "iter_order (r_registrations r) order"
  shows "r_registrations (UnregisterPluginServices order rid r) =
      (\<lambda>i. case r_registrations r i of None \<Rightarrow> None | Some p \<Rightarrow> if sp_RuntimeID p = rid then None else Some p) \<and>
    (\<forall>t. get_slice (r_providers (UnregisterPluginServices order rid r)) t =
           filter (\<lambda>p. sp_RuntimeID p \<noteq> rid) (get_slice (r_providers r) t)) \<and>
    r_watchers (UnregisterPluginServices order rid r) = r_watchers r"
  using UnregisterPluginServices_correct [OF assms] by (auto simp: fun_eq_iff)

lemma UnregisterPluginServices_exact_witness:
  "get_slice (r_providers (UnregisterPluginServices [''reg-6162636465666768''] ''kv-a1b2'' example_registry)) ''kv'' = []"
  using UnregisterPluginServices_exact [OF wf_example, of "[''reg-6162636465666768'']" "''kv-a1b2''"]
  by (simp add: example_providers iter_order_def) (simp add: example_provider_def newProvider_def example_header_def)

end
