(* ===== verification/Router.thy ===== *)
theory Router
  imports Handshake RegistryProps
begin

text \<open>
  The service router, \<^verbatim>\<open>router.go\<close>: from a request for \<^verbatim>\<open>/services/{type}/{provider}/{method}\<close> to
  the request sent to the provider. Its three collaborators are arguments: the handshake server
  (whose lazy cleanup changes it, so it is returned), the registry and the lifecycle server.
  The network is the argument \<open>send\<close>, what the endpoint answers to a request or \<open>None\<close> when it
  cannot be reached; \<open>urlOk\<close> says whether \<open>http.NewRequest\<close> accepts the method and the URL.
\<close>

section \<open>Data\<close>

record ServiceRouter =
  sr_pluginEndpoints :: "(string, string) gomap"

record HttpRequest =
  hq_Method :: string
  hq_Path :: string
  hq_RawQuery :: string
  hq_Header :: http_header
  hq_Body :: string

text \<open>The outgoing request of the proxy, and a response.\<close>

record ProxyRequest =
  pq_Method :: string
  pq_URL :: string
  pq_Header :: http_header
  pq_Body :: string

record HttpResponse =
  rs_StatusCode :: int
  rs_Header :: http_header
  rs_Body :: string

type_synonym transport = "ProxyRequest \<Rightarrow> HttpResponse option"

section \<open>Operations\<close>

definition NewServiceRouter :: ServiceRouter where
  "NewServiceRouter = \<lparr>sr_pluginEndpoints = Map.empty\<rparr>"

definition RegisterPluginEndpoint :: "string \<Rightarrow> string \<Rightarrow> ServiceRouter \<Rightarrow> ServiceRouter" where
  "RegisterPluginEndpoint runtimeID endpoint r =
     r\<lparr>sr_pluginEndpoints := (sr_pluginEndpoints r)(runtimeID \<mapsto> endpoint)\<rparr>"

text \<open>
  The decision part of \<open>ServeHTTP\<close>: an error of the router or the URL to proxy to. \<open>order\<close> is
  the order of the range in \<open>GetProviderByRuntimeID\<close>.
\<close>

definition routeRequest ::
    "time \<Rightarrow> string list \<Rightarrow> ServiceRegistry \<Rightarrow> LifecycleServer \<Rightarrow> ServiceRouter \<Rightarrow> HttpRequest \<Rightarrow>
     HandshakeServer \<Rightarrow> HandshakeServer \<times> string http_outcome" where
  "routeRequest now order registry lifecycle r req hs =
     (if \<not> hasPrefix (hq_Path req) ''/services/'' then (hs, HttpError StatusNotFound ''404 page not found'')
      else
        let pathRemainder = trimPrefix (hq_Path req) ''/services/'';
            parts = splitN CHR ''/'' 3 pathRemainder
        in if length parts < 3
           then (hs, HttpError StatusBadRequest
                  ''invalid service path format, expected /services/{type}/{provider-id}/{method}'')
           else
             let providerID = parts ! 1;
                 method = ''/'' @ parts ! 2;
                 callerID = header_get (hq_Header req) ''X-Plugin-Runtime-ID''
             in if callerID = ''''
                then (hs, HttpError StatusUnauthorized ''X-Plugin-Runtime-ID header required'')
                else (case bearerToken (hq_Header req) of
                    None \<Rightarrow> (hs, HttpError StatusUnauthorized ''Authorization: Bearer <token> required'')
                  | Some token \<Rightarrow>
                      (case ValidateToken now callerID token hs of
                         (hs', False) \<Rightarrow> (hs', HttpError StatusUnauthorized ''invalid token'')
                       | (hs', True) \<Rightarrow>
                           (case GetProviderByRuntimeID order registry providerID of
                              None \<Rightarrow> (hs', HttpError StatusNotFound (''provider not found: '' @ providerID))
                            | Some provider \<Rightarrow>
                                if \<not> ShouldRouteTraffic lifecycle providerID
                                then (hs', HttpError StatusServiceUnavailable
                                        ''service unavailable (provider unhealthy)'')
                                else
                                  (case (case sr_pluginEndpoints r providerID of
                                           Some endpoint \<Rightarrow> Some endpoint
                                         | None \<Rightarrow> sp_Metadata provider ''base_url'') of
                                     None \<Rightarrow> (hs', HttpError StatusNotFound
                                               (''provider endpoint not registered: '' @ providerID))
                                   | Some baseURL \<Rightarrow>
                                       (hs', Forward (baseURL @ sp_EndpointPath provider @
                                                      trimPrefix method ''/'')))))))"

text \<open>The header loop: every value of every key except the two that carry the caller's identity.\<close>

definition strippedKey :: "string \<Rightarrow> bool" where
  "strippedKey key \<longleftrightarrow>
     canonicalHeaderKey key = ''Authorization'' \<or> canonicalHeaderKey key = ''X-Plugin-Runtime-Id''"

definition addValues :: "http_header \<Rightarrow> string \<Rightarrow> http_header \<Rightarrow> http_header" where
  "addValues src key h = fold (\<lambda>value h. header_add h key value) (get_slice src key) h"

definition copyRequestHeaders :: "string list \<Rightarrow> http_header \<Rightarrow> http_header" where
  "copyRequestHeaders keys src =
     fold (\<lambda>key h. if strippedKey key then h else addValues src key h) keys Map.empty"

definition copyResponseHeaders :: "string list \<Rightarrow> http_header \<Rightarrow> http_header" where
  "copyResponseHeaders keys src = fold (\<lambda>key h. addValues src key h) keys Map.empty"

definition proxyURL :: "string \<Rightarrow> string \<Rightarrow> string" where
  "proxyURL targetURL rawQuery = (if rawQuery \<noteq> '''' then targetURL @ ''?'' @ rawQuery else targetURL)"

definition proxiedRequest :: "string list \<Rightarrow> HttpRequest \<Rightarrow> string \<Rightarrow> ProxyRequest" where
  "proxiedRequest keys req targetURL =
     \<lparr>pq_Method = hq_Method req, pq_URL = proxyURL targetURL (hq_RawQuery req),
      pq_Header = copyRequestHeaders keys (hq_Header req), pq_Body = hq_Body req\<rparr>"

text \<open>
  \<open>keys\<close> and \<open>rkeys\<close> are the orders of the ranges over the request's and the response's headers.
  The response of the provider is copied as it is.
\<close>

definition proxyRequest ::
    "(string \<Rightarrow> string \<Rightarrow> bool) \<Rightarrow> transport \<Rightarrow> string list \<Rightarrow> string list \<Rightarrow> HttpRequest \<Rightarrow> string \<Rightarrow>
     HttpResponse http_outcome" where
  "proxyRequest urlOk send keys rkeys req targetURL =
     (if \<not> urlOk (hq_Method req) (proxyURL targetURL (hq_RawQuery req))
      then HttpError StatusInternalServerError ''failed to create proxy request''
      else (case send (proxiedRequest keys req targetURL) of
          None \<Rightarrow> HttpError StatusBadGateway ''failed to proxy request''
        | Some resp \<Rightarrow> Forward (resp\<lparr>rs_Header := copyResponseHeaders rkeys (rs_Header resp)\<rparr>)))"

definition ServeHTTP ::
    "(string \<Rightarrow> string \<Rightarrow> bool) \<Rightarrow> transport \<Rightarrow> string list \<Rightarrow> string list \<Rightarrow> time \<Rightarrow> string list \<Rightarrow>
     ServiceRegistry \<Rightarrow> LifecycleServer \<Rightarrow> ServiceRouter \<Rightarrow> HttpRequest \<Rightarrow> HandshakeServer \<Rightarrow>
     HandshakeServer \<times> HttpResponse http_outcome" where
  "ServeHTTP urlOk send keys rkeys now order registry lifecycle r req hs =
     (case routeRequest now order registry lifecycle r req hs of
        (hs', HttpError code msg) \<Rightarrow> (hs', HttpError code msg)
      | (hs', Forward targetURL) \<Rightarrow> (hs', proxyRequest urlOk send keys rkeys req targetURL))"

section \<open>Paths\<close>

lemma service_path_split:
  assumes "CHR ''/'' \<notin> set t" and "CHR ''/'' \<notin> set rid"
  shows "splitN CHR ''/'' 3 (trimPrefix (''/services/'' @ t @ ''/'' @ rid @ ''/'' @ m) ''/services/'') = [t, rid, m]"
  unfolding trimPrefix_append using assms by (simp add: eval_nat_numeral)

lemma splitN_3_cases: "splitN c 3 s = [a, b, m] \<Longrightarrow> s = a @ c # b @ c # m \<and> c \<notin> set a \<and> c \<notin> set b"
  by (auto simp: eval_nat_numeral split: option.splits dest!: cut_SomeD)

lemma length_splitN: "length (splitN c n s) \<le> n"
  by (induction c n s rule: splitN.induct) (auto split: option.splits)

lemma splitN_3_length: "\<not> length (splitN c 3 s) < 3 \<Longrightarrow> \<exists>a b m. splitN c 3 s = [a, b, m]"
  using length_splitN [of c 3 s] by (auto simp: eval_nat_numeral length_Suc_conv le_Suc_eq not_less)

section \<open>Which requests are forwarded\<close>

definition providerBase :: "ServiceRouter \<Rightarrow> ServiceProvider \<Rightarrow> string option" where
  "providerBase r p = (case sr_pluginEndpoints r (sp_RuntimeID p) of
      Some endpoint \<Rightarrow> Some endpoint | None \<Rightarrow> sp_Metadata p ''base_url'')"

lemma routeRequest_Forward:
  assumes "routeRequest now order registry lifecycle r req hs = (hs', Forward url)"
    and order: "iter_order (r_registrations registry) order"
  shows "\<exists>t rid m tok p base.
    hq_Path req = ''/services/'' @ t @ ''/'' @ rid @ ''/'' @ m \<and> CHR ''/'' \<notin> set t \<and> CHR ''/'' \<notin> set rid \<and>
    header_get (hq_Header req) ''X-Plugin-Runtime-ID'' \<noteq> '''' \<and> bearerToken (hq_Header req) = Some tok \<and>
    ValidateToken now (header_get (hq_Header req) ''X-Plugin-Runtime-ID'') tok hs = (hs', True) \<and>
    p \<in> ran (r_registrations registry) \<and> sp_RuntimeID p = rid \<and> ShouldRouteTraffic lifecycle rid \<and>
    providerBase r p = Some base \<and> url = base @ sp_EndpointPath p @ m"
proof -
  let ?rest = "trimPrefix (hq_Path req) ''/services/''"
  have pre: "hasPrefix (hq_Path req) ''/services/''" and len: "\<not> length (splitN CHR ''/'' 3 ?rest) < 3"
    using assms(1) by (auto simp: routeRequest_def Let_def split: if_splits)
  obtain t rid m where parts: "splitN CHR ''/'' 3 ?rest = [t, rid, m]"
    using splitN_3_length [OF len] by blast
  have path: "hq_Path req = ''/services/'' @ t @ ''/'' @ rid @ ''/'' @ m"
    and ns: "CHR ''/'' \<notin> set t" "CHR ''/'' \<notin> set rid"
    using pre splitN_3_cases [OF parts] by (auto simp: hasPrefix_iff trimPrefix_def)
  let ?caller = "header_get (hq_Header req) ''X-Plugin-Runtime-ID''"
  have caller: "?caller \<noteq> ''''"
    using assms(1) pre parts by (auto simp: routeRequest_def Let_def)
  obtain tok where tok: "bearerToken (hq_Header req) = Some tok"
    using assms(1) pre parts caller by (auto simp: routeRequest_def Let_def split: option.splits)
  have val: "ValidateToken now ?caller tok hs = (hs', True)"
    using assms(1) pre parts caller tok
    by (auto simp: routeRequest_def Let_def split: prod.splits bool.splits option.splits if_splits)
  obtain p where p: "GetProviderByRuntimeID order registry rid = Some p"
    using assms(1) pre parts caller tok val by (auto simp: routeRequest_def Let_def split: option.splits)
  have rid: "p \<in> ran (r_registrations registry)" "sp_RuntimeID p = rid"
    using GetProviderByRuntimeID_correct(2) [OF order p] by auto
  have "ShouldRouteTraffic lifecycle rid"
    using assms(1) pre parts caller tok val p by (auto simp: routeRequest_def Let_def split: if_splits)
  moreover obtain base where "providerBase r p = Some base"
    using assms(1) pre parts caller tok val p calculation
    by (auto simp: routeRequest_def Let_def providerBase_def rid split: option.splits)
  moreover have "url = base @ sp_EndpointPath p @ m"
    using assms(1) pre parts caller tok val p calculation
    by (auto simp: routeRequest_def Let_def providerBase_def rid trimPrefix_def split: option.splits)
  ultimately show ?thesis using path ns caller tok val rid by blast
qed

lemma routeRequest_authorized:
  assumes "CHR ''/'' \<notin> set t" and "CHR ''/'' \<notin> set rid"
    and "hq_Path req = ''/services/'' @ t @ ''/'' @ rid @ ''/'' @ m"
    and "header_get (hq_Header req) ''X-Plugin-Runtime-ID'' = caller" and "caller \<noteq> ''''"
    and "bearerToken (hq_Header req) = Some tok" and "snd (ValidateToken now caller tok hs)"
    and "GetProviderByRuntimeID order registry rid = Some p" and "ShouldRouteTraffic lifecycle rid"
    and "providerBase r p = Some base" and "sp_RuntimeID p = rid"
  shows "routeRequest now order registry lifecycle r req hs =
    (fst (ValidateToken now caller tok hs), Forward (base @ sp_EndpointPath p @ m))"
proof -
  have "hasPrefix (hq_Path req) ''/services/''" unfolding assms(3) by (rule hasPrefix_append)
  moreover have "splitN CHR ''/'' 3 (trimPrefix (hq_Path req) ''/services/'') = [t, rid, m]"
    unfolding assms(3) by (rule service_path_split [OF assms(1,2)])
  moreover obtain hs' where "ValidateToken now caller tok hs = (hs', True)"
    using assms(7) by (cases "ValidateToken now caller tok hs") auto
  ultimately show ?thesis
    using assms(4-6,8-11)
    by (simp add: routeRequest_def Let_def providerBase_def trimPrefix_def split: option.splits)
qed

section \<open>What the provider sees\<close>

lemma get_slice_addValues:
  "get_slice (addValues src key h) k =
     get_slice h k @ (if k = canonicalHeaderKey key then get_slice src key else [])"
proof -
  have "get_slice (fold (\<lambda>v h. header_add h key v) vs h) k =
      get_slice h k @ (if k = canonicalHeaderKey key then vs else [])" for vs
    by (induction vs arbitrary: h) (auto simp: header_add_def)
  then show ?thesis by (simp add: addValues_def)
qed

lemma get_slice_copyRequestHeaders:
  "get_slice (copyRequestHeaders keys src) k =
     concat (map (get_slice src) (filter (\<lambda>key. \<not> strippedKey key \<and> canonicalHeaderKey key = k) keys))"
proof -
  have "get_slice (fold (\<lambda>key h. if strippedKey key then h else addValues src key h) keys h) k =
      get_slice h k @ concat (map (get_slice src) (filter (\<lambda>key. \<not> strippedKey key \<and> canonicalHeaderKey key = k) keys))" for h
    by (induction keys arbitrary: h) (auto simp: get_slice_addValues)
  then show ?thesis by (simp add: copyRequestHeaders_def)
qed

text \<open>The caller's identity never reaches the provider.\<close>

lemma copyRequestHeaders_stripped:
  "get_slice (copyRequestHeaders keys src) ''Authorization'' = []"
  "get_slice (copyRequestHeaders keys src) ''X-Plugin-Runtime-Id'' = []"
  by (auto simp: get_slice_copyRequestHeaders strippedKey_def filter_empty_conv)

text \<open>Every other header of a request as the server parses it (canonical keys) is kept.\<close>

definition canonicalHeader :: "http_header \<Rightarrow> bool" where
  "canonicalHeader h \<longleftrightarrow> (\<forall>k\<in>dom h. canonicalHeaderKey k = k)"

lemma copyRequestHeaders_kept:
  assumes "iter_order src keys" and can: "canonicalHeader src"
    and k: "k \<noteq> ''Authorization''" "k \<noteq> ''X-Plugin-Runtime-Id''"
  shows "get_slice (copyRequestHeaders keys src) k = get_slice src k"
proof -
  have "filter (\<lambda>key. \<not> strippedKey key \<and> canonicalHeaderKey key = k) keys = filter (\<lambda>key. key = k) keys"
    using can k iter_order_dom [OF assms(1)]
    by (intro filter_cong) (auto simp: canonicalHeader_def strippedKey_def)
  moreover have "filter (\<lambda>key. key = k) keys = (if k \<in> set keys then [k] else [])"
    using iter_order_distinct [OF assms(1)] by (induction keys) (auto simp: filter_empty_conv)
  moreover have "k \<notin> set keys \<Longrightarrow> get_slice src k = []"
    using iter_order_dom [OF assms(1)] by (auto simp: get_slice_def split: option.splits)
  ultimately show ?thesis by (simp add: get_slice_copyRequestHeaders)
qed

section \<open>Properties\<close>

text \<open>C3. The router answers with a provider's response only when the path is
  \<^verbatim>\<open>/services/{type}/{provider}/{method}\<close>, the caller's runtime id and bearer token are valid, a
  registered provider has the id of the path and is not reported unhealthy; what it
  sent is the caller's method, query and body, to the provider's endpoint, without the headers that
  carry the caller's identity; and the answer has the provider's status and body.\<close>
theorem ServeHTTP_authorized:
  assumes "ServeHTTP urlOk send keys rkeys now order registry lifecycle r req hs = (hs', Forward resp)"
    and "iter_order (r_registrations registry) order"
  shows "\<exists>t rid m tok p base out resp0.
    hq_Path req = ''/services/'' @ t @ ''/'' @ rid @ ''/'' @ m \<and> CHR ''/'' \<notin> set t \<and> CHR ''/'' \<notin> set rid \<and>
    header_get (hq_Header req) ''X-Plugin-Runtime-ID'' \<noteq> '''' \<and> bearerToken (hq_Header req) = Some tok \<and>
    snd (ValidateToken now (header_get (hq_Header req) ''X-Plugin-Runtime-ID'') tok hs) \<and>
    p \<in> ran (r_registrations registry) \<and> sp_RuntimeID p = rid \<and> ShouldRouteTraffic lifecycle rid \<and>
    providerBase r p = Some base \<and> send out = Some resp0 \<and>
    out = proxiedRequest keys req (base @ sp_EndpointPath p @ m) \<and>
    get_slice (pq_Header out) ''Authorization'' = [] \<and> get_slice (pq_Header out) ''X-Plugin-Runtime-Id'' = [] \<and>
    rs_StatusCode resp = rs_StatusCode resp0 \<and> rs_Body resp = rs_Body resp0"
proof -
  obtain url where url: "routeRequest now order registry lifecycle r req hs = (hs', Forward url)"
    and px: "proxyRequest urlOk send keys rkeys req url = Forward resp"
    using assms(1) by (auto simp: ServeHTTP_def split: prod.splits http_outcome.splits)
  obtain resp0 where "send (proxiedRequest keys req url) = Some resp0"
      "rs_StatusCode resp = rs_StatusCode resp0" "rs_Body resp = rs_Body resp0"
    using px by (auto simp: proxyRequest_def split: if_splits option.splits)
  moreover have "get_slice (pq_Header (proxiedRequest keys req url)) ''Authorization'' = []"
      "get_slice (pq_Header (proxiedRequest keys req url)) ''X-Plugin-Runtime-Id'' = []"
    by (simp_all add: proxiedRequest_def copyRequestHeaders_stripped)
  ultimately show ?thesis
    using routeRequest_Forward [OF url assms(2)] by (metis snd_conv)
qed

text \<open>A request that is forwarded.\<close>

definition example_tokens :: HandshakeServer where
  "example_tokens = storeToken ''app-1'' \<lparr>ti_token = ''secret'', ti_issuedAt = 0, ti_expiresAt = 100\<rparr> NewHandshakeServer"

definition example_call :: HttpRequest where
  "example_call = \<lparr>hq_Method = ''POST'', hq_Path = ''/services/kv/kv-a1b2/Get'', hq_RawQuery = '''',
     hq_Header = header_set (header_set Map.empty ''X-Plugin-Runtime-ID'' ''app-1'') ''Authorization'' ''Bearer secret'',
     hq_Body = ''x''\<rparr>"

lemma example_routing:
  "header_get (hq_Header example_call) ''X-Plugin-Runtime-ID'' = ''app-1''"
  "bearerToken (hq_Header example_call) = Some ''secret''"
  "ValidateToken 50 ''app-1'' ''secret'' example_tokens = (example_tokens, True)"
  "sp_RuntimeID example_provider = ''kv-a1b2''" "sp_EndpointPath example_provider = ''/kv''"
  "GetProviderByRuntimeID [''reg-6162636465666768''] example_registry ''kv-a1b2'' = Some example_provider"
  "ShouldRouteTraffic NewLifecycleServer ''kv-a1b2''"
proof -
  show "header_get (hq_Header example_call) ''X-Plugin-Runtime-ID'' = ''app-1''"
    "bearerToken (hq_Header example_call) = Some ''secret''"
    by (simp_all add: example_call_def bearerToken_Some header_get_set canonical_keys)
  show "ValidateToken 50 ''app-1'' ''secret'' example_tokens = (example_tokens, True)"
    by (simp add: ValidateToken_def example_tokens_def storeToken_def time_after_def constantTimeCompare_def)
  show p: "sp_RuntimeID example_provider = ''kv-a1b2''" "sp_EndpointPath example_provider = ''/kv''"
    by (simp_all add: example_provider_def newProvider_def example_header_def example_request_def)
  show "GetProviderByRuntimeID [''reg-6162636465666768''] example_registry ''kv-a1b2'' = Some example_provider"
    by (simp add: GetProviderByRuntimeID_def example_providers map_filter_simps p)
  show "ShouldRouteTraffic NewLifecycleServer ''kv-a1b2''"
    by (simp add: ShouldRouteTraffic_def GetHealthState_def NewLifecycleServer_def)
qed

lemma example_call_routed:
  "routeRequest 50 [''reg-6162636465666768''] example_registry NewLifecycleServer
     (RegisterPluginEndpoint ''kv-a1b2'' ''http://p'' NewServiceRouter) example_call example_tokens =
   (example_tokens, Forward ''http://p/kvGet'')"
  using routeRequest_authorized [of "''kv''" "''kv-a1b2''" example_call "''Get''" "''app-1''" "''secret''" 50 example_tokens
        "[''reg-6162636465666768'']" example_registry example_provider NewLifecycleServer
        "RegisterPluginEndpoint ''kv-a1b2'' ''http://p'' NewServiceRouter" "''http://p''"]
    by (simp add: example_routing providerBase_def RegisterPluginEndpoint_def) (simp add: example_call_def)

lemma ServeHTTP_authorized_witness:
  "\<exists>resp. ServeHTTP (\<lambda>_ _. True) (\<lambda>_. Some \<lparr>rs_StatusCode = 200, rs_Header = Map.empty, rs_Body = ''v''\<rparr>)
      [''X-Plugin-Runtime-Id'', ''Authorization''] [] 50 [''reg-6162636465666768''] example_registry NewLifecycleServer
      (RegisterPluginEndpoint ''kv-a1b2'' ''http://p'' NewServiceRouter) example_call example_tokens =
     (example_tokens, Forward resp) \<and> rs_Body resp = ''v'' \<and>
     snd (ValidateToken 50 ''app-1'' ''secret'' example_tokens)"
proof -
  let ?send = "\<lambda>_. Some \<lparr>rs_StatusCode = 200, rs_Header = Map.empty, rs_Body = ''v''\<rparr>"
  obtain resp where r: "ServeHTTP (\<lambda>_ _. True) ?send
      [''X-Plugin-Runtime-Id'', ''Authorization''] [] 50 [''reg-6162636465666768''] example_registry NewLifecycleServer
      (RegisterPluginEndpoint ''kv-a1b2'' ''http://p'' NewServiceRouter) example_call example_tokens =
     (example_tokens, Forward resp)"
    by (auto simp: ServeHTTP_def example_call_routed proxyRequest_def)
  have "header_get (hq_Header example_call) ''X-Plugin-Runtime-ID'' = ''app-1''"
    "bearerToken (hq_Header example_call) = Some ''secret''"
    by (simp_all add: example_call_def bearerToken_Some header_get_set canonical_keys)
  moreover have "iter_order (r_registrations example_registry) [''reg-6162636465666768'']"
    by (simp add: example_providers iter_order_def)
  ultimately show ?thesis
    using ServeHTTP_authorized [OF r] r by auto
qed

end
