(* ===== verification/Platform.thy ===== *)
theory Platform
  imports Router DepgraphStartup DepgraphImpact
begin

text \<open>
  The platform, \<^verbatim>\<open>platform.go\<close>: adding, removing and replacing plugins at run time over the
  dependency graph, the registry, the lifecycle server and the router. The state is the
  platform with the content of the servers it points to. While an operation waits (for a
  remote call, a tick, a sleep) the plugins call the host: \<open>env\<close> arguments are what happens to
  the state in the meantime. The plugin's remote services are arguments too.
\<close>

section \<open>Data\<close>

text \<open>A control client is the endpoint it calls and the HTTP client it was given.\<close>

record PluginControlClient =
  pcc_endpoint :: string
  pcc_httpClient :: http_client

record PluginInstance =
  in_RuntimeID :: string
  in_SelfID :: string
  in_Metadata :: PluginMetadata
  in_Endpoint :: string
  in_Token :: string
  in_control :: "PluginControlClient option"

record PluginConfig =
  pc_SelfID :: string
  pc_SelfVersion :: string
  pc_Endpoint :: string
  pc_Metadata :: PluginMetadata

record GetPluginInfoResponse =
  gpi_SelfId :: string
  gpi_SelfVersion :: string
  gpi_Provides :: "ServiceDeclaration list"
  gpi_Requires :: "ServiceDependency list"
  gpi_Metadata :: "(string, string) gomap"

record Platform =
  pf_depGraph :: Graph
  pf_registry :: ServiceRegistry
  pf_lifecycleServer :: LifecycleServer
  pf_router :: ServiceRouter
  pf_plugins :: "(string, PluginInstance) gomap"

datatype WaitError = ContextDone | HealthTimeout

datatype PlatformError =
    GetInfoFailed string
  | RequiredServiceMissing string string
  | GenerateRuntimeIDFailed
  | GenerateRuntimeTokenFailed
  | SetIdentityFailed string
  | NotHealthy string WaitError
  | PlatformPluginNotFound string

type_synonym env = "Platform \<Rightarrow> Platform"

text \<open>One round of the \<open>select\<close> of the waiting loop: the context is done, or the ticker fires.\<close>

datatype wait_event = CtxDone | TickAt time env

section \<open>Operations\<close>

definition NewPlatform :: "ServiceRegistry \<Rightarrow> LifecycleServer \<Rightarrow> ServiceRouter \<Rightarrow> Platform" where
  "NewPlatform registry lifecycle router =
     \<lparr>pf_depGraph = newGraph, pf_registry = registry, pf_lifecycleServer = lifecycle,
      pf_router = router, pf_plugins = Map.empty\<rparr>"

definition NewPluginControlClient :: "string \<Rightarrow> http_client \<Rightarrow> PluginControlClient" where
  "NewPluginControlClient endpoint httpClient = \<lparr>pcc_endpoint = endpoint, pcc_httpClient = httpClient\<rparr>"

text \<open>The node that \<open>AddPlugin\<close>, \<open>ReplacePlugin\<close> and \<open>AddToDependencyGraph\<close> build.\<close>

definition depNode :: "string \<Rightarrow> string \<Rightarrow> ServiceDeclaration list \<Rightarrow> ServiceDependency list \<Rightarrow> Node" where
  "depNode runtimeID selfID provides requires =
     \<lparr>nd_RuntimeID = runtimeID, nd_SelfID = selfID,
      nd_Provides = map (\<lambda>svc. \<lparr>dgd_Type = sd_Type svc, dgd_Version = sd_Version svc\<rparr>) provides,
      nd_Requires = map (\<lambda>dep. \<lparr>dgr_Type = dep_Type dep, dgr_MinVersion = dep_MinVersion dep,
                               dgr_RequiredForStartup = dep_RequiredForStartup dep,
                               dgr_WatchForChanges = dep_WatchForChanges dep\<rparr>) requires\<rparr>"

definition AddToDependencyGraph ::
    "string \<Rightarrow> string \<Rightarrow> ServiceDeclaration list \<Rightarrow> ServiceDependency list \<Rightarrow> Platform \<Rightarrow> Platform" where
  "AddToDependencyGraph runtimeID selfID provides requires p =
     p\<lparr>pf_depGraph := graphAdd (pf_depGraph p) (depNode runtimeID selfID provides requires)\<rparr>"

text \<open>
  The waiting loop over the rounds of its \<open>select\<close>; \<open>None\<close> when the rounds given are used up
  and it is still waiting.
\<close>

definition reportsHealthy :: "LifecycleServer \<Rightarrow> string \<Rightarrow> bool" where
  "reportsHealthy l runtimeID =
     (case GetHealthState l runtimeID of None \<Rightarrow> False | Some st \<Rightarrow> phs_State st = HEALTH_STATE_HEALTHY)"

fun waitForHealthy ::
    "time \<Rightarrow> string \<Rightarrow> wait_event list \<Rightarrow> Platform \<Rightarrow> (Platform \<times> WaitError option) option" where
  "waitForHealthy deadline runtimeID [] p = None"
| "waitForHealthy deadline runtimeID (CtxDone # es) p = Some (p, Some ContextDone)"
| "waitForHealthy deadline runtimeID (TickAt now env # es) p =
     (let p = env p
      in if time_after now deadline then Some (p, Some HealthTimeout)
         else if reportsHealthy (pf_lifecycleServer p) runtimeID then Some (p, None)
         else waitForHealthy deadline runtimeID es p)"

definition dropNode :: "string \<Rightarrow> Platform \<Rightarrow> Platform" where
  "dropNode runtimeID p = p\<lparr>pf_depGraph := graphRemove (pf_depGraph p) runtimeID\<rparr>"

definition missingRequired :: "Graph \<Rightarrow> ServiceDependency list \<Rightarrow> ServiceDependency option" where
  "missingRequired g requires =
     find (\<lambda>dep. dep_RequiredForStartup dep \<and> \<not> hasService g (dep_Type dep)) requires"

text \<open>The instance that \<open>AddPlugin\<close> and \<open>ReplacePlugin\<close> store.\<close>

definition newInstance :: "string \<Rightarrow> string \<Rightarrow> PluginMetadata \<Rightarrow> string \<Rightarrow> string \<Rightarrow> PluginInstance" where
  "newInstance runtimeID selfID metadata endpoint token =
     \<lparr>in_RuntimeID = runtimeID, in_SelfID = selfID, in_Metadata = metadata, in_Endpoint = endpoint,
      in_Token = token, in_control = Some (NewPluginControlClient endpoint None)\<rparr>"

definition infoMetadata :: "GetPluginInfoResponse \<Rightarrow> PluginMetadata" where
  "infoMetadata info =
     \<lparr>pm_Name = get_string (gpi_Metadata info) ''name'', pm_Path = '''',
      pm_Version = get_string (gpi_Metadata info) ''version'',
      pm_Provides = gpi_Provides info, pm_Requires = gpi_Requires info\<rparr>"

text \<open>
  \<open>getInfo\<close> and \<open>setIdentity\<close> are the plugin's two RPCs (\<open>Some\<close> an error for the second),
  \<open>env\<close> what happens during the second, \<open>now\<close> the clock when the waiting starts.
\<close>

definition AddPlugin ::
    "(string \<Rightarrow> string + GetPluginInfoResponse) \<Rightarrow> (string \<Rightarrow> string \<times> string \<times> string \<Rightarrow> string option) \<Rightarrow>
     env \<Rightarrow> random_read \<Rightarrow> random_read \<Rightarrow> time \<Rightarrow> wait_event list \<Rightarrow> PluginConfig \<Rightarrow> Platform \<Rightarrow>
     (Platform \<times> PlatformError option) option" where
  "AddPlugin getInfo setIdentity env rnd1 rnd2 now events config p =
     (case getInfo (pc_Endpoint config) of
        Inl e \<Rightarrow> Some (p, Some (GetInfoFailed e))
      | Inr info \<Rightarrow>
          let selfID = (if gpi_SelfId info = '''' then pc_SelfID config else gpi_SelfId info);
              provides = gpi_Provides info;
              requires = gpi_Requires info
          in (case missingRequired (pf_depGraph p) requires of
                Some dep \<Rightarrow> Some (p, Some (RequiredServiceMissing (dep_Type dep) selfID))
              | None \<Rightarrow>
             (case generateRuntimeID selfID rnd1 of
                None \<Rightarrow> Some (p, Some GenerateRuntimeIDFailed)
              | Some runtimeID \<Rightarrow>
             (case generateToken rnd2 of
                None \<Rightarrow> Some (p, Some GenerateRuntimeTokenFailed)
              | Some runtimeToken \<Rightarrow>
             let p1 = env p
             in (case setIdentity (pc_Endpoint config) (runtimeID, runtimeToken, '''') of
                   Some e \<Rightarrow> Some (p1, Some (SetIdentityFailed e))
                 | None \<Rightarrow>
                     let inst = newInstance runtimeID selfID (infoMetadata info) (pc_Endpoint config) runtimeToken;
                         p2 = AddToDependencyGraph runtimeID selfID provides requires p1
                     in (case waitForHealthy (time_add now (30 * Second)) runtimeID events p2 of
                           None \<Rightarrow> None
                         | Some (p3, Some e) \<Rightarrow> Some (dropNode runtimeID p3, Some (NotHealthy selfID e))
                         | Some (p3, None) \<Rightarrow>
                             Some (p3\<lparr>pf_router := RegisterPluginEndpoint runtimeID (pc_Endpoint config) (pf_router p3),
                                     pf_plugins := (pf_plugins p3)(runtimeID \<mapsto> inst)\<rparr>, None)))))))"

text \<open>
  \<open>sleep\<close> is what happens during the grace period, \<open>order\<close> the order of the range over the
  registrations at that point, \<open>shutdown\<close> what happens during the shutdown call (whose result
  the code drops).
\<close>

definition unregisterServices :: "(ServiceRegistry \<Rightarrow> string list) \<Rightarrow> string \<Rightarrow> Platform \<Rightarrow> Platform" where
  "unregisterServices order runtimeID p =
     p\<lparr>pf_registry := UnregisterPluginServices (order (pf_registry p)) runtimeID (pf_registry p)\<rparr>"

text \<open>
  \<open>RemovePlugin\<close> computes the impact first and uses nothing of it (\<open>_ = impact.AffectedServices\<close>):
  \<open>None\<close> means that \<open>GetImpact\<close> has not returned within the depth bound \<open>fuel\<close>.
\<close>

definition RemovePlugin ::
    "nat \<Rightarrow> node_orders \<Rightarrow> env \<Rightarrow> (ServiceRegistry \<Rightarrow> string list) \<Rightarrow> (PluginControlClient \<Rightarrow> env) \<Rightarrow>
     string \<Rightarrow> Platform \<Rightarrow> (Platform \<times> PlatformError option) option" where
  "RemovePlugin fuel ord sleep order shutdown runtimeID p =
     (case pf_plugins p runtimeID of
        None \<Rightarrow> Some (p, Some (PlatformPluginNotFound runtimeID))
      | Some inst \<Rightarrow>
     (case GetImpact fuel (pf_depGraph p) ord runtimeID of
        None \<Rightarrow> None
      | Some impact \<Rightarrow>
          let p1 = unregisterServices order runtimeID (sleep p);
              p2 = (case in_control inst of None \<Rightarrow> p1 | Some c \<Rightarrow> shutdown c p1);
              p3 = dropNode runtimeID p2
          in Some (p3\<lparr>pf_plugins := (pf_plugins p3)(runtimeID := None)\<rparr>, None)))"

definition ReplacePlugin ::
    "random_read \<Rightarrow> random_read \<Rightarrow> time \<Rightarrow> wait_event list \<Rightarrow> env \<Rightarrow> (PluginControlClient \<Rightarrow> env) \<Rightarrow>
     (ServiceRegistry \<Rightarrow> string list) \<Rightarrow> string \<Rightarrow> PluginConfig \<Rightarrow> Platform \<Rightarrow>
     (Platform \<times> PlatformError option) option" where
  "ReplacePlugin rnd1 rnd2 now events drain shutdown order runtimeID newConfig p =
     (case pf_plugins p runtimeID of
        None \<Rightarrow> Some (p, Some (PlatformPluginNotFound runtimeID))
      | Some oldInstance \<Rightarrow>
     (case generateRuntimeID (pc_SelfID newConfig) rnd1 of
        None \<Rightarrow> Some (p, Some GenerateRuntimeIDFailed)
      | Some newRuntimeID \<Rightarrow>
     (case generateToken rnd2 of
        None \<Rightarrow> Some (p, Some GenerateRuntimeTokenFailed)
      | Some newToken \<Rightarrow>
     let inst = newInstance newRuntimeID (pc_SelfID newConfig) (pc_Metadata newConfig)
                  (pc_Endpoint newConfig) newToken;
         p1 = AddToDependencyGraph newRuntimeID (pc_SelfID newConfig)
                (pm_Provides (pc_Metadata newConfig)) (pm_Requires (pc_Metadata newConfig)) p
     in (case waitForHealthy (time_add now (30 * Second)) newRuntimeID events p1 of
           None \<Rightarrow> None
         | Some (p2, Some e) \<Rightarrow> Some (dropNode newRuntimeID p2, Some (NotHealthy (pc_SelfID newConfig) e))
         | Some (p2, None) \<Rightarrow>
             let p3 = drain (p2\<lparr>pf_router :=
                        RegisterPluginEndpoint newRuntimeID (pc_Endpoint newConfig) (pf_router p2)\<rparr>);
                 p4 = (case in_control oldInstance of None \<Rightarrow> p3 | Some c \<Rightarrow> shutdown c p3);
                 p5 = dropNode runtimeID (unregisterServices order runtimeID p4)
             in Some (p5\<lparr>pf_plugins := (pf_plugins p5)(runtimeID := None, newRuntimeID \<mapsto> inst)\<rparr>, None)))))"

definition Platform_GetImpact :: "nat \<Rightarrow> node_orders \<Rightarrow> string \<Rightarrow> Platform \<Rightarrow> ImpactAnalysis option" where
  "Platform_GetImpact fuel ord runtimeID p = GetImpact fuel (pf_depGraph p) ord runtimeID"

definition GetStartupOrder ::
    "string list \<Rightarrow> string list \<Rightarrow> string list \<Rightarrow> Platform \<Rightarrow> (StartupError + string list) option" where
  "GetStartupOrder nodeOrder edgeOrder degreeOrder p =
     StartupOrder (pf_depGraph p) nodeOrder edgeOrder degreeOrder"

end
