(* ===== verification/PlatformProps.thy ===== *)
theory PlatformProps
  imports Platform
begin

text \<open>
  What the platform's operations guarantee while plugins keep calling the host: the parts of
  the state stay consistent, a failed \<open>AddPlugin\<close> leaves no trace in the graph, a successful one
  starts a plugin whose requirements are provided, \<open>RemovePlugin\<close> takes a plugin and its
  services away, and when \<open>ReplacePlugin\<close> can succeed at all.
\<close>

section \<open>The environment\<close>

text \<open>
  What plugins can do meanwhile: call the registry and the lifecycle server. The graph, the
  router's endpoints and the table of plugins belong to the host.
\<close>

definition plugin_env :: "env \<Rightarrow> bool" where
  "plugin_env env \<longleftrightarrow> (\<forall>p. pf_depGraph (env p) = pf_depGraph p \<and> pf_plugins (env p) = pf_plugins p \<and>
     pf_router (env p) = pf_router p \<and> (registry_inv (pf_registry p) \<longrightarrow> registry_inv (pf_registry (env p))))"

fun event_ok :: "wait_event \<Rightarrow> bool" where
  "event_ok CtxDone = True"
| "event_ok (TickAt now env) = plugin_env env"

lemma plugin_envD:
  assumes "plugin_env env"
  shows "pf_depGraph (env p) = pf_depGraph p" and "pf_plugins (env p) = pf_plugins p"
    and "pf_router (env p) = pf_router p" and "registry_inv (pf_registry p) \<Longrightarrow> registry_inv (pf_registry (env p))"
  using assms by (auto simp: plugin_env_def)

section \<open>Waiting\<close>

lemma waitForHealthy_frame:
  assumes "waitForHealthy d rid es p = Some (p', res)" and "\<forall>e\<in>set es. event_ok e"
  shows "pf_depGraph p' = pf_depGraph p" and "pf_plugins p' = pf_plugins p" and "pf_router p' = pf_router p"
    and "registry_inv (pf_registry p) \<Longrightarrow> registry_inv (pf_registry p')"
    and "res = None \<Longrightarrow> reportsHealthy (pf_lifecycleServer p') rid"
proof -
  have "pf_depGraph p' = pf_depGraph p \<and> pf_plugins p' = pf_plugins p \<and> pf_router p' = pf_router p \<and>
    (registry_inv (pf_registry p) \<longrightarrow> registry_inv (pf_registry p')) \<and>
    (res = None \<longrightarrow> reportsHealthy (pf_lifecycleServer p') rid)"
    using assms
  proof (induction d rid es p rule: waitForHealthy.induct)
    case (3 d rid now env es p)
    have env: "plugin_env env" using "3.prems"(2) by simp
    show ?case
      using "3.IH" [OF refl] "3.prems" plugin_envD [OF env, of p]
      by (auto simp: Let_def split: if_splits)
  qed auto
  then show "pf_depGraph p' = pf_depGraph p" "pf_plugins p' = pf_plugins p" "pf_router p' = pf_router p"
    "registry_inv (pf_registry p) \<Longrightarrow> registry_inv (pf_registry p')"
    "res = None \<Longrightarrow> reportsHealthy (pf_lifecycleServer p') rid"
    by blast+
qed

text \<open>One tick after the deadline is enough for the loop to return.\<close>

lemma waitForHealthy_returns:
  assumes "TickAt now env \<in> set es" and "d < now"
  shows "\<exists>res. waitForHealthy d rid es p = Some res"
  using assms
  by (induction d rid es p rule: waitForHealthy.induct) (auto simp: Let_def time_after_def)

text \<open>The loop answers at the first round that decides.\<close>

lemma waitForHealthy_healthy:
  assumes "\<forall>e\<in>set es. \<exists>now. e = TickAt now id \<and> now \<le> d"
    and "reportsHealthy (pf_lifecycleServer p) rid" and "es \<noteq> []"
  shows "waitForHealthy d rid es p = Some (p, None)"
  using assms by (cases es) (auto simp: time_after_def)

lemma waitForHealthy_never:
  assumes "waitForHealthy d rid es p = Some (p', None)"
    and "\<forall>now env q. TickAt now env \<in> set es \<longrightarrow>
           reportsHealthy (pf_lifecycleServer (env q)) rid \<longrightarrow> reportsHealthy (pf_lifecycleServer q) rid"
    and "\<not> reportsHealthy (pf_lifecycleServer p) rid"
  shows False
  using assms
proof (induction es arbitrary: p)
  case (Cons e es)
  show ?case
  proof (cases e)
    case CtxDone
    then show ?thesis using Cons.prems(1) by simp
  next
    case (TickAt now env)
    then have n: "\<not> reportsHealthy (pf_lifecycleServer (env p)) rid"
      using Cons.prems(2) [rule_format, of now env p] Cons.prems(3) by auto
    then have "waitForHealthy d rid es (env p) = Some (p', None)"
      using Cons.prems(1) by (simp add: TickAt Let_def split: if_splits)
    then show ?thesis by (rule Cons.IH) (use Cons.prems(2) n in \<open>simp_all\<close>)
  qed
qed simp

section \<open>The invariant of the platform\<close>

definition wf_platform :: "Platform \<Rightarrow> bool" where
  "wf_platform p \<longleftrightarrow> wf_graph (pf_depGraph p) \<and> registry_inv (pf_registry p) \<and>
     (\<forall>rid inst. pf_plugins p rid = Some inst \<longrightarrow>
        in_RuntimeID inst = rid \<and> rid \<in> dom (g_nodes (pf_depGraph p)) \<and>
        sr_pluginEndpoints (pf_router p) rid = Some (in_Endpoint inst))"

definition provided :: "Graph \<Rightarrow> bool" where
  "provided g \<longleftrightarrow> (\<nexists>r t. unprovided g r t)"

lemma depNode_simps [simp]:
  "nd_RuntimeID (depNode rid sid ps rs) = rid"
  "nd_SelfID (depNode rid sid ps rs) = sid"
  "requiredTypes (nd_Requires (depNode rid sid ps rs)) = map dep_Type (filter dep_RequiredForStartup rs)"
  by (simp_all add: depNode_def requiredTypes_def comp_def filter_map)

lemma hasService_graphAdd: "hasService g t \<Longrightarrow> hasService (graphAdd g n) t"
  by (simp add: hasService_def graphAdd_def append_fold_slice)

lemma missingRequired_None:
  "missingRequired g rs = None \<longleftrightarrow> (\<forall>t\<in>set (map dep_Type (filter dep_RequiredForStartup rs)). hasService g t)"
  by (auto simp: missingRequired_def find_None_iff)

lemma provided_graphAdd:
  assumes "provided g" and "missingRequired g rs = None"
  shows "provided (graphAdd g (depNode rid sid ps rs))"
proof -
  have "hasService g t" if "t \<in> set (get_slice (g_edges (graphAdd g (depNode rid sid ps rs))) r)"
      and "r \<in> dom (g_nodes (graphAdd g (depNode rid sid ps rs)))" for r t
  proof (cases "r = rid")
    case True
    then have "t \<in> set (map dep_Type (filter dep_RequiredForStartup rs))"
      using that(1) by (simp add: graphAdd_def)
    then show ?thesis using assms(2) missingRequired_None by blast
  next
    case False
    then show ?thesis using that assms(1) by (auto simp: graphAdd_def provided_def unprovided_def)
  qed
  then show ?thesis
    unfolding provided_def unprovided_def using hasService_graphAdd by blast
qed

section \<open>Adding a plugin\<close>

text \<open>The state right before the loop waits, and what a success stores.\<close>

lemma AddPlugin_cases:
  assumes "AddPlugin getInfo setIdentity env rnd1 rnd2 now es config p = Some (p', res)"
  obtains (early) "p' = p" "res \<noteq> None"
  | (identity) "p' = env p" "res \<noteq> None"
  | (waited) info sid rid tok p3 wres where "getInfo (pc_Endpoint config) = Inr info"
      and "sid = (if gpi_SelfId info = '''' then pc_SelfID config else gpi_SelfId info)"
      and "missingRequired (pf_depGraph p) (gpi_Requires info) = None"
      and "generateRuntimeID sid rnd1 = Some rid" and "generateToken rnd2 = Some tok"
      and "waitForHealthy (now + 30 * Second) rid es
             (AddToDependencyGraph rid sid (gpi_Provides info) (gpi_Requires info) (env p)) = Some (p3, wres)"
      and "case wres of Some e \<Rightarrow> p' = dropNode rid p3 \<and> res = Some (NotHealthy sid e)
           | None \<Rightarrow> res = None \<and>
                p' = p3\<lparr>pf_router := RegisterPluginEndpoint rid (pc_Endpoint config) (pf_router p3),
                        pf_plugins := (pf_plugins p3)(rid \<mapsto>
                          newInstance rid sid (infoMetadata info) (pc_Endpoint config) tok)\<rparr>"
proof (cases "getInfo (pc_Endpoint config)")
  case (Inl e)
  then show ?thesis using assms by (intro early) (auto simp: AddPlugin_def)
next
  case (Inr info)
  note i = this
  define sid where "sid = (if gpi_SelfId info = '''' then pc_SelfID config else gpi_SelfId info)"
  note defs = AddPlugin_def i sid_def [symmetric] Let_def
  show ?thesis
  proof (cases "missingRequired (pf_depGraph p) (gpi_Requires info) = None \<and>
      generateRuntimeID sid rnd1 \<noteq> None \<and> generateToken rnd2 \<noteq> None")
    case False
    then show ?thesis using assms by (intro early) (auto simp: defs split: option.splits)
  next
    case True
    then obtain rid tok where ids: "missingRequired (pf_depGraph p) (gpi_Requires info) = None"
      "generateRuntimeID sid rnd1 = Some rid" "generateToken rnd2 = Some tok" by auto
    show ?thesis
    proof (cases "setIdentity (pc_Endpoint config) (rid, tok, '''')")
      case (Some e)
      then show ?thesis using assms ids by (intro identity) (auto simp: defs)
    next
      case None
      then obtain p3 wres where w: "waitForHealthy (now + 30 * Second) rid es
          (AddToDependencyGraph rid sid (gpi_Provides info) (gpi_Requires info) (env p)) = Some (p3, wres)"
        using assms ids by (auto simp: defs time_add_def split: option.splits)
      show ?thesis
        by (rule waited [OF i sid_def ids w], use assms ids None w in
            \<open>auto simp: defs time_add_def split: option.splits\<close>)
    qed
  qed
qed

definition fresh_id :: "random_read \<Rightarrow> Platform \<Rightarrow> bool" where
  "fresh_id rnd p \<longleftrightarrow> (\<forall>sid rid. generateRuntimeID sid rnd = Some rid \<longrightarrow> g_nodes (pf_depGraph p) rid = None)"

lemma pf_AddToDependencyGraph [simp]:
  "pf_depGraph (AddToDependencyGraph rid sid ps rs p) = graphAdd (pf_depGraph p) (depNode rid sid ps rs)"
  "pf_registry (AddToDependencyGraph rid sid ps rs p) = pf_registry p"
  "pf_lifecycleServer (AddToDependencyGraph rid sid ps rs p) = pf_lifecycleServer p"
  "pf_router (AddToDependencyGraph rid sid ps rs p) = pf_router p"
  "pf_plugins (AddToDependencyGraph rid sid ps rs p) = pf_plugins p"
  by (simp_all add: AddToDependencyGraph_def)

lemma pf_dropNode [simp]:
  "pf_depGraph (dropNode rid p) = graphRemove (pf_depGraph p) rid"
  "pf_registry (dropNode rid p) = pf_registry p"
  "pf_lifecycleServer (dropNode rid p) = pf_lifecycleServer p"
  "pf_router (dropNode rid p) = pf_router p"
  "pf_plugins (dropNode rid p) = pf_plugins p"
  by (simp_all add: dropNode_def)

lemma AddPlugin_failure:
  assumes "AddPlugin getInfo setIdentity env rnd1 rnd2 now es config p = Some (p', Some e)"
    and wf: "wf_graph (pf_depGraph p)" and env: "plugin_env env" "\<forall>e\<in>set es. event_ok e"
    and fresh: "fresh_id rnd1 p"
  shows "pf_depGraph p' = pf_depGraph p \<and> pf_plugins p' = pf_plugins p \<and> pf_router p' = pf_router p \<and>
    (registry_inv (pf_registry p) \<longrightarrow> registry_inv (pf_registry p'))"
  using assms(1)
proof (cases rule: AddPlugin_cases)
  case (waited info sid rid tok p3 wres)
  then have p': "p' = dropNode rid p3" by (auto split: option.splits)
  have "g_nodes (pf_depGraph p) rid = None" using fresh waited(4) by (auto simp: fresh_id_def)
  then show ?thesis
    using waitForHealthy_frame [OF waited(6) env(2)] plugin_envD [OF env(1)]
      graphRemove_graphAdd [OF wf, of "depNode rid sid (gpi_Provides info) (gpi_Requires info)"]
    by (auto simp: p')
qed (auto simp: plugin_envD [OF env(1)])

lemma AddPlugin_success:
  assumes "AddPlugin getInfo setIdentity env rnd1 rnd2 now es config p = Some (p', None)"
    and env: "plugin_env env" "\<forall>e\<in>set es. event_ok e"
  shows "\<exists>info sid rid inst. getInfo (pc_Endpoint config) = Inr info \<and>
    (\<forall>dep\<in>set (gpi_Requires info). dep_RequiredForStartup dep \<longrightarrow> hasService (pf_depGraph p) (dep_Type dep)) \<and>
    generateRuntimeID sid rnd1 = Some rid \<and>
    pf_depGraph p' = graphAdd (pf_depGraph p) (depNode rid sid (gpi_Provides info) (gpi_Requires info)) \<and>
    pf_plugins p' = (pf_plugins p)(rid \<mapsto> inst) \<and> in_RuntimeID inst = rid \<and>
    in_Endpoint inst = pc_Endpoint config \<and>
    sr_pluginEndpoints (pf_router p') = (sr_pluginEndpoints (pf_router p))(rid \<mapsto> pc_Endpoint config) \<and>
    reportsHealthy (pf_lifecycleServer p') rid \<and>
    missingRequired (pf_depGraph p) (gpi_Requires info) = None \<and>
    (registry_inv (pf_registry p) \<longrightarrow> registry_inv (pf_registry p'))"
  using assms(1)
proof (cases rule: AddPlugin_cases)
  case (waited info sid rid tok p3 wres)
  then have "wres = None" by (auto split: option.splits)
  define inst where "inst = newInstance rid sid (infoMetadata info) (pc_Endpoint config) tok"
  have inst: "in_RuntimeID inst = rid" "in_Endpoint inst = pc_Endpoint config"
    by (simp_all add: inst_def newInstance_def)
  have p': "p' = p3\<lparr>pf_router := RegisterPluginEndpoint rid (pc_Endpoint config) (pf_router p3),
                     pf_plugins := (pf_plugins p3)(rid \<mapsto> inst)\<rparr>"
    using waited(7) \<open>wres = None\<close> by (simp add: inst_def)
  have "\<forall>dep\<in>set (gpi_Requires info). dep_RequiredForStartup dep \<longrightarrow> hasService (pf_depGraph p) (dep_Type dep)"
    using waited(3) by (auto simp: missingRequired_None)
  then show ?thesis
    using waitForHealthy_frame [OF waited(6) env(2)] plugin_envD [OF env(1)] waited(1,3,4) inst \<open>wres = None\<close>
    by (intro exI [of _ info] exI [of _ sid] exI [of _ rid] exI [of _ inst])
      (auto simp: p' RegisterPluginEndpoint_def)
qed auto

lemma wf_platform_AddPlugin:
  assumes "AddPlugin getInfo setIdentity env rnd1 rnd2 now es config p = Some (p', res)"
    and wf: "wf_platform p" and env: "plugin_env env" "\<forall>e\<in>set es. event_ok e" and fresh: "fresh_id rnd1 p"
  shows "wf_platform p' \<and> (provided (pf_depGraph p) \<longrightarrow> provided (pf_depGraph p'))"
proof (cases res)
  case (Some e)
  have g: "wf_graph (pf_depGraph p)" using wf by (simp add: wf_platform_def)
  show ?thesis
    using AddPlugin_failure [OF assms(1) [unfolded Some] g env fresh] wf by (simp add: wf_platform_def)
next
  case None
  obtain info :: GetPluginInfoResponse and sid rid inst where s: "generateRuntimeID sid rnd1 = Some rid"
      "pf_depGraph p' = graphAdd (pf_depGraph p) (depNode rid sid (gpi_Provides info) (gpi_Requires info))"
      "pf_plugins p' = (pf_plugins p)(rid \<mapsto> inst)" "in_RuntimeID inst = rid" "in_Endpoint inst = pc_Endpoint config"
      "sr_pluginEndpoints (pf_router p') = (sr_pluginEndpoints (pf_router p))(rid \<mapsto> pc_Endpoint config)"
      "missingRequired (pf_depGraph p) (gpi_Requires info) = None"
      "registry_inv (pf_registry p) \<longrightarrow> registry_inv (pf_registry p')"
    using AddPlugin_success [OF assms(1) [unfolded None] env] by blast
  have f: "g_nodes (pf_depGraph p) rid = None" using fresh s(1) by (auto simp: fresh_id_def)
  have "wf_graph (pf_depGraph p')"
    unfolding s(2) using wf f by (intro wf_graph_Add) (auto simp: wf_platform_def)
  moreover have "g_nodes (pf_depGraph p') =
      (g_nodes (pf_depGraph p))(rid \<mapsto> depNode rid sid (gpi_Provides info) (gpi_Requires info))"
    by (simp add: s(2) graphAdd_def)
  ultimately have "wf_platform p'"
    using wf s by (auto simp: wf_platform_def)
  then show ?thesis using provided_graphAdd [OF _ s(7)] s(2) by auto
qed

section \<open>Removing and replacing a plugin\<close>


lemma pf_unregisterServices [simp]:
  "pf_depGraph (unregisterServices order rid p) = pf_depGraph p"
  "pf_registry (unregisterServices order rid p) =
     UnregisterPluginServices (order (pf_registry p)) rid (pf_registry p)"
  "pf_lifecycleServer (unregisterServices order rid p) = pf_lifecycleServer p"
  "pf_router (unregisterServices order rid p) = pf_router p"
  "pf_plugins (unregisterServices order rid p) = pf_plugins p"
  by (simp_all add: unregisterServices_def)




text \<open>\<open>ReplacePlugin\<close> hands the new runtime id to nobody: unless some plugin reports itself healthy
  under an id it was never told, the replacement fails, and dependency graph, plugin table
  and router are as before.\<close>
theorem ReplacePlugin_untold:
  assumes "ReplacePlugin rnd1 rnd2 now es drain shutdown order rid config p = Some (p', res)"
    and untold: "\<forall>sid new. generateRuntimeID sid rnd1 = Some new \<longrightarrow>
        \<not> reportsHealthy (pf_lifecycleServer p) new \<and>
        (\<forall>now env q. TickAt now env \<in> set es \<longrightarrow> reportsHealthy (pf_lifecycleServer (env q)) new \<longrightarrow>
           reportsHealthy (pf_lifecycleServer q) new)"
    and wf: "wf_graph (pf_depGraph p)" and env: "\<forall>e\<in>set es. event_ok e" and fresh: "fresh_id rnd1 p"
  shows "res \<noteq> None \<and> pf_depGraph p' = pf_depGraph p \<and> pf_plugins p' = pf_plugins p \<and> pf_router p' = pf_router p"
proof (cases "pf_plugins p rid = None \<or> generateRuntimeID (pc_SelfID config) rnd1 = None \<or> generateToken rnd2 = None")
  case True
  then show ?thesis using assms(1) by (auto simp: ReplacePlugin_def split: option.splits)
next
  case False
  then obtain old new tok where ids: "pf_plugins p rid = Some old"
      "generateRuntimeID (pc_SelfID config) rnd1 = Some new" "generateToken rnd2 = Some tok"
    by auto
  let ?n = "depNode new (pc_SelfID config) (pm_Provides (pc_Metadata config)) (pm_Requires (pc_Metadata config))"
  let ?p1 = "AddToDependencyGraph new (pc_SelfID config) (pm_Provides (pc_Metadata config))
               (pm_Requires (pc_Metadata config)) p"
  let ?w = "waitForHealthy (now + 30 * Second) new es ?p1"
  have never: "?w \<noteq> Some (p2, None)" for p2
    using waitForHealthy_never [of "now + 30 * Second" new es ?p1 p2] untold ids(2) by auto
  obtain p2 wres where w': "?w = Some (p2, wres)"
    using assms(1) ids by (auto simp: ReplacePlugin_def Let_def time_add_def split: option.splits)
  then obtain e where w: "?w = Some (p2, Some e)" using never by (cases wres) auto
  have p': "p' = dropNode new p2" "res \<noteq> None"
    using assms(1) ids w by (auto simp: ReplacePlugin_def Let_def time_add_def)
  have "g_nodes (pf_depGraph p) new = None" using fresh ids(2) by (auto simp: fresh_id_def)
  then have "graphRemove (graphAdd (pf_depGraph p) ?n) new = pf_depGraph p"
    using graphRemove_graphAdd [OF wf, of ?n] by simp
  then show ?thesis
    using waitForHealthy_frame(1-3) [OF w env] p' by simp
qed

text \<open>C5. Adding a plugin is all or nothing for the host's tables: on any error (no answer, a missing
  required service, no identity, not healthy in time) dependency graph, plugin table and router are as
  before; on success every service it requires for startup was provided, it has one new entry
  under its new id in each of the three, and it has reported itself healthy. Either way the
  platform stays consistent, and requirements that were all provided stay so.\<close>
theorem AddPlugin_all_or_nothing:
  assumes "AddPlugin getInfo setIdentity env rnd1 rnd2 now es config p = Some (p', res)"
    and "wf_platform p" and "plugin_env env" and "\<forall>e\<in>set es. event_ok e" and "fresh_id rnd1 p"
  shows "wf_platform p' \<and> (provided (pf_depGraph p) \<longrightarrow> provided (pf_depGraph p')) \<and>
    (case res of
       Some e \<Rightarrow> pf_depGraph p' = pf_depGraph p \<and> pf_plugins p' = pf_plugins p \<and> pf_router p' = pf_router p
     | None \<Rightarrow> \<exists>info sid rid inst. getInfo (pc_Endpoint config) = Inr info \<and> generateRuntimeID sid rnd1 = Some rid \<and>
         (\<forall>dep\<in>set (gpi_Requires info). dep_RequiredForStartup dep \<longrightarrow> hasService (pf_depGraph p) (dep_Type dep)) \<and>
         pf_depGraph p' = graphAdd (pf_depGraph p) (depNode rid sid (gpi_Provides info) (gpi_Requires info)) \<and>
         pf_plugins p' = (pf_plugins p)(rid \<mapsto> inst) \<and> in_Endpoint inst = pc_Endpoint config \<and>
         sr_pluginEndpoints (pf_router p') = (sr_pluginEndpoints (pf_router p))(rid \<mapsto> pc_Endpoint config) \<and>
         reportsHealthy (pf_lifecycleServer p') rid)"
proof (cases res)
  case None
  then show ?thesis
    using wf_platform_AddPlugin [OF assms] AddPlugin_success [OF assms(1) [unfolded None] assms(3,4)] by auto
next
  case (Some e)
  have "wf_graph (pf_depGraph p)" using assms(2) by (simp add: wf_platform_def)
  then show ?thesis
    using wf_platform_AddPlugin [OF assms] AddPlugin_failure [OF assms(1) [unfolded Some] _ assms(3,4,5)] Some by simp
qed

text \<open>\<open>AddPlugin\<close> returns: a tick of its 500 ms ticker after the 30 second deadline ends its
  waiting, whatever the plugin does or fails to do.\<close>
theorem AddPlugin_returns:
  assumes "TickAt t e \<in> set es" and "now + 30 * Second < t"
  shows "\<exists>res. AddPlugin getInfo setIdentity env rnd1 rnd2 now es config p = Some res"
proof -
  have w: "waitForHealthy (now + 30 * Second) rid es q \<noteq> None" for rid q
    using waitForHealthy_returns [OF assms, of rid q] by auto
  have "AddPlugin getInfo setIdentity env rnd1 rnd2 now es config p \<noteq> None"
    by (simp add: AddPlugin_def Let_def time_add_def w split: sum.split option.split prod.split)
  then show ?thesis by (simp only: not_None_eq)
qed

section \<open>An example\<close>

definition example_info :: GetPluginInfoResponse where
  "example_info = \<lparr>gpi_SelfId = ''kv'', gpi_SelfVersion = ''1.0.0'',
     gpi_Provides = [\<lparr>sd_Type = ''kv'', sd_Version = ''1.0.0'', sd_Path = ''/kv''\<rparr>], gpi_Requires = [], gpi_Metadata = Map.empty\<rparr>"

definition example_plugin :: PluginConfig where
  "example_plugin = \<lparr>pc_SelfID = ''kv'', pc_SelfVersion = ''1.0.0'', pc_Endpoint = ''http://p'',
     pc_Metadata = \<lparr>pm_Name = ''kv'', pm_Path = '''', pm_Version = '''', pm_Provides = [], pm_Requires = []\<rparr>\<rparr>"

text \<open>The plugin reports itself healthy.\<close>

definition example_report :: "string \<Rightarrow> env" where
  "example_report rid p = p\<lparr>pf_lifecycleServer := fst (ReportHealth (header_set Map.empty ''X-Plugin-Runtime-ID'' rid)
      \<lparr>rhr_State = HEALTH_STATE_HEALTHY, rhr_Reason = '''', rhr_UnavailableDependencies = []\<rparr> (pf_lifecycleServer p))\<rparr>"

abbreviation example_host :: Platform where
  "example_host \<equiv> NewPlatform NewServiceRegistry NewLifecycleServer NewServiceRouter"

lemma example_env: "plugin_env (example_report rid)" "plugin_env id"
  by (simp_all add: plugin_env_def example_report_def)

lemma example_events: "\<forall>e\<in>set [TickAt 1 (example_report rid)]. event_ok e"
  by (simp add: example_env)

lemma wf_example_host: "wf_platform example_host"
  using registry_inv_new wf_graph_new by (simp add: wf_platform_def NewPlatform_def)

lemma example_id: "generateRuntimeID ''kv'' (Some ''ab'') = Some ''kv-6162''" by code_simp

lemma example_fresh: "fresh_id (Some ''ab'') example_host"
  by (simp add: fresh_id_def NewPlatform_def newGraph_def)

definition example_add :: "(Platform \<times> PlatformError option) option" where
  "example_add = AddPlugin (\<lambda>_. Inr example_info) (\<lambda>_ _. None) id (Some ''ab'') (Some ''0123456789abcdef0123456789abcdef'') 0
      [TickAt 1 (example_report ''kv-6162'')] example_plugin example_host"

lemma example_added:
  "\<exists>p'. example_add = Some (p', None) \<and>
     dom (pf_plugins p') = {''kv-6162''} \<and> dom (g_nodes (pf_depGraph p')) = {''kv-6162''} \<and>
     r_registrations (pf_registry p') = Map.empty \<and> dom (lc_states (pf_lifecycleServer p')) = {''kv-6162''}"
proof -
  obtain tok where "generateToken (Some ''0123456789abcdef0123456789abcdef'') = Some tok"
    by (simp add: generateToken_def del: b64Encode.simps)
  moreover have "gpi_SelfId example_info = ''kv''" "gpi_Requires example_info = []"
    by (simp_all add: example_info_def)
  ultimately show ?thesis
    by (simp add: example_add_def AddPlugin_def missingRequired_def example_id time_after_def Let_def
      time_defs example_report_def ReportHealth_def reportsHealthy_def GetHealthState_def NewPlatform_def
      NewServiceRegistry_def NewLifecycleServer_def newGraph_def graphAdd_def)
qed

lemma AddPlugin_all_or_nothing_witness:
  "\<exists>p'. example_add = Some (p', None) \<and>
     wf_platform p' \<and> (\<exists>rid. reportsHealthy (pf_lifecycleServer p') rid)"
proof -
  obtain p' where p: "example_add = Some (p', None)"
    using example_added by (elim exE conjE) (rule that; simp)
  note AddPlugin_all_or_nothing [OF p [unfolded example_add_def] wf_example_host example_env(2) example_events example_fresh]
  then show ?thesis using p by auto
qed

lemma AddPlugin_returns_witness:
  "\<exists>res. AddPlugin (\<lambda>_. Inr example_info) (\<lambda>_ _. None) id (Some ''ab'') (Some ''0123456789abcdef0123456789abcdef'') 0
      [TickAt 1 id, TickAt (31 * Second) id] example_plugin example_host = Some res"
  by (rule AddPlugin_returns [of "31 * Second" id]) (simp_all add: Second_def)


lemma example_fresh_again:
  assumes "dom (g_nodes (pf_depGraph p)) = {''kv-6162''}" and "dom (lc_states (pf_lifecycleServer p)) = {''kv-6162''}"
    and "generateRuntimeID sid (Some ''cd'') = Some new"
  shows "g_nodes (pf_depGraph p) new = None \<and> \<not> reportsHealthy (pf_lifecycleServer p) new"
proof -
  have "generateRandomHex 4 (Some ''cd'') = Some ''6364''" by code_simp
  then have "last new = CHR ''4''"
    using assms(3) by (auto simp: generateRuntimeID_def Let_def)
  then have "new \<noteq> ''kv-6162''" by auto
  then have "g_nodes (pf_depGraph p) new = None" "lc_states (pf_lifecycleServer p) new = None"
    using assms(1,2) by (auto simp: domIff)
  then show ?thesis by (simp add: reportsHealthy_def GetHealthState_def)
qed

definition example_replace :: "Platform \<Rightarrow> (Platform \<times> PlatformError option) option" where
  "example_replace p = ReplacePlugin (Some ''cd'') (Some ''0123456789abcdef0123456789abcdef'') 0 [TickAt (31 * Second) id] id
      (\<lambda>_ q. q) (\<lambda>_. []) ''kv-6162'' example_plugin p"

lemma ReplacePlugin_untold_witness:
  "\<exists>p p' e. example_replace p = Some (p', Some e) \<and>
     ''kv-6162'' \<in> dom (pf_plugins p) \<and> pf_plugins p' = pf_plugins p"
proof -
  obtain p where p: "example_add = Some (p, None)"
    and known: "dom (pf_plugins p) = {''kv-6162''}" and nodes: "dom (g_nodes (pf_depGraph p)) = {''kv-6162''}"
    and states: "dom (lc_states (pf_lifecycleServer p)) = {''kv-6162''}"
    using example_added by (elim exE conjE) (rule that; simp)
  note fresh = example_fresh_again [OF nodes states]
  have "wf_platform p"
    by (rule conjunct1 [OF wf_platform_AddPlugin [OF p [unfolded example_add_def] wf_example_host example_env(2) example_events example_fresh]])
  then have wf: "wf_graph (pf_depGraph p)" by (simp add: wf_platform_def)
  have ev: "\<forall>e\<in>set [TickAt (31 * Second) id]. event_ok e" by (simp add: example_env)
  obtain inst where inst: "pf_plugins p ''kv-6162'' = Some inst" using known by blast
  obtain new where new: "generateRuntimeID (pc_SelfID example_plugin) (Some ''cd'') = Some new"
    by (simp add: generateRuntimeID_def generateRandomHex_def Let_def)
  obtain tok where tok: "generateToken (Some ''0123456789abcdef0123456789abcdef'') = Some tok"
    by (simp add: generateToken_def del: b64Encode.simps)
  have late: "time_after (31 * Second) (time_add 0 (30 * Second))" by (simp add: time_defs)
  have "\<exists>res. example_replace p = Some res"
    unfolding example_replace_def ReplacePlugin_def by (simp add: inst new tok late Let_def)
  then obtain p' res where r: "example_replace p = Some (p', res)"
    by auto
  have fr: "fresh_id (Some ''cd'') p" unfolding fresh_id_def using fresh by blast
  have untold: "\<forall>sid new. generateRuntimeID sid (Some ''cd'') = Some new \<longrightarrow>
      \<not> reportsHealthy (pf_lifecycleServer p) new \<and>
      (\<forall>now env q. TickAt now env \<in> set [TickAt (31 * Second) id] \<longrightarrow>
         reportsHealthy (pf_lifecycleServer (env q)) new \<longrightarrow> reportsHealthy (pf_lifecycleServer q) new)"
    using fresh by simp
  have "res \<noteq> None \<and> pf_depGraph p' = pf_depGraph p \<and> pf_plugins p' = pf_plugins p \<and> pf_router p' = pf_router p"
    by (rule ReplacePlugin_untold [OF r [unfolded example_replace_def] untold wf ev fr])
  then obtain e where "res = Some e" "pf_plugins p' = pf_plugins p" by blast
  then show ?thesis using r known by (intro exI [of _ p] exI [of _ p'] exI [of _ e]) simp
qed

end
