(* ===== verification/CircuitBreaker.thy ===== *)
theory CircuitBreaker
  imports GoRuntime
begin

text \<open>
  The circuit breaker, \<^verbatim>\<open>circuitbreaker.go\<close>: \<open>allowRequest\<close> and \<open>recordResult\<close> as steps of a
  state machine over the closed, open and half-open states, \<open>Call\<close> and the interceptor built
  from them. \<open>setState\<close> gives the lock away while it runs the callback: \<open>between\<close> is what
  other calls do to the breaker meanwhile (the identity when nothing happens). The counters are
  Go \<open>int\<close>s that grow by one per call; they are unbounded here.
\<close>

section \<open>Data\<close>

datatype CircuitState = CircuitClosed | CircuitOpen | CircuitHalfOpen

record CircuitBreakerConfig =
  cc_FailureThreshold :: int
  cc_SuccessThreshold :: int
  cc_Timeout :: duration
  cc_IsFailure :: "(rpc_error option \<Rightarrow> bool) option"
  cc_OnStateChange :: bool     \<comment> \<open>a callback is configured\<close>

record CircuitBreaker =
  cb_config :: CircuitBreakerConfig
  cb_state :: CircuitState
  cb_consecutiveFailures :: int
  cb_consecutiveSuccesses :: int
  cb_lastFailureTime :: time

definition defaultIsFailure :: "rpc_error option \<Rightarrow> bool" where
  "defaultIsFailure err =
     (case err of
        None \<Rightarrow> False
      | Some e \<Rightarrow> CodeOf e \<in> {CodeUnavailable, CodeResourceExhausted, CodeInternal, CodeUnknown,
                              CodeDeadlineExceeded})"

definition DefaultCircuitBreakerConfig :: CircuitBreakerConfig where
  "DefaultCircuitBreakerConfig =
     \<lparr>cc_FailureThreshold = 5, cc_SuccessThreshold = 2, cc_Timeout = 10 * Second,
      cc_IsFailure = Some defaultIsFailure, cc_OnStateChange = False\<rparr>"

text \<open>\<open>zero\<close> is the zero value of \<open>time.Time\<close>.\<close>

definition NewCircuitBreaker :: "time \<Rightarrow> CircuitBreakerConfig \<Rightarrow> CircuitBreaker" where
  "NewCircuitBreaker zero config =
     (let c1 = (if cc_FailureThreshold config \<le> 0 then config\<lparr>cc_FailureThreshold := 5\<rparr> else config);
          c2 = (if cc_SuccessThreshold c1 \<le> 0 then c1\<lparr>cc_SuccessThreshold := 2\<rparr> else c1);
          c3 = (if cc_Timeout c2 = 0 then c2\<lparr>cc_Timeout := 10 * Second\<rparr> else c2);
          c4 = (if cc_IsFailure c3 = None then c3\<lparr>cc_IsFailure := Some defaultIsFailure\<rparr> else c3)
      in \<lparr>cb_config = c4, cb_state = CircuitClosed, cb_consecutiveFailures = 0,
          cb_consecutiveSuccesses = 0, cb_lastFailureTime = zero\<rparr>)"

section \<open>Operations\<close>

type_synonym interleaving = "CircuitBreaker \<Rightarrow> CircuitBreaker"

definition setState :: "interleaving \<Rightarrow> CircuitState \<Rightarrow> CircuitBreaker \<Rightarrow> CircuitBreaker" where
  "setState between newState cb =
     (let cb' = cb\<lparr>cb_state := newState\<rparr>
      in if cc_OnStateChange (cb_config cb) then between cb' else cb')"

definition allowRequest :: "interleaving \<Rightarrow> time \<Rightarrow> CircuitBreaker \<Rightarrow> CircuitBreaker \<times> bool" where
  "allowRequest between now cb =
     (case cb_state cb of
        CircuitClosed \<Rightarrow> (cb, True)
      | CircuitOpen \<Rightarrow>
          if time_sub now (cb_lastFailureTime cb) \<ge> cc_Timeout (cb_config cb)
          then ((setState between CircuitHalfOpen cb)
                  \<lparr>cb_consecutiveSuccesses := 0, cb_consecutiveFailures := 0\<rparr>, True)
          else (cb, False)
      | CircuitHalfOpen \<Rightarrow> (cb, True))"

definition isFailureOf :: "CircuitBreaker \<Rightarrow> rpc_error option \<Rightarrow> bool" where
  "isFailureOf cb err =
     (case cc_IsFailure (cb_config cb) of None \<Rightarrow> False | Some f \<Rightarrow> f err)"

definition recordResult :: "interleaving \<Rightarrow> time \<Rightarrow> rpc_error option \<Rightarrow> CircuitBreaker \<Rightarrow> CircuitBreaker" where
  "recordResult between now err cb =
     (let isFailure = isFailureOf cb err
      in case cb_state cb of
        CircuitClosed \<Rightarrow>
          if isFailure then
            let cb = cb\<lparr>cb_consecutiveFailures := cb_consecutiveFailures cb + 1,
                       cb_consecutiveSuccesses := 0, cb_lastFailureTime := now\<rparr>
            in if cb_consecutiveFailures cb \<ge> cc_FailureThreshold (cb_config cb)
               then setState between CircuitOpen cb else cb
          else cb\<lparr>cb_consecutiveFailures := 0,
                  cb_consecutiveSuccesses := cb_consecutiveSuccesses cb + 1\<rparr>
      | CircuitOpen \<Rightarrow> if isFailure then cb\<lparr>cb_lastFailureTime := now\<rparr> else cb
      | CircuitHalfOpen \<Rightarrow>
          if isFailure then
            setState between CircuitOpen
              (cb\<lparr>cb_consecutiveFailures := 1, cb_consecutiveSuccesses := 0, cb_lastFailureTime := now\<rparr>)
          else
            let cb = cb\<lparr>cb_consecutiveSuccesses := cb_consecutiveSuccesses cb + 1,
                       cb_consecutiveFailures := 0\<rparr>
            in if cb_consecutiveSuccesses cb \<ge> cc_SuccessThreshold (cb_config cb)
               then (setState between CircuitClosed cb)\<lparr>cb_consecutiveSuccesses := 0\<rparr> else cb)"

text \<open>
  A protected call. \<open>fn\<close> is the function called, which runs without the lock: it gives its error
  and what other calls do to the breaker while it runs. The result says whether it was called.
\<close>

definition circuitOpenError :: rpc_error where
  "circuitOpenError = ConnectError CodeUnavailable ''circuit breaker is open''"

definition Call ::
    "interleaving \<Rightarrow> time \<Rightarrow> time \<Rightarrow> (CircuitBreaker \<Rightarrow> CircuitBreaker \<times> rpc_error option) \<Rightarrow> CircuitBreaker \<Rightarrow>
     CircuitBreaker \<times> rpc_error option \<times> bool" where
  "Call between now now' fn cb =
     (case allowRequest between now cb of
        (cb1, False) \<Rightarrow> (cb1, Some circuitOpenError, False)
      | (cb1, True) \<Rightarrow>
          (case fn cb1 of (cb2, err) \<Rightarrow> (recordResult between now' err cb2, err, True)))"

text \<open>The interceptor: \<open>next\<close> gives response and error; both pointers may be nil.\<close>

definition CircuitBreakerInterceptor ::
    "interleaving \<Rightarrow> time \<Rightarrow> time \<Rightarrow> (CircuitBreaker \<Rightarrow> CircuitBreaker \<times> 'r option \<times> rpc_error option) \<Rightarrow>
     CircuitBreaker \<Rightarrow> CircuitBreaker \<times> 'r option \<times> rpc_error option" where
  "CircuitBreakerInterceptor between now now' nxt cb =
     (case Call between now now' (\<lambda>cb. case nxt cb of (cb', resp, e) \<Rightarrow> (cb', e)) cb of
        (cb', err, called) \<Rightarrow>
          let (resp, callErr) =
                (if called then snd (nxt (fst (allowRequest between now cb))) else (None, None))
          in if err \<noteq> None \<and> callErr = None then (cb', None, err) else (cb', resp, callErr))"

section \<open>The invariant\<close>

definition wf_config :: "CircuitBreakerConfig \<Rightarrow> bool" where
  "wf_config c \<longleftrightarrow> 0 < cc_FailureThreshold c \<and> 0 < cc_SuccessThreshold c \<and> cc_IsFailure c \<noteq> None"

text \<open>Below its threshold in each state that counts, and never negative.\<close>

definition wf_breaker :: "CircuitBreaker \<Rightarrow> bool" where
  "wf_breaker cb \<longleftrightarrow> wf_config (cb_config cb) \<and>
     0 \<le> cb_consecutiveFailures cb \<and> 0 \<le> cb_consecutiveSuccesses cb \<and>
     (cb_state cb = CircuitClosed \<longrightarrow> cb_consecutiveFailures cb < cc_FailureThreshold (cb_config cb)) \<and>
     (cb_state cb = CircuitHalfOpen \<longrightarrow> cb_consecutiveSuccesses cb < cc_SuccessThreshold (cb_config cb))"

lemma wf_NewCircuitBreaker: "wf_breaker (NewCircuitBreaker zero config)"
  by (auto simp: NewCircuitBreaker_def wf_breaker_def wf_config_def Let_def)

text \<open>Without a callback the steps are atomic.\<close>

definition atomic :: "CircuitBreaker \<Rightarrow> bool" where
  "atomic cb \<longleftrightarrow> \<not> cc_OnStateChange (cb_config cb)"

lemma atomic_NewCircuitBreaker: "\<not> cc_OnStateChange config \<Longrightarrow> atomic (NewCircuitBreaker zero config)"
proof -
  assume "\<not> cc_OnStateChange config"
  moreover have "cc_OnStateChange (if b then c\<lparr>cc_FailureThreshold := i\<rparr> else c) = cc_OnStateChange c"
    "cc_OnStateChange (if b then c\<lparr>cc_SuccessThreshold := i\<rparr> else c) = cc_OnStateChange c"
    "cc_OnStateChange (if b then c\<lparr>cc_Timeout := i\<rparr> else c) = cc_OnStateChange c"
    "cc_OnStateChange (if b then c\<lparr>cc_IsFailure := f\<rparr> else c) = cc_OnStateChange c" for b c i f
    by simp_all
  ultimately show ?thesis by (simp add: atomic_def NewCircuitBreaker_def Let_def)
qed

lemma setState_atomic: "atomic cb \<Longrightarrow> setState between s cb = cb\<lparr>cb_state := s\<rparr>"
  by (simp add: setState_def atomic_def)

lemma atomic_upd [simp]:
  "atomic (cb\<lparr>cb_state := s\<rparr>) = atomic cb"
  "atomic (cb\<lparr>cb_consecutiveFailures := n\<rparr>) = atomic cb"
  "atomic (cb\<lparr>cb_consecutiveSuccesses := n\<rparr>) = atomic cb"
  "atomic (cb\<lparr>cb_lastFailureTime := t\<rparr>) = atomic cb"
  by (simp_all add: atomic_def)

lemma allowRequest_config: "atomic cb \<Longrightarrow> cb_config (fst (allowRequest b now cb)) = cb_config cb"
  by (auto simp: allowRequest_def setState_atomic split: CircuitState.split)

lemma recordResult_config: "atomic cb \<Longrightarrow> cb_config (recordResult b now err cb) = cb_config cb"
  by (auto simp: recordResult_def setState_atomic Let_def split: CircuitState.split)

lemma wf_allowRequest: "wf_breaker cb \<Longrightarrow> atomic cb \<Longrightarrow> wf_breaker (fst (allowRequest b now cb))"
  by (auto simp: allowRequest_def setState_atomic wf_breaker_def wf_config_def split: CircuitState.split)

lemma wf_recordResult: "wf_breaker cb \<Longrightarrow> atomic cb \<Longrightarrow> wf_breaker (recordResult b now err cb)"
  by (auto simp: recordResult_def setState_atomic wf_breaker_def wf_config_def Let_def split: CircuitState.split)

text \<open>Any number of calls, interleaved in any order.\<close>

inductive breaker_step :: "CircuitBreaker \<Rightarrow> CircuitBreaker \<Rightarrow> bool" where
  st_allow: "breaker_step cb (fst (allowRequest b now cb))"
| st_record: "breaker_step cb (recordResult b now err cb)"

interpretation brk: safe_component
  "\<lambda>cb. \<exists>zero config. \<not> cc_OnStateChange config \<and> cb = NewCircuitBreaker zero config"
  breaker_step "\<lambda>cb. wf_breaker cb \<and> atomic cb"
proof unfold_locales
  show "wf_breaker s \<and> atomic s"
    if "\<exists>zero config. \<not> cc_OnStateChange config \<and> s = NewCircuitBreaker zero config" for s
    using that wf_NewCircuitBreaker atomic_NewCircuitBreaker by blast
  show "wf_breaker t \<and> atomic t" if "wf_breaker s \<and> atomic s" "breaker_step s t" for s t
    using that(2,1)
    by cases (auto simp: wf_allowRequest wf_recordResult atomic_def [of "fst (allowRequest b now cb)" for b now cb]
        atomic_def [of "recordResult b now err cb" for b now err cb] allowRequest_config recordResult_config
        atomic_def)
qed

section \<open>When the circuit opens and closes\<close>

definition records :: "interleaving \<Rightarrow> (time \<times> rpc_error option) list \<Rightarrow> CircuitBreaker \<Rightarrow> CircuitBreaker" where
  "records b rs cb = fold (\<lambda>(now, err) cb. recordResult b now err cb) rs cb"

lemma records_simps [simp]:
  "records b [] cb = cb"
  "records b ((now, err) # rs) cb = records b rs (recordResult b now err cb)"
  by (simp_all add: records_def)

text \<open>The failure threshold is reached somewhere in the run.\<close>

fun reaches :: "int \<Rightarrow> int \<Rightarrow> bool list \<Rightarrow> bool" where
  "reaches k n [] = False"
| "reaches k n (f # fs) = (let n' = (if f then n + 1 else 0) in (f \<and> k \<le> n') \<or> reaches k n' fs)"

lemma recordResult_open: "cb_state cb = CircuitOpen \<Longrightarrow> cb_state (recordResult b now err cb) = CircuitOpen"
  by (simp add: recordResult_def Let_def)

lemma records_open: "cb_state cb = CircuitOpen \<Longrightarrow> cb_state (records b rs cb) = CircuitOpen"
  by (induction rs arbitrary: cb) (auto simp: recordResult_open)

lemma isFailureOf_cong: "cb_config cb' = cb_config cb \<Longrightarrow> isFailureOf cb' err = isFailureOf cb err"
  by (simp add: isFailureOf_def)

lemma records_closed:
  assumes "cb_state cb = CircuitClosed" and "atomic cb"
  shows "cb_state (records b rs cb) =
    (if reaches (cc_FailureThreshold (cb_config cb)) (cb_consecutiveFailures cb)
          (map (\<lambda>(now, err). isFailureOf cb err) rs)
     then CircuitOpen else CircuitClosed)"
  using assms
proof (induction rs arbitrary: cb)
  case Nil
  then show ?case by simp
next
  case (Cons r rs)
  obtain now err where r: "r = (now, err)" by fastforce
  let ?cb = "recordResult b now err cb"
  have at: "atomic ?cb" using Cons.prems recordResult_config by (simp add: atomic_def)
  have cfg: "cb_config ?cb = cb_config cb" by (rule recordResult_config [OF Cons.prems(2)])
  show ?case
  proof (cases "isFailureOf cb err \<and> cc_FailureThreshold (cb_config cb) \<le> cb_consecutiveFailures cb + 1")
    case True
    then have "cb_state ?cb = CircuitOpen"
      using Cons.prems by (simp add: recordResult_def setState_atomic Let_def)
    then show ?thesis using True by (simp add: r records_open)
  next
    case False
    then have "cb_state ?cb = CircuitClosed \<and>
        cb_consecutiveFailures ?cb = (if isFailureOf cb err then cb_consecutiveFailures cb + 1 else 0)"
      using Cons.prems by (auto simp: recordResult_def setState_atomic Let_def)
    then show ?thesis
      using Cons.IH [OF _ at] False by (simp add: r cfg isFailureOf_cong [OF cfg])
  qed
qed

text \<open>\<open>reaches\<close> says that some block of \<open>k\<close> results in a row are failures.\<close>

lemma reaches_iff:
  "0 < k \<Longrightarrow> 0 \<le> n \<Longrightarrow> n < k \<Longrightarrow>
   reaches k n fs \<longleftrightarrow>
     (\<exists>m zs. fs = replicate m True @ zs \<and> k \<le> n + int m) \<or>
     (\<exists>xs m zs. fs = xs @ False # replicate m True @ zs \<and> k \<le> int m)"
proof (induction fs arbitrary: n)
  case Nil
  then show ?case by auto
next
  case (Cons f fs)
  show ?case
  proof (cases f)
    case False
    have "reaches k n (f # fs) \<longleftrightarrow> reaches k 0 fs" using False by simp
    also have "\<dots> \<longleftrightarrow> (\<exists>m zs. fs = replicate m True @ zs \<and> k \<le> int m) \<or>
        (\<exists>xs m zs. fs = xs @ False # replicate m True @ zs \<and> k \<le> int m)"
      using Cons.IH [of 0] Cons.prems by simp
    also have "\<dots> \<longleftrightarrow> (\<exists>m zs. f # fs = replicate m True @ zs \<and> k \<le> n + int m) \<or>
        (\<exists>xs m zs. f # fs = xs @ False # replicate m True @ zs \<and> k \<le> int m)"
    proof -
      have "\<not> (\<exists>m zs. f # fs = replicate m True @ zs \<and> k \<le> n + int m)"
      proof (intro notI, elim exE conjE)
        fix m zs
        assume "f # fs = replicate m True @ zs" "k \<le> n + int m"
        then show False using False Cons.prems by (cases m) auto
      qed
      moreover have "(\<exists>xs m zs. f # fs = xs @ False # replicate m True @ zs \<and> k \<le> int m) \<longleftrightarrow>
          (\<exists>m zs. fs = replicate m True @ zs \<and> k \<le> int m) \<or>
          (\<exists>xs m zs. fs = xs @ False # replicate m True @ zs \<and> k \<le> int m)"
        using False by (auto simp: Cons_eq_append_conv) blast
      ultimately show ?thesis by blast
    qed
    finally show ?thesis .
  next
    case True
    show ?thesis
    proof (cases "k \<le> n + 1")
      case le: True
      have "f # fs = replicate 1 True @ fs \<and> k \<le> n + int 1" using True le by simp
      then have "\<exists>m zs. f # fs = replicate m True @ zs \<and> k \<le> n + int m" by blast
      moreover have "reaches k n (f # fs)" using True le by simp
      ultimately show ?thesis by blast
    next
      case gt: False
      have "(\<exists>m zs. f # fs = replicate m True @ zs \<and> k \<le> n + int m) \<longleftrightarrow>
          (\<exists>m zs. fs = replicate m True @ zs \<and> k \<le> n + 1 + int m)"
      proof
        assume "\<exists>m zs. f # fs = replicate m True @ zs \<and> k \<le> n + int m"
        then obtain m zs where m: "f # fs = replicate m True @ zs" "k \<le> n + int m" by blast
        then obtain m' where "m = Suc m'" using Cons.prems by (cases m) auto
        then show "\<exists>m zs. fs = replicate m True @ zs \<and> k \<le> n + 1 + int m"
          using m by (intro exI [of _ m'] exI [of _ zs]) simp
      next
        assume "\<exists>m zs. fs = replicate m True @ zs \<and> k \<le> n + 1 + int m"
        then obtain m zs where m: "fs = replicate m True @ zs" "k \<le> n + 1 + int m" by blast
        then show "\<exists>m zs. f # fs = replicate m True @ zs \<and> k \<le> n + int m"
          using True by (intro exI [of _ "Suc m"] exI [of _ zs]) simp
      qed
      moreover have "(\<exists>xs m zs. f # fs = xs @ False # replicate m True @ zs \<and> k \<le> int m) \<longleftrightarrow>
          (\<exists>xs m zs. fs = xs @ False # replicate m True @ zs \<and> k \<le> int m)"
        using True by (auto simp: Cons_eq_append_conv)
      ultimately show ?thesis using Cons.IH [of "n + 1"] Cons.prems True gt by simp
    qed
  qed
qed

text \<open>While open, nothing passes before the timeout has elapsed; then a probe does.\<close>

lemma allowRequest_open:
  assumes "cb_state cb = CircuitOpen"
  shows "snd (allowRequest b now cb) \<longleftrightarrow> cc_Timeout (cb_config cb) \<le> time_sub now (cb_lastFailureTime cb)"
    and "\<not> snd (allowRequest b now cb) \<Longrightarrow> fst (allowRequest b now cb) = cb"
  using assms by (auto simp: allowRequest_def)

lemma Call_rejected:
  assumes "cb_state cb = CircuitOpen" and "time_sub now (cb_lastFailureTime cb) < cc_Timeout (cb_config cb)"
  shows "Call b now now' fn cb = (cb, Some circuitOpenError, False)"
  using assms by (simp add: Call_def allowRequest_def)

text \<open>Half open: one failure reopens, successes in a row up to the threshold close.\<close>

lemma recordResult_half_open_failure:
  assumes "cb_state cb = CircuitHalfOpen" and "atomic cb" and "isFailureOf cb err"
  shows "cb_state (recordResult b now err cb) = CircuitOpen \<and> cb_lastFailureTime (recordResult b now err cb) = now"
  using assms by (simp add: recordResult_def setState_atomic)

lemma records_half_open_successes:
  assumes "cb_state cb = CircuitHalfOpen" and "atomic cb" and "wf_breaker cb"
    and "\<forall>(now, err)\<in>set rs. \<not> isFailureOf cb err"
    and "int (length rs) \<le> cc_SuccessThreshold (cb_config cb) - cb_consecutiveSuccesses cb"
  shows "cb_state (records b rs cb) =
    (if int (length rs) = cc_SuccessThreshold (cb_config cb) - cb_consecutiveSuccesses cb
     then CircuitClosed else CircuitHalfOpen)"
  using assms
proof (induction rs arbitrary: cb)
  case Nil
  then show ?case by (auto simp: wf_breaker_def)
next
  case (Cons r rs)
  obtain now err where r: "r = (now, err)" by fastforce
  let ?cb = "recordResult b now err cb"
  have cfg: "cb_config ?cb = cb_config cb" by (rule recordResult_config [OF Cons.prems(2)])
  have at: "atomic ?cb" using Cons.prems(2) cfg by (simp add: atomic_def)
  have ok: "\<not> isFailureOf cb err" using Cons.prems(4) by (simp add: r)
  show ?case
  proof (cases "cb_consecutiveSuccesses cb + 1 = cc_SuccessThreshold (cb_config cb)")
    case True
    then have "int (length rs) \<le> 0" using Cons.prems(5) [unfolded length_Cons of_nat_Suc] by linarith
    then have "rs = []" by simp
    then show ?thesis using True ok Cons.prems(1,2) by (simp add: r recordResult_def setState_atomic Let_def)
  next
    case False
    then have "cb_state ?cb = CircuitHalfOpen \<and> cb_consecutiveSuccesses ?cb = cb_consecutiveSuccesses cb + 1"
      using ok Cons.prems by (auto simp: recordResult_def setState_atomic Let_def wf_breaker_def)
    then show ?thesis
      using Cons.IH [OF _ at wf_recordResult [OF Cons.prems(3,2)]] Cons.prems(4,5)
      by (simp add: r cfg isFailureOf_cong [OF cfg])
  qed
qed

section \<open>The interceptor\<close>

text \<open>A rejected call never reaches the next handler; an accepted one returns what it returns.\<close>

lemma CircuitBreakerInterceptor_result:
  "snd (CircuitBreakerInterceptor b now now' nxt cb) =
     (if snd (allowRequest b now cb) then snd (nxt (fst (allowRequest b now cb)))
      else (None, Some circuitOpenError))"
  by (auto simp: CircuitBreakerInterceptor_def Call_def Let_def split: prod.splits bool.splits)

section \<open>Properties\<close>

lemma trailing_trues: "\<exists>ys j. xs = ys @ replicate j True \<and> (ys = [] \<or> (\<exists>zs. ys = zs @ [False]))"
proof (induction xs rule: rev_induct)
  case (snoc x xs)
  then obtain ys j where ys: "xs = ys @ replicate j True" "ys = [] \<or> (\<exists>zs. ys = zs @ [False])" by blast
  show ?case
  proof (cases x)
    case True
    then have "xs @ [x] = ys @ replicate (Suc j) True" using ys(1) by (simp add: replicate_append_same)
    then show ?thesis using ys(2) by blast
  next
    case False
    then have "xs @ [x] = (xs @ [False]) @ replicate 0 True" by simp
    then show ?thesis by blast
  qed
qed simp

lemma reaches_block:
  assumes "0 < k"
  shows "reaches k 0 fs \<longleftrightarrow> (\<exists>xs zs. fs = xs @ replicate (nat k) True @ zs)"
proof
  assume "reaches k 0 fs"
  then consider m zs where "fs = replicate m True @ zs" "k \<le> int m"
    | xs m zs where "fs = xs @ False # replicate m True @ zs" "k \<le> int m"
    using reaches_iff [OF assms, of 0 fs] assms by auto
  then show "\<exists>xs zs. fs = xs @ replicate (nat k) True @ zs"
  proof cases
    case 1
    then have "replicate m True = replicate (nat k) True @ replicate (m - nat k) True"
      by (simp add: replicate_add [symmetric] nat_le_iff)
    then have "fs = [] @ replicate (nat k) True @ (replicate (m - nat k) True @ zs)" using 1 by simp
    then show ?thesis by blast
  next
    case 2
    then have "replicate m True = replicate (nat k) True @ replicate (m - nat k) True"
      by (simp add: replicate_add [symmetric] nat_le_iff)
    then have "fs = (xs @ [False]) @ replicate (nat k) True @ (replicate (m - nat k) True @ zs)" using 2 by simp
    then show ?thesis by blast
  qed
next
  assume "\<exists>xs zs. fs = xs @ replicate (nat k) True @ zs"
  then obtain xs zs where fs: "fs = xs @ replicate (nat k) True @ zs" by blast
  obtain ys j where ys: "xs = ys @ replicate j True" "ys = [] \<or> (\<exists>zs. ys = zs @ [False])"
    using trailing_trues by blast
  have "fs = ys @ replicate (j + nat k) True @ zs" by (simp add: fs ys(1) replicate_add)
  moreover have "k \<le> 0 + int (j + nat k)" "k \<le> int (j + nat k)" using assms by simp_all
  ultimately have "(\<exists>m zs. fs = replicate m True @ zs \<and> k \<le> 0 + int m) \<or>
      (\<exists>xs m zs. fs = xs @ False # replicate m True @ zs \<and> k \<le> int m)"
    using ys(2)
  proof (elim disjE exE)
    assume f: "fs = ys @ replicate (j + nat k) True @ zs" "k \<le> 0 + int (j + nat k)" "ys = []"
    then show ?thesis by (intro disjI1 exI [of _ "j + nat k"] exI [of _ zs]) simp
  next
    fix us
    assume f: "fs = ys @ replicate (j + nat k) True @ zs" "k \<le> int (j + nat k)" "ys = us @ [False]"
    then show ?thesis by (intro disjI2 exI [of _ us] exI [of _ "j + nat k"] exI [of _ zs]) simp
  qed
  then show "reaches k 0 fs" using reaches_iff [OF assms, of 0 fs] assms by simp
qed

text \<open>C24. A new circuit breaker (with no callback) that records the results of calls is open
  exactly when, somewhere among them, as many failures as the threshold came in a row; fewer in a
  row, however many in total, leave it closed.\<close>
theorem circuit_opens_iff:
  fixes config zero b
  defines "cb \<equiv> NewCircuitBreaker zero config"
  assumes "\<not> cc_OnStateChange config"
  shows "cb_state (fold (\<lambda>(now, err) cb. recordResult b now err cb) rs cb) = CircuitOpen \<longleftrightarrow>
    (\<exists>xs zs. map (\<lambda>(now, err). isFailureOf cb err) rs =
       xs @ replicate (nat (cc_FailureThreshold (cb_config cb))) True @ zs)"
proof -
  have cb: "cb_state cb = CircuitClosed" "cb_consecutiveFailures cb = 0" "atomic cb"
    using atomic_NewCircuitBreaker [OF assms(2), of zero] by (simp_all add: cb_def NewCircuitBreaker_def Let_def)
  have "wf_breaker cb" unfolding cb_def by (rule wf_NewCircuitBreaker)
  then have pos: "0 < cc_FailureThreshold (cb_config cb)" by (simp add: wf_breaker_def wf_config_def)
  show ?thesis
    using records_closed [OF cb(1,3), of b rs] by (simp add: records_def cb(2) reaches_block [OF pos])
qed

lemma circuit_opens_iff_witness:
  "cb_state (fold (\<lambda>(now, err) cb. recordResult id now err cb)
      (replicate 5 (1, Some (ConnectError CodeUnavailable ''down''))) (NewCircuitBreaker 0 DefaultCircuitBreakerConfig)) = CircuitOpen"
proof -
  have "\<not> cc_OnStateChange DefaultCircuitBreakerConfig" by (simp add: DefaultCircuitBreakerConfig_def)
  moreover have "map (\<lambda>(now, err). isFailureOf (NewCircuitBreaker 0 DefaultCircuitBreakerConfig) err)
      (replicate 5 (1, Some (ConnectError CodeUnavailable ''down''))) =
    [] @ replicate (nat (cc_FailureThreshold (cb_config (NewCircuitBreaker 0 DefaultCircuitBreakerConfig)))) True @ []"
    by (simp add: NewCircuitBreaker_def Let_def DefaultCircuitBreakerConfig_def isFailureOf_def defaultIsFailure_def CodeOf_def)
  ultimately show ?thesis using circuit_opens_iff by blast
qed

text \<open>C36. The way back of an open circuit (with no callback): a call before the timeout since the last
  failure is rejected without reaching the function and changes nothing; the first one after it is
  let through half open; there one failure opens it again, and it closes with the last of as many
  successes as the threshold, not before.\<close>
theorem circuit_recovery:
  assumes "wf_breaker cb" and "atomic cb" and "cb_state cb = CircuitOpen"
  shows "if time_sub now (cb_lastFailureTime cb) < cc_Timeout (cb_config cb)
    then Call b now now' fn cb = (cb, Some circuitOpenError, False)
    else \<exists>half. allowRequest b now cb = (half, True) \<and> cb_state half = CircuitHalfOpen \<and>
      (\<forall>t err. isFailureOf half err \<longrightarrow> cb_state (recordResult b t err half) = CircuitOpen \<and>
                 cb_lastFailureTime (recordResult b t err half) = t) \<and>
      (\<forall>rs. (\<forall>(t, err)\<in>set rs. \<not> isFailureOf half err) \<longrightarrow>
         int (length rs) \<le> cc_SuccessThreshold (cb_config cb) \<longrightarrow>
         cb_state (fold (\<lambda>(t, err) cb. recordResult b t err cb) rs half) =
           (if int (length rs) = cc_SuccessThreshold (cb_config cb) then CircuitClosed else CircuitHalfOpen))"
proof (cases "time_sub now (cb_lastFailureTime cb) < cc_Timeout (cb_config cb)")
  case True
  then show ?thesis using Call_rejected [OF assms(3) True] by simp
next
  case False
  let ?half = "fst (allowRequest b now cb)"
  have half: "?half = cb\<lparr>cb_state := CircuitHalfOpen, cb_consecutiveSuccesses := 0, cb_consecutiveFailures := 0\<rparr>"
    "snd (allowRequest b now cb)"
    using False assms(2,3) by (auto simp: allowRequest_def setState_atomic)
  have st: "cb_state ?half = CircuitHalfOpen" "cb_consecutiveSuccesses ?half = 0" "cb_config ?half = cb_config cb"
    by (simp_all add: half(1))
  have at: "atomic ?half" using assms(2) by (simp add: half(1) atomic_def)
  have wf: "wf_breaker ?half" by (rule wf_allowRequest [OF assms(1,2)])
  have "cb_state (fold (\<lambda>(t, err) cb. recordResult b t err cb) rs ?half) =
      (if int (length rs) = cc_SuccessThreshold (cb_config cb) then CircuitClosed else CircuitHalfOpen)"
    if "\<forall>(t, err)\<in>set rs. \<not> isFailureOf ?half err" "int (length rs) \<le> cc_SuccessThreshold (cb_config cb)" for rs
    using records_half_open_successes [OF st(1) at wf that(1), of b] that(2) by (simp add: records_def st)
  moreover have "cb_state (recordResult b t err ?half) = CircuitOpen \<and> cb_lastFailureTime (recordResult b t err ?half) = t"
    if "isFailureOf ?half err" for t err
    by (rule recordResult_half_open_failure [OF st(1) at that])
  ultimately show ?thesis
    using False half(2) st(1) by (intro if_not_P [THEN iffD2] exI [of _ ?half]) (auto simp: prod_eq_iff)
qed

lemma circuit_recovery_witness:
  "\<exists>cb. cb_state cb = CircuitOpen \<and>
     Call id 2 3 (\<lambda>cb. (cb, None)) cb = (cb, Some circuitOpenError, False)"
proof -
  let ?cb = "(NewCircuitBreaker 0 DefaultCircuitBreakerConfig)\<lparr>cb_state := CircuitOpen, cb_lastFailureTime := 1, cb_consecutiveFailures := 5\<rparr>"
  have "wf_breaker ?cb" "atomic ?cb"
    by (auto simp: wf_breaker_def wf_config_def atomic_def NewCircuitBreaker_def Let_def DefaultCircuitBreakerConfig_def time_defs)
  from circuit_recovery [OF this, of 2 id 3 "\<lambda>cb. (cb, None)"] show ?thesis
    by (intro exI [of _ ?cb]) (simp add: NewCircuitBreaker_def Let_def DefaultCircuitBreakerConfig_def time_defs time_sub_def
        max_duration_def min_duration_def)
qed

end
