(* ===== verification/Float64.thy ===== *)
theory Float64
  imports GoRuntime Complex_Main "HOL-Library.Log_Nat"
begin

text \<open>
  The \<open>float64\<close> arithmetic of the retry and rate-limit sources: a finite value is a rational
  number, and every operation rounds its exact result to 53 significant bits, ties to even.
  The exponent is unbounded: the values of these sources (seconds, tokens, nanoseconds of a
  backoff) stay between \<open>2^-1022\<close> and \<open>2^1024\<close>, and the one operation that can leave that range,
  \<open>math.Pow\<close>, is an argument of its user.
\<close>

type_synonym float64 = rat

section \<open>Rounding\<close>

definition round_even :: "rat \<Rightarrow> int" where
  "round_even x =
     (let f = \<lfloor>x\<rfloor>; d = x - of_int f
      in if d < 1 / 2 then f else if 1 / 2 < d then f + 1 else if even f then f else f + 1)"

text \<open>The exponent of a positive number: \<open>2^e \<le> x < 2^(e+1)\<close>.\<close>

definition binexp :: "rat \<Rightarrow> int" where
  "binexp x =
     (let (p, q) = quotient_of x; e = bitlen p - bitlen q
      in if 2 powi e \<le> x then e else e - 1)"

definition round_pos :: "rat \<Rightarrow> float64" where
  "round_pos x = (let e = binexp x in of_int (round_even (x * 2 powi (52 - e))) * 2 powi (e - 52))"

definition round53 :: "rat \<Rightarrow> float64" where
  "round53 x = (if x = 0 then 0 else if 0 < x then round_pos x else - round_pos (- x))"

definition f_add :: "float64 \<Rightarrow> float64 \<Rightarrow> float64" where "f_add x y = round53 (x + y)"
definition f_sub :: "float64 \<Rightarrow> float64 \<Rightarrow> float64" where "f_sub x y = round53 (x - y)"
definition f_mul :: "float64 \<Rightarrow> float64 \<Rightarrow> float64" where "f_mul x y = round53 (x * y)"
definition f_div :: "float64 \<Rightarrow> float64 \<Rightarrow> float64" where "f_div x y = round53 (x / y)"
definition f_of_int :: "int \<Rightarrow> float64" where "f_of_int i = round53 (of_int i)"

text \<open>\<open>time.Duration(f)\<close> truncates; \<open>d.Seconds()\<close> adds the whole seconds and the fraction.\<close>

definition f_trunc :: "float64 \<Rightarrow> int" where
  "f_trunc x = (if 0 \<le> x then \<lfloor>x\<rfloor> else - \<lfloor>- x\<rfloor>)"

definition tdiv :: "int \<Rightarrow> int \<Rightarrow> int" where
  "tdiv a b = sgn a * (\<bar>a\<bar> div b)"

definition Seconds :: "duration \<Rightarrow> float64" where
  "Seconds d = f_add (f_of_int (tdiv d Second)) (f_div (f_of_int (d - tdiv d Second * Second)) (f_of_int 1000000000))"

lemmas f_defs = f_add_def f_sub_def f_mul_def f_div_def f_of_int_def

section \<open>Rounding to an integer\<close>

lemma round_even_of_int [simp]: "round_even (of_int i) = i"
  by (simp add: round_even_def)

lemma round_even_bounds: "\<lfloor>x\<rfloor> \<le> round_even x" "round_even x \<le> \<lfloor>x\<rfloor> + 1"
  by (auto simp: round_even_def Let_def)

lemma round_even_mono:
  assumes "x \<le> y"
  shows "round_even x \<le> round_even y"
proof (cases "\<lfloor>x\<rfloor> = \<lfloor>y\<rfloor>")
  case True
  then show ?thesis using assms by (auto simp: round_even_def Let_def)
next
  case False
  then have "\<lfloor>x\<rfloor> + 1 \<le> \<lfloor>y\<rfloor>" using floor_mono [OF assms] by simp
  then show ?thesis using round_even_bounds [of x] round_even_bounds [of y] by linarith
qed

lemma round_even_ge: "of_int i \<le> x \<Longrightarrow> i \<le> round_even x"
  using round_even_mono [of "of_int i" x] by simp

lemma round_even_le: "x \<le> of_int i \<Longrightarrow> round_even x \<le> i"
  using round_even_mono [of x "of_int i"] by simp

section \<open>The exponent\<close>

lemma powi_mono: "i \<le> j \<Longrightarrow> (2::rat) powi i \<le> 2 powi j"
  by (rule power_int_increasing) auto

lemma powi_pos [simp]: "0 < (2::rat) powi i"
  by simp

lemma powi_add2: "(2::rat) powi i * 2 powi j = 2 powi (i + j)"
  by (simp add: power_int_add)

lemma bitlen_powi:
  assumes p: "0 < p"
  shows "(2::rat) powi (bitlen p - 1) \<le> of_int p" and "of_int p < (2::rat) powi (bitlen p)"
proof -
  have len: "1 \<le> bitlen p"
    using bitlen_nonneg [of p] bitlen_eq_zero_iff [of p] p by linarith
  then have "(2::rat) powi (bitlen p - 1) = of_int (2 ^ nat (bitlen p - 1))"
    and "(2::rat) powi (bitlen p) = of_int (2 ^ nat (bitlen p))"
    by (simp_all add: power_int_def)
  then show "(2::rat) powi (bitlen p - 1) \<le> of_int p" and "of_int p < (2::rat) powi (bitlen p)"
    using bitlen_bounds [OF p] by (simp_all only: of_int_le_iff of_int_less_iff)
qed

lemma binexp_bounds:
  assumes "0 < x"
  shows "2 powi binexp x \<le> x" and "x < 2 powi (binexp x + 1)"
proof -
  obtain p q where pq: "quotient_of x = (p, q)" by fastforce
  have q: "0 < q" by (rule quotient_of_denom_pos [OF pq])
  have x: "x = of_int p / of_int q" by (rule quotient_of_div [OF pq])
  have p: "0 < p" using assms q by (simp add: x zero_less_divide_iff)
  let ?e = "bitlen p - bitlen q" and ?q = "of_int q :: rat"
  have q': "0 < ?q" using q by simp
  have split: "(2::rat) powi (?e + 1) * 2 powi (bitlen q - 1) = 2 powi bitlen p"
    "(2::rat) powi (?e - 1) * 2 powi bitlen q = 2 powi (bitlen p - 1)"
    by (simp_all add: powi_add2)
  have "of_int p < 2 powi (?e + 1) * ?q"
  proof -
    have "of_int p < 2 powi (?e + 1) * (2::rat) powi (bitlen q - 1)"
      using bitlen_powi(2) [OF p] split(1) by simp
    also have "\<dots> \<le> 2 powi (?e + 1) * ?q"
      using bitlen_powi(1) [OF q] by (intro mult_left_mono) simp_all
    finally show ?thesis .
  qed
  then have hi: "x < 2 powi (?e + 1)" using q' by (simp add: x pos_divide_less_eq)
  have "2 powi (?e - 1) * ?q \<le> of_int p"
  proof -
    have "2 powi (?e - 1) * ?q \<le> 2 powi (?e - 1) * (2::rat) powi bitlen q"
      using bitlen_powi(2) [OF q] by (intro mult_left_mono) simp_all
    also have "\<dots> \<le> of_int p" using bitlen_powi(1) [OF p] split(2) by simp
    finally show ?thesis .
  qed
  then have lo: "2 powi (?e - 1) \<le> x" using q' by (simp add: x pos_le_divide_eq)
  show "2 powi binexp x \<le> x" "x < 2 powi (binexp x + 1)"
    using hi lo by (auto simp: binexp_def pq Let_def)
qed

lemma binexp_unique:
  assumes "0 < x" and "2 powi e \<le> x" and "x < 2 powi (e + 1)"
  shows "binexp x = e"
proof -
  have "\<not> binexp x < e"
  proof
    assume "binexp x < e"
    then have "(2::rat) powi (binexp x + 1) \<le> 2 powi e" by (intro powi_mono) simp
    then show False using binexp_bounds(2) [OF assms(1)] assms(2) by simp
  qed
  moreover have "\<not> e < binexp x"
  proof
    assume "e < binexp x"
    then have "(2::rat) powi (e + 1) \<le> 2 powi binexp x" by (intro powi_mono) simp
    then show False using binexp_bounds(1) [OF assms(1)] assms(3) by simp
  qed
  ultimately show ?thesis by simp
qed

section \<open>Properties of rounding\<close>

text \<open>Rounding stays between the powers of two around the number.\<close>

lemma round_pos_bounds:
  assumes "0 < x"
  shows "2 powi binexp x \<le> round_pos x" and "round_pos x \<le> 2 powi (binexp x + 1)"
proof -
  let ?e = "binexp x" and ?m = "round_even (x * 2 powi (52 - binexp x))"
  note b = binexp_bounds [OF assms]
  have "of_int (2 ^ 52) \<le> x * 2 powi (52 - ?e)"
  proof -
    have "(2::rat) powi ?e * 2 powi (52 - ?e) \<le> x * 2 powi (52 - ?e)"
      using b(1) by (intro mult_right_mono) simp_all
    then show ?thesis by (simp add: powi_add2)
  qed
  then have lo: "2 ^ 52 \<le> ?m" by (rule round_even_ge)
  have "x * 2 powi (52 - ?e) \<le> of_int (2 ^ 53)"
  proof -
    have "x * 2 powi (52 - ?e) \<le> (2::rat) powi (?e + 1) * 2 powi (52 - ?e)"
      using b(2) by (intro mult_right_mono) simp_all
    then show ?thesis by (simp add: powi_add2)
  qed
  then have hi: "?m \<le> 2 ^ 53" by (rule round_even_le)
  have r: "round_pos x = of_int ?m * 2 powi (?e - 52)"
    by (simp add: round_pos_def Let_def)
  have "(2::rat) powi ?e = of_int (2 ^ 52) * 2 powi (?e - 52)"
    using powi_add2 [of 52 "?e - 52"] by simp
  also have "\<dots> \<le> of_int ?m * 2 powi (?e - 52)"
    using lo by (intro mult_right_mono) (simp_all only: of_int_le_iff powi_pos less_imp_le)
  finally show "2 powi ?e \<le> round_pos x" by (simp only: r)
  have "of_int ?m * 2 powi (?e - 52) \<le> of_int (2 ^ 53) * (2::rat) powi (?e - 52)"
    using hi by (intro mult_right_mono) (simp_all only: of_int_le_iff powi_pos less_imp_le)
  also have "\<dots> = 2 powi (?e + 1)" using powi_add2 [of 53 "?e - 52"] by (simp add: add.commute)
  finally show "round_pos x \<le> 2 powi (?e + 1)" by (simp only: r)
qed

lemma round_pos_mono:
  assumes "0 < x" and "x \<le> y"
  shows "round_pos x \<le> round_pos y"
proof (cases "binexp x = binexp y")
  case True
  have "x * 2 powi (52 - binexp y) \<le> y * 2 powi (52 - binexp y)"
    using assms(2) by (intro mult_right_mono) simp_all
  then have "of_int (round_even (x * 2 powi (52 - binexp y))) \<le> (of_int (round_even (y * 2 powi (52 - binexp y))) :: rat)"
    by (simp only: of_int_le_iff round_even_mono)
  then show ?thesis
    unfolding round_pos_def Let_def True by (intro mult_right_mono) simp_all
next
  case False
  have y: "0 < y" using assms by simp
  have "binexp x < binexp y"
  proof (rule ccontr)
    assume "\<not> binexp x < binexp y"
    then have "(2::rat) powi (binexp y + 1) \<le> 2 powi binexp x" using False by (intro powi_mono) simp
    then show False using binexp_bounds(1) [OF assms(1)] binexp_bounds(2) [OF y] assms(2) by simp
  qed
  then have "(2::rat) powi (binexp x + 1) \<le> 2 powi binexp y" by (intro powi_mono) simp
  then show ?thesis using round_pos_bounds(2) [OF assms(1)] round_pos_bounds(1) [OF y] by simp
qed

lemma round_pos_pos: "0 < x \<Longrightarrow> 0 < round_pos x"
  using round_pos_bounds(1) [of x] powi_pos [of "binexp x"] by linarith

lemma round53_0 [simp]: "round53 0 = 0"
  by (simp add: round53_def)

lemma round53_nonneg: "0 \<le> x \<Longrightarrow> 0 \<le> round53 x"
  using round_pos_pos [of x] by (auto simp: round53_def)

lemma round53_mono: "x \<le> y \<Longrightarrow> round53 x \<le> round53 y"
  using round_pos_mono [of x y] round_pos_mono [of "- y" "- x"] round_pos_pos [of "- x"] round_pos_pos [of y]
  by (auto simp: round53_def)

text \<open>A number whose 53-bit mantissa is an integer is not changed.\<close>

lemma round_pos_exact:
  assumes "x * 2 powi (52 - binexp x) = of_int m"
  shows "round_pos x = x"
proof -
  have "round_pos x = of_int m * 2 powi (binexp x - 52)"
    by (simp add: round_pos_def Let_def assms)
  also have "\<dots> = x * (2 powi (52 - binexp x) * 2 powi (binexp x - 52))"
    by (simp only: assms [symmetric] mult.assoc)
  also have "\<dots> = x" by (simp add: powi_add2)
  finally show ?thesis .
qed

lemma round_pos_idem:
  assumes "0 < x"
  shows "round_pos (round_pos x) = round_pos x"
proof -
  let ?r = "round_pos x" and ?m = "round_even (x * 2 powi (52 - binexp x))"
  have r: "?r = of_int ?m * 2 powi (binexp x - 52)" by (simp add: round_pos_def Let_def)
  show ?thesis
  proof (cases "?r < 2 powi (binexp x + 1)")
    case True
    then have e: "binexp ?r = binexp x"
      using round_pos_pos [OF assms] round_pos_bounds(1) [OF assms] by (intro binexp_unique)
    have "?r * 2 powi (52 - binexp ?r) = of_int ?m * (2 powi (binexp x - 52) * 2 powi (52 - binexp x))"
      unfolding e by (simp only: r mult.assoc)
    also have "\<dots> = of_int ?m" by (simp add: powi_add2)
    finally show ?thesis by (rule round_pos_exact)
  next
    case False
    then have p: "?r = 2 powi (binexp x + 1)" using round_pos_bounds(2) [OF assms] by simp
    have "(2::rat) powi (binexp x + 1) < 2 powi (binexp x + 1 + 1)"
      by (intro power_int_strict_increasing) simp_all
    then have e: "binexp ?r = binexp x + 1"
      unfolding p by (intro binexp_unique) simp_all
    have "?r * 2 powi (52 - binexp ?r) = of_int (2 ^ 52)"
      unfolding e unfolding p powi_add2 by simp
    then show ?thesis by (rule round_pos_exact)
  qed
qed

lemma round53_idem: "round53 (round53 x) = round53 x"
  using round_pos_idem [of x] round_pos_idem [of "- x"] round_pos_pos [of x] round_pos_pos [of "- x"]
  by (auto simp: round53_def)

text \<open>Integers below \<open>2^53\<close> are exact.\<close>

lemma round_pos_of_int:
  assumes "0 < i" and "i < 2 ^ 53"
  shows "round_pos (of_int i) = of_int i"
proof -
  let ?e = "binexp (of_int i)"
  have "?e < 53"
  proof (rule ccontr)
    assume "\<not> ?e < 53"
    then have "(2::rat) powi 53 \<le> 2 powi ?e" by (intro powi_mono) simp
    also have "\<dots> \<le> of_int i" using assms(1) by (intro binexp_bounds) simp
    finally have "of_int (2 ^ 53) \<le> (of_int i :: rat)" by simp
    then show False using assms(2) by (simp only: of_int_le_iff)
  qed
  then have "of_int i * (2::rat) powi (52 - ?e) = of_int (i * 2 ^ nat (52 - ?e))"
    by (simp add: power_int_def)
  then show ?thesis by (rule round_pos_exact)
qed

lemma f_of_int_exact: "\<bar>i\<bar> < 2 ^ 53 \<Longrightarrow> f_of_int i = of_int i"
  using round_pos_of_int [of i] round_pos_of_int [of "- i"]
  by (auto simp: f_of_int_def round53_def)

lemma round53_of_int: "\<bar>i\<bar> < 2 ^ 53 \<Longrightarrow> round53 (of_int i) = of_int i"
  using f_of_int_exact by (simp add: f_of_int_def)

lemma round53_1 [simp]: "round53 1 = 1"
  using round53_of_int [of 1] by simp

lemma f_of_int_mono: "i \<le> j \<Longrightarrow> f_of_int i \<le> f_of_int j"
  by (simp add: f_of_int_def round53_mono)

lemma f_of_int_nonneg: "0 \<le> i \<Longrightarrow> 0 \<le> f_of_int i"
  by (simp add: f_of_int_def round53_nonneg)

lemma round53_f_of_int [simp]: "round53 (f_of_int i) = f_of_int i"
  by (simp add: f_of_int_def round53_idem)

section \<open>Seconds\<close>

lemma Seconds_nonneg:
  assumes "0 \<le> d"
  shows "0 \<le> Seconds d"
proof -
  have t: "tdiv d Second = d div Second" using assms by (cases "d = 0") (simp_all add: tdiv_def)
  have "0 \<le> d div Second" "0 \<le> d - d div Second * Second"
    using assms by (simp_all add: Second_def pos_imp_zdiv_nonneg_iff minus_div_mult_eq_mod)
  then show ?thesis
    unfolding Seconds_def t f_add_def f_div_def
    by (intro round53_nonneg add_nonneg_nonneg divide_nonneg_nonneg f_of_int_nonneg) simp_all
qed

lemma Seconds_0 [simp]: "Seconds 0 = 0"
  by (simp add: Seconds_def tdiv_def f_defs)

end
