(* ===== verification/Retry.thy ===== *)
theory Retry
  imports Float64
begin

text \<open>
  Retries with exponential backoff, \<^verbatim>\<open>retry.go\<close>: which errors are retryable, the delay before
  each attempt, and the loop of the interceptor. \<open>pow\<close> is \<open>math.Pow\<close>, whose last bits the
  documentation leaves open: the theorems use that it is not negative on the policy's
  multiplier. A power beyond \<open>2^1024\<close> is its unbounded value here and \<open>+Inf\<close> in Go, and both
  are cut to the maximal backoff by the next test.
\<close>

section \<open>Data\<close>

record RetryPolicy =
  rp_MaxAttempts :: int
  rp_InitialBackoff :: duration
  rp_MaxBackoff :: duration
  rp_BackoffMultiplier :: float64
  rp_Jitter :: bool
  rp_IsRetryable :: "(rpc_error option \<Rightarrow> bool) option"

definition defaultIsRetryable :: "rpc_error option \<Rightarrow> bool" where
  "defaultIsRetryable err =
     (case err of
        None \<Rightarrow> False
      | Some e \<Rightarrow>
          (case CodeOf e of
             CodeUnavailable \<Rightarrow> True | CodeResourceExhausted \<Rightarrow> True | CodeInternal \<Rightarrow> True
           | CodeUnknown \<Rightarrow> True | CodeDeadlineExceeded \<Rightarrow> True
           | CodeCanceled \<Rightarrow> False | CodeInvalidArgument \<Rightarrow> False | CodeNotFound \<Rightarrow> False
           | CodeAlreadyExists \<Rightarrow> False | CodePermissionDenied \<Rightarrow> False | CodeUnauthenticated \<Rightarrow> False
           | CodeFailedPrecondition \<Rightarrow> False | CodeAborted \<Rightarrow> False | CodeOutOfRange \<Rightarrow> False
           | CodeUnimplemented \<Rightarrow> False | CodeDataLoss \<Rightarrow> False))"

definition DefaultRetryPolicy :: RetryPolicy where
  "DefaultRetryPolicy =
     \<lparr>rp_MaxAttempts = 3, rp_InitialBackoff = 100 * Millisecond, rp_MaxBackoff = 10 * Second,
      rp_BackoffMultiplier = 2, rp_Jitter = True, rp_IsRetryable = Some defaultIsRetryable\<rparr>"

text \<open>The defaults the interceptor fills in.\<close>

definition withRetryDefaults :: "RetryPolicy \<Rightarrow> RetryPolicy" where
  "withRetryDefaults p =
     \<lparr>rp_MaxAttempts = (if rp_MaxAttempts p \<le> 0 then 3 else rp_MaxAttempts p),
      rp_InitialBackoff = (if rp_InitialBackoff p = 0 then 100 * Millisecond else rp_InitialBackoff p),
      rp_MaxBackoff = (if rp_MaxBackoff p = 0 then 10 * Second else rp_MaxBackoff p),
      rp_BackoffMultiplier = (if rp_BackoffMultiplier p = 0 then 2 else rp_BackoffMultiplier p),
      rp_Jitter = rp_Jitter p,
      rp_IsRetryable = (if rp_IsRetryable p = None then Some defaultIsRetryable else rp_IsRetryable p)\<rparr>"

section \<open>The delay\<close>

text \<open>\<open>r\<close> is the draw of \<open>rand.Float64()\<close>, in \<open>[0, 1)\<close>.\<close>

definition calculateBackoff :: "(float64 \<Rightarrow> float64 \<Rightarrow> float64) \<Rightarrow> float64 \<Rightarrow> RetryPolicy \<Rightarrow> int \<Rightarrow> duration" where
  "calculateBackoff pow r p attempt =
     (let backoff = f_mul (f_of_int (rp_InitialBackoff p)) (pow (rp_BackoffMultiplier p) (f_of_int (attempt - 1)));
          backoff = (if backoff > f_of_int (rp_MaxBackoff p) then f_of_int (rp_MaxBackoff p) else backoff);
          backoff = (if rp_Jitter p then f_mul backoff (f_add (1 / 2) (f_mul r (1 / 2))) else backoff)
      in f_trunc backoff)"

lemma binexp_half: "binexp (1 / 2) = -1"
  by (rule binexp_unique) (simp_all add: power_int_def)

lemma round53_half: "round53 (1 / 2) = 1 / 2"
proof -
  have "(1 / 2 :: rat) * 2 powi (52 - binexp (1 / 2)) = of_int (2 ^ 52)"
    unfolding binexp_half by (simp add: power_int_def)
  then have "round_pos (1 / 2) = 1 / 2" by (rule round_pos_exact)
  then show ?thesis by (simp add: round53_def)
qed

lemma jitter_factor:
  assumes "0 \<le> r" and "r < 1"
  shows "1 / 2 \<le> f_add (1 / 2) (f_mul r (1 / 2))" and "f_add (1 / 2) (f_mul r (1 / 2)) \<le> 1"
proof -
  have m: "0 \<le> f_mul r (1 / 2)" "f_mul r (1 / 2) \<le> 1 / 2"
    using assms round53_nonneg [of "r * (1 / 2)"] round53_mono [of "r * (1 / 2)" "1 / 2"]
    by (simp_all add: f_mul_def round53_half)
  show "1 / 2 \<le> f_add (1 / 2) (f_mul r (1 / 2))"
    using round53_mono [of "1 / 2" "1 / 2 + f_mul r (1 / 2)"] m(1) by (simp add: f_add_def round53_half)
  show "f_add (1 / 2) (f_mul r (1 / 2)) \<le> 1"
    using round53_mono [of "1 / 2 + f_mul r (1 / 2)" 1] m(2) by (simp add: f_add_def)
qed

lemma f_trunc_bounds: "0 \<le> x \<Longrightarrow> x \<le> of_int i \<Longrightarrow> 0 \<le> f_trunc x \<and> f_trunc x \<le> i"
  by (simp add: f_trunc_def floor_le_iff)

text \<open>The delay is never negative and never above the maximal backoff.\<close>

lemma calculateBackoff_bounds:
  assumes "0 \<le> rp_InitialBackoff p" and "0 \<le> rp_MaxBackoff p" and "rp_MaxBackoff p < 2 ^ 53"
    and "0 \<le> pow (rp_BackoffMultiplier p) (f_of_int (attempt - 1))" and "0 \<le> r" and "r < 1"
  shows "0 \<le> calculateBackoff pow r p attempt \<and> calculateBackoff pow r p attempt \<le> rp_MaxBackoff p"
proof -
  let ?x = "f_mul (f_of_int (rp_InitialBackoff p)) (pow (rp_BackoffMultiplier p) (f_of_int (attempt - 1)))"
  let ?m = "f_of_int (rp_MaxBackoff p)"
  define b where "b = (if ?x > ?m then ?m else ?x)"
  have x: "0 \<le> ?x" using assms(1,4) unfolding f_mul_def
    by (intro round53_nonneg mult_nonneg_nonneg f_of_int_nonneg)
  have b: "0 \<le> b" "b \<le> ?m" using x assms(2) f_of_int_nonneg by (auto simp: b_def)
  have rb: "round53 b = b" by (simp add: b_def f_mul_def round53_idem)
  have m: "?m = of_int (rp_MaxBackoff p)" using assms(2,3) by (intro f_of_int_exact) simp
  let ?j = "f_add (1 / 2) (f_mul r (1 / 2))"
  note j = jitter_factor [OF assms(5,6)]
  have "b * ?j \<le> b" using b(1) j(2) by (simp add: mult_left_le)
  then have jb: "f_mul b ?j \<le> b" using round53_mono [of "b * ?j" b] rb by (simp add: f_mul_def)
  have "0 \<le> f_mul b ?j" using b(1) j(1) by (simp add: f_mul_def round53_nonneg)
  moreover have "calculateBackoff pow r p attempt = f_trunc (if rp_Jitter p then f_mul b ?j else b)"
    by (simp add: calculateBackoff_def Let_def b_def)
  ultimately show ?thesis
    using b jb m f_trunc_bounds [of b "rp_MaxBackoff p"] f_trunc_bounds [of "f_mul b ?j" "rp_MaxBackoff p"]
    by simp
qed

section \<open>The loop\<close>

text \<open>
  The outcome of the wrapped call: Go's pair of response and error; and what happened: the
  number of attempts and the delays slept. \<open>ctxErr i\<close> is the context's error before attempt
  \<open>i\<close>, \<open>nxt i\<close> the result of attempt \<open>i\<close>, \<open>cancelled i\<close> whether the context is done before the
  delay after it is over, \<open>draw i\<close> the random number of that delay.
\<close>

record 'r retry_outcome =
  ro_resp :: "'r option"
  ro_err :: "rpc_error option"
  ro_attempts :: nat
  ro_delays :: "duration list"

record 'r retry_world =
  rw_pow :: "float64 \<Rightarrow> float64 \<Rightarrow> float64"
  rw_ctxErr :: "int \<Rightarrow> rpc_error option"
  rw_next :: "int \<Rightarrow> 'r + rpc_error"
  rw_cancelled :: "int \<Rightarrow> bool"
  rw_draw :: "int \<Rightarrow> float64"

definition isRetryable :: "RetryPolicy \<Rightarrow> rpc_error option \<Rightarrow> bool" where
  "isRetryable p err = (case rp_IsRetryable p of None \<Rightarrow> False | Some f \<Rightarrow> f err)"

definition outcome :: "'r option \<Rightarrow> rpc_error option \<Rightarrow> nat \<Rightarrow> duration list \<Rightarrow> 'r retry_outcome" where
  "outcome resp err attempts delays =
     \<lparr>ro_resp = resp, ro_err = err, ro_attempts = attempts, ro_delays = delays\<rparr>"

function retryLoop ::
    "RetryPolicy \<Rightarrow> 'r retry_world \<Rightarrow> int \<Rightarrow> rpc_error option \<Rightarrow> nat \<Rightarrow> duration list \<Rightarrow> 'r retry_outcome" where
  "retryLoop p w attempt lastErr n delays =
     (if \<not> attempt \<le> rp_MaxAttempts p then outcome None lastErr n delays
      else case rw_ctxErr w attempt of
        Some e \<Rightarrow> outcome None (if lastErr \<noteq> None then lastErr else Some e) n delays
      | None \<Rightarrow>
          (case rw_next w attempt of
             Inl resp \<Rightarrow> outcome (Some resp) None (n + 1) delays
           | Inr err \<Rightarrow>
               if \<not> isRetryable p (Some err) then outcome None (Some err) (n + 1) delays
               else if attempt = rp_MaxAttempts p then outcome None (Some err) (n + 1) delays
               else if rw_cancelled w attempt then outcome None (Some err) (n + 1) delays
               else retryLoop p w (attempt + 1) (Some err) (n + 1)
                      (delays @ [calculateBackoff (rw_pow w) (rw_draw w attempt) p attempt])))"
  by pat_completeness auto
termination
  by (relation "measure (\<lambda>(p, w, attempt, _). nat (rp_MaxAttempts p + 1 - attempt))") auto

declare retryLoop.simps [simp del]

definition RetryInterceptor :: "RetryPolicy \<Rightarrow> 'r retry_world \<Rightarrow> 'r retry_outcome" where
  "RetryInterceptor policy w = retryLoop (withRetryDefaults policy) w 1 None 0 []"

section \<open>What the loop does\<close>

lemma outcome_simps [simp]:
  "ro_resp (outcome a b c d) = a" "ro_err (outcome a b c d) = b"
  "ro_attempts (outcome a b c d) = c" "ro_delays (outcome a b c d) = d"
  by (simp_all add: outcome_def)

text \<open>Bounds on the attempts and the delays, whatever happens.\<close>

definition wf_policy :: "RetryPolicy \<Rightarrow> 'r retry_world \<Rightarrow> bool" where
  "wf_policy p w \<longleftrightarrow> 0 \<le> rp_InitialBackoff p \<and> 0 \<le> rp_MaxBackoff p \<and> rp_MaxBackoff p < 2 ^ 53 \<and>
     (\<forall>i. 0 \<le> rw_pow w (rp_BackoffMultiplier p) (f_of_int (i - 1)) \<and> 0 \<le> rw_draw w i \<and> rw_draw w i < 1)"

definition delays_ok :: "RetryPolicy \<Rightarrow> nat \<Rightarrow> duration list \<Rightarrow> bool" where
  "delays_ok p n delays \<longleftrightarrow> length delays \<le> n \<and> (\<forall>d\<in>set delays. 0 \<le> d \<and> d \<le> rp_MaxBackoff p)"

lemma delays_ok_snoc:
  "wf_policy p w \<Longrightarrow> delays_ok p n delays \<Longrightarrow>
   delays_ok p (n + 1) (delays @ [calculateBackoff (rw_pow w) (rw_draw w i) p j])"
  using calculateBackoff_bounds [of p "rw_pow w" j "rw_draw w i"]
  by (auto simp: delays_ok_def wf_policy_def)

lemma delays_ok_Suc: "delays_ok p n delays \<Longrightarrow> delays_ok p (n + 1) delays"
  by (simp add: delays_ok_def)

lemma retryLoop_bounds:
  assumes "wf_policy p w" and "int n + 1 = attempt" and "attempt \<le> rp_MaxAttempts p + 1"
    and "delays_ok p n delays"
  shows "int (ro_attempts (retryLoop p w attempt lastErr n delays)) \<le> rp_MaxAttempts p \<and>
    delays_ok p (ro_attempts (retryLoop p w attempt lastErr n delays)) (ro_delays (retryLoop p w attempt lastErr n delays))"
  using assms
proof (induction p w attempt lastErr n delays rule: retryLoop.induct)
  case (1 p w attempt lastErr n delays)
  consider (over) "\<not> attempt \<le> rp_MaxAttempts p" | (ctx) e where "attempt \<le> rp_MaxAttempts p" "rw_ctxErr w attempt = Some e"
    | (ok) r where "attempt \<le> rp_MaxAttempts p" "rw_ctxErr w attempt = None" "rw_next w attempt = Inl r"
    | (stop) e where "attempt \<le> rp_MaxAttempts p" "rw_ctxErr w attempt = None" "rw_next w attempt = Inr e"
        "\<not> isRetryable p (Some e) \<or> attempt = rp_MaxAttempts p \<or> rw_cancelled w attempt"
    | (again) e where "attempt \<le> rp_MaxAttempts p" "rw_ctxErr w attempt = None" "rw_next w attempt = Inr e"
        "isRetryable p (Some e)" "attempt \<noteq> rp_MaxAttempts p" "\<not> rw_cancelled w attempt"
    by (metis obj_sumE not_None_eq)
  then show ?case
  proof cases
    case again
    then show ?thesis
      using "1.IH" [OF _ again(2,3)] "1.prems" delays_ok_snoc [OF "1.prems"(1,4)]
      by (subst (1 2 3) retryLoop.simps) simp
  qed (use "1.prems" in \<open>auto simp: retryLoop.simps [of p w attempt] dest: delays_ok_Suc\<close>)
qed

text \<open>
  Without a cancellation: the first attempt that succeeds, fails for good or is the last one
  decides, and the delays are those of the attempts before it.
\<close>

definition decides :: "RetryPolicy \<Rightarrow> 'r retry_world \<Rightarrow> int \<Rightarrow> bool" where
  "decides p w i \<longleftrightarrow> (case rw_next w i of
      Inl _ \<Rightarrow> True | Inr e \<Rightarrow> \<not> isRetryable p (Some e) \<or> i = rp_MaxAttempts p)"

definition result_of :: "'r + rpc_error \<Rightarrow> 'r option \<times> rpc_error option" where
  "result_of x = (case x of Inl r \<Rightarrow> (Some r, None) | Inr e \<Rightarrow> (None, Some e))"

lemma retryLoop_decided:
  assumes "a \<le> k" and "k \<le> rp_MaxAttempts p" and "decides p w k"
    and "\<forall>i. a \<le> i \<and> i < k \<longrightarrow> \<not> decides p w i"
    and "\<forall>i. a \<le> i \<and> i \<le> k \<longrightarrow> rw_ctxErr w i = None \<and> \<not> rw_cancelled w i"
  shows "retryLoop p w a lastErr n delays =
    outcome (fst (result_of (rw_next w k))) (snd (result_of (rw_next w k))) (n + nat (k - a) + 1)
      (delays @ map (\<lambda>i. calculateBackoff (rw_pow w) (rw_draw w i) p i) [a..k - 1])"
  using assms
proof (induction "nat (k - a)" arbitrary: a lastErr n delays)
  case 0
  then have "k = a" by simp
  then show ?case
    using 0 by (subst retryLoop.simps) (auto simp: decides_def result_of_def split: sum.splits)
next
  case (Suc m)
  then have lt: "a < k" by simp
  then have "\<not> decides p w a" "rw_ctxErr w a = None" "\<not> rw_cancelled w a" using Suc.prems(4,5) by auto
  then obtain e where e: "rw_next w a = Inr e" "isRetryable p (Some e)" "a \<noteq> rp_MaxAttempts p"
    by (auto simp: decides_def split: sum.splits)
  let ?d = "\<lambda>i. calculateBackoff (rw_pow w) (rw_draw w i) p i"
  have "retryLoop p w a lastErr n delays = retryLoop p w (a + 1) (Some e) (n + 1) (delays @ [?d a])"
    using e \<open>rw_ctxErr w a = None\<close> \<open>\<not> rw_cancelled w a\<close> Suc.prems(2) lt
    by (subst retryLoop.simps) simp
  also have "\<dots> = outcome (fst (result_of (rw_next w k))) (snd (result_of (rw_next w k)))
      (n + 1 + nat (k - (a + 1)) + 1) ((delays @ [?d a]) @ map ?d [a + 1..k - 1])"
    using Suc lt by (intro Suc.hyps(1)) auto
  also have "[a..k - 1] = a # [a + 1..k - 1]" using lt by (simp add: upto_rec1)
  then have "(delays @ [?d a]) @ map ?d [a + 1..k - 1] = delays @ map ?d [a..k - 1]" by simp
  also have "n + 1 + nat (k - (a + 1)) + 1 = n + nat (k - a) + 1" using lt by simp
  finally show ?case .
qed

text \<open>A cancelled context is noticed before the next attempt.\<close>

lemma retryLoop_cancelled:
  "attempt \<le> rp_MaxAttempts p \<Longrightarrow> rw_ctxErr w attempt = Some e \<Longrightarrow>
   retryLoop p w attempt lastErr n delays = outcome None (if lastErr \<noteq> None then lastErr else Some e) n delays"
  by (subst retryLoop.simps) simp

lemma defaultIsRetryable_iff:
  "defaultIsRetryable (Some e) \<longleftrightarrow> CodeOf e \<in> {CodeUnavailable, CodeResourceExhausted, CodeInternal,
     CodeUnknown, CodeDeadlineExceeded}"
  by (cases "CodeOf e") (auto simp: defaultIsRetryable_def)

section \<open>Properties\<close>

text \<open>C37. Whatever the calls answer and whenever the context ends, the retry interceptor (which always
  returns) makes at most the configured number of attempts, waits at most once per attempt,
  and every delay lies between zero and the maximal backoff, rounding and jitter included.\<close>
theorem RetryInterceptor_bounded:
  assumes "wf_policy (withRetryDefaults policy) w"
  shows "int (ro_attempts (RetryInterceptor policy w)) \<le> rp_MaxAttempts (withRetryDefaults policy) \<and>
    length (ro_delays (RetryInterceptor policy w)) \<le> ro_attempts (RetryInterceptor policy w) \<and>
    (\<forall>d\<in>set (ro_delays (RetryInterceptor policy w)). 0 \<le> d \<and> d \<le> rp_MaxBackoff (withRetryDefaults policy))"
proof -
  let ?p = "withRetryDefaults policy"
  have "0 \<le> rp_MaxAttempts ?p" by (simp add: withRetryDefaults_def)
  then have "int (ro_attempts (retryLoop ?p w 1 None 0 [])) \<le> rp_MaxAttempts ?p \<and>
      delays_ok ?p (ro_attempts (retryLoop ?p w 1 None 0 [])) (ro_delays (retryLoop ?p w 1 None 0 []))"
    by (intro retryLoop_bounds [OF assms]) (simp_all add: delays_ok_def)
  then show ?thesis unfolding RetryInterceptor_def delays_ok_def by (elim conjE) (intro conjI)
qed

text \<open>C25. With a context that does not end, the retry interceptor returns what the first attempt
  returns that succeeds, fails with an error that is not retryable, or is the last one allowed: it
  makes exactly the attempts up to that one, with the policy's backoff after each of the others.\<close>
theorem RetryInterceptor_decided:
  assumes "1 \<le> k" and "k \<le> rp_MaxAttempts (withRetryDefaults policy)" and "decides (withRetryDefaults policy) w k"
    and "\<forall>i. 1 \<le> i \<and> i < k \<longrightarrow> \<not> decides (withRetryDefaults policy) w i"
    and "\<forall>i. 1 \<le> i \<and> i \<le> k \<longrightarrow> rw_ctxErr w i = None \<and> \<not> rw_cancelled w i"
  shows "(ro_resp (RetryInterceptor policy w), ro_err (RetryInterceptor policy w)) = result_of (rw_next w k) \<and>
    int (ro_attempts (RetryInterceptor policy w)) = k \<and>
    ro_delays (RetryInterceptor policy w) =
      map (\<lambda>i. calculateBackoff (rw_pow w) (rw_draw w i) (withRetryDefaults policy) i) [1..k - 1]"
  using retryLoop_decided [OF assms, of None 0 "[]"] assms(1) by (simp add: RetryInterceptor_def)

text \<open>Two unavailable answers, then a response.\<close>

definition example_world :: "nat retry_world" where
  "example_world = \<lparr>rw_pow = (\<lambda>_ _. 1), rw_ctxErr = (\<lambda>_. None),
     rw_next = (\<lambda>i. if i = 3 then Inl 42 else Inr (ConnectError CodeUnavailable ''down'')),
     rw_cancelled = (\<lambda>_. False), rw_draw = (\<lambda>_. 0)\<rparr>"

lemma RetryInterceptor_bounded_witness:
  "int (ro_attempts (RetryInterceptor DefaultRetryPolicy example_world)) \<le> 3"
proof -
  have "wf_policy (withRetryDefaults DefaultRetryPolicy) example_world"
    by (simp add: wf_policy_def withRetryDefaults_def DefaultRetryPolicy_def example_world_def time_defs)
  then show ?thesis
    using RetryInterceptor_bounded [of DefaultRetryPolicy example_world]
    by (simp add: withRetryDefaults_def DefaultRetryPolicy_def)
qed

lemma RetryInterceptor_decided_witness:
  "ro_resp (RetryInterceptor DefaultRetryPolicy example_world) = Some 42 \<and>
   ro_attempts (RetryInterceptor DefaultRetryPolicy example_world) = 3"
proof -
  have "rp_MaxAttempts (withRetryDefaults DefaultRetryPolicy) = 3"
    and "rp_IsRetryable (withRetryDefaults DefaultRetryPolicy) = Some defaultIsRetryable"
    by (simp_all add: withRetryDefaults_def DefaultRetryPolicy_def)
  moreover have "defaultIsRetryable (Some (ConnectError CodeUnavailable ''down''))"
    by (simp add: defaultIsRetryable_def CodeOf_def)
  ultimately show ?thesis
    using RetryInterceptor_decided [of 3 DefaultRetryPolicy example_world]
    by (simp add: decides_def isRetryable_def example_world_def result_of_def)
qed

end
