(* ===== verification/RateLimit.thy ===== *)
theory RateLimit
  imports Float64
begin

text \<open>
  The token-bucket rate limiter, \<^verbatim>\<open>ratelimit.go\<close>, in \<open>float64\<close> arithmetic, the two wrappers that
  guard handlers with it, and the key extractors. The locale \<open>rate_limiter\<close> is the interface
  \<open>RateLimiter\<close> the wrappers rely on: keys do not disturb each other.
\<close>

section \<open>Data\<close>

record Rate =
  rt_RequestsPerSecond :: float64
  rt_Burst :: int

record bucket =
  bk_tokens :: float64
  bk_capacity :: float64
  bk_refillRate :: float64
  bk_lastRefill :: time

text \<open>A bucket is reached through its key only, so the pointer is modelled by its value.\<close>

record TokenBucketLimiter =
  tl_buckets :: "(string, bucket) gomap"
  tl_stopped :: bool

definition NewTokenBucketLimiter :: TokenBucketLimiter where
  "NewTokenBucketLimiter = \<lparr>tl_buckets = Map.empty, tl_stopped = False\<rparr>"

section \<open>Operations\<close>

definition take_token :: "time \<Rightarrow> Rate \<Rightarrow> bucket \<Rightarrow> bucket \<times> bool" where
  "take_token now limit b =
     (let b = (if bk_capacity b \<noteq> f_of_int (rt_Burst limit) \<or> bk_refillRate b \<noteq> rt_RequestsPerSecond limit
               then b\<lparr>bk_capacity := f_of_int (rt_Burst limit), bk_refillRate := rt_RequestsPerSecond limit\<rparr>
               else b);
          elapsed = Seconds (time_sub now (bk_lastRefill b));
          b = b\<lparr>bk_tokens := f_add (bk_tokens b) (f_mul elapsed (bk_refillRate b))\<rparr>;
          b = (if bk_tokens b > bk_capacity b then b\<lparr>bk_tokens := bk_capacity b\<rparr> else b);
          b = b\<lparr>bk_lastRefill := now\<rparr>
      in if bk_tokens b \<ge> 1 then (b\<lparr>bk_tokens := f_sub (bk_tokens b) 1\<rparr>, True) else (b, False))"

definition newBucket :: "time \<Rightarrow> Rate \<Rightarrow> bucket" where
  "newBucket now limit =
     \<lparr>bk_tokens = f_of_int (rt_Burst limit), bk_capacity = f_of_int (rt_Burst limit),
      bk_refillRate = rt_RequestsPerSecond limit, bk_lastRefill = now\<rparr>"

text \<open>
  One caller at a time per key; \<open>now\<close> is the clock when a bucket is created and \<open>now'\<close> when the
  token is taken.
\<close>

definition Allow :: "time \<Rightarrow> time \<Rightarrow> string \<Rightarrow> Rate \<Rightarrow> TokenBucketLimiter \<Rightarrow> TokenBucketLimiter \<times> bool" where
  "Allow now now' key limit l =
     (let b = (case tl_buckets l key of None \<Rightarrow> newBucket now limit | Some b \<Rightarrow> b);
          (b', ok) = take_token now' limit b
      in (l\<lparr>tl_buckets := (tl_buckets l)(key \<mapsto> b')\<rparr>, ok))"

definition Close :: "TokenBucketLimiter \<Rightarrow> TokenBucketLimiter" where
  "Close l = (if \<not> tl_stopped l then l\<lparr>tl_stopped := True\<rparr> else l)"

text \<open>The loop visits every key, so its order does not matter.\<close>

definition removeOldBuckets :: "time \<Rightarrow> TokenBucketLimiter \<Rightarrow> TokenBucketLimiter" where
  "removeOldBuckets now l =
     (let threshold = time_add now (- 5 * Minute)
      in l\<lparr>tl_buckets := (\<lambda>key. case tl_buckets l key of
             None \<Rightarrow> None
           | Some b \<Rightarrow> if bk_lastRefill b < threshold then None else Some b)\<rparr>)"

text \<open>The cleanup goroutine: it acts on every tick until it finds the stop channel closed.\<close>

datatype cleanup_event = CleanupStop | CleanupTick time

fun cleanup :: "cleanup_event list \<Rightarrow> TokenBucketLimiter \<Rightarrow> TokenBucketLimiter" where
  "cleanup [] l = l"
| "cleanup (CleanupStop # es) l = l"
| "cleanup (CleanupTick now # es) l = cleanup es (removeOldBuckets now l)"

section \<open>The wrappers\<close>

datatype RateLimitError = RateLimitExceeded string

text \<open>
  \<open>allow\<close> is the limiter's method at the time of the call; \<open>next\<close> the guarded handler, which is
  \<open>None\<close> in the result when it was not called.
\<close>

definition RateLimitInterceptor ::
    "(string \<Rightarrow> Rate \<Rightarrow> 's \<Rightarrow> 's \<times> bool) \<Rightarrow> ('q \<Rightarrow> string) \<Rightarrow> Rate \<Rightarrow> ('q \<Rightarrow> 'r) \<Rightarrow> 'q \<Rightarrow> 's \<Rightarrow>
     's \<times> (RateLimitError connect_error + 'r)" where
  "RateLimitInterceptor allow keyExtractor limit nxt req s =
     (let key = keyExtractor req
      in case allow key limit s of
           (s', False) \<Rightarrow> (s', Inl (NewError CodeResourceExhausted (RateLimitExceeded key)))
         | (s', True) \<Rightarrow> (s', Inr (nxt req)))"

definition StatusTooManyRequests :: int where "StatusTooManyRequests = 429"

definition RateLimitHTTPHandler ::
    "(string \<Rightarrow> Rate \<Rightarrow> 's \<Rightarrow> 's \<times> bool) \<Rightarrow> ('q \<Rightarrow> string) \<Rightarrow> Rate \<Rightarrow> 'q \<Rightarrow> 's \<Rightarrow> 's \<times> 'q http_outcome" where
  "RateLimitHTTPHandler allow keyExtractor limit req s =
     (case allow (keyExtractor req) limit s of
        (s', False) \<Rightarrow> (s', HttpError StatusTooManyRequests ''Rate limit exceeded'')
      | (s', True) \<Rightarrow> (s', Forward req))"

text \<open>\<open>peer\<close> is \<open>req.Peer().Addr\<close>, respectively \<open>r.RemoteAddr\<close>.\<close>

definition DefaultRateLimitKeyExtractor :: "string \<Rightarrow> http_header \<Rightarrow> string" where
  "DefaultRateLimitKeyExtractor peer header =
     (let runtimeID = header_get header ''X-Plugin-Runtime-ID''
      in if runtimeID \<noteq> '''' then ''runtime:'' @ runtimeID else ''ip:'' @ peer)"

definition HTTPRateLimitKeyExtractor :: "string \<Rightarrow> http_header \<Rightarrow> string" where
  "HTTPRateLimitKeyExtractor remoteAddr header =
     (let runtimeID = header_get header ''X-Plugin-Runtime-ID''
      in if runtimeID \<noteq> '''' then ''runtime:'' @ runtimeID else ''ip:'' @ remoteAddr)"

section \<open>One bucket\<close>

text \<open>The tokens after the refill, and the outcome as a function of them.\<close>

definition refilled :: "time \<Rightarrow> Rate \<Rightarrow> bucket \<Rightarrow> float64" where
  "refilled now limit b =
     min (f_of_int (rt_Burst limit))
       (f_add (bk_tokens b) (f_mul (Seconds (time_sub now (bk_lastRefill b))) (rt_RequestsPerSecond limit)))"

lemma take_token_eq:
  "take_token now limit b =
     (let t = refilled now limit b
      in (\<lparr>bk_tokens = (if 1 \<le> t then f_sub t 1 else t), bk_capacity = f_of_int (rt_Burst limit),
           bk_refillRate = rt_RequestsPerSecond limit, bk_lastRefill = now\<rparr>, 1 \<le> t))"
  by (cases b) (auto simp: take_token_def refilled_def Let_def min_def)

definition wf_bucket :: "bucket \<Rightarrow> bool" where
  "wf_bucket b \<longleftrightarrow> 0 \<le> bk_tokens b \<and> round53 (bk_tokens b) = bk_tokens b \<and> bk_tokens b \<le> bk_capacity b"

definition wf_rate :: "Rate \<Rightarrow> bool" where
  "wf_rate limit \<longleftrightarrow> 0 \<le> rt_RequestsPerSecond limit \<and> 0 \<le> rt_Burst limit"

lemma wf_newBucket: "wf_rate limit \<Longrightarrow> wf_bucket (newBucket now limit)"
  by (simp add: wf_rate_def wf_bucket_def newBucket_def f_of_int_nonneg)

lemma refilled_nonneg:
  assumes "wf_bucket b" and "wf_rate limit" and "bk_lastRefill b \<le> now"
  shows "0 \<le> refilled now limit b" and "refilled now limit b \<le> f_of_int (rt_Burst limit)"
    and "round53 (refilled now limit b) = refilled now limit b"
proof -
  have "0 \<le> time_sub now (bk_lastRefill b)"
    using assms(3) by (simp add: time_sub_def max_duration_def min_duration_def)
  then have "0 \<le> f_add (bk_tokens b)
      (f_mul (Seconds (time_sub now (bk_lastRefill b))) (rt_RequestsPerSecond limit))"
    using assms(1,2) unfolding f_add_def f_mul_def wf_bucket_def wf_rate_def
    by (intro round53_nonneg add_nonneg_nonneg mult_nonneg_nonneg Seconds_nonneg) simp_all
  then show "0 \<le> refilled now limit b"
    using assms(2) by (simp add: refilled_def wf_rate_def f_of_int_nonneg)
  show "refilled now limit b \<le> f_of_int (rt_Burst limit)" by (simp add: refilled_def)
  show "round53 (refilled now limit b) = refilled now limit b"
    by (simp add: refilled_def min_def f_add_def round53_idem)
qed

lemma f_sub_1:
  assumes "1 \<le> t" and "round53 t = t"
  shows "0 \<le> f_sub t 1" and "f_sub t 1 \<le> t" and "round53 (f_sub t 1) = f_sub t 1"
proof -
  show "0 \<le> f_sub t 1" using assms(1) by (simp add: f_sub_def round53_nonneg)
  have "round53 (t - 1) \<le> round53 t" by (rule round53_mono) simp
  then show "f_sub t 1 \<le> t" using assms(2) by (simp add: f_sub_def)
  show "round53 (f_sub t 1) = f_sub t 1" by (simp add: f_sub_def round53_idem)
qed

lemma wf_take_token:
  assumes "wf_bucket b" and "wf_rate limit" and "bk_lastRefill b \<le> now"
  shows "wf_bucket (fst (take_token now limit b))"
  using refilled_nonneg [OF assms] f_sub_1 [of "refilled now limit b"]
  by (auto simp: take_token_eq wf_bucket_def Let_def)

section \<open>Bursts\<close>

text \<open>Requests for one key at one instant.\<close>

fun allowed_at :: "time \<Rightarrow> Rate \<Rightarrow> nat \<Rightarrow> bucket \<Rightarrow> bool list" where
  "allowed_at now limit 0 b = []"
| "allowed_at now limit (Suc n) b =
     (case take_token now limit b of (b', ok) \<Rightarrow> ok # allowed_at now limit n b')"

lemma allowed_at_instant:
  assumes "bk_tokens b = of_int (int k)" and "int k \<le> rt_Burst limit" and "rt_Burst limit < 2 ^ 53"
    and "bk_lastRefill b = now"
  shows "allowed_at now limit n b = map (\<lambda>i. i < k) [0..<n]"
  using assms
proof (induction n arbitrary: b k)
  case 0
  then show ?case by simp
next
  case (Suc n)
  have cap: "f_of_int (rt_Burst limit) = of_int (rt_Burst limit)"
    using Suc.prems(2,3) by (intro f_of_int_exact) auto
  have exact: "round53 (of_int (int k)) = of_int (int k)"
    using Suc.prems(2,3) by (intro round53_of_int) auto
  have "time_sub now (bk_lastRefill b) = 0"
    using Suc.prems(4) by (simp add: time_sub_def max_duration_def min_duration_def)
  then have r: "refilled now limit b = of_int (int k)"
    using Suc.prems(1,2) exact by (simp add: refilled_def cap f_add_def f_mul_def min_def)
  show ?case
  proof (cases k)
    case 0
    have "allowed_at now limit n (fst (take_token now limit b)) = map (\<lambda>i. i < 0) [0..<n]"
      using Suc.prems(2,3) r 0 by (intro Suc.IH) (auto simp: take_token_eq Let_def)
    moreover have "snd (take_token now limit b) = False" using r 0 by (simp add: take_token_eq Let_def)
    ultimately show ?thesis
      using 0 by (simp add: case_prod_unfold map_upt_Suc del: upt_Suc)
  next
    case (Suc m)
    have "f_sub (of_int (int k)) 1 = of_int (int m)"
      using Suc Suc.prems(2,3) round53_of_int [of "int m"] by (simp add: f_sub_def)
    then have "allowed_at now limit n (fst (take_token now limit b)) = map (\<lambda>i. i < m) [0..<n]"
      using Suc.prems(2,3) r Suc by (intro Suc.IH) (auto simp: take_token_eq Let_def)
    moreover have "snd (take_token now limit b) = True" using r Suc by (simp add: take_token_eq Let_def)
    ultimately show ?thesis
      using Suc by (simp add: case_prod_unfold map_upt_Suc del: upt_Suc)
  qed
qed

lemma burst_exact:
  assumes "0 \<le> rt_Burst limit" and "rt_Burst limit < 2 ^ 53"
  shows "allowed_at now limit n (newBucket now limit) = map (\<lambda>i. int i < rt_Burst limit) [0..<n]"
proof -
  have "allowed_at now limit n (newBucket now limit) = map (\<lambda>i. i < nat (rt_Burst limit)) [0..<n]"
    using assms f_of_int_exact [of "rt_Burst limit"]
    by (intro allowed_at_instant) (auto simp: newBucket_def)
  then show ?thesis using assms(1) by (simp add: zless_nat_eq_int_zless)
qed

section \<open>The interface of the wrappers\<close>

locale rate_limiter =
  fixes allow :: "string \<Rightarrow> Rate \<Rightarrow> 's \<Rightarrow> 's \<times> bool"
    and answer :: "string \<Rightarrow> Rate \<Rightarrow> 's \<Rightarrow> bool"
  assumes allow_answer: "snd (allow key limit s) = answer key limit s"
    and allow_other: "key \<noteq> key' \<Longrightarrow> answer key' limit' (fst (allow key limit s)) = answer key' limit' s"
begin

text \<open>Requests under other keys, in any number, do not change what a key is answered.\<close>

lemma independent:
  "\<forall>(key, limit)\<in>set rs. key \<noteq> key' \<Longrightarrow>
   answer key' limit' (fold (\<lambda>(key, limit) s. fst (allow key limit s)) rs s) = answer key' limit' s"
  by (induction rs arbitrary: s) (auto simp: allow_other)

lemma interceptor_result:
  "snd (RateLimitInterceptor allow ke limit nxt req s) =
     (if answer (ke req) limit s then Inr (nxt req)
      else Inl (NewError CodeResourceExhausted (RateLimitExceeded (ke req))))"
  using allow_answer [of "ke req" limit s]
  by (auto simp: RateLimitInterceptor_def Let_def split: prod.splits bool.splits)

lemma http_result:
  "snd (RateLimitHTTPHandler allow ke limit req s) =
     (if answer (ke req) limit s then Forward req else HttpError StatusTooManyRequests ''Rate limit exceeded'')"
  using allow_answer [of "ke req" limit s]
  by (auto simp: RateLimitHTTPHandler_def split: prod.splits bool.splits)

end

interpretation tb: rate_limiter "Allow now now'" "\<lambda>key limit l. snd (Allow now now' key limit l)" for now now'
  by unfold_locales (auto simp: Allow_def Let_def case_prod_unfold)

section \<open>The limiter\<close>

definition wf_limiter :: "TokenBucketLimiter \<Rightarrow> bool" where
  "wf_limiter l \<longleftrightarrow> (\<forall>key b. tl_buckets l key = Some b \<longrightarrow> wf_bucket b)"

text \<open>The clock does not run backwards.\<close>

definition before_now :: "time \<Rightarrow> TokenBucketLimiter \<Rightarrow> bool" where
  "before_now now l \<longleftrightarrow> (\<forall>key b. tl_buckets l key = Some b \<longrightarrow> bk_lastRefill b \<le> now)"

lemma wf_limiter_Allow:
  assumes "wf_limiter l" and "before_now now' l" and "now \<le> now'" and "wf_rate limit"
  shows "wf_limiter (fst (Allow now now' key limit l)) \<and> before_now now' (fst (Allow now now' key limit l))"
proof -
  define b where "b = (case tl_buckets l key of None \<Rightarrow> newBucket now limit | Some b \<Rightarrow> b)"
  have "wf_bucket b" "bk_lastRefill b \<le> now'"
    using assms wf_newBucket [OF assms(4)]
    by (auto simp: b_def wf_limiter_def before_now_def newBucket_def split: option.splits)
  then have "wf_bucket (fst (take_token now' limit b))" "bk_lastRefill (fst (take_token now' limit b)) \<le> now'"
    using wf_take_token assms(4) by (auto simp: take_token_eq Let_def)
  then show ?thesis
    using assms(1,2) unfolding Allow_def b_def [symmetric]
    by (auto simp: wf_limiter_def before_now_def case_prod_unfold Let_def)
qed

lemma wf_limiter_removeOldBuckets: "wf_limiter l \<Longrightarrow> wf_limiter (removeOldBuckets now l)"
  by (auto simp: wf_limiter_def removeOldBuckets_def Let_def split: option.splits if_splits)

text \<open>A bucket that is removed is forgotten: the next request finds a full one.\<close>

lemma removed_bucket_full:
  assumes "tl_buckets l key = Some b" and "bk_lastRefill b < now - 5 * Minute"
    and "1 \<le> rt_Burst limit" and "rt_Burst limit < 2 ^ 53"
  shows "snd (Allow now' now' key limit (removeOldBuckets now l))"
proof -
  have "tl_buckets (removeOldBuckets now l) key = None"
    using assms(1,2) by (simp add: removeOldBuckets_def Let_def time_add_def)
  moreover have "snd (take_token now' limit (newBucket now' limit))"
    using burst_exact [of limit now' 1] assms(3,4) by (simp add: case_prod_unfold)
  ultimately show ?thesis by (simp add: Allow_def Let_def case_prod_unfold)
qed

section \<open>Properties\<close>

text \<open>Of any number of requests that arrive at one instant at a bucket just created, exactly the
  first \<open>Burst\<close> are allowed, in \<open>float64\<close> arithmetic, for every burst a \<open>float64\<close> represents.\<close>
theorem burst_allowed:
  assumes "0 \<le> rt_Burst limit" and "rt_Burst limit < 2 ^ 53"
  shows "allowed_at now limit n (newBucket now limit) = map (\<lambda>i. int i < rt_Burst limit) [0..<n]"
  using burst_exact [OF assms] .

lemma burst_allowed_witness:
  "allowed_at 7 \<lparr>rt_RequestsPerSecond = 1, rt_Burst = 2\<rparr> 3 (newBucket 7 \<lparr>rt_RequestsPerSecond = 1, rt_Burst = 2\<rparr>) =
   [True, True, False]"
  using burst_allowed [of "\<lparr>rt_RequestsPerSecond = 1, rt_Burst = 2\<rparr>" 7 3] by (simp add: upt_rec)

text \<open>Keys do not disturb each other: after any requests under other keys, with whatever rates,
  the interceptor answers a request as it would have without them; and it answers with
  \<open>ResourceExhausted\<close> or with what the guarded handler answers.\<close>
theorem rate_limit_isolated:
  assumes "\<forall>(key, limit)\<in>set others. key \<noteq> keyExtractor req"
  shows "snd (RateLimitInterceptor (Allow now now') keyExtractor limit nxt req
           (fold (\<lambda>(key, limit) l. fst (Allow now now' key limit l)) others l)) =
         snd (RateLimitInterceptor (Allow now now') keyExtractor limit nxt req l) \<and>
    snd (RateLimitInterceptor (Allow now now') keyExtractor limit nxt req l) \<in>
      {Inr (nxt req), Inl (NewError CodeResourceExhausted (RateLimitExceeded (keyExtractor req)))}"
  using tb.independent [OF assms, of now now' limit l] by (simp add: tb.interceptor_result)

lemma rate_limit_isolated_witness:
  "snd (RateLimitInterceptor (Allow 0 0) id \<lparr>rt_RequestsPerSecond = 1, rt_Burst = 1\<rparr> (\<lambda>_. 5 :: nat) ''a''
      (fst (Allow 0 0 ''b'' \<lparr>rt_RequestsPerSecond = 1, rt_Burst = 1\<rparr> NewTokenBucketLimiter))) =
   snd (RateLimitInterceptor (Allow 0 0) id \<lparr>rt_RequestsPerSecond = 1, rt_Burst = 1\<rparr> (\<lambda>_. 5) ''a'' NewTokenBucketLimiter)"
  using rate_limit_isolated [of "[(''b'', \<lparr>rt_RequestsPerSecond = 1, rt_Burst = 1\<rparr>)]" id "''a''" 0 0
      "\<lparr>rt_RequestsPerSecond = 1, rt_Burst = 1\<rparr>" "\<lambda>_. 5 :: nat" NewTokenBucketLimiter] by simp

end
