(* ===== verification/Auth.thy ===== *)
theory Auth
  imports GoRuntime
begin

text \<open>
  Authentication, \<^verbatim>\<open>auth.go\<close>, \<^verbatim>\<open>auth_token.go\<close> and \<^verbatim>\<open>auth_mtls.go\<close>, as transformers of
  unary handlers. Of a \<open>context.Context\<close> only the authentication context is modelled, of a
  request its headers and a payload. A handler also changes a state, so that how often it is
  called can be observed. What an interceptor must guarantee to be composed is the locale
  \<open>auth_provider\<close>.
\<close>

section \<open>Data\<close>

record AuthContext =
  ac_Identity :: string
  ac_Claims :: "(string, string) gomap"
  ac_Provider :: string

type_synonym 'q request = "http_header \<times> 'q"

type_synonym ('q, 'r, 's) unary =
  "AuthContext option \<Rightarrow> 'q request \<Rightarrow> 's \<Rightarrow> 's \<times> (rpc_error + 'r)"

type_synonym ('q, 'r, 's) interceptor = "('q, 'r, 's) unary \<Rightarrow> ('q, 'r, 's) unary"

text \<open>The interface \<open>AuthProvider\<close>.\<close>

record ('q, 'r, 's) AuthProvider =
  ap_ClientInterceptor :: "('q, 'r, 's) interceptor"
  ap_ServerInterceptor :: "('q, 'r, 's) interceptor"

type_synonym token_validator = "string \<Rightarrow> string + string \<times> (string, string) gomap"

record TokenAuth =
  ta_Token :: string
  ta_ValidateToken :: "token_validator option"
  ta_Header :: string
  ta_Prefix :: string

section \<open>The authentication context\<close>

definition WithAuthContext :: "AuthContext option \<Rightarrow> AuthContext \<Rightarrow> AuthContext option" where
  "WithAuthContext ctx auth = Some auth"

definition GetAuthContext :: "AuthContext option \<Rightarrow> AuthContext option" where
  "GetAuthContext ctx = ctx"

definition unauthenticated :: "string \<Rightarrow> rpc_error + 'r" where
  "unauthenticated msg = Inl (ConnectError CodeUnauthenticated msg)"

definition RequireAuth :: "('q, 'r, 's) interceptor" where
  "RequireAuth nxt ctx req s =
     (if GetAuthContext ctx = None then (s, unauthenticated ''authentication required'')
      else nxt ctx req s)"

section \<open>Composition\<close>

text \<open>The loop from the last provider to the first wraps the handler innermost with the last.\<close>

definition ComposeAuthClient :: "('q, 'r, 's) AuthProvider list \<Rightarrow> ('q, 'r, 's) interceptor" where
  "ComposeAuthClient providers nxt =
     (if length providers = 0 then nxt
      else fold (\<lambda>p nxt. ap_ClientInterceptor p nxt) (rev providers) nxt)"

text \<open>The handler each provider wraps: it goes on only with an authentication context.\<close>

definition authChecked :: "('q, 'r, 's) unary \<Rightarrow> ('q, 'r, 's) unary" where
  "authChecked nxt ctx req s =
     (if GetAuthContext ctx \<noteq> None then nxt ctx req s else (s, unauthenticated ''no auth context''))"

fun tryProviders ::
    "('q, 'r, 's) unary \<Rightarrow> AuthContext option \<Rightarrow> 'q request \<Rightarrow> ('q, 'r, 's) AuthProvider list \<Rightarrow>
     rpc_error option \<Rightarrow> 's \<Rightarrow> 's \<times> (rpc_error + 'r)" where
  "tryProviders nxt ctx req [] lastErr s =
     (s, case lastErr of Some e \<Rightarrow> Inl e | None \<Rightarrow> unauthenticated ''authentication failed'')"
| "tryProviders nxt ctx req (p # ps) lastErr s =
     (case ap_ServerInterceptor p (authChecked nxt) ctx req s of
        (s', Inr resp) \<Rightarrow> (s', Inr resp)
      | (s', Inl err) \<Rightarrow> tryProviders nxt ctx req ps (Some err) s')"

definition ComposeAuthServer :: "('q, 'r, 's) AuthProvider list \<Rightarrow> ('q, 'r, 's) interceptor" where
  "ComposeAuthServer providers nxt ctx req s =
     (if length providers = 0 then nxt ctx req s else tryProviders nxt ctx req providers None s)"

section \<open>Tokens\<close>

definition NewTokenAuth :: "string \<Rightarrow> token_validator option \<Rightarrow> TokenAuth" where
  "NewTokenAuth token validateToken =
     \<lparr>ta_Token = token, ta_ValidateToken = validateToken, ta_Header = ''Authorization'', ta_Prefix = ''Bearer ''\<rparr>"

definition NewAPIKeyAuth :: "string \<Rightarrow> token_validator option \<Rightarrow> TokenAuth" where
  "NewAPIKeyAuth apiKey validateKey =
     \<lparr>ta_Token = apiKey, ta_ValidateToken = validateKey, ta_Header = ''X-API-Key'', ta_Prefix = ''''\<rparr>"

definition TokenAuth_ClientInterceptor :: "TokenAuth \<Rightarrow> ('q, 'r, 's) interceptor" where
  "TokenAuth_ClientInterceptor t nxt ctx req s =
     (let header = (if ta_Token t \<noteq> '''' then header_set (fst req) (ta_Header t) (ta_Prefix t @ ta_Token t)
                    else fst req)
      in nxt ctx (header, snd req) s)"

definition TokenAuth_ServerInterceptor :: "TokenAuth \<Rightarrow> ('q, 'r, 's) interceptor" where
  "TokenAuth_ServerInterceptor t nxt ctx req s =
     (let authHeader = header_get (fst req) (ta_Header t)
      in if authHeader = '''' then (s, unauthenticated (''missing '' @ ta_Header t @ '' header''))
         else if ta_Prefix t \<noteq> '''' \<and> \<not> hasPrefix authHeader (ta_Prefix t)
         then (s, unauthenticated (''invalid token format, expected '' @ ta_Prefix t @ '' prefix''))
         else
           let token = (if ta_Prefix t \<noteq> '''' then trimPrefix authHeader (ta_Prefix t) else authHeader)
           in (case ta_ValidateToken t of
                 None \<Rightarrow> (s, Inl (ConnectError CodeInternal ''token validator not configured''))
               | Some validate \<Rightarrow>
                   (case validate token of
                      Inl err \<Rightarrow> (s, unauthenticated (''invalid token: '' @ err))
                    | Inr (identity, claims) \<Rightarrow>
                        nxt (WithAuthContext ctx \<lparr>ac_Identity = identity, ac_Claims = claims,
                                                  ac_Provider = ''token''\<rparr>) req s)))"

definition tokenProvider :: "TokenAuth \<Rightarrow> ('q, 'r, 's) AuthProvider" where
  "tokenProvider t = \<lparr>ap_ClientInterceptor = TokenAuth_ClientInterceptor t,
                      ap_ServerInterceptor = TokenAuth_ServerInterceptor t\<rparr>"

section \<open>Mutual TLS\<close>

text \<open>
  A certificate of the client and a CA pool are only passed on; \<open>'c\<close> and \<open>'p\<close> are their types. Of a verified
  certificate the subject is read; the default for \<open>ExtractIdentity\<close> panics (\<open>None\<close>) when it names no organization.
\<close>

record Subject =
  sj_CommonName :: string
  sj_Organization :: "string list"

record ('c, 'p) MTLSAuth =
  mt_ClientCert :: "'c option"
  mt_RootCAs :: "'p option"
  mt_ClientCAs :: "'p option"
  mt_ExtractIdentity :: "Subject \<Rightarrow> (string \<times> (string, string) gomap) option"

definition NewMTLSAuth :: "'c option \<Rightarrow> 'p option \<Rightarrow> 'p option \<Rightarrow> ('c, 'p) MTLSAuth" where
  "NewMTLSAuth clientCert rootCAs clientCAs =
     \<lparr>mt_ClientCert = clientCert, mt_RootCAs = rootCAs, mt_ClientCAs = clientCAs,
      mt_ExtractIdentity = (\<lambda>subject.
        case sj_Organization subject of
          [] \<Rightarrow> None
        | org # _ \<Rightarrow> Some (sj_CommonName subject, [''organization'' \<mapsto> org]))\<rparr>"

record ('c, 'p) tlsConfig =
  tls_Certificates :: "'c list"
  tls_RootCAs :: "'p option"
  tls_RequireClientCert :: bool
  tls_ClientCAs :: "'p option"
  tls_MinVersion :: string

definition MTLS_ClientInterceptor :: "('q, 'r, 's) interceptor" where
  "MTLS_ClientInterceptor nxt ctx req s = nxt ctx req s"

definition MTLS_ServerInterceptor :: "('q, 'r, 's) interceptor" where
  "MTLS_ServerInterceptor nxt ctx req s =
     nxt (WithAuthContext ctx \<lparr>ac_Identity = ''mtls-client'', ac_Claims = [''verified'' \<mapsto> ''true''],
                               ac_Provider = ''mtls''\<rparr>) req s"

definition mtlsProvider :: "('q, 'r, 's) AuthProvider" where
  "mtlsProvider = \<lparr>ap_ClientInterceptor = MTLS_ClientInterceptor,
                   ap_ServerInterceptor = MTLS_ServerInterceptor\<rparr>"

definition ConfigureClientTLS :: "('c, 'p) MTLSAuth \<Rightarrow> string + ('c, 'p) tlsConfig" where
  "ConfigureClientTLS m =
     (case mt_ClientCert m of
        None \<Rightarrow> Inl ''client certificate required for mTLS''
      | Some cert \<Rightarrow> Inr \<lparr>tls_Certificates = [cert], tls_RootCAs = mt_RootCAs m,
                         tls_RequireClientCert = False, tls_ClientCAs = None, tls_MinVersion = ''TLS12''\<rparr>)"

definition ConfigureServerTLS :: "('c, 'p) MTLSAuth \<Rightarrow> string + ('c, 'p) tlsConfig" where
  "ConfigureServerTLS m =
     (case mt_ClientCAs m of
        None \<Rightarrow> Inl ''client CA pool required for mTLS server''
      | Some pool \<Rightarrow> Inr \<lparr>tls_Certificates = [], tls_RootCAs = None, tls_RequireClientCert = True,
                         tls_ClientCAs = Some pool, tls_MinVersion = ''TLS12''\<rparr>)"

section \<open>The contract of a provider\<close>

text \<open>
  A server interceptor either refuses the request without touching the state or goes on with
  the same request and a context of its own, decided by the request alone.
\<close>

locale auth_provider =
  fixes decide :: "'q request \<Rightarrow> rpc_error + AuthContext"
    and wrap :: "('q, 'r, 's) interceptor"
  assumes wrap_decide: "wrap nxt ctx req s =
    (case decide req of Inl e \<Rightarrow> (s, Inl e) | Inr auth \<Rightarrow> nxt (Some auth) req s)"
begin

lemma refused: "decide req = Inl e \<Longrightarrow> wrap nxt ctx req s = (s, Inl e)"
  by (simp add: wrap_decide)

lemma authenticated: "decide req = Inr auth \<Longrightarrow> wrap (RequireAuth nxt) ctx req s = nxt (Some auth) req s"
  by (simp add: wrap_decide RequireAuth_def GetAuthContext_def)

lemma checked: "wrap (authChecked nxt) ctx req s =
    (case decide req of Inl e \<Rightarrow> (s, Inl e) | Inr auth \<Rightarrow> nxt (Some auth) req s)"
  by (simp add: wrap_decide authChecked_def GetAuthContext_def split: sum.split)

end

text \<open>The decision of the token provider.\<close>

definition tokenDecision :: "TokenAuth \<Rightarrow> 'q request \<Rightarrow> rpc_error + AuthContext" where
  "tokenDecision t req =
     (let authHeader = header_get (fst req) (ta_Header t)
      in if authHeader = '''' then unauthenticated (''missing '' @ ta_Header t @ '' header'')
         else if \<not> hasPrefix authHeader (ta_Prefix t)
         then unauthenticated (''invalid token format, expected '' @ ta_Prefix t @ '' prefix'')
         else (case ta_ValidateToken t of
                 None \<Rightarrow> Inl (ConnectError CodeInternal ''token validator not configured'')
               | Some validate \<Rightarrow>
                   (case validate (trimPrefix authHeader (ta_Prefix t)) of
                      Inl err \<Rightarrow> unauthenticated (''invalid token: '' @ err)
                    | Inr (identity, claims) \<Rightarrow>
                        Inr \<lparr>ac_Identity = identity, ac_Claims = claims, ac_Provider = ''token''\<rparr>)))"

definition mtlsContext :: AuthContext where
  "mtlsContext = \<lparr>ac_Identity = ''mtls-client'', ac_Claims = [''verified'' \<mapsto> ''true''], ac_Provider = ''mtls''\<rparr>"

lemma trimPrefix_Nil [simp]: "trimPrefix s '''' = s"
  by (simp add: trimPrefix_def)

interpretation token: auth_provider "tokenDecision t" "TokenAuth_ServerInterceptor t" for t
  by unfold_locales
    (auto simp: TokenAuth_ServerInterceptor_def tokenDecision_def unauthenticated_def WithAuthContext_def Let_def
      split: option.split sum.split)

interpretation mtls: auth_provider "\<lambda>req. Inr mtlsContext" MTLS_ServerInterceptor
  by unfold_locales (simp add: MTLS_ServerInterceptor_def WithAuthContext_def mtlsContext_def)

section \<open>Client and server\<close>

text \<open>The token a client sends is the token the server validates.\<close>

lemma tokenDecision_client:
  assumes "ta_Token t \<noteq> ''''" and "ta_Header t' = ta_Header t" and "ta_Prefix t' = ta_Prefix t"
    and "ta_ValidateToken t' = Some validate"
  shows "tokenDecision t' (header_set h (ta_Header t) (ta_Prefix t @ ta_Token t), q) =
    (case validate (ta_Token t) of
       Inl err \<Rightarrow> unauthenticated (''invalid token: '' @ err)
     | Inr (identity, claims) \<Rightarrow> Inr \<lparr>ac_Identity = identity, ac_Claims = claims, ac_Provider = ''token''\<rparr>)"
  using assms by (simp add: tokenDecision_def)

text \<open>What the composition does with providers that keep the contract.\<close>

fun firstSuccess ::
    "('q, 'r, 's) unary \<Rightarrow> 'q request \<Rightarrow> ('q request \<Rightarrow> rpc_error + AuthContext) list \<Rightarrow>
     rpc_error option \<Rightarrow> 's \<Rightarrow> 's \<times> (rpc_error + 'r)" where
  "firstSuccess nxt req [] lastErr s =
     (s, case lastErr of Some e \<Rightarrow> Inl e | None \<Rightarrow> unauthenticated ''authentication failed'')"
| "firstSuccess nxt req (d # ds) lastErr s =
     (case d req of
        Inl e \<Rightarrow> firstSuccess nxt req ds (Some e) s
      | Inr auth \<Rightarrow>
          (case nxt (Some auth) req s of
             (s', Inr resp) \<Rightarrow> (s', Inr resp)
           | (s', Inl err) \<Rightarrow> firstSuccess nxt req ds (Some err) s'))"

lemma tryProviders_eq:
  assumes "list_all2 (\<lambda>p d. auth_provider d (ap_ServerInterceptor p)) ps ds"
  shows "tryProviders nxt ctx req ps lastErr s = firstSuccess nxt req ds lastErr s"
  using assms
proof (induction ps ds arbitrary: lastErr s rule: list_all2_induct)
  case Nil
  then show ?case by simp
next
  case (Cons p ps d ds)
  have "ap_ServerInterceptor p (authChecked nxt) ctx req s =
      (case d req of Inl e \<Rightarrow> (s, Inl e) | Inr auth \<Rightarrow> nxt (Some auth) req s)"
    using auth_provider.checked [OF Cons.hyps(1)] .
  then show ?case using Cons.IH by (auto split: sum.split prod.split)
qed

text \<open>When every provider refuses, the handler is not called; the last refusal is returned.\<close>

lemma firstSuccess_refused:
  "\<forall>d\<in>set ds. \<exists>e. d req = Inl e \<Longrightarrow> ds \<noteq> [] \<Longrightarrow>
   firstSuccess nxt req ds lastErr s = (s, Inl (projl (last ds req)))"
proof (induction ds arbitrary: lastErr)
  case (Cons d ds)
  then show ?case by (cases "ds = []") auto
qed simp

text \<open>The first provider that accepts decides when the handler succeeds.\<close>

lemma firstSuccess_accepted:
  assumes "\<forall>d\<in>set ds1. \<exists>e. d req = Inl e" and "d req = Inr auth" and "nxt (Some auth) req s = (s', Inr resp)"
  shows "firstSuccess nxt req (ds1 @ d # ds2) lastErr s = (s', Inr resp)"
  using assms by (induction ds1 arbitrary: lastErr) auto

section \<open>Configured providers\<close>

text \<open>The two kinds of provider the package has; \<open>None\<close> is mutual TLS.\<close>

definition authOf :: "TokenAuth option \<Rightarrow> ('q, 'r, 's) AuthProvider" where
  "authOf c = (case c of Some t \<Rightarrow> tokenProvider t | None \<Rightarrow> mtlsProvider)"

definition decisionOf :: "TokenAuth option \<Rightarrow> 'q request \<Rightarrow> rpc_error + AuthContext" where
  "decisionOf c req = (case c of Some t \<Rightarrow> tokenDecision t req | None \<Rightarrow> Inr mtlsContext)"

definition refusal :: "TokenAuth option \<Rightarrow> 'q request \<Rightarrow> rpc_error option" where
  "refusal c req = (case decisionOf c req of Inl e \<Rightarrow> Some e | Inr _ \<Rightarrow> None)"

lemma decisionOf_simps: "decisionOf (Some t) = tokenDecision t" "decisionOf None = (\<lambda>req. Inr mtlsContext)"
  by (simp_all add: fun_eq_iff decisionOf_def)

lemma auth_provider_authOf: "auth_provider (decisionOf c) (ap_ServerInterceptor (authOf c))"
  by (cases c) (simp_all add: decisionOf_simps authOf_def mtlsProvider_def tokenProvider_def
      mtls.auth_provider_axioms token.auth_provider_axioms)

lemma ComposeAuthServer_eq:
  "cs \<noteq> [] \<Longrightarrow> ComposeAuthServer (map authOf cs) nxt ctx req s = firstSuccess nxt req (map decisionOf cs) None s"
  using tryProviders_eq [of "map authOf cs" "map decisionOf cs"]
  by (simp add: ComposeAuthServer_def list_all2_conv_all_nth auth_provider_authOf)

lemma refusal_Some: "refusal c req = Some e \<longleftrightarrow> decisionOf c req = Inl e"
  by (simp add: refusal_def split: sum.split)

text \<open>C38. A server with several authentication providers calls the handler, once, with the identity
  that the first accepting provider found when that call succeeds; when every provider refuses
  the request the handler is not called and the caller gets the last refusal.\<close>
theorem ComposeAuthServer_correct:
  assumes "cs \<noteq> []"
  shows "((\<forall>c\<in>set cs. refusal c req \<noteq> None) \<longrightarrow>
      ComposeAuthServer (map authOf cs) nxt ctx req s = (s, Inl (the (refusal (last cs) req)))) \<and>
    (\<forall>cs1 c cs2 auth s' resp. cs = cs1 @ c # cs2 \<and> (\<forall>d\<in>set cs1. refusal d req \<noteq> None) \<and>
      decisionOf c req = Inr auth \<and> nxt (Some auth) req s = (s', Inr resp) \<longrightarrow>
      ComposeAuthServer (map authOf cs) nxt ctx req s = (s', Inr resp))"
proof (intro conjI impI allI; (elim conjE)?)
  assume r: "\<forall>c\<in>set cs. refusal c req \<noteq> None"
  then have a: "\<forall>d\<in>set (map decisionOf cs). \<exists>e. d req = Inl e"
    by (auto simp: refusal_Some)
  obtain e where "refusal (last cs) req = Some e" using r assms last_in_set by blast
  then show "ComposeAuthServer (map authOf cs) nxt ctx req s = (s, Inl (the (refusal (last cs) req)))"
    using firstSuccess_refused [OF a, of nxt None s] assms
    by (simp add: ComposeAuthServer_eq last_map refusal_Some [THEN iffD1])
next
  fix cs1 c cs2 auth s' resp
  assume cs: "cs = cs1 @ c # cs2" and r: "\<forall>d\<in>set cs1. refusal d req \<noteq> None"
    and ok: "decisionOf c req = Inr auth" "nxt (Some auth) req s = (s', Inr resp)"
  have "\<forall>d\<in>set (map decisionOf cs1). \<exists>e. d req = Inl e" using r by (auto simp: refusal_Some)
  from firstSuccess_accepted [of "map decisionOf cs1" req "decisionOf c" auth nxt s, OF this ok] show "ComposeAuthServer (map authOf cs) nxt ctx req s = (s', Inr resp)"
    using ComposeAuthServer_eq [OF assms, of nxt ctx req s] by (simp add: cs)
qed

text \<open>The token a client is configured with is the token the server validates: behind the client's
  interceptor the server's handler runs with the identity the validator assigns to that token, and
  a token the validator rejects is answered with Unauthenticated and the handler does not run.\<close>
theorem token_end_to_end:
  assumes "ta_Token t \<noteq> ''''" and "ta_Header t' = ta_Header t" and "ta_Prefix t' = ta_Prefix t"
    and "ta_ValidateToken t' = Some validate"
  shows "TokenAuth_ClientInterceptor t (\<lambda>_. TokenAuth_ServerInterceptor t' (RequireAuth nxt) None) ctx (h, q) s =
    (case validate (ta_Token t) of
       Inl err \<Rightarrow> (s, Inl (ConnectError CodeUnauthenticated (''invalid token: '' @ err)))
     | Inr (identity, claims) \<Rightarrow>
         nxt (Some \<lparr>ac_Identity = identity, ac_Claims = claims, ac_Provider = ''token''\<rparr>)
           (header_set h (ta_Header t) (ta_Prefix t @ ta_Token t), q) s)"
  using assms tokenDecision_client [OF assms, of h q]
  by (simp add: TokenAuth_ClientInterceptor_def token.wrap_decide RequireAuth_def GetAuthContext_def
      unauthenticated_def split: sum.split prod.split)

text \<open>A token provider that refuses, then one that accepts.\<close>

definition example_validator :: token_validator where
  "example_validator token = (if token = ''secret'' then Inr (''kv'', Map.empty) else Inl ''unknown'')"

definition example_handler :: "(unit, string, nat) unary" where
  "example_handler ctx req n = (Suc n, Inr (case ctx of None \<Rightarrow> '''' | Some a \<Rightarrow> ac_Identity a))"

definition example_auth_request :: "unit request" where
  "example_auth_request = (header_set Map.empty ''X-API-Key'' ''secret'', ())"

lemma ComposeAuthServer_correct_witness:
  "ComposeAuthServer (map authOf [Some (NewTokenAuth '''' (Some example_validator)),
       Some (NewAPIKeyAuth '''' (Some example_validator))])
     example_handler None example_auth_request 0 = (1, Inr ''kv'')"
proof -
  let ?b = "Some (NewTokenAuth '''' (Some example_validator))"
  let ?k = "Some (NewAPIKeyAuth '''' (Some example_validator))"
  let ?auth = "\<lparr>ac_Identity = ''kv'', ac_Claims = Map.empty, ac_Provider = ''token''\<rparr>"
  have h: "header_get (fst example_auth_request) ''Authorization'' = ''''"
    "header_get (fst example_auth_request) ''X-API-Key'' = ''secret''"
    by code_simp+
  have "refusal ?b example_auth_request \<noteq> None"
    by (simp add: refusal_def decisionOf_def tokenDecision_def NewTokenAuth_def unauthenticated_def h)
  then have b: "\<forall>d\<in>set [?b]. refusal d example_auth_request \<noteq> None" by simp
  have k: "decisionOf ?k example_auth_request = Inr ?auth"
    by (simp add: decisionOf_def tokenDecision_def NewAPIKeyAuth_def example_validator_def h)
  have e: "example_handler (Some ?auth) example_auth_request 0 = (1, Inr ''kv'')"
    by (simp add: example_handler_def)
  have ne: "[?b, ?k] \<noteq> []" and split: "[?b, ?k] = [?b] @ ?k # []" by simp_all
  show ?thesis
    by (rule ComposeAuthServer_correct [OF ne, THEN conjunct2, rule_format]) (intro conjI; rule split b k e)
qed

lemma token_end_to_end_witness:
  "snd (TokenAuth_ClientInterceptor (NewTokenAuth ''secret'' None)
     (\<lambda>_. TokenAuth_ServerInterceptor (NewTokenAuth '''' (Some example_validator)) (RequireAuth example_handler) None)
     None (Map.empty, ()) 0) = Inr ''kv''"
  using token_end_to_end [of "NewTokenAuth ''secret'' None" "NewTokenAuth '''' (Some example_validator)"
      example_validator example_handler None Map.empty "()" 0]
  by (simp add: NewTokenAuth_def example_validator_def example_handler_def)

end
