(* ===== verification/Channels.thy ===== *)
theory Channels
  imports GoRuntime
begin

text \<open>
  Two small components built from channels and \<open>select\<close>: the stream adapter \<open>PumpToStream\<close>
  (\<^verbatim>\<open>streaming.go\<close>) and the in-memory listener of \<^verbatim>\<open>internal/memtransport/listener.go\<close>. When
  several alternatives of a \<open>select\<close> are ready the runtime picks one: the pick is an argument,
  and an alternative that is not ready gives \<open>None\<close>. Errors are their messages.
\<close>

section \<open>PumpToStream\<close>

text \<open>The two channels as the implementation filled them so far, and what was sent.\<close>

record 't pump =
  pu_ch :: "'t list"
  pu_chClosed :: bool
  pu_errs :: "string option list"
  pu_errsClosed :: bool
  pu_sent :: "'t list"

datatype pump_choice = ChooseDone | ChooseErr | ChooseMsg

text \<open>A round ends the loop with Go's \<open>error\<close> (\<open>None\<close> for nil) or goes on.\<close>

datatype 't pump_round = Return "string option" "'t pump" | Continue "'t pump"

definition pumpRound :: "string option \<Rightarrow> ('t \<Rightarrow> string option) \<Rightarrow> pump_choice \<Rightarrow> 't pump \<Rightarrow> 't pump_round option" where
  "pumpRound ctxErr send choice st =
     (case choice of
        ChooseDone \<Rightarrow> (case ctxErr of None \<Rightarrow> None | Some e \<Rightarrow> Some (Return (Some e) st))
      | ChooseErr \<Rightarrow>
          (case pu_errs st of
             err # rest \<Rightarrow>
               let st = st\<lparr>pu_errs := rest\<rparr>
               in (case err of Some e \<Rightarrow> Some (Return (Some e) st) | None \<Rightarrow> Some (Continue st))
           | [] \<Rightarrow> if pu_errsClosed st then Some (Continue st) else None)
      | ChooseMsg \<Rightarrow>
          (case pu_ch st of
             msg # rest \<Rightarrow>
               let st = st\<lparr>pu_ch := rest\<rparr>
               in (case send msg of
                     Some e \<Rightarrow> Some (Return (Some e) st)
                   | None \<Rightarrow> Some (Continue (st\<lparr>pu_sent := pu_sent st @ [msg]\<rparr>)))
           | [] \<Rightarrow> if pu_chClosed st then Some (Return None st) else None))"

text \<open>
  The loop over the picks of the runtime; a pick that is not ready is passed over. The result
  is the error returned, \<open>None\<close> while the loop is still running.
\<close>

fun PumpToStream ::
    "string option \<Rightarrow> ('t \<Rightarrow> string option) \<Rightarrow> pump_choice list \<Rightarrow> 't pump \<Rightarrow> 't pump \<times> string option option" where
  "PumpToStream ctxErr send [] st = (st, None)"
| "PumpToStream ctxErr send (c # cs) st =
     (case pumpRound ctxErr send c st of
        None \<Rightarrow> PumpToStream ctxErr send cs st
      | Some (Return e st') \<Rightarrow> (st', Some e)
      | Some (Continue st') \<Rightarrow> PumpToStream ctxErr send cs st')"

text \<open>What is sent, in order, and what is left is always what the implementation put in.\<close>

lemma pumpRound_prefix:
  assumes "pumpRound ctxErr send c st = Some r"
  shows "\<exists>st' lost. (r = Continue st' \<and> lost = [] \<or> (\<exists>e. r = Return e st' \<and> length lost \<le> 1)) \<and>
    pu_sent st' @ lost @ pu_ch st' = pu_sent st @ pu_ch st"
  using assms
  by (cases c)
    (auto simp: pumpRound_def Let_def split: option.splits list.splits if_splits; fastforce)+

lemma PumpToStream_order:
  "\<exists>lost. length lost \<le> 1 \<and>
     pu_sent (fst (PumpToStream ctxErr send cs st)) @ lost @ pu_ch (fst (PumpToStream ctxErr send cs st)) =
     pu_sent st @ pu_ch st"
proof (induction ctxErr send cs st rule: PumpToStream.induct)
  case (1 ctxErr send st)
  show ?case by (intro exI [of _ "[]"]) simp
next
  case (2 ctxErr send c cs st)
  show ?case
  proof (cases "pumpRound ctxErr send c st")
    case None
    then show ?thesis using "2.IH"(1) by simp
  next
    case (Some r)
    obtain st' lost where r: "r = Continue st' \<and> lost = [] \<or> (\<exists>e. r = Return e st' \<and> length lost \<le> 1)"
      and eq: "pu_sent st' @ lost @ pu_ch st' = pu_sent st @ pu_ch st"
      using pumpRound_prefix [OF Some] by blast
    show ?thesis
    proof (cases r)
      case (Return e st2)
      then show ?thesis using Some r eq by (intro exI [of _ lost]) auto
    next
      case (Continue st2)
      then have "st2 = st'" "lost = []" using r by auto
      then show ?thesis using Some Continue eq "2.IH"(2) [OF Some Continue] by simp
    qed
  qed
qed

text \<open>A nil result means the channel was closed and everything in it was sent.\<close>

lemma PumpToStream_nil:
  "PumpToStream ctxErr send cs st = (st', Some None) \<Longrightarrow>
   pu_chClosed st \<and> pu_ch st' = [] \<and> pu_sent st' = pu_sent st @ pu_ch st"
proof (induction ctxErr send cs st rule: PumpToStream.induct)
  case (2 ctxErr send c cs st)
  show ?case
  proof (cases "pumpRound ctxErr send c st")
    case None
    then show ?thesis using 2 by simp
  next
    case (Some r)
    show ?thesis
    proof (cases r)
      case (Return e st2)
      then show ?thesis using Some "2.prems"
        by (cases c) (auto simp: pumpRound_def Let_def split: option.splits list.splits if_splits)
    next
      case (Continue st2)
      have "pu_chClosed st2 = pu_chClosed st \<and> pu_sent st2 @ pu_ch st2 = pu_sent st @ pu_ch st"
        using Some Continue by (cases c) (auto simp: pumpRound_def Let_def split: option.splits list.splits if_splits)
      then show ?thesis using Some Continue "2.IH"(2) [OF Some Continue] "2.prems" by simp
    qed
  qed
qed simp

text \<open>Without errors and cancellation a closed channel is pumped empty.\<close>

lemma PumpToStream_complete:
  assumes "pu_chClosed st" and "\<forall>m\<in>set (pu_ch st). send m = None"
  shows "PumpToStream None send (replicate (Suc (length (pu_ch st))) ChooseMsg) st =
    (st\<lparr>pu_ch := [], pu_sent := pu_sent st @ pu_ch st\<rparr>, Some None)"
  using assms
proof (induction "pu_ch st" arbitrary: st)
  case Nil
  then show ?case by (cases st) (simp add: pumpRound_def)
next
  case (Cons m ms)
  have "pu_ch st = m # ms" using Cons.hyps(2) by simp
  then show ?case
    using Cons.hyps(1) [of "st\<lparr>pu_ch := ms, pu_sent := pu_sent st @ [m]\<rparr>"] Cons.prems
    by (simp add: pumpRound_def Let_def)
qed

text \<open>
  An implementation that follows the contract (error first, then close) can lose its error:
  both alternatives are ready and the runtime may pick the closed channel.
\<close>

lemma PumpToStream_loses_error:
  assumes "pu_errs st = [Some e]" and "pu_ch st = []" and "pu_chClosed st"
  shows "PumpToStream None send [ChooseErr] st = (st\<lparr>pu_errs := []\<rparr>, Some (Some e))"
    and "PumpToStream None send [ChooseMsg] st = (st, Some None)"
  using assms by (simp_all add: pumpRound_def)

section \<open>The in-memory listener\<close>

text \<open>A pair of pipe ends is one connection, a value of type \<open>'c\<close>.\<close>

record 'c Listener =
  ln_conns :: "'c list"
  ln_closed :: bool

definition listenerClosed :: string where
  "listenerClosed = ''memtransport: listener closed''"

definition backlog :: nat where "backlog = 16"

definition Listener_New :: "'c Listener" where
  "Listener_New = \<lparr>ln_conns = [], ln_closed = False\<rparr>"

datatype accept_choice = AcceptConn | AcceptClosed

definition Accept :: "accept_choice \<Rightarrow> 'c Listener \<Rightarrow> ('c Listener \<times> (string + 'c)) option" where
  "Accept choice l =
     (case choice of
        AcceptConn \<Rightarrow>
          (case ln_conns l of [] \<Rightarrow> None | conn # rest \<Rightarrow> Some (l\<lparr>ln_conns := rest\<rparr>, Inr conn))
      | AcceptClosed \<Rightarrow> if ln_closed l then Some (l, Inl listenerClosed) else None)"

definition Listener_Close :: "'c Listener \<Rightarrow> 'c Listener" where
  "Listener_Close l = l\<lparr>ln_closed := True\<rparr>"

datatype dial_choice = DialSend | DialClosed | DialDone

text \<open>\<open>between\<close> is what others do between the first test and the second \<open>select\<close>.\<close>

definition DialContext ::
    "('c Listener \<Rightarrow> 'c Listener) \<Rightarrow> dial_choice \<Rightarrow> string option \<Rightarrow> 'c \<Rightarrow> 'c Listener \<Rightarrow>
     ('c Listener \<times> (string + 'c)) option" where
  "DialContext between choice ctxErr conn l =
     (if ln_closed l then Some (l, Inl listenerClosed)
      else
        let l = between l
        in case choice of
             DialSend \<Rightarrow>
               if length (ln_conns l) < backlog then Some (l\<lparr>ln_conns := ln_conns l @ [conn]\<rparr>, Inr conn) else None
           | DialClosed \<Rightarrow> if ln_closed l then Some (l, Inl listenerClosed) else None
           | DialDone \<Rightarrow> (case ctxErr of None \<Rightarrow> None | Some e \<Rightarrow> Some (l, Inl e)))"

text \<open>Dialers and the server, in any order; the two lists record the connections each got.\<close>

inductive listener_step :: "'c Listener \<times> 'c list \<times> 'c list \<Rightarrow> 'c Listener \<times> 'c list \<times> 'c list \<Rightarrow> bool" where
  ls_dial: "DialContext id ch e conn l = Some (l', Inr conn) \<Longrightarrow> listener_step (l, ds, as) (l', ds @ [conn], as)"
| ls_dial_error: "DialContext id ch e conn l = Some (l', Inl err) \<Longrightarrow> listener_step (l, ds, as) (l', ds, as)"
| ls_accept: "Accept ch l = Some (l', Inr conn) \<Longrightarrow> listener_step (l, ds, as) (l', ds, as @ [conn])"
| ls_accept_error: "Accept ch l = Some (l', Inl err) \<Longrightarrow> listener_step (l, ds, as) (l', ds, as)"
| ls_close: "listener_step (l, ds, as) (Listener_Close l, ds, as)"

definition listener_inv :: "'c Listener \<times> 'c list \<times> 'c list \<Rightarrow> bool" where
  "listener_inv st = (case st of (l, ds, as) \<Rightarrow> ds = as @ ln_conns l \<and> length (ln_conns l) \<le> backlog)"

interpretation ln: safe_component "\<lambda>st. st = (Listener_New, [], [])" listener_step listener_inv
proof unfold_locales
  show "st = (Listener_New, [], []) \<Longrightarrow> listener_inv st" for st :: "'c Listener \<times> 'c list \<times> 'c list"
    by (simp add: listener_inv_def Listener_New_def)
  show "listener_inv s \<Longrightarrow> listener_step s t \<Longrightarrow> listener_inv t" for s t :: "'c Listener \<times> 'c list \<times> 'c list"
    by (elim listener_step.cases)
      (auto simp: listener_inv_def DialContext_def Accept_def Listener_Close_def backlog_def Let_def
        split: if_splits dial_choice.splits accept_choice.splits option.splits list.splits)
qed

lemma closed_refuses:
  "ln_closed l \<Longrightarrow> DialContext between choice ctxErr conn l = Some (l, Inl listenerClosed)"
  by (simp add: DialContext_def)

lemma Listener_Close_idem: "Listener_Close (Listener_Close l) = Listener_Close l"
  by (simp add: Listener_Close_def)

section \<open>What the adapters guarantee\<close>

text \<open>The stream adapter sends the messages of the implementation in their order, without loss or
  repetition up to the one whose sending failed, and when it returns nil the channel was closed
  and everything put into it was sent.\<close>
theorem PumpToStream_correct:
  "(\<exists>lost. length lost \<le> 1 \<and>
     pu_sent (fst (PumpToStream ctxErr send cs st)) @ lost @ pu_ch (fst (PumpToStream ctxErr send cs st)) =
     pu_sent st @ pu_ch st) \<and>
   (snd (PumpToStream ctxErr send cs st) = Some None \<longrightarrow>
     pu_chClosed st \<and> pu_sent (fst (PumpToStream ctxErr send cs st)) = pu_sent st @ pu_ch st)"
  using PumpToStream_order [of ctxErr send cs st]
  by (cases "PumpToStream ctxErr send cs st") (auto dest: PumpToStream_nil)

definition example_pump :: "nat pump" where
  "example_pump = \<lparr>pu_ch = [1, 2], pu_chClosed = True, pu_errs = [], pu_errsClosed = True, pu_sent = []\<rparr>"

lemma PumpToStream_correct_witness:
  "pu_sent (fst (PumpToStream None (\<lambda>_. None) [ChooseMsg, ChooseErr, ChooseMsg, ChooseMsg] example_pump)) = [1, 2]"
proof -
  have "snd (PumpToStream None (\<lambda>_. None) [ChooseMsg, ChooseErr, ChooseMsg, ChooseMsg] example_pump) = Some None"
    by (simp add: example_pump_def pumpRound_def)
  then show ?thesis
    using PumpToStream_correct [of None "\<lambda>_. None" "[ChooseMsg, ChooseErr, ChooseMsg, ChooseMsg]" example_pump]
    by (simp add: example_pump_def)
qed

text \<open>The in-memory listener hands the server exactly the connections the dialers got, in the order
  they were dialled, with at most sixteen waiting.\<close>
theorem listener_fifo:
  assumes "reach (\<lambda>st. st = (Listener_New, [], [])) listener_step (l, dialled, accepted)"
  shows "dialled = accepted @ ln_conns l \<and> length (ln_conns l) \<le> backlog"
  using ln.reach_inv [OF assms] by (simp add: listener_inv_def)

lemma listener_fifo_witness:
  "ln_conns (Listener_New\<lparr>ln_conns := [7 :: nat]\<rparr>) = [7]"
proof -
  have "DialContext id DialSend None (7 :: nat) Listener_New = Some (Listener_New\<lparr>ln_conns := [7]\<rparr>, Inr 7)"
    by (simp add: DialContext_def Listener_New_def backlog_def)
  from ls_dial [OF this, of "[]" "[]"]
  have "reach (\<lambda>st. st = (Listener_New, [], [])) listener_step (Listener_New\<lparr>ln_conns := [7 :: nat]\<rparr>, [7], [])"
    by (auto intro: reach.intros)
  from listener_fifo [OF this] show ?thesis by simp
qed

end
