(* ===== verification/Discovery.thy ===== *)
theory Discovery
  imports GoRuntime
begin

text \<open>
  Endpoint discovery, \<^verbatim>\<open>discovery.go\<close>: the interface \<open>DiscoveryService\<close> as the locale
  \<open>discovery_service\<close>, and its static implementation.
\<close>

section \<open>Data\<close>

record Endpoint =
  ep_URL :: string
  ep_Metadata :: "(string, string) gomap"
  ep_Weight :: int

datatype DiscoveryError = ServiceNotFound string | NoEndpointsConfigured string

record DiscoveryEvent =
  de_ServiceName :: string
  de_Endpoints :: "Endpoint list"
  de_Error :: "DiscoveryError option"

record StaticDiscovery =
  sdi_endpoints :: "(string, Endpoint list) gomap"

section \<open>Operations\<close>

definition NewStaticDiscovery :: "(string, Endpoint list) gomap \<Rightarrow> StaticDiscovery" where
  "NewStaticDiscovery endpoints = \<lparr>sdi_endpoints = endpoints\<rparr>"

definition Discover :: "StaticDiscovery \<Rightarrow> string \<Rightarrow> DiscoveryError + Endpoint list" where
  "Discover s serviceName =
     (case sdi_endpoints s serviceName of
        None \<Rightarrow> Inl (ServiceNotFound serviceName)
      | Some endpoints \<Rightarrow>
          if length endpoints = 0 then Inl (NoEndpointsConfigured serviceName) else Inr endpoints)"

text \<open>The channel returned, already closed: its buffer.\<close>

definition Discovery_Watch :: "StaticDiscovery \<Rightarrow> string \<Rightarrow> DiscoveryEvent list" where
  "Discovery_Watch s serviceName =
     (case Discover s serviceName of
        Inl err \<Rightarrow> [\<lparr>de_ServiceName = serviceName, de_Endpoints = [], de_Error = Some err\<rparr>]
      | Inr endpoints \<Rightarrow> [\<lparr>de_ServiceName = serviceName, de_Endpoints = endpoints, de_Error = None\<rparr>])"

definition AddEndpoint :: "string \<Rightarrow> Endpoint \<Rightarrow> StaticDiscovery \<Rightarrow> StaticDiscovery" where
  "AddEndpoint serviceName endpoint s =
     s\<lparr>sdi_endpoints := append_at (sdi_endpoints s) serviceName endpoint\<rparr>"

definition RemoveService :: "string \<Rightarrow> StaticDiscovery \<Rightarrow> StaticDiscovery" where
  "RemoveService serviceName s = s\<lparr>sdi_endpoints := (sdi_endpoints s)(serviceName := None)\<rparr>"

section \<open>The interface\<close>

text \<open>
  A discovery service answers a name with endpoints or an error, and a success is never empty.
  Endpoints can be added to a name and a name removed, without effect on other names.
\<close>

locale discovery_service =
  fixes discover :: "'s \<Rightarrow> string \<Rightarrow> DiscoveryError + Endpoint list"
    and add :: "string \<Rightarrow> Endpoint \<Rightarrow> 's \<Rightarrow> 's"
    and remove :: "string \<Rightarrow> 's \<Rightarrow> 's"
  assumes discover_nonempty: "discover s n = Inr es \<Longrightarrow> es \<noteq> []"
    and discover_add: "discover (add n e s) m =
      (if m = n then Inr ((case discover s n of Inl _ \<Rightarrow> [] | Inr es \<Rightarrow> es) @ [e]) else discover s m)"
    and discover_remove: "discover (remove n s) m = (if m = n then Inl (ServiceNotFound n) else discover s m)"
begin

text \<open>After any additions a name answers with them in order.\<close>

lemma discover_additions:
  "discover s n = Inr es \<Longrightarrow>
   discover (fold (\<lambda>(m, e). add m e) aes s) n = Inr (es @ map snd (filter (\<lambda>(m, e). m = n) aes))"
  by (induction aes arbitrary: s es) (auto simp: discover_add split: prod.splits)

lemma discover_removed: "discover (fold (\<lambda>(m, e). add m e) (filter (\<lambda>(m, e). m \<noteq> n) aes) (remove n s)) n = Inl (ServiceNotFound n)"
proof -
  have "discover s' n = Inl (ServiceNotFound n) \<Longrightarrow>
      discover (fold (\<lambda>(m, e). add m e) (filter (\<lambda>(m, e). m \<noteq> n) aes) s') n = Inl (ServiceNotFound n)" for s'
    by (induction aes arbitrary: s') (auto simp: discover_add)
  then show ?thesis by (simp add: discover_remove)
qed

end

interpretation static: discovery_service Discover AddEndpoint RemoveService
  by unfold_locales
    (auto simp: Discover_def AddEndpoint_def RemoveService_def append_at_def get_slice_def
      split: option.splits if_splits)

end
