(* ===== verification/Client.thy ===== *)
theory Client
  imports Handshake Lifecycle Discovery
begin

text \<open>
  The plugin client, \<^verbatim>\<open>client.go\<close> and the typed dispensing of \<^verbatim>\<open>plugin.go\<close>: validation of its
  configuration, the lazy connection with discovery and handshake, dispensing, the runtime
  identity and health reports. The server behind the endpoint is an argument: \<open>handshake\<close> is what
  its handshake service answers, \<open>report\<close> what its lifecycle service answers.
\<close>

section \<open>Data\<close>

record ('a, 'h) ClientConfig =
  cl_Endpoint :: string
  cl_HostURL :: string
  cl_Plugins :: "('a, 'h) PluginSet option"
  cl_ProtocolVersion :: int
  cl_MagicCookieKey :: string
  cl_MagicCookieValue :: string
  cl_SelfID :: string
  cl_SelfVersion :: string
  cl_Metadata :: PluginMetadata
  cl_Discovery :: "(string \<Rightarrow> DiscoveryError + Endpoint list) option"
  cl_DiscoveryServiceName :: string

text \<open>A generated RPC client is the endpoint it was created for; a nil one is \<open>None\<close>.\<close>

record ('a, 'h) Client =
  c_cfg :: "('a, 'h) ClientConfig"
  c_connected :: bool
  c_closed :: bool
  c_httpClient :: http_client
  c_runtimeID :: string
  c_runtimeToken :: string
  c_lifecycleClient :: "string option"
  c_registryClient :: "string option"

datatype ClientConfigError = EndpointRequired | InvalidPlugins PluginSetError

datatype HandshakeFailure =
    HandshakeRPC string
  | CoreVersionMismatch int
  | AppVersionMismatch int int
  | PluginUnavailable string

datatype ClientError =
    ErrClientClosed
  | DiscoveryFailed DiscoveryError
  | NoEndpointsDiscovered string
  | HandshakeFailed HandshakeFailure
  | ErrPluginNotFound string
  | ConnectClientFailed string
  | NoRuntimeIdentity
  | ReportFailed string
  | WrongType string

section \<open>Configuration\<close>

text \<open>\<open>order\<close> is the order of the range in \<open>PluginSet.Validate\<close>; the receiver is changed.\<close>

definition ClientConfig_Validate ::
    "string list \<Rightarrow> ('a, 'h) ClientConfig \<Rightarrow> ('a, 'h) ClientConfig \<times> ClientConfigError option" where
  "ClientConfig_Validate order cfg =
     (if cl_Endpoint cfg = '''' \<and> cl_HostURL cfg = '''' \<and> cl_Discovery cfg = None then (cfg, Some EndpointRequired)
      else
        let cfg = (if cl_Endpoint cfg = '''' \<and> cl_HostURL cfg \<noteq> '''' then cfg\<lparr>cl_Endpoint := cl_HostURL cfg\<rparr> else cfg);
            cfg = (if cl_Discovery cfg \<noteq> None \<and> cl_DiscoveryServiceName cfg = ''''
                   then cfg\<lparr>cl_DiscoveryServiceName := ''plugin-host''\<rparr> else cfg)
        in (case cl_Plugins cfg of
              None \<Rightarrow> (cfg, None)
            | Some ps \<Rightarrow>
                if length order > 0
                then (cfg, map_option InvalidPlugins (PluginSet_Validate order ps))
                else (cfg, None)))"

definition NewClient :: "string list \<Rightarrow> ('a, 'h) ClientConfig \<Rightarrow> ClientConfigError + ('a, 'h) Client" where
  "NewClient order cfg =
     (case ClientConfig_Validate order cfg of
        (cfg', Some e) \<Rightarrow> Inl e
      | (cfg', None) \<Rightarrow>
          let cfg'' = (if cl_Endpoint cfg' = '''' \<and> cl_HostURL cfg' \<noteq> ''''
                       then cfg'\<lparr>cl_Endpoint := cl_HostURL cfg'\<rparr> else cfg')
          in Inr \<lparr>c_cfg = cfg'', c_connected = False, c_closed = False, c_httpClient = None,
                  c_runtimeID = '''', c_runtimeToken = '''', c_lifecycleClient = None, c_registryClient = None\<rparr>)"

section \<open>Connecting\<close>

definition discoverEndpoint :: "('a, 'h) Client \<Rightarrow> ('a, 'h) Client \<times> ClientError option" where
  "discoverEndpoint c =
     (let serviceName = (if cl_DiscoveryServiceName (c_cfg c) = '''' then ''plugin-host''
                         else cl_DiscoveryServiceName (c_cfg c))
      in (case cl_Discovery (c_cfg c) of
            None \<Rightarrow> (c, None)
          | Some discover \<Rightarrow>
              (case discover serviceName of
                 Inl err \<Rightarrow> (c, Some (DiscoveryFailed err))
               | Inr endpoints \<Rightarrow>
                   if length endpoints = 0 then (c, Some (NoEndpointsDiscovered serviceName))
                   else (c\<lparr>c_cfg := (c_cfg c)\<lparr>cl_Endpoint := ep_URL (endpoints ! 0),
                                            cl_HostURL := ep_URL (endpoints ! 0)\<rparr>\<rparr>, None))))"

definition pluginKeys :: "string list \<Rightarrow> ('a, 'h) PluginSet option \<Rightarrow> string list" where
  "pluginKeys order ps = (case ps of None \<Rightarrow> [] | Some m \<Rightarrow> PluginSet_Keys order m)"

definition clientVersion :: "('a, 'h) ClientConfig \<Rightarrow> int" where
  "clientVersion cfg = (if cl_ProtocolVersion cfg = 0 then 1 else cl_ProtocolVersion cfg)"

definition handshakeRequest :: "string list \<Rightarrow> ('a, 'h) ClientConfig \<Rightarrow> HandshakeRequest" where
  "handshakeRequest order cfg =
     \<lparr>hr_CoreProtocolVersion = 1, hr_AppProtocolVersion = int32 (clientVersion cfg),
      hr_MagicCookieKey = (if cl_MagicCookieKey cfg = '''' then DefaultMagicCookieKey else cl_MagicCookieKey cfg),
      hr_MagicCookieValue = (if cl_MagicCookieKey cfg = '''' then DefaultMagicCookieValue else cl_MagicCookieValue cfg),
      hr_RequestedPlugins = pluginKeys order (cl_Plugins cfg),
      hr_ClientMetadata = [''client_version'' \<mapsto> ''0.1.0''],
      hr_SelfId = cl_SelfID cfg,
      hr_SelfVersion = (if cl_SelfID cfg \<noteq> '''' then cl_SelfVersion cfg else '''')\<rparr>"

text \<open>
  \<open>availablePlugins\<close> is read for membership only, so it is the set of the names offered.
\<close>

definition doHandshake ::
    "(string \<Rightarrow> HandshakeRequest \<Rightarrow> string + HandshakeResponse) \<Rightarrow> string list \<Rightarrow> ('a, 'h) Client \<Rightarrow>
     ('a, 'h) Client \<times> HandshakeFailure option" where
  "doHandshake handshake order c =
     (case handshake (cl_Endpoint (c_cfg c)) (handshakeRequest order (c_cfg c)) of
        Inl e \<Rightarrow> (c, Some (HandshakeRPC e))
      | Inr resp \<Rightarrow>
          if hp_CoreProtocolVersion resp \<noteq> 1 then (c, Some (CoreVersionMismatch (hp_CoreProtocolVersion resp)))
          else if hp_AppProtocolVersion resp \<noteq> int32 (clientVersion (c_cfg c))
          then (c, Some (AppVersionMismatch (hp_AppProtocolVersion resp) (clientVersion (c_cfg c))))
          else
            (case find (\<lambda>requested. requested \<notin> set (map pi_Name (hp_Plugins resp)))
                    (pluginKeys order (cl_Plugins (c_cfg c))) of
               Some requested \<Rightarrow> (c, Some (PluginUnavailable requested))
             | None \<Rightarrow>
                 if hp_RuntimeId resp \<noteq> ''''
                 then (c\<lparr>c_runtimeID := hp_RuntimeId resp, c_runtimeToken := hp_RuntimeToken resp,
                         c_lifecycleClient := Some (cl_Endpoint (c_cfg c)),
                         c_registryClient := Some (cl_Endpoint (c_cfg c))\<rparr>, None)
                 else (c, None)))"

text \<open>The warning about a plaintext endpoint is only logged.\<close>

definition isNonTLSEndpoint :: "string \<Rightarrow> bool" where
  "isNonTLSEndpoint endpoint =
     (if hasPrefix endpoint ''unix://'' then False else hasPrefix endpoint ''http://'')"

definition tlsWarningsDisabled :: "string \<Rightarrow> bool" where
  "tlsWarningsDisabled env = (let val = toLower env in val = ''1'' \<or> val = ''true'' \<or> val = ''yes'')"

definition Connect ::
    "(string \<Rightarrow> HandshakeRequest \<Rightarrow> string + HandshakeResponse) \<Rightarrow> string list \<Rightarrow> ('a, 'h) Client \<Rightarrow>
     ('a, 'h) Client \<times> ClientError option" where
  "Connect handshake order c =
     (if c_closed c then (c, Some ErrClientClosed)
      else if c_connected c then (c, None)
      else
        (case (if cl_Discovery (c_cfg c) \<noteq> None \<and> cl_Endpoint (c_cfg c) = '''' then discoverEndpoint c else (c, None)) of
           (c1, Some e) \<Rightarrow> (c1, Some e)
         | (c1, None) \<Rightarrow>
             (case doHandshake handshake order (c1\<lparr>c_httpClient := Some ()\<rparr>) of
                (c2, Some e) \<Rightarrow> (c2, Some (HandshakeFailed e))
              | (c2, None) \<Rightarrow> (c2\<lparr>c_connected := True\<rparr>, None))))"

definition ensureConnected ::
    "(string \<Rightarrow> HandshakeRequest \<Rightarrow> string + HandshakeResponse) \<Rightarrow> string list \<Rightarrow> ('a, 'h) Client \<Rightarrow>
     ('a, 'h) Client \<times> ClientError option" where
  "ensureConnected handshake order c = (if c_connected c then (c, None) else Connect handshake order c)"

section \<open>Using the connection\<close>

definition Dispense ::
    "(string \<Rightarrow> HandshakeRequest \<Rightarrow> string + HandshakeResponse) \<Rightarrow> string list \<Rightarrow> string \<Rightarrow> ('a, 'h) Client \<Rightarrow>
     ('a, 'h) Client \<times> (ClientError + 'a)" where
  "Dispense handshake order name c =
     (case ensureConnected handshake order c of
        (c', Some e) \<Rightarrow> (c', Inl e)
      | (c', None) \<Rightarrow>
          (case (case cl_Plugins (c_cfg c') of None \<Rightarrow> None | Some ps \<Rightarrow> PluginSet_Get ps name) of
             None \<Rightarrow> (c', Inl (ErrPluginNotFound name))
           | Some plugin \<Rightarrow>
               (case pl_ConnectClient plugin (cl_Endpoint (c_cfg c')) (c_httpClient c') of
                  Inl e \<Rightarrow> (c', Inl (ConnectClientFailed e))
                | Inr raw \<Rightarrow> (c', Inr raw))))"

text \<open>\<open>cast\<close> is the type assertion; a panic of \<open>MustDispenseTyped\<close> is \<open>None\<close>.\<close>

definition DispenseTyped ::
    "('a \<Rightarrow> 'i option) \<Rightarrow> (string \<Rightarrow> HandshakeRequest \<Rightarrow> string + HandshakeResponse) \<Rightarrow> string list \<Rightarrow> string \<Rightarrow>
     ('a, 'h) Client \<Rightarrow> ('a, 'h) Client \<times> (ClientError + 'i)" where
  "DispenseTyped cast handshake order name c =
     (case Dispense handshake order name c of
        (c', Inl e) \<Rightarrow> (c', Inl e)
      | (c', Inr raw) \<Rightarrow> (c', case cast raw of None \<Rightarrow> Inl (WrongType name) | Some typed \<Rightarrow> Inr typed))"

definition MustDispenseTyped ::
    "('a \<Rightarrow> 'i option) \<Rightarrow> (string \<Rightarrow> HandshakeRequest \<Rightarrow> string + HandshakeResponse) \<Rightarrow> string list \<Rightarrow> string \<Rightarrow>
     ('a, 'h) Client \<Rightarrow> (('a, 'h) Client \<times> 'i) option" where
  "MustDispenseTyped cast handshake order name c =
     (case DispenseTyped cast handshake order name c of
        (c', Inl e) \<Rightarrow> None
      | (c', Inr typed) \<Rightarrow> Some (c', typed))"

definition SetRuntimeIdentity :: "string \<Rightarrow> string \<Rightarrow> string \<Rightarrow> ('a, 'h) Client \<Rightarrow> ('a, 'h) Client" where
  "SetRuntimeIdentity runtimeID runtimeToken hostURL c =
     (let c1 = c\<lparr>c_runtimeID := runtimeID, c_runtimeToken := runtimeToken\<rparr>;
          c2 = (if hostURL \<noteq> '''' \<and> cl_Endpoint (c_cfg c1) \<noteq> hostURL
                then c1\<lparr>c_cfg := (c_cfg c1)\<lparr>cl_Endpoint := hostURL, cl_HostURL := hostURL\<rparr>\<rparr> else c1)
      in if c_lifecycleClient c2 = None \<and> c_httpClient c2 \<noteq> None
         then c2\<lparr>c_lifecycleClient := Some (cl_Endpoint (c_cfg c2)),
                 c_registryClient := Some (cl_Endpoint (c_cfg c2))\<rparr>
         else c2)"

definition identityHeader :: "string \<Rightarrow> string \<Rightarrow> http_header" where
  "identityHeader runtimeID runtimeToken =
     header_set (header_set Map.empty ''X-Plugin-Runtime-ID'' runtimeID)
       ''Authorization'' (''Bearer '' @ runtimeToken)"

definition Client_ReportHealth ::
    "(string \<Rightarrow> http_header \<Rightarrow> ReportHealthRequest \<Rightarrow> string option) \<Rightarrow>
     HealthState \<Rightarrow> string \<Rightarrow> string list \<Rightarrow> ('a, 'h) Client \<Rightarrow> ClientError option" where
  "Client_ReportHealth report state reason unavailableDeps c =
     (case c_lifecycleClient c of
        None \<Rightarrow> Some NoRuntimeIdentity
      | Some endpoint \<Rightarrow>
          map_option ReportFailed
            (report endpoint (identityHeader (c_runtimeID c) (c_runtimeToken c))
               \<lparr>rhr_State = state, rhr_Reason = reason, rhr_UnavailableDependencies = unavailableDeps\<rparr>))"

definition Client_Close :: "('a, 'h) Client \<Rightarrow> ('a, 'h) Client" where
  "Client_Close c = (if c_closed c then c else c\<lparr>c_closed := True\<rparr>)"

section \<open>What connecting does\<close>

lemma doHandshake_frame:
  "doHandshake hs order c = (c', Some e) \<Longrightarrow> c' = c"
  by (auto simp: doHandshake_def split: sum.splits option.splits if_splits)

lemma discoverEndpoint_frame:
  "c_connected (fst (discoverEndpoint c)) = c_connected c"
  "c_runtimeID (fst (discoverEndpoint c)) = c_runtimeID c"
  "c_runtimeToken (fst (discoverEndpoint c)) = c_runtimeToken c"
  by (auto simp: discoverEndpoint_def Let_def split: option.splits sum.splits)

text \<open>A failure leaves the client unconnected and without a new identity.\<close>

lemma Connect_fails:
  assumes "Connect hs order c = (c', Some e)"
  shows "c_connected c' = c_connected c \<and> c_runtimeID c' = c_runtimeID c \<and> c_runtimeToken c' = c_runtimeToken c"
proof (cases "c_closed c \<or> c_connected c")
  case True
  then show ?thesis using assms by (auto simp: Connect_def split: if_splits)
next
  case False
  define d where "d = (if cl_Discovery (c_cfg c) \<noteq> None \<and> cl_Endpoint (c_cfg c) = '''' then discoverEndpoint c else (c, None))"
  have fr: "c_connected (fst d) = c_connected c" "c_runtimeID (fst d) = c_runtimeID c"
    "c_runtimeToken (fst d) = c_runtimeToken c"
    by (auto simp: d_def discoverEndpoint_frame)
  have "(case d of (c1, Some e) \<Rightarrow> (c1, Some e)
         | (c1, None) \<Rightarrow>
             (case doHandshake hs order (c1\<lparr>c_httpClient := Some ()\<rparr>) of
                (c2, Some e) \<Rightarrow> (c2, Some (HandshakeFailed e))
              | (c2, None) \<Rightarrow> (c2\<lparr>c_connected := True\<rparr>, None))) = (c', Some e)"
    using assms False by (simp add: Connect_def d_def)
  then show ?thesis
    using fr by (auto split: prod.splits option.splits dest!: doHandshake_frame)
qed

lemma Connect_connected: "Connect hs order c = (c', None) \<Longrightarrow> c_connected c' \<or> c' = c \<and> c_connected c"
  by (auto simp: Connect_def split: if_splits prod.splits option.splits)

lemma Connect_idem: "Connect hs order c = (c', None) \<Longrightarrow> \<not> c_closed c' \<Longrightarrow> Connect hs' order' c' = (c', None)"
  using Connect_connected [of hs order c c'] by (auto simp: Connect_def)

lemma doHandshake_closed: "c_closed (fst (doHandshake hs order c)) = c_closed c"
  by (auto simp: doHandshake_def split: sum.splits option.splits if_splits)

text \<open>A client that is connected dispenses even after it was closed.\<close>

lemma Dispense_after_Close:
  assumes "c_connected c" and "cl_Plugins (c_cfg c) = Some ps" and "ps name = Some plugin"
    and "pl_ConnectClient plugin (cl_Endpoint (c_cfg c)) (c_httpClient c) = Inr impl"
  shows "snd (Dispense hs order name (Client_Close c)) = Inr impl"
  using assms by (simp add: Dispense_def ensureConnected_def Client_Close_def PluginSet_Get_def)

lemma Dispense_closed:
  "\<not> c_connected c \<Longrightarrow> Dispense hs order name (Client_Close c) = (Client_Close c, Inl ErrClientClosed)"
  by (simp add: Dispense_def ensureConnected_def Client_Close_def Connect_def)

section \<open>Client against server\<close>

text \<open>
  The two sides agree on cookie and version when their configurations do; the versions may
  differ by a multiple of \<open>2^32\<close>.
\<close>

definition compatible_cfg :: "('a, 'h) ClientConfig \<Rightarrow> ('a, 'h, 'm) ServeConfig_scheme \<Rightarrow> bool" where
  "compatible_cfg ccfg scfg \<longleftrightarrow>
     (if cl_MagicCookieKey ccfg = '''' then (DefaultMagicCookieKey, DefaultMagicCookieValue)
      else (cl_MagicCookieKey ccfg, cl_MagicCookieValue ccfg)) = expectedCookie scfg \<and>
     clientVersion ccfg mod 2 ^ 32 = serverVersion scfg mod 2 ^ 32"

lemma compatible_protocolOk:
  "protocolOk scfg (handshakeRequest order ccfg) \<longleftrightarrow> compatible_cfg ccfg scfg"
  by (auto simp: protocolOk_def compatible_cfg_def handshakeRequest_def int32_eq_iff)

text \<open>The server's handler as the client's remote procedure; the text of an error is not read.\<close>

definition serve_handshake ::
    "(HandshakeRequest \<Rightarrow> HandshakeServer \<times> (HandshakeError connect_error + HandshakeResponse)) \<Rightarrow>
     string \<Rightarrow> HandshakeRequest \<Rightarrow> string + HandshakeResponse" where
  "serve_handshake h endpoint req = (case snd (h req) of Inl e \<Rightarrow> Inl ''handshake rejected'' | Inr resp \<Rightarrow> Inr resp)"

lemma set_pluginKeys:
  "cl_Plugins cfg = Some ps \<Longrightarrow> iter_order ps order \<Longrightarrow> set (pluginKeys order (cl_Plugins cfg)) = dom ps"
  by (simp add: pluginKeys_def set_PluginSet_Keys)

lemma doHandshake_served:
  assumes "snd (h (handshakeRequest order (c_cfg c))) = Inr resp"
    and "hp_CoreProtocolVersion resp = 1" and "hp_AppProtocolVersion resp = int32 (clientVersion (c_cfg c))"
    and "set (pluginKeys order (cl_Plugins (c_cfg c))) \<subseteq> set (map pi_Name (hp_Plugins resp))"
    and "hp_RuntimeId resp \<noteq> ''''"
  shows "doHandshake (serve_handshake h) order c =
    (c\<lparr>c_runtimeID := hp_RuntimeId resp, c_runtimeToken := hp_RuntimeToken resp,
       c_lifecycleClient := Some (cl_Endpoint (c_cfg c)), c_registryClient := Some (cl_Endpoint (c_cfg c))\<rparr>, None)"
proof -
  have "find (\<lambda>requested. requested \<notin> set (map pi_Name (hp_Plugins resp)))
      (pluginKeys order (cl_Plugins (c_cfg c))) = None"
    using assms(4) by (auto simp: find_None_iff)
  then show ?thesis
    using assms(1-3,5) by (simp add: doHandshake_def serve_handshake_def)
qed

text \<open>C9. The handshake end to end: a client with a compatible configuration and a valid self id, whose
  plugins the server has, connects, and the identity it stores is one the server accepts until
  the token's lifetime is over.\<close>
theorem client_server_handshake:
  assumes comp: "compatible_cfg (c_cfg c) scfg" and self: "ValidateSelfID (cl_SelfID (c_cfg c)) = None"
    and rnd: "rnd1 \<noteq> None" "rnd2 \<noteq> None"
    and new: "\<not> c_closed c" "\<not> c_connected c" "cl_Endpoint (c_cfg c) \<noteq> ''''"
    and plugins: "cl_Plugins (c_cfg c) = Some ps" "iter_order ps order" "cfg_Plugins scfg = Some sps"
      "dom ps \<subseteq> dom sps" "\<forall>n\<in>dom sps. name_of sps n = n"
    and ttl: "now \<le> t" "t \<le> now + tokenTTL scfg"
  shows "\<exists>hs' c'. Connect (serve_handshake (\<lambda>req. Handshake scfg broker capOrder rnd1 rnd2 now req hs)) order c = (c', None) \<and>
     fst (Handshake scfg broker capOrder rnd1 rnd2 now (handshakeRequest order (c_cfg c)) hs) = hs' \<and>
     c_connected c' \<and> c_runtimeID c' \<noteq> '''' \<and> snd (ValidateToken t (c_runtimeID c') (c_runtimeToken c') hs')"
proof -
  let ?req = "handshakeRequest order (c_cfg c)"
  let ?h = "\<lambda>req. Handshake scfg broker capOrder rnd1 rnd2 now req hs"
  have sid: "hr_SelfId ?req = cl_SelfID (c_cfg c)" by (simp add: handshakeRequest_def)
  have ne: "hr_SelfId ?req \<noteq> ''''" using self by (auto simp: sid ValidateSelfID_def)
  have pok: "protocolOk scfg ?req" using comp by (simp add: compatible_protocolOk)
  obtain hs' resp where ok: "?h ?req = (hs', Inr resp)"
    using Handshake_accepts [OF pok, of rnd1 rnd2 broker capOrder now hs] self rnd by (auto simp: sid)
  note H = Handshake_ok [OF ok]
  have rid: "hp_RuntimeId resp \<noteq> ''''"
    using H assignIdentity_ok [of "tokenTTL scfg" rnd1 rnd2 now "hr_SelfId ?req" hs hs'] ne generateRuntimeID_nonempty
    by blast
  have keys: "hr_RequestedPlugins ?req = pluginKeys order (cl_Plugins (c_cfg c))"
    by (simp add: handshakeRequest_def)
  have "set (map pi_Name (hp_Plugins resp)) = set (pluginKeys order (cl_Plugins (c_cfg c)))"
  proof -
    have "map pi_Name (hp_Plugins resp) =
        map (\<lambda>n. pm_Name (pl_Metadata (the (sps n)))) (filter (\<lambda>n. sps n \<noteq> None) (pluginKeys order (cl_Plugins (c_cfg c))))"
      using H by (simp add: plugins(3) keys set_buildPlugins)
    moreover have "set (pluginKeys order (cl_Plugins (c_cfg c))) \<subseteq> dom sps"
      using set_pluginKeys [OF plugins(1,2)] plugins(4) by simp
    ultimately show ?thesis using plugins(5) by (force simp: name_of_def)
  qed
  moreover have "hp_AppProtocolVersion resp = int32 (clientVersion (c_cfg c))"
    using H by (simp add: handshakeRequest_def)
  ultimately have "doHandshake (serve_handshake ?h) order (c\<lparr>c_httpClient := Some ()\<rparr>) =
      (c\<lparr>c_httpClient := Some (), c_runtimeID := hp_RuntimeId resp, c_runtimeToken := hp_RuntimeToken resp,
         c_lifecycleClient := Some (cl_Endpoint (c_cfg c)), c_registryClient := Some (cl_Endpoint (c_cfg c))\<rparr>, None)"
    using doHandshake_served [of ?h order "c\<lparr>c_httpClient := Some ()\<rparr>" resp] ok H rid by simp
  then have con: "Connect (serve_handshake ?h) order c =
      (c\<lparr>c_httpClient := Some (), c_runtimeID := hp_RuntimeId resp, c_runtimeToken := hp_RuntimeToken resp,
         c_lifecycleClient := Some (cl_Endpoint (c_cfg c)), c_registryClient := Some (cl_Endpoint (c_cfg c)),
         c_connected := True\<rparr>, None)"
    using new by (simp add: Connect_def)
  have "snd (ValidateToken t (hp_RuntimeId resp) (hp_RuntimeToken resp) hs')"
    using Handshake_issues [OF ok ne] ttl tokens.issued_valid [of "[]" t "now + tokenTTL scfg"] by simp
  then show ?thesis using con ok rid by simp
qed

definition example_client :: "(unit, unit) Client" where
  "example_client = \<lparr>c_cfg = \<lparr>cl_Endpoint = ''http://localhost:8080'', cl_HostURL = '''', cl_Plugins = Some Map.empty,
       cl_ProtocolVersion = 0, cl_MagicCookieKey = '''', cl_MagicCookieValue = '''', cl_SelfID = ''kv'',
       cl_SelfVersion = ''1.0.0'',
       cl_Metadata = \<lparr>pm_Name = ''kv'', pm_Path = '''', pm_Version = '''', pm_Provides = [], pm_Requires = []\<rparr>,
       cl_Discovery = None, cl_DiscoveryServiceName = ''''\<rparr>,
     c_connected = False, c_closed = False, c_httpClient = None, c_runtimeID = '''', c_runtimeToken = '''',
     c_lifecycleClient = None, c_registryClient = None\<rparr>"

lemma client_server_handshake_witness:
  "\<exists>c'. Connect (serve_handshake (\<lambda>req. Handshake example_config None [] (Some ''ab'')
       (Some ''0123456789abcdef0123456789abcdef'') 10 req NewHandshakeServer)) [] example_client = (c', None) \<and>
     c_runtimeID c' \<noteq> ''''"
proof -
  have v: "ValidateSelfID (cl_SelfID (c_cfg example_client)) = None" by (simp add: example_client_def) code_simp
  have comp: "compatible_cfg (c_cfg example_client) example_config"
    by (simp add: compatible_cfg_def example_client_def example_config_def expectedCookie_def clientVersion_def serverVersion_def)
  have new: "\<not> c_closed example_client" "\<not> c_connected example_client" "cl_Endpoint (c_cfg example_client) \<noteq> ''''"
    and pl: "cl_Plugins (c_cfg example_client) = Some Map.empty"
    by (simp_all add: example_client_def)
  have sp: "cfg_Plugins example_config = Some Map.empty" by (simp add: example_config_def)
  have io: "iter_order Map.empty []" by (simp add: iter_order_def)
  have ttl: "(10 :: time) \<le> 10 + tokenTTL example_config"
    using tokenTTL_pos [of example_config] by simp
  have sub: "dom (Map.empty :: (unit, unit) PluginSet) \<subseteq> dom (Map.empty :: (unit, unit) PluginSet)"
    "\<forall>n\<in>dom (Map.empty :: (unit, unit) PluginSet). name_of Map.empty n = n" by simp_all
  have rnd: "Some ''ab'' \<noteq> None" "Some ''0123456789abcdef0123456789abcdef'' \<noteq> None" by simp_all
  obtain c' where "Connect (serve_handshake (\<lambda>req. Handshake example_config None [] (Some ''ab'')
       (Some ''0123456789abcdef0123456789abcdef'') 10 req NewHandshakeServer)) [] example_client = (c', None)"
    and "c_runtimeID c' \<noteq> ''''"
    using client_server_handshake [OF comp v rnd new pl io sp sub order_refl ttl, where broker = None
        and capOrder = "[]" and hs = NewHandshakeServer]
    by (elim exE conjE) (rule that)
  then show ?thesis by (intro exI conjI)
qed

end
