(* ===== verification/Health.thy ===== *)
theory Health
  imports GoRuntime
begin

text \<open>
  The health service, \<^verbatim>\<open>health.go\<close>: the status per service, the watchers with their one-place
  channels, the shutdown, and the two Kubernetes probes. A watcher is compared by its address,
  modelled by the number \<open>hw_id\<close>; the variable \<open>lastSent\<close> of its stream loop is kept with it.
  The invariant says that no watcher can miss the last status of its service.
\<close>

section \<open>Data\<close>

text \<open>The protobuf enum is open.\<close>

datatype ServingStatus =
    SERVING_STATUS_UNSPECIFIED | SERVING_STATUS_SERVING | SERVING_STATUS_NOT_SERVING
  | SERVING_STATUS_SERVICE_UNKNOWN | SERVING_STATUS_other int

record healthWatcher =
  hw_id :: nat
  hw_ch :: "ServingStatus list"
  hw_lastSent :: ServingStatus

record HealthServer =
  hl_shutdown :: bool
  hl_statusMap :: "(string, ServingStatus) gomap"
  hl_watchers :: "(string, healthWatcher list) gomap"

datatype HealthError = UnknownService string

section \<open>Operations\<close>

definition NewHealthServer :: HealthServer where
  "NewHealthServer = \<lparr>hl_shutdown = False, hl_statusMap = ['''' \<mapsto> SERVING_STATUS_SERVING],
                      hl_watchers = Map.empty\<rparr>"

definition Check :: "HealthServer \<Rightarrow> string \<Rightarrow> HealthError connect_error + ServingStatus" where
  "Check h service =
     (case hl_statusMap h service of
        None \<Rightarrow> Inl (NewError CodeNotFound (UnknownService service))
      | Some status \<Rightarrow> Inr status)"

definition statusOrUnknown :: "HealthServer \<Rightarrow> string \<Rightarrow> ServingStatus" where
  "statusOrUnknown h service =
     (case hl_statusMap h service of None \<Rightarrow> SERVING_STATUS_SERVICE_UNKNOWN | Some status \<Rightarrow> status)"

text \<open>\<open>Watch\<close> under the lock, a round of its stream loop (the event sent, if any), its cleanup.\<close>

definition Watch_start :: "nat \<Rightarrow> string \<Rightarrow> HealthServer \<Rightarrow> HealthServer" where
  "Watch_start i service h =
     h\<lparr>hl_watchers := append_at (hl_watchers h) service
        \<lparr>hw_id = i, hw_ch = [statusOrUnknown h service], hw_lastSent = SERVING_STATUS_other (-1)\<rparr>\<rparr>"

definition receive :: "healthWatcher \<Rightarrow> (healthWatcher \<times> ServingStatus option) option" where
  "receive w =
     (case hw_ch w of
        [] \<Rightarrow> None
      | status # rest \<Rightarrow>
          let w = w\<lparr>hw_ch := rest\<rparr>
          in if status = hw_lastSent w then Some (w, None)
             else Some (w\<lparr>hw_lastSent := status\<rparr>, Some status))"

definition Watch_recv :: "nat \<Rightarrow> string \<Rightarrow> HealthServer \<Rightarrow> (ServingStatus option \<times> HealthServer) option" where
  "Watch_recv i service h =
     (case find (\<lambda>w. hw_id w = i) (get_slice (hl_watchers h) service) of
        None \<Rightarrow> None
      | Some w \<Rightarrow>
          (case receive w of
             None \<Rightarrow> None
           | Some (w', sent) \<Rightarrow>
               Some (sent, h\<lparr>hl_watchers := (hl_watchers h)(service \<mapsto>
                 map (\<lambda>v. if hw_id v = i then w' else v) (get_slice (hl_watchers h) service))\<rparr>)))"

definition Watch_exit :: "nat \<Rightarrow> string \<Rightarrow> HealthServer \<Rightarrow> HealthServer" where
  "Watch_exit i service h =
     (let watchers = get_slice (hl_watchers h) service
      in if \<exists>w\<in>set watchers. hw_id w = i
         then h\<lparr>hl_watchers := (hl_watchers h)(service \<mapsto> remove_first (\<lambda>w. hw_id w = i) watchers)\<rparr>
         else h)"

text \<open>Clear the old status out of the channel, then send the new one without waiting.\<close>

definition notify :: "ServingStatus \<Rightarrow> healthWatcher \<Rightarrow> healthWatcher" where
  "notify status w = w\<lparr>hw_ch := try_send 1 status (try_recv (hw_ch w))\<rparr>"

definition setStatusLocked :: "string \<Rightarrow> ServingStatus \<Rightarrow> HealthServer \<Rightarrow> HealthServer" where
  "setStatusLocked service status h =
     h\<lparr>hl_statusMap := (hl_statusMap h)(service \<mapsto> status),
       hl_watchers := (case hl_watchers h service of
                         None \<Rightarrow> hl_watchers h
                       | Some ws \<Rightarrow> (hl_watchers h)(service \<mapsto> map (notify status) ws))\<rparr>"

definition SetServingStatus :: "string \<Rightarrow> ServingStatus \<Rightarrow> HealthServer \<Rightarrow> HealthServer" where
  "SetServingStatus service status h =
     (if hl_shutdown h then h else setStatusLocked service status h)"

text \<open>\<open>order\<close> is the order of the range over the statuses.\<close>

definition Shutdown :: "string list \<Rightarrow> HealthServer \<Rightarrow> HealthServer" where
  "Shutdown order h =
     fold (\<lambda>service h. setStatusLocked service SERVING_STATUS_NOT_SERVING h) order (h\<lparr>hl_shutdown := True\<rparr>)"

text \<open>The probes: status code and body.\<close>

definition healthz :: "HealthServer \<Rightarrow> int \<times> string" where
  "healthz h = (StatusOK, ''ok'')"

definition readyz :: "HealthServer \<Rightarrow> int \<times> string" where
  "readyz h =
     (case Check h '''' of
        Inl e \<Rightarrow> (StatusServiceUnavailable, ''not ready'')
      | Inr status \<Rightarrow>
          if status \<noteq> SERVING_STATUS_SERVING then (StatusServiceUnavailable, ''not ready'')
          else (StatusOK, ''ready''))"

section \<open>The invariant\<close>

text \<open>
  What a watcher still has to receive is the present status of its service; when there is
  nothing to receive, the present status is the last one it took.
\<close>

definition current :: "ServingStatus \<Rightarrow> healthWatcher \<Rightarrow> bool" where
  "current status w \<longleftrightarrow> hw_ch w = [status] \<or> hw_ch w = [] \<and> hw_lastSent w = status"

definition health_inv :: "HealthServer \<Rightarrow> bool" where
  "health_inv h \<longleftrightarrow> finite (dom (hl_statusMap h)) \<and>
     (\<forall>s. distinct (map hw_id (get_slice (hl_watchers h) s)) \<and>
          (\<forall>w\<in>set (get_slice (hl_watchers h) s). current (statusOrUnknown h s) w)) \<and>
     (hl_shutdown h \<longrightarrow> (\<forall>s st. hl_statusMap h s = Some st \<longrightarrow> st = SERVING_STATUS_NOT_SERVING))"

lemma statusOrUnknown_upd [simp]:
  "statusOrUnknown (h\<lparr>hl_watchers := ws\<rparr>) = statusOrUnknown h"
  "statusOrUnknown (h\<lparr>hl_shutdown := b\<rparr>) = statusOrUnknown h"
  by (simp_all add: fun_eq_iff statusOrUnknown_def)

lemma current_notify: "current st w \<Longrightarrow> current st' (notify st' w)"
  by (auto simp: current_def notify_def try_send_def try_recv_def)

lemma notify_id [simp]: "hw_id (notify st w) = hw_id w"
  by (simp add: notify_def)

lemma get_slice_setStatusLocked:
  "get_slice (hl_watchers (setStatusLocked s st h)) s' =
     (if s' = s then map (notify st) (get_slice (hl_watchers h) s) else get_slice (hl_watchers h) s')"
  by (auto simp: setStatusLocked_def get_slice_def split: option.splits)

lemma statusOrUnknown_setStatusLocked:
  "statusOrUnknown (setStatusLocked s st h) s' = (if s' = s then st else statusOrUnknown h s')"
  by (simp add: statusOrUnknown_def setStatusLocked_def)

lemma watchers_ok_setStatusLocked:
  assumes "\<forall>s. distinct (map hw_id (get_slice (hl_watchers h) s)) \<and>
          (\<forall>w\<in>set (get_slice (hl_watchers h) s). current (statusOrUnknown h s) w)"
  shows "\<forall>s. distinct (map hw_id (get_slice (hl_watchers (setStatusLocked t st h)) s)) \<and>
          (\<forall>w\<in>set (get_slice (hl_watchers (setStatusLocked t st h)) s). current (statusOrUnknown (setStatusLocked t st h) s) w)"
  using assms
  by (auto simp: get_slice_setStatusLocked statusOrUnknown_setStatusLocked comp_def intro: current_notify)

lemma health_inv_SetServingStatus: "health_inv h \<Longrightarrow> health_inv (SetServingStatus s st h)"
proof (cases "hl_shutdown h")
  case False
  assume inv: "health_inv h"
  then have "\<forall>s. distinct (map hw_id (get_slice (hl_watchers h) s)) \<and>
          (\<forall>w\<in>set (get_slice (hl_watchers h) s). current (statusOrUnknown h s) w)"
    by (auto simp: health_inv_def)
  from watchers_ok_setStatusLocked [OF this, of s st] show ?thesis
    using inv False by (auto simp: health_inv_def SetServingStatus_def setStatusLocked_def)
qed (simp add: SetServingStatus_def)

lemma Shutdown_fold:
  fixes order :: "string list"
  assumes "\<forall>s. distinct (map hw_id (get_slice (hl_watchers h) s)) \<and>
          (\<forall>w\<in>set (get_slice (hl_watchers h) s). current (statusOrUnknown h s) w)"
  defines "h' \<equiv> fold (\<lambda>s h. setStatusLocked s SERVING_STATUS_NOT_SERVING h) order h"
  shows "(\<forall>s. distinct (map hw_id (get_slice (hl_watchers h') s)) \<and>
          (\<forall>w\<in>set (get_slice (hl_watchers h') s). current (statusOrUnknown h' s) w)) \<and>
     hl_shutdown h' = hl_shutdown h \<and>
     hl_statusMap h' = (\<lambda>s. if s \<in> set order then Some SERVING_STATUS_NOT_SERVING else hl_statusMap h s)"
  using assms(1) unfolding h'_def
proof (induction order arbitrary: h)
  case Nil
  then show ?case by simp
next
  case (Cons t order)
  let ?h = "setStatusLocked t SERVING_STATUS_NOT_SERVING h"
  have "hl_shutdown ?h = hl_shutdown h" "hl_statusMap ?h = (hl_statusMap h)(t \<mapsto> SERVING_STATUS_NOT_SERVING)"
    by (simp_all add: setStatusLocked_def)
  then show ?case
    using Cons.IH [OF watchers_ok_setStatusLocked [OF Cons.prems]] by (auto simp: fun_eq_iff)
qed

lemma Shutdown_correct:
  assumes inv: "health_inv h" and order: "iter_order (hl_statusMap h) order"
  shows "health_inv (Shutdown order h) \<and> hl_shutdown (Shutdown order h) \<and>
    (\<forall>s. hl_statusMap (Shutdown order h) s =
       map_option (\<lambda>_. SERVING_STATUS_NOT_SERVING) (hl_statusMap h s))"
proof -
  let ?h = "h\<lparr>hl_shutdown := True\<rparr>"
  have "statusOrUnknown ?h = statusOrUnknown h" by (simp add: fun_eq_iff statusOrUnknown_def)
  then have "\<forall>s. distinct (map hw_id (get_slice (hl_watchers ?h) s)) \<and>
          (\<forall>w\<in>set (get_slice (hl_watchers ?h) s). current (statusOrUnknown ?h s) w)"
    using inv by (simp add: health_inv_def)
  note F = Shutdown_fold [OF this, of order, folded Shutdown_def]
  have m: "hl_statusMap (Shutdown order h) s = map_option (\<lambda>_. SERVING_STATUS_NOT_SERVING) (hl_statusMap h s)" for s
    using F iter_order_dom [OF order] by (cases "hl_statusMap h s") auto
  have "dom (hl_statusMap (Shutdown order h)) = dom (hl_statusMap h)"
    by (auto simp: m dom_def)
  then show ?thesis
    using F inv m by (auto simp: health_inv_def)
qed

lemma health_inv_start:
  assumes "health_inv h" and "i \<notin> hw_id ` set (get_slice (hl_watchers h) s)"
  shows "health_inv (Watch_start i s h)"
proof -
  have "statusOrUnknown (Watch_start i s h) = statusOrUnknown h"
    by (simp add: fun_eq_iff statusOrUnknown_def Watch_start_def)
  then show ?thesis
    using assms by (auto simp: health_inv_def Watch_start_def current_def)
qed

lemma receive_current:
  "current st w \<Longrightarrow> receive w = Some (w', sent) \<Longrightarrow>
   current st w' \<and> hw_id w' = hw_id w \<and> hw_ch w' = [] \<and> hw_lastSent w' = st \<and>
   sent = (if hw_lastSent w = st then None else Some st)"
  by (auto simp: current_def receive_def Let_def split: if_splits)

lemma health_inv_recv:
  assumes inv: "health_inv h" and "Watch_recv i s h = Some (sent, h')"
  shows "health_inv h'"
proof -
  obtain w w' where w: "find (\<lambda>w. hw_id w = i) (get_slice (hl_watchers h) s) = Some w"
    and r: "receive w = Some (w', sent)"
    and h': "h' = h\<lparr>hl_watchers := (hl_watchers h)(s \<mapsto>
                 map (\<lambda>v. if hw_id v = i then w' else v) (get_slice (hl_watchers h) s))\<rparr>"
    using assms(2) by (auto simp: Watch_recv_def split: option.splits)
  have in_s: "w \<in> set (get_slice (hl_watchers h) s)" and i: "hw_id w = i"
    using w by (auto simp: find_Some_iff)
  then have "current (statusOrUnknown h s) w" using inv by (auto simp: health_inv_def)
  note c = receive_current [OF this r]
  have "map hw_id (map (\<lambda>v. if hw_id v = i then w' else v) ws) = map hw_id ws" for ws
    using c i by (auto simp: comp_def)
  then show ?thesis
    using inv c by (auto simp: health_inv_def h' simp del: map_map)
qed

lemma health_inv_exit: "health_inv h \<Longrightarrow> health_inv (Watch_exit i s h)"
proof -
  assume inv: "health_inv h"
  have "statusOrUnknown (Watch_exit i s h) = statusOrUnknown h"
    by (simp add: fun_eq_iff statusOrUnknown_def Watch_exit_def Let_def)
  then show ?thesis using inv
    by (auto simp: health_inv_def Watch_exit_def Let_def remove_first_key distinct_map_filter)
qed

section \<open>The service as a component\<close>

inductive health_step :: "HealthServer \<Rightarrow> HealthServer \<Rightarrow> bool" where
  hs_set: "health_step h (SetServingStatus s st h)"
| hs_shutdown: "iter_order (hl_statusMap h) order \<Longrightarrow> health_step h (Shutdown order h)"
| hs_start: "i \<notin> hw_id ` set (get_slice (hl_watchers h) s) \<Longrightarrow> health_step h (Watch_start i s h)"
| hs_recv: "Watch_recv i s h = Some (sent, h') \<Longrightarrow> health_step h h'"
| hs_exit: "health_step h (Watch_exit i s h)"

interpretation hl: safe_component "\<lambda>h. h = NewHealthServer" health_step health_inv
proof unfold_locales
  show "h = NewHealthServer \<Longrightarrow> health_inv h" for h
    by (simp add: NewHealthServer_def health_inv_def)
  show "health_inv h \<Longrightarrow> health_step h h' \<Longrightarrow> health_inv h'" for h h'
    by (elim health_step.cases)
      (auto simp: health_inv_SetServingStatus Shutdown_correct health_inv_start health_inv_recv health_inv_exit)
qed

text \<open>After the shutdown no operation makes a service ready again.\<close>

lemma shutdown_stays:
  "reach (\<lambda>h. health_inv h \<and> hl_shutdown h) health_step h \<Longrightarrow> health_inv h \<and> hl_shutdown h"
proof (induction rule: reach.induct)
  case (reach_step h h')
  then have "health_inv h'" using hl.step_inv by blast
  moreover have "hl_shutdown h'"
    using reach_step.hyps(2) reach_step.IH
    by cases (auto simp: SetServingStatus_def Watch_start_def Watch_exit_def Watch_recv_def Let_def
        Shutdown_correct split: option.splits)
  ultimately show ?case by simp
qed simp

section \<open>Properties\<close>

text \<open>C26. No watcher of the health service can miss the last status: in every reachable state each
  watcher either has the present status of its service in its channel, alone, or has an
  empty channel and the present status is the last it took.\<close>
theorem watchers_current:
  assumes "reach (\<lambda>h. h = NewHealthServer) health_step h" and "w \<in> set (get_slice (hl_watchers h) s)"
  shows "hw_ch w = [statusOrUnknown h s] \<or> hw_ch w = [] \<and> hw_lastSent w = statusOrUnknown h s"
  using hl.reach_inv [OF assms(1)] assms(2) by (auto simp: health_inv_def current_def)

text \<open>A watcher of an unknown service, which is then set to serving.\<close>

lemma example_watch:
  "reach (\<lambda>h. h = NewHealthServer) health_step
     (SetServingStatus ''kv'' SERVING_STATUS_SERVING (Watch_start 1 ''kv'' NewHealthServer))"
proof -
  have "health_step NewHealthServer (Watch_start 1 ''kv'' NewHealthServer)"
    by (rule hs_start) (simp add: NewHealthServer_def)
  with reach_init [of "\<lambda>h. h = NewHealthServer" NewHealthServer health_step]
  have "reach (\<lambda>h. h = NewHealthServer) health_step (Watch_start 1 ''kv'' NewHealthServer)"
    by (auto intro: reach_step)
  then show ?thesis by (rule reach_step) (rule hs_set)
qed

lemma watchers_current_witness:
  "get_slice (hl_watchers (SetServingStatus ''kv'' SERVING_STATUS_SERVING (Watch_start 1 ''kv'' NewHealthServer))) ''kv'' =
     [\<lparr>hw_id = 1, hw_ch = [SERVING_STATUS_SERVING], hw_lastSent = SERVING_STATUS_other (-1)\<rparr>]"
proof -
  let ?h = "SetServingStatus ''kv'' SERVING_STATUS_SERVING (Watch_start 1 ''kv'' NewHealthServer)"
  obtain w where w: "get_slice (hl_watchers ?h) ''kv'' = [w]" "hw_id w = 1" "hw_lastSent w = SERVING_STATUS_other (-1)"
    by (simp add: SetServingStatus_def setStatusLocked_def Watch_start_def NewHealthServer_def append_at_def get_slice_def notify_def)
  moreover have "statusOrUnknown ?h ''kv'' = SERVING_STATUS_SERVING"
    by (simp add: statusOrUnknown_def SetServingStatus_def setStatusLocked_def Watch_start_def NewHealthServer_def)
  ultimately show ?thesis using watchers_current [OF example_watch, of w "''kv''"] by (cases w) auto
qed

text \<open>The shutdown of the health service is final: in every state after it, whatever is set or
  watched, every known service is not serving and the readiness probe answers 503.\<close>
theorem shutdown_final:
  assumes "reach (\<lambda>h. h = NewHealthServer) health_step h" and "iter_order (hl_statusMap h) order"
    and "reach (\<lambda>h'. h' = Shutdown order h) health_step h'"
  shows "(\<forall>s st. hl_statusMap h' s = Some st \<longrightarrow> st = SERVING_STATUS_NOT_SERVING) \<and>
    fst (readyz h') = StatusServiceUnavailable"
proof -
  have "health_inv (Shutdown order h) \<and> hl_shutdown (Shutdown order h)"
    using Shutdown_correct [OF hl.reach_inv [OF assms(1)] assms(2)] by blast
  then have "reach (\<lambda>h. health_inv h \<and> hl_shutdown h) health_step h'"
    by (intro reach_mono [OF assms(3)]) simp
  then have "health_inv h' \<and> hl_shutdown h'" by (rule shutdown_stays)
  then have ns: "\<forall>s st. hl_statusMap h' s = Some st \<longrightarrow> st = SERVING_STATUS_NOT_SERVING"
    by (simp add: health_inv_def)
  then show ?thesis by (auto simp: readyz_def Check_def split: option.split)
qed

lemma shutdown_final_witness:
  "fst (readyz (SetServingStatus '''' SERVING_STATUS_SERVING (Shutdown [''''] NewHealthServer))) = 503"
proof -
  have "reach (\<lambda>h. h = NewHealthServer) health_step NewHealthServer"
    "reach (\<lambda>h'. h' = Shutdown [''''] NewHealthServer) health_step
       (SetServingStatus '''' SERVING_STATUS_SERVING (Shutdown [''''] NewHealthServer))"
    by (auto intro: reach.intros hs_set)
  moreover have "iter_order (hl_statusMap NewHealthServer) ['''']"
    by (simp add: NewHealthServer_def iter_order_def)
  ultimately show ?thesis using shutdown_final by (simp add: StatusServiceUnavailable_def)
qed

end
