(* ===== verification/Server.thy ===== *)
theory Server
  imports Router Health
begin

text \<open>
  The plugin server, \<^verbatim>\<open>server.go\<close>: the validation of its configuration, the defaults, the mux
  with the host's services and the plugins, and the graceful shutdown. The record extends the
  \<open>ServeConfig\<close> of the handshake theory; \<open>CapabilityGrantTTL\<close> and \<open>RateLimiter\<close> are fields no
  code reads and are left out. A handler of a plugin is a value of type \<open>'h\<close>.

  Of \<open>http.ServeMux\<close> the theory models patterns that are plain paths: a pattern ending in a slash
  matches its subtree, any other one path, the longest match wins, and registering a
  pattern twice panics, as does one with no slash in it.
\<close>

section \<open>Data\<close>

text \<open>
  \<open>Cleanup\<close> gets a context, of which it can see the deadline; its result is the error.
\<close>

record ('a, 'h) ServerConfig = "('a, 'h) ServeConfig" +
  sc_Addr :: string
  sc_GracefulShutdownTimeout :: duration
  sc_Cleanup :: "(time \<Rightarrow> string option) option"
  sc_HealthService :: "HealthServer option"
  sc_CapabilityBroker :: "'h CapabilityBroker option"
  sc_LifecycleService :: "LifecycleServer option"
  sc_ServiceRegistry :: "ServiceRegistry option"
  sc_ServiceRouter :: "ServiceRouter option"

datatype ServeConfigError =
    PluginsNotSet
  | ImplsNotSet
  | NoImplementation string
  | NoDefinition string
  | InvalidPluginSet PluginSetError
  | NegativeProtocolVersion

text \<open>What a path of the mux is served by.\<close>

datatype 'h Route =
    BrokerHandler
  | HandshakeHandler
  | HealthHandler
  | HTTPHealth
  | LifecycleHandler
  | RegistryHandler
  | RouterHandler
  | PluginHandler string 'h

type_synonym 'r mux = "(string \<times> 'r) list"

text \<open>How \<open>Serve\<close> ends before it listens; the last is the panic of \<open>mux.Handle\<close>.\<close>

datatype ServeError =
    InvalidServeConfig ServeConfigError
  | MissingImplementation string
  | ConnectServerFailed string string
  | PatternPanic string
  | ListenFailed string
  | ShutdownFailed string

section \<open>Validation\<close>

text \<open>
  \<open>po\<close>, \<open>io\<close> and \<open>so\<close> are the orders of the three ranges: over the plugins, over the
  implementations, and over the plugins again in \<open>PluginSet.Validate\<close>.
\<close>

definition ServeConfig_Validate ::
    "string list \<Rightarrow> string list \<Rightarrow> string list \<Rightarrow> ('a, 'h, 'm) ServeConfig_scheme \<Rightarrow> ServeConfigError option" where
  "ServeConfig_Validate po io so cfg =
     (case cfg_Plugins cfg of
        None \<Rightarrow> Some PluginsNotSet
      | Some plugins \<Rightarrow>
          (case cfg_Impls cfg of
             None \<Rightarrow> Some ImplsNotSet
           | Some impls \<Rightarrow>
               (case find (\<lambda>name. impls name = None) po of
                  Some name \<Rightarrow> Some (NoImplementation name)
                | None \<Rightarrow>
                    (case find (\<lambda>name. plugins name = None) io of
                       Some name \<Rightarrow> Some (NoDefinition name)
                     | None \<Rightarrow>
                         (case PluginSet_Validate so plugins of
                            Some e \<Rightarrow> Some (InvalidPluginSet e)
                          | None \<Rightarrow>
                              if cfg_ProtocolVersion cfg < 0 then Some NegativeProtocolVersion
                              else None)))))"

section \<open>The mux\<close>

definition mux_handle :: "string \<Rightarrow> 'r \<Rightarrow> 'r mux \<Rightarrow> 'r mux option" where
  "mux_handle pattern route mux =
     (if CHR ''/'' \<notin> set pattern \<or> pattern \<in> set (map fst mux) then None else Some (mux @ [(pattern, route)]))"

definition patternMatches :: "string \<Rightarrow> string \<Rightarrow> bool" where
  "patternMatches pattern path =
     (if pattern \<noteq> '''' \<and> last pattern = CHR ''/'' then hasPrefix path pattern else path = pattern)"

fun muxEntry :: "'r mux \<Rightarrow> string \<Rightarrow> (string \<times> 'r) option" where
  "muxEntry [] path = None"
| "muxEntry ((pattern, route) # mux) path =
     (if patternMatches pattern path
      then (case muxEntry mux path of
              None \<Rightarrow> Some (pattern, route)
            | Some (other, r) \<Rightarrow> if length other > length pattern then Some (other, r) else Some (pattern, route))
      else muxEntry mux path)"

definition muxMatch :: "'r mux \<Rightarrow> string \<Rightarrow> 'r option" where
  "muxMatch mux path = map_option snd (muxEntry mux path)"

text \<open>The mux of \<open>CapabilityBroker.Handler\<close>: its RPC service and the capability requests.\<close>

datatype BrokerRoute = BrokerRPC | CapabilityRequest

definition brokerMux :: "BrokerRoute mux" where
  "brokerMux = [(''/connectplugin.v1.CapabilityBroker/'', BrokerRPC), (''/capabilities/'', CapabilityRequest)]"

section \<open>Serving\<close>

definition withServeDefaults :: "('a, 'h) ServerConfig \<Rightarrow> ('a, 'h) ServerConfig" where
  "withServeDefaults cfg =
     cfg\<lparr>sc_Addr := (if sc_Addr cfg = '''' then '':8080'' else sc_Addr cfg),
         sc_GracefulShutdownTimeout :=
           (if sc_GracefulShutdownTimeout cfg = 0 then 30 * Second else sc_GracefulShutdownTimeout cfg),
         cfg_ProtocolVersion := (if cfg_ProtocolVersion cfg = 0 then 1 else cfg_ProtocolVersion cfg)\<rparr>"

text \<open>The host's own patterns, in the order of the calls.\<close>

definition hostRoutes :: "('a, 'h) ServerConfig \<Rightarrow> 'h Route mux" where
  "hostRoutes cfg =
     (if sc_CapabilityBroker cfg \<noteq> None
      then [(''/broker/'', BrokerHandler), (''/capabilities/'', BrokerHandler)] else []) @
     [(''/connectplugin.v1.HandshakeService/'', HandshakeHandler)] @
     (if sc_HealthService cfg \<noteq> None
      then [(''/connectplugin.health.v1.HealthService/'', HealthHandler),
            (''/healthz'', HTTPHealth), (''/readyz'', HTTPHealth)] else []) @
     (if sc_LifecycleService cfg \<noteq> None
      then [(''/connectplugin.v1.PluginLifecycle/'', LifecycleHandler)] else []) @
     (if sc_ServiceRegistry cfg \<noteq> None
      then [(''/connectplugin.v1.ServiceRegistry/'', RegistryHandler)] else []) @
     (if sc_ServiceRouter cfg \<noteq> None then [(''/services/'', RouterHandler)] else [])"

fun handleAll :: "'r mux \<Rightarrow> 'r mux \<Rightarrow> ServeError + 'r mux" where
  "handleAll [] mux = Inr mux"
| "handleAll ((pattern, route) # rest) mux =
     (case mux_handle pattern route mux of
        None \<Rightarrow> Inl (PatternPanic pattern)
      | Some mux' \<Rightarrow> handleAll rest mux')"

text \<open>
  The loop over the plugins: \<open>ConnectServer\<close>, the mux, the health status. The health server is
  shared, so it is returned also when the loop returns early.
\<close>

fun registerPlugins ::
    "('a, 'h) PluginSet \<Rightarrow> (string, 'a) gomap \<Rightarrow> string list \<Rightarrow> 'h Route mux \<Rightarrow> HealthServer option \<Rightarrow>
     HealthServer option \<times> (ServeError + 'h Route mux)" where
  "registerPlugins plugins impls [] mux health = (health, Inr mux)"
| "registerPlugins plugins impls (name # rest) mux health =
     (case plugins name of
        None \<Rightarrow> registerPlugins plugins impls rest mux health
      | Some plugin \<Rightarrow>
          (case impls name of
             None \<Rightarrow> (health, Inl (MissingImplementation name))
           | Some impl \<Rightarrow>
               (case pl_ConnectServer plugin impl of
                  Inl e \<Rightarrow> (health, Inl (ConnectServerFailed name e))
                | Inr (path, handler) \<Rightarrow>
                    (case mux_handle path (PluginHandler name handler) mux of
                       None \<Rightarrow> (health, Inl (PatternPanic path))
                     | Some mux' \<Rightarrow>
                         registerPlugins plugins impls rest mux'
                           (map_option (SetServingStatus name SERVING_STATUS_SERVING) health)))))"

text \<open>
  \<open>Serve\<close> up to the point where it listens; \<open>ro\<close> is the order of the range that registers the
  plugins. The handshake server is a new one. (The code writes the defaults back into the
  configuration; here \<open>withServeDefaults\<close> is applied where it is read.)
\<close>

definition serveSetup ::
    "string list \<Rightarrow> string list \<Rightarrow> string list \<Rightarrow> string list \<Rightarrow> ('a, 'h) ServerConfig \<Rightarrow>
     HealthServer option \<times> (ServeError + 'h Route mux \<times> HandshakeServer)" where
  "serveSetup po io so ro cfg0 =
     (let cfg = withServeDefaults cfg0
      in (case ServeConfig_Validate po io so cfg of
            Some e \<Rightarrow> (sc_HealthService cfg, Inl (InvalidServeConfig e))
          | None \<Rightarrow>
              (case handleAll (hostRoutes cfg) [] of
                 Inl e \<Rightarrow> (sc_HealthService cfg, Inl e)
               | Inr mux \<Rightarrow>
                   (case registerPlugins (case cfg_Plugins cfg of None \<Rightarrow> Map.empty | Some ps \<Rightarrow> ps)
                           (case cfg_Impls cfg of None \<Rightarrow> Map.empty | Some is \<Rightarrow> is) ro mux
                           (map_option (SetServingStatus '''' SERVING_STATUS_SERVING) (sc_HealthService cfg)) of
                      (health, Inl e) \<Rightarrow> (health, Inl e)
                    | (health, Inr mux') \<Rightarrow> (health, Inr (mux', NewHandshakeServer))))))"

text \<open>
  \<open>gracefulShutdown\<close>: the calls it makes, in order, with the deadline of the context;
  \<open>srvShutdown\<close> is what \<open>http.Server.Shutdown\<close> returns. \<open>ho\<close> is the order of the range in
  \<open>HealthServer.Shutdown\<close>.
\<close>

datatype ShutdownCall = HealthShutdown | CleanupCall time | ServerShutdown time

definition gracefulShutdown ::
    "time \<Rightarrow> string list \<Rightarrow> (time \<Rightarrow> string option) \<Rightarrow> ('a, 'h) ServerConfig \<Rightarrow> HealthServer option \<Rightarrow>
     ShutdownCall list \<times> HealthServer option \<times> ServeError option" where
  "gracefulShutdown now ho srvShutdown cfg health =
     (let deadline = time_add now (sc_GracefulShutdownTimeout cfg);
          health' = map_option (Shutdown ho) health;
          calls = (if health \<noteq> None then [HealthShutdown] else []) @
                  (case sc_Cleanup cfg of None \<Rightarrow> [] | Some cleanup \<Rightarrow> [CleanupCall deadline]) @
                  [ServerShutdown deadline]
      in (calls, health', map_option ShutdownFailed (srvShutdown deadline)))"

text \<open>What ends the \<open>select\<close> of \<open>Serve\<close>.\<close>

datatype ServeEvent = ListenError string | StopSignal time

definition Serve ::
    "string list \<Rightarrow> string list \<Rightarrow> string list \<Rightarrow> string list \<Rightarrow> ServeEvent \<Rightarrow> (HealthServer \<Rightarrow> string list) \<Rightarrow>
     (time \<Rightarrow> string option) \<Rightarrow> ('a, 'h) ServerConfig \<Rightarrow> HealthServer option \<times> ServeError option" where
  "Serve po io so ro event ho srvShutdown cfg =
     (case serveSetup po io so ro cfg of
        (health, Inl e) \<Rightarrow> (health, Some e)
      | (health, Inr (mux, hs)) \<Rightarrow>
          (case event of
             ListenError e \<Rightarrow> (health, Some (ListenFailed e))
           | StopSignal now \<Rightarrow>
               snd (gracefulShutdown now (case health of None \<Rightarrow> [] | Some h \<Rightarrow> ho h) srvShutdown
                      (withServeDefaults cfg) health)))"

section \<open>Validation\<close>

lemma find_none: "find P xs = None \<longleftrightarrow> (\<forall>x\<in>set xs. \<not> P x)"
  by (induction xs) auto

text \<open>A configuration of which \<open>Validate\<close> finds nothing wrong.\<close>

definition validServeConfig ::
    "('a, 'h) PluginSet \<Rightarrow> (string, 'a) gomap \<Rightarrow> ('a, 'h, 'm) ServeConfig_scheme \<Rightarrow> bool" where
  "validServeConfig plugins impls cfg \<longleftrightarrow>
     cfg_Plugins cfg = Some plugins \<and> cfg_Impls cfg = Some impls \<and> dom impls = dom plugins \<and>
     dom plugins \<noteq> {} \<and> (\<forall>n\<in>dom plugins. name_of plugins n = n) \<and> inj_on (path_of plugins) (dom plugins) \<and>
     0 \<le> cfg_ProtocolVersion cfg"

lemma ServeConfig_Validate_iff:
  assumes "cfg_Plugins cfg = Some plugins" and "cfg_Impls cfg = Some impls"
    and po: "iter_order plugins po" and io: "iter_order impls io" and so: "iter_order plugins so"
  shows "ServeConfig_Validate po io so cfg = None \<longleftrightarrow> validServeConfig plugins impls cfg"
proof -
  have f: "find (\<lambda>name. impls name = None) po = None \<longleftrightarrow> dom plugins \<subseteq> dom impls"
    using iter_order_dom [OF po] by (auto simp: find_none)
  have g: "find (\<lambda>name. plugins name = None) io = None \<longleftrightarrow> dom impls \<subseteq> dom plugins"
    using iter_order_dom [OF io] by (auto simp: find_none)
  have "ServeConfig_Validate po io so cfg = None \<longleftrightarrow>
      find (\<lambda>name. impls name = None) po = None \<and> find (\<lambda>name. plugins name = None) io = None \<and>
      PluginSet_Validate so plugins = None \<and> 0 \<le> cfg_ProtocolVersion cfg"
    by (simp add: ServeConfig_Validate_def assms(1,2) not_less split: option.split)
  moreover have "dom impls = dom plugins \<longleftrightarrow> dom plugins \<subseteq> dom impls \<and> dom impls \<subseteq> dom plugins"
    by blast
  ultimately show ?thesis
    by (simp only: f g PluginSet_Validate_ok [OF so] validServeConfig_def assms(1,2) conj_assoc simp_thms)
qed

section \<open>The mux\<close>

lemma patternMatches_prefix: "patternMatches pattern path \<Longrightarrow> \<exists>rest. path = pattern @ rest"
  by (auto simp: patternMatches_def hasPrefix_iff split: if_splits)

lemma muxEntry_None: "muxEntry mux path = None \<longleftrightarrow> (\<forall>e\<in>set mux. \<not> patternMatches (fst e) path)"
proof (induction mux)
  case (Cons e mux)
  then show ?case by (cases e; cases "muxEntry mux path"; simp add: prod.case_eq_if)
qed simp

lemma muxEntry_Some:
  "muxEntry mux path = Some e \<Longrightarrow>
   e \<in> set mux \<and> patternMatches (fst e) path \<and>
   (\<forall>f\<in>set mux. patternMatches (fst f) path \<longrightarrow> length (fst f) \<le> length (fst e))"
proof (induction mux arbitrary: e)
  case (Cons d mux)
  obtain p r where d: "d = (p, r)" by (cases d)
  show ?case
  proof (cases "patternMatches p path")
    case False
    with Cons.prems have "muxEntry mux path = Some e" by (simp add: d)
    from Cons.IH [OF this] False show ?thesis by (simp add: d)
  next
    case True
    show ?thesis
    proof (cases "muxEntry mux path")
      case None
      then have "e = d" using Cons.prems True by (simp add: d)
      then show ?thesis using None True by (simp add: d muxEntry_None)
    next
      case (Some f)
      from Cons.prems True have "e = (if length (fst f) > length p then f else d)"
        by (simp add: d Some prod.case_eq_if split: if_splits)
      then show ?thesis using Cons.IH [OF Some] True by (fastforce simp: d)
    qed
  qed
qed simp

text \<open>When no pattern is registered twice the route of a path is that of its longest pattern.\<close>

lemma muxMatch_longest:
  assumes d: "distinct (map fst mux)" and e: "(pat, r) \<in> set mux" and m: "patternMatches pat path"
    and l: "\<forall>f\<in>set mux. patternMatches (fst f) path \<longrightarrow> length (fst f) \<le> length pat"
  shows "muxMatch mux path = Some r"
proof -
  obtain f where f: "muxEntry mux path = Some f"
    using e m muxEntry_None [of mux path] by (cases "muxEntry mux path") auto
  note s = muxEntry_Some [OF f]
  have "length (fst f) = length pat" using s e m l by (metis fst_conv le_antisym)
  then have "fst f = pat"
    using patternMatches_prefix [OF m] patternMatches_prefix [of "fst f" path] s by (metis append_eq_append_conv)
  then have "(pat, snd f) \<in> set mux" using s by (metis prod.collapse)
  then have "snd f = r" using e d by (metis eq_key_imp_eq_value)
  then show ?thesis by (simp add: muxMatch_def f)
qed

lemma mux_handle_Some:
  "mux_handle pat r mux = Some mux' \<longleftrightarrow>
   CHR ''/'' \<in> set pat \<and> pat \<notin> set (map fst mux) \<and> mux' = mux @ [(pat, r)]"
  by (auto simp: mux_handle_def)

section \<open>The host's services\<close>

lemma distinct_hostRoutes: "distinct (map fst (hostRoutes cfg))"
  by (cases "sc_CapabilityBroker cfg"; cases "sc_HealthService cfg"; cases "sc_LifecycleService cfg";
      cases "sc_ServiceRegistry cfg"; cases "sc_ServiceRouter cfg"; simp add: hostRoutes_def)

lemma handleAll_ok:
  assumes "distinct (map fst (mux @ routes))" and "\<forall>(pat, r)\<in>set routes. CHR ''/'' \<in> set pat"
  shows "handleAll routes mux = Inr (mux @ routes)"
  using assms
proof (induction routes mux rule: handleAll.induct)
  case (2 pat r rest mux)
  have h: "mux_handle pat r mux = Some (mux @ [(pat, r)])"
    using 2(2,3) by (auto simp: mux_handle_def)
  show ?case using 2(1) [OF h] 2(2,3) by (simp add: h)
qed simp

lemma handleAll_hostRoutes: "handleAll (hostRoutes cfg) [] = Inr (hostRoutes cfg)"
proof -
  have "\<forall>(pat, r)\<in>set (hostRoutes cfg). CHR ''/'' \<in> set pat"
    by (auto simp: hostRoutes_def)
  then show ?thesis
    using handleAll_ok [of "[]" "hostRoutes cfg"] distinct_hostRoutes [of cfg] by (simp only: append_Nil)
qed

section \<open>A server that is ready\<close>

lemma registerPlugins_ok:
  assumes "distinct (map fst mux)" and "distinct ro" and "set ro \<subseteq> dom plugins" and "set ro \<subseteq> dom impls"
    and "\<forall>n\<in>set ro. pl_ConnectServer (the (plugins n)) (the (impls n)) = Inr (path n, handler n) \<and>
      CHR ''/'' \<in> set (path n) \<and> path n \<notin> set (map fst mux)"
    and "inj_on path (set ro)"
  shows "registerPlugins plugins impls ro mux health =
    (fold (\<lambda>n. map_option (SetServingStatus n SERVING_STATUS_SERVING)) ro health,
     Inr (mux @ map (\<lambda>n. (path n, PluginHandler n (handler n))) ro))"
  using assms
proof (induction ro arbitrary: mux health)
  case (Cons n ro)
  obtain plugin impl where pi: "plugins n = Some plugin" "impls n = Some impl" using Cons.prems by auto
  let ?mux = "mux @ [(path n, PluginHandler n (handler n))]"
  have c: "pl_ConnectServer plugin impl = Inr (path n, handler n)" and "CHR ''/'' \<in> set (path n)"
    and "path n \<notin> set (map fst mux)"
    using Cons.prems(5) by (simp_all add: pi)
  then have m: "mux_handle (path n) (PluginHandler n (handler n)) mux = Some ?mux"
    by (simp only: mux_handle_Some simp_thms)
  have new: "path m \<noteq> path n" if "m \<in> set ro" for m
    using that Cons.prems(2,6) by (auto simp: inj_on_def)
  have "registerPlugins plugins impls ro ?mux (map_option (SetServingStatus n SERVING_STATUS_SERVING) health) =
      (fold (\<lambda>n. map_option (SetServingStatus n SERVING_STATUS_SERVING)) ro
         (map_option (SetServingStatus n SERVING_STATUS_SERVING) health),
       Inr (?mux @ map (\<lambda>n. (path n, PluginHandler n (handler n))) ro))"
    using Cons.prems new by (intro Cons.IH) (auto simp: inj_on_def)
  then show ?case by (simp add: pi c m)
qed simp

lemma SetServingStatus_up:
  "\<not> hl_shutdown h \<Longrightarrow> \<not> hl_shutdown (SetServingStatus n st h) \<and>
   hl_statusMap (SetServingStatus n st h) = (hl_statusMap h)(n \<mapsto> st)"
  by (simp add: SetServingStatus_def setStatusLocked_def)

lemma fold_SetServingStatus:
  assumes "\<not> hl_shutdown h"
  shows "\<exists>h'. fold (\<lambda>n. map_option (SetServingStatus n st)) ns (Some h) = Some h' \<and>
    hl_statusMap h' = (\<lambda>s. if s \<in> set ns then Some st else hl_statusMap h s)"
  using assms
proof (induction ns arbitrary: h)
  case (Cons n ns)
  obtain h' where "fold (\<lambda>n. map_option (SetServingStatus n st)) ns (Some (SetServingStatus n st h)) = Some h'"
    and "hl_statusMap h' = (\<lambda>s. if s \<in> set ns then Some st else hl_statusMap (SetServingStatus n st h) s)"
    using Cons.IH [of "SetServingStatus n st h"] SetServingStatus_up [OF Cons.prems] by blast
  then show ?case using SetServingStatus_up [OF Cons.prems] by (auto simp: fun_eq_iff)
qed (simp add: fun_eq_iff)

text \<open>A pattern registered once is its own longest match.\<close>

lemma muxMatch_self:
  assumes "distinct (map fst mux)" and "(pat, r) \<in> set mux"
  shows "muxMatch mux pat = Some r"
proof (rule muxMatch_longest [OF assms])
  show "patternMatches pat pat" using hasPrefix_append [of pat "[]"] by (simp add: patternMatches_def)
  show "\<forall>f\<in>set mux. patternMatches (fst f) pat \<longrightarrow> length (fst f) \<le> length pat"
  proof (intro ballI impI)
    fix f assume "patternMatches (fst f) pat"
    from patternMatches_prefix [OF this] show "length (fst f) \<le> length pat" by (elim exE) simp
  qed
qed

lemma withServeDefaults_same:
  "hostRoutes (withServeDefaults cfg) = hostRoutes cfg"
  "sc_HealthService (withServeDefaults cfg) = sc_HealthService cfg"
  by (simp_all add: hostRoutes_def withServeDefaults_def)

text \<open>What the code needs of the plugins: what they are connected to.\<close>

definition connects ::
    "('a, 'h) PluginSet \<Rightarrow> (string, 'a) gomap \<Rightarrow> (string \<Rightarrow> string) \<Rightarrow> (string \<Rightarrow> 'h) \<Rightarrow> bool" where
  "connects plugins impls path handler \<longleftrightarrow> (\<forall>n\<in>dom plugins.
     pl_ConnectServer (the (plugins n)) (the (impls n)) = Inr (path n, handler n) \<and> CHR ''/'' \<in> set (path n))"

text \<open>C27. For a configuration that validates, with the plugins connected to distinct new paths, \<open>Serve\<close>
  starts listening: each plugin's path and each path of the host's own services is routed to its
  handler, and a health service that was not shut down reports the host and every plugin as serving.\<close>
theorem Serve_ready:
  assumes valid: "validServeConfig plugins impls (withServeDefaults cfg)"
    and orders: "iter_order plugins po" "iter_order impls io" "iter_order plugins so" "iter_order plugins ro"
    and con: "connects plugins impls path handler" and inj: "inj_on path (dom plugins)"
    and new: "\<forall>n\<in>dom plugins. path n \<notin> set (map fst (hostRoutes cfg))"
  shows "\<exists>mux health. serveSetup po io so ro cfg = (health, Inr (mux, NewHandshakeServer)) \<and>
    (\<forall>n\<in>dom plugins. muxMatch mux (path n) = Some (PluginHandler n (handler n))) \<and>
    (\<forall>e\<in>set (hostRoutes cfg). muxMatch mux (fst e) = Some (snd e)) \<and>
    (\<forall>h. sc_HealthService cfg = Some h \<and> \<not> hl_shutdown h \<longrightarrow>
       (\<exists>h'. health = Some h' \<and> readyz h' = (StatusOK, ''ready'') \<and>
         (\<forall>n\<in>dom plugins. Check h' n = Inr SERVING_STATUS_SERVING)))"
proof -
  let ?cfg = "withServeDefaults cfg"
  let ?routes = "map (\<lambda>n. (path n, PluginHandler n (handler n))) ro"
  let ?mux = "hostRoutes cfg @ ?routes"
  let ?health = "fold (\<lambda>n. map_option (SetServingStatus n SERVING_STATUS_SERVING)) ro
    (map_option (SetServingStatus '''' SERVING_STATUS_SERVING) (sc_HealthService cfg))"
  have ps: "cfg_Plugins ?cfg = Some plugins" "cfg_Impls ?cfg = Some impls" "dom impls = dom plugins"
    using valid by (simp_all add: validServeConfig_def)
  have ok: "ServeConfig_Validate po io so ?cfg = None"
    using ServeConfig_Validate_iff [OF ps(1,2) orders(1-3)] valid by simp
  have ro: "set ro = dom plugins" "distinct ro" using orders(4) by (auto simp: iter_order_def)
  have reg: "registerPlugins plugins impls ro (hostRoutes cfg)
      (map_option (SetServingStatus '''' SERVING_STATUS_SERVING) (sc_HealthService cfg)) = (?health, Inr ?mux)"
    using con new inj by (intro registerPlugins_ok) (simp_all add: ro ps(3) distinct_hostRoutes connects_def)
  have srv: "serveSetup po io so ro cfg = (?health, Inr (?mux, NewHandshakeServer))"
    using reg by (simp add: serveSetup_def ok handleAll_hostRoutes ps(1,2) withServeDefaults_same)
  have d: "distinct (map fst ?mux)"
  proof -
    have m: "map fst ?mux = map fst (hostRoutes cfg) @ map path ro" by simp
    have "distinct (map path ro)" using inj by (simp add: distinct_map ro)
    moreover have "set (map fst (hostRoutes cfg)) \<inter> set (map path ro) = {}"
      using new unfolding disjoint_iff set_map [of path] ro by blast
    ultimately show ?thesis
      unfolding m distinct_append by (intro conjI distinct_hostRoutes)
  qed
  have "\<forall>n\<in>dom plugins. muxMatch ?mux (path n) = Some (PluginHandler n (handler n))"
    by (intro ballI muxMatch_self [OF d]) (simp add: ro)
  moreover have "\<forall>e\<in>set (hostRoutes cfg). muxMatch ?mux (fst e) = Some (snd e)"
    by (intro ballI muxMatch_self [OF d]) simp
  moreover have "\<exists>h'. ?health = Some h' \<and> readyz h' = (StatusOK, ''ready'') \<and>
      (\<forall>n\<in>dom plugins. Check h' n = Inr SERVING_STATUS_SERVING)"
    if h: "sc_HealthService cfg = Some h" "\<not> hl_shutdown h" for h
    using fold_SetServingStatus [of "SetServingStatus '''' SERVING_STATUS_SERVING h" SERVING_STATUS_SERVING ro]
      SetServingStatus_up [OF h(2), of "''''" SERVING_STATUS_SERVING]
    by (auto simp: h readyz_def Check_def ro)
  ultimately show ?thesis using srv by blast
qed

text \<open>The broker's RPC service cannot be reached: no path that the host's mux hands to the broker's
  handler is one that the broker's own mux hands to its RPC service.\<close>
theorem broker_rpc_unreachable:
  assumes "muxMatch (hostRoutes cfg @ map (\<lambda>(p, n, h). (p, PluginHandler n h)) ps) path = Some BrokerHandler"
  shows "muxMatch brokerMux path \<noteq> Some BrokerRPC"
proof -
  let ?mux = "hostRoutes cfg @ map (\<lambda>(p, n, h). (p, PluginHandler n h)) ps"
  obtain pat where "muxEntry ?mux path = Some (pat, BrokerHandler)"
    using assms by (auto simp: muxMatch_def)
  from muxEntry_Some [OF this] have e: "(pat, BrokerHandler) \<in> set ?mux" "patternMatches pat path" by auto
  then have "pat = ''/broker/'' \<or> pat = ''/capabilities/''"
    by (auto simp: hostRoutes_def split: if_splits)
  then have "path \<noteq> [] \<and> (path ! 1 = CHR ''b'' \<or> path ! 1 = CHR ''c'' \<and> path ! 2 = CHR ''a'')"
    using patternMatches_prefix [OF e(2)] by auto
  then have "\<not> patternMatches ''/connectplugin.v1.CapabilityBroker/'' path"
    by (auto dest: patternMatches_prefix)
  then show ?thesis by (auto simp: muxMatch_def brokerMux_def split: if_splits)
qed

text \<open>A server with one plugin, the health service and a broker.\<close>

definition example_plugins :: "(unit, nat) PluginSet" where
  "example_plugins = [''kv'' \<mapsto> \<lparr>pl_Metadata = \<lparr>pm_Name = ''kv'', pm_Path = ''/kv/'', pm_Version = ''1.0.0'',
       pm_Provides = [], pm_Requires = []\<rparr>,
     pl_ConnectServer = (\<lambda>_. Inr (''/kv.v1.KV/'', 7)), pl_ConnectClient = (\<lambda>_ _. Inr ())\<rparr>]"

definition example_server :: "(unit, nat) ServerConfig" where
  "example_server = \<lparr>cfg_Plugins = Some example_plugins, cfg_Impls = Some [''kv'' \<mapsto> ()], cfg_ProtocolVersion = 0,
     cfg_MagicCookieKey = '''', cfg_MagicCookieValue = '''', cfg_ServerMetadata = Map.empty, cfg_RuntimeTokenTTL = 0,
     sc_Addr = '''', sc_GracefulShutdownTimeout = 0, sc_Cleanup = None, sc_HealthService = Some NewHealthServer,
     sc_CapabilityBroker = None, sc_LifecycleService = None, sc_ServiceRegistry = None, sc_ServiceRouter = None\<rparr>"

lemma Serve_ready_witness:
  "\<exists>mux h'. serveSetup [''kv''] [''kv''] [''kv''] [''kv''] example_server = (Some h', Inr (mux, NewHandshakeServer)) \<and>
     muxMatch mux ''/kv.v1.KV/'' = Some (PluginHandler ''kv'' 7) \<and> readyz h' = (StatusOK, ''ready'') \<and>
     Check h' ''kv'' = Inr SERVING_STATUS_SERVING"
proof -
  have dom: "dom example_plugins = {''kv''}" by (simp add: example_plugins_def)
  have valid: "validServeConfig example_plugins [''kv'' \<mapsto> ()] (withServeDefaults example_server)"
    by (simp add: validServeConfig_def withServeDefaults_def example_server_def dom)
      (simp add: example_plugins_def name_of_def)
  have orders: "iter_order example_plugins [''kv'']" "iter_order [''kv'' \<mapsto> ()] [''kv'']"
    by (simp_all add: iter_order_def dom)
  have con: "connects example_plugins [''kv'' \<mapsto> ()] (\<lambda>_. ''/kv.v1.KV/'') (\<lambda>_. 7)"
    by (simp add: connects_def example_plugins_def)
  have inj: "inj_on (\<lambda>_. ''/kv.v1.KV/'') (dom example_plugins)" by (simp add: dom)
  have new: "\<forall>n\<in>dom example_plugins. ''/kv.v1.KV/'' \<notin> set (map fst (hostRoutes example_server))"
    by (simp add: hostRoutes_def example_server_def)
  have h: "sc_HealthService example_server = Some NewHealthServer" "\<not> hl_shutdown NewHealthServer"
    by (simp_all add: example_server_def NewHealthServer_def)
  obtain mux health where ok: "serveSetup [''kv''] [''kv''] [''kv''] [''kv''] example_server =
      (health, Inr (mux, NewHandshakeServer))" "muxMatch mux ''/kv.v1.KV/'' = Some (PluginHandler ''kv'' 7)"
    and H: "\<forall>h. sc_HealthService example_server = Some h \<and> \<not> hl_shutdown h \<longrightarrow>
       (\<exists>h'. health = Some h' \<and> readyz h' = (StatusOK, ''ready'') \<and>
         (\<forall>n\<in>dom example_plugins. Check h' n = Inr SERVING_STATUS_SERVING))"
    using Serve_ready [OF valid orders(1,2,1,1) con inj new]
    by (elim exE conjE) (rule that; simp add: dom)
  from H [rule_format, OF conjI, OF h] obtain h' where "health = Some h'" "readyz h' = (StatusOK, ''ready'')"
    "\<forall>n\<in>dom example_plugins. Check h' n = Inr SERVING_STATUS_SERVING"
    by (elim exE conjE) (rule that)
  then show ?thesis using ok dom by (intro exI [of _ mux] exI [of _ h']) simp
qed

text \<open>The same server with a broker.\<close>

definition example_broker_server :: "(unit, nat) ServerConfig" where
  "example_broker_server = example_server\<lparr>sc_CapabilityBroker := Some (NewCapabilityBroker ''http://localhost'')\<rparr>"

lemma broker_rpc_unreachable_witness:
  "muxMatch brokerMux ''/broker/connectplugin.v1.CapabilityBroker/'' \<noteq> Some BrokerRPC"
proof -
  have "muxMatch (hostRoutes example_broker_server) ''/broker/connectplugin.v1.CapabilityBroker/'' = Some BrokerHandler"
    by (simp add: hostRoutes_def example_broker_server_def example_server_def muxMatch_def patternMatches_def)
  then show ?thesis using broker_rpc_unreachable [of example_broker_server "[]"] by simp
qed

end
