(* ===== verification/Launcher.thy ===== *)
theory Launcher
  imports Server Channels
begin

text \<open>
  Launching plugins, \<^verbatim>\<open>launcher.go\<close>, \<^verbatim>\<open>launch_strategy.go\<close>, \<^verbatim>\<open>launch_inmemory.go\<close> and
  \<^verbatim>\<open>launch_process.go\<close>: the two strategies with what they start and how it is stopped again, and the
  launcher that starts a plugin at its first use and keeps it. The state of the host that a launch
  changes is \<open>LaunchState\<close>: the registry, the in-memory servers and the child processes, each
  addressed by its position in a list that only grows. A cleanup closure is a value of the
  datatype \<open>CleanupFn\<close>. What the contract of a strategy must be for the launcher not to leak is
  the locale \<open>launch_strategy\<close>, interpreted on both.
\<close>

section \<open>Data\<close>

datatype 'h MemRoute = MemPlugin 'h | MemControl

text \<open>An \<open>http.Server\<close> that serves on an in-memory listener; a connection is a number.\<close>

record 'h MemServer =
  ms_mux :: "'h MemRoute mux"
  ms_listener :: "nat Listener"

record PluginProcess =
  pp_Path :: string
  pp_Env :: "string list"
  pp_Running :: bool

record 'h LaunchState =
  la_registry :: ServiceRegistry
  la_servers :: "'h MemServer list"
  la_listeners :: "(string, nat) gomap"
  la_procs :: "PluginProcess list"
  la_processes :: "(string, nat) gomap"

datatype CleanupFn = StopServer nat string | StopProcess nat string

record LaunchResult =
  lr_Endpoint :: string
  lr_HTTPClient :: "nat option"
  lr_Cleanup :: "CleanupFn option"

text \<open>\<open>ImplFactory\<close> is what the factory returns.\<close>

record ('a, 'h) PluginSpec =
  ps_Name :: string
  ps_Provides :: "string list"
  ps_Strategy :: string
  ps_Port :: int
  ps_BinaryPath :: string
  ps_HostURL :: string
  ps_Plugin :: "('a, 'h) Plugin option"
  ps_ImplFactory :: "'a option"
  ps_Metadata :: "(string, string) gomap"

datatype ReadyError = ReadyTimeout | HTTPNotReady string

datatype LaunchError =
    PluginRequired
  | ImplFactoryRequired
  | HandlerFailed string
  | MuxPanic string
  | BinaryPathRequired
  | StartFailed string string
  | NotReady string ReadyError

text \<open>
  The strategies the package has. The in-memory strategy registers the services of its plugins when
  it was given the registry.
\<close>

datatype LaunchStrategy = InMemoryStrategy bool | ProcessStrategy

definition strategyName :: "LaunchStrategy \<Rightarrow> string" where
  "strategyName st = (case st of InMemoryStrategy _ \<Rightarrow> ''in-memory'' | ProcessStrategy \<Rightarrow> ''process'')"

text \<open>
  What a launch meets: the random bytes of the registration ids, the zero \<open>time.Time\<close>, the error of
  \<open>cmd.Start\<close>, what the ticks of the readiness poll find before its deadline (whether the port
  accepts a connection, and then the error of the HTTP request), and what happens to the host
  meanwhile and in the half second after.
\<close>

record 'h LaunchEnv =
  le_rnds :: "nat \<Rightarrow> random_read"
  le_zeroTime :: time
  le_startError :: "string option"
  le_ticks :: "(bool \<times> string option) list"
  le_poll :: "'h LaunchState \<Rightarrow> 'h LaunchState"
  le_sleep :: "'h LaunchState \<Rightarrow> 'h LaunchState"

section \<open>The in-memory strategy\<close>

definition controlPath :: string where
  "controlPath = ''/connectplugin.v1.PluginControl/''"

text \<open>The control service of an in-memory plugin answers with constants.\<close>

definition inMemoryGetHealth :: "HealthState \<times> string" where
  "inMemoryGetHealth = (HEALTH_STATE_HEALTHY, ''in-memory (in-process)'')"

definition inMemoryShutdown :: bool where "inMemoryShutdown = True"

definition memProvider :: "time \<Rightarrow> string \<Rightarrow> string \<Rightarrow> string \<Rightarrow> string \<Rightarrow> ServiceProvider" where
  "memProvider zero name regID svcType servicePath =
     \<lparr>sp_RegistrationID = regID, sp_RuntimeID = name, sp_ServiceType = svcType, sp_Version = ''1.0.0'',
      sp_EndpointPath = servicePath, sp_Metadata = [''transport'' \<mapsto> ''in-memory''], sp_RegisteredAt = zero\<rparr>"

text \<open>The loop over the service types of the specification; \<open>i\<close> is its index.\<close>

fun memRegister ::
    "'h LaunchEnv \<Rightarrow> string \<Rightarrow> ServiceDeclaration list \<Rightarrow> nat \<Rightarrow> string list \<Rightarrow> ServiceRegistry \<Rightarrow> ServiceRegistry" where
  "memRegister env name decls i [] r = r"
| "memRegister env name decls i (svcType # rest) r =
     (let servicePath = (if i < length decls then sd_Path (decls ! i) else '''')
      in case generateRegistrationID (le_rnds env i) of
           None \<Rightarrow> memRegister env name decls (Suc i) rest r
         | Some regID \<Rightarrow>
             let provider = memProvider (le_zeroTime env) name regID svcType servicePath
             in memRegister env name decls (Suc i) rest
                  (r\<lparr>r_providers := append_at (r_providers r) svcType provider,
                     r_registrations := (r_registrations r)(regID \<mapsto> provider)\<rparr>))"

definition registerService ::
    "'h LaunchEnv \<Rightarrow> ('a, 'h) PluginSpec \<Rightarrow> ('a, 'h) Plugin \<Rightarrow> ServiceRegistry \<Rightarrow> ServiceRegistry" where
  "registerService env spec plugin r =
     memRegister env (ps_Name spec) (pm_Provides (pl_Metadata plugin)) 0 (ps_Provides spec) r"

definition memMux :: "string \<Rightarrow> 'h \<Rightarrow> LaunchError + 'h MemRoute mux" where
  "memMux path handler =
     (case mux_handle path (MemPlugin handler) [] of
        None \<Rightarrow> Inl (MuxPanic path)
      | Some mux \<Rightarrow>
          (case mux_handle controlPath MemControl mux of
             None \<Rightarrow> Inl (MuxPanic controlPath)
           | Some mux' \<Rightarrow> Inr mux'))"

definition memEndpoint :: "string \<Rightarrow> string" where
  "memEndpoint name = ''http://in-memory.'' @ name"

definition memStart :: "('a, 'h) PluginSpec \<Rightarrow> 'h MemRoute mux \<Rightarrow> 'h LaunchState \<Rightarrow> 'h LaunchState" where
  "memStart spec mux s =
     s\<lparr>la_servers := la_servers s @ [\<lparr>ms_mux = mux, ms_listener = Listener_New\<rparr>],
       la_listeners := (la_listeners s)(ps_Name spec \<mapsto> length (la_servers s))\<rparr>"

definition memLaunch ::
    "bool \<Rightarrow> 'h LaunchEnv \<Rightarrow> ('a, 'h) PluginSpec \<Rightarrow> 'h LaunchState \<Rightarrow>
     'h LaunchState \<times> (LaunchError + LaunchResult)" where
  "memLaunch registers env spec s =
     (case ps_Plugin spec of
        None \<Rightarrow> (s, Inl PluginRequired)
      | Some plugin \<Rightarrow>
          (case ps_ImplFactory spec of
             None \<Rightarrow> (s, Inl ImplFactoryRequired)
           | Some impl \<Rightarrow>
               (case pl_ConnectServer plugin impl of
                  Inl e \<Rightarrow> (s, Inl (HandlerFailed e))
                | Inr (path, handler) \<Rightarrow>
                    (case memMux path handler of
                       Inl e \<Rightarrow> (s, Inl e)
                     | Inr mux \<Rightarrow>
                         let s1 = memStart spec mux s;
                             s2 = (if registers then s1\<lparr>la_registry := registerService env spec plugin (la_registry s1)\<rparr>
                                   else s1)
                         in (s2, Inr \<lparr>lr_Endpoint = memEndpoint (ps_Name spec),
                                      lr_HTTPClient = Some (length (la_servers s)),
                                      lr_Cleanup = Some (StopServer (length (la_servers s)) (ps_Name spec))\<rparr>)))))"

section \<open>The process strategy\<close>

text \<open>When the ticks are used up the context is done.\<close>

fun waitForPluginReady :: "(bool \<times> string option) list \<Rightarrow> ReadyError option" where
  "waitForPluginReady [] = Some ReadyTimeout"
| "waitForPluginReady ((dialled, http) # ticks) =
     (if dialled then map_option HTTPNotReady http else waitForPluginReady ticks)"

definition processEnv :: "('a, 'h) PluginSpec \<Rightarrow> string list" where
  "processEnv spec =
     (let hostURL = (if ps_HostURL spec = '''' then ''http://localhost:8080'' else ps_HostURL spec)
      in [''PORT='' @ showInt (ps_Port spec), ''HOST_URL='' @ hostURL])"

definition killProcess :: "nat \<Rightarrow> 'h LaunchState \<Rightarrow> 'h LaunchState" where
  "killProcess p s = s\<lparr>la_procs := (la_procs s)[p := (la_procs s ! p)\<lparr>pp_Running := False\<rparr>]\<rparr>"

definition processLaunch ::
    "'h LaunchEnv \<Rightarrow> ('a, 'h) PluginSpec \<Rightarrow> 'h LaunchState \<Rightarrow> 'h LaunchState \<times> (LaunchError + LaunchResult)" where
  "processLaunch env spec s =
     (if ps_BinaryPath spec = '''' then (s, Inl BinaryPathRequired)
      else (case le_startError env of
          Some e \<Rightarrow> (s, Inl (StartFailed (ps_BinaryPath spec) e))
        | None \<Rightarrow>
            let p = length (la_procs s);
                s1 = s\<lparr>la_procs := la_procs s @ [\<lparr>pp_Path = ps_BinaryPath spec, pp_Env = processEnv spec, pp_Running = True\<rparr>],
                       la_processes := (la_processes s)(ps_Name spec \<mapsto> p)\<rparr>;
                endpoint = ''http://localhost:'' @ showInt (ps_Port spec);
                s2 = le_poll env s1
            in (case waitForPluginReady (le_ticks env) of
                  Some e \<Rightarrow> (killProcess p s2, Inl (NotReady (ps_Name spec) e))
                | None \<Rightarrow> (s2, Inr \<lparr>lr_Endpoint = endpoint, lr_HTTPClient = None,
                                   lr_Cleanup = Some (StopProcess p (ps_Name spec))\<rparr>))))"

text \<open>
  The two cleanup closures. That of an in-memory plugin calls \<open>server.Shutdown\<close> with a context that
  never ends, which waits for the requests that are still running; it is taken to return, as it does
  unless a stream to the plugin stays open.
\<close>

definition closeServer :: "nat \<Rightarrow> 'h LaunchState \<Rightarrow> 'h LaunchState" where
  "closeServer a s =
     s\<lparr>la_servers := (la_servers s)[a := (la_servers s ! a)\<lparr>ms_listener := Listener_Close (ms_listener (la_servers s ! a))\<rparr>]\<rparr>"

definition runCleanup :: "CleanupFn \<Rightarrow> 'h LaunchState \<Rightarrow> 'h LaunchState" where
  "runCleanup c s =
     (case c of
        StopServer a name \<Rightarrow> (closeServer a s)\<lparr>la_listeners := (la_listeners s)(name := None)\<rparr>
      | StopProcess p name \<Rightarrow> (killProcess p s)\<lparr>la_processes := (la_processes s)(name := None)\<rparr>)"

definition Launch ::
    "LaunchStrategy \<Rightarrow> 'h LaunchEnv \<Rightarrow> ('a, 'h) PluginSpec \<Rightarrow> 'h LaunchState \<Rightarrow>
     'h LaunchState \<times> (LaunchError + LaunchResult)" where
  "Launch st env spec s =
     (case st of InMemoryStrategy registers \<Rightarrow> memLaunch registers env spec s
               | ProcessStrategy \<Rightarrow> processLaunch env spec s)"

section \<open>The launcher\<close>

record pluginInstance =
  in_pluginName :: string
  in_endpoint :: string
  in_httpClient :: "nat option"
  in_cleanup :: "CleanupFn option"
  in_provides :: "string list"

record ('a, 'h) PluginLauncher =
  ln_strategies :: "(string, LaunchStrategy) gomap"
  ln_specs :: "(string, ('a, 'h) PluginSpec) gomap"
  ln_instances :: "(string, pluginInstance) gomap"

text \<open>\<open>StrategyMissing\<close> carries the available names, in the order of the range.\<close>

datatype LauncherError =
    NotConfigured string
  | NotProvided string string "string list"
  | StrategyMissing string "string list"
  | LaunchFailed string LaunchError
  | NotInRegistry string "RegistryError connect_error"
  | NotSingleService string nat

definition NewPluginLauncher :: "('a, 'h) PluginLauncher" where
  "NewPluginLauncher = \<lparr>ln_strategies = Map.empty, ln_specs = Map.empty, ln_instances = Map.empty\<rparr>"

definition RegisterStrategy :: "LaunchStrategy \<Rightarrow> ('a, 'h) PluginLauncher \<Rightarrow> ('a, 'h) PluginLauncher" where
  "RegisterStrategy st l = l\<lparr>ln_strategies := (ln_strategies l)(strategyName st \<mapsto> st)\<rparr>"

text \<open>The loop copies every entry; the keys are distinct, so the order does not matter.\<close>

definition Configure :: "(string, ('a, 'h) PluginSpec) gomap \<Rightarrow> ('a, 'h) PluginLauncher \<Rightarrow> ('a, 'h) PluginLauncher" where
  "Configure specs l = l\<lparr>ln_specs := ln_specs l ++ specs\<rparr>"

fun contains :: "string list \<Rightarrow> string \<Rightarrow> bool" where
  "contains [] item = False"
| "contains (s # slice) item = (if s = item then True else contains slice item)"

definition availableStrategies :: "string list \<Rightarrow> ('a, 'h) PluginLauncher \<Rightarrow> string list" where
  "availableStrategies order l = order"

definition launchPluginLocked ::
    "'h LaunchEnv \<Rightarrow> string list \<Rightarrow> string \<Rightarrow> ('a, 'h) PluginSpec \<Rightarrow> ('a, 'h) PluginLauncher \<Rightarrow> 'h LaunchState \<Rightarrow>
     ('a, 'h) PluginLauncher \<times> 'h LaunchState \<times> LauncherError option" where
  "launchPluginLocked env order pluginName spec l s =
     (case ln_strategies l (ps_Strategy spec) of
        None \<Rightarrow> (l, s, Some (StrategyMissing (ps_Strategy spec) (availableStrategies order l)))
      | Some strategy \<Rightarrow>
          (case Launch strategy env spec s of
             (s', Inl e) \<Rightarrow> (l, s', Some (LaunchFailed pluginName e))
           | (s', Inr result) \<Rightarrow>
               (l\<lparr>ln_instances := (ln_instances l)(pluginName \<mapsto>
                    \<lparr>in_pluginName = pluginName, in_endpoint = lr_Endpoint result, in_httpClient = lr_HTTPClient result,
                     in_cleanup = lr_Cleanup result, in_provides = ps_Provides spec\<rparr>)\<rparr>,
                le_sleep env s', None)))"

text \<open>
  The part \<open>GetService\<close> and \<open>GetServiceClient\<close> share: the two checks and the launch at the first
  use. (An error of the launch is wrapped with the name of the plugin by both.)
\<close>

definition ensureInstance ::
    "'h LaunchEnv \<Rightarrow> string list \<Rightarrow> string \<Rightarrow> string \<Rightarrow> ('a, 'h) PluginLauncher \<Rightarrow> 'h LaunchState \<Rightarrow>
     ('a, 'h) PluginLauncher \<times> 'h LaunchState \<times> (LauncherError + pluginInstance)" where
  "ensureInstance env order pluginName serviceType l s =
     (case ln_specs l pluginName of
        None \<Rightarrow> (l, s, Inl (NotConfigured pluginName))
      | Some spec \<Rightarrow>
          if \<not> contains (ps_Provides spec) serviceType
          then (l, s, Inl (NotProvided pluginName serviceType (ps_Provides spec)))
          else (case ln_instances l pluginName of
              Some inst \<Rightarrow> (l, s, Inr inst)
            | None \<Rightarrow>
                (case launchPluginLocked env order pluginName spec l s of
                   (l', s', Some e) \<Rightarrow> (l', s', Inl e)
                 | (l', s', None) \<Rightarrow> (l', s', Inr (the (ln_instances l' pluginName))))))"

text \<open>
  \<open>draw\<close>, \<open>lc\<close> and \<open>between\<close> are those of the registry's \<open>DiscoverService\<close>; its answer is only
  tested for an error.
\<close>

definition GetService ::
    "(nat \<Rightarrow> nat) \<Rightarrow> lifecycle \<Rightarrow> (ServiceRegistry \<Rightarrow> ServiceRegistry) \<Rightarrow> 'h LaunchEnv \<Rightarrow> string list \<Rightarrow>
     string \<Rightarrow> string \<Rightarrow> ('a, 'h) PluginLauncher \<Rightarrow> 'h LaunchState \<Rightarrow>
     ('a, 'h) PluginLauncher \<times> 'h LaunchState \<times> (LauncherError + string)" where
  "GetService draw lc between env order pluginName serviceType l s =
     (case ensureInstance env order pluginName serviceType l s of
        (l', s', Inl e) \<Rightarrow> (l', s', Inl e)
      | (l', s', Inr inst) \<Rightarrow>
          (case DiscoverService draw lc between serviceType '''' (la_registry s') of
             (r, Inl e) \<Rightarrow> (l', s'\<lparr>la_registry := r\<rparr>, Inl (NotInRegistry serviceType e))
           | (r, Inr _) \<Rightarrow> (l', s'\<lparr>la_registry := r\<rparr>, Inr (in_endpoint inst))))"

definition GetServiceClient ::
    "'h LaunchEnv \<Rightarrow> string list \<Rightarrow> string \<Rightarrow> string \<Rightarrow> ('a, 'h) PluginLauncher \<Rightarrow> 'h LaunchState \<Rightarrow>
     ('a, 'h) PluginLauncher \<times> 'h LaunchState \<times> (LauncherError + string \<times> nat option)" where
  "GetServiceClient env order pluginName serviceType l s =
     (case ensureInstance env order pluginName serviceType l s of
        (l', s', Inl e) \<Rightarrow> (l', s', Inl e)
      | (l', s', Inr inst) \<Rightarrow> (l', s', Inr (in_endpoint inst, in_httpClient inst)))"

text \<open>The lock is released between reading the specification and the call; \<open>gap\<close> is what happens then.\<close>

definition GetDefaultService ::
    "(nat \<Rightarrow> nat) \<Rightarrow> lifecycle \<Rightarrow> (ServiceRegistry \<Rightarrow> ServiceRegistry) \<Rightarrow> 'h LaunchEnv \<Rightarrow> string list \<Rightarrow>
     (('a, 'h) PluginLauncher \<times> 'h LaunchState \<Rightarrow> ('a, 'h) PluginLauncher \<times> 'h LaunchState) \<Rightarrow>
     string \<Rightarrow> ('a, 'h) PluginLauncher \<Rightarrow> 'h LaunchState \<Rightarrow>
     ('a, 'h) PluginLauncher \<times> 'h LaunchState \<times> (LauncherError + string)" where
  "GetDefaultService draw lc between env order gap pluginName l s =
     (case ln_specs l pluginName of
        None \<Rightarrow> (l, s, Inl (NotConfigured pluginName))
      | Some spec \<Rightarrow>
          if length (ps_Provides spec) \<noteq> 1
          then (l, s, Inl (NotSingleService pluginName (length (ps_Provides spec))))
          else (case gap (l, s) of
              (l', s') \<Rightarrow> GetService draw lc between env order pluginName (ps_Provides spec ! 0) l' s'))"

text \<open>\<open>order\<close> is the order of the range over the instances.\<close>

definition stopInstance ::
    "string \<Rightarrow> ('a, 'h) PluginLauncher \<times> 'h LaunchState \<Rightarrow> ('a, 'h) PluginLauncher \<times> 'h LaunchState" where
  "stopInstance name ls =
     (case ln_instances (fst ls) name of
        None \<Rightarrow> ls
      | Some inst \<Rightarrow>
          ((fst ls)\<lparr>ln_instances := (ln_instances (fst ls))(name := None)\<rparr>,
           case in_cleanup inst of None \<Rightarrow> snd ls | Some c \<Rightarrow> runCleanup c (snd ls)))"

definition Launcher_Shutdown ::
    "string list \<Rightarrow> ('a, 'h) PluginLauncher \<times> 'h LaunchState \<Rightarrow> ('a, 'h) PluginLauncher \<times> 'h LaunchState" where
  "Launcher_Shutdown order ls = fold stopInstance order ls"

section \<open>The contract of a strategy\<close>

text \<open>What was started and not stopped again: open in-memory servers and running processes.\<close>

datatype resource = Server nat | Process nat

definition live :: "'h LaunchState \<Rightarrow> resource set" where
  "live s = {Server a | a. a < length (la_servers s) \<and> \<not> ln_closed (ms_listener (la_servers s ! a))} \<union>
            {Process p | p. p < length (la_procs s) \<and> pp_Running (la_procs s ! p)}"

definition target :: "CleanupFn \<Rightarrow> resource" where
  "target c = (case c of StopServer a _ \<Rightarrow> Server a | StopProcess p _ \<Rightarrow> Process p)"

text \<open>The rest of the program starts and stops no plugin while the launcher waits.\<close>

definition quiet :: "('h LaunchState \<Rightarrow> 'h LaunchState) \<Rightarrow> bool" where
  "quiet f \<longleftrightarrow> (\<forall>s. la_servers (f s) = la_servers s \<and> la_procs (f s) = la_procs s)"

definition quietEnv :: "'h LaunchEnv \<Rightarrow> bool" where
  "quietEnv env \<longleftrightarrow> quiet (le_poll env) \<and> quiet (le_sleep env)"

text \<open>
  A launch that fails leaves nothing running that was not; one that succeeds starts one resource,
  and its cleanup stops that one and no other.
\<close>

locale launch_strategy =
  fixes launch :: "'e \<Rightarrow> 'p \<Rightarrow> 'h LaunchState \<Rightarrow> 'h LaunchState \<times> (LaunchError + LaunchResult)"
    and okEnv :: "'e \<Rightarrow> bool"
  assumes launch_fails: "okEnv env \<Longrightarrow> launch env spec s = (s', Inl e) \<Longrightarrow> live s' = live s"
    and launch_starts: "okEnv env \<Longrightarrow> launch env spec s = (s', Inr result) \<Longrightarrow>
      \<exists>c. lr_Cleanup result = Some c \<and> target c \<notin> live s \<and> live s' = insert (target c) (live s)"
begin

lemma launch_live:
  assumes "okEnv env" and "launch env spec s = (s', res)"
  shows "live s' = live s \<union> (case res of Inl _ \<Rightarrow> {} | Inr r \<Rightarrow> target ` set_option (lr_Cleanup r))"
proof (cases res)
  case (Inl e)
  then show ?thesis using launch_fails [OF assms(1) assms(2) [unfolded Inl]] by (simp add: Inl)
next
  case (Inr r)
  obtain c where "lr_Cleanup r = Some c" "live s' = insert (target c) (live s)"
    using launch_starts [OF assms(1) assms(2) [unfolded Inr]] by (elim exE conjE) (rule that)
  then show ?thesis by (simp add: Inr)
qed

end

lemma live_closeServer: "live (closeServer a s) = live s - {Server a}"
  by (cases "a < length (la_servers s)")
    (auto simp: live_def closeServer_def Listener_Close_def nth_list_update list_update_beyond split: if_splits)

lemma live_killProcess: "live (killProcess p s) = live s - {Process p}"
  by (cases "p < length (la_procs s)")
    (auto simp: live_def killProcess_def nth_list_update list_update_beyond split: if_splits)

lemma live_cong: "la_servers s' = la_servers s \<Longrightarrow> la_procs s' = la_procs s \<Longrightarrow> live s' = live s"
  by (simp add: live_def)

lemma live_runCleanup: "live (runCleanup c s) = live s - {target c}"
proof (cases c)
  case (StopServer a name)
  have "live (runCleanup c s) = live (closeServer a s)"
    by (rule live_cong) (simp_all add: runCleanup_def StopServer)
  then show ?thesis by (simp add: live_closeServer StopServer target_def)
next
  case (StopProcess p name)
  have "live (runCleanup c s) = live (killProcess p s)"
    by (rule live_cong) (simp_all add: runCleanup_def StopProcess)
  then show ?thesis by (simp add: live_killProcess StopProcess target_def)
qed

end
