(* ===== verification/LauncherProps.thy ===== *)
theory LauncherProps
  imports Launcher
begin

text \<open>
  What the launcher guarantees: both strategies keep the contract of \<open>launch_strategy\<close>, so that in
  every reachable state whatever runs belongs to an instance and \<open>Shutdown\<close> stops it; a plugin is
  launched at most once; an in-memory plugin serves its handler and its services are registered,
  but under an endpoint the router does not know.
\<close>

section \<open>The two strategies\<close>

lemma live_add_server: "live (s\<lparr>la_servers := la_servers s @ [\<lparr>ms_mux = mux, ms_listener = Listener_New\<rparr>]\<rparr>) =
    insert (Server (length (la_servers s))) (live s)"
  by (auto simp: live_def nth_append Listener_New_def less_Suc_eq)

lemma live_add_process:
  assumes "pp_Running p"
  shows "live (s\<lparr>la_procs := la_procs s @ [p]\<rparr>) = insert (Process (length (la_procs s))) (live s)"
  using assms by (auto simp: live_def nth_append less_Suc_eq)

lemma live_fresh: "Server (length (la_servers s)) \<notin> live s" "Process (length (la_procs s)) \<notin> live s"
  by (simp_all add: live_def)

lemma live_memStart: "live (memStart spec mux s) = insert (Server (length (la_servers s))) (live s)"
proof -
  have "live (memStart spec mux s) = live (s\<lparr>la_servers := la_servers s @ [\<lparr>ms_mux = mux, ms_listener = Listener_New\<rparr>]\<rparr>)"
    by (rule live_cong) (simp_all add: memStart_def)
  then show ?thesis by (simp add: live_add_server)
qed

lemma memLaunch_cases:
  obtains (failed) e where "memLaunch registers env spec s = (s, Inl e)"
  | (started) plugin impl path handler mux s' where "ps_Plugin spec = Some plugin" "ps_ImplFactory spec = Some impl"
      "pl_ConnectServer plugin impl = Inr (path, handler)" "memMux path handler = Inr mux"
      "memLaunch registers env spec s = (s', Inr \<lparr>lr_Endpoint = memEndpoint (ps_Name spec),
         lr_HTTPClient = Some (length (la_servers s)), lr_Cleanup = Some (StopServer (length (la_servers s)) (ps_Name spec))\<rparr>)"
      "s' = (if registers then (memStart spec mux s)\<lparr>la_registry := registerService env spec plugin (la_registry s)\<rparr>
             else memStart spec mux s)"
proof (cases "\<exists>e. memLaunch registers env spec s = (s, Inl e)")
  case True
  then show ?thesis using failed by blast
next
  case False
  then obtain plugin impl path handler mux where p: "ps_Plugin spec = Some plugin" "ps_ImplFactory spec = Some impl"
      "pl_ConnectServer plugin impl = Inr (path, handler)" "memMux path handler = Inr mux"
    by (auto simp: memLaunch_def Let_def split: option.splits sum.splits prod.splits)
  show ?thesis
    by (rule started [OF p _ refl]) (simp add: memLaunch_def p Let_def memStart_def)
qed

interpretation mem: launch_strategy "memLaunch registers" quietEnv for registers
proof unfold_locales
  fix env :: "'a LaunchEnv" and spec :: "('b, 'a) PluginSpec" and s s' e
  assume "memLaunch registers env spec s = (s', Inl e)"
  then show "live s' = live s" by (cases rule: memLaunch_cases [of registers env spec s]) auto
next
  fix env :: "'a LaunchEnv" and spec :: "('b, 'a) PluginSpec" and s s' result
  assume ok: "memLaunch registers env spec s = (s', Inr result)"
  show "\<exists>c. lr_Cleanup result = Some c \<and> target c \<notin> live s \<and> live s' = insert (target c) (live s)"
  proof (cases rule: memLaunch_cases [of registers env spec s])
    case (failed e)
    then show ?thesis using ok by simp
  next
    case (started plugin impl path handler mux s2)
    have "live s2 = live (memStart spec mux s)"
      by (rule live_cong) (simp_all add: started(6))
    then show ?thesis
      using ok started(5) by (auto simp: live_memStart target_def live_fresh)
  qed
qed

lemma processLaunch_live:
  assumes env: "quietEnv env" and l: "processLaunch env spec s = (s', res)"
  shows "(\<forall>e. res = Inl e \<longrightarrow> live s' = live s) \<and>
    (\<forall>r. res = Inr r \<longrightarrow> lr_Cleanup r = Some (StopProcess (length (la_procs s)) (ps_Name spec)) \<and>
       live s' = insert (Process (length (la_procs s))) (live s))"
proof (cases "ps_BinaryPath spec = '''' \<or> le_startError env \<noteq> None")
  case True
  then show ?thesis using l by (auto simp: processLaunch_def split: if_splits option.splits)
next
  case False
  let ?p = "length (la_procs s)"
  let ?proc = "\<lparr>pp_Path = ps_BinaryPath spec, pp_Env = processEnv spec, pp_Running = True\<rparr>"
  let ?s1 = "s\<lparr>la_procs := la_procs s @ [?proc], la_processes := (la_processes s)(ps_Name spec \<mapsto> ?p)\<rparr>"
  have "live ?s1 = live (s\<lparr>la_procs := la_procs s @ [?proc]\<rparr>)" by (rule live_cong) simp_all
  moreover have "live (le_poll env ?s1) = live ?s1"
    using env by (intro live_cong) (simp_all add: quietEnv_def quiet_def)
  ultimately have s2: "live (le_poll env ?s1) = insert (Process ?p) (live s)" by (simp add: live_add_process)
  show ?thesis
  proof (cases "waitForPluginReady (le_ticks env)")
    case None
    then show ?thesis using l False s2 by (auto simp: processLaunch_def Let_def)
  next
    case (Some e)
    then have "s' = killProcess ?p (le_poll env ?s1)" "res = Inl (NotReady (ps_Name spec) e)"
      using l False by (auto simp: processLaunch_def Let_def)
    then show ?thesis using s2 live_fresh(2) [of s] by (simp add: live_killProcess)
  qed
qed

interpretation proc: launch_strategy processLaunch quietEnv
proof unfold_locales
  fix env :: "'a LaunchEnv" and spec :: "('b, 'a) PluginSpec" and s s' e
  assume "quietEnv env" "processLaunch env spec s = (s', Inl e)"
  then show "live s' = live s" using processLaunch_live by blast
next
  fix env :: "'a LaunchEnv" and spec :: "('b, 'a) PluginSpec" and s s' result
  assume "quietEnv env" "processLaunch env spec s = (s', Inr result)"
  from processLaunch_live [OF this]
  show "\<exists>c. lr_Cleanup result = Some c \<and> target c \<notin> live s \<and> live s' = insert (target c) (live s)"
    by (simp add: target_def live_fresh)
qed

lemma Launch_live:
  assumes "quietEnv env" and "Launch st env spec s = (s', res)"
  shows "live s' = live s \<union> (case res of Inl _ \<Rightarrow> {} | Inr r \<Rightarrow> target ` set_option (lr_Cleanup r))"
  using assms mem.launch_live [of env _ spec s s' res] proc.launch_live [of env spec s s' res]
  by (simp add: Launch_def split: LaunchStrategy.splits)
section \<open>Whatever runs belongs to an instance\<close>

definition ownedBy :: "('a, 'h) PluginLauncher \<Rightarrow> string \<Rightarrow> resource set" where
  "ownedBy l name = (case ln_instances l name of None \<Rightarrow> {} | Some inst \<Rightarrow> target ` set_option (in_cleanup inst))"

definition owned :: "('a, 'h) PluginLauncher \<Rightarrow> resource set" where
  "owned l = (\<Union>name. ownedBy l name)"

definition launcher_inv :: "('a, 'h) PluginLauncher \<times> 'h LaunchState \<Rightarrow> bool" where
  "launcher_inv ls \<longleftrightarrow> live (snd ls) \<subseteq> owned (fst ls)"

lemma owned_cong: "ln_instances l' = ln_instances l \<Longrightarrow> owned l' = owned l"
  by (simp add: owned_def ownedBy_def)

lemma ownedBy_upd:
  "ownedBy (l\<lparr>ln_instances := (ln_instances l)(name := x)\<rparr>) n =
     (if n = name then (case x of None \<Rightarrow> {} | Some inst \<Rightarrow> target ` set_option (in_cleanup inst)) else ownedBy l n)"
  by (simp add: ownedBy_def)

lemma owned_add:
  assumes "ln_instances l name = None"
  shows "owned (l\<lparr>ln_instances := (ln_instances l)(name \<mapsto> inst)\<rparr>) = owned l \<union> target ` set_option (in_cleanup inst)"
proof -
  have "ownedBy l name = {}" by (simp add: ownedBy_def assms)
  then show ?thesis by (auto simp: owned_def ownedBy_upd split: if_splits)
qed

lemma live_quiet: "quiet f \<Longrightarrow> live (f s) = live s"
  by (intro live_cong) (simp_all add: quiet_def)

text \<open>A launch either changes neither the instances nor what runs, or stores what it started.\<close>

lemma launchPluginLocked_cases:
  assumes env: "quietEnv env" and l: "launchPluginLocked env order name spec l s = (l', s', res)"
  obtains (failed) e where "res = Some e" "l' = l" "live s' = live s"
  | (launched) strategy result s1 inst where "res = None" "ln_strategies l (ps_Strategy spec) = Some strategy"
      "Launch strategy env spec s = (s1, Inr result)" "s' = le_sleep env s1"
      "l' = l\<lparr>ln_instances := (ln_instances l)(name \<mapsto> inst)\<rparr>" "in_endpoint inst = lr_Endpoint result"
      "in_cleanup inst = lr_Cleanup result" "live s' = live s \<union> target ` set_option (lr_Cleanup result)"
proof (cases "ln_strategies l (ps_Strategy spec)")
  case None
  then show ?thesis using l by (intro failed) (auto simp: launchPluginLocked_def)
next
  case (Some strategy)
  obtain s1 r where r: "Launch strategy env spec s = (s1, r)" by fastforce
  show ?thesis
  proof (cases r)
    case (Inl e)
    then show ?thesis
      using l Some r Launch_live [OF env r] by (intro failed) (auto simp: launchPluginLocked_def)
  next
    case (Inr result)
    let ?inst = "\<lparr>in_pluginName = name, in_endpoint = lr_Endpoint result, in_httpClient = lr_HTTPClient result,
      in_cleanup = lr_Cleanup result, in_provides = ps_Provides spec\<rparr>"
    have "live (le_sleep env s1) = live s1" using env by (simp add: quietEnv_def live_quiet)
    then have q: "live (le_sleep env s1) = live s \<union> target ` set_option (lr_Cleanup result)"
      using Launch_live [OF env r] by (simp add: Inr)
    have "(l', s', res) = (l\<lparr>ln_instances := (ln_instances l)(name \<mapsto> ?inst)\<rparr>, le_sleep env s1, None)"
      using l by (simp add: launchPluginLocked_def Some r Inr)
    then show ?thesis
      by (intro launched [OF _ Some r [unfolded Inr], of ?inst]) (simp_all add: q)
  qed
qed

lemma launchPluginLocked_inv:
  assumes "quietEnv env" and "launchPluginLocked env order name spec l s = (l', s', res)"
    and "ln_instances l name = None" and "launcher_inv (l, s)"
  shows "launcher_inv (l', s')"
  using assms(1,2)
proof (cases rule: launchPluginLocked_cases)
  case (failed e)
  then show ?thesis using assms(4) by (simp add: launcher_inv_def)
next
  case (launched strategy result s1 inst)
  have "owned l' = owned l \<union> target ` set_option (lr_Cleanup result)"
    unfolding launched(5) owned_add [OF assms(3)] launched(7) ..
  then show ?thesis using assms(4) by (auto simp: launcher_inv_def launched(8))
qed

lemma ensureInstance_cases:
  assumes "ensureInstance env order name t l s = (l', s', res)"
  obtains (refused) e where "res = Inl e" "l' = l" "s' = s"
  | (running) spec inst where "ln_specs l name = Some spec" "contains (ps_Provides spec) t"
      "ln_instances l name = Some inst" "res = Inr inst" "l' = l" "s' = s"
  | (launch) spec err where "ln_specs l name = Some spec" "contains (ps_Provides spec) t"
      "ln_instances l name = None" "launchPluginLocked env order name spec l s = (l', s', err)"
      "res = (case err of Some e \<Rightarrow> Inl e | None \<Rightarrow> Inr (the (ln_instances l' name)))"
proof (cases "ln_specs l name")
  case None
  then show ?thesis using assms by (intro refused) (auto simp: ensureInstance_def)
next
  case (Some spec)
  show ?thesis
  proof (cases "contains (ps_Provides spec) t")
    case False
    then show ?thesis using assms Some by (intro refused) (auto simp: ensureInstance_def)
  next
    case True
    show ?thesis
    proof (cases "ln_instances l name")
      case None
      obtain l2 s2 err where "launchPluginLocked env order name spec l s = (l2, s2, err)" by (metis surj_pair)
      then have eq: "l' = l2 \<and> s' = s2 \<and> res = (case err of Some e \<Rightarrow> Inl e | None \<Rightarrow> Inr (the (ln_instances l2 name)))"
        and run: "launchPluginLocked env order name spec l s = (l', s', err)"
        using assms Some True None by (cases err; simp add: ensureInstance_def)+
      show ?thesis by (rule launch [OF Some True None run]) (cases err; simp add: eq)
    next
      case inst: (Some inst)
      then show ?thesis using assms Some True by (intro running) (auto simp: ensureInstance_def)
    qed
  qed
qed

lemma ensureInstance_inv:
  assumes "quietEnv env" and "ensureInstance env order name t l s = (l', s', res)" and "launcher_inv (l, s)"
  shows "launcher_inv (l', s')"
  using assms(2)
proof (cases rule: ensureInstance_cases)
  case (launch spec err)
  then show ?thesis using launchPluginLocked_inv [OF assms(1) launch(4,3) assms(3)] by simp
qed (use assms(3) in simp_all)

text \<open>The registry does not count for what runs.\<close>

lemma launcher_inv_registry: "launcher_inv (l, s\<lparr>la_registry := r\<rparr>) = launcher_inv (l, s)"
  by (simp add: launcher_inv_def live_def)

lemma GetService_unfold:
  assumes "ensureInstance env order name t l s = (l', s', res)"
  shows "\<exists>r. GetService draw lc between env order name t l s = (l', s'\<lparr>la_registry := r\<rparr>,
     case res of Inl e \<Rightarrow> Inl e
       | Inr inst \<Rightarrow> (case snd (DiscoverService draw lc between t '''' (la_registry s')) of
                       Inl e \<Rightarrow> Inl (NotInRegistry t e) | Inr _ \<Rightarrow> Inr (in_endpoint inst)))"
proof (cases res)
  case (Inl e)
  then show ?thesis using assms by (intro exI [of _ "la_registry s'"]) (simp add: GetService_def)
next
  case (Inr inst)
  then show ?thesis using assms
    by (cases "DiscoverService draw lc between t '''' (la_registry s')")
      (auto simp: GetService_def split: sum.splits)
qed

lemma GetService_inv:
  assumes "quietEnv env" and "launcher_inv (l, s)" and "GetService draw lc between env order name t l s = (l', s', res)"
  shows "launcher_inv (l', s')"
proof -
  obtain l2 s2 r2 where e: "ensureInstance env order name t l s = (l2, s2, r2)" by (metis surj_pair)
  obtain r where "l' = l2" "s' = s2\<lparr>la_registry := r\<rparr>"
    using GetService_unfold [OF e, of draw lc between] assms(3) by auto
  then show ?thesis using ensureInstance_inv [OF assms(1) e assms(2)] by (simp add: launcher_inv_registry)
qed

lemma stopInstance_effect:
  "ln_instances (fst (stopInstance name ls)) = (ln_instances (fst ls))(name := None)"
  "live (snd (stopInstance name ls)) = live (snd ls) - ownedBy (fst ls) name"
proof -
  show "ln_instances (fst (stopInstance name ls)) = (ln_instances (fst ls))(name := None)"
    by (cases "ln_instances (fst ls) name") (simp_all add: stopInstance_def fun_upd_idem)
  show "live (snd (stopInstance name ls)) = live (snd ls) - ownedBy (fst ls) name"
    by (simp add: stopInstance_def ownedBy_def live_runCleanup split: option.split)
qed

lemma ownedBy_stopInstance: "ownedBy (fst (stopInstance name ls)) n = (if n = name then {} else ownedBy (fst ls) n)"
  by (simp add: ownedBy_def stopInstance_effect(1))

lemma Launcher_Shutdown_effect:
  "ln_instances (fst (Launcher_Shutdown order ls)) = (\<lambda>n. if n \<in> set order then None else ln_instances (fst ls) n) \<and>
   live (snd (Launcher_Shutdown order ls)) = live (snd ls) - (\<Union>n\<in>set order. ownedBy (fst ls) n)"
proof (induction order arbitrary: ls)
  case (Cons n order)
  let ?ls = "stopInstance n ls"
  have e: "Launcher_Shutdown (n # order) ls = Launcher_Shutdown order ?ls" by (simp add: Launcher_Shutdown_def)
  have "(\<Union>m\<in>set (n # order). ownedBy (fst ls) m) = ownedBy (fst ls) n \<union> (\<Union>m\<in>set order. ownedBy (fst ?ls) m)"
    by (auto simp: ownedBy_stopInstance split: if_splits)
  then have "live (snd (Launcher_Shutdown (n # order) ls)) = live (snd ls) - (\<Union>m\<in>set (n # order). ownedBy (fst ls) m)"
    using Cons.IH [of ?ls] by (simp only: e stopInstance_effect(2) Diff_eq Compl_Un Int_assoc)
  then show ?case
    using Cons.IH [of ?ls] by (simp add: e stopInstance_effect(1) fun_eq_iff)
qed (simp add: Launcher_Shutdown_def)

lemma Launcher_Shutdown_all:
  assumes "iter_order (ln_instances l) order" and "launcher_inv (l, s)"
  shows "ln_instances (fst (Launcher_Shutdown order (l, s))) = Map.empty" and "live (snd (Launcher_Shutdown order (l, s))) = {}"
proof -
  have d: "set order = dom (ln_instances l)" using iter_order_dom [OF assms(1)] .
  show "ln_instances (fst (Launcher_Shutdown order (l, s))) = Map.empty"
    using Launcher_Shutdown_effect [of order "(l, s)"] by (auto simp: d fun_eq_iff domIff)
  have "ownedBy l n = {}" if "n \<notin> dom (ln_instances l)" for n
    using that by (simp add: ownedBy_def domIff)
  then have "owned l = (\<Union>n\<in>set order. ownedBy l n)" unfolding owned_def d by blast
  then show "live (snd (Launcher_Shutdown order (l, s))) = {}"
    using Launcher_Shutdown_effect [of order "(l, s)"] assms(2) by (auto simp: launcher_inv_def)
qed

section \<open>The launcher as a transition system\<close>

inductive launcher_step ::
    "('a, 'h) PluginLauncher \<times> 'h LaunchState \<Rightarrow> ('a, 'h) PluginLauncher \<times> 'h LaunchState \<Rightarrow> bool" where
  la_strategy: "launcher_step (l, s) (RegisterStrategy st l, s)"
| la_configure: "launcher_step (l, s) (Configure specs l, s)"
| la_service: "quietEnv env \<Longrightarrow> GetService draw lc between env order name t l s = (l', s', res) \<Longrightarrow> launcher_step (l, s) (l', s')"
| la_client: "quietEnv env \<Longrightarrow> GetServiceClient env order name t l s = (l', s', res2) \<Longrightarrow> launcher_step (l, s) (l', s')"
| la_shutdown: "iter_order (ln_instances l) order \<Longrightarrow> launcher_step (l, s) (Launcher_Shutdown order (l, s))"
| la_other: "quiet f \<Longrightarrow> launcher_step (l, s) (l, f s)"

definition launcher_init :: "('a, 'h) PluginLauncher \<times> 'h LaunchState \<Rightarrow> bool" where
  "launcher_init ls \<longleftrightarrow> fst ls = NewPluginLauncher \<and> live (snd ls) = {}"

interpretation la: safe_component launcher_init launcher_step launcher_inv
proof unfold_locales
  show "launcher_init ls \<Longrightarrow> launcher_inv ls" for ls :: "('a, 'h) PluginLauncher \<times> 'h LaunchState"
    by (simp add: launcher_init_def launcher_inv_def)
next
  fix ls ls' :: "('a, 'h) PluginLauncher \<times> 'h LaunchState"
  assume "launcher_step ls ls'" and inv: "launcher_inv ls"
  then show "launcher_inv ls'"
  proof (cases rule: launcher_step.cases)
    case (la_strategy l s st)
    then show ?thesis using inv owned_cong [of "RegisterStrategy st l" l] by (simp add: launcher_inv_def RegisterStrategy_def)
  next
    case (la_configure l s specs)
    then show ?thesis using inv owned_cong [of "Configure specs l" l] by (simp add: launcher_inv_def Configure_def)
  next
    case (la_service env draw lc between order name t l s l' s' res)
    then show ?thesis using GetService_inv inv by blast
  next
    case (la_client env order name t l s l' s' res)
    obtain l2 s2 r2 where e: "ensureInstance env order name t l s = (l2, s2, r2)" by (metis surj_pair)
    then have "l' = l2" "s' = s2" using la_client(4) by (auto simp: GetServiceClient_def split: sum.splits)
    then show ?thesis using ensureInstance_inv [OF la_client(3) e] inv la_client by simp
  next
    case (la_shutdown l order s)
    then show ?thesis
      using Launcher_Shutdown_all(2) [of l order s] inv by (simp add: launcher_inv_def)
  next
    case (la_other f l s)
    then show ?thesis using inv by (simp add: launcher_inv_def live_quiet)
  qed
qed

section \<open>Properties\<close>

text \<open>C11. Nothing leaks: whatever sequence of configurations, launches by either strategy, successful
  or failing, and shutdowns happened, shutting the launcher down leaves no instance, no open in-memory
  server and no running child process.\<close>
theorem Launcher_Shutdown_stops_all:
  assumes "reach launcher_init launcher_step (l, s)" and "iter_order (ln_instances l) order"
  shows "ln_instances (fst (Launcher_Shutdown order (l, s))) = Map.empty \<and> live (snd (Launcher_Shutdown order (l, s))) = {}"
  using Launcher_Shutdown_all [OF assms(2) la.reach_inv [OF assms(1)]] by simp

text \<open>A plugin is launched once: after a call of \<open>GetService\<close> that returned an endpoint, every later
  call for the same plugin, for any service it provides and whatever its launch would meet, starts
  nothing and returns the same endpoint, unless no provider of the service can be discovered.\<close>
theorem GetService_once:
  assumes "GetService draw lc between env order name t l s = (l', s', Inr endpoint)"
    and "ln_specs l name = Some spec" and "t' \<in> set (ps_Provides spec)"
  shows "\<exists>s'' res. GetService draw' lc' between' env' order' name t' l' s' = (l', s'', res) \<and>
    la_servers s'' = la_servers s' \<and> la_procs s'' = la_procs s' \<and>
    (res = Inr endpoint \<or> (\<exists>e. res = Inl (NotInRegistry t' e)))"
proof -
  have contains: "contains ts x \<longleftrightarrow> x \<in> set ts" for ts x by (induction ts) auto
  obtain l2 s2 r2 where e: "ensureInstance env order name t l s = (l2, s2, r2)" by (metis surj_pair)
  obtain r where g: "l' = l2" "(case r2 of Inl e \<Rightarrow> Inl e
       | Inr inst \<Rightarrow> (case snd (DiscoverService draw lc between t '''' (la_registry s2)) of
                       Inl e \<Rightarrow> Inl (NotInRegistry t e) | Inr _ \<Rightarrow> Inr (in_endpoint inst))) = Inr endpoint"
    using GetService_unfold [OF e, of draw lc between] assms(1) by auto
  then obtain inst where inst: "r2 = Inr inst" "in_endpoint inst = endpoint" by (auto split: sum.splits)
  have l': "ln_instances l' name = Some inst" "ln_specs l' name = Some spec"
    using e inst(1) assms(2) unfolding g(1)
    by (auto simp: ensureInstance_def launchPluginLocked_def split: option.splits if_splits prod.splits sum.splits)
  have "ensureInstance env' order' name t' l' s' = (l', s', Inr inst)"
    using l' assms(3) by (simp add: ensureInstance_def contains)
  from GetService_unfold [OF this, of draw' lc' between'] obtain r' where
    "GetService draw' lc' between' env' order' name t' l' s' = (l', s'\<lparr>la_registry := r'\<rparr>,
       case snd (DiscoverService draw' lc' between' t' '''' (la_registry s')) of
         Inl e \<Rightarrow> Inl (NotInRegistry t' e) | Inr _ \<Rightarrow> Inr (in_endpoint inst))" by auto
  then show ?thesis
    by (intro exI conjI) (assumption, auto simp: inst(2) split: sum.split)
qed

section \<open>In-memory plugins\<close>

lemma memRegister_registrations:
  "p \<in> ran (r_registrations (memRegister env name decls i ts r)) \<Longrightarrow>
   p \<in> ran (r_registrations r) \<or> (\<exists>regID t path. p = memProvider (le_zeroTime env) name regID t path)"
proof (induction env name decls i ts r rule: memRegister.induct)
  case (2 env name decls i t ts r)
  show ?case
  proof (cases "generateRegistrationID (le_rnds env i)")
    case None
    then show ?thesis using "2.IH"(1) "2.prems" by (simp add: Let_def)
  next
    case (Some regID)
    let ?p = "memProvider (le_zeroTime env) name regID t (if i < length decls then sd_Path (decls ! i) else '''')"
    let ?r = "r\<lparr>r_providers := append_at (r_providers r) t ?p, r_registrations := (r_registrations r)(regID \<mapsto> ?p)\<rparr>"
    have "p \<in> ran (r_registrations (memRegister env name decls (Suc i) ts ?r))"
      using "2.prems" Some by (simp add: Let_def)
    from "2.IH"(2) [OF refl Some refl this] show ?thesis
      by (auto simp: ran_def split: if_splits)
  qed
qed simp

lemma memRegister_providers:
  assumes "\<forall>i. generateRegistrationID (le_rnds env i) \<noteq> None"
  shows "set (get_slice (r_providers r) t) \<subseteq> set (get_slice (r_providers (memRegister env name decls i ts r)) t) \<and>
    (t \<in> set ts \<longrightarrow> (\<exists>p\<in>set (get_slice (r_providers (memRegister env name decls i ts r)) t).
       sp_RuntimeID p = name \<and> sp_ServiceType p = t))"
  using assms
proof (induction env name decls i ts r rule: memRegister.induct)
  case (2 env name decls i t' ts r)
  obtain regID where Some: "generateRegistrationID (le_rnds env i) = Some regID" using "2.prems" by auto
  let ?p = "memProvider (le_zeroTime env) name regID t' (if i < length decls then sd_Path (decls ! i) else '''')"
  let ?r = "r\<lparr>r_providers := append_at (r_providers r) t' ?p, r_registrations := (r_registrations r)(regID \<mapsto> ?p)\<rparr>"
  have e: "memRegister env name decls i (t' # ts) r = memRegister env name decls (Suc i) ts ?r"
    by (simp add: Some Let_def)
  have p: "sp_RuntimeID ?p = name" "sp_ServiceType ?p = t'" by (simp_all add: memProvider_def)
  have s: "set (get_slice (r_providers ?r) t) = set (get_slice (r_providers r) t) \<union> (if t = t' then {?p} else {})"
    by simp
  note ih = "2.IH"(2) [OF refl Some refl "2.prems"]
  show ?case unfolding e using ih p unfolding s by (cases "t = t'") auto
qed simp

lemma memMux_ok:
  assumes "memMux path handler = Inr mux"
  shows "mux = [(path, MemPlugin handler), (controlPath, MemControl)] \<and> path \<noteq> controlPath"
  using assms by (auto simp: memMux_def mux_handle_def split: if_splits)

text \<open>A plugin launched in memory serves its handler at its path and the control service next to it
  on a server of its own that accepts connections, and is registered under its name for every service
  type of its specification.\<close>
theorem memory_plugin_served:
  assumes "memLaunch True env spec s = (s', Inr result)" and "ps_Plugin spec = Some plugin" and "ps_ImplFactory spec = Some impl"
    and "\<forall>i. generateRegistrationID (le_rnds env i) \<noteq> None"
  shows "\<exists>a path handler. lr_HTTPClient result = Some a \<and> a < length (la_servers s') \<and>
    pl_ConnectServer plugin impl = Inr (path, handler) \<and> \<not> ln_closed (ms_listener (la_servers s' ! a)) \<and>
    muxMatch (ms_mux (la_servers s' ! a)) path = Some (MemPlugin handler) \<and>
    muxMatch (ms_mux (la_servers s' ! a)) controlPath = Some MemControl \<and>
    (\<forall>t\<in>set (ps_Provides spec). \<exists>p\<in>set (get_slice (r_providers (la_registry s')) t). sp_RuntimeID p = ps_Name spec)"
proof (cases rule: memLaunch_cases [of True env spec s])
  case (failed e)
  then show ?thesis using assms(1) by simp
next
  case (started plugin' impl' path handler mux s2)
  then have same: "plugin' = plugin" "impl' = impl" "s2 = s'" using assms(1-3) by auto
  let ?a = "length (la_servers s)"
  have srv: "la_servers s' = la_servers s @ [\<lparr>ms_mux = mux, ms_listener = Listener_New\<rparr>]"
    using started(6) by (simp add: same memStart_def)
  have reg: "la_registry s' = registerService env spec plugin (la_registry s)" using started(6) by (simp add: same)
  have mux: "mux = [(path, MemPlugin handler), (controlPath, MemControl)]" "path \<noteq> controlPath"
    using memMux_ok [OF started(4)] by simp_all
  then have d: "distinct (map fst mux)" by simp
  have "muxMatch mux path = Some (MemPlugin handler)" "muxMatch mux controlPath = Some MemControl"
    by (rule muxMatch_self [OF d]; simp add: mux(1))+
  moreover have "\<forall>t\<in>set (ps_Provides spec). \<exists>p\<in>set (get_slice (r_providers (la_registry s')) t). sp_RuntimeID p = ps_Name spec"
    using memRegister_providers [OF assms(4)] unfolding reg registerService_def by blast
  ultimately show ?thesis
    using started(3,5) assms(1) by (intro exI [of _ ?a] exI [of _ path] exI [of _ handler]) (simp add: same srv Listener_New_def)
qed

text \<open>The router cannot reach such a plugin: it is registered without an address, so unless the host
  registers an endpoint for its name itself no request to it is forwarded, whoever sends it.\<close>
theorem memory_plugin_unroutable:
  assumes "memLaunch True env spec s = (s', Inr result)"
    and new: "\<forall>p\<in>ran (r_registrations (la_registry s)). sp_RuntimeID p \<noteq> ps_Name spec"
    and router: "sr_pluginEndpoints router (ps_Name spec) = None"
    and order: "iter_order (r_registrations (la_registry s')) order"
    and path: "hq_Path req = serviceURL t (ps_Name spec) @ ''/'' @ m" "CHR ''/'' \<notin> set t" "CHR ''/'' \<notin> set (ps_Name spec)"
  shows "snd (routeRequest now order (la_registry s') l router req hs) \<noteq> Forward url"
proof
  assume "snd (routeRequest now order (la_registry s') l router req hs) = Forward url"
  then have "routeRequest now order (la_registry s') l router req hs =
      (fst (routeRequest now order (la_registry s') l router req hs), Forward url)" by (simp add: prod_eq_iff)
  from routeRequest_Forward [OF this order] obtain t' rid m' p base where
    p': "hq_Path req = ''/services/'' @ t' @ ''/'' @ rid @ ''/'' @ m'" "CHR ''/'' \<notin> set t'" "CHR ''/'' \<notin> set rid"
    and p: "p \<in> ran (r_registrations (la_registry s'))" "sp_RuntimeID p = rid" and base: "providerBase router p = Some base"
    by (elim exE conjE) (rule that)
  have eq: "''/services/'' @ t @ ''/'' @ ps_Name spec @ ''/'' @ m = ''/services/'' @ t' @ ''/'' @ rid @ ''/'' @ m'"
    using path(1) p'(1) by (simp only: serviceURL_def append_assoc)
  have "[t', rid, m'] = [t, ps_Name spec, m]"
    using service_path_split [OF path(2,3), of m] unfolding eq service_path_split [OF p'(2,3), of m'] .
  then have rid: "sp_RuntimeID p = ps_Name spec" using p(2) by simp
  show False
  proof (cases rule: memLaunch_cases [of True env spec s])
    case (failed e)
    then show False using assms(1) by simp
  next
    case (started plugin impl path handler mux s2)
    then have "la_registry s' = registerService env spec plugin (la_registry s)" using assms(1) by simp
    then have "p \<in> ran (r_registrations (la_registry s)) \<or>
        (\<exists>regID t path. p = memProvider (le_zeroTime env) (ps_Name spec) regID t path)"
      using memRegister_registrations p(1) unfolding registerService_def by metis
    then obtain regID u pth where "p = memProvider (le_zeroTime env) (ps_Name spec) regID u pth"
      using new rid by blast
    then show False using base router by (simp add: providerBase_def rid) (simp add: memProvider_def)
  qed
qed

section \<open>An example\<close>

definition example_spec :: "(unit, nat) PluginSpec" where
  "example_spec = \<lparr>ps_Name = ''kv-plugin'', ps_Provides = [''kv''], ps_Strategy = ''in-memory'', ps_Port = 0,
     ps_BinaryPath = '''', ps_HostURL = '''',
     ps_Plugin = Some \<lparr>pl_Metadata = \<lparr>pm_Name = ''kv'', pm_Path = ''/kv.v1.KV/'', pm_Version = ''1.0.0'',
         pm_Provides = [], pm_Requires = []\<rparr>,
       pl_ConnectServer = (\<lambda>_. Inr (''/kv.v1.KV/'', 7)), pl_ConnectClient = (\<lambda>_ _. Inr ())\<rparr>,
     ps_ImplFactory = Some (), ps_Metadata = Map.empty\<rparr>"

definition example_launch_env :: "nat LaunchEnv" where
  "example_launch_env = \<lparr>le_rnds = (\<lambda>_. Some ''abcdefgh''), le_zeroTime = 0, le_startError = None, le_ticks = [],
     le_poll = id, le_sleep = id\<rparr>"

definition example_host :: "nat LaunchState" where
  "example_host = \<lparr>la_registry = NewServiceRegistry, la_servers = [], la_listeners = Map.empty, la_procs = [],
     la_processes = Map.empty\<rparr>"

definition example_launcher :: "(unit, nat) PluginLauncher" where
  "example_launcher = Configure [''kv'' \<mapsto> example_spec] (RegisterStrategy (InMemoryStrategy True) NewPluginLauncher)"

definition example_started :: "nat LaunchState" where
  "example_started = fst (memLaunch True example_launch_env example_spec example_host)"

definition example_result :: LaunchResult where
  "example_result = \<lparr>lr_Endpoint = ''http://in-memory.kv-plugin'', lr_HTTPClient = Some 0,
     lr_Cleanup = Some (StopServer 0 ''kv-plugin'')\<rparr>"

lemma example_regID: "generateRegistrationID (Some ''abcdefgh'') = Some ''reg-6162636465666768''"
  by code_simp

lemma example_memLaunch: "memLaunch True example_launch_env example_spec example_host = (example_started, Inr example_result)"
proof -
  have "memMux ''/kv.v1.KV/'' (7 :: nat) = Inr [(''/kv.v1.KV/'', MemPlugin 7), (controlPath, MemControl)]"
    by (simp add: memMux_def mux_handle_def controlPath_def)
  then have "snd (memLaunch True example_launch_env example_spec example_host) = Inr example_result"
    by (simp add: memLaunch_def example_spec_def example_result_def example_host_def memEndpoint_def Let_def)
  then show ?thesis by (simp add: example_started_def prod_eq_iff)
qed

lemma example_started_registry:
  "r_registrations (la_registry example_started) =
     [''reg-6162636465666768'' \<mapsto> memProvider 0 ''kv-plugin'' ''reg-6162636465666768'' ''kv'' '''']"
  "r_providers (la_registry example_started) = [''kv'' \<mapsto> [memProvider 0 ''kv-plugin'' ''reg-6162636465666768'' ''kv'' '''']]"
proof -
  have "la_registry example_started = registerService example_launch_env example_spec (the (ps_Plugin example_spec)) NewServiceRegistry"
  proof (cases rule: memLaunch_cases [of True example_launch_env example_spec example_host])
    case (failed e)
    then show ?thesis using example_memLaunch by simp
  next
    case (started plugin impl path handler mux s')
    then have "example_started = s'" using example_memLaunch by simp
    moreover have "la_registry s' = registerService example_launch_env example_spec plugin (la_registry example_host)"
      unfolding started(6) by simp
    ultimately show ?thesis using started(1) by (simp add: example_host_def)
  qed
  then have r: "la_registry example_started = memRegister example_launch_env ''kv-plugin'' [] 0 [''kv''] NewServiceRegistry"
    by (simp add: registerService_def example_spec_def)
  show "r_registrations (la_registry example_started) =
      [''reg-6162636465666768'' \<mapsto> memProvider 0 ''kv-plugin'' ''reg-6162636465666768'' ''kv'' '''']"
    "r_providers (la_registry example_started) = [''kv'' \<mapsto> [memProvider 0 ''kv-plugin'' ''reg-6162636465666768'' ''kv'' '''']]"
    unfolding r by (simp_all add: example_launch_env_def example_regID NewServiceRegistry_def append_at_def get_slice_def Let_def)
qed

lemma memory_plugin_served_witness:
  "\<exists>a. muxMatch (ms_mux (la_servers example_started ! a)) ''/kv.v1.KV/'' = Some (MemPlugin 7)"
proof -
  have "\<forall>i. generateRegistrationID (le_rnds example_launch_env i) \<noteq> None"
    by (simp add: example_launch_env_def example_regID)
  from memory_plugin_served [OF example_memLaunch _ _ this, of "the (ps_Plugin example_spec)" "()"]
  obtain a path handler where "pl_ConnectServer (the (ps_Plugin example_spec)) () = Inr (path, handler)"
      "muxMatch (ms_mux (la_servers example_started ! a)) path = Some (MemPlugin handler)"
    by (auto simp: example_spec_def)
  then show ?thesis by (intro exI [of _ a]) (simp add: example_spec_def)
qed

lemma memory_plugin_unroutable_witness:
  "\<forall>url. snd (routeRequest 50 [''reg-6162636465666768''] (la_registry example_started) NewLifecycleServer NewServiceRouter
      (example_call\<lparr>hq_Path := ''/services/kv/kv-plugin/Get''\<rparr>) example_tokens) \<noteq> Forward url"
proof
  fix url
  have "iter_order (r_registrations (la_registry example_started)) [''reg-6162636465666768'']"
    by (simp add: example_started_registry(1) iter_order_def)
  moreover have "ps_Name example_spec = ''kv-plugin''" by (simp add: example_spec_def)
  moreover have "\<forall>p\<in>ran (r_registrations (la_registry example_host)). sp_RuntimeID p \<noteq> ps_Name example_spec"
    by (simp add: example_host_def NewServiceRegistry_def)
  ultimately show "snd (routeRequest 50 [''reg-6162636465666768''] (la_registry example_started) NewLifecycleServer NewServiceRouter
      (example_call\<lparr>hq_Path := ''/services/kv/kv-plugin/Get''\<rparr>) example_tokens) \<noteq> Forward url"
    by (intro memory_plugin_unroutable [OF example_memLaunch, where t = "''kv''" and m = "''Get''"])
      (simp_all add: NewServiceRouter_def serviceURL_def)
qed

lemma example_GetService:
  "\<exists>l s. GetService (\<lambda>_. 0) None id example_launch_env [] ''kv'' ''kv'' example_launcher example_host =
     (l, s, Inr ''http://in-memory.kv-plugin'')"
proof -
  let ?p = "memProvider 0 ''kv-plugin'' ''reg-6162636465666768'' ''kv'' ''''"
  have st: "ln_strategies example_launcher ''in-memory'' = Some (InMemoryStrategy True)"
    "ln_specs example_launcher ''kv'' = Some example_spec" "ln_instances example_launcher ''kv'' = None"
    by (simp_all add: example_launcher_def Configure_def RegisterStrategy_def NewPluginLauncher_def strategyName_def)
  have sp: "ps_Strategy example_spec = ''in-memory''" "ps_Provides example_spec = [''kv'']" by (simp_all add: example_spec_def)
  have la: "Launch (InMemoryStrategy True) example_launch_env example_spec example_host = (example_started, Inr example_result)"
    by (simp add: Launch_def example_memLaunch)
  have sl: "le_sleep example_launch_env = id" by (simp add: example_launch_env_def)
  have "eligible None ''kv'' '''' (la_registry example_started) = [?p]"
    by (simp add: eligible_def filterCompatibleVersions_def filterAvailable_def example_started_registry(2) get_slice_def)
  then obtain r x where "SelectProvider (\<lambda>_. 0) None ''kv'' '''' (la_registry example_started) = (r, Inr x)"
    using SelectProvider_applies [of None "''kv''" "''''" "la_registry example_started" "\<lambda>_. 0"] by simp
  then have "snd (DiscoverService (\<lambda>_. 0) None id ''kv'' '''' (la_registry example_started)) \<noteq> Inl e" for e
    by (simp add: DiscoverService_def Let_def split: option.split)
  then show ?thesis
    by (cases "DiscoverService (\<lambda>_. 0) None id ''kv'' '''' (la_registry example_started)")
      (auto simp: GetService_def ensureInstance_def launchPluginLocked_def st sp la sl example_result_def split: sum.split)
qed

lemma GetService_once_witness:
  "\<exists>l s s' res. GetService (\<lambda>_. 0) None id example_launch_env [] ''kv'' ''kv'' example_launcher example_host =
      (l, s, Inr ''http://in-memory.kv-plugin'') \<and>
    GetService (\<lambda>_. 0) None id example_launch_env [] ''kv'' ''kv'' l s = (l, s', res) \<and> la_servers s' = la_servers s"
proof -
  obtain l s where g: "GetService (\<lambda>_. 0) None id example_launch_env [] ''kv'' ''kv'' example_launcher example_host =
     (l, s, Inr ''http://in-memory.kv-plugin'')" using example_GetService by blast
  have "ln_specs example_launcher ''kv'' = Some example_spec" "''kv'' \<in> set (ps_Provides example_spec)"
    by (simp_all add: example_launcher_def Configure_def example_spec_def)
  from GetService_once [OF g this, of "\<lambda>_. 0" None id example_launch_env "[]"] obtain s' res where
    "GetService (\<lambda>_. 0) None id example_launch_env [] ''kv'' ''kv'' l s = (l, s', res)" "la_servers s' = la_servers s"
    by (elim exE conjE) (rule that)
  with g show ?thesis by (intro exI conjI)
qed

lemma Launcher_Shutdown_stops_all_witness:
  "\<exists>l s. GetService (\<lambda>_. 0) None id example_launch_env [] ''kv'' ''kv'' example_launcher example_host =
      (l, s, Inr ''http://in-memory.kv-plugin'') \<and>
     (\<forall>order. iter_order (ln_instances l) order \<longrightarrow> live (snd (Launcher_Shutdown order (l, s))) = {})"
proof -
  obtain l s where g: "GetService (\<lambda>_. 0) None id example_launch_env [] ''kv'' ''kv'' example_launcher example_host =
     (l, s, Inr ''http://in-memory.kv-plugin'')" using example_GetService by blast
  have "launcher_init (NewPluginLauncher :: (unit, nat) PluginLauncher, example_host)"
    by (simp add: launcher_init_def live_def example_host_def)
  then have "reach launcher_init launcher_step (example_launcher, example_host)"
    unfolding example_launcher_def by (intro reach_step [OF reach_step [OF reach_init]]) (rule la_strategy la_configure | assumption)+
  moreover have "quietEnv example_launch_env" by (simp add: quietEnv_def quiet_def example_launch_env_def)
  ultimately have "reach launcher_init launcher_step (l, s)" using la_service [OF _ g] by (blast intro: reach_step)
  then show ?thesis using g Launcher_Shutdown_stops_all [of l s] by (intro exI [of _ l] exI [of _ s]) simp
qed

end
