(* ===== verification/Codegen.thy ===== *)
theory Codegen
  imports Prelude "HOL-Library.Monad_Syntax"
begin

text \<open>
  The protoc plugin, \<^verbatim>\<open>cmd/protoc-gen-connect-plugin/main.go\<close>: for every service of a proto file a
  package with the plugin wrapper and one with a domain interface and a delegate that implements it
  over the Connect client. A generated file is the list of the lines that \<open>g.P\<close> writes. The
  descriptors the compiler passes in are data: a field knows its Go name, its kind, and its message
  or enum; an index out of range or a nil message, where the generator panics, is \<open>None\<close>. Its
  properties are in the theory \<open>CodegenProps\<close>.
\<close>

section \<open>Descriptors\<close>

text \<open>A message type, as deep as the generator reads it. The key and value of a map entry are its fields.\<close>

datatype Field =
    Field (fd_GoName: string) (fd_Kind: string) (fd_IsList: bool) (fd_IsMap: bool)
      (fd_Message: "Message option") (fd_Enum: "string option")
and Message = Message (ms_GoName: string) (ms_Fields: "Field list")

record GenMethod =
  me_GoName :: string
  me_Leading :: string
  me_Input :: Message
  me_Output :: Message
  me_IsStreamingServer :: bool
  me_IsStreamingClient :: bool

record GenService =
  gs_GoName :: string
  gs_Methods :: "GenMethod list"

record ProtoFile =
  gf_Generate :: bool
  gf_Path :: string
  gf_GoPackageName :: string
  gf_GoImportPath :: string
  gf_Services :: "GenService list"

record GeneratedFile =
  gn_Name :: string
  gn_ImportPath :: string
  gn_Lines :: "string list"

section \<open>Text\<close>

definition tabs :: "nat \<Rightarrow> string" where "tabs n = replicate n (CHR 0x09)"

definition newline :: char where "newline = CHR 0x0A"

text \<open>\<open>strings.TrimSpace\<close> on ASCII text.\<close>

definition isSpace :: "char \<Rightarrow> bool" where
  "isSpace c \<longleftrightarrow> (let n = of_char c :: nat in n = 32 \<or> 9 \<le> n \<and> n \<le> 13)"

definition trimSpace :: "string \<Rightarrow> string" where
  "trimSpace s = rev (dropWhile isSpace (rev (dropWhile isSpace s)))"

text \<open>Go names are ASCII, so the first byte is the first letter.\<close>

definition lowerFirst :: "string \<Rightarrow> string" where
  "lowerFirst s = (case s of [] \<Rightarrow> [] | c # rest \<Rightarrow> toLower [c] @ rest)"

section \<open>Types\<close>

definition scalarToGoType :: "Field \<Rightarrow> string" where
  "scalarToGoType field =
     (let kind = fd_Kind field
      in if kind = ''double'' then ''float64''
         else if kind = ''float'' then ''float32''
         else if kind = ''int64'' \<or> kind = ''sfixed64'' \<or> kind = ''sint64'' then ''int64''
         else if kind = ''uint64'' \<or> kind = ''fixed64'' then ''uint64''
         else if kind = ''int32'' \<or> kind = ''sfixed32'' \<or> kind = ''sint32'' then ''int32''
         else if kind = ''uint32'' \<or> kind = ''fixed32'' then ''uint32''
         else if kind = ''bool'' then ''bool''
         else if kind = ''string'' then ''string''
         else if kind = ''bytes'' then ''[]byte''
         else '''')"

definition protoFieldToGoType :: "ProtoFile \<Rightarrow> Field \<Rightarrow> string option" where
  "protoFieldToGoType file field =
     (if fd_IsList field then
        let elemType = scalarToGoType field
        in if elemType \<noteq> '''' then Some (''[]'' @ elemType)
           else do { msg \<leftarrow> fd_Message field;
                     Some (''[]*'' @ gf_GoPackageName file @ ''.'' @ ms_GoName msg) }
      else if fd_IsMap field then
        do { entry \<leftarrow> fd_Message field;
             case ms_Fields entry of
               keyField # valueField # _ \<Rightarrow>
                 let keyType = scalarToGoType keyField; valueType = scalarToGoType valueField
                 in if valueType = ''''
                    then do { msg \<leftarrow> fd_Message valueField;
                              Some (''map['' @ keyType @ '']'' @ ''*'' @ gf_GoPackageName file @ ''.'' @ ms_GoName msg) }
                    else Some (''map['' @ keyType @ '']'' @ valueType)
             | _ \<Rightarrow> None }
      else
        let goType = scalarToGoType field
        in if goType \<noteq> '''' then Some goType
           else (case fd_Message field of
               Some msg \<Rightarrow> Some (''*'' @ gf_GoPackageName file @ ''.'' @ ms_GoName msg)
             | None \<Rightarrow>
                 (case fd_Enum field of
                    Some enum \<Rightarrow> Some (gf_GoPackageName file @ ''.'' @ enum)
                  | None \<Rightarrow> Some ''any'')))"

definition zeroValue :: "Field \<Rightarrow> string" where
  "zeroValue field =
     (let kind = fd_Kind field
      in if fd_IsList field \<or> fd_IsMap field \<or> fd_Message field \<noteq> None then ''nil''
         else if kind = ''double'' \<or> kind = ''float'' then ''0''
         else if kind \<in> {''int64'', ''sfixed64'', ''sint64'', ''uint64'', ''fixed64'',
                         ''int32'', ''sfixed32'', ''sint32'', ''uint32'', ''fixed32''} then ''0''
         else if kind = ''bool'' then ''false''
         else if kind = ''string'' then ''\"\"''
         else if kind = ''bytes'' then ''nil''
         else if fd_Enum field \<noteq> None then ''0'' else ''nil'')"

section \<open>The plugin package\<close>

definition generatePlugin :: "ProtoFile \<Rightarrow> GenService \<Rightarrow> GeneratedFile" where
  "generatePlugin file service =
     (let pluginPkgName = gf_GoPackageName file @ ''plugin'';
          pluginPkgPath = gf_GoImportPath file @ ''/'' @ pluginPkgName;
          filename = pluginPkgName @ ''/plugin.go'';
          connectPkgPath = gf_GoImportPath file @ ''/'' @ gf_GoPackageName file @ ''connect'';
          pluginName = gs_GoName service @ ''Plugin'';
          handlerName = gs_GoName service @ ''Handler'';
          pluginDefaultName = toLower (trimSuffix (gs_GoName service) ''Service'');
          serviceName = gf_GoPackageName file @ ''connect.'' @ gs_GoName service @ ''Name''
      in \<lparr>gn_Name = filename, gn_ImportPath = pluginPkgPath, gn_Lines =
       [''// Code generated by protoc-gen-connect-plugin. DO NOT EDIT.'',
        '''',
        ''// source: '' @ gf_Path file,
        '''',
        ''package '' @ pluginPkgName,
        '''',
        ''import ('',
        tabs 1 @ ''\"fmt\"'',
        tabs 1 @ ''\"net/http\"'',
        '''',
        tabs 1 @ ''\"connectrpc.com/connect\"'',
        tabs 1 @ ''connectplugin \"github.com/masegraye/connect-plugin-go\"'',
        tabs 1 @ gf_GoPackageName file @ ''connect \"'' @ connectPkgPath @ ''\"'',
        '')'',
        '''',
        ''// '' @ pluginName @ '' implements connectplugin.Plugin for '' @ gs_GoName service @ ''.'',
        ''type '' @ pluginName @ '' struct{}'',
        '''',
        ''var _ connectplugin.Plugin = ('' @ ''*'' @ pluginName @ '')(nil)'',
        '''',
        ''// Metadata returns plugin metadata.'',
        ''func (p *'' @ pluginName @ '') Metadata() connectplugin.PluginMetadata {'',
        tabs 1 @ ''return connectplugin.PluginMetadata{'',
        tabs 2 @ ''Name:    \"'' @ pluginDefaultName @ ''\",'',
        tabs 2 @ ''Path:    '' @ serviceName @ '','',
        tabs 2 @ ''Version: \"1.0.0\",'',
        tabs 2 @ ''Provides: []connectplugin.ServiceDeclaration{'',
        tabs 3 @ ''{'',
        tabs 4 @ ''Type:    \"'' @ pluginDefaultName @ ''\",'',
        tabs 4 @ ''Version: \"1.0.0\",'',
        tabs 4 @ ''Path:    '' @ serviceName @ '','',
        tabs 3 @ ''},'',
        tabs 2 @ ''},'',
        tabs 1 @ ''}'',
        ''}'',
        '''',
        ''// ConnectServer creates a server-side handler for this plugin.'',
        ''func (p *'' @ pluginName @ '') ConnectServer(impl any) (string, http.Handler, error) {'',
        tabs 1 @ ''handler, ok := impl.('' @ gf_GoPackageName file @ ''connect.'' @ handlerName @ '')'',
        tabs 1 @ ''if !ok {'',
        tabs 2 @ ''return \"\", nil, fmt.Errorf(\"impl must implement '' @ handlerName @ '', got %T\", impl)'',
        tabs 1 @ ''}'',
        '''',
        tabs 1 @ ''path, h := '' @ gf_GoPackageName file @ ''connect.New'' @ gs_GoName service @ ''Handler(handler)'',
        tabs 1 @ ''return path, h, nil'',
        ''}'',
        '''',
        ''// ConnectClient creates a client-side plugin instance.'',
        ''func (p *'' @ pluginName @ '') ConnectClient(baseURL string, httpClient connect.HTTPClient) (any, error) {'',
        tabs 1 @ ''return '' @ gf_GoPackageName file @ ''connect.New'' @ gs_GoName service @ ''Client(httpClient, baseURL), nil'',
        ''}'',
        '''']\<rparr>)"

section \<open>The interface\<close>

definition generateUnaryInterfaceMethod :: "ProtoFile \<Rightarrow> GenMethod \<Rightarrow> string list option" where
  "generateUnaryInterfaceMethod file method = do {
     inputs \<leftarrow> those (map (\<lambda>field. do {
         goType \<leftarrow> protoFieldToGoType file field;
         Some (lowerFirst (fd_GoName field) @ '' '' @ goType) }) (ms_Fields (me_Input method)));
     let params = [''ctx context.Context''] @ inputs;
     returnSig \<leftarrow> (if length (ms_Fields (me_Output method)) > 0
       then do {
         returns \<leftarrow> those (map (\<lambda>field. do {
             goType \<leftarrow> protoFieldToGoType file field;
             Some (lowerFirst (fd_GoName field) @ '' '' @ goType) }) (ms_Fields (me_Output method)));
         Some (''('' @ joinStr '', '' (returns @ [''err error'']) @ '')'') }
       else Some ''error'');
     Some [tabs 1 @ me_GoName method @ ''('' @ joinStr '', '' params @ '') '' @ returnSig] }"

definition generateStreamingInterfaceMethod :: "ProtoFile \<Rightarrow> GenMethod \<Rightarrow> string list option" where
  "generateStreamingInterfaceMethod file method = do {
     inputs \<leftarrow> those (map (\<lambda>field. do {
         goType \<leftarrow> protoFieldToGoType file field;
         Some (lowerFirst (fd_GoName field) @ '' '' @ goType) }) (ms_Fields (me_Input method)));
     let params = [''ctx context.Context''] @ inputs;
     let msgPkg = gf_GoPackageName file;
     let outputType = msgPkg @ ''.'' @ ms_GoName (me_Output method);
     Some (if me_IsStreamingServer method \<and> \<not> me_IsStreamingClient method then
       [tabs 1 @ me_GoName method @ ''('' @ joinStr '', '' params @ '') ('' @ ''*connect.ServerStreamForClient['' @ outputType @ ''], error)'']
     else if me_IsStreamingClient method \<and> \<not> me_IsStreamingServer method then
       [tabs 1 @ me_GoName method @ ''(ctx context.Context) ('' @ ''*connect.ClientStreamForClient['' @ msgPkg @ ''.'' @ ms_GoName (me_Input method) @ '', '' @ outputType @ ''], error)'']
     else
       [tabs 1 @ me_GoName method @ ''(ctx context.Context) ('' @ ''*connect.BidiStreamForClient['' @ msgPkg @ ''.'' @ ms_GoName (me_Input method) @ '', '' @ outputType @ ''], error)'']) }"

definition methodComment :: "GenMethod \<Rightarrow> string list" where
  "methodComment method =
     (if me_Leading method \<noteq> ''''
      then map (\<lambda>line. tabs 1 @ ''// '' @ trimPrefix line ''// '') (splitAll newline (trimSpace (me_Leading method)))
      else [])"

definition generateInterfaceMethod :: "ProtoFile \<Rightarrow> GenMethod \<Rightarrow> string list option" where
  "generateInterfaceMethod file method =
     map_option (\<lambda>lines. methodComment method @ lines)
       (if me_IsStreamingServer method \<or> me_IsStreamingClient method
        then generateStreamingInterfaceMethod file method
        else generateUnaryInterfaceMethod file method)"

section \<open>The delegate\<close>

definition generateUnaryDelegateMethod :: "ProtoFile \<Rightarrow> GenMethod \<Rightarrow> string \<Rightarrow> string list option" where
  "generateUnaryDelegateMethod file method delegateStructName = do {
     let msgPkg = gf_GoPackageName file;
     let hasOutputFields = length (ms_Fields (me_Output method)) > 0;
     inputs \<leftarrow> those (map (\<lambda>field. do {
         goType \<leftarrow> protoFieldToGoType file field;
         Some (lowerFirst (fd_GoName field) @ '' '' @ goType) }) (ms_Fields (me_Input method)));
     let params = [''ctx context.Context''] @ inputs;
     returnSig \<leftarrow> (if hasOutputFields
       then do {
         returns \<leftarrow> those (map (\<lambda>field. do {
             goType \<leftarrow> protoFieldToGoType file field;
             Some (lowerFirst (fd_GoName field) @ '' '' @ goType) }) (ms_Fields (me_Output method)));
         Some (''('' @ joinStr '', '' (returns @ [''err error'']) @ '')'') }
       else Some ''error'');
     let zeroReturns = map zeroValue (ms_Fields (me_Output method)) @ [''err''];
     let returnExprs = map (\<lambda>field. ''resp.Msg.'' @ fd_GoName field) (ms_Fields (me_Output method)) @ [''nil''];
     Some (
       [''// '' @ me_GoName method @ '' implements '' @ me_GoName method @ '' via Connect client.'',
        ''func (d *'' @ delegateStructName @ '') '' @ me_GoName method @ ''('' @ joinStr '', '' params @ '') '' @ returnSig @ '' {'',
        tabs 1 @ ''req := &'' @ msgPkg @ ''.'' @ ms_GoName (me_Input method) @ ''{''] @
       map (\<lambda>field. tabs 2 @ fd_GoName field @ '': '' @ lowerFirst (fd_GoName field) @ '','') (ms_Fields (me_Input method)) @
       [tabs 1 @ ''}'',
        ''''] @
       (if hasOutputFields
        then [tabs 1 @ ''resp, err := d.client.'' @ me_GoName method @ ''(ctx, connect.NewRequest(req))'']
        else [tabs 1 @ ''_, err := d.client.'' @ me_GoName method @ ''(ctx, connect.NewRequest(req))'']) @
       [tabs 1 @ ''if err != nil {''] @
       (if hasOutputFields
        then [tabs 2 @ ''return '' @ joinStr '', '' zeroReturns]
        else [tabs 2 @ ''return err'']) @
       [tabs 1 @ ''}'',
        ''''] @
       (if hasOutputFields
        then [tabs 1 @ ''return '' @ joinStr '', '' returnExprs]
        else [tabs 1 @ ''return nil'']) @
       [''}'',
        '''']) }"

definition generateStreamingDelegateMethod :: "ProtoFile \<Rightarrow> GenMethod \<Rightarrow> string \<Rightarrow> string list option" where
  "generateStreamingDelegateMethod file method delegateStructName = (
     let msgPkg = gf_GoPackageName file;
         outputType = msgPkg @ ''.'' @ ms_GoName (me_Output method);
         inputType = msgPkg @ ''.'' @ ms_GoName (me_Input method)
     in if me_IsStreamingServer method \<and> \<not> me_IsStreamingClient method then do {
       inputs \<leftarrow> those (map (\<lambda>field. do {
           goType \<leftarrow> protoFieldToGoType file field;
           Some (lowerFirst (fd_GoName field) @ '' '' @ goType) }) (ms_Fields (me_Input method)));
       let params = [''ctx context.Context''] @ inputs;
       Some (
        [''// '' @ me_GoName method @ '' implements '' @ me_GoName method @ '' via Connect client.'',
        ''func (d *'' @ delegateStructName @ '') '' @ me_GoName method @ ''('' @ joinStr '', '' params @ '') ('' @ ''*connect.ServerStreamForClient['' @ outputType @ ''], error) {'',
        tabs 1 @ ''req := &'' @ msgPkg @ ''.'' @ ms_GoName (me_Input method) @ ''{''] @
        map (\<lambda>field. tabs 2 @ fd_GoName field @ '': '' @ lowerFirst (fd_GoName field) @ '','') (ms_Fields (me_Input method)) @
        [tabs 1 @ ''}'',
        '''',
        tabs 1 @ ''return d.client.'' @ me_GoName method @ ''(ctx, connect.NewRequest(req))'',
        ''}'',
        '''']) }
     else if me_IsStreamingClient method \<and> \<not> me_IsStreamingServer method then Some
       [''// '' @ me_GoName method @ '' implements '' @ me_GoName method @ '' via Connect client.'',
        ''func (d *'' @ delegateStructName @ '') '' @ me_GoName method @ ''(ctx context.Context) ('' @ ''*connect.ClientStreamForClient['' @ inputType @ '', '' @ outputType @ ''], error) {'',
        tabs 1 @ ''return d.client.'' @ me_GoName method @ ''(ctx), nil'',
        ''}'',
        '''']
     else Some
       [''// '' @ me_GoName method @ '' implements '' @ me_GoName method @ '' via Connect client.'',
        ''func (d *'' @ delegateStructName @ '') '' @ me_GoName method @ ''(ctx context.Context) ('' @ ''*connect.BidiStreamForClient['' @ inputType @ '', '' @ outputType @ ''], error) {'',
        tabs 1 @ ''return d.client.'' @ me_GoName method @ ''(ctx), nil'',
        ''}'',
        ''''])"

definition generateDelegateMethod :: "ProtoFile \<Rightarrow> GenMethod \<Rightarrow> string \<Rightarrow> string list option" where
  "generateDelegateMethod file method delegateStructName =
     (if me_IsStreamingServer method \<or> me_IsStreamingClient method
      then generateStreamingDelegateMethod file method delegateStructName
      else generateUnaryDelegateMethod file method delegateStructName)"

definition hasStreaming :: "GenService \<Rightarrow> bool" where
  "hasStreaming service = list_ex (\<lambda>method. me_IsStreamingServer method \<or> me_IsStreamingClient method) (gs_Methods service)"

text \<open>The slice \<open>interfaceName[:1]\<close> panics on the empty name.\<close>

definition generateDelegate :: "ProtoFile \<Rightarrow> GenService \<Rightarrow> GeneratedFile option" where
  "generateDelegate file service = (
     let delegatePkgName = gf_GoPackageName file @ ''delegate'';
         delegatePkgPath = gf_GoImportPath file @ ''/'' @ delegatePkgName;
         filename = delegatePkgName @ ''/delegate.go'';
         connectPkgPath = gf_GoImportPath file @ ''/'' @ gf_GoPackageName file @ ''connect'';
         msgPkgPath = gf_GoImportPath file;
         interfaceName = trimSuffix (gs_GoName service) ''Service'';
         clientType = gf_GoPackageName file @ ''connect.'' @ gs_GoName service @ ''Client''
     in if interfaceName = '''' then None else do {
       let delegateStructName = lowerFirst interfaceName @ ''Delegate'';
       interface \<leftarrow> those (map (generateInterfaceMethod file) (gs_Methods service));
       methods \<leftarrow> those (map (\<lambda>method. generateDelegateMethod file method delegateStructName) (gs_Methods service));
       Some \<lparr>gn_Name = filename, gn_ImportPath = delegatePkgPath, gn_Lines =
        [''// Code generated by protoc-gen-connect-plugin. DO NOT EDIT.'',
        '''',
        ''// source: '' @ gf_Path file,
        '''',
        ''package '' @ delegatePkgName,
        '''',
        ''import ('',
        tabs 1 @ ''\"context\"'',
        tabs 1 @ ''\"net/http\"'',
        '''',
        tabs 1 @ ''\"connectrpc.com/connect\"'',
        tabs 1 @ gf_GoPackageName file @ '' \"'' @ msgPkgPath @ ''\"'',
        tabs 1 @ gf_GoPackageName file @ ''connect \"'' @ connectPkgPath @ ''\"'',
        '')'',
        ''''] @
        (if \<not> hasStreaming service
         then [''// Ensure imports are used'',
        ''var _ = connect.IsAtLeastVersion1_13_0'',
        '''']
         else []) @
        [''// '' @ interfaceName @ '' is the domain interface for '' @ gs_GoName service @ ''.'',
        ''type '' @ interfaceName @ '' interface {''] @
        concat interface @
        [''}'',
        '''',
        ''// '' @ delegateStructName @ '' implements '' @ interfaceName @ '' using a Connect client.'',
        ''type '' @ delegateStructName @ '' struct {'',
        tabs 1 @ ''client '' @ clientType,
        ''}'',
        '''',
        ''var _ '' @ interfaceName @ '' = ('' @ ''*'' @ delegateStructName @ '')(nil)'',
        '''',
        ''// New creates a '' @ interfaceName @ '' from an existing Connect client.'',
        ''func New(client '' @ clientType @ '') '' @ interfaceName @ '' {'',
        tabs 1 @ ''return &'' @ delegateStructName @ ''{client: client}'',
        ''}'',
        '''',
        ''// NewFromURL creates a '' @ interfaceName @ '' from a URL.'',
        ''func NewFromURL(url string, opts ...connect.ClientOption) '' @ interfaceName @ '' {'',
        tabs 1 @ ''client := '' @ gf_GoPackageName file @ ''connect.New'' @ gs_GoName service @ ''Client(http.DefaultClient, url, opts...)'',
        tabs 1 @ ''return &'' @ delegateStructName @ ''{client: client}'',
        ''}'',
        ''''] @
        concat methods\<rparr> })"

section \<open>The files\<close>

definition generateFile :: "ProtoFile \<Rightarrow> GeneratedFile list option" where
  "generateFile file =
     (if length (gf_Services file) = 0 then Some []
      else map_option concat (those (map (\<lambda>service. do {
          delegate \<leftarrow> generateDelegate file service;
          Some [generatePlugin file service, delegate] }) (gf_Services file))))"

text \<open>The function \<open>main\<close> passes to \<open>protogen\<close>; the flag \<open>-version\<close> is left out.\<close>

definition generateAll :: "ProtoFile list \<Rightarrow> GeneratedFile list option" where
  "generateAll files = map_option concat (those (map generateFile (filter gf_Generate files)))"

end
