(* ===== verification/CodegenProps.thy ===== *)
theory CodegenProps
  imports Codegen
begin

text \<open>
  What the generator guarantees: the declarations of the delegate's file are exactly the interface, the
  struct that implements it, its constructors and one method per signature of the interface; it panics exactly on the descriptors it does not cover (repeated enums, maps to
  enums, a service called \<open>Service\<close>); the zero values it returns with an error fit their types.
\<close>

section \<open>Sequencing\<close>

lemma those_None: "those xs = None \<longleftrightarrow> None \<in> set xs"
  by (induction xs) (auto split: option.splits)

lemma those_Some: "those xs = Some ys \<longleftrightarrow> xs = map Some ys"
proof
  show "those xs = Some ys \<Longrightarrow> xs = map Some ys"
    by (induction xs arbitrary: ys) (auto split: option.splits)
  have "those (map Some ys) = Some ys" by (induction ys) simp_all
  then show "xs = map Some ys \<Longrightarrow> those xs = Some ys" by simp
qed

lemma those_map_Some: "those (map f xs) = Some ys \<longleftrightarrow> list_all2 (\<lambda>x y. f x = Some y) xs ys"
  by (auto simp: those_Some list_eq_iff_nth_eq list_all2_conv_all_nth)

section \<open>Signatures\<close>

text \<open>The names and types of a list of fields, and the method signature that both packages should have.\<close>

definition typedFields :: "ProtoFile \<Rightarrow> Field list \<Rightarrow> string list option" where
  "typedFields file fs = those (map (\<lambda>field. do {
     goType \<leftarrow> protoFieldToGoType file field;
     Some (lowerFirst (fd_GoName field) @ '' '' @ goType) }) fs)"

definition unaryResults :: "ProtoFile \<Rightarrow> GenMethod \<Rightarrow> string option" where
  "unaryResults file method =
     (if ms_Fields (me_Output method) = [] then Some ''error''
      else map_option (\<lambda>returns. ''('' @ joinStr '', '' (returns @ [''err error'']) @ '')'')
             (typedFields file (ms_Fields (me_Output method))))"

definition signature :: "ProtoFile \<Rightarrow> GenMethod \<Rightarrow> string option" where
  "signature file method = do {
     inputs \<leftarrow> typedFields file (ms_Fields (me_Input method));
     let name = me_GoName method;
     let call = name @ ''('' @ joinStr '', '' (''ctx context.Context'' # inputs) @ '') '';
     let input = gf_GoPackageName file @ ''.'' @ ms_GoName (me_Input method);
     let output = gf_GoPackageName file @ ''.'' @ ms_GoName (me_Output method);
     case (me_IsStreamingServer method, me_IsStreamingClient method) of
       (False, False) \<Rightarrow> map_option (\<lambda>results. call @ results) (unaryResults file method)
     | (True, False) \<Rightarrow> Some (call @ ''('' @ ''*connect.ServerStreamForClient['' @ output @ ''], error)'')
     | (False, True) \<Rightarrow> Some (name @ ''(ctx context.Context) ('' @ ''*connect.ClientStreamForClient['' @ input @ '', '' @ output @ ''], error)'')
     | (True, True) \<Rightarrow> Some (name @ ''(ctx context.Context) ('' @ ''*connect.BidiStreamForClient['' @ input @ '', '' @ output @ ''], error)'') }"

lemma unaryInterface_eq:
  "\<not> me_IsStreamingServer method \<Longrightarrow> \<not> me_IsStreamingClient method \<Longrightarrow>
   generateUnaryInterfaceMethod file method = map_option (\<lambda>sig. [tabs 1 @ sig]) (signature file method)"
  unfolding generateUnaryInterfaceMethod_def signature_def unaryResults_def typedFields_def [symmetric] Let_def
  by (cases "typedFields file (ms_Fields (me_Input method))"; cases "typedFields file (ms_Fields (me_Output method))";
      cases "ms_Fields (me_Output method)") simp_all

lemma streamingInterface_eq:
  "me_IsStreamingServer method \<or> me_IsStreamingClient method \<Longrightarrow>
   generateStreamingInterfaceMethod file method = map_option (\<lambda>sig. [tabs 1 @ sig]) (signature file method)"
  unfolding generateStreamingInterfaceMethod_def signature_def typedFields_def [symmetric] Let_def
  by (cases "typedFields file (ms_Fields (me_Input method))"; cases "me_IsStreamingServer method";
      cases "me_IsStreamingClient method") simp_all

lemma generateInterfaceMethod_eq:
  "generateInterfaceMethod file method = map_option (\<lambda>sig. methodComment method @ [tabs 1 @ sig]) (signature file method)"
  by (cases "me_IsStreamingServer method \<or> me_IsStreamingClient method")
    (auto simp: generateInterfaceMethod_def unaryInterface_eq streamingInterface_eq option.map_comp o_def)

text \<open>The line that opens a method of the delegate.\<close>

definition funcLine :: "string \<Rightarrow> string \<Rightarrow> string" where
  "funcLine d sig = ''func (d '' @ ''*'' @ d @ '') '' @ sig @ '' {''"

lemma funcLine_eq: "''func (d *'' @ d @ '') '' @ sig @ '' {'' = funcLine d sig"
  by (simp add: funcLine_def)

text \<open>
  Reading the generated text back: its declarations are the lines that begin with one of Go's keywords
  for them; what stands in an interface are the lines from its header to the closing brace.
\<close>

definition isDecl :: "string \<Rightarrow> bool" where
  "isDecl l \<longleftrightarrow> hasPrefix l ''func '' \<or> hasPrefix l ''type '' \<or> hasPrefix l ''var ''"

definition topDecls :: "string list \<Rightarrow> string list" where
  "topDecls ls = filter isDecl ls"

definition interfaceLines :: "string \<Rightarrow> string list \<Rightarrow> string list" where
  "interfaceLines name ls =
     takeWhile (\<lambda>l. l \<noteq> ''}'') (tl (dropWhile (\<lambda>l. l \<noteq> ''type '' @ name @ '' interface {'') ls))"

text \<open>A block that declares one method and nothing else, and passes the call to the same method of the client.\<close>

definition forwards :: "GenMethod \<Rightarrow> string \<Rightarrow> string \<Rightarrow> string list \<Rightarrow> bool" where
  "forwards method d sig ls \<longleftrightarrow> topDecls ls = [funcLine d sig] \<and>
     (\<exists>a b. tabs 1 @ a @ ''d.client.'' @ me_GoName method @ ''(ctx'' @ b \<in> set ls)"

lemma isDecl_tabs [simp]: "\<not> isDecl (tabs (Suc n) @ s)"
  by (simp add: isDecl_def tabs_def)

lemma isDecl_funcLine [simp]: "isDecl (funcLine d sig)"
  by (simp add: isDecl_def funcLine_def)

lemma topDecls_simps [simp]:
  "topDecls [] = []" "topDecls (l # ls) = (if isDecl l then l # topDecls ls else topDecls ls)"
  "topDecls (ls @ ls') = topDecls ls @ topDecls ls'"
  "topDecls (map (\<lambda>x. tabs (Suc n) @ f x) xs) = []"
  by (simp_all add: topDecls_def)

lemma topDecls_concat: "topDecls (concat lss) = concat (map topDecls lss)"
  by (induction lss) simp_all

lemma decl_lines [simp]:
  "isDecl (CHR ''f'' # CHR ''u'' # CHR ''n'' # CHR ''c'' # CHR '' '' # s)"
  "isDecl (CHR ''t'' # CHR ''y'' # CHR ''p'' # CHR ''e'' # CHR '' '' # s)"
  "isDecl (CHR ''v'' # CHR ''a'' # CHR ''r'' # CHR '' '' # s)"
  "\<not> isDecl (CHR ''/'' # s)" "\<not> isDecl (CHR ''}'' # s)" "\<not> isDecl []" "\<not> isDecl (CHR ''p'' # s)"
  "\<not> isDecl (CHR ''i'' # s)" "\<not> isDecl (CHR '')'' # s)"
  by (simp_all add: isDecl_def)

lemma decl_tabs [simp]: "\<not> isDecl (tabs 2 @ s)" "topDecls (map (\<lambda>field. tabs 2 @ f field) fs) = []"
  using isDecl_tabs [of 1 s] topDecls_simps(4) [of 1 f fs] by (simp_all add: numeral_2_eq_2)

lemma forwardsI:
  "topDecls ls = [funcLine d sig] \<and> tabs 1 @ a @ ''d.client.'' @ me_GoName method @ ''(ctx'' @ b \<in> set ls \<Longrightarrow>
   forwards method d sig ls"
  unfolding forwards_def by blast

lemma unaryDelegate_func:
  assumes "\<not> me_IsStreamingServer method" and "\<not> me_IsStreamingClient method" and sig: "signature file method = Some sig"
  shows "\<exists>ds. generateUnaryDelegateMethod file method d = Some ds \<and> forwards method d sig ds"
proof -
  let ?res = "if ms_Fields (me_Output method) = [] then ''_, err := '' else ''resp, err := ''"
  obtain inputs where i: "typedFields file (ms_Fields (me_Input method)) = Some inputs"
    using sig by (cases "typedFields file (ms_Fields (me_Input method))") (simp_all add: signature_def)
  have "\<exists>ds. generateUnaryDelegateMethod file method d = Some ds \<and> topDecls ds = [funcLine d sig] \<and>
      tabs 1 @ ?res @ ''d.client.'' @ me_GoName method @ ''(ctx'' @ '', connect.NewRequest(req))'' \<in> set ds"
    using sig assms(1,2) i
    unfolding generateUnaryDelegateMethod_def signature_def unaryResults_def typedFields_def [symmetric] Let_def
    by (cases "typedFields file (ms_Fields (me_Output method))"; cases "ms_Fields (me_Output method)")
      (auto simp: funcLine_def)
  then show ?thesis using forwardsI by blast
qed

lemma streamingDelegate_func:
  assumes "me_IsStreamingServer method \<or> me_IsStreamingClient method" and sig: "signature file method = Some sig"
  shows "\<exists>ds. generateStreamingDelegateMethod file method d = Some ds \<and> forwards method d sig ds"
proof -
  let ?rest = "if me_IsStreamingClient method then ''), nil'' else '', connect.NewRequest(req))''"
  obtain inputs where i: "typedFields file (ms_Fields (me_Input method)) = Some inputs"
    using sig by (cases "typedFields file (ms_Fields (me_Input method))") (simp_all add: signature_def)
  have "\<exists>ds. generateStreamingDelegateMethod file method d = Some ds \<and> topDecls ds = [funcLine d sig] \<and>
      tabs 1 @ ''return '' @ ''d.client.'' @ me_GoName method @ ''(ctx'' @ ?rest \<in> set ds"
    using sig assms(1) i
    unfolding generateStreamingDelegateMethod_def signature_def typedFields_def [symmetric] Let_def
    by (cases "me_IsStreamingServer method"; cases "me_IsStreamingClient method") (auto simp: funcLine_def)
  then show ?thesis using forwardsI by blast
qed

lemma generateDelegateMethod_func:
  "signature file method = Some sig \<Longrightarrow>
   \<exists>ds. generateDelegateMethod file method d = Some ds \<and> forwards method d sig ds"
  unfolding generateDelegateMethod_def using unaryDelegate_func streamingDelegate_func by (metis (full_types))

section \<open>The delegate implements the interface\<close>

lemma interfaceLines_split:
  assumes "''type '' @ name @ '' interface {'' \<notin> set pre" and "''}'' \<notin> set body"
  shows "interfaceLines name (pre @ (''type '' @ name @ '' interface {'') # body @ ''}'' # rest) = body"
proof -
  let ?hdr = "''type '' @ name @ '' interface {''"
  have "dropWhile (\<lambda>l. l \<noteq> ?hdr) (pre @ ?hdr # body @ ''}'' # rest) = ?hdr # body @ ''}'' # rest"
    using assms(1) by (subst dropWhile_append2) auto
  moreover have "takeWhile (\<lambda>l. l \<noteq> ''}'') (body @ ''}'' # rest) = body"
    using assms(2) by (subst takeWhile_append2) auto
  ultimately show ?thesis by (simp add: interfaceLines_def)
qed

text \<open>What the file of the delegate consists of, its first part and the part between interface and methods.\<close>

definition delegateHead :: "ProtoFile \<Rightarrow> GenService \<Rightarrow> string list \<Rightarrow> bool" where
  "delegateHead file service pre \<longleftrightarrow>
     topDecls pre = (if hasStreaming service then [] else [''var _ = connect.IsAtLeastVersion1_13_0'']) \<and>
     ''type '' @ trimSuffix (gs_GoName service) ''Service'' @ '' interface {'' \<notin> set pre"

lemma generateDelegate_split:
  assumes "generateDelegate file service = Some g"
  defines "name \<equiv> trimSuffix (gs_GoName service) ''Service''"
  defines "d \<equiv> lowerFirst name @ ''Delegate''"
    and "client \<equiv> gf_GoPackageName file @ ''connect.'' @ gs_GoName service @ ''Client''"
  obtains pre ifs mid bodies where
    "those (map (generateInterfaceMethod file) (gs_Methods service)) = Some ifs"
    "those (map (\<lambda>method. generateDelegateMethod file method d) (gs_Methods service)) = Some bodies"
    "gn_Lines g = pre @ (''type '' @ name @ '' interface {'') # concat ifs @ ''}'' # mid @ concat bodies"
    "delegateHead file service pre"
    "topDecls mid = [''type '' @ d @ '' struct {'', ''var _ '' @ name @ '' = ('' @ ''*'' @ d @ '')(nil)'',
       ''func New(client '' @ client @ '') '' @ name @ '' {'',
       ''func NewFromURL(url string, opts ...connect.ClientOption) '' @ name @ '' {'']"
proof -
  obtain ifs bodies where ifs: "those (map (generateInterfaceMethod file) (gs_Methods service)) = Some ifs"
    and bodies: "those (map (\<lambda>method. generateDelegateMethod file method d) (gs_Methods service)) = Some bodies"
    using assms(1) by (auto simp: generateDelegate_def Let_def bind_eq_Some_conv d_def name_def split: if_splits)
  have ne: "trimSuffix (gs_GoName service) ''Service'' \<noteq> ''''"
    using assms(1) by (auto simp: generateDelegate_def Let_def)
  note eq = assms(1) [unfolded generateDelegate_def Let_def ifs bodies [unfolded d_def name_def] if_not_P [OF ne]
    Option.bind_lunit option.inject]
  let ?head = "[''// Code generated by protoc-gen-connect-plugin. DO NOT EDIT.'', '''', ''// source: '' @ gf_Path file, '''',
        ''package '' @ gf_GoPackageName file @ ''delegate'', '''', ''import ('', tabs 1 @ ''\"context\"'', tabs 1 @ ''\"net/http\"'',
        '''', tabs 1 @ ''\"connectrpc.com/connect\"'', tabs 1 @ gf_GoPackageName file @ '' \"'' @ gf_GoImportPath file @ ''\"'',
        tabs 1 @ gf_GoPackageName file @ ''connect \"'' @ (gf_GoImportPath file @ ''/'' @ gf_GoPackageName file @ ''connect'') @ ''\"'',
        '')'', '''']"
  let ?streaming = "if \<not> hasStreaming service
         then [''// Ensure imports are used'', ''var _ = connect.IsAtLeastVersion1_13_0'', ''''] else []"
  let ?pre = "?head @ ?streaming @ [''// '' @ name @ '' is the domain interface for '' @ gs_GoName service @ ''.'']"
  let ?mid = "['''', ''// '' @ d @ '' implements '' @ name @ '' using a Connect client.'', ''type '' @ d @ '' struct {'',
        tabs 1 @ ''client '' @ client, ''}'', '''', ''var _ '' @ name @ '' = ('' @ ''*'' @ d @ '')(nil)'', '''',
        ''// New creates a '' @ name @ '' from an existing Connect client.'',
        ''func New(client '' @ client @ '') '' @ name @ '' {'', tabs 1 @ ''return &'' @ d @ ''{client: client}'', ''}'', '''',
        ''// NewFromURL creates a '' @ name @ '' from a URL.'',
        ''func NewFromURL(url string, opts ...connect.ClientOption) '' @ name @ '' {'',
        tabs 1 @ ''client := '' @ gf_GoPackageName file @ ''connect.New'' @ gs_GoName service @ ''Client(http.DefaultClient, url, opts...)'',
        tabs 1 @ ''return &'' @ d @ ''{client: client}'', ''}'', '''']"
  have "gn_Lines g = ?pre @ (''type '' @ name @ '' interface {'') # concat ifs @ ''}'' # ?mid @ concat bodies"
    unfolding eq [symmetric] GeneratedFile.select_convs name_def d_def client_def
    by (simp only: append_assoc append_Cons append_Nil)
  moreover have "topDecls ?pre = (if hasStreaming service then [] else [''var _ = connect.IsAtLeastVersion1_13_0''])"
    by simp
  then have "delegateHead file service ?pre"
    unfolding delegateHead_def name_def [symmetric] by (rule conjI) (simp add: tabs_def)
  moreover have "topDecls ?mid = [''type '' @ d @ '' struct {'', ''var _ '' @ name @ '' = ('' @ ''*'' @ d @ '')(nil)'',
       ''func New(client '' @ client @ '') '' @ name @ '' {'',
       ''func NewFromURL(url string, opts ...connect.ClientOption) '' @ name @ '' {'']" by simp
  ultimately show ?thesis by (rule that [OF ifs bodies])
qed

text \<open>C20. For every service the generator accepts, the generated delegate implements the generated interface,
  read off the text of the file. What stands in the interface are the signatures of the service's methods
  (\<open>signature\<close>: the Go parameters and results of the request and response fields, or the stream types), in order,
  each below its comment, and nothing else. The declarations of the file are, exactly and in this order, the
  interface, the delegate struct named after it, the assertion that the struct implements the interface, the two
  constructors, and one method with the delegate as receiver for each of these signatures: no method is missing,
  has another signature or another receiver, and none is added. Each method passes the call to the method
  of the same name of the Connect client.\<close>
theorem delegate_implements_interface:
  assumes "generateDelegate file service = Some g"
  shows "\<exists>sigs. list_all2 (\<lambda>method sig. signature file method = Some sig) (gs_Methods service) sigs \<and>
   (let name = trimSuffix (gs_GoName service) ''Service'';
        d = lowerFirst name @ ''Delegate'';
        client = gf_GoPackageName file @ ''connect.'' @ gs_GoName service @ ''Client''
    in
    interfaceLines name (gn_Lines g) =
      concat (map2 (\<lambda>method sig. methodComment method @ [tabs 1 @ sig]) (gs_Methods service) sigs) \<and>
    topDecls (gn_Lines g) =
      (if hasStreaming service then [] else [''var _ = connect.IsAtLeastVersion1_13_0'']) @
      [''type '' @ name @ '' interface {'', ''type '' @ d @ '' struct {'',
       ''var _ '' @ name @ '' = ('' @ ''*'' @ d @ '')(nil)'',
       ''func New(client '' @ client @ '') '' @ name @ '' {'',
       ''func NewFromURL(url string, opts ...connect.ClientOption) '' @ name @ '' {''] @
      map (\<lambda>sig. ''func (d '' @ ''*'' @ d @ '') '' @ sig @ '' {'') sigs \<and>
    (\<exists>pre bodies. gn_Lines g = pre @ concat bodies \<and>
       list_all2 (\<lambda>(method, sig) body. forwards method d sig body) (zip (gs_Methods service) sigs) bodies))"
proof -
  let ?name = "trimSuffix (gs_GoName service) ''Service''" and ?ms = "gs_Methods service"
  let ?d = "lowerFirst ?name @ ''Delegate''" and ?sig = "\<lambda>m. the (signature file m)"
  from assms obtain pre ifs mid bodies where ifs: "those (map (generateInterfaceMethod file) ?ms) = Some ifs"
    and bodies: "those (map (\<lambda>method. generateDelegateMethod file method ?d) ?ms) = Some bodies"
    and lines: "gn_Lines g = pre @ (''type '' @ ?name @ '' interface {'') # concat ifs @ ''}'' # mid @ concat bodies"
    and pre: "delegateHead file service pre" and mid: "topDecls mid = [''type '' @ ?d @ '' struct {'',
       ''var _ '' @ ?name @ '' = ('' @ ''*'' @ ?d @ '')(nil)'',
       ''func New(client '' @ (gf_GoPackageName file @ ''connect.'' @ gs_GoName service @ ''Client'') @ '') '' @ ?name @ '' {'',
       ''func NewFromURL(url string, opts ...connect.ClientOption) '' @ ?name @ '' {'']"
    by (rule generateDelegate_split)
  have sig: "signature file m = Some (?sig m)"
    "generateInterfaceMethod file m = Some (methodComment m @ [tabs 1 @ ?sig m])" if "m \<in> set ?ms" for m
  proof -
    have "None \<notin> set (map (generateInterfaceMethod file) ?ms)"
      using ifs those_None by (metis option.distinct(1))
    then have "generateInterfaceMethod file m \<noteq> None" using that by (metis imageI list.set_map)
    then show "signature file m = Some (?sig m)"
      "generateInterfaceMethod file m = Some (methodComment m @ [tabs 1 @ ?sig m])"
      by (auto simp: generateInterfaceMethod_eq)
  qed
  have ifs_eq: "ifs = map (\<lambda>m. methodComment m @ [tabs 1 @ ?sig m]) ?ms"
    using ifs sig(2) by (auto simp: those_Some list_eq_iff_nth_eq)
  have fwd: "list_all2 (\<lambda>m body. forwards m ?d (?sig m) body) ?ms bodies"
    unfolding list_all2_conv_all_nth
  proof (intro conjI allI impI)
    show "length ?ms = length bodies" using bodies by (auto simp: those_Some list_eq_iff_nth_eq)
    fix i assume i: "i < length ?ms"
    have "generateDelegateMethod file (?ms ! i) ?d = Some (bodies ! i)"
      using bodies i by (auto simp: those_Some list_eq_iff_nth_eq)
    then show "forwards (?ms ! i) ?d (?sig (?ms ! i)) (bodies ! i)"
      using generateDelegateMethod_func [OF sig(1), of "?ms ! i" ?d] i by simp
  qed
  have tab: "\<exists>t. l = tabs 1 @ t" if "l \<in> set (concat ifs)" for l
    using that by (auto simp: ifs_eq methodComment_def split: if_splits)
  have "''}'' \<notin> set (concat ifs)" using tab by (fastforce simp: tabs_def)
  moreover have "''type '' @ ?name @ '' interface {'' \<notin> set pre" using pre by (simp add: delegateHead_def)
  ultimately have "interfaceLines ?name (gn_Lines g) = concat ifs"
    unfolding lines by (intro interfaceLines_split)
  moreover have "topDecls (concat ifs) = []"
    using tab unfolding topDecls_def filter_empty_conv by (metis isDecl_tabs One_nat_def)
  moreover have "topDecls (concat bodies) = map (\<lambda>m. funcLine ?d (?sig m)) ?ms"
    using fwd by (induction rule: list_all2_induct) (auto simp: forwards_def)
  moreover have "list_all2 (\<lambda>(method, sig) body. forwards method ?d sig body) (zip ?ms (map ?sig ?ms)) bodies"
    using fwd by (simp add: list_all2_conv_all_nth)
  moreover have "list_all2 (\<lambda>method sig. signature file method = Some sig) ?ms (map ?sig ?ms)"
    using sig(1) by (simp add: list_all2_conv_all_nth)
  moreover have "concat ifs = concat (map2 (\<lambda>method sig. methodComment method @ [tabs 1 @ sig]) ?ms (map ?sig ?ms))"
    by (simp add: ifs_eq map2_map_map [where f = id, simplified])
  ultimately show ?thesis
    using pre mid unfolding Let_def delegateHead_def
    by (intro exI [of _ "map ?sig ?ms"] conjI exI [of _ "pre @ (''type '' @ ?name @ '' interface {'') # concat ifs @ ''}'' # mid"]
        exI [of _ bodies]) (simp_all add: lines funcLine_def)
qed

section \<open>When the generator panics\<close>

definition scalarKinds :: "string list" where
  "scalarKinds = [''double'', ''float'', ''int64'', ''sfixed64'', ''sint64'', ''uint64'', ''fixed64'', ''int32'', ''sfixed32'',
     ''sint32'', ''uint32'', ''fixed32'', ''bool'', ''string'', ''bytes'']"

text \<open>The descriptors of proto3: a scalar, an enum or a message; a map is a list of entries of two fields.\<close>

definition wf_plain :: "Field \<Rightarrow> bool" where
  "wf_plain f \<longleftrightarrow> fd_Kind f \<in> set scalarKinds \<and> fd_Message f = None \<and> fd_Enum f = None \<or>
     fd_Kind f = ''enum'' \<and> fd_Message f = None \<and> fd_Enum f \<noteq> None \<or>
     fd_Kind f = ''message'' \<and> fd_Message f \<noteq> None \<and> fd_Enum f = None"

definition wf_field :: "Field \<Rightarrow> bool" where
  "wf_field f \<longleftrightarrow> wf_plain f \<and> (fd_IsMap f \<longrightarrow> \<not> fd_IsList f \<and> fd_Kind f = ''message'' \<and>
     (\<exists>n k v. fd_Message f = Some (Message n [k, v]) \<and> fd_Kind k \<in> set scalarKinds \<and> wf_plain v))"

text \<open>The fields the generator does not cover.\<close>

definition unsupported :: "Field \<Rightarrow> bool" where
  "unsupported f \<longleftrightarrow> fd_IsList f \<and> fd_Kind f = ''enum'' \<or>
     fd_IsMap f \<and> (\<exists>n k v. fd_Message f = Some (Message n [k, v]) \<and> fd_Kind v = ''enum'')"

lemma scalarToGoType_empty: "scalarToGoType f = '''' \<longleftrightarrow> fd_Kind f \<notin> set scalarKinds"
  by (simp add: scalarToGoType_def scalarKinds_def Let_def)

lemma wf_plain_cases:
  assumes "wf_plain f"
  obtains (scalar) "fd_Kind f \<in> set scalarKinds" "scalarToGoType f \<noteq> ''''" "fd_Kind f \<noteq> ''enum''" "fd_Message f = None"
  | (enum) e where "fd_Kind f = ''enum''" "scalarToGoType f = ''''" "fd_Message f = None" "fd_Enum f = Some e"
  | (message) m where "fd_Kind f \<noteq> ''enum''" "scalarToGoType f = ''''" "fd_Message f = Some m"
proof -
  have k: "''enum'' \<notin> set scalarKinds" "''message'' \<notin> set scalarKinds" by (simp_all add: scalarKinds_def)
  consider "fd_Kind f \<in> set scalarKinds" "fd_Message f = None" | e where "fd_Kind f = ''enum''" "fd_Message f = None" "fd_Enum f = Some e"
    | m where "fd_Kind f = ''message''" "fd_Message f = Some m"
    using assms unfolding wf_plain_def by (cases "fd_Message f"; cases "fd_Enum f"; auto)
  then show ?thesis
  proof cases
    case 1
    then show ?thesis using k scalar scalarToGoType_empty by metis
  next
    case 2
    then show ?thesis using k enum scalarToGoType_empty by metis
  next
    case (3 m)
    then show ?thesis using k message [of m] scalarToGoType_empty by simp
  qed
qed

lemma protoFieldToGoType_None:
  assumes "wf_field f"
  shows "protoFieldToGoType file f = None \<longleftrightarrow> unsupported f"
proof -
  have wf: "wf_plain f" using assms by (simp add: wf_field_def)
  show ?thesis
  proof (cases "fd_IsMap f")
    case True
    then obtain n k v where m: "fd_Message f = Some (Message n [k, v])" "wf_plain v" "\<not> fd_IsList f"
      using assms by (auto simp: wf_field_def)
    have u: "unsupported f \<longleftrightarrow> fd_Kind v = ''enum''" using True m by (simp add: unsupported_def)
    show ?thesis
      using m(2)
      by (cases rule: wf_plain_cases) (simp_all add: u protoFieldToGoType_def Let_def True m(1,3))
  next
    case False
    have u: "unsupported f \<longleftrightarrow> fd_IsList f \<and> fd_Kind f = ''enum''" using False by (simp add: unsupported_def)
    show ?thesis
      using wf
      by (cases rule: wf_plain_cases) (simp_all add: u protoFieldToGoType_def Let_def False)
  qed
qed

lemma typedFields_None: "typedFields file fs = None \<longleftrightarrow> (\<exists>f\<in>set fs. protoFieldToGoType file f = None)"
proof -
  have "None = do { goType \<leftarrow> protoFieldToGoType file f; Some (lowerFirst (fd_GoName f) @ '' '' @ goType) } \<longleftrightarrow>
      protoFieldToGoType file f = None" for f
    by (cases "protoFieldToGoType file f") simp_all
  then show ?thesis by (simp only: typedFields_def those_None set_map image_iff)
qed

lemma signature_None:
  "signature file m = None \<longleftrightarrow>
     typedFields file (ms_Fields (me_Input m)) = None \<or>
     \<not> me_IsStreamingServer m \<and> \<not> me_IsStreamingClient m \<and> typedFields file (ms_Fields (me_Output m)) = None"
proof -
  have "typedFields file [] \<noteq> None" by (simp add: typedFields_None)
  then have "unaryResults file m = None \<longleftrightarrow> typedFields file (ms_Fields (me_Output m)) = None"
    by (cases "ms_Fields (me_Output m)") (simp_all add: unaryResults_def)
  then show ?thesis
    by (cases "typedFields file (ms_Fields (me_Input m))"; cases "me_IsStreamingServer m"; cases "me_IsStreamingClient m")
      (simp_all add: signature_def Let_def)
qed

lemma trimSuffix_empty: "trimSuffix s suffix = [] \<longleftrightarrow> s = [] \<or> s = suffix"
proof (cases "hasPrefix (rev s) (rev suffix)")
  case True
  then obtain t where "rev s = rev suffix @ t" by (auto simp: hasPrefix_iff)
  then have s: "s = rev t @ suffix" by (metis rev_append rev_rev_ident)
  then show ?thesis using True by (auto simp: trimSuffix_def)
next
  case False
  have "hasPrefix (rev suffix) (rev suffix)" using hasPrefix_append [of "rev suffix" "[]"] by simp
  then have "s \<noteq> suffix" using False by blast
  then show ?thesis using False by (simp add: trimSuffix_def)
qed

definition streaming :: "GenMethod \<Rightarrow> bool" where
  "streaming m \<longleftrightarrow> me_IsStreamingServer m \<or> me_IsStreamingClient m"

text \<open>The fields whose types the generator writes.\<close>

definition readFields :: "GenMethod \<Rightarrow> Field set" where
  "readFields m = set (ms_Fields (me_Input m)) \<union> (if streaming m then {} else set (ms_Fields (me_Output m)))"

lemma reference_type:
  assumes ref: "fd_IsList f \<or> fd_IsMap f \<or> fd_Message f \<noteq> None" and t: "protoFieldToGoType file f = Some t" and wf: "wf_field f"
  shows "hasPrefix t ''[]'' \<or> hasPrefix t ''map['' \<or> hasPrefix t ''*''"
proof -
  consider (list) "fd_IsList f" | (map_entry) n k v where "fd_IsMap f" "\<not> fd_IsList f" "fd_Message f = Some (Message n [k, v])"
    | (message) m where "\<not> fd_IsList f" "\<not> fd_IsMap f" "fd_Message f = Some m"
    using ref wf unfolding wf_field_def by blast
  then show ?thesis
  proof cases
    case list
    then show ?thesis using t by (auto simp: protoFieldToGoType_def Let_def bind_eq_Some_conv split: if_splits)
  next
    case (map_entry n k v)
    then show ?thesis using t by (auto simp: protoFieldToGoType_def Let_def bind_eq_Some_conv split: if_splits)
  next
    case (message m)
    have "wf_plain f" using wf by (simp add: wf_field_def)
    then have "scalarToGoType f = ''''" using message(3) by (cases rule: wf_plain_cases) simp_all
    then show ?thesis using message t by (auto simp: protoFieldToGoType_def Let_def)
  qed
qed

text \<open>The Go types the literals \<open>nil\<close>, \<open>false\<close>, \<open>""\<close> and \<open>0\<close> can be returned for; an enum is a
  named type of the file's package.\<close>

definition goFits :: "ProtoFile \<Rightarrow> string \<Rightarrow> string \<Rightarrow> bool" where
  "goFits file v t \<longleftrightarrow>
     v = ''nil'' \<and> (hasPrefix t ''[]'' \<or> hasPrefix t ''map['' \<or> hasPrefix t ''*'') \<or>
     v = ''false'' \<and> t = ''bool'' \<or> v = ''\"\"'' \<and> t = ''string'' \<or>
     v = ''0'' \<and> (t \<in> {''float64'', ''float32'', ''int64'', ''uint64'', ''int32'', ''uint32''} \<or>
                  hasPrefix t (gf_GoPackageName file @ ''.''))"

lemma zeroValue_fits:
  assumes "wf_field f" and t: "protoFieldToGoType file f = Some t"
  shows "goFits file (zeroValue f) t"
proof (cases "fd_IsList f \<or> fd_IsMap f \<or> fd_Message f \<noteq> None")
  case True
  then have "zeroValue f = ''nil''" unfolding zeroValue_def Let_def by (rule if_P)
  moreover have "hasPrefix t ''[]'' \<or> hasPrefix t ''map['' \<or> hasPrefix t ''*''"
    using True t assms(1) by (rule reference_type)
  ultimately show ?thesis by (simp add: goFits_def)
next
  case False
  have wf: "wf_plain f" using assms(1) by (simp add: wf_field_def)
  then show ?thesis
  proof (cases rule: wf_plain_cases)
    case scalar
    then have t: "t = scalarToGoType f" using False t by (simp add: protoFieldToGoType_def Let_def)
    have "k \<in> set scalarKinds \<Longrightarrow> fd_Kind f = k \<Longrightarrow> ?thesis" for k
      using False by (auto simp: t scalarKinds_def zeroValue_def scalarToGoType_def Let_def goFits_def)
    then show ?thesis using scalar(1) by blast
  next
    case (enum e)
    then have "t = (gf_GoPackageName file @ ''.'') @ e" "zeroValue f = ''0''"
      using False t by (simp_all add: protoFieldToGoType_def zeroValue_def Let_def)
    then show ?thesis unfolding goFits_def by (simp only: hasPrefix_append simp_thms insert_iff)
  next
    case (message m)
    then show ?thesis using False by simp
  qed
qed

lemma typedFields_types:
  "typedFields file fs = Some ns \<longleftrightarrow>
     (\<exists>ts. list_all2 (\<lambda>f t. protoFieldToGoType file f = Some t) fs ts \<and>
           ns = map2 (\<lambda>f t. lowerFirst (fd_GoName f) @ '' '' @ t) fs ts)"
  unfolding typedFields_def
proof (induction fs arbitrary: ns)
  case (Cons f fs)
  then show ?case by (cases "protoFieldToGoType file f") (auto simp: list_all2_Cons1 split: option.splits)
qed auto

text \<open>C28. The code the generator writes returns values of the declared types: the results in the signature of
  a unary method of the delegate are the fields of the response with their Go types and an error, and when
  the call fails the method returns for each of them a literal that fits its type, and the error.\<close>
theorem error_return_typed:
  assumes "generateUnaryDelegateMethod file method d = Some ds" and "ms_Fields (me_Output method) \<noteq> []"
    and wf: "\<forall>f\<in>set (ms_Fields (me_Output method)). wf_field f"
  shows "\<exists>ts call. list_all2 (\<lambda>f t. protoFieldToGoType file f = Some t) (ms_Fields (me_Output method)) ts \<and>
    ds ! 1 = call @ ''('' @ joinStr '', ''
      (map2 (\<lambda>f t. lowerFirst (fd_GoName f) @ '' '' @ t) (ms_Fields (me_Output method)) ts @ [''err error'']) @ '') {'' \<and>
    tabs 2 @ ''return '' @ joinStr '', '' (map zeroValue (ms_Fields (me_Output method)) @ [''err'']) \<in> set ds \<and>
    list_all2 (\<lambda>f t. goFits file (zeroValue f) t) (ms_Fields (me_Output method)) ts"
proof -
  let ?outs = "ms_Fields (me_Output method)"
  obtain inputs returns where i: "typedFields file (ms_Fields (me_Input method)) = Some inputs"
      and r: "typedFields file ?outs = Some returns"
    using assms(1,2) unfolding generateUnaryDelegateMethod_def typedFields_def [symmetric] Let_def
    by (cases "typedFields file (ms_Fields (me_Input method))"; cases "typedFields file ?outs") simp_all
  then obtain ts where ts: "list_all2 (\<lambda>f t. protoFieldToGoType file f = Some t) ?outs ts"
      "returns = map2 (\<lambda>f t. lowerFirst (fd_GoName f) @ '' '' @ t) ?outs ts"
    unfolding typedFields_types by (elim exE conjE) (rule that)
  have "list_all2 (\<lambda>f t. goFits file (zeroValue f) t) ?outs ts"
    using ts(1) wf zeroValue_fits by (auto simp: list_all2_conv_all_nth)
  moreover have "\<exists>call. ds ! 1 = call @ ''('' @ joinStr '', '' (returns @ [''err error'']) @ '') {''"
    using assms(1,2) i r unfolding generateUnaryDelegateMethod_def typedFields_def [symmetric] Let_def
    by (intro exI [of _ "''func (d *'' @ d @ '') '' @ me_GoName method @ ''('' @ joinStr '', '' ([''ctx context.Context''] @ inputs) @ '') ''"]) auto
  moreover have "tabs 2 @ ''return '' @ joinStr '', '' (map zeroValue ?outs @ [''err'']) \<in> set ds"
    using assms(1,2) i r unfolding generateUnaryDelegateMethod_def typedFields_def [symmetric] Let_def by auto
  ultimately show ?thesis using ts by blast
qed

text \<open>
  The files of a service are named after the file's package, so two services of one file get the same
  names; and a field becomes a parameter under its own name, be it a word of the language.
\<close>

lemma same_file_names:
  "gn_Name (generatePlugin file service) = gn_Name (generatePlugin file service')"
  "generateDelegate file service = Some g \<Longrightarrow> generateDelegate file service' = Some g' \<Longrightarrow> gn_Name g = gn_Name g'"
  by (auto simp: generatePlugin_def generateDelegate_def Let_def bind_eq_Some_conv split: if_splits)

lemma keyword_parameter:
  assumes "me_Input method = Message n [Field ''Type'' ''string'' False False None None]" and "me_GoName method = ''Get''"
    and "ms_Fields (me_Output method) = []" and "\<not> me_IsStreamingServer method" and "\<not> me_IsStreamingClient method"
  shows "signature file method = Some ''Get(ctx context.Context, type string) error''"
proof -
  have "lowerFirst ''Type'' = ''type''" by code_simp
  then have "typedFields file (ms_Fields (me_Input method)) = Some [''type string'']"
    by (simp add: assms(1) typedFields_def protoFieldToGoType_def scalarToGoType_def Let_def)
  then show ?thesis by (simp add: signature_def unaryResults_def assms(2-5))
qed

text \<open>C39. On well-formed descriptors the generator panics exactly when the service is called
  \<open>Service\<close> (or has no name), or when a request, or the response of a method that does not stream, has a
  repeated enum or a map to an enum; on everything else it writes its files.\<close>
theorem generator_panics_iff:
  assumes "\<forall>m\<in>set (gs_Methods service). \<forall>f\<in>readFields m. wf_field f"
  shows "generateDelegate file service = None \<longleftrightarrow>
    gs_GoName service = '''' \<or> gs_GoName service = ''Service'' \<or>
    (\<exists>m\<in>set (gs_Methods service). \<exists>f\<in>readFields m. unsupported f)"
proof -
  let ?d = "lowerFirst (trimSuffix (gs_GoName service) ''Service'') @ ''Delegate''"
  let ?ms = "gs_Methods service"
  have sig: "signature file m = None \<longleftrightarrow> (\<exists>f\<in>readFields m. unsupported f)" if "m \<in> set ?ms" for m
    using assms that protoFieldToGoType_None
    unfolding signature_None typedFields_None readFields_def streaming_def by auto
  have ifs: "those (map (generateInterfaceMethod file) ?ms) = None \<longleftrightarrow> (\<exists>m\<in>set ?ms. signature file m = None)"
    by (auto simp: those_None image_iff generateInterfaceMethod_eq)
  have bodies: "those (map (\<lambda>method. generateDelegateMethod file method ?d) ?ms) = None \<Longrightarrow> \<exists>m\<in>set ?ms. signature file m = None"
  proof -
    assume "those (map (\<lambda>method. generateDelegateMethod file method ?d) ?ms) = None"
    then have "None \<in> (\<lambda>method. generateDelegateMethod file method ?d) ` set ?ms"
      unfolding those_None set_map .
    then obtain m where m: "m \<in> set ?ms" "generateDelegateMethod file m ?d = None"
      unfolding image_iff by (elim bexE) (rule that, assumption, rule sym, assumption)
    then have "signature file m = None"
      using generateDelegateMethod_func [of _ m _ ?d] by (cases "signature file m") fastforce+
    then show ?thesis using m(1) by blast
  qed
  have "generateDelegate file service = None \<longleftrightarrow> trimSuffix (gs_GoName service) ''Service'' = '''' \<or>
      those (map (generateInterfaceMethod file) ?ms) = None \<or>
      those (map (\<lambda>method. generateDelegateMethod file method ?d) ?ms) = None"
    by (auto simp: generateDelegate_def Let_def bind_eq_None_conv)
  moreover have "(\<exists>m\<in>set ?ms. signature file m = None) \<longleftrightarrow> (\<exists>m\<in>set ?ms. \<exists>f\<in>readFields m. unsupported f)"
    by (rule bex_cong [OF refl sig])
  ultimately show ?thesis using ifs bodies trimSuffix_empty [of "gs_GoName service" "''Service''"] by argo
qed

section \<open>An example\<close>

definition example_field :: "string \<Rightarrow> string \<Rightarrow> Field" where
  "example_field name kind = Field name kind False False None None"

definition example_service :: GenService where
  "example_service = \<lparr>gs_GoName = ''KVService'', gs_Methods =
     [\<lparr>me_GoName = ''Put'', me_Leading = '''', me_Input = Message ''PutRequest'' [example_field ''Key'' ''string''],
       me_Output = Message ''PutResponse'' [], me_IsStreamingServer = False, me_IsStreamingClient = False\<rparr>]\<rparr>"

definition example_file :: ProtoFile where
  "example_file = \<lparr>gf_Generate = True, gf_Path = ''kv.proto'', gf_GoPackageName = ''kvv1'', gf_GoImportPath = ''kv/gen'',
     gf_Services = [example_service]\<rparr>"

lemma example_wf: "\<forall>m\<in>set (gs_Methods example_service). \<forall>f\<in>readFields m. wf_field f \<and> \<not> unsupported f"
  by (simp add: example_service_def readFields_def example_field_def wf_field_def wf_plain_def scalarKinds_def unsupported_def)

lemma generator_panics_iff_witness: "generateDelegate example_file example_service \<noteq> None"
proof -
  have "gs_GoName example_service = ''KVService''" by (simp add: example_service_def)
  then show ?thesis
    using generator_panics_iff [of example_service example_file] example_wf by auto
qed

lemma example_generated: "\<exists>g. generateDelegate example_file example_service = Some g"
proof -
  have "trimSuffix ''KVService'' ''Service'' = ''KV''" by code_simp
  then show ?thesis
    by (simp add: generateDelegate_def Let_def example_service_def generateInterfaceMethod_def generateUnaryInterfaceMethod_def
        generateDelegateMethod_def generateUnaryDelegateMethod_def example_field_def protoFieldToGoType_def scalarToGoType_def)
qed

lemma delegate_implements_interface_witness:
  "\<exists>g. generateDelegate example_file example_service = Some g \<and>
     interfaceLines ''KV'' (gn_Lines g) = [tabs 1 @ ''Put(ctx context.Context, key string) error''] \<and>
     topDecls (gn_Lines g) = [''var _ = connect.IsAtLeastVersion1_13_0'', ''type KV interface {'',
       ''type kVDelegate struct {'', ''var _ KV = ('' @ ''*kVDelegate)(nil)'',
       ''func New(client kvv1connect.KVServiceClient) KV {'',
       ''func NewFromURL(url string, opts ...connect.ClientOption) KV {'',
       ''func (d '' @ ''*kVDelegate) Put(ctx context.Context, key string) error {'']"
proof -
  obtain g where g: "generateDelegate example_file example_service = Some g" using example_generated by blast
  have names: "gs_GoName example_service = ''KVService''" "gf_GoPackageName example_file = ''kvv1''"
      "trimSuffix ''KVService'' ''Service'' = ''KV''" "lowerFirst ''KV'' = ''kV''" "hasStreaming example_service = False"
    by code_simp+
  obtain m where m: "gs_Methods example_service = [m]" "methodComment m = []"
      "signature example_file m = Some ''Put(ctx context.Context, key string) error''"
  proof
    show "gs_Methods example_service = [hd (gs_Methods example_service)]"
      "methodComment (hd (gs_Methods example_service)) = []"
      "signature example_file (hd (gs_Methods example_service)) = Some ''Put(ctx context.Context, key string) error''"
      by code_simp+
  qed
  from delegate_implements_interface [OF g] g show ?thesis
    by (auto simp: names m list_all2_Cons1 Let_def)
qed


definition example_get :: GenMethod where
  "example_get = \<lparr>me_GoName = ''Get'', me_Leading = '''', me_Input = Message ''GetRequest'' [example_field ''Key'' ''string''],
     me_Output = Message ''GetResponse'' [example_field ''Value'' ''bytes'', example_field ''Found'' ''bool''],
     me_IsStreamingServer = False, me_IsStreamingClient = False\<rparr>"

lemma error_return_typed_witness:
  "\<exists>ds. generateUnaryDelegateMethod example_file example_get ''kVDelegate'' = Some ds \<and>
     tabs 2 @ ''return nil, false, err'' \<in> set ds"
proof -
  have outs: "ms_Fields (me_Output example_get) = [example_field ''Value'' ''bytes'', example_field ''Found'' ''bool'']"
    by (simp add: example_get_def)
  have wf: "\<forall>f\<in>set (ms_Fields (me_Output example_get)). wf_field f"
    by (simp add: outs example_field_def wf_field_def wf_plain_def scalarKinds_def)
  have "\<exists>sig. signature example_file example_get = Some sig"
    by (simp add: signature_def unaryResults_def typedFields_def example_get_def example_field_def protoFieldToGoType_def scalarToGoType_def)
  moreover have "\<not> me_IsStreamingServer example_get" "\<not> me_IsStreamingClient example_get" by (simp_all add: example_get_def)
  ultimately obtain ds where ds: "generateUnaryDelegateMethod example_file example_get ''kVDelegate'' = Some ds"
    using unaryDelegate_func [of example_get] by (elim exE) blast
  have "joinStr '', '' (map zeroValue (ms_Fields (me_Output example_get)) @ [''err'']) = ''nil, false, err''"
    unfolding outs by (simp add: zeroValue_def example_field_def)
  moreover have "ms_Fields (me_Output example_get) \<noteq> []" by (simp add: outs)
  note error_return_typed [OF ds this wf]
  ultimately have "tabs 2 @ ''return '' @ ''nil, false, err'' \<in> set ds" by (elim exE conjE) (simp only:)
  then show ?thesis using ds by simp
qed

end
