(* ===== verification/RegistryRefine.thy ===== *)
theory RegistryRefine
  imports RegistryProps
begin

text \<open>
  The registry as a directory. What the registry promises its callers is stated without its maps, its
  watchers and its selection strategies: a directory is one list of registrations, in the order in which
  they were made, and the allow lists of the host. A call with its answer is an event. The registry
  refines the directory: whatever sequence of calls and answers it produces, the directory allows.
\<close>

section \<open>The directory\<close>

record Directory =
  dir_entries :: "ServiceProvider list"
  dir_allowed :: "(string, string list) gomap"

definition empty_directory :: Directory where
  "empty_directory = \<lparr>dir_entries = [], dir_allowed = Map.empty\<rparr>"

definition lookup :: "Directory \<Rightarrow> string \<Rightarrow> ServiceProvider option" where
  "lookup d i = find (\<lambda>p. sp_RegistrationID p = i) (dir_entries d)"

definition listed :: "Directory \<Rightarrow> string \<Rightarrow> ServiceProvider list" where
  "listed d t = filter (\<lambda>p. sp_ServiceType p = t) (dir_entries d)"

definition offers :: "Directory \<Rightarrow> lifecycle \<Rightarrow> string \<Rightarrow> string \<Rightarrow> ServiceProvider list" where
  "offers d lc t v = filter (\<lambda>p. compatible v p \<and> available lc p) (listed d t)"

text \<open>The requests the directory accepts: valid fields, a runtime id, and an allowed service type.\<close>

definition permitted :: "Directory \<Rightarrow> http_header \<Rightarrow> RegisterServiceRequest \<Rightarrow> bool" where
  "permitted d h req \<longleftrightarrow> valid_provider (newProvider '''' 0 h req) \<and> card (dom (rsr_Metadata req)) \<le> 100 \<and>
     (\<forall>ts. dir_allowed d (header_get h ''X-Plugin-Runtime-ID'') = Some ts \<longrightarrow> rsr_ServiceType req \<in> set ts)"

datatype registry_event =
    Registered http_header RegisterServiceRequest time "RegistryError connect_error + string"
  | Unregistered string "RegistryError connect_error + unit"
  | PluginUnregistered string
  | LookedUp string "ServiceProvider option"
  | Listed string "ServiceProvider list"
  | Selected lifecycle string string "SelectError + ServiceProvider option"
  | AllowedSet string "string list"
  | Silent

text \<open>
  A refused registration changes nothing, and a permitted one is refused only for want of random bytes.
  Which of the offers a selection returns is left open.
\<close>

inductive dir_step :: "Directory \<Rightarrow> registry_event \<Rightarrow> Directory \<Rightarrow> bool" where
  dir_register: "permitted d h req \<Longrightarrow> lookup d i = None \<Longrightarrow>
      dir_step d (Registered h req now (Inr i)) (d\<lparr>dir_entries := dir_entries d @ [newProvider i now h req]\<rparr>)"
| dir_refuse: "(permitted d h req \<Longrightarrow> e = NewError CodeInternal RegistrationIDFailed) \<Longrightarrow>
      dir_step d (Registered h req now (Inl e)) d"
| dir_unregister: "lookup d i \<noteq> None \<Longrightarrow>
      dir_step d (Unregistered i (Inr ())) (d\<lparr>dir_entries := filter (\<lambda>p. sp_RegistrationID p \<noteq> i) (dir_entries d)\<rparr>)"
| dir_unknown: "lookup d i = None \<Longrightarrow>
      dir_step d (Unregistered i (Inl (NewError CodeNotFound (RegistrationNotFound i)))) d"
| dir_unregister_plugin:
    "dir_step d (PluginUnregistered rid) (d\<lparr>dir_entries := filter (\<lambda>p. sp_RuntimeID p \<noteq> rid) (dir_entries d)\<rparr>)"
| dir_lookup: "dir_step d (LookedUp i (lookup d i)) d"
| dir_list: "dir_step d (Listed t (listed d t)) d"
| dir_select: "p \<in> set (offers d lc t v) \<Longrightarrow> dir_step d (Selected lc t v (Inr (Some p))) d"
| dir_no_offer: "offers d lc t v = [] \<Longrightarrow> dir_step d (Selected lc t v (Inl e)) d"
| dir_allow: "dir_step d (AllowedSet rid ts) (d\<lparr>dir_allowed := (dir_allowed d)(rid \<mapsto> ts)\<rparr>)"
| dir_silent: "dir_step d Silent d"

section \<open>The events of the registry\<close>

text \<open>The calls with their answers; the strategies and the watchers are not seen by these callers.\<close>

inductive registry_action :: "ServiceRegistry \<Rightarrow> registry_event \<Rightarrow> ServiceRegistry \<Rightarrow> bool" where
  ac_register: "iter_order (rsr_Metadata req) keys \<Longrightarrow>
      (\<forall>i. generateRegistrationID rnd = Some i \<longrightarrow> r_registrations r i = None) \<Longrightarrow>
      RegisterService lc keys rnd now h req r = (r', answer) \<Longrightarrow> registry_action r (Registered h req now answer) r'"
| ac_unregister: "UnregisterService lc i r = (r', answer) \<Longrightarrow> registry_action r (Unregistered i answer) r'"
| ac_unregister_plugin: "iter_order (r_registrations r) order \<Longrightarrow>
      registry_action r (PluginUnregistered rid) (UnregisterPluginServices order rid r)"
| ac_lookup: "registry_action r (LookedUp i (GetProvider r i)) r"
| ac_list: "registry_action r (Listed t (case GetAllProviders r t of None \<Rightarrow> [] | Some ps \<Rightarrow> ps)) r"
| ac_select: "draw_ok draw \<Longrightarrow> SelectProvider draw lc t v r = (r', answer) \<Longrightarrow>
      registry_action r (Selected lc t v answer) r'"
| ac_allow: "registry_action r (AllowedSet rid ts) (SetAllowedServices rid ts r)"
| ac_strategy: "registry_action r Silent (SetSelectionStrategy t s r)"
| ac_watch: "i \<notin> w_id ` set (get_slice (r_watchers r) t) \<Longrightarrow> registry_action r Silent (WatchService_start lc i t r)"
| ac_recv: "WatchService_recv i t r = Some (e, r') \<Longrightarrow> registry_action r Silent r'"
| ac_exit: "registry_action r Silent (WatchService_exit i t r)"

section \<open>The simulation\<close>

definition represents :: "ServiceRegistry \<Rightarrow> Directory \<Rightarrow> bool" where
  "represents r d \<longleftrightarrow> wf_registry r \<and> distinct (map sp_RegistrationID (dir_entries d)) \<and>
     (\<forall>i. r_registrations r i = lookup d i) \<and> (\<forall>t. get_slice (r_providers r) t = listed d t) \<and>
     r_allowedServices r = dir_allowed d"

lemma representsD:
  assumes "represents r d"
  shows "wf_registry r" "distinct (map sp_RegistrationID (dir_entries d))" "r_registrations r i = lookup d i"
    "get_slice (r_providers r) t = listed d t" "r_allowedServices r = dir_allowed d"
  using assms by (simp_all add: represents_def)

lemma represents_cong:
  "represents r d \<Longrightarrow> r_registrations r' = r_registrations r \<Longrightarrow> r_providers r' = r_providers r \<Longrightarrow>
   r_allowedServices r' = r_allowedServices r \<Longrightarrow> represents r' d"
  using wf_registry_cong [of r' r] by (simp add: represents_def)

lemma represents_new: "represents NewServiceRegistry empty_directory"
  using registry_inv_new
  by (simp add: represents_def registry_inv_def empty_directory_def lookup_def listed_def) (simp add: NewServiceRegistry_def)

lemma find_filter_key:
  "distinct (map f xs) \<Longrightarrow> find (\<lambda>x. f x = i) (filter P xs) =
     (case find (\<lambda>x. f x = i) xs of None \<Rightarrow> None | Some x \<Rightarrow> if P x then Some x else None)"
proof (induction xs)
  case (Cons a xs)
  have "f a = i \<Longrightarrow> find (\<lambda>x. f x = i) (filter P xs) = None"
    using Cons.prems by (simp add: find_None_iff) (metis image_eqI)
  then show ?case using Cons by (auto split: option.splits)
qed simp

lemma lookup_filter:
  "represents r d \<Longrightarrow> lookup (d\<lparr>dir_entries := filter P (dir_entries d)\<rparr>) i =
     (case lookup d i of None \<Rightarrow> None | Some p \<Rightarrow> if P p then Some p else None)"
  using representsD(2) by (simp add: lookup_def find_filter_key)

lemma listed_filter: "listed (d\<lparr>dir_entries := filter P (dir_entries d)\<rparr>) t = filter P (listed d t)"
  by (simp add: listed_def conj_commute)

lemma find_snoc: "find P (xs @ [x]) = (case find P xs of None \<Rightarrow> if P x then Some x else None | Some y \<Rightarrow> Some y)"
  by (induction xs) auto

lemma represents_store:
  assumes rep: "represents r d" and fresh: "lookup d (sp_RegistrationID p) = None" and wf: "wf_registry (storeProvider p r)"
  shows "represents (storeProvider p r) (d\<lparr>dir_entries := dir_entries d @ [p]\<rparr>)"
proof -
  have "sp_RegistrationID p \<notin> sp_RegistrationID ` set (dir_entries d)"
    using fresh by (auto simp: lookup_def find_None_iff)
  moreover have "(r_registrations r)(sp_RegistrationID p \<mapsto> p) = lookup (d\<lparr>dir_entries := dir_entries d @ [p]\<rparr>)"
    using fresh representsD(3) [OF rep] by (auto simp: fun_eq_iff lookup_def find_snoc split: option.splits)
  ultimately show ?thesis
    using representsD [OF rep] wf by (simp add: represents_def storeProvider_def listed_def)
qed

lemma represents_filter:
  assumes rep: "represents r d" and wf: "wf_registry r'" and allowed: "r_allowedServices r' = r_allowedServices r"
    and regs: "\<And>i. r_registrations r' i = (case r_registrations r i of None \<Rightarrow> None | Some p \<Rightarrow> if P p then Some p else None)"
    and lists: "\<And>t. get_slice (r_providers r') t = filter P (get_slice (r_providers r) t)"
  shows "represents r' (d\<lparr>dir_entries := filter P (dir_entries d)\<rparr>)"
  unfolding represents_def
  using representsD [OF rep] wf
  by (simp add: allowed regs lists lookup_filter [OF rep] listed_filter distinct_map_filter)


text \<open>The refusals of \<open>mayRegister\<close> are those of the directory.\<close>

lemma mayRegister_permitted:
  assumes rep: "represents r d" and keys: "iter_order (rsr_Metadata req) keys"
  shows "mayRegister keys h req r \<longleftrightarrow> permitted d h req"
  unfolding mayRegister_def permitted_def validateMetadata_ok [OF keys] representsD(5) [OF rep]
  by (auto simp: valid_provider_def newProvider_def)

lemma sim_register:
  assumes rep: "represents r d" and keys: "iter_order (rsr_Metadata req) keys"
    and fresh: "\<forall>i. generateRegistrationID rnd = Some i \<longrightarrow> r_registrations r i = None"
    and reg: "RegisterService lc keys rnd now h req r = (r', answer)"
  shows "\<exists>d'. dir_step d (Registered h req now answer) d' \<and> represents r' d'"
proof (cases "mayRegister keys h req r")
  case True
  then have may: "permitted d h req" using mayRegister_permitted [OF rep keys] by simp
  show ?thesis
  proof (cases "generateRegistrationID rnd")
    case None
    then have "r' = r" "answer = Inl (NewError CodeInternal RegistrationIDFailed)"
      using reg by (simp_all add: RegisterService_accepted [OF True])
    then show ?thesis using rep by (auto intro: dir_refuse)
  next
    case (Some i)
    let ?p = "newProvider i now h req"
    have r': "r' = notifyWatchersLocked lc (rsr_ServiceType req) (storeProvider ?p r)" "answer = Inr i"
      using reg by (simp_all add: RegisterService_accepted [OF True] Some)
    have id: "sp_RegistrationID ?p = i" by (simp add: newProvider_def)
    have new: "lookup d i = None" using fresh Some representsD(3) [OF rep] by simp
    have "wf_registry r'" using wf_registry_RegisterService [OF representsD(1) [OF rep] keys fresh, of lc now h] reg by simp
    then have "wf_registry (storeProvider ?p r)" by (simp add: r' wf_registry_cong [OF notifyWatchersLocked_frame(1,2)])
    from represents_store [OF rep _ this] have "represents (storeProvider ?p r) (d\<lparr>dir_entries := dir_entries d @ [?p]\<rparr>)"
      by (simp add: id new)
    then have "represents r' (d\<lparr>dir_entries := dir_entries d @ [?p]\<rparr>)"
      by (rule represents_cong) (simp_all add: r' frame)
    then show ?thesis unfolding r'(2) using dir_register [OF may new] by blast
  qed
next
  case False
  then obtain e where "r' = r" "answer = Inl e"
    using RegisterService_refused [OF False, of lc rnd now] reg by (metis prod.inject)
  then show ?thesis using rep False mayRegister_permitted [OF rep keys] by (auto intro: dir_refuse)
qed

lemma sim_unregister:
  assumes rep: "represents r d" and un: "UnregisterService lc i r = (r', answer)"
  shows "\<exists>d'. dir_step d (Unregistered i answer) d' \<and> represents r' d'"
proof (cases "r_registrations r i")
  case None
  then have "r' = r" "answer = Inl (NewError CodeNotFound (RegistrationNotFound i))" "lookup d i = None"
    using un representsD(3) [OF rep, of i] by (simp_all add: UnregisterService_def)
  then show ?thesis using rep by (auto intro: dir_unknown)
next
  case (Some p)
  let ?r1 = "removeRegistration i p r" and ?d' = "d\<lparr>dir_entries := filter (\<lambda>q. sp_RegistrationID q \<noteq> i) (dir_entries d)\<rparr>"
  have r': "r' = notifyWatchersLocked lc (sp_ServiceType p) ?r1" "answer = Inr ()"
    using un Some by (simp_all add: UnregisterService_def)
  note wf = representsD(1) [OF rep]
  have "represents ?r1 ?d'"
  proof (rule represents_filter [OF rep])
    show "wf_registry ?r1" by (rule wf_registry_removeRegistration [OF wf Some])
    show "r_registrations ?r1 j =
      (case r_registrations r j of None \<Rightarrow> None | Some q \<Rightarrow> if sp_RegistrationID q \<noteq> i then Some q else None)" for j
      using wf_registryD(2) [OF wf] by (cases "r_registrations r j") (auto simp: removeRegistration_def)
    show "get_slice (r_providers ?r1) t = filter (\<lambda>q. sp_RegistrationID q \<noteq> i) (get_slice (r_providers r) t)" for t
      by (rule get_slice_removeRegistration [OF wf Some])
  qed (simp add: frame)
  then have "represents r' ?d'" by (rule represents_cong) (simp_all add: r' frame)
  then show ?thesis
    using dir_unregister [of d i] Some representsD(3) [OF rep, of i] unfolding r'(2) by auto
qed

lemma UnregisterPluginServices_allowed:
  "r_allowedServices (UnregisterPluginServices order rid r) = r_allowedServices r"
proof -
  have "r_allowedServices (removeAll_regs ids r) = r_allowedServices r" for ids
    by (induction ids arbitrary: r) (auto simp: removeAll_regs_def frame split: option.splits)
  then show ?thesis by (simp add: UnregisterPluginServices_unfold)
qed

lemma sim_unregister_plugin:
  assumes rep: "represents r d" and order: "iter_order (r_registrations r) order"
  shows "\<exists>d'. dir_step d (PluginUnregistered rid) d' \<and> represents (UnregisterPluginServices order rid r) d'"
proof -
  note un = UnregisterPluginServices_correct [OF representsD(1) [OF rep] order, of rid]
  have "represents (UnregisterPluginServices order rid r) (d\<lparr>dir_entries := filter (\<lambda>p. sp_RuntimeID p \<noteq> rid) (dir_entries d)\<rparr>)"
    by (rule represents_filter [OF rep un(1) UnregisterPluginServices_allowed])
      (auto simp: un(2,3) split: option.split)
  then show ?thesis using dir_unregister_plugin by blast
qed

lemma eligible_offers: "represents r d \<Longrightarrow> eligible lc t v r = offers d lc t v"
  by (simp add: eligible_def offers_def filterCompatibleVersions_filter filterAvailable_filter representsD(4) conj_commute)

lemma sim_select:
  assumes rep: "represents r d" and draw: "draw_ok draw" and sel: "SelectProvider draw lc t v r = (r', answer)"
  shows "dir_step d (Selected lc t v answer) d \<and> represents r' d"
proof
  show "represents r' d"
    using represents_cong [OF rep SelectProvider_frame(1,2,5), of draw lc t v] by (simp add: sel)
  show "dir_step d (Selected lc t v answer) d"
  proof (cases "eligible lc t v r = []")
    case True
    then show ?thesis using sel eligible_offers [OF rep] by (auto simp: SelectProvider_fails [OF True] intro: dir_no_offer)
  next
    case False
    then obtain p where "p \<in> set (offers d lc t v)" "answer = Inr (Some p)"
      using SelectProvider_succeeds [OF draw False] by (auto simp: sel eligible_offers [OF rep])
    then show ?thesis by (auto intro: dir_select)
  qed
qed

lemma registry_simulated:
  assumes rep: "represents r d" and step: "registry_action r ev r'"
  shows "\<exists>d'. dir_step d ev d' \<and> represents r' d'"
  using step
proof cases
  case (ac_register req keys rnd lc now h answer)
  then show ?thesis using sim_register [OF rep] by blast
next
  case (ac_unregister lc i answer)
  then show ?thesis using sim_unregister [OF rep] by blast
next
  case (ac_unregister_plugin order rid)
  then show ?thesis using sim_unregister_plugin [OF rep] by blast
next
  case (ac_lookup i)
  then show ?thesis using rep dir_lookup [of d i] representsD(3) [OF rep, of i] by (auto simp: GetProvider_def)
next
  case (ac_list t)
  then show ?thesis using rep dir_list [of d t] representsD(4) [OF rep, of t] by (auto simp: GetAllProviders_def get_slice_def)
next
  case (ac_select draw lc t v answer)
  then show ?thesis using sim_select [OF rep] by blast
next
  case (ac_allow rid ts)
  have "represents r' (d\<lparr>dir_allowed := (dir_allowed d)(rid \<mapsto> ts)\<rparr>)"
    using representsD [OF rep] wf_registry_cong [of r' r]
    by (simp add: ac_allow represents_def SetAllowedServices_def lookup_def listed_def)
  then show ?thesis unfolding ac_allow(1) using dir_allow by blast
next
  case (ac_strategy t s)
  have "represents r' d" by (rule represents_cong [OF rep]) (simp_all add: ac_strategy SetSelectionStrategy_def)
  then show ?thesis unfolding ac_strategy(1) using dir_silent by blast
next
  case (ac_watch i t lc)
  have "represents r' d"
    by (rule represents_cong [OF rep]) (simp_all add: ac_watch frame WatchService_start_def Let_def)
  then show ?thesis unfolding ac_watch(1) using dir_silent by blast
next
  case (ac_recv i t e)
  have "represents r' d"
    by (rule represents_cong [OF rep]) (use ac_recv(2) in \<open>auto simp: WatchService_recv_def split: option.splits list.splits\<close>)
  then show ?thesis unfolding ac_recv(1) using dir_silent by blast
next
  case (ac_exit i t)
  have "represents r' d"
    by (rule represents_cong [OF rep]) (simp_all add: ac_exit WatchService_exit_def Let_def)
  then show ?thesis unfolding ac_exit(1) using dir_silent by blast
qed

interpretation rd: simulation registry_action dir_step represents
  by unfold_locales (rule registry_simulated)

section \<open>Refinement\<close>

text \<open>C7. The registry refines the directory: every sequence of calls and answers of a new registry is one
  of the empty directory. In particular its two maps behave as one list of registrations, whatever the
  watchers, the strategies and the random numbers do.\<close>
theorem registry_refines_directory:
  assumes "trace registry_action NewServiceRegistry events r"
  shows "\<exists>d. trace dir_step empty_directory events d \<and>
    (\<forall>i. GetProvider r i = lookup d i) \<and> (\<forall>t. get_slice (r_providers r) t = listed d t)"
  using rd.trace_inclusion [OF assms represents_new] by (auto simp: GetProvider_def dest: representsD(3,4))

lemma registry_refines_directory_witness:
  "\<exists>d. trace dir_step empty_directory [Registered example_header example_request 5 (Inr ''reg-6162636465666768'')] d \<and>
     listed d ''kv'' = [example_provider]"
proof -
  have "registry_action NewServiceRegistry (Registered example_header example_request 5 (Inr ''reg-6162636465666768'')) example_registry"
    by (rule ac_register [OF _ _ example_register]) (simp_all add: example_request_def iter_order_def NewServiceRegistry_def)
  from registry_refines_directory [OF trace_one [of registry_action, OF this]]
  obtain d where "trace dir_step empty_directory [Registered example_header example_request 5 (Inr ''reg-6162636465666768'')] d"
      "listed d ''kv'' = get_slice (r_providers example_registry) ''kv''"
    by (elim exE conjE) (rule that; simp)
  then show ?thesis by (intro exI [of _ d]) (simp add: example_providers)
qed

end
