(* ===== verification/KVStore.thy ===== *)
theory KVStore
  imports Channels
begin

text \<open>
  The key-value plugin that the repository ships and tests against, \<^verbatim>\<open>examples/kv/impl/store.go\<close> (and the
  same file under \<^verbatim>\<open>testdata/\<close>): a map with watchers. A call of \<open>Watch\<close> is a small process: it registers,
  sends itself a first event, pumps its channel into the stream (\<open>pumpRound\<close> of the theory \<open>Channels\<close>),
  and then unregisters and closes the channel. Its state is kept under a number, the address of its
  watcher; the list of watchers holds these numbers. A panic of a handler is \<open>None\<close>.
\<close>

section \<open>Data\<close>

datatype EventType = EVENT_TYPE_UNSPECIFIED | EVENT_TYPE_PUT | EVENT_TYPE_DELETE

record WatchEvent =
  ev_Type :: EventType
  ev_Key :: string
  ev_Value :: string

text \<open>Where a call of \<open>Watch\<close> stands: before its first event, in the pump, and in the deferred function.\<close>

datatype watch_phase =
    Starting | Pumping | Returning "string option" | Unregistered_call "string option" | Finished "string option"

record watcher =
  wt_prefix :: string
  wt_ctxErr :: "string option"
  wt_pump :: "WatchEvent pump"
  wt_phase :: watch_phase

record Store =
  kv_data :: "(string, string) gomap"
  kv_watchers :: "nat list"
  kv_calls :: "(nat, watcher) gomap"

datatype KVError = KeyEmpty

definition NewStore :: Store where
  "NewStore = \<lparr>kv_data = Map.empty, kv_watchers = [], kv_calls = Map.empty\<rparr>"

definition eventsCap :: nat where "eventsCap = 32"

section \<open>Notifying\<close>

text \<open>
  The \<open>select\<close> with a default: the send is ready while the buffer has room or when the channel is
  closed, where it panics; with a cancelled context the other alternative is ready as well, and
  \<open>skip\<close> says that the runtime takes it.
\<close>

definition matches :: "string \<Rightarrow> WatchEvent \<Rightarrow> bool" where
  "matches prefix event \<longleftrightarrow> prefix = '''' \<or> hasPrefix (ev_Key event) prefix"

definition offer :: "bool \<Rightarrow> WatchEvent \<Rightarrow> watcher \<Rightarrow> watcher option" where
  "offer skip event w =
     (if \<not> matches (wt_prefix w) event then Some w
      else if wt_ctxErr w \<noteq> None \<and> skip then Some w
      else if pu_chClosed (wt_pump w) then None
      else Some (w\<lparr>wt_pump := (wt_pump w)\<lparr>pu_ch := try_send eventsCap event (pu_ch (wt_pump w))\<rparr>\<rparr>))"

fun notifyLoop :: "(nat \<Rightarrow> bool) \<Rightarrow> WatchEvent \<Rightarrow> nat list \<Rightarrow> (nat, watcher) gomap \<Rightarrow> (nat, watcher) gomap option" where
  "notifyLoop skip event [] calls = Some calls"
| "notifyLoop skip event (i # is) calls =
     (case calls i of
        None \<Rightarrow> notifyLoop skip event is calls
      | Some w \<Rightarrow>
          (case offer (skip i) event w of
             None \<Rightarrow> None
           | Some w' \<Rightarrow> notifyLoop skip event is (calls(i \<mapsto> w'))))"

definition notifyWatchers :: "(nat \<Rightarrow> bool) \<Rightarrow> WatchEvent \<Rightarrow> Store \<Rightarrow> Store option" where
  "notifyWatchers skip event s =
     map_option (\<lambda>calls. s\<lparr>kv_calls := calls\<rparr>) (notifyLoop skip event (kv_watchers s) (kv_calls s))"

section \<open>The unary methods\<close>

definition Get :: "string \<Rightarrow> Store \<Rightarrow> string \<times> bool" where
  "Get key s = (case kv_data s key of None \<Rightarrow> ('''', False) | Some value \<Rightarrow> (value, True))"

definition putEvent :: "string \<Rightarrow> string \<Rightarrow> WatchEvent" where
  "putEvent key value = \<lparr>ev_Type = EVENT_TYPE_PUT, ev_Key = key, ev_Value = value\<rparr>"

definition deleteEvent :: "string \<Rightarrow> WatchEvent" where
  "deleteEvent key = \<lparr>ev_Type = EVENT_TYPE_DELETE, ev_Key = key, ev_Value = ''''\<rparr>"

definition Put :: "(nat \<Rightarrow> bool) \<Rightarrow> string \<Rightarrow> string \<Rightarrow> Store \<Rightarrow> (Store \<times> (KVError connect_error + unit)) option" where
  "Put skip key value s =
     (if key = '''' then Some (s, Inl (NewError CodeInvalidArgument KeyEmpty))
      else map_option (\<lambda>s'. (s', Inr ()))
             (notifyWatchers skip (putEvent key value) (s\<lparr>kv_data := (kv_data s)(key \<mapsto> value)\<rparr>)))"

definition Delete :: "(nat \<Rightarrow> bool) \<Rightarrow> string \<Rightarrow> Store \<Rightarrow> (Store \<times> bool) option" where
  "Delete skip key s =
     (let found = kv_data s key \<noteq> None;
          s1 = s\<lparr>kv_data := (kv_data s)(key := None)\<rparr>
      in if found then map_option (\<lambda>s'. (s', True)) (notifyWatchers skip (deleteEvent key) s1)
         else Some (s1, False))"

section \<open>Watch\<close>

definition startedEvent :: WatchEvent where
  "startedEvent = \<lparr>ev_Type = EVENT_TYPE_UNSPECIFIED, ev_Key = ''_watch_started'', ev_Value = ''''\<rparr>"

definition newPump :: "WatchEvent pump" where
  "newPump = \<lparr>pu_ch = [], pu_chClosed = False, pu_errs = [], pu_errsClosed = False, pu_sent = []\<rparr>"

definition Watch_register :: "nat \<Rightarrow> string \<Rightarrow> string option \<Rightarrow> Store \<Rightarrow> Store" where
  "Watch_register i prefix ctxErr s =
     s\<lparr>kv_watchers := kv_watchers s @ [i],
       kv_calls := (kv_calls s)(i \<mapsto> \<lparr>wt_prefix = prefix, wt_ctxErr = ctxErr, wt_pump = newPump, wt_phase = Starting\<rparr>)\<rparr>"

text \<open>The first event is sent without the lock and without looking at the context; \<open>None\<close> while the send blocks.\<close>

definition Watch_initial :: "nat \<Rightarrow> Store \<Rightarrow> Store option" where
  "Watch_initial i s =
     (case kv_calls s i of
        None \<Rightarrow> None
      | Some w \<Rightarrow>
          if wt_phase w = Starting \<and> length (pu_ch (wt_pump w)) < eventsCap
          then Some (s\<lparr>kv_calls := (kv_calls s)(i \<mapsto> w\<lparr>wt_pump := (wt_pump w)\<lparr>pu_ch := pu_ch (wt_pump w) @ [startedEvent]\<rparr>,
                                                        wt_phase := Pumping\<rparr>)\<rparr>)
          else None)"

definition Watch_pump :: "(WatchEvent \<Rightarrow> string option) \<Rightarrow> pump_choice \<Rightarrow> nat \<Rightarrow> Store \<Rightarrow> Store option" where
  "Watch_pump send choice i s =
     (case kv_calls s i of
        None \<Rightarrow> None
      | Some w \<Rightarrow>
          if wt_phase w \<noteq> Pumping then None
          else (case pumpRound (wt_ctxErr w) send choice (wt_pump w) of
              None \<Rightarrow> None
            | Some (Continue p) \<Rightarrow> Some (s\<lparr>kv_calls := (kv_calls s)(i \<mapsto> w\<lparr>wt_pump := p\<rparr>)\<rparr>)
            | Some (Return e p) \<Rightarrow> Some (s\<lparr>kv_calls := (kv_calls s)(i \<mapsto> w\<lparr>wt_pump := p, wt_phase := Returning e\<rparr>)\<rparr>)))"

text \<open>The deferred function: the removal under the lock, then the \<open>close\<close>.\<close>

definition Watch_unregister :: "nat \<Rightarrow> Store \<Rightarrow> Store option" where
  "Watch_unregister i s =
     (case kv_calls s i of
        None \<Rightarrow> None
      | Some w \<Rightarrow>
          (case wt_phase w of
             Returning e \<Rightarrow> Some (s\<lparr>kv_watchers := remove_first (\<lambda>j. j = i) (kv_watchers s),
                                 kv_calls := (kv_calls s)(i \<mapsto> w\<lparr>wt_phase := Unregistered_call e\<rparr>)\<rparr>)
           | _ \<Rightarrow> None))"

definition Watch_close :: "nat \<Rightarrow> Store \<Rightarrow> Store option" where
  "Watch_close i s =
     (case kv_calls s i of
        None \<Rightarrow> None
      | Some w \<Rightarrow>
          (case wt_phase w of
             Unregistered_call e \<Rightarrow> Some (s\<lparr>kv_calls := (kv_calls s)(i \<mapsto>
                 w\<lparr>wt_pump := (wt_pump w)\<lparr>pu_chClosed := True\<rparr>, wt_phase := Finished e\<rparr>)\<rparr>)
           | _ \<Rightarrow> None))"

text \<open>The client goes away, or the server cancels the call.\<close>

definition Watch_cancel :: "nat \<Rightarrow> string \<Rightarrow> Store \<Rightarrow> Store" where
  "Watch_cancel i e s = s\<lparr>kv_calls := (kv_calls s)(i := map_option (wt_ctxErr_update (\<lambda>_. Some e)) (kv_calls s i))\<rparr>"

end
