(* ===== verification/KVStoreProps.thy ===== *)
theory KVStoreProps
  imports KVStore "HOL-Library.Sublist"
begin

text \<open>
  The key-value store as a transition system, and what it guarantees to its watchers: no write panics on
  a closed channel; a watcher gets the events of its prefix in the order of the writes, all of them while
  its buffer has room; and a watcher that is overtaken by the writes before its first event hangs.
\<close>

section \<open>Steps\<close>

datatype kv_label = Wrote WatchEvent | Quiet

inductive kv_step :: "Store \<Rightarrow> kv_label \<Rightarrow> Store \<Rightarrow> bool" where
  kv_put: "Put skip key value s = Some (s', Inr ()) \<Longrightarrow> kv_step s (Wrote (putEvent key value)) s'"
| kv_put_refused: "Put skip key value s = Some (s', Inl e) \<Longrightarrow> kv_step s Quiet s'"
| kv_delete: "Delete skip key s = Some (s', True) \<Longrightarrow> kv_step s (Wrote (deleteEvent key)) s'"
| kv_delete_absent: "Delete skip key s = Some (s', False) \<Longrightarrow> kv_step s Quiet s'"
| kv_register: "kv_calls s i = None \<Longrightarrow> kv_step s Quiet (Watch_register i pfx ctxErr s)"
| kv_initial: "Watch_initial i s = Some s' \<Longrightarrow> kv_step s Quiet s'"
| kv_pump: "Watch_pump send choice i s = Some s' \<Longrightarrow> kv_step s Quiet s'"
| kv_unregister: "Watch_unregister i s = Some s' \<Longrightarrow> kv_step s Quiet s'"
| kv_close: "Watch_close i s = Some s' \<Longrightarrow> kv_step s Quiet s'"
| kv_cancel: "kv_step s Quiet (Watch_cancel i e s)"

fun written :: "kv_label list \<Rightarrow> WatchEvent list" where
  "written [] = []"
| "written (Wrote e # ls) = e # written ls"
| "written (Quiet # ls) = written ls"

lemma written_append [simp]: "written (ls @ ms) = written ls @ written ms"
  by (induction ls rule: written.induct) simp_all

section \<open>The invariant\<close>

definition active :: "watch_phase \<Rightarrow> bool" where
  "active ph \<longleftrightarrow> (case ph of Starting \<Rightarrow> True | Pumping \<Rightarrow> True | Returning _ \<Rightarrow> True | _ \<Rightarrow> False)"

lemma active_simps [simp]: "active Starting" "active Pumping" "active (Returning e)" "\<not> active (Unregistered_call e)" "\<not> active (Finished e)"
  by (simp_all add: active_def)

definition kv_inv :: "Store \<Rightarrow> bool" where
  "kv_inv s \<longleftrightarrow> distinct (kv_watchers s) \<and> set (kv_watchers s) = {i. \<exists>w. kv_calls s i = Some w \<and> active (wt_phase w)} \<and>
     (\<forall>i w. kv_calls s i = Some w \<longrightarrow> (active (wt_phase w) \<longrightarrow> \<not> pu_chClosed (wt_pump w)) \<and>
        length (pu_ch (wt_pump w)) \<le> eventsCap)"

lemma kv_invD:
  assumes "kv_inv s"
  shows "distinct (kv_watchers s)" "i \<in> set (kv_watchers s) \<longleftrightarrow> (\<exists>w. kv_calls s i = Some w \<and> active (wt_phase w))"
    "kv_calls s i = Some w \<Longrightarrow> active (wt_phase w) \<Longrightarrow> \<not> pu_chClosed (wt_pump w)"
    "kv_calls s i = Some w \<Longrightarrow> length (pu_ch (wt_pump w)) \<le> eventsCap"
  using assms unfolding kv_inv_def by auto

lemma kv_invI:
  assumes "distinct (kv_watchers s)" "\<And>i. i \<in> set (kv_watchers s) \<longleftrightarrow> (\<exists>w. kv_calls s i = Some w \<and> active (wt_phase w))"
    "\<And>i w. kv_calls s i = Some w \<Longrightarrow> active (wt_phase w) \<Longrightarrow> \<not> pu_chClosed (wt_pump w)"
    "\<And>i w. kv_calls s i = Some w \<Longrightarrow> length (pu_ch (wt_pump w)) \<le> eventsCap"
  shows "kv_inv s"
  using assms unfolding kv_inv_def by blast

text \<open>What an open watcher becomes when an event is offered to it.\<close>

definition deliver :: "bool \<Rightarrow> WatchEvent \<Rightarrow> watcher \<Rightarrow> watcher" where
  "deliver skip event w =
     (if \<not> matches (wt_prefix w) event \<or> wt_ctxErr w \<noteq> None \<and> skip then w
      else w\<lparr>wt_pump := (wt_pump w)\<lparr>pu_ch := try_send eventsCap event (pu_ch (wt_pump w))\<rparr>\<rparr>)"

lemma offer_open: "\<not> pu_chClosed (wt_pump w) \<Longrightarrow> offer skip event w = Some (deliver skip event w)"
  by (simp add: offer_def deliver_def)

lemma deliver_frame [simp]:
  "wt_prefix (deliver skip event w) = wt_prefix w" "wt_ctxErr (deliver skip event w) = wt_ctxErr w"
  "wt_phase (deliver skip event w) = wt_phase w" "pu_chClosed (wt_pump (deliver skip event w)) = pu_chClosed (wt_pump w)"
  "pu_sent (wt_pump (deliver skip event w)) = pu_sent (wt_pump w)"
  "length (pu_ch (wt_pump (deliver skip event w))) \<le> eventsCap \<longleftrightarrow> length (pu_ch (wt_pump w)) \<le> eventsCap"
  by (simp_all add: deliver_def try_send_def)

lemma notifyLoop_open:
  "distinct is \<Longrightarrow> \<forall>i\<in>set is. \<exists>w. calls i = Some w \<and> \<not> pu_chClosed (wt_pump w) \<Longrightarrow>
   notifyLoop skip event is calls =
     Some (\<lambda>i. if i \<in> set is then map_option (deliver (skip i) event) (calls i) else calls i)"
proof (induction "is" arbitrary: calls)
  case Nil
  then show ?case by simp
next
  case (Cons i "is")
  then obtain w where w: "calls i = Some w" "\<not> pu_chClosed (wt_pump w)" by auto
  have "notifyLoop skip event (i # is) calls = notifyLoop skip event is (calls(i \<mapsto> deliver (skip i) event w))"
    by (simp add: w(1) offer_open [OF w(2)])
  also have "\<dots> = Some (\<lambda>j. if j \<in> set is then map_option (deliver (skip j) event) ((calls(i \<mapsto> deliver (skip i) event w)) j)
      else (calls(i \<mapsto> deliver (skip i) event w)) j)"
    using Cons.prems by (intro Cons.IH) auto
  also have "\<dots> = Some (\<lambda>j. if j \<in> set (i # is) then map_option (deliver (skip j) event) (calls j) else calls j)"
    using Cons.prems w(1) by (auto simp: fun_eq_iff)
  finally show ?case .
qed

definition delivered :: "(nat \<Rightarrow> bool) \<Rightarrow> WatchEvent \<Rightarrow> Store \<Rightarrow> (nat, watcher) gomap" where
  "delivered skip event s =
     (\<lambda>i. if i \<in> set (kv_watchers s) then map_option (deliver (skip i) event) (kv_calls s i) else kv_calls s i)"

lemma notifyWatchers_open:
  assumes "kv_inv s"
  shows "notifyWatchers skip event (s\<lparr>kv_data := d\<rparr>) = Some (s\<lparr>kv_data := d, kv_calls := delivered skip event s\<rparr>)"
proof -
  have "\<forall>i\<in>set (kv_watchers s). \<exists>w. kv_calls s i = Some w \<and> \<not> pu_chClosed (wt_pump w)"
    using kv_invD(2,3) [OF assms] by blast
  then show ?thesis
    unfolding notifyWatchers_def delivered_def by (simp add: notifyLoop_open [OF kv_invD(1) [OF assms]])
qed

lemma Put_eq:
  "kv_inv s \<Longrightarrow> key \<noteq> '''' \<Longrightarrow>
   Put skip key value s =
     Some (s\<lparr>kv_data := (kv_data s)(key \<mapsto> value), kv_calls := delivered skip (putEvent key value) s\<rparr>, Inr ())"
  by (simp add: Put_def notifyWatchers_open)

lemma Delete_eq:
  "kv_inv s \<Longrightarrow> Delete skip key s =
     (if kv_data s key = None then Some (s\<lparr>kv_data := (kv_data s)(key := None)\<rparr>, False)
      else Some (s\<lparr>kv_data := (kv_data s)(key := None), kv_calls := delivered skip (deleteEvent key) s\<rparr>, True))"
  by (simp add: Delete_def Let_def notifyWatchers_open)

lemma kv_inv_delivered:
  assumes "kv_inv s"
  shows "kv_inv (s\<lparr>kv_data := d, kv_calls := delivered skip event s\<rparr>)"
proof (rule kv_invI; simp)
  show "distinct (kv_watchers s)" by (rule kv_invD(1) [OF assms])
qed (use kv_invD [OF assms] in \<open>auto simp: delivered_def split: if_splits\<close>)


text \<open>How a step can change the call of one watcher.\<close>

inductive call_step :: "kv_label \<Rightarrow> watcher \<Rightarrow> watcher \<Rightarrow> bool" where
  cs_same: "l = Quiet \<or> \<not> active (wt_phase w) \<Longrightarrow> call_step l w w"
| cs_told: "active (wt_phase w) \<Longrightarrow> call_step (Wrote e) w (deliver skip e w)"
| cs_started: "wt_phase w = Starting \<Longrightarrow> length (pu_ch (wt_pump w)) < eventsCap \<Longrightarrow>
    call_step Quiet w (w\<lparr>wt_pump := (wt_pump w)\<lparr>pu_ch := pu_ch (wt_pump w) @ [startedEvent]\<rparr>, wt_phase := Pumping\<rparr>)"
| cs_pumped: "wt_phase w = Pumping \<Longrightarrow> pumpRound (wt_ctxErr w) send choice (wt_pump w) = Some (Continue p) \<Longrightarrow>
    call_step Quiet w (w\<lparr>wt_pump := p\<rparr>)"
| cs_returned: "wt_phase w = Pumping \<Longrightarrow> pumpRound (wt_ctxErr w) send choice (wt_pump w) = Some (Return e p) \<Longrightarrow>
    call_step Quiet w (w\<lparr>wt_pump := p, wt_phase := Returning e\<rparr>)"
| cs_left: "wt_phase w = Returning e \<Longrightarrow> call_step Quiet w (w\<lparr>wt_phase := Unregistered_call e\<rparr>)"
| cs_closed: "wt_phase w = Unregistered_call e \<Longrightarrow>
    call_step Quiet w (w\<lparr>wt_pump := (wt_pump w)\<lparr>pu_chClosed := True\<rparr>, wt_phase := Finished e\<rparr>)"
| cs_cancelled: "call_step Quiet w (w\<lparr>wt_ctxErr := Some e\<rparr>)"

inductive_cases call_stepE: "call_step l w w'"

lemma call_delivered:
  assumes inv: "kv_inv s" and call: "kv_calls s i = Some w"
  shows "\<exists>w'. delivered skip e s i = Some w' \<and> call_step (Wrote e) w w'"
  using kv_invD(2) [OF inv, of i] call
  by (cases "active (wt_phase w)") (auto simp: delivered_def intro: call_step.intros)

lemma kv_step_call:
  assumes inv: "kv_inv s" and step: "kv_step s l s'" and call: "kv_calls s i = Some w"
  shows "\<exists>w'. kv_calls s' i = Some w' \<and> call_step l w w'"
  using step
proof cases
  case (kv_put skip key v)
  then have "key \<noteq> ''''" by (auto simp: Put_def)
  then show ?thesis using kv_put(2) call_delivered [OF inv call] by (auto simp: Put_eq [OF inv] kv_put(1))
next
  case (kv_put_refused skip key v e)
  then have "s' = s" by (auto simp: Put_def split: if_splits)
  then show ?thesis using kv_put_refused call by (auto intro: cs_same)
next
  case (kv_delete skip key)
  then show ?thesis using call_delivered [OF inv call] by (auto simp: Delete_eq [OF inv] split: if_splits)
next
  case (kv_delete_absent skip key)
  then show ?thesis using call by (auto simp: Delete_eq [OF inv] split: if_splits intro: cs_same)
next
  case (kv_register j pfx ctxErr)
  then show ?thesis using call by (auto simp: Watch_register_def intro: cs_same)
next
  case (kv_initial j)
  then show ?thesis using call
    by (cases "i = j") (auto simp: Watch_initial_def split: option.splits if_splits intro: cs_same cs_started)
next
  case (kv_pump send choice j)
  then show ?thesis using call
    by (cases "i = j") (auto simp: Watch_pump_def split: option.splits if_splits pump_round.splits intro: cs_same cs_pumped cs_returned)
next
  case (kv_unregister j)
  then show ?thesis using call
    by (cases "i = j") (auto simp: Watch_unregister_def split: option.splits watch_phase.splits intro: cs_same cs_left)
next
  case (kv_close j)
  then show ?thesis using call
    by (cases "i = j") (auto simp: Watch_close_def split: option.splits watch_phase.splits intro: cs_same cs_closed)
next
  case (kv_cancel j e)
  then show ?thesis using call
    by (cases "i = j") (auto simp: Watch_cancel_def intro: cs_same cs_cancelled)
qed


lemma pumpRound_keeps:
  "pumpRound ctxErr send choice p = Some r \<Longrightarrow> r = Continue p' \<or> r = Return e p' \<Longrightarrow>
   pu_chClosed p' = pu_chClosed p \<and> length (pu_ch p') \<le> length (pu_ch p) \<and>
   (r = Continue p' \<longrightarrow> pu_sent p' @ pu_ch p' = pu_sent p @ pu_ch p)"
  by (cases choice) (auto simp: pumpRound_def Let_def split: option.splits list.splits if_splits)

text \<open>A step that changes the one call of \<open>i\<close>, and perhaps takes it off the list, keeps the invariant.\<close>

lemma kv_inv_call:
  assumes inv: "kv_inv s" and call: "kv_calls s i = Some w"
    and list: "kv_watchers s' = (if active (wt_phase w') then kv_watchers s else remove_first (\<lambda>j. j = i) (kv_watchers s))"
    and calls: "kv_calls s' = (kv_calls s)(i \<mapsto> w')"
    and phase: "active (wt_phase w') \<longrightarrow> active (wt_phase w) \<and> \<not> pu_chClosed (wt_pump w')"
    and len: "length (pu_ch (wt_pump w')) \<le> eventsCap"
  shows "kv_inv s'"
proof (rule kv_invI)
  note d = kv_invD(1) [OF inv]
  have set: "set (kv_watchers s') = (if active (wt_phase w') then set (kv_watchers s) else set (kv_watchers s) - {i})"
    by (simp add: list remove_first_eq_remove1 set_remove1_eq [OF d])
  show "distinct (kv_watchers s')" using d by (simp add: list remove_first_eq_remove1)
  show "j \<in> set (kv_watchers s') \<longleftrightarrow> (\<exists>w. kv_calls s' j = Some w \<and> active (wt_phase w))" for j
    using kv_invD(2) [OF inv, of j] phase call by (auto simp: set calls)
  show "kv_calls s' j = Some v \<Longrightarrow> active (wt_phase v) \<Longrightarrow> \<not> pu_chClosed (wt_pump v)" for j v
    using kv_invD(3) [OF inv, of j v] phase by (auto simp: calls split: if_splits)
  show "kv_calls s' j = Some v \<Longrightarrow> length (pu_ch (wt_pump v)) \<le> eventsCap" for j v
    using kv_invD(4) [OF inv, of j v] len by (auto simp: calls split: if_splits)
qed

lemma kv_inv_register:
  assumes inv: "kv_inv s" and "kv_calls s i = None"
  shows "kv_inv (Watch_register i pfx ctxErr s)"
  using kv_invD [OF inv] assms(2)
  by (intro kv_invI) (auto simp: Watch_register_def newPump_def split: if_splits)

lemma kv_inv_quiet:
  assumes inv: "kv_inv s"
  shows "Watch_initial i s = Some s' \<Longrightarrow> kv_inv s'" "Watch_pump send choice i s = Some s' \<Longrightarrow> kv_inv s'"
    "Watch_unregister i s = Some s' \<Longrightarrow> kv_inv s'" "Watch_close i s = Some s' \<Longrightarrow> kv_inv s'" "kv_inv (Watch_cancel i e s)"
proof -
  show "kv_inv s'" if t: "Watch_initial i s = Some s'"
  proof -
    obtain w where w: "kv_calls s i = Some w" using t by (auto simp: Watch_initial_def split: option.splits)
    show ?thesis
      by (rule kv_inv_call [OF inv w, where w' = "w\<lparr>wt_pump := (wt_pump w)\<lparr>pu_ch := pu_ch (wt_pump w) @ [startedEvent]\<rparr>, wt_phase := Pumping\<rparr>"])
        (use t kv_invD(3,4) [OF inv w] in \<open>auto simp: w Watch_initial_def split: if_splits\<close>)
  qed
  show "kv_inv s'" if t: "Watch_pump send choice i s = Some s'"
  proof -
    obtain w where w: "kv_calls s i = Some w" using t by (auto simp: Watch_pump_def split: option.splits)
    then obtain r where r: "pumpRound (wt_ctxErr w) send choice (wt_pump w) = Some r" "wt_phase w = Pumping"
      using t by (auto simp: Watch_pump_def split: option.splits if_splits)
    show ?thesis
    proof (cases r)
      case (Return e p)
      note k = pumpRound_keeps [OF r(1), of p e]
      show ?thesis
        by (rule kv_inv_call [OF inv w, where w' = "w\<lparr>wt_pump := p, wt_phase := Returning e\<rparr>"])
          (use t r k Return kv_invD(3,4) [OF inv w] in \<open>auto simp: w Watch_pump_def\<close>)
    next
      case (Continue p)
      note k = pumpRound_keeps [OF r(1), of p]
      show ?thesis
        by (rule kv_inv_call [OF inv w, where w' = "w\<lparr>wt_pump := p\<rparr>"])
          (use t r k Continue kv_invD(3,4) [OF inv w] in \<open>auto simp: w Watch_pump_def\<close>)
    qed
  qed
  show "kv_inv s'" if t: "Watch_unregister i s = Some s'"
  proof -
    obtain w where w: "kv_calls s i = Some w" using t by (auto simp: Watch_unregister_def split: option.splits)
    then obtain e where e: "wt_phase w = Returning e" using t by (auto simp: Watch_unregister_def split: watch_phase.splits)
    show ?thesis
      by (rule kv_inv_call [OF inv w, where w' = "w\<lparr>wt_phase := Unregistered_call e\<rparr>"])
        (use t e kv_invD(3,4) [OF inv w] in \<open>auto simp: w Watch_unregister_def\<close>)
  qed
  show "kv_inv s'" if t: "Watch_close i s = Some s'"
  proof -
    obtain w where w: "kv_calls s i = Some w" using t by (auto simp: Watch_close_def split: option.splits)
    then obtain e where e: "wt_phase w = Unregistered_call e" using t by (auto simp: Watch_close_def split: watch_phase.splits)
    then have "i \<notin> set (kv_watchers s)" using kv_invD(2) [OF inv, of i] w by auto
    then show ?thesis
      by (intro kv_inv_call [OF inv w, where w' = "w\<lparr>wt_pump := (wt_pump w)\<lparr>pu_chClosed := True\<rparr>, wt_phase := Finished e\<rparr>"])
        (use t e kv_invD(3,4) [OF inv w] in \<open>auto simp: w Watch_close_def\<close>)
  qed
  show "kv_inv (Watch_cancel i e s)"
    using kv_invD [OF inv] by (intro kv_invI) (auto simp: Watch_cancel_def split: if_splits)
qed

lemma kv_inv_step:
  assumes inv: "kv_inv s" and step: "kv_step s l s'"
  shows "kv_inv s'"
  using step
proof cases
  case (kv_put skip key v)
  then have "key \<noteq> ''''" by (auto simp: Put_def)
  then show ?thesis using kv_put(2) kv_inv_delivered [OF inv] by (auto simp: Put_eq [OF inv])
next
  case (kv_put_refused skip key v e)
  then show ?thesis using inv by (auto simp: Put_def split: if_splits)
next
  case (kv_delete skip key)
  then show ?thesis using kv_inv_delivered [OF inv] by (auto simp: Delete_eq [OF inv] split: if_splits)
next
  case (kv_delete_absent skip key)
  then show ?thesis using inv by (auto simp: Delete_eq [OF inv] kv_inv_def split: if_splits)
next
  case (kv_register i pfx ctxErr)
  then show ?thesis using kv_inv_register [OF inv] by simp
next
  case (kv_initial i)
  then show ?thesis by (elim kv_inv_quiet(1) [OF inv])
next
  case (kv_pump send choice i)
  then show ?thesis by (elim kv_inv_quiet(2) [OF inv])
next
  case (kv_unregister i)
  then show ?thesis by (elim kv_inv_quiet(3) [OF inv])
next
  case (kv_close i)
  then show ?thesis by (elim kv_inv_quiet(4) [OF inv])
next
  case (kv_cancel i e)
  then show ?thesis using kv_inv_quiet(5) [OF inv] by simp
qed

lemma kv_inv_new: "kv_inv NewStore"
  by (rule kv_invI) (simp_all add: NewStore_def)

lemma kv_trace_inv: "trace kv_step s ls s' \<Longrightarrow> kv_inv s \<Longrightarrow> kv_inv s'"
  by (induction rule: trace.induct) (auto intro: kv_inv_step)

interpretation kv: safe_component "\<lambda>s. s = NewStore" "\<lambda>s s'. \<exists>l. kv_step s l s'" kv_inv
  by unfold_locales (auto simp: kv_inv_new intro: kv_inv_step)


section \<open>What a watcher gets\<close>

text \<open>The events taken out of the channel and sent, and those still in it.\<close>

definition got :: "watcher \<Rightarrow> WatchEvent list" where
  "got w = pu_sent (wt_pump w) @ pu_ch (wt_pump w)"

abbreviation buffered :: "watcher \<Rightarrow> nat" where "buffered w \<equiv> length (pu_ch (wt_pump w))"

abbreviation pumping :: "watcher \<Rightarrow> bool" where "pumping w \<equiv> wt_phase w = Pumping \<and> wt_ctxErr w = None"

definition wanted :: "watcher \<Rightarrow> kv_label list \<Rightarrow> WatchEvent list" where
  "wanted w ls = filter (matches (wt_prefix w)) (written ls)"

lemma call_step_wanted:
  assumes "call_step l w w'" and "wt_phase w \<noteq> Starting" and "pumping w'"
  shows "pumping w \<and> wt_prefix w' = wt_prefix w \<and>
    (\<exists>es. got w' = got w @ es \<and> subseq es (wanted w [l]) \<and> (buffered w < eventsCap \<longrightarrow> es = wanted w [l]) \<and>
          buffered w' \<le> buffered w + length es)"
  using assms(1)
proof cases
  case cs_same
  then show ?thesis using assms(3) by (cases l) (auto simp: wanted_def)
next
  case (cs_told e skip)
  then have w: "pumping w" using assms(3) by simp
  then show ?thesis
    by (auto simp: cs_told deliver_def wanted_def got_def try_send_def)
next
  case cs_started
  then show ?thesis using assms(2) by simp
next
  case (cs_pumped send choice p)
  then show ?thesis using pumpRound_keeps [OF cs_pumped(4), of p] assms(3) by (auto simp: wanted_def got_def)
qed (use assms in auto)

lemma trace_wanted:
  "trace kv_step s ls s' \<Longrightarrow> kv_inv s \<Longrightarrow> kv_calls s i = Some w \<Longrightarrow> wt_phase w = Pumping \<Longrightarrow>
   \<exists>w'. kv_calls s' i = Some w' \<and> wt_phase w' \<noteq> Starting \<and> (pumping w' \<longrightarrow> wt_prefix w' = wt_prefix w \<and>
     (\<exists>es. got w' = got w @ es \<and> subseq es (wanted w ls) \<and>
           (buffered w + length (wanted w ls) \<le> eventsCap \<longrightarrow> es = wanted w ls) \<and> buffered w' \<le> buffered w + length es))"
proof (induction rule: trace.induct)
  case (trace_nil s)
  then show ?case by (auto simp: wanted_def)
next
  case (trace_snoc s ls t l u)
  then obtain v where v: "kv_calls t i = Some v" "wt_phase v \<noteq> Starting"
    and IH: "pumping v \<longrightarrow> wt_prefix v = wt_prefix w \<and> (\<exists>es. got v = got w @ es \<and> subseq es (wanted w ls) \<and>
       (buffered w + length (wanted w ls) \<le> eventsCap \<longrightarrow> es = wanted w ls) \<and> buffered v \<le> buffered w + length es)"
    by blast
  obtain w' where w': "kv_calls u i = Some w'" "call_step l v w'"
    using kv_step_call [OF kv_trace_inv [OF trace_snoc.hyps(1) trace_snoc.prems(1)] trace_snoc.hyps(2) v(1)] by blast
  have "wt_phase w' \<noteq> Starting" using w'(2) v(2) by (cases rule: call_step.cases) auto
  moreover have "wt_prefix w' = wt_prefix w \<and> (\<exists>es. got w' = got w @ es \<and> subseq es (wanted w (ls @ [l])) \<and>
      (buffered w + length (wanted w (ls @ [l])) \<le> eventsCap \<longrightarrow> es = wanted w (ls @ [l])) \<and> buffered w' \<le> buffered w + length es)"
    if p: "pumping w'"
  proof -
    obtain es2 where es2: "pumping v" "wt_prefix w' = wt_prefix v" "got w' = got v @ es2" "subseq es2 (wanted v [l])"
      "buffered v < eventsCap \<longrightarrow> es2 = wanted v [l]" "buffered w' \<le> buffered v + length es2"
      using call_step_wanted [OF w'(2) v(2) p] by blast
    then obtain es1 where es1: "wt_prefix v = wt_prefix w" "got v = got w @ es1" "subseq es1 (wanted w ls)"
      "buffered w + length (wanted w ls) \<le> eventsCap \<longrightarrow> es1 = wanted w ls" "buffered v \<le> buffered w + length es1"
      using IH by blast
    have split: "wanted w (ls @ [l]) = wanted w ls @ wanted v [l]" by (simp add: wanted_def es1(1))
    have "es1 @ es2 = wanted w (ls @ [l])" if room: "buffered w + length (wanted w (ls @ [l])) \<le> eventsCap"
    proof (cases "wanted v [l] = []")
      case True
      then show ?thesis using es1(4) es2(4) room by (simp add: split)
    next
      case False
      then have "length (wanted v [l]) > 0" by (rule length_greater_0_conv [THEN iffD2])
      moreover have "es1 = wanted w ls" using es1(4) room by (simp add: split)
      moreover from calculation(2) have "length es1 = length (wanted w ls)" by (rule arg_cong)
      moreover from calculation have "buffered v < eventsCap"
        using es1(5) room unfolding split length_append by linarith
      ultimately show ?thesis using es2(5) by (simp add: split)
    qed
    moreover have "subseq (es1 @ es2) (wanted w (ls @ [l]))"
      unfolding split by (rule list_emb_append_mono [OF es1(3) es2(4)])
    ultimately show ?thesis
      using es1(1,2,5) es2(2,3,6) by (intro conjI exI [of _ "es1 @ es2"]) auto
  qed
  ultimately show ?case using w'(1) by blast
qed

section \<open>A watcher that never starts\<close>

lemma call_step_stuck:
  assumes "call_step l w w'" and "wt_phase w = Starting" and "buffered w \<ge> eventsCap"
  shows "wt_phase w' = Starting \<and> buffered w' \<ge> eventsCap"
  using assms by (cases rule: call_step.cases) (auto simp: deliver_def try_send_def)

lemma trace_stuck:
  "trace kv_step s ls s' \<Longrightarrow> kv_inv s \<Longrightarrow> kv_calls s i = Some w \<Longrightarrow> wt_phase w = Starting \<Longrightarrow> buffered w \<ge> eventsCap \<Longrightarrow>
   \<exists>w'. kv_calls s' i = Some w' \<and> wt_phase w' = Starting \<and> buffered w' \<ge> eventsCap"
proof (induction rule: trace.induct)
  case (trace_snoc s ls t l u)
  then obtain v where v: "kv_calls t i = Some v" "wt_phase v = Starting" "buffered v \<ge> eventsCap" by blast
  then show ?case
    using kv_step_call [OF kv_trace_inv [OF trace_snoc.hyps(1) trace_snoc.prems(1)] trace_snoc.hyps(2) v(1)] call_step_stuck
    by blast
qed auto

text \<open>Writes in a row.\<close>

fun putAll :: "(string \<times> string) list \<Rightarrow> Store \<Rightarrow> Store option" where
  "putAll [] s = Some s"
| "putAll ((key, value) # kvs) s =
     (case Put (\<lambda>_. False) key value s of Some (s', Inr _) \<Rightarrow> putAll kvs s' | _ \<Rightarrow> None)"

lemma putAll_buffers:
  "kv_inv s \<Longrightarrow> \<forall>(k, v)\<in>set kvs. k \<noteq> '''' \<Longrightarrow> kv_calls s i = Some w \<Longrightarrow> wt_phase w = Starting \<Longrightarrow> wt_prefix w = '''' \<Longrightarrow>
   buffered w + length kvs \<le> eventsCap \<Longrightarrow>
   \<exists>s' w'. putAll kvs s = Some s' \<and> kv_inv s' \<and> kv_calls s' i = Some w' \<and> wt_phase w' = Starting \<and>
     buffered w' = buffered w + length kvs"
proof (induction kvs arbitrary: s w)
  case (Cons kv kvs)
  obtain k v where kv: "kv = (k, v)" by (cases kv)
  have k: "k \<noteq> ''''" using Cons.prems(2) by (simp add: kv)
  let ?s = "s\<lparr>kv_data := (kv_data s)(k \<mapsto> v), kv_calls := delivered (\<lambda>_. False) (putEvent k v) s\<rparr>"
  have put: "Put (\<lambda>_. False) k v s = Some (?s, Inr ())" by (rule Put_eq [OF Cons.prems(1) k])
  have "kv_calls ?s i = Some (deliver False (putEvent k v) w)"
    using kv_invD(2) [OF Cons.prems(1), of i] Cons.prems(3,4) by (simp add: delivered_def)
  moreover have "buffered (deliver False (putEvent k v) w) = buffered w + 1"
    using Cons.prems(5,6) by (simp add: deliver_def matches_def try_send_def)
  ultimately show ?case
    using Cons.IH [OF kv_inv_delivered [OF Cons.prems(1), where d = "(kv_data s)(k \<mapsto> v)" and skip = "\<lambda>_. False" and event = "putEvent k v"]] Cons.prems
    by (simp add: kv put)
qed auto

section \<open>Properties\<close>

text \<open>C22. A watcher that is being pumped gets events of its prefix only, in the order of the writes and
  each at most once, whatever the other calls do meanwhile; and it gets all of them as long as its
  buffer would hold them.\<close>
theorem watch_delivers:
  assumes "trace kv_step NewStore ls0 s" and "kv_calls s i = Some w" and "wt_phase w = Pumping"
    and "trace kv_step s ls s'" and "kv_calls s' i = Some w'" and "pumping w'"
  shows "\<exists>es. got w' = got w @ es \<and> subseq es (wanted w ls) \<and>
    (buffered w + length (wanted w ls) \<le> eventsCap \<longrightarrow> es = wanted w ls)"
  using trace_wanted [OF assms(4) kv_trace_inv [OF assms(1) kv_inv_new] assms(2,3)] assms(5,6) by auto

text \<open>C29. A write never panics on the closed channel of a watcher that is gone.\<close>
theorem writes_never_panic:
  assumes "trace kv_step NewStore ls s"
  shows "Put skip key value s \<noteq> None \<and> Delete skip key s \<noteq> None"
proof -
  have inv: "kv_inv s" by (rule kv_trace_inv [OF assms kv_inv_new])
  have "Put skip key value s \<noteq> None" by (cases "key = ''''") (simp_all add: Put_eq [OF inv], simp add: Put_def)
  moreover have "Delete skip key s \<noteq> None" by (rule notI) (simp add: Delete_eq [OF inv] split: if_splits)
  ultimately show ?thesis by blast
qed

text \<open>C40. The first event of a \<open>Watch\<close> call is sent without looking at the context, before anything reads
  the channel: a watcher of everything that is overtaken by 32 writes between its registration and
  that send hangs for ever, also when its client is gone, and stays on the list of watchers.\<close>
theorem Watch_hangs:
  assumes "trace kv_step NewStore ls0 s" and "kv_calls s i = None"
    and "length kvs = 32" and "\<forall>(k, v)\<in>set kvs. k \<noteq> ''''"
  shows "\<exists>s1. putAll kvs (Watch_register i '''' None s) = Some s1 \<and>
    (\<forall>ls s2. trace kv_step s1 ls s2 \<longrightarrow> Watch_initial i s2 = None \<and> i \<in> set (kv_watchers s2))"
proof -
  let ?s = "Watch_register i '''' None s"
  have inv: "kv_inv ?s" by (rule kv_inv_register [OF kv_trace_inv [OF assms(1) kv_inv_new] assms(2)])
  obtain w where w: "kv_calls ?s i = Some w" "wt_phase w = Starting" "wt_prefix w = ''''" "buffered w = 0"
    by (simp add: Watch_register_def newPump_def)
  obtain s1 w1 where s1: "putAll kvs ?s = Some s1" "kv_inv s1" "kv_calls s1 i = Some w1" "wt_phase w1 = Starting"
      "buffered w1 = 32"
    using putAll_buffers [OF inv assms(4) w(1,2,3)] assms(3) by (auto simp: w(4) eventsCap_def)
  have "Watch_initial i s2 = None \<and> i \<in> set (kv_watchers s2)" if t: "trace kv_step s1 ls s2" for ls s2
  proof -
    obtain w2 where w2: "kv_calls s2 i = Some w2" "wt_phase w2 = Starting" "buffered w2 \<ge> eventsCap"
      using trace_stuck [OF t s1(2,3,4)] s1(5) by (auto simp: eventsCap_def)
    then show ?thesis
      using kv_invD(2) [OF kv_trace_inv [OF t s1(2)], of i] by (auto simp: Watch_initial_def)
  qed
  then show ?thesis using s1(1) by blast
qed


section \<open>Examples\<close>

definition example_kv :: Store where
  "example_kv = the (Watch_initial 1 (Watch_register 1 '''' None NewStore))"

definition example_watcher :: watcher where
  "example_watcher = \<lparr>wt_prefix = '''', wt_ctxErr = None, wt_pump = newPump\<lparr>pu_ch := [startedEvent]\<rparr>, wt_phase = Pumping\<rparr>"

lemma example_kv_calls:
  "Watch_initial 1 (Watch_register 1 '''' None NewStore) = Some example_kv" "kv_calls example_kv 1 = Some example_watcher"
  by (simp_all add: example_kv_def Watch_initial_def Watch_register_def newPump_def eventsCap_def example_watcher_def)

lemma example_trace: "trace kv_step NewStore [Quiet, Quiet] example_kv"
proof -
  have "kv_step NewStore Quiet (Watch_register 1 '''' None NewStore)" by (rule kv_register) (simp add: NewStore_def)
  from trace_snoc [OF trace_one [of kv_step, OF this] kv_initial [OF example_kv_calls(1)]] show ?thesis by simp
qed

lemma writes_never_panic_witness: "Put (\<lambda>_. False) ''k'' ''v'' example_kv \<noteq> None"
  using writes_never_panic [OF example_trace] by blast

lemma watch_delivers_witness:
  "\<exists>s w. Put (\<lambda>_. False) ''k'' ''v'' example_kv = Some (s, Inr ()) \<and> kv_calls s 1 = Some w \<and>
     got w = [startedEvent, putEvent ''k'' ''v'']"
proof -
  have inv: "kv_inv example_kv" by (rule kv_trace_inv [OF example_trace kv_inv_new])
  let ?s = "example_kv\<lparr>kv_data := (kv_data example_kv)(''k'' \<mapsto> ''v''),
    kv_calls := delivered (\<lambda>_. False) (putEvent ''k'' ''v'') example_kv\<rparr>"
  have put: "Put (\<lambda>_. False) ''k'' ''v'' example_kv = Some (?s, Inr ())" by (rule Put_eq [OF inv]) simp
  let ?w = "deliver False (putEvent ''k'' ''v'') example_watcher"
  have call: "kv_calls ?s 1 = Some ?w"
    using kv_invD(2) [OF inv, of 1] example_kv_calls(2) by (simp add: delivered_def example_watcher_def)
  have "got ?w = got example_watcher @ wanted example_watcher [Wrote (putEvent ''k'' ''v'')]"
    using watch_delivers [OF example_trace example_kv_calls(2) _ trace_one [of kv_step, OF kv_put [OF put]] call]
    by (simp add: example_watcher_def newPump_def eventsCap_def wanted_def matches_def)
  then have "got ?w = [startedEvent, putEvent ''k'' ''v'']"
    by (simp add: got_def example_watcher_def newPump_def wanted_def matches_def)
  then show ?thesis using put call by blast
qed

lemma Watch_hangs_witness:
  "\<exists>s. putAll (replicate 32 (''k'', ''v'')) (Watch_register 1 '''' None NewStore) = Some s \<and> Watch_initial 1 s = None"
proof -
  have "kv_calls NewStore 1 = None" by (simp add: NewStore_def)
  from Watch_hangs [OF trace_nil [of kv_step] this, of "replicate 32 (''k'', ''v'')"] obtain s where
    "putAll (replicate 32 (''k'', ''v'')) (Watch_register 1 '''' None NewStore) = Some s"
    "\<forall>ls s2. trace kv_step s ls s2 \<longrightarrow> Watch_initial 1 s2 = None \<and> 1 \<in> set (kv_watchers s2)"
    by auto
  then show ?thesis using trace_nil [of kv_step] by blast
qed

end
