(* ===== verification/NetURL.thy ===== *)
theory NetURL
  imports Router
begin

text \<open>
  What the plugin programs use of the packages \<open>net/url\<close> and \<open>net/http\<close>: parsing a URL, escaping and
  parsing a query, and what becomes of the URL of a request on its way to the server. Strings are
  sequences of bytes.
\<close>

section \<open>Escaping\<close>

definition byteOf :: "char \<Rightarrow> nat" where "byteOf c = of_char c"

definition upperHex :: "nat \<Rightarrow> char" where
  "upperHex n = ''0123456789ABCDEF'' ! (n mod 16)"

definition unhex :: "char \<Rightarrow> nat option" where
  "unhex c = (let n = byteOf c in
     if 48 \<le> n \<and> n \<le> 57 then Some (n - 48)
     else if 97 \<le> n \<and> n \<le> 102 then Some (n - 87)
     else if 65 \<le> n \<and> n \<le> 70 then Some (n - 55)
     else None)"

text \<open>\<open>url.QueryEscape\<close>: letters, digits and \<open>-_.~\<close> are kept, a space becomes a plus sign.\<close>

definition unreserved :: "char \<Rightarrow> bool" where
  "unreserved c \<longleftrightarrow> (let n = byteOf c in
     48 \<le> n \<and> n \<le> 57 \<or> 65 \<le> n \<and> n \<le> 90 \<or> 97 \<le> n \<and> n \<le> 122 \<or> c \<in> set ''-_.~'')"

definition escapeByte :: "char \<Rightarrow> string" where
  "escapeByte c =
     (if unreserved c then [c]
      else if c = CHR '' '' then ''+''
      else [CHR ''%'', upperHex (byteOf c div 16), upperHex (byteOf c)])"

definition queryEscape :: "string \<Rightarrow> string" where
  "queryEscape s = concat (map escapeByte s)"

text \<open>
  \<open>unescape\<close> fails on a percent sign without two hexadecimal digits; in a query a plus sign is a space.
\<close>

fun unescape :: "bool \<Rightarrow> string \<Rightarrow> string option" where
  "unescape query [] = Some []"
| "unescape query (c # s) =
     (if c = CHR ''%''
      then (case s of
              a # b # rest \<Rightarrow>
                (case (unhex a, unhex b) of
                   (Some x, Some y) \<Rightarrow> map_option (\<lambda>t. char_of (16 * x + y) # t) (unescape query rest)
                 | _ \<Rightarrow> None)
            | _ \<Rightarrow> None)
      else map_option (\<lambda>t. (if query \<and> c = CHR ''+'' then CHR '' '' else c) # t) (unescape query s))"

text \<open>\<open>strings.Cut\<close>: without the separator everything is before it.\<close>

definition strCut :: "char \<Rightarrow> string \<Rightarrow> string \<times> string" where
  "strCut c s = (case cut c s of None \<Rightarrow> (s, []) | Some p \<Rightarrow> p)"

text \<open>
  \<open>URL.Query\<close>: the pairs of the query in order. A part that is empty, has a semicolon or does not
  unescape is left out.
\<close>

definition queryPair :: "string \<Rightarrow> (string \<times> string) option" where
  "queryPair part =
     (if part = [] \<or> CHR '';'' \<in> set part then None
      else (case (unescape True (fst (strCut CHR ''='' part)), unescape True (snd (strCut CHR ''='' part))) of
              (Some k, Some v) \<Rightarrow> Some (k, v)
            | _ \<Rightarrow> None))"

definition parseQuery :: "string \<Rightarrow> (string \<times> string) list" where
  "parseQuery q = List.map_filter queryPair (splitAll CHR ''&'' q)"

text \<open>\<open>Values.Get\<close>: the first value of the key, or the empty string.\<close>

definition queryGet :: "string \<Rightarrow> string \<Rightarrow> string" where
  "queryGet q key = (case map_of (parseQuery q) key of None \<Rightarrow> [] | Some v \<Rightarrow> v)"

section \<open>URLs\<close>

text \<open>A URL with a scheme and no slash after it is opaque; \<open>u_Host\<close> is the authority as written.\<close>

record URL =
  u_Scheme :: string
  u_Opaque :: string
  u_Host :: string
  u_Path :: string
  u_RawQuery :: string

definition isLetter :: "char \<Rightarrow> bool" where
  "isLetter c \<longleftrightarrow> (let n = byteOf c in 65 \<le> n \<and> n \<le> 90 \<or> 97 \<le> n \<and> n \<le> 122)"

definition isSchemeByte :: "char \<Rightarrow> bool" where
  "isSchemeByte c \<longleftrightarrow> isLetter c \<or> (let n = byteOf c in 48 \<le> n \<and> n \<le> 57) \<or> c \<in> set ''+-.''"

definition isCTL :: "char \<Rightarrow> bool" where
  "isCTL c \<longleftrightarrow> (let n = byteOf c in n < 32 \<or> n = 127)"

text \<open>\<open>getScheme\<close>: the scheme and the rest; no scheme is the empty one, \<open>None\<close> an error.\<close>

definition getScheme :: "string \<Rightarrow> (string \<times> string) option" where
  "getScheme s =
     (let sch = takeWhile isSchemeByte s; rest = dropWhile isSchemeByte s
      in if sch \<noteq> [] \<and> \<not> isLetter (hd sch) then Some ([], s)
         else (case rest of
                 [] \<Rightarrow> Some ([], s)
               | c # rest' \<Rightarrow> if c \<noteq> CHR '':'' then Some ([], s) else if sch = [] then None else Some (sch, rest')))"

text \<open>
  \<open>url.Parse\<close>; \<open>None\<close> is an error. Whether an authority is well-formed is the argument \<open>hostOk\<close>.
\<close>

definition parseURL :: "(string \<Rightarrow> bool) \<Rightarrow> string \<Rightarrow> URL option" where
  "parseURL hostOk raw =
     (let (u, frag) = strCut CHR ''#'' raw
      in if list_ex isCTL u \<or> unescape False frag = None then None
         else (case getScheme u of
             None \<Rightarrow> None
           | Some (sch, rest) \<Rightarrow>
               let scheme = map lowerChar sch;
                   (path, query) = strCut CHR ''?'' rest
               in if \<not> hasPrefix path ''/''
                  then if scheme \<noteq> []
                       then Some \<lparr>u_Scheme = scheme, u_Opaque = path, u_Host = [], u_Path = [], u_RawQuery = query\<rparr>
                       else if CHR '':'' \<in> set (fst (strCut CHR ''/'' path)) then None
                       else map_option (\<lambda>p. \<lparr>u_Scheme = [], u_Opaque = [], u_Host = [], u_Path = p, u_RawQuery = query\<rparr>)
                              (unescape False path)
                  else
                    let authority = hasPrefix path ''//'' \<and> (scheme \<noteq> [] \<or> \<not> hasPrefix path ''///'');
                        host = (if authority then takeWhile (\<lambda>c. c \<noteq> CHR ''/'') (drop 2 path) else []);
                        path' = (if authority then dropWhile (\<lambda>c. c \<noteq> CHR ''/'') (drop 2 path) else path)
                    in if authority \<and> \<not> hostOk host then None
                       else map_option (\<lambda>p. \<lparr>u_Scheme = scheme, u_Opaque = [], u_Host = host, u_Path = p, u_RawQuery = query\<rparr>)
                              (unescape False path')))"

section \<open>Requests\<close>

text \<open>
  \<open>http.Client\<close> sends a request only for the two schemes and to a host. The server reads the request
  line up to its second space: a query with a space in it is a malformed request.
\<close>

definition sendable :: "URL \<Rightarrow> bool" where
  "sendable u \<longleftrightarrow> u_Scheme u \<in> {''http'', ''https''} \<and> u_Host u \<noteq> []"

definition received :: "string \<Rightarrow> URL \<Rightarrow> http_header \<Rightarrow> string \<Rightarrow> HttpRequest option" where
  "received meth u header body =
     (if CHR '' '' \<in> set (u_RawQuery u) then None
      else Some \<lparr>hq_Method = meth, hq_Path = (if u_Path u = [] then ''/'' else u_Path u), hq_RawQuery = u_RawQuery u,
                 hq_Header = header, hq_Body = body\<rparr>)"

text \<open>The responses of \<open>http.Error\<close> and of a handler that writes JSON.\<close>

definition errorResponse :: "int \<Rightarrow> string \<Rightarrow> HttpResponse" where
  "errorResponse code msg =
     \<lparr>rs_StatusCode = code,
      rs_Header = [''Content-Type'' \<mapsto> [''text/plain; charset=utf-8''], ''X-Content-Type-Options'' \<mapsto> [''nosniff'']],
      rs_Body = msg @ [char_of (10 :: nat)]\<rparr>"

definition jsonResponse :: "string \<Rightarrow> HttpResponse" where
  "jsonResponse body =
     \<lparr>rs_StatusCode = StatusOK, rs_Header = [''Content-Type'' \<mapsto> [''application/json'']], rs_Body = body\<rparr>"

definition StatusMethodNotAllowed :: int where "StatusMethodNotAllowed = 405"

section \<open>Escaped values\<close>

text \<open>An encoding of values as strings, and its decoder.\<close>

locale codec =
  fixes enc :: "'a \<Rightarrow> string" and dec :: "string \<Rightarrow> 'a option"
  assumes dec_enc: "dec (enc x) = Some x"
begin

lemma enc_inj: "enc x = enc y \<Longrightarrow> x = y"
  by (metis dec_enc option.inject)

lemma dec_determined: "enc x = s \<Longrightarrow> dec s = Some y \<Longrightarrow> y = x"
  using dec_enc by auto

end

lemma byteOf_less [simp]: "byteOf c < 256"
  by (simp add: byteOf_def)

lemma char_of_byteOf [simp]: "char_of (byteOf c) = c"
  by (simp add: byteOf_def)

lemma all_nibbles: "(\<forall>n<16. P n) = list_all P [0..<16]" for P :: "nat \<Rightarrow> bool"
  by (auto simp: list_all_iff)

lemma unhex_upperHex: "n < 16 \<Longrightarrow> unhex (upperHex n) = Some n"
proof -
  have "\<forall>n<16. unhex (upperHex n) = Some n" unfolding all_nibbles by code_simp
  then show "n < 16 \<Longrightarrow> unhex (upperHex n) = Some n" by blast
qed

lemma upperHex_mod: "upperHex n = upperHex (n mod 16)"
  by (simp add: upperHex_def)

lemma unreserved_not: "unreserved c \<Longrightarrow> c \<noteq> CHR ''%'' \<and> c \<noteq> CHR ''+''"
  by (auto simp: unreserved_def byteOf_def Let_def)

lemma unescape_escapeByte:
  "unescape True (escapeByte c @ s) = map_option ((#) c) (unescape True s)"
proof -
  have "unhex (upperHex (byteOf c div 16)) = Some (byteOf c div 16)"
    by (rule unhex_upperHex) (use byteOf_less [of c] in linarith)
  moreover have "unhex (upperHex (byteOf c)) = Some (byteOf c mod 16)"
    by (subst upperHex_mod) (simp add: unhex_upperHex)
  moreover have "16 * (byteOf c div 16) + byteOf c mod 16 = byteOf c" by simp
  ultimately show ?thesis using unreserved_not [of c] by (auto simp: escapeByte_def)
qed

lemma unescape_queryEscape: "unescape True (queryEscape s) = Some s"
  by (induction s) (simp_all add: queryEscape_def unescape_escapeByte)

interpretation escaping: codec queryEscape "unescape True"
  by unfold_locales (rule unescape_queryEscape)

text \<open>The characters of an escaped string, and texts that unescaping leaves alone.\<close>

lemma upperHex_unreserved: "unreserved (upperHex n)"
proof -
  have "\<forall>n<16. unreserved (upperHex n)" unfolding all_nibbles by code_simp
  then show ?thesis by (subst upperHex_mod) simp
qed

lemma set_queryEscape: "x \<in> set (queryEscape s) \<Longrightarrow> unreserved x \<or> x = CHR ''%'' \<or> x = CHR ''+''"
  by (auto simp: queryEscape_def escapeByte_def upperHex_unreserved split: if_splits)

lemma unescape_plain: "CHR ''%'' \<notin> set s \<Longrightarrow> \<not> q \<or> CHR ''+'' \<notin> set s \<Longrightarrow> unescape q s = Some s"
  by (induction s) auto

section \<open>URLs without escapes\<close>

lemma strCut_here: "c \<notin> set a \<Longrightarrow> strCut c (a @ c # b) = (a, b)"
  by (simp add: strCut_def)

lemma strCut_none: "c \<notin> set a \<Longrightarrow> strCut c a = (a, [])"
  unfolding strCut_def by (subst cut_None_iff [THEN iffD2]) simp_all

text \<open>An authority, and a path that the parser leaves as it is.\<close>

definition plainByte :: "char \<Rightarrow> bool" where
  "plainByte c \<longleftrightarrow> \<not> isCTL c \<and> c \<notin> set ''#?%''"

definition plainPath :: "string \<Rightarrow> bool" where
  "plainPath p \<longleftrightarrow> hasPrefix p ''/'' \<and> list_all plainByte p"

definition hostURL_ok :: "(string \<Rightarrow> bool) \<Rightarrow> string \<Rightarrow> bool" where
  "hostURL_ok hostOk url \<longleftrightarrow> (\<exists>a. url = ''http://'' @ a \<and> a \<noteq> [] \<and> CHR ''/'' \<notin> set a \<and> list_all plainByte a \<and> hostOk a)"

definition authorityOf :: "string \<Rightarrow> string" where
  "authorityOf url = trimPrefix url ''http://''"

lemma takeWhile_authority:
  assumes "c \<notin> set a" and "hasPrefix p [c]"
  shows "takeWhile (\<lambda>x. x \<noteq> c) (a @ p) = a" "dropWhile (\<lambda>x. x \<noteq> c) (a @ p) = p"
proof -
  have "\<forall>x\<in>set a. x \<noteq> c" using assms(1) by blast
  then show "takeWhile (\<lambda>x. x \<noteq> c) (a @ p) = a" "dropWhile (\<lambda>x. x \<noteq> c) (a @ p) = p"
    using assms(2) by (auto simp: hasPrefix_iff takeWhile_append2 dropWhile_append2)
qed

lemma getScheme_http: "getScheme (''http:'' @ s) = Some (''http'', s)"
proof -
  have "isSchemeByte CHR ''h''" "isSchemeByte CHR ''t''" "isSchemeByte CHR ''p''" "\<not> isSchemeByte CHR '':''" "isLetter CHR ''h''"
    by code_simp+
  then show ?thesis by (simp add: getScheme_def)
qed

lemma plainByteD: "plainByte c \<Longrightarrow> \<not> isCTL c \<and> c \<noteq> CHR ''#'' \<and> c \<noteq> CHR ''?'' \<and> c \<noteq> CHR ''%''"
  by (simp add: plainByte_def)

lemma list_plain:
  assumes "list_all plainByte s"
  shows "\<not> list_ex isCTL s" "CHR ''#'' \<notin> set s" "CHR ''?'' \<notin> set s" "CHR ''%'' \<notin> set s"
  using assms by (auto simp: list_all_iff list_ex_iff dest: plainByteD)

lemma parse_http:
  assumes host: "hostURL_ok hostOk url" and path: "plainPath p"
    and query: "\<not> list_ex isCTL q" "CHR ''#'' \<notin> set q" and frag: "unescape False f \<noteq> None"
    and tail: "t = [] \<and> f = [] \<or> t = CHR ''#'' # f"
  shows "parseURL hostOk (url @ p @ CHR ''?'' # q @ t) =
    Some \<lparr>u_Scheme = ''http'', u_Opaque = [], u_Host = authorityOf url, u_Path = p, u_RawQuery = q\<rparr>"
proof -
  obtain a where a: "url = ''http://'' @ a" "a \<noteq> []" "CHR ''/'' \<notin> set a" "list_all plainByte a" "hostOk a"
    using host by (auto simp: hostURL_ok_def)
  have p: "hasPrefix p ''/''" "list_all plainByte p" using path by (simp_all add: plainPath_def)
  let ?u = "''http:'' @ ''//'' @ a @ p @ CHR ''?'' # q"
  have ctl: "\<not> isCTL CHR ''h''" "\<not> isCTL CHR ''t''" "\<not> isCTL CHR ''p''" "\<not> isCTL CHR '':''" "\<not> isCTL CHR ''/''" "\<not> isCTL CHR ''?''"
    by code_simp+
  have "strCut CHR ''#'' (?u @ t) = (?u, f)"
    using tail list_plain(2) [OF a(4)] list_plain(2) [OF p(2)] query(2)
    by (auto simp: strCut_none intro!: strCut_here [where a = ?u, simplified] strCut_none [where a = ?u, simplified])
  then have cut: "strCut CHR ''#'' (url @ p @ CHR ''?'' # q @ t) = (?u, f)" by (simp add: a(1))
  have noctl: "\<not> list_ex isCTL ?u"
    using list_plain(1) [OF a(4)] list_plain(1) [OF p(2)] query(1) ctl by simp
  have q: "strCut CHR ''?'' (''//'' @ a @ p @ CHR ''?'' # q) = (''//'' @ a @ p, q)"
    using strCut_here [of "CHR ''?''" "''//'' @ a @ p" q] list_plain(3) [OF a(4)] list_plain(3) [OF p(2)] by simp
  have scheme: "map lowerChar ''http'' = ''http''" by code_simp
  have "unescape False p = Some p" using list_plain(4) [OF p(2)] by (simp add: unescape_plain)
  moreover have "authorityOf url = a" unfolding a(1) authorityOf_def by (rule trimPrefix_append)
  moreover have "hasPrefix (''//'' @ a @ p) ''/''" "hasPrefix (''//'' @ a @ p) ''//''" by simp_all
  moreover have "drop 2 (''//'' @ a @ p) = a @ p" by simp
  ultimately show ?thesis
    using cut noctl frag a(5) takeWhile_authority [OF a(3) p(1)]
    unfolding parseURL_def cut Let_def prod.case getScheme_http option.case q scheme by simp
qed

lemma parse_http_query:
  assumes "hostURL_ok hostOk url" and "plainPath p" and "\<not> list_ex isCTL q" "CHR ''#'' \<notin> set q"
  shows "parseURL hostOk (url @ p @ CHR ''?'' # q) =
    Some \<lparr>u_Scheme = ''http'', u_Opaque = [], u_Host = authorityOf url, u_Path = p, u_RawQuery = q\<rparr>"
  using parse_http [OF assms, of "[]" "[]"] by simp

lemma plainPath_append: "plainPath p \<Longrightarrow> list_all plainByte s \<Longrightarrow> plainPath (p @ s)"
  by (auto simp: plainPath_def hasPrefix_iff)

text \<open>Without a query or a fragment.\<close>

lemma parse_http_plain:
  assumes host: "hostURL_ok hostOk url" and path: "plainPath p"
  shows "parseURL hostOk (url @ p) =
    Some \<lparr>u_Scheme = ''http'', u_Opaque = [], u_Host = authorityOf url, u_Path = p, u_RawQuery = []\<rparr>"
proof -
  obtain a where a: "url = ''http://'' @ a" "a \<noteq> []" "CHR ''/'' \<notin> set a" "list_all plainByte a" "hostOk a"
    using host by (auto simp: hostURL_ok_def)
  have p: "hasPrefix p ''/''" "list_all plainByte p" using path by (simp_all add: plainPath_def)
  let ?u = "''http:'' @ ''//'' @ a @ p"
  have ctl: "\<not> isCTL CHR ''h''" "\<not> isCTL CHR ''t''" "\<not> isCTL CHR ''p''" "\<not> isCTL CHR '':''" "\<not> isCTL CHR ''/''"
    by code_simp+
  have cut: "strCut CHR ''#'' (url @ p) = (?u, [])"
    using list_plain(2) [OF a(4)] list_plain(2) [OF p(2)] by (subst strCut_none) (auto simp: a(1))
  have noctl: "\<not> list_ex isCTL ?u"
    using list_plain(1) [OF a(4)] list_plain(1) [OF p(2)] ctl by simp
  have q: "strCut CHR ''?'' (''//'' @ a @ p) = (''//'' @ a @ p, [])"
    using list_plain(3) [OF a(4)] list_plain(3) [OF p(2)] by (subst strCut_none) auto
  have scheme: "map lowerChar ''http'' = ''http''" by code_simp
  have "unescape False p = Some p" using list_plain(4) [OF p(2)] by (simp add: unescape_plain)
  moreover have "authorityOf url = a" unfolding a(1) authorityOf_def by (rule trimPrefix_append)
  moreover have "hasPrefix (''//'' @ a @ p) ''/''" "hasPrefix (''//'' @ a @ p) ''//''" by simp_all
  moreover have "drop 2 (''//'' @ a @ p) = a @ p" by simp
  ultimately show ?thesis
    using cut noctl a(5) takeWhile_authority [OF a(3) p(1)]
    unfolding parseURL_def cut Let_def prod.case getScheme_http option.case q scheme by simp
qed

end
