(* ===== verification/ConnectRPC.thy ===== *)
theory ConnectRPC
  imports NetURL Server
begin

text \<open>
  The generated RPC code: the files \<^verbatim>\<open>*.connect.go\<close> of \<^verbatim>\<open>gen/\<close> and \<^verbatim>\<open>examples/kv/gen/\<close>. Each service has a
  name, its procedures, a client (one \<open>connect.Client\<close> per method, made for the URL of its
  procedure), a handler (the path to mount it on, and a switch over \<open>r.URL.Path\<close> to the handler of the
  method, \<open>None\<close> for \<open>http.NotFound\<close>), and an implementation that refuses every call.

  The package connect itself is a parameter: \<open>connect.NewUnaryHandler\<close> and
  \<open>connect.NewServerStreamHandler\<close> are arguments of the constructors of the handlers, one for the type of each
  method; \<open>CallUnary\<close> and \<open>CallServerStream\<close> are arguments of the methods of the clients. Of a
  \<open>connect.Client\<close> only what it was made from matters. The interface between a client and a handler of the
  same service is the locale \<open>rpc_service\<close>.
\<close>

section \<open>Clients of the package connect\<close>

record 'c ConnectClient =
  cc_HTTPClient :: 'c
  cc_URL :: string

definition connectClient :: "'c \<Rightarrow> string \<Rightarrow> 'c ConnectClient" where
  "connectClient httpClient url = \<lparr>cc_HTTPClient = httpClient, cc_URL = url\<rparr>"

lemma connectClient_sel [simp]:
  "cc_HTTPClient (connectClient httpClient url) = httpClient" "cc_URL (connectClient httpClient url) = url"
  by (simp_all add: connectClient_def)

section \<open>HandshakeService, \<^verbatim>\<open>handshake.connect.go\<close>\<close>

definition HandshakeServiceName :: string where "HandshakeServiceName = ''connectplugin.v1.HandshakeService''"

definition HandshakeServiceHandshakeProcedure :: string where
  "HandshakeServiceHandshakeProcedure = ''/connectplugin.v1.HandshakeService/Handshake''"

record 'c HandshakeServiceClient =
  HandshakeServiceClient_handshake :: "'c ConnectClient"

definition NewHandshakeServiceClient :: "'c \<Rightarrow> string \<Rightarrow> 'c HandshakeServiceClient" where
  "NewHandshakeServiceClient httpClient baseURL =
     (let baseURL = trimRight CHR ''/'' baseURL
      in \<lparr>HandshakeServiceClient_handshake = connectClient httpClient (baseURL @ HandshakeServiceHandshakeProcedure)\<rparr>)"

definition HandshakeServiceClient_Handshake :: "('c ConnectClient \<Rightarrow> 'req \<Rightarrow> 'resp) \<Rightarrow> 'c HandshakeServiceClient \<Rightarrow> 'req \<Rightarrow> 'resp" where
  "HandshakeServiceClient_Handshake callUnary c req = callUnary (HandshakeServiceClient_handshake c) req"

record 'handshake HandshakeServiceHandler =
  HandshakeServiceHandler_Handshake :: 'handshake

definition NewHandshakeServiceHandler ::
    "(string \<Rightarrow> 'handshake \<Rightarrow> 'h) \<Rightarrow>
     'handshake HandshakeServiceHandler \<Rightarrow> string \<times> (string \<Rightarrow> 'h option)" where
  "NewHandshakeServiceHandler unaryHandshake svc =
     (let handshakeServiceHandshakeHandler = unaryHandshake HandshakeServiceHandshakeProcedure (HandshakeServiceHandler_Handshake svc)
      in (''/connectplugin.v1.HandshakeService/'',
          \<lambda>path. if path = HandshakeServiceHandshakeProcedure then Some handshakeServiceHandshakeHandler
            else None))"

definition UnimplementedHandshakeServiceHandler ::
    "('handshake_req \<Rightarrow> rpc_error + 'handshake_resp) HandshakeServiceHandler" where
  "UnimplementedHandshakeServiceHandler =
     \<lparr>HandshakeServiceHandler_Handshake = (\<lambda>_. Inl (ConnectError CodeUnimplemented ''connectplugin.v1.HandshakeService.Handshake is not implemented''))\<rparr>"

section \<open>PluginLifecycle, \<^verbatim>\<open>lifecycle.connect.go\<close>\<close>

definition PluginLifecycleName :: string where "PluginLifecycleName = ''connectplugin.v1.PluginLifecycle''"

definition PluginLifecycleReportHealthProcedure :: string where
  "PluginLifecycleReportHealthProcedure = ''/connectplugin.v1.PluginLifecycle/ReportHealth''"

record 'c PluginLifecycleClient =
  PluginLifecycleClient_reportHealth :: "'c ConnectClient"

definition NewPluginLifecycleClient :: "'c \<Rightarrow> string \<Rightarrow> 'c PluginLifecycleClient" where
  "NewPluginLifecycleClient httpClient baseURL =
     (let baseURL = trimRight CHR ''/'' baseURL
      in \<lparr>PluginLifecycleClient_reportHealth = connectClient httpClient (baseURL @ PluginLifecycleReportHealthProcedure)\<rparr>)"

definition PluginLifecycleClient_ReportHealth :: "('c ConnectClient \<Rightarrow> 'req \<Rightarrow> 'resp) \<Rightarrow> 'c PluginLifecycleClient \<Rightarrow> 'req \<Rightarrow> 'resp" where
  "PluginLifecycleClient_ReportHealth callUnary c req = callUnary (PluginLifecycleClient_reportHealth c) req"

record 'reportHealth PluginLifecycleHandler =
  PluginLifecycleHandler_ReportHealth :: 'reportHealth

definition NewPluginLifecycleHandler ::
    "(string \<Rightarrow> 'reportHealth \<Rightarrow> 'h) \<Rightarrow>
     'reportHealth PluginLifecycleHandler \<Rightarrow> string \<times> (string \<Rightarrow> 'h option)" where
  "NewPluginLifecycleHandler unaryReportHealth svc =
     (let pluginLifecycleReportHealthHandler = unaryReportHealth PluginLifecycleReportHealthProcedure (PluginLifecycleHandler_ReportHealth svc)
      in (''/connectplugin.v1.PluginLifecycle/'',
          \<lambda>path. if path = PluginLifecycleReportHealthProcedure then Some pluginLifecycleReportHealthHandler
            else None))"

definition UnimplementedPluginLifecycleHandler ::
    "('reportHealth_req \<Rightarrow> rpc_error + 'reportHealth_resp) PluginLifecycleHandler" where
  "UnimplementedPluginLifecycleHandler =
     \<lparr>PluginLifecycleHandler_ReportHealth = (\<lambda>_. Inl (ConnectError CodeUnimplemented ''connectplugin.v1.PluginLifecycle.ReportHealth is not implemented''))\<rparr>"

section \<open>PluginControl, \<^verbatim>\<open>lifecycle.connect.go\<close>\<close>

definition PluginControlName :: string where "PluginControlName = ''connectplugin.v1.PluginControl''"

definition PluginControlGetHealthProcedure :: string where
  "PluginControlGetHealthProcedure = ''/connectplugin.v1.PluginControl/GetHealth''"

definition PluginControlShutdownProcedure :: string where
  "PluginControlShutdownProcedure = ''/connectplugin.v1.PluginControl/Shutdown''"

record 'c PluginControlClient =
  PluginControlClient_getHealth :: "'c ConnectClient"
  PluginControlClient_shutdown :: "'c ConnectClient"

definition NewPluginControlClient :: "'c \<Rightarrow> string \<Rightarrow> 'c PluginControlClient" where
  "NewPluginControlClient httpClient baseURL =
     (let baseURL = trimRight CHR ''/'' baseURL
      in \<lparr>PluginControlClient_getHealth = connectClient httpClient (baseURL @ PluginControlGetHealthProcedure),
          PluginControlClient_shutdown = connectClient httpClient (baseURL @ PluginControlShutdownProcedure)\<rparr>)"

definition PluginControlClient_GetHealth :: "('c ConnectClient \<Rightarrow> 'req \<Rightarrow> 'resp) \<Rightarrow> 'c PluginControlClient \<Rightarrow> 'req \<Rightarrow> 'resp" where
  "PluginControlClient_GetHealth callUnary c req = callUnary (PluginControlClient_getHealth c) req"

definition PluginControlClient_Shutdown :: "('c ConnectClient \<Rightarrow> 'req \<Rightarrow> 'resp) \<Rightarrow> 'c PluginControlClient \<Rightarrow> 'req \<Rightarrow> 'resp" where
  "PluginControlClient_Shutdown callUnary c req = callUnary (PluginControlClient_shutdown c) req"

record ('getHealth, 'shutdown) PluginControlHandler =
  PluginControlHandler_GetHealth :: 'getHealth
  PluginControlHandler_Shutdown :: 'shutdown

definition NewPluginControlHandler ::
    "(string \<Rightarrow> 'getHealth \<Rightarrow> 'h) \<Rightarrow>
     (string \<Rightarrow> 'shutdown \<Rightarrow> 'h) \<Rightarrow>
     ('getHealth, 'shutdown) PluginControlHandler \<Rightarrow> string \<times> (string \<Rightarrow> 'h option)" where
  "NewPluginControlHandler unaryGetHealth unaryShutdown svc =
     (let pluginControlGetHealthHandler = unaryGetHealth PluginControlGetHealthProcedure (PluginControlHandler_GetHealth svc);
          pluginControlShutdownHandler = unaryShutdown PluginControlShutdownProcedure (PluginControlHandler_Shutdown svc)
      in (''/connectplugin.v1.PluginControl/'',
          \<lambda>path. if path = PluginControlGetHealthProcedure then Some pluginControlGetHealthHandler
            else if path = PluginControlShutdownProcedure then Some pluginControlShutdownHandler
            else None))"

definition UnimplementedPluginControlHandler ::
    "('getHealth_req \<Rightarrow> rpc_error + 'getHealth_resp,
     'shutdown_req \<Rightarrow> rpc_error + 'shutdown_resp) PluginControlHandler" where
  "UnimplementedPluginControlHandler =
     \<lparr>PluginControlHandler_GetHealth = (\<lambda>_. Inl (ConnectError CodeUnimplemented ''connectplugin.v1.PluginControl.GetHealth is not implemented'')),
      PluginControlHandler_Shutdown = (\<lambda>_. Inl (ConnectError CodeUnimplemented ''connectplugin.v1.PluginControl.Shutdown is not implemented''))\<rparr>"

section \<open>ServiceRegistry, \<^verbatim>\<open>registry.connect.go\<close>\<close>

definition ServiceRegistryName :: string where "ServiceRegistryName = ''connectplugin.v1.ServiceRegistry''"

definition ServiceRegistryRegisterServiceProcedure :: string where
  "ServiceRegistryRegisterServiceProcedure = ''/connectplugin.v1.ServiceRegistry/RegisterService''"

definition ServiceRegistryUnregisterServiceProcedure :: string where
  "ServiceRegistryUnregisterServiceProcedure = ''/connectplugin.v1.ServiceRegistry/UnregisterService''"

definition ServiceRegistryDiscoverServiceProcedure :: string where
  "ServiceRegistryDiscoverServiceProcedure = ''/connectplugin.v1.ServiceRegistry/DiscoverService''"

definition ServiceRegistryWatchServiceProcedure :: string where
  "ServiceRegistryWatchServiceProcedure = ''/connectplugin.v1.ServiceRegistry/WatchService''"

record 'c ServiceRegistryClient =
  ServiceRegistryClient_registerService :: "'c ConnectClient"
  ServiceRegistryClient_unregisterService :: "'c ConnectClient"
  ServiceRegistryClient_discoverService :: "'c ConnectClient"
  ServiceRegistryClient_watchService :: "'c ConnectClient"

definition NewServiceRegistryClient :: "'c \<Rightarrow> string \<Rightarrow> 'c ServiceRegistryClient" where
  "NewServiceRegistryClient httpClient baseURL =
     (let baseURL = trimRight CHR ''/'' baseURL
      in \<lparr>ServiceRegistryClient_registerService = connectClient httpClient (baseURL @ ServiceRegistryRegisterServiceProcedure),
          ServiceRegistryClient_unregisterService = connectClient httpClient (baseURL @ ServiceRegistryUnregisterServiceProcedure),
          ServiceRegistryClient_discoverService = connectClient httpClient (baseURL @ ServiceRegistryDiscoverServiceProcedure),
          ServiceRegistryClient_watchService = connectClient httpClient (baseURL @ ServiceRegistryWatchServiceProcedure)\<rparr>)"

definition ServiceRegistryClient_RegisterService :: "('c ConnectClient \<Rightarrow> 'req \<Rightarrow> 'resp) \<Rightarrow> 'c ServiceRegistryClient \<Rightarrow> 'req \<Rightarrow> 'resp" where
  "ServiceRegistryClient_RegisterService callUnary c req = callUnary (ServiceRegistryClient_registerService c) req"

definition ServiceRegistryClient_UnregisterService :: "('c ConnectClient \<Rightarrow> 'req \<Rightarrow> 'resp) \<Rightarrow> 'c ServiceRegistryClient \<Rightarrow> 'req \<Rightarrow> 'resp" where
  "ServiceRegistryClient_UnregisterService callUnary c req = callUnary (ServiceRegistryClient_unregisterService c) req"

definition ServiceRegistryClient_DiscoverService :: "('c ConnectClient \<Rightarrow> 'req \<Rightarrow> 'resp) \<Rightarrow> 'c ServiceRegistryClient \<Rightarrow> 'req \<Rightarrow> 'resp" where
  "ServiceRegistryClient_DiscoverService callUnary c req = callUnary (ServiceRegistryClient_discoverService c) req"

definition ServiceRegistryClient_WatchService :: "('c ConnectClient \<Rightarrow> 'req \<Rightarrow> 'resp) \<Rightarrow> 'c ServiceRegistryClient \<Rightarrow> 'req \<Rightarrow> 'resp" where
  "ServiceRegistryClient_WatchService callServerStream c req = callServerStream (ServiceRegistryClient_watchService c) req"

record ('registerService, 'unregisterService, 'discoverService, 'watchService) ServiceRegistryHandler =
  ServiceRegistryHandler_RegisterService :: 'registerService
  ServiceRegistryHandler_UnregisterService :: 'unregisterService
  ServiceRegistryHandler_DiscoverService :: 'discoverService
  ServiceRegistryHandler_WatchService :: 'watchService

definition NewServiceRegistryHandler ::
    "(string \<Rightarrow> 'registerService \<Rightarrow> 'h) \<Rightarrow>
     (string \<Rightarrow> 'unregisterService \<Rightarrow> 'h) \<Rightarrow>
     (string \<Rightarrow> 'discoverService \<Rightarrow> 'h) \<Rightarrow>
     (string \<Rightarrow> 'watchService \<Rightarrow> 'h) \<Rightarrow>
     ('registerService, 'unregisterService, 'discoverService, 'watchService) ServiceRegistryHandler \<Rightarrow> string \<times> (string \<Rightarrow> 'h option)" where
  "NewServiceRegistryHandler unaryRegisterService unaryUnregisterService unaryDiscoverService serverStreamWatchService svc =
     (let serviceRegistryRegisterServiceHandler = unaryRegisterService ServiceRegistryRegisterServiceProcedure (ServiceRegistryHandler_RegisterService svc);
          serviceRegistryUnregisterServiceHandler = unaryUnregisterService ServiceRegistryUnregisterServiceProcedure (ServiceRegistryHandler_UnregisterService svc);
          serviceRegistryDiscoverServiceHandler = unaryDiscoverService ServiceRegistryDiscoverServiceProcedure (ServiceRegistryHandler_DiscoverService svc);
          serviceRegistryWatchServiceHandler = serverStreamWatchService ServiceRegistryWatchServiceProcedure (ServiceRegistryHandler_WatchService svc)
      in (''/connectplugin.v1.ServiceRegistry/'',
          \<lambda>path. if path = ServiceRegistryRegisterServiceProcedure then Some serviceRegistryRegisterServiceHandler
            else if path = ServiceRegistryUnregisterServiceProcedure then Some serviceRegistryUnregisterServiceHandler
            else if path = ServiceRegistryDiscoverServiceProcedure then Some serviceRegistryDiscoverServiceHandler
            else if path = ServiceRegistryWatchServiceProcedure then Some serviceRegistryWatchServiceHandler
            else None))"

definition UnimplementedServiceRegistryHandler ::
    "('registerService_req \<Rightarrow> rpc_error + 'registerService_resp,
     'unregisterService_req \<Rightarrow> rpc_error + 'unregisterService_resp,
     'discoverService_req \<Rightarrow> rpc_error + 'discoverService_resp,
     'watchService_req \<Rightarrow> rpc_error option) ServiceRegistryHandler" where
  "UnimplementedServiceRegistryHandler =
     \<lparr>ServiceRegistryHandler_RegisterService = (\<lambda>_. Inl (ConnectError CodeUnimplemented ''connectplugin.v1.ServiceRegistry.RegisterService is not implemented'')),
      ServiceRegistryHandler_UnregisterService = (\<lambda>_. Inl (ConnectError CodeUnimplemented ''connectplugin.v1.ServiceRegistry.UnregisterService is not implemented'')),
      ServiceRegistryHandler_DiscoverService = (\<lambda>_. Inl (ConnectError CodeUnimplemented ''connectplugin.v1.ServiceRegistry.DiscoverService is not implemented'')),
      ServiceRegistryHandler_WatchService = (\<lambda>_. Some (ConnectError CodeUnimplemented ''connectplugin.v1.ServiceRegistry.WatchService is not implemented''))\<rparr>"

section \<open>CapabilityBroker, \<^verbatim>\<open>broker.connect.go\<close>\<close>

definition CapabilityBrokerName :: string where "CapabilityBrokerName = ''connectplugin.v1.CapabilityBroker''"

definition CapabilityBrokerRequestCapabilityProcedure :: string where
  "CapabilityBrokerRequestCapabilityProcedure = ''/connectplugin.v1.CapabilityBroker/RequestCapability''"

record 'c CapabilityBrokerClient =
  CapabilityBrokerClient_requestCapability :: "'c ConnectClient"

definition NewCapabilityBrokerClient :: "'c \<Rightarrow> string \<Rightarrow> 'c CapabilityBrokerClient" where
  "NewCapabilityBrokerClient httpClient baseURL =
     (let baseURL = trimRight CHR ''/'' baseURL
      in \<lparr>CapabilityBrokerClient_requestCapability = connectClient httpClient (baseURL @ CapabilityBrokerRequestCapabilityProcedure)\<rparr>)"

definition CapabilityBrokerClient_RequestCapability :: "('c ConnectClient \<Rightarrow> 'req \<Rightarrow> 'resp) \<Rightarrow> 'c CapabilityBrokerClient \<Rightarrow> 'req \<Rightarrow> 'resp" where
  "CapabilityBrokerClient_RequestCapability callUnary c req = callUnary (CapabilityBrokerClient_requestCapability c) req"

record 'requestCapability CapabilityBrokerHandler =
  CapabilityBrokerHandler_RequestCapability :: 'requestCapability

definition NewCapabilityBrokerHandler ::
    "(string \<Rightarrow> 'requestCapability \<Rightarrow> 'h) \<Rightarrow>
     'requestCapability CapabilityBrokerHandler \<Rightarrow> string \<times> (string \<Rightarrow> 'h option)" where
  "NewCapabilityBrokerHandler unaryRequestCapability svc =
     (let capabilityBrokerRequestCapabilityHandler = unaryRequestCapability CapabilityBrokerRequestCapabilityProcedure (CapabilityBrokerHandler_RequestCapability svc)
      in (''/connectplugin.v1.CapabilityBroker/'',
          \<lambda>path. if path = CapabilityBrokerRequestCapabilityProcedure then Some capabilityBrokerRequestCapabilityHandler
            else None))"

definition UnimplementedCapabilityBrokerHandler ::
    "('requestCapability_req \<Rightarrow> rpc_error + 'requestCapability_resp) CapabilityBrokerHandler" where
  "UnimplementedCapabilityBrokerHandler =
     \<lparr>CapabilityBrokerHandler_RequestCapability = (\<lambda>_. Inl (ConnectError CodeUnimplemented ''connectplugin.v1.CapabilityBroker.RequestCapability is not implemented''))\<rparr>"

section \<open>HealthService, \<^verbatim>\<open>health.connect.go\<close>\<close>

definition HealthServiceName :: string where "HealthServiceName = ''connectplugin.health.v1.HealthService''"

definition HealthServiceCheckProcedure :: string where
  "HealthServiceCheckProcedure = ''/connectplugin.health.v1.HealthService/Check''"

definition HealthServiceWatchProcedure :: string where
  "HealthServiceWatchProcedure = ''/connectplugin.health.v1.HealthService/Watch''"

record 'c HealthServiceClient =
  HealthServiceClient_check :: "'c ConnectClient"
  HealthServiceClient_watch :: "'c ConnectClient"

definition NewHealthServiceClient :: "'c \<Rightarrow> string \<Rightarrow> 'c HealthServiceClient" where
  "NewHealthServiceClient httpClient baseURL =
     (let baseURL = trimRight CHR ''/'' baseURL
      in \<lparr>HealthServiceClient_check = connectClient httpClient (baseURL @ HealthServiceCheckProcedure),
          HealthServiceClient_watch = connectClient httpClient (baseURL @ HealthServiceWatchProcedure)\<rparr>)"

definition HealthServiceClient_Check :: "('c ConnectClient \<Rightarrow> 'req \<Rightarrow> 'resp) \<Rightarrow> 'c HealthServiceClient \<Rightarrow> 'req \<Rightarrow> 'resp" where
  "HealthServiceClient_Check callUnary c req = callUnary (HealthServiceClient_check c) req"

definition HealthServiceClient_Watch :: "('c ConnectClient \<Rightarrow> 'req \<Rightarrow> 'resp) \<Rightarrow> 'c HealthServiceClient \<Rightarrow> 'req \<Rightarrow> 'resp" where
  "HealthServiceClient_Watch callServerStream c req = callServerStream (HealthServiceClient_watch c) req"

record ('check, 'watch) HealthServiceHandler =
  HealthServiceHandler_Check :: 'check
  HealthServiceHandler_Watch :: 'watch

definition NewHealthServiceHandler ::
    "(string \<Rightarrow> 'check \<Rightarrow> 'h) \<Rightarrow>
     (string \<Rightarrow> 'watch \<Rightarrow> 'h) \<Rightarrow>
     ('check, 'watch) HealthServiceHandler \<Rightarrow> string \<times> (string \<Rightarrow> 'h option)" where
  "NewHealthServiceHandler unaryCheck serverStreamWatch svc =
     (let healthServiceCheckHandler = unaryCheck HealthServiceCheckProcedure (HealthServiceHandler_Check svc);
          healthServiceWatchHandler = serverStreamWatch HealthServiceWatchProcedure (HealthServiceHandler_Watch svc)
      in (''/connectplugin.health.v1.HealthService/'',
          \<lambda>path. if path = HealthServiceCheckProcedure then Some healthServiceCheckHandler
            else if path = HealthServiceWatchProcedure then Some healthServiceWatchHandler
            else None))"

definition UnimplementedHealthServiceHandler ::
    "('check_req \<Rightarrow> rpc_error + 'check_resp,
     'watch_req \<Rightarrow> rpc_error option) HealthServiceHandler" where
  "UnimplementedHealthServiceHandler =
     \<lparr>HealthServiceHandler_Check = (\<lambda>_. Inl (ConnectError CodeUnimplemented ''connectplugin.health.v1.HealthService.Check is not implemented'')),
      HealthServiceHandler_Watch = (\<lambda>_. Some (ConnectError CodeUnimplemented ''connectplugin.health.v1.HealthService.Watch is not implemented''))\<rparr>"

section \<open>PluginIdentity, \<^verbatim>\<open>plugininfo.connect.go\<close>\<close>

definition PluginIdentityName :: string where "PluginIdentityName = ''connectplugin.v1.PluginIdentity''"

definition PluginIdentityGetPluginInfoProcedure :: string where
  "PluginIdentityGetPluginInfoProcedure = ''/connectplugin.v1.PluginIdentity/GetPluginInfo''"

definition PluginIdentitySetRuntimeIdentityProcedure :: string where
  "PluginIdentitySetRuntimeIdentityProcedure = ''/connectplugin.v1.PluginIdentity/SetRuntimeIdentity''"

record 'c PluginIdentityClient =
  PluginIdentityClient_getPluginInfo :: "'c ConnectClient"
  PluginIdentityClient_setRuntimeIdentity :: "'c ConnectClient"

definition NewPluginIdentityClient :: "'c \<Rightarrow> string \<Rightarrow> 'c PluginIdentityClient" where
  "NewPluginIdentityClient httpClient baseURL =
     (let baseURL = trimRight CHR ''/'' baseURL
      in \<lparr>PluginIdentityClient_getPluginInfo = connectClient httpClient (baseURL @ PluginIdentityGetPluginInfoProcedure),
          PluginIdentityClient_setRuntimeIdentity = connectClient httpClient (baseURL @ PluginIdentitySetRuntimeIdentityProcedure)\<rparr>)"

definition PluginIdentityClient_GetPluginInfo :: "('c ConnectClient \<Rightarrow> 'req \<Rightarrow> 'resp) \<Rightarrow> 'c PluginIdentityClient \<Rightarrow> 'req \<Rightarrow> 'resp" where
  "PluginIdentityClient_GetPluginInfo callUnary c req = callUnary (PluginIdentityClient_getPluginInfo c) req"

definition PluginIdentityClient_SetRuntimeIdentity :: "('c ConnectClient \<Rightarrow> 'req \<Rightarrow> 'resp) \<Rightarrow> 'c PluginIdentityClient \<Rightarrow> 'req \<Rightarrow> 'resp" where
  "PluginIdentityClient_SetRuntimeIdentity callUnary c req = callUnary (PluginIdentityClient_setRuntimeIdentity c) req"

record ('getPluginInfo, 'setRuntimeIdentity) PluginIdentityHandler =
  PluginIdentityHandler_GetPluginInfo :: 'getPluginInfo
  PluginIdentityHandler_SetRuntimeIdentity :: 'setRuntimeIdentity

definition NewPluginIdentityHandler ::
    "(string \<Rightarrow> 'getPluginInfo \<Rightarrow> 'h) \<Rightarrow>
     (string \<Rightarrow> 'setRuntimeIdentity \<Rightarrow> 'h) \<Rightarrow>
     ('getPluginInfo, 'setRuntimeIdentity) PluginIdentityHandler \<Rightarrow> string \<times> (string \<Rightarrow> 'h option)" where
  "NewPluginIdentityHandler unaryGetPluginInfo unarySetRuntimeIdentity svc =
     (let pluginIdentityGetPluginInfoHandler = unaryGetPluginInfo PluginIdentityGetPluginInfoProcedure (PluginIdentityHandler_GetPluginInfo svc);
          pluginIdentitySetRuntimeIdentityHandler = unarySetRuntimeIdentity PluginIdentitySetRuntimeIdentityProcedure (PluginIdentityHandler_SetRuntimeIdentity svc)
      in (''/connectplugin.v1.PluginIdentity/'',
          \<lambda>path. if path = PluginIdentityGetPluginInfoProcedure then Some pluginIdentityGetPluginInfoHandler
            else if path = PluginIdentitySetRuntimeIdentityProcedure then Some pluginIdentitySetRuntimeIdentityHandler
            else None))"

definition UnimplementedPluginIdentityHandler ::
    "('getPluginInfo_req \<Rightarrow> rpc_error + 'getPluginInfo_resp,
     'setRuntimeIdentity_req \<Rightarrow> rpc_error + 'setRuntimeIdentity_resp) PluginIdentityHandler" where
  "UnimplementedPluginIdentityHandler =
     \<lparr>PluginIdentityHandler_GetPluginInfo = (\<lambda>_. Inl (ConnectError CodeUnimplemented ''connectplugin.v1.PluginIdentity.GetPluginInfo is not implemented'')),
      PluginIdentityHandler_SetRuntimeIdentity = (\<lambda>_. Inl (ConnectError CodeUnimplemented ''connectplugin.v1.PluginIdentity.SetRuntimeIdentity is not implemented''))\<rparr>"

section \<open>Logger, \<^verbatim>\<open>logger.connect.go\<close>\<close>

definition LoggerName :: string where "LoggerName = ''capability.logger.v1.Logger''"

definition LoggerLogProcedure :: string where
  "LoggerLogProcedure = ''/capability.logger.v1.Logger/Log''"

record 'c LoggerClient =
  LoggerClient_log :: "'c ConnectClient"

definition NewLoggerClient :: "'c \<Rightarrow> string \<Rightarrow> 'c LoggerClient" where
  "NewLoggerClient httpClient baseURL =
     (let baseURL = trimRight CHR ''/'' baseURL
      in \<lparr>LoggerClient_log = connectClient httpClient (baseURL @ LoggerLogProcedure)\<rparr>)"

definition LoggerClient_Log :: "('c ConnectClient \<Rightarrow> 'req \<Rightarrow> 'resp) \<Rightarrow> 'c LoggerClient \<Rightarrow> 'req \<Rightarrow> 'resp" where
  "LoggerClient_Log callUnary c req = callUnary (LoggerClient_log c) req"

record 'log LoggerHandler =
  LoggerHandler_Log :: 'log

definition NewLoggerHandler ::
    "(string \<Rightarrow> 'log \<Rightarrow> 'h) \<Rightarrow>
     'log LoggerHandler \<Rightarrow> string \<times> (string \<Rightarrow> 'h option)" where
  "NewLoggerHandler unaryLog svc =
     (let loggerLogHandler = unaryLog LoggerLogProcedure (LoggerHandler_Log svc)
      in (''/capability.logger.v1.Logger/'',
          \<lambda>path. if path = LoggerLogProcedure then Some loggerLogHandler
            else None))"

definition UnimplementedLoggerHandler ::
    "('log_req \<Rightarrow> rpc_error + 'log_resp) LoggerHandler" where
  "UnimplementedLoggerHandler =
     \<lparr>LoggerHandler_Log = (\<lambda>_. Inl (ConnectError CodeUnimplemented ''capability.logger.v1.Logger.Log is not implemented''))\<rparr>"

section \<open>KVService, \<^verbatim>\<open>kv.connect.go\<close>\<close>

definition KVServiceName :: string where "KVServiceName = ''kv.v1.KVService''"

definition KVServiceGetProcedure :: string where
  "KVServiceGetProcedure = ''/kv.v1.KVService/Get''"

definition KVServicePutProcedure :: string where
  "KVServicePutProcedure = ''/kv.v1.KVService/Put''"

definition KVServiceDeleteProcedure :: string where
  "KVServiceDeleteProcedure = ''/kv.v1.KVService/Delete''"

definition KVServiceWatchProcedure :: string where
  "KVServiceWatchProcedure = ''/kv.v1.KVService/Watch''"

record 'c KVServiceClient =
  KVServiceClient_get :: "'c ConnectClient"
  KVServiceClient_put :: "'c ConnectClient"
  KVServiceClient_delete :: "'c ConnectClient"
  KVServiceClient_watch :: "'c ConnectClient"

definition NewKVServiceClient :: "'c \<Rightarrow> string \<Rightarrow> 'c KVServiceClient" where
  "NewKVServiceClient httpClient baseURL =
     (let baseURL = trimRight CHR ''/'' baseURL
      in \<lparr>KVServiceClient_get = connectClient httpClient (baseURL @ KVServiceGetProcedure),
          KVServiceClient_put = connectClient httpClient (baseURL @ KVServicePutProcedure),
          KVServiceClient_delete = connectClient httpClient (baseURL @ KVServiceDeleteProcedure),
          KVServiceClient_watch = connectClient httpClient (baseURL @ KVServiceWatchProcedure)\<rparr>)"

definition KVServiceClient_Get :: "('c ConnectClient \<Rightarrow> 'req \<Rightarrow> 'resp) \<Rightarrow> 'c KVServiceClient \<Rightarrow> 'req \<Rightarrow> 'resp" where
  "KVServiceClient_Get callUnary c req = callUnary (KVServiceClient_get c) req"

definition KVServiceClient_Put :: "('c ConnectClient \<Rightarrow> 'req \<Rightarrow> 'resp) \<Rightarrow> 'c KVServiceClient \<Rightarrow> 'req \<Rightarrow> 'resp" where
  "KVServiceClient_Put callUnary c req = callUnary (KVServiceClient_put c) req"

definition KVServiceClient_Delete :: "('c ConnectClient \<Rightarrow> 'req \<Rightarrow> 'resp) \<Rightarrow> 'c KVServiceClient \<Rightarrow> 'req \<Rightarrow> 'resp" where
  "KVServiceClient_Delete callUnary c req = callUnary (KVServiceClient_delete c) req"

definition KVServiceClient_Watch :: "('c ConnectClient \<Rightarrow> 'req \<Rightarrow> 'resp) \<Rightarrow> 'c KVServiceClient \<Rightarrow> 'req \<Rightarrow> 'resp" where
  "KVServiceClient_Watch callServerStream c req = callServerStream (KVServiceClient_watch c) req"

record ('get, 'put, 'delete, 'watch) KVServiceHandler =
  KVServiceHandler_Get :: 'get
  KVServiceHandler_Put :: 'put
  KVServiceHandler_Delete :: 'delete
  KVServiceHandler_Watch :: 'watch

definition NewKVServiceHandler ::
    "(string \<Rightarrow> 'get \<Rightarrow> 'h) \<Rightarrow>
     (string \<Rightarrow> 'put \<Rightarrow> 'h) \<Rightarrow>
     (string \<Rightarrow> 'delete \<Rightarrow> 'h) \<Rightarrow>
     (string \<Rightarrow> 'watch \<Rightarrow> 'h) \<Rightarrow>
     ('get, 'put, 'delete, 'watch) KVServiceHandler \<Rightarrow> string \<times> (string \<Rightarrow> 'h option)" where
  "NewKVServiceHandler unaryGet unaryPut unaryDelete serverStreamWatch svc =
     (let kVServiceGetHandler = unaryGet KVServiceGetProcedure (KVServiceHandler_Get svc);
          kVServicePutHandler = unaryPut KVServicePutProcedure (KVServiceHandler_Put svc);
          kVServiceDeleteHandler = unaryDelete KVServiceDeleteProcedure (KVServiceHandler_Delete svc);
          kVServiceWatchHandler = serverStreamWatch KVServiceWatchProcedure (KVServiceHandler_Watch svc)
      in (''/kv.v1.KVService/'',
          \<lambda>path. if path = KVServiceGetProcedure then Some kVServiceGetHandler
            else if path = KVServicePutProcedure then Some kVServicePutHandler
            else if path = KVServiceDeleteProcedure then Some kVServiceDeleteHandler
            else if path = KVServiceWatchProcedure then Some kVServiceWatchHandler
            else None))"

definition UnimplementedKVServiceHandler ::
    "('get_req \<Rightarrow> rpc_error + 'get_resp,
     'put_req \<Rightarrow> rpc_error + 'put_resp,
     'delete_req \<Rightarrow> rpc_error + 'delete_resp,
     'watch_req \<Rightarrow> rpc_error option) KVServiceHandler" where
  "UnimplementedKVServiceHandler =
     \<lparr>KVServiceHandler_Get = (\<lambda>_. Inl (ConnectError CodeUnimplemented ''kv.v1.KVService.Get is not implemented'')),
      KVServiceHandler_Put = (\<lambda>_. Inl (ConnectError CodeUnimplemented ''kv.v1.KVService.Put is not implemented'')),
      KVServiceHandler_Delete = (\<lambda>_. Inl (ConnectError CodeUnimplemented ''kv.v1.KVService.Delete is not implemented'')),
      KVServiceHandler_Watch = (\<lambda>_. Some (ConnectError CodeUnimplemented ''kv.v1.KVService.Watch is not implemented''))\<rparr>"

section \<open>From a client to a handler\<close>

text \<open>
  The path that the server at an authority sees of a request to a URL, \<open>None\<close> when the
  request does not go there, and the handler it reaches there. A server is a function from paths; that of a
  mux asks the longest pattern.
\<close>

definition requestPath :: "(string \<Rightarrow> bool) \<Rightarrow> string \<Rightarrow> string \<Rightarrow> string option" where
  "requestPath hostOk authority url =
     (case parseURL hostOk url of
        None \<Rightarrow> None
      | Some u \<Rightarrow> if sendable u \<and> u_Host u = authority then Some (if u_Path u = '''' then ''/'' else u_Path u) else None)"

definition reached :: "(string \<Rightarrow> bool) \<Rightarrow> string \<Rightarrow> (string \<Rightarrow> 'h option) \<Rightarrow> string \<Rightarrow> 'h option" where
  "reached hostOk authority serve url = Option.bind (requestPath hostOk authority url) serve"

definition serveMux :: "'r mux \<Rightarrow> ('r \<Rightarrow> string \<Rightarrow> 'h option) \<Rightarrow> string \<Rightarrow> 'h option" where
  "serveMux mux serve path = Option.bind (muxMatch mux path) (\<lambda>r. serve r path)"

lemma plain_slash: "plainByte CHR ''/''"
  by code_simp

text \<open>A base URL with a path; \<open>connect\<close>'s clients cut off its last slashes.\<close>

lemma trimRight_id: "s \<noteq> [] \<Longrightarrow> last s \<noteq> c \<Longrightarrow> trimRight c s = s"
  by (cases s rule: rev_cases) (simp_all add: trimRight_def)

lemma trimRight_trim: "trimRight c (s @ replicate n c) = trimRight c s"
  by (simp add: trimRight_def dropWhile_append)

lemma trimRight_append:
  assumes "s \<noteq> []" and "last s \<noteq> c"
  shows "trimRight c (s @ p) = s @ trimRight c p"
proof (cases "\<forall>x\<in>set p. x = c")
  case True
  then have "dropWhile (\<lambda>x. x = c) (rev p) = []" by simp
  then show ?thesis using trimRight_id [OF assms] by (simp add: trimRight_def dropWhile_append)
next
  case False
  then have "dropWhile (\<lambda>x. x = c) (rev p @ rev s) = dropWhile (\<lambda>x. x = c) (rev p) @ rev s" by auto
  then show ?thesis by (simp add: trimRight_def)
qed

lemma trimRight_prefix: "\<exists>n. s = trimRight c s @ replicate n c"
proof -
  have "takeWhile (\<lambda>x. x = c) (rev s) = replicate (length (takeWhile (\<lambda>x. x = c) (rev s))) c"
    by (metis (mono_tags, lifting) replicate_length_same set_takeWhileD)
  then have "rev (takeWhile (\<lambda>x. x = c) (rev s)) = replicate (length (takeWhile (\<lambda>x. x = c) (rev s))) c"
    by (metis rev_replicate)
  then show ?thesis
    unfolding trimRight_def by (metis rev_append rev_rev_ident takeWhile_dropWhile_id)
qed

lemma requestPath_plain:
  assumes "hostURL_ok hostOk url" and "plainPath p"
  shows "requestPath hostOk (authorityOf url) (url @ p) = Some p"
proof -
  have "p \<noteq> []" using assms(2) by (auto simp: plainPath_def)
  moreover have "authorityOf url \<noteq> []"
    using assms(1) trimPrefix_append [of "''http://''"] by (auto simp: hostURL_ok_def authorityOf_def)
  ultimately show ?thesis
    by (simp add: requestPath_def parse_http_plain [OF assms] sendable_def)
qed

text \<open>The base URL of a client: a host, perhaps with a path, perhaps with slashes at its end.\<close>

definition basePath :: "string \<Rightarrow> bool" where
  "basePath p \<longleftrightarrow> p = '''' \<or> plainPath p"

lemma host_last: "hostURL_ok hostOk url \<Longrightarrow> url \<noteq> [] \<and> last url \<noteq> CHR ''/''"
  using last_in_set by (fastforce simp: hostURL_ok_def)

lemma base_url:
  assumes "hostURL_ok hostOk url" and "basePath p" and "plainPath q"
  shows "requestPath hostOk (authorityOf url) (trimRight CHR ''/'' (url @ p) @ q) = Some (trimRight CHR ''/'' p @ q)"
proof -
  obtain n where "p = trimRight CHR ''/'' p @ replicate n CHR ''/''" using trimRight_prefix by blast
  then have "set (trimRight CHR ''/'' p) \<subseteq> set p" by (metis Un_upper1 set_append)
  then have "list_all plainByte (trimRight CHR ''/'' p @ q)"
    using assms(2,3) by (auto simp: basePath_def plainPath_def list_all_iff)
  moreover have "hasPrefix (trimRight CHR ''/'' p @ q) ''/''"
  proof (cases "trimRight CHR ''/'' p")
    case Nil
    then show ?thesis using assms(3) by (simp add: plainPath_def)
  next
    case (Cons x xs)
    moreover have "p \<noteq> []" using Cons by (auto simp: trimRight_def)
    moreover obtain m where "p = (x # xs) @ replicate m CHR ''/''" using trimRight_prefix [of p "CHR ''/''"] Cons by auto
    ultimately show ?thesis using assms(2) by (auto simp: basePath_def plainPath_def)
  qed
  ultimately have "plainPath (trimRight CHR ''/'' p @ q)" by (simp add: plainPath_def)
  from requestPath_plain [OF assms(1) this] show ?thesis
    using host_last [OF assms(1)] by (simp add: trimRight_append)
qed

text \<open>
  What a generated file promises: the client has the URL of every method under the base, the
  handler answers exactly these paths, and all of them lie below the path it is mounted on.
\<close>

locale rpc_service =
  fixes name :: string
    and methods :: "(string \<times> 'h) list"
    and urls :: "string \<Rightarrow> string list"
    and path :: string
    and serve :: "string \<Rightarrow> 'h option"
  assumes mounted: "path = ''/'' @ name @ ''/''"
    and client_urls: "urls base = map (\<lambda>m. trimRight CHR ''/'' base @ path @ fst m) methods"
    and served: "serve p = map_of (map (\<lambda>m. (path @ fst m, snd m)) methods) p"
    and distinct_methods: "distinct (map fst methods)"
    and plain_names: "list_all plainByte name" "list_all (\<lambda>m. list_all plainByte (fst m)) methods"
    and plain_segments: "list_all (\<lambda>m. CHR ''/'' \<notin> set (fst m)) methods"
begin

lemma plain_procedure: "(m, h) \<in> set methods \<Longrightarrow> plainPath (path @ m)"
proof -
  assume "(m, h) \<in> set methods"
  then have "list_all plainByte m" using plain_names(2) by (auto simp: list_all_iff)
  then show ?thesis using plain_names(1) plain_slash unfolding mounted by (simp add: plainPath_def)
qed

lemma serve_procedure: "(m, h) \<in> set methods \<Longrightarrow> serve (path @ m) = Some h"
proof -
  have "inj (\<lambda>n. path @ n)" by (simp add: inj_def)
  then have "distinct (map fst (map (\<lambda>m. (path @ fst m, snd m)) methods))"
    using distinct_methods by (simp add: comp_def distinct_map inj_on_def)
  then show "(m, h) \<in> set methods \<Longrightarrow> serve (path @ m) = Some h"
    unfolding served by (intro map_of_is_SomeI) force+
qed

lemma serve_only: "serve p = Some h \<Longrightarrow> \<exists>m. (m, h) \<in> set methods \<and> p = path @ m"
  by (auto simp: served dest!: map_of_SomeD)

lemma in_urls: "i < length methods \<Longrightarrow> urls base ! i = trimRight CHR ''/'' base @ path @ fst (methods ! i)"
  by (simp add: client_urls)

text \<open>A client whose base URL has the path \<open>p\<close> posts to that path followed by the procedure.\<close>

lemma client_path:
  assumes "i < length methods" and "hostURL_ok hostOk url" and "basePath p"
  shows "requestPath hostOk (authorityOf url) (urls (url @ p) ! i) =
    Some (trimRight CHR ''/'' p @ path @ fst (methods ! i))"
  using base_url [OF assms(2,3) plain_procedure] in_urls [OF assms(1)] nth_mem [OF assms(1)]
  by (metis prod.collapse)

text \<open>Directly at the service, and at a mux it is mounted on.\<close>

lemma client_root:
  assumes "i < length methods" and "hostURL_ok hostOk url"
  shows "requestPath hostOk (authorityOf url) (urls (url @ replicate n CHR ''/'') ! i) =
    Some (path @ fst (methods ! i))"
proof -
  have "basePath (replicate n CHR ''/'')"
    using plain_slash by (cases n) (simp_all add: basePath_def plainPath_def list_all_iff)
  from client_path [OF assms this] show ?thesis
    using trimRight_trim [of "CHR ''/''" "[]" n] by (simp add: trimRight_def)
qed

lemma client_reaches:
  assumes "i < length methods" and "hostURL_ok hostOk url"
  shows "reached hostOk (authorityOf url) serve (urls (url @ replicate n CHR ''/'') ! i) = Some (snd (methods ! i))"
  using client_root [OF assms] serve_procedure nth_mem [OF assms(1)] by (simp add: reached_def)

lemma procedure_matches: "patternMatches path (path @ m)"
proof -
  have "path \<noteq> []" "last path = CHR ''/''" by (simp_all add: mounted)
  then show ?thesis by (simp add: patternMatches_def)
qed

lemma mux_reached:
  assumes "i < length methods" and "hostURL_ok hostOk url"
    and "muxMatch mux (path @ fst (methods ! i)) = Some r" and "handler r = serve"
  shows "reached hostOk (authorityOf url) (serveMux mux handler) (urls (url @ replicate n CHR ''/'') ! i) =
    Some (snd (methods ! i))"
proof -
  have "serveMux mux handler (path @ fst (methods ! i)) = Some (snd (methods ! i))"
    using serve_procedure nth_mem [OF assms(1)] by (simp add: serveMux_def assms(3,4))
  then show ?thesis by (simp add: reached_def client_root [OF assms(1,2)])
qed

text \<open>Mounted on a mux on which no other pattern below its path matches one of its procedures.\<close>

lemma mux_procedure:
  assumes "distinct (map fst mux)" and "(path, r) \<in> set mux"
    and "\<forall>e\<in>set mux. patternMatches (fst e) (path @ m) \<longrightarrow> length (fst e) \<le> length path"
  shows "muxMatch mux (path @ m) = Some r"
  using muxMatch_longest [OF assms(1,2) procedure_matches assms(3)] .

text \<open>A prefix in front of a procedure without its slash is answered only when it is that slash.\<close>

lemma prefixed_procedure:
  assumes "(m, h) \<in> set methods"
  shows "serve (ep @ name @ ''/'' @ m) = (if ep = ''/'' then Some h else None)"
proof (cases "ep = ''/''")
  case True
  then show ?thesis using serve_procedure [OF assms] mounted by simp
next
  case False
  have "serve (ep @ name @ ''/'' @ m) = None"
  proof (rule ccontr)
    assume "serve (ep @ name @ ''/'' @ m) \<noteq> None"
    then obtain h' where "serve (ep @ name @ ''/'' @ m) = Some h'" by blast
    from serve_only [OF this] obtain m' where m': "(m', h') \<in> set methods"
      and eq: "ep @ name @ ''/'' @ m = ''/'' @ name @ ''/'' @ m'" by (auto simp: mounted)
    have "CHR ''/'' \<notin> set m" "CHR ''/'' \<notin> set m'" using plain_segments assms m' by (auto simp: list_all_iff)
    then have "takeWhile (\<lambda>c. c \<noteq> CHR ''/'') (rev m @ CHR ''/'' # rev (ep @ name)) = rev m"
        "takeWhile (\<lambda>c. c \<noteq> CHR ''/'') (rev m' @ CHR ''/'' # rev (''/'' @ name)) = rev m'"
      by (auto intro!: takeWhile_authority)
    moreover have "rev m @ CHR ''/'' # rev (ep @ name) = rev m' @ CHR ''/'' # rev (''/'' @ name)"
      using arg_cong [OF eq, of rev] by simp
    ultimately have "m = m'" by (metis rev_rev_ident)
    then show False using eq False by simp
  qed
  then show ?thesis using False by simp
qed

end

section \<open>The services\<close>

lemmas plain_defs = plainByte_def isCTL_def byteOf_def

interpretation handshakeService_rpc: rpc_service HandshakeServiceName
  "[(''Handshake'', unaryHandshake HandshakeServiceHandshakeProcedure (HandshakeServiceHandler_Handshake svc))]"
  "\<lambda>baseURL. let c = NewHandshakeServiceClient httpClient baseURL in [cc_URL (HandshakeServiceClient_handshake c)]"
  "fst (NewHandshakeServiceHandler unaryHandshake svc)" "snd (NewHandshakeServiceHandler unaryHandshake svc)"
  for httpClient unaryHandshake svc
  by unfold_locales (simp_all add: NewHandshakeServiceHandler_def NewHandshakeServiceClient_def HandshakeServiceName_def HandshakeServiceHandshakeProcedure_def Let_def plain_defs)

interpretation pluginLifecycle_rpc: rpc_service PluginLifecycleName
  "[(''ReportHealth'', unaryReportHealth PluginLifecycleReportHealthProcedure (PluginLifecycleHandler_ReportHealth svc))]"
  "\<lambda>baseURL. let c = NewPluginLifecycleClient httpClient baseURL in [cc_URL (PluginLifecycleClient_reportHealth c)]"
  "fst (NewPluginLifecycleHandler unaryReportHealth svc)" "snd (NewPluginLifecycleHandler unaryReportHealth svc)"
  for httpClient unaryReportHealth svc
  by unfold_locales (simp_all add: NewPluginLifecycleHandler_def NewPluginLifecycleClient_def PluginLifecycleName_def PluginLifecycleReportHealthProcedure_def Let_def plain_defs)

interpretation pluginControl_rpc: rpc_service PluginControlName
  "[(''GetHealth'', unaryGetHealth PluginControlGetHealthProcedure (PluginControlHandler_GetHealth svc)),
    (''Shutdown'', unaryShutdown PluginControlShutdownProcedure (PluginControlHandler_Shutdown svc))]"
  "\<lambda>baseURL. let c = NewPluginControlClient httpClient baseURL in [cc_URL (PluginControlClient_getHealth c), cc_URL (PluginControlClient_shutdown c)]"
  "fst (NewPluginControlHandler unaryGetHealth unaryShutdown svc)" "snd (NewPluginControlHandler unaryGetHealth unaryShutdown svc)"
  for httpClient unaryGetHealth unaryShutdown svc
  by unfold_locales (simp_all add: NewPluginControlHandler_def NewPluginControlClient_def PluginControlName_def PluginControlGetHealthProcedure_def PluginControlShutdownProcedure_def Let_def plain_defs)

interpretation serviceRegistry_rpc: rpc_service ServiceRegistryName
  "[(''RegisterService'', unaryRegisterService ServiceRegistryRegisterServiceProcedure (ServiceRegistryHandler_RegisterService svc)),
    (''UnregisterService'', unaryUnregisterService ServiceRegistryUnregisterServiceProcedure (ServiceRegistryHandler_UnregisterService svc)),
    (''DiscoverService'', unaryDiscoverService ServiceRegistryDiscoverServiceProcedure (ServiceRegistryHandler_DiscoverService svc)),
    (''WatchService'', serverStreamWatchService ServiceRegistryWatchServiceProcedure (ServiceRegistryHandler_WatchService svc))]"
  "\<lambda>baseURL. let c = NewServiceRegistryClient httpClient baseURL in [cc_URL (ServiceRegistryClient_registerService c), cc_URL (ServiceRegistryClient_unregisterService c), cc_URL (ServiceRegistryClient_discoverService c), cc_URL (ServiceRegistryClient_watchService c)]"
  "fst (NewServiceRegistryHandler unaryRegisterService unaryUnregisterService unaryDiscoverService serverStreamWatchService svc)" "snd (NewServiceRegistryHandler unaryRegisterService unaryUnregisterService unaryDiscoverService serverStreamWatchService svc)"
  for httpClient unaryRegisterService unaryUnregisterService unaryDiscoverService serverStreamWatchService svc
  by unfold_locales (simp_all add: NewServiceRegistryHandler_def NewServiceRegistryClient_def ServiceRegistryName_def ServiceRegistryRegisterServiceProcedure_def ServiceRegistryUnregisterServiceProcedure_def ServiceRegistryDiscoverServiceProcedure_def ServiceRegistryWatchServiceProcedure_def Let_def plain_defs)

interpretation capabilityBroker_rpc: rpc_service CapabilityBrokerName
  "[(''RequestCapability'', unaryRequestCapability CapabilityBrokerRequestCapabilityProcedure (CapabilityBrokerHandler_RequestCapability svc))]"
  "\<lambda>baseURL. let c = NewCapabilityBrokerClient httpClient baseURL in [cc_URL (CapabilityBrokerClient_requestCapability c)]"
  "fst (NewCapabilityBrokerHandler unaryRequestCapability svc)" "snd (NewCapabilityBrokerHandler unaryRequestCapability svc)"
  for httpClient unaryRequestCapability svc
  by unfold_locales (simp_all add: NewCapabilityBrokerHandler_def NewCapabilityBrokerClient_def CapabilityBrokerName_def CapabilityBrokerRequestCapabilityProcedure_def Let_def plain_defs)

interpretation healthService_rpc: rpc_service HealthServiceName
  "[(''Check'', unaryCheck HealthServiceCheckProcedure (HealthServiceHandler_Check svc)),
    (''Watch'', serverStreamWatch HealthServiceWatchProcedure (HealthServiceHandler_Watch svc))]"
  "\<lambda>baseURL. let c = NewHealthServiceClient httpClient baseURL in [cc_URL (HealthServiceClient_check c), cc_URL (HealthServiceClient_watch c)]"
  "fst (NewHealthServiceHandler unaryCheck serverStreamWatch svc)" "snd (NewHealthServiceHandler unaryCheck serverStreamWatch svc)"
  for httpClient unaryCheck serverStreamWatch svc
  by unfold_locales (simp_all add: NewHealthServiceHandler_def NewHealthServiceClient_def HealthServiceName_def HealthServiceCheckProcedure_def HealthServiceWatchProcedure_def Let_def plain_defs)

interpretation pluginIdentity_rpc: rpc_service PluginIdentityName
  "[(''GetPluginInfo'', unaryGetPluginInfo PluginIdentityGetPluginInfoProcedure (PluginIdentityHandler_GetPluginInfo svc)),
    (''SetRuntimeIdentity'', unarySetRuntimeIdentity PluginIdentitySetRuntimeIdentityProcedure (PluginIdentityHandler_SetRuntimeIdentity svc))]"
  "\<lambda>baseURL. let c = NewPluginIdentityClient httpClient baseURL in [cc_URL (PluginIdentityClient_getPluginInfo c), cc_URL (PluginIdentityClient_setRuntimeIdentity c)]"
  "fst (NewPluginIdentityHandler unaryGetPluginInfo unarySetRuntimeIdentity svc)" "snd (NewPluginIdentityHandler unaryGetPluginInfo unarySetRuntimeIdentity svc)"
  for httpClient unaryGetPluginInfo unarySetRuntimeIdentity svc
  by unfold_locales (simp_all add: NewPluginIdentityHandler_def NewPluginIdentityClient_def PluginIdentityName_def PluginIdentityGetPluginInfoProcedure_def PluginIdentitySetRuntimeIdentityProcedure_def Let_def plain_defs)

interpretation logger_rpc: rpc_service LoggerName
  "[(''Log'', unaryLog LoggerLogProcedure (LoggerHandler_Log svc))]"
  "\<lambda>baseURL. let c = NewLoggerClient httpClient baseURL in [cc_URL (LoggerClient_log c)]"
  "fst (NewLoggerHandler unaryLog svc)" "snd (NewLoggerHandler unaryLog svc)"
  for httpClient unaryLog svc
  by unfold_locales (simp_all add: NewLoggerHandler_def NewLoggerClient_def LoggerName_def LoggerLogProcedure_def Let_def plain_defs)

interpretation kVService_rpc: rpc_service KVServiceName
  "[(''Get'', unaryGet KVServiceGetProcedure (KVServiceHandler_Get svc)),
    (''Put'', unaryPut KVServicePutProcedure (KVServiceHandler_Put svc)),
    (''Delete'', unaryDelete KVServiceDeleteProcedure (KVServiceHandler_Delete svc)),
    (''Watch'', serverStreamWatch KVServiceWatchProcedure (KVServiceHandler_Watch svc))]"
  "\<lambda>baseURL. let c = NewKVServiceClient httpClient baseURL in [cc_URL (KVServiceClient_get c), cc_URL (KVServiceClient_put c), cc_URL (KVServiceClient_delete c), cc_URL (KVServiceClient_watch c)]"
  "fst (NewKVServiceHandler unaryGet unaryPut unaryDelete serverStreamWatch svc)" "snd (NewKVServiceHandler unaryGet unaryPut unaryDelete serverStreamWatch svc)"
  for httpClient unaryGet unaryPut unaryDelete serverStreamWatch svc
  by unfold_locales (simp_all add: NewKVServiceHandler_def NewKVServiceClient_def KVServiceName_def KVServiceGetProcedure_def KVServicePutProcedure_def KVServiceDeleteProcedure_def KVServiceWatchProcedure_def Let_def plain_defs)

end
