(* ===== verification/LoggedStore.thy ===== *)
theory LoggedStore
  imports KVStore ConnectRPC
begin

text \<open>
  The key-value store that logs through a capability of its host: the capability,
  \<^verbatim>\<open>examples/capabilities/logger/logger.go\<close>, and the store around \<^verbatim>\<open>kvimpl.Store\<close>,
  \<^verbatim>\<open>examples/kv/impl-with-logger/store.go\<close>. The store asks the broker for the logger once, when it is made,
  and uses the grant for every write. The theorem says which writes are logged: those before the grant
  expires.
\<close>

section \<open>The capability\<close>

record LogRequest =
  lr_Level :: string
  lr_Message :: string
  lr_Fields :: "(string, string) gomap"

datatype LoggerRoute = LoggerRPC

definition NewLoggerCapability :: "LoggerRoute CapabilityHandler" where
  "NewLoggerCapability = \<lparr>ch_Handler = LoggerRPC, ch_CapabilityType = ''logger'', ch_Version = ''1.0.0''\<rparr>"

text \<open>The line that \<open>Log\<close> prints; \<open>order\<close> is the order of the range over the fields.\<close>

definition Log :: "string list \<Rightarrow> LogRequest \<Rightarrow> string" where
  "Log order req =
     (let msg = ''['' @ lr_Level req @ ''] '' @ lr_Message req
      in if order = [] then msg
         else msg @ '' '' @ concat (map (\<lambda>k. k @ ''='' @ get_string (lr_Fields req) k @ '' '') order))"

text \<open>
  The host, as far as the logger is concerned: its broker and the lines printed. A request that the
  broker routes to the capability is answered by the generated handler of the one procedure.
\<close>

record LogHost =
  lh_broker :: "LoggerRoute CapabilityBroker"
  lh_lines :: "string list"

definition serveLog :: "(LogRequest \<Rightarrow> string list) \<Rightarrow> time \<Rightarrow> string \<Rightarrow> http_header \<Rightarrow> LogRequest \<Rightarrow> LogHost \<Rightarrow> LogHost" where
  "serveLog order now url header req h =
     (case handleCapabilityRequest now (trimPrefix url (cb_baseURL (lh_broker h))) header (lh_broker h) of
        (b, HttpError code msg) \<Rightarrow> h\<lparr>lh_broker := b\<rparr>
      | (b, Forward (handler, path)) \<Rightarrow>
          h\<lparr>lh_broker := b,
            lh_lines := (case snd (NewLoggerHandler (\<lambda>procedure f. f) \<lparr>LoggerHandler_Log = (\<lambda>req. Log (order req) req)\<rparr>) path of
                           None \<Rightarrow> lh_lines h | Some f \<Rightarrow> lh_lines h @ [f req])\<rparr>)"

section \<open>The store\<close>

text \<open>The client of the logger is its base URL and the token its transport adds.\<close>

record StoreWithLogger =
  sl_Store :: Store
  sl_loggerURL :: string
  sl_token :: string

text \<open>\<open>request\<close> is the RPC \<open>RequestCapability\<close> of the broker at a URL.\<close>

definition NewStoreWithLogger ::
    "(string \<Rightarrow> string \<Rightarrow> 'w \<Rightarrow> 'w \<times> (string + CapabilityGrant)) \<Rightarrow> string \<Rightarrow> 'w \<Rightarrow> 'w \<times> (string + StoreWithLogger)" where
  "NewStoreWithLogger request brokerURL w =
     (case request brokerURL ''logger'' w of
        (w', Inl e) \<Rightarrow> (w', Inl (''failed to request logger capability: '' @ e))
      | (w', Inr grant) \<Rightarrow>
          (w', Inr \<lparr>sl_Store = NewStore, sl_loggerURL = cg_EndpointUrl grant, sl_token = cg_BearerToken grant\<rparr>))"

text \<open>\<open>RoundTrip\<close> of the transport, on the request of the generated client.\<close>

definition RoundTrip :: "string \<Rightarrow> http_header \<Rightarrow> http_header" where
  "RoundTrip token header = header_set header ''Authorization'' (''Bearer '' @ token)"

definition callLog :: "(string \<Rightarrow> http_header \<Rightarrow> LogRequest \<Rightarrow> 'w \<Rightarrow> 'w) \<Rightarrow> string \<Rightarrow> string \<Rightarrow> StoreWithLogger \<Rightarrow> 'w \<Rightarrow> 'w" where
  "callLog send message key s w =
     LoggerClient_Log (\<lambda>client req. send (cc_URL client) (RoundTrip (sl_token s) Map.empty) req w)
       (NewLoggerClient () (sl_loggerURL s)) \<lparr>lr_Level = ''info'', lr_Message = message, lr_Fields = [''key'' \<mapsto> key]\<rparr>"

text \<open>The result of the logger is not looked at; a panic of the store is \<open>None\<close>.\<close>

definition logged_Put ::
    "(string \<Rightarrow> http_header \<Rightarrow> LogRequest \<Rightarrow> 'w \<Rightarrow> 'w) \<Rightarrow> (nat \<Rightarrow> bool) \<Rightarrow> string \<Rightarrow> string \<Rightarrow> StoreWithLogger \<Rightarrow> 'w \<Rightarrow>
     'w \<times> (StoreWithLogger \<times> (KVError connect_error + unit)) option" where
  "logged_Put send skip key val s w =
     (callLog send ''KV Put operation'' key s w,
      map_option (\<lambda>(st, r). (s\<lparr>sl_Store := st\<rparr>, r)) (Put skip key val (sl_Store s)))"

definition logged_Delete ::
    "(string \<Rightarrow> http_header \<Rightarrow> LogRequest \<Rightarrow> 'w \<Rightarrow> 'w) \<Rightarrow> (nat \<Rightarrow> bool) \<Rightarrow> string \<Rightarrow> StoreWithLogger \<Rightarrow> 'w \<Rightarrow>
     'w \<times> (StoreWithLogger \<times> bool) option" where
  "logged_Delete send skip key s w =
     (callLog send ''KV Delete operation'' key s w,
      map_option (\<lambda>(st, r). (s\<lparr>sl_Store := st\<rparr>, r)) (Delete skip key (sl_Store s)))"

text \<open>The generated code unfolded.\<close>

lemma serveLog_route:
  "serveLog order now url header req h =
     (case handleCapabilityRequest now (trimPrefix url (cb_baseURL (lh_broker h))) header (lh_broker h) of
        (b, HttpError code msg) \<Rightarrow> h\<lparr>lh_broker := b\<rparr>
      | (b, Forward (handler, path)) \<Rightarrow>
          h\<lparr>lh_broker := b,
            lh_lines := (if path = LoggerLogProcedure then lh_lines h @ [Log (order req) req] else lh_lines h)\<rparr>)"
  by (auto simp: serveLog_def NewLoggerHandler_def Let_def split: prod.split http_outcome.split)

lemma callLog_url:
  "callLog send message key s w =
     send (trimRight CHR ''/'' (sl_loggerURL s) @ LoggerLogProcedure) (RoundTrip (sl_token s) Map.empty)
       \<lparr>lr_Level = ''info'', lr_Message = message, lr_Fields = [''key'' \<mapsto> key]\<rparr> w"
  by (simp add: callLog_def LoggerClient_Log_def NewLoggerClient_def Let_def)

section \<open>Sequences of writes\<close>

datatype KVWrite = PutWrite string string | DeleteWrite string

text \<open>A write at a time, with the choices its notification of the watchers makes.\<close>

type_synonym timed_write = "time \<times> (nat \<Rightarrow> bool) \<times> KVWrite"

definition plainWrite :: "timed_write \<Rightarrow> Store \<Rightarrow> Store option" where
  "plainWrite op s =
     (case op of
        (_, skip, PutWrite k v) \<Rightarrow> map_option fst (Put skip k v s)
      | (_, skip, DeleteWrite k) \<Rightarrow> map_option fst (Delete skip k s))"

definition loggedWrite ::
    "(LogRequest \<Rightarrow> string list) \<Rightarrow> timed_write \<Rightarrow> StoreWithLogger \<times> LogHost \<Rightarrow> (StoreWithLogger \<times> LogHost) option" where
  "loggedWrite order op sh =
     (case (op, sh) of
        ((t, skip, PutWrite k v), (s, h)) \<Rightarrow>
          (case logged_Put (serveLog order t) skip k v s h of (h', r) \<Rightarrow> map_option (\<lambda>x. (fst x, h')) r)
      | ((t, skip, DeleteWrite k), (s, h)) \<Rightarrow>
          (case logged_Delete (serveLog order t) skip k s h of (h', r) \<Rightarrow> map_option (\<lambda>x. (fst x, h')) r))"

definition writeLine :: "timed_write \<Rightarrow> string" where
  "writeLine op =
     (case op of
        (_, _, PutWrite k v) \<Rightarrow> ''[info] KV Put operation key='' @ k @ '' ''
      | (_, _, DeleteWrite k) \<Rightarrow> ''[info] KV Delete operation key='' @ k @ '' '')"

text \<open>The grant of a store is in the broker until it expires, and gone or expired after it.\<close>

definition grantHeld :: "time \<Rightarrow> time \<Rightarrow> StoreWithLogger \<Rightarrow> LoggerRoute CapabilityBroker \<Rightarrow> bool" where
  "grantHeld now expiry s b \<longleftrightarrow>
     (\<exists>i. sl_loggerURL s = grantURL b ''logger'' i \<and> CHR ''/'' \<notin> set i \<and> i \<noteq> [] \<and>
        (case cb_grants b i of
           None \<Rightarrow> expiry < now
         | Some g \<Rightarrow> gi_token g = sl_token s \<and> gi_expiresAt g = expiry))"

lemma trimRight_grant:
  assumes "CHR ''/'' \<notin> set i" and "i \<noteq> []"
  shows "trimRight CHR ''/'' (s @ i) = s @ i"
  using assms by (cases i rule: rev_cases) (auto simp: trimRight_def)

lemma serveLog_granted:
  assumes held: "grantHeld now expiry s (lh_broker h)" and "now \<le> t"
    and r: "r = \<lparr>lr_Level = ''info'', lr_Message = message, lr_Fields = [''key'' \<mapsto> key]\<rparr>"
  shows "\<exists>b. callLog (serveLog order t) message key s h = h\<lparr>lh_broker := b,
      lh_lines := lh_lines h @ (if t \<le> expiry then [Log (order r) r] else [])\<rparr> \<and> grantHeld t expiry s b"
proof -
  let ?b = "lh_broker h" and ?hdr = "RoundTrip (sl_token s) Map.empty"
  obtain i where i: "sl_loggerURL s = grantURL ?b ''logger'' i" "CHR ''/'' \<notin> set i" "i \<noteq> []"
      and g: "case cb_grants ?b i of None \<Rightarrow> expiry < now | Some g \<Rightarrow> gi_token g = sl_token s \<and> gi_expiresAt g = expiry"
    using held by (auto simp: grantHeld_def)
  let ?path = "''/capabilities/'' @ ''logger'' @ ''/'' @ i @ ''/'' @ ''capability.logger.v1.Logger/Log''"
  have tok: "bearerToken ?hdr = Some (sl_token s)" unfolding RoundTrip_def by (rule bearerToken_set)
  have "trimRight CHR ''/'' (sl_loggerURL s) = cb_baseURL ?b @ ''/capabilities/'' @ ''logger'' @ ''/'' @ i"
    unfolding i(1) grantURL_def using trimRight_grant [OF i(2,3), of "cb_baseURL ?b @ ''/capabilities/'' @ ''logger'' @ ''/''"]
    by (simp only: append_assoc)
  then have url: "trimPrefix (trimRight CHR ''/'' (sl_loggerURL s) @ LoggerLogProcedure) (cb_baseURL ?b) = ?path"
    by (simp add: LoggerLogProcedure_def)
  have call: "callLog (serveLog order t) message key s h =
     (case handleCapabilityRequest t ?path ?hdr ?b of
        (b, HttpError code msg) \<Rightarrow> h\<lparr>lh_broker := b\<rparr>
      | (b, Forward (handler, path)) \<Rightarrow>
          h\<lparr>lh_broker := b, lh_lines := (if path = LoggerLogProcedure then lh_lines h @ [Log (order r) r] else lh_lines h)\<rparr>)"
    unfolding callLog_url serveLog_route url r ..
  have c: "CHR ''/'' \<notin> set ''logger''" by simp
  have path: "''/'' @ ''capability.logger.v1.Logger/Log'' = LoggerLogProcedure" by (simp add: LoggerLogProcedure_def)
  show ?thesis
  proof (cases "cb_grants ?b i")
    case None
    then have late: "expiry < t" using g assms(2) by simp
    have "handleCapabilityRequest t ?path ?hdr ?b = (?b, HttpError StatusUnauthorized ''invalid grant ID'')"
      unfolding handleCapabilityRequest_def capability_parts(2) [OF c i(2)] using None
      by (simp add: tok checkGrant_def grantMessage_def)
    then have "callLog (serveLog order t) message key s h = h\<lparr>lh_broker := ?b\<rparr>" unfolding call by simp
    then show ?thesis
      using late None i by (intro exI [of _ ?b]) (auto simp: grantHeld_def)
  next
    case (Some gr)
    have gr: "gi_token gr = sl_token s" "gi_expiresAt gr = expiry" using g Some by simp_all
    note hc = handleCapabilityRequest_granted [OF c i(2) tok Some gr(1), of t "''capability.logger.v1.Logger/Log''", unfolded gr(2)]
    show ?thesis
    proof (cases "t \<le> expiry")
      case True
      then have "callLog (serveLog order t) message key s h = h\<lparr>lh_broker := ?b, lh_lines := lh_lines h @ [Log (order r) r]\<rparr>"
        unfolding call hc unfolding path by simp
      then show ?thesis using True Some gr i by (intro exI [of _ ?b]) (auto simp: grantHeld_def)
    next
      case False
      then have "callLog (serveLog order t) message key s h = h\<lparr>lh_broker := ?b\<lparr>cb_grants := (cb_grants ?b)(i := None)\<rparr>\<rparr>"
        unfolding call hc unfolding path by simp
      then show ?thesis
        using False i by (intro exI [of _ "?b\<lparr>cb_grants := (cb_grants ?b)(i := None)\<rparr>"]) (auto simp: grantHeld_def grantURL_def)
    qed
  qed
qed


lemma serveLog_line:
  assumes "iter_order [''key'' \<mapsto> key] (order r)" and "r = \<lparr>lr_Level = ''info'', lr_Message = message, lr_Fields = [''key'' \<mapsto> key]\<rparr>"
  shows "Log (order r) r = ''[info] '' @ message @ '' key='' @ key @ '' ''"
proof -
  have "set (order r) = {''key''}" "distinct (order r)" using assms(1) by (simp_all add: iter_order_def)
  then have "order r = [''key'']" by (cases "order r") (auto simp: subset_singleton_iff)
  then show ?thesis using assms(2) by (simp add: Log_def get_string_def)
qed

lemma grantHeld_cong: "sl_loggerURL s' = sl_loggerURL s \<Longrightarrow> sl_token s' = sl_token s \<Longrightarrow> grantHeld t e s' b = grantHeld t e s b"
  by (simp add: grantHeld_def cong: option.case_cong)

lemma loggedWrite_step:
  assumes held: "grantHeld now expiry s (lh_broker h)" and t: "now \<le> fst op"
    and order: "\<forall>r. finite (dom (lr_Fields r)) \<longrightarrow> iter_order (lr_Fields r) (order r)"
  shows "\<exists>b. loggedWrite order op (s, h) = map_option (\<lambda>st. (s\<lparr>sl_Store := st\<rparr>,
      h\<lparr>lh_broker := b, lh_lines := lh_lines h @ (if fst op \<le> expiry then [writeLine op] else [])\<rparr>)) (plainWrite op (sl_Store s)) \<and>
    grantHeld (fst op) expiry s b"
proof -
  obtain t skip w where op: "op = (t, skip, w)" by (cases op) auto
  define message key where mk: "message = (case w of PutWrite k v \<Rightarrow> ''KV Put operation'' | DeleteWrite k \<Rightarrow> ''KV Delete operation'')"
    "key = (case w of PutWrite k v \<Rightarrow> k | DeleteWrite k \<Rightarrow> k)"
  let ?r = "\<lparr>lr_Level = ''info'', lr_Message = message, lr_Fields = [''key'' \<mapsto> key]\<rparr>"
  have "now \<le> t" using t by (simp add: op)
  from serveLog_granted [OF held this refl, of order message key] obtain b where
    b: "callLog (serveLog order t) message key s h = h\<lparr>lh_broker := b,
      lh_lines := lh_lines h @ (if t \<le> expiry then [Log (order ?r) ?r] else [])\<rparr>" "grantHeld t expiry s b" by blast
  have "iter_order [''key'' \<mapsto> key] (order ?r)" using order [rule_format, of ?r] by simp
  from serveLog_line [of key order ?r message, OF this refl] have line: "Log (order ?r) ?r = writeLine op"
    by (cases w) (simp_all add: mk op writeLine_def)
  show ?thesis
    using b unfolding line
    by (cases w) (auto simp: op mk loggedWrite_def plainWrite_def logged_Put_def logged_Delete_def option.map_comp comp_def case_prod_unfold
        intro!: exI [of _ b])
qed

text \<open>C30. Logging changes nothing of the store, and the log is the list of the writes up to the expiry of
  the grant: a store made with the capability and used for any sequence of writes at later and later
  times ends in the state, or the panic, in which the store without logging ends; and the host has printed
  exactly one line for each write until the grant expired, in order, and none after it, although the
  store goes on to serve writes.\<close>
theorem logged_store_correct:
  assumes "RequestCapability rnd1 rnd2 now ''logger'' b = (b', Inr grant)" and "generateGrantID rnd1 \<noteq> Some ''''"
    and new: "NewStoreWithLogger (\<lambda>_ _ w. (w, Inr grant)) brokerURL () = ((), Inr s)"
    and times: "sorted (now # map fst ops)" and order: "\<forall>r. finite (dom (lr_Fields r)) \<longrightarrow> iter_order (lr_Fields r) (order r)"
  shows "map_option (\<lambda>(s', h'). (sl_Store s', lh_lines h')) (foldM (loggedWrite order) ops (s, \<lparr>lh_broker = b', lh_lines = ls\<rparr>)) =
    map_option (\<lambda>st. (st, ls @ map writeLine (filter (\<lambda>op. fst op \<le> now + cb_grantTTL b) ops))) (foldM plainWrite ops NewStore)"
proof -
  let ?e = "now + cb_grantTTL b"
  have run: "map_option (\<lambda>(s', h'). (sl_Store s', lh_lines h')) (foldM (loggedWrite order) ops (s, h)) =
      map_option (\<lambda>st. (st, lh_lines h @ map writeLine (filter (\<lambda>op. fst op \<le> ?e) ops))) (foldM plainWrite ops (sl_Store s))"
    if "grantHeld t ?e s (lh_broker h)" "sorted (t # map fst ops)" for t s h
    using that
  proof (induction ops arbitrary: t s h)
    case (Cons op ops)
    have "t \<le> fst op" using Cons.prems(2) by simp
    from loggedWrite_step [OF Cons.prems(1) this order] obtain b where
      b: "loggedWrite order op (s, h) = map_option (\<lambda>st. (s\<lparr>sl_Store := st\<rparr>,
          h\<lparr>lh_broker := b, lh_lines := lh_lines h @ (if fst op \<le> ?e then [writeLine op] else [])\<rparr>)) (plainWrite op (sl_Store s))"
        "grantHeld (fst op) ?e s b" by blast
    show ?case
    proof (cases "plainWrite op (sl_Store s)")
      case None
      then show ?thesis using b(1) by simp
    next
      case (Some st)
      let ?s = "s\<lparr>sl_Store := st\<rparr>"
      let ?h = "h\<lparr>lh_broker := b, lh_lines := lh_lines h @ (if fst op \<le> ?e then [writeLine op] else [])\<rparr>"
      have "grantHeld (fst op) ?e ?s (lh_broker ?h)" using b(2) grantHeld_cong [of ?s s] by simp
      moreover have "sorted (fst op # map fst ops)" using Cons.prems(2) by simp
      ultimately show ?thesis using Cons.IH [of "fst op" ?s ?h] b(1) Some by simp
    qed
  qed simp
  obtain g where g: "cb_grants b' = (cb_grants b)(cg_GrantId grant \<mapsto> g)" "gi_token g = cg_BearerToken grant" "gi_expiresAt g = ?e"
    "cg_EndpointUrl grant = grantURL b ''logger'' (cg_GrantId grant)" "CHR ''/'' \<notin> set (cg_GrantId grant)"
    using RequestCapability_granted [OF assms(1)] by blast
  have "cb_baseURL b' = cb_baseURL b" "generateGrantID rnd1 = Some (cg_GrantId grant)"
    using assms(1) by (auto simp: RequestCapability_def storeGrant_def split: option.splits)
  moreover have s: "s = \<lparr>sl_Store = NewStore, sl_loggerURL = cg_EndpointUrl grant, sl_token = cg_BearerToken grant\<rparr>"
    using new by (simp add: NewStoreWithLogger_def)
  ultimately have "grantHeld now ?e s (lh_broker \<lparr>lh_broker = b', lh_lines = ls\<rparr>)"
    using g assms(2) by (auto simp: grantHeld_def grantURL_def)
  from run [OF this times] show ?thesis by (simp add: s)
qed

definition example_broker :: "LoggerRoute CapabilityBroker" where
  "example_broker = RegisterCapability NewLoggerCapability (NewCapabilityBroker ''http://localhost:8080'')"


lemma logged_store_correct_witness:
  "\<exists>b' grant s. RequestCapability (Some ''0123456789abcdef'') (Some ''0123456789abcdef0123456789abcdef'') 7 ''logger'' example_broker = (b', Inr grant) \<and>
     NewStoreWithLogger (\<lambda>_ _ w. (w, Inr grant)) ''http://localhost:8080/broker'' () = ((), Inr s) \<and>
     map_option (\<lambda>(s', h'). (kv_data (sl_Store s') ''a'', lh_lines h'))
       (foldM (loggedWrite (\<lambda>r. sorted_list_of_set (dom (lr_Fields r))))
         [(8, \<lambda>_. False, PutWrite ''a'' ''1''), (9 + Hour, \<lambda>_. False, PutWrite ''a'' ''2'')] (s, \<lparr>lh_broker = b', lh_lines = []\<rparr>)) =
     Some (Some ''2'', [''[info] KV Put operation key=a ''])"
proof -
  let ?ops = "[(8, \<lambda>_. False, PutWrite ''a'' ''1''), (9 + Hour, \<lambda>_. False, PutWrite ''a'' ''2'')] :: timed_write list"
  let ?order = "\<lambda>r. sorted_list_of_set (dom (lr_Fields r))"
  have ttl: "cb_grantTTL example_broker = Hour" "cb_capabilities example_broker ''logger'' = Some NewLoggerCapability"
    by (simp_all add: example_broker_def RegisterCapability_def NewCapabilityBroker_def DefaultCapabilityGrantTTL_def NewLoggerCapability_def)
  then obtain b' grant where gr: "RequestCapability (Some ''0123456789abcdef'') (Some ''0123456789abcdef0123456789abcdef'') 7 ''logger'' example_broker =
      (b', Inr grant)" by (auto simp: RequestCapability_def generateGrantID_def generateToken_def)
  let ?s = "\<lparr>sl_Store = NewStore, sl_loggerURL = cg_EndpointUrl grant, sl_token = cg_BearerToken grant\<rparr>"
  have new: "NewStoreWithLogger (\<lambda>_ _ w. (w, Inr grant)) ''http://localhost:8080/broker'' () = ((), Inr ?s)"
    by (simp add: NewStoreWithLogger_def)
  have id: "generateGrantID (Some ''0123456789abcdef'') \<noteq> Some ''''" by code_simp
  have times: "sorted (7 # map fst ?ops)" by (simp add: Hour_def Second_def)
  have order: "\<forall>r. finite (dom (lr_Fields r)) \<longrightarrow> iter_order (lr_Fields r) (?order r)" by (simp add: iter_order_def)
  obtain st where st: "foldM plainWrite ?ops NewStore = Some st" "kv_data st ''a'' = Some ''2''"
    by (simp add: plainWrite_def Put_def notifyWatchers_def NewStore_def)
  have lines: "[] @ map writeLine (filter (\<lambda>op. fst op \<le> 7 + cb_grantTTL example_broker) ?ops) = [''[info] KV Put operation key=a '']"
    by (simp add: ttl writeLine_def Hour_def Second_def)
  from logged_store_correct [OF gr id new times order, of "[]", unfolded lines st(1)]
  obtain s' h' where "foldM (loggedWrite ?order) ?ops (?s, \<lparr>lh_broker = b', lh_lines = []\<rparr>) = Some (s', h')"
    "sl_Store s' = st" "lh_lines h' = [''[info] KV Put operation key=a '']" by auto
  then show ?thesis using gr new st(2) by (intro exI [of _ b'] exI [of _ grant] exI [of _ ?s]) simp
qed

end
