(* ===== verification/PluginPrograms.thy ===== *)
theory PluginPrograms
  imports Platform Client
begin

text \<open>
  The plugin programs of the repository, \<^verbatim>\<open>examples/{logger,cache,app,storage,api}-plugin/main.go\<close>: how a plugin
  built on the client starts, registers its services and reports its health. A program runs in one of
  two ways: with \<^verbatim>\<open>HOST_URL\<close> set it connects to the host by itself (unmanaged); without it waits for the
  host, whose platform calls its identity service (managed). The host is a state \<open>'w\<close> that the program
  changes through three remote procedures; an exit by \<open>log.Fatalf\<close> is an error value.
\<close>

section \<open>The host as the program sees it\<close>

text \<open>The first argument is the endpoint of the RPC client; a result \<open>Some\<close> is an error.\<close>

record 'w HostRPC =
  rpc_Register :: "string \<Rightarrow> http_header \<Rightarrow> RegisterServiceRequest \<Rightarrow> 'w \<Rightarrow> 'w \<times> string option"
  rpc_Discover :: "string \<Rightarrow> http_header \<Rightarrow> string \<Rightarrow> string \<Rightarrow> 'w \<Rightarrow> 'w \<times> (string + DiscoverServiceResponse)"
  rpc_Report :: "string \<Rightarrow> http_header \<Rightarrow> ReportHealthRequest \<Rightarrow> 'w \<Rightarrow> 'w \<times> string option"

text \<open>The environment variables a program reads; an unset one is empty.\<close>

record PluginEnv =
  pe_PORT :: string
  pe_HOSTNAME :: string
  pe_HOST_URL :: string

datatype Fatal = RegisterFailed string | CreateClientFailed ClientConfigError | ConnectFailed ClientError

definition clientHeader :: "('a, 'h) Client \<Rightarrow> http_header" where
  "clientHeader c = identityHeader (c_runtimeID c) (c_runtimeToken c)"

definition reportHealth ::
    "'w HostRPC \<Rightarrow> HealthState \<Rightarrow> string \<Rightarrow> string list \<Rightarrow> ('a, 'h) Client \<Rightarrow> 'w \<Rightarrow> 'w \<times> ClientError option" where
  "reportHealth rpc state reason deps c w =
     (case c_lifecycleClient c of
        None \<Rightarrow> (w, Client_ReportHealth (\<lambda>_ _ _. None) state reason deps c)
      | Some endpoint \<Rightarrow>
          (case rpc_Report rpc endpoint (clientHeader c)
                  \<lparr>rhr_State = state, rhr_Reason = reason, rhr_UnavailableDependencies = deps\<rparr> w of
             (w', e) \<Rightarrow> (w', Client_ReportHealth (\<lambda>_ _ _. e) state reason deps c)))"

section \<open>Registering\<close>

text \<open>The URL under which the host reaches the plugin; \<open>port\<close> is the default of the program.\<close>

definition myBaseURL :: "string \<Rightarrow> PluginEnv \<Rightarrow> string" where
  "myBaseURL port env =
     (let myPort = (if pe_PORT env = '''' then port else pe_PORT env);
          myHost = (if pe_HOSTNAME env = '''' then ''localhost'' else pe_HOSTNAME env)
      in ''http://'' @ myHost @ '':'' @ myPort)"

definition serviceRequest :: "(string, string) gomap \<Rightarrow> ServiceDeclaration \<Rightarrow> RegisterServiceRequest" where
  "serviceRequest metadata svc =
     \<lparr>rsr_ServiceType = sd_Type svc, rsr_Version = sd_Version svc, rsr_EndpointPath = sd_Path svc, rsr_Metadata = metadata\<rparr>"

fun registerLoop ::
    "'w HostRPC \<Rightarrow> string \<Rightarrow> http_header \<Rightarrow> (string, string) gomap \<Rightarrow> ServiceDeclaration list \<Rightarrow> 'w \<Rightarrow> 'w \<times> Fatal option" where
  "registerLoop rpc endpoint header metadata [] w = (w, None)"
| "registerLoop rpc endpoint header metadata (svc # svcs) w =
     (case rpc_Register rpc endpoint header (serviceRequest metadata svc) w of
        (w', Some _) \<Rightarrow> (w', Some (RegisterFailed (sd_Type svc)))
      | (w', None) \<Rightarrow> registerLoop rpc endpoint header metadata svcs w')"

definition myServices :: "('a, 'h) Client \<Rightarrow> ServiceDeclaration list" where
  "myServices c = pm_Provides (cl_Metadata (c_cfg c))"

text \<open>Discover what the program depends on, and report healthy or degraded; \<open>sleep\<close> is what happens before.\<close>

definition checkDependency ::
    "'w HostRPC \<Rightarrow> ('w \<Rightarrow> 'w) \<Rightarrow> string \<Rightarrow> string \<Rightarrow> ('a, 'h) Client \<Rightarrow> 'w \<Rightarrow> 'w" where
  "checkDependency rpc sleep dep endpoint c w =
     (case rpc_Discover rpc endpoint (clientHeader c) dep ''1.0.0'' (sleep w) of
        (w', Inl _) \<Rightarrow> fst (reportHealth rpc HEALTH_STATE_DEGRADED (dep @ '' dependency not available'') [dep] c w')
      | (w', Inr _) \<Rightarrow> fst (reportHealth rpc HEALTH_STATE_HEALTHY '''' [] c w'))"

text \<open>The function \<open>registerServices\<close> of each program: without a registry client it does nothing.\<close>

definition logger_registerServices ::
    "PluginEnv \<Rightarrow> 'w HostRPC \<Rightarrow> ('w \<Rightarrow> 'w) \<Rightarrow> ('a, 'h) Client \<Rightarrow> 'w \<Rightarrow> 'w \<times> Fatal option" where
  "logger_registerServices env rpc sleep c w =
     (case c_registryClient c of
        None \<Rightarrow> (w, None)
      | Some endpoint \<Rightarrow>
          (case registerLoop rpc endpoint (clientHeader c) [''base_url'' \<mapsto> myBaseURL ''8081'' env] (myServices c) w of
             (w', Some e) \<Rightarrow> (w', Some e)
           | (w', None) \<Rightarrow> (fst (reportHealth rpc HEALTH_STATE_HEALTHY '''' [] c (sleep w')), None)))"

definition cache_registerServices ::
    "'w HostRPC \<Rightarrow> ('w \<Rightarrow> 'w) \<Rightarrow> ('a, 'h) Client \<Rightarrow> 'w \<Rightarrow> 'w \<times> Fatal option" where
  "cache_registerServices rpc sleep c w =
     (case c_registryClient c of
        None \<Rightarrow> (w, None)
      | Some endpoint \<Rightarrow>
          (case registerLoop rpc endpoint (clientHeader c) Map.empty (myServices c) w of
             (w', Some e) \<Rightarrow> (w', Some e)
           | (w', None) \<Rightarrow> (checkDependency rpc sleep ''logger'' endpoint c w', None)))"

definition app_registerServices ::
    "'w HostRPC \<Rightarrow> ('w \<Rightarrow> 'w) \<Rightarrow> ('a, 'h) Client \<Rightarrow> 'w \<Rightarrow> 'w \<times> Fatal option" where
  "app_registerServices rpc sleep c w =
     (case c_registryClient c of
        None \<Rightarrow> (w, None)
      | Some endpoint \<Rightarrow> (checkDependency rpc sleep ''cache'' endpoint c w, None))"

definition storage_registerServices ::
    "PluginEnv \<Rightarrow> 'w HostRPC \<Rightarrow> ('w \<Rightarrow> 'w) \<Rightarrow> ('a, 'h) Client \<Rightarrow> 'w \<Rightarrow> 'w \<times> Fatal option" where
  "storage_registerServices env rpc sleep c w =
     (case c_registryClient c of
        None \<Rightarrow> (w, None)
      | Some endpoint \<Rightarrow>
          (case registerLoop rpc endpoint (clientHeader c) [''base_url'' \<mapsto> myBaseURL ''8082'' env] (myServices c) w of
             (w', Some e) \<Rightarrow> (w', Some e)
           | (w', None) \<Rightarrow> (checkDependency rpc sleep ''logger'' endpoint c w', None)))"

definition api_registerServices ::
    "PluginEnv \<Rightarrow> 'w HostRPC \<Rightarrow> ('w \<Rightarrow> 'w) \<Rightarrow> ('a, 'h) Client \<Rightarrow> 'w \<Rightarrow> 'w \<times> Fatal option" where
  "api_registerServices env rpc sleep c w =
     (case c_registryClient c of
        None \<Rightarrow> (w, None)
      | Some endpoint \<Rightarrow>
          (case registerLoop rpc endpoint (clientHeader c) [''base_url'' \<mapsto> myBaseURL ''8083'' env] (myServices c) w of
             (w', Some e) \<Rightarrow> (w', Some e)
           | (w', None) \<Rightarrow> (checkDependency rpc sleep ''storage'' endpoint c w', None)))"

text \<open>
  The key-value server, \<^verbatim>\<open>examples/kv/server/main.go\<close>, does the same in a goroutine of its own once its
  HTTP server should be up; when the host refuses, it goes on without being registered.
\<close>

definition kv_registerService :: "string \<Rightarrow> PluginEnv \<Rightarrow> 'w HostRPC \<Rightarrow> ('a, 'h) Client \<Rightarrow> 'w \<Rightarrow> 'w" where
  "kv_registerService port env rpc c w =
     (case c_registryClient c of
        None \<Rightarrow> w
      | Some endpoint \<Rightarrow>
          (case rpc_Register rpc endpoint (clientHeader c)
                  \<lparr>rsr_ServiceType = ''kv'', rsr_Version = ''1.0.0'', rsr_EndpointPath = ''/kv.v1.KVService/'',
                   rsr_Metadata = [''base_url'' \<mapsto> myBaseURL port (env\<lparr>pe_PORT := ''''\<rparr>)]\<rparr> w of
             (w', Some _) \<Rightarrow> w'
           | (w', None) \<Rightarrow> fst (reportHealth rpc HEALTH_STATE_HEALTHY '''' [] c w')))"

section \<open>Starting\<close>

datatype PluginProgram = LoggerPlugin | CachePlugin | AppPlugin | StoragePlugin | ApiPlugin

definition registerServices ::
    "PluginProgram \<Rightarrow> PluginEnv \<Rightarrow> 'w HostRPC \<Rightarrow> ('w \<Rightarrow> 'w) \<Rightarrow> ('a, 'h) Client \<Rightarrow> 'w \<Rightarrow> 'w \<times> Fatal option" where
  "registerServices prog env rpc sleep =
     (case prog of
        LoggerPlugin \<Rightarrow> logger_registerServices env rpc sleep
      | CachePlugin \<Rightarrow> cache_registerServices rpc sleep
      | AppPlugin \<Rightarrow> app_registerServices rpc sleep
      | StoragePlugin \<Rightarrow> storage_registerServices env rpc sleep
      | ApiPlugin \<Rightarrow> api_registerServices env rpc sleep)"

text \<open>The configuration each \<open>main\<close> creates its client with.\<close>

definition startupDependency :: "string \<Rightarrow> ServiceDependency" where
  "startupDependency t =
     \<lparr>dep_Type = t, dep_MinVersion = ''1.0.0'', dep_RequiredForStartup = True, dep_WatchForChanges = True\<rparr>"

definition programClient ::
    "string \<Rightarrow> string \<Rightarrow> string \<Rightarrow> ServiceDeclaration list \<Rightarrow> ServiceDependency list \<Rightarrow> ('a, 'h) ClientConfig" where
  "programClient hostURL selfID name provides requires =
     \<lparr>cl_Endpoint = '''', cl_HostURL = hostURL, cl_Plugins = None, cl_ProtocolVersion = 0, cl_MagicCookieKey = '''',
      cl_MagicCookieValue = '''', cl_SelfID = selfID, cl_SelfVersion = ''1.0.0'',
      cl_Metadata = \<lparr>pm_Name = name, pm_Path = '''', pm_Version = ''1.0.0'', pm_Provides = provides, pm_Requires = requires\<rparr>,
      cl_Discovery = None, cl_DiscoveryServiceName = ''''\<rparr>"

definition version1 :: "string \<Rightarrow> string \<Rightarrow> ServiceDeclaration" where
  "version1 t path = \<lparr>sd_Type = t, sd_Version = ''1.0.0'', sd_Path = path\<rparr>"

definition logger_config :: "string \<Rightarrow> ('a, 'h) ClientConfig" where
  "logger_config hostURL =
     programClient hostURL ''logger-plugin'' ''Logger Plugin'' [version1 ''logger'' ''/logger.v1.Logger/''] []"

definition cache_config :: "string \<Rightarrow> ('a, 'h) ClientConfig" where
  "cache_config hostURL =
     programClient hostURL ''cache-plugin'' ''Cache Plugin'' [version1 ''cache'' ''/cache.v1.Cache/''] [startupDependency ''logger'']"

definition app_config :: "string \<Rightarrow> ('a, 'h) ClientConfig" where
  "app_config hostURL = programClient hostURL ''app-plugin'' ''App Plugin'' [] [startupDependency ''cache'']"

definition storage_config :: "string \<Rightarrow> ('a, 'h) ClientConfig" where
  "storage_config hostURL =
     programClient hostURL ''storage-plugin'' ''Storage Plugin'' [version1 ''storage'' ''/storage.v1.Storage/'']
       [startupDependency ''logger'']"

definition api_config :: "string \<Rightarrow> ('a, 'h) ClientConfig" where
  "api_config hostURL =
     programClient hostURL ''api-plugin'' ''API Plugin'' [version1 ''api'' ''/api.v1.API/''] [startupDependency ''storage'']"

definition programConfig :: "PluginProgram \<Rightarrow> string \<Rightarrow> ('a, 'h) ClientConfig" where
  "programConfig prog =
     (case prog of
        LoggerPlugin \<Rightarrow> logger_config
      | CachePlugin \<Rightarrow> cache_config
      | AppPlugin \<Rightarrow> app_config
      | StoragePlugin \<Rightarrow> storage_config
      | ApiPlugin \<Rightarrow> api_config)"

lemmas programConfig_defs = programConfig_def logger_config_def cache_config_def app_config_def storage_config_def api_config_def

text \<open>
  The first part of \<open>main\<close>, up to the HTTP server: \<open>connect\<close> is the client's \<open>Connect\<close> against the host.
  (The \<open>main\<close> of the app plugin does not call \<open>registerServices\<close> after connecting.)
\<close>

definition startProgram ::
    "PluginProgram \<Rightarrow> PluginEnv \<Rightarrow> 'w HostRPC \<Rightarrow> (('a, 'h) Client \<Rightarrow> 'w \<Rightarrow> 'w \<times> ('a, 'h) Client \<times> ClientError option) \<Rightarrow>
     ('w \<Rightarrow> 'w) \<Rightarrow> 'w \<Rightarrow> 'w \<times> (Fatal + ('a, 'h) Client)" where
  "startProgram prog env rpc connect sleep w =
     (let modelB = pe_HOST_URL env \<noteq> '''';
          hostURL = (if modelB then pe_HOST_URL env else ''http://localhost:8080'')
      in case NewClient [] (programConfig prog hostURL) of
           Inl e \<Rightarrow> (w, Inl (CreateClientFailed e))
         | Inr client \<Rightarrow>
             if \<not> modelB then (w, Inr client)
             else (case connect client w of
                 (w1, c1, Some e) \<Rightarrow> (w1, Inl (ConnectFailed e))
               | (w1, c1, None) \<Rightarrow>
                   if prog = AppPlugin then (w1, Inr c1)
                   else (case registerServices prog env rpc sleep c1 w1 of
                       (w2, Some e) \<Rightarrow> (w2, Inl e)
                     | (w2, None) \<Rightarrow> (w2, Inr c1))))"

section \<open>The services a program offers the platform\<close>

definition GetPluginInfo :: "('a, 'h) Client \<Rightarrow> GetPluginInfoResponse" where
  "GetPluginInfo c =
     (let cfg = c_cfg c
      in \<lparr>gpi_SelfId = cl_SelfID cfg, gpi_SelfVersion = cl_SelfVersion cfg,
          gpi_Provides = map (\<lambda>svc. \<lparr>sd_Type = sd_Type svc, sd_Version = sd_Version svc, sd_Path = sd_Path svc\<rparr>)
                           (pm_Provides (cl_Metadata cfg)),
          gpi_Requires = map (\<lambda>dep. \<lparr>dep_Type = dep_Type dep, dep_MinVersion = dep_MinVersion dep,
                                    dep_RequiredForStartup = dep_RequiredForStartup dep,
                                    dep_WatchForChanges = dep_WatchForChanges dep\<rparr>)
                           (pm_Requires (cl_Metadata cfg)),
          gpi_Metadata = [''name'' \<mapsto> pm_Name (cl_Metadata cfg), ''version'' \<mapsto> pm_Version (cl_Metadata cfg)]\<rparr>)"

text \<open>
  The identity handlers; they also start \<open>registerServices\<close> in a goroutine. Three programs log the first
  eight bytes of the token, and panic (\<open>None\<close>) on a shorter one.
\<close>

definition logger_SetRuntimeIdentity :: "string \<Rightarrow> string \<Rightarrow> string \<Rightarrow> ('a, 'h) Client \<Rightarrow> ('a, 'h) Client option" where
  "logger_SetRuntimeIdentity runtimeId runtimeToken hostUrl c =
     (if length runtimeToken < 8 then None else Some (SetRuntimeIdentity runtimeId runtimeToken hostUrl c))"

definition storage_SetRuntimeIdentity :: "string \<Rightarrow> string \<Rightarrow> string \<Rightarrow> ('a, 'h) Client \<Rightarrow> ('a, 'h) Client option" where
  "storage_SetRuntimeIdentity runtimeId runtimeToken hostUrl c = Some (SetRuntimeIdentity runtimeId runtimeToken hostUrl c)"

definition handleIdentity :: "PluginProgram \<Rightarrow> string \<Rightarrow> string \<Rightarrow> string \<Rightarrow> ('a, 'h) Client \<Rightarrow> ('a, 'h) Client option" where
  "handleIdentity prog =
     (if prog = StoragePlugin \<or> prog = ApiPlugin then storage_SetRuntimeIdentity else logger_SetRuntimeIdentity)"

text \<open>The control service: the state and the reason a program answers, whatever it reported to the host.\<close>

definition logger_GetHealth :: "HealthState \<times> string" where
  "logger_GetHealth = (HEALTH_STATE_HEALTHY, ''all systems operational'')"

definition cache_GetHealth :: "HealthState \<times> string" where
  "cache_GetHealth = (HEALTH_STATE_HEALTHY, ''all dependencies available'')"

definition app_GetHealth :: "HealthState \<times> string" where
  "app_GetHealth = (HEALTH_STATE_HEALTHY, ''all dependencies available'')"

definition storage_GetHealth :: "HealthState \<times> string" where
  "storage_GetHealth = (HEALTH_STATE_HEALTHY, ''operational'')"

definition api_GetHealth :: "HealthState \<times> string" where
  "api_GetHealth = (HEALTH_STATE_HEALTHY, ''operational'')"

end
