(* ===== verification/UrlShortener.thy ===== *)
theory UrlShortener
  imports NetURL PluginPrograms
begin

text \<open>
  The HTTP handlers of the URL shortener made of three plugins, \<^verbatim>\<open>examples/api-plugin/main.go\<close>,
  \<^verbatim>\<open>examples/storage-plugin/main.go\<close> and \<^verbatim>\<open>examples/logger-plugin/main.go\<close>: the API asks the host
  for the storage service and calls it through the host's router, and so does the storage with the
  logger. What is outside a program is a state \<open>'w\<close>: the host's procedures (\<open>HostRPC\<close>) and the HTTP
  client \<open>send\<close>, which takes the method, the URL and the header of a request without body. A handler
  that dereferences a nil pointer panics: its answer is \<open>None\<close>.
\<close>

section \<open>Calling a service through the host\<close>

type_synonym 'w http_client = "string \<Rightarrow> URL \<Rightarrow> http_header \<Rightarrow> 'w \<Rightarrow> 'w \<times> (string + HttpResponse)"

datatype CallError =
    NoRegistryClient
  | ServiceNotFound string string
  | RequestError string
  | StorageReturned int
  | CodeNotFound
  | InvalidJSON string

definition errorText :: "CallError \<Rightarrow> string" where
  "errorText e = (case e of
     NoRegistryClient \<Rightarrow> ''registry client not available''
   | ServiceNotFound svc msg \<Rightarrow> svc @ '' service not found: '' @ msg
   | RequestError msg \<Rightarrow> msg
   | StorageReturned code \<Rightarrow> ''storage returned '' @ showInt code
   | CodeNotFound \<Rightarrow> ''not found''
   | InvalidJSON msg \<Rightarrow> msg)"

text \<open>The URL of the endpoint of a service, found by the registry client.\<close>

definition findEndpoint ::
    "'w HostRPC \<Rightarrow> string \<Rightarrow> ('a, 'h) Client \<Rightarrow> 'w \<Rightarrow> 'w \<times> (CallError + string)" where
  "findEndpoint rpc svc c w =
     (case c_registryClient c of
        None \<Rightarrow> (w, Inl NoRegistryClient)
      | Some endpoint \<Rightarrow>
          (case rpc_Discover rpc endpoint (clientHeader c) svc ''1.0.0'' w of
             (w', Inl e) \<Rightarrow> (w', Inl (ServiceNotFound svc e))
           | (w', Inr resp) \<Rightarrow> (w', Inr (se_EndpointUrl (dsr_Endpoint resp)))))"

text \<open>
  The error of \<open>http.NewRequest\<close> is not looked at: on a URL that does not parse the request is nil, and
  setting its header panics.
\<close>

definition callHost ::
    "(string \<Rightarrow> bool) \<Rightarrow> 'w http_client \<Rightarrow> string \<Rightarrow> string \<Rightarrow> ('a, 'h) Client \<Rightarrow> 'w \<Rightarrow> 'w \<times> (string + HttpResponse) option" where
  "callHost hostOk send meth url c w =
     (case parseURL hostOk url of
        None \<Rightarrow> (w, None)
      | Some u \<Rightarrow> (case send meth u (clientHeader c) w of (w', r) \<Rightarrow> (w', Some r)))"

section \<open>The logger\<close>

text \<open>The handler of \<^verbatim>\<open>/logger.v1.Logger/Log\<close>: the message it logs, if any, and its answer.\<close>

definition logger_Log :: "HttpRequest \<Rightarrow> string option \<times> HttpResponse" where
  "logger_Log req =
     (let message = queryGet (hq_RawQuery req) ''message''
      in (if message = '''' then None else Some message, jsonResponse ''{\"success\": true}''))"

section \<open>The storage\<close>

record ('a, 'h) storageService =
  st_data :: "(string, string) gomap"
  st_client :: "('a, 'h) Client"

definition logURL :: "string \<Rightarrow> string \<Rightarrow> string \<Rightarrow> string" where
  "logURL hostURL endpoint message = hostURL @ endpoint @ ''/Log?message='' @ queryEscape message"

text \<open>What the logger answers is only logged; \<open>False\<close> is a panic.\<close>

definition logOperation ::
    "(string \<Rightarrow> bool) \<Rightarrow> 'w HostRPC \<Rightarrow> 'w http_client \<Rightarrow> string \<Rightarrow> ('a, 'h) Client \<Rightarrow> 'w \<Rightarrow> 'w \<times> bool" where
  "logOperation hostOk rpc send message c w =
     (case findEndpoint rpc ''logger'' c w of
        (w', Inl _) \<Rightarrow> (w', True)
      | (w', Inr endpoint) \<Rightarrow>
          (case callHost hostOk send ''POST'' (logURL (cl_HostURL (c_cfg c)) endpoint message) c w' of
             (w'', r) \<Rightarrow> (w'', r \<noteq> None)))"

text \<open>The arrow of the log messages, in UTF-8.\<close>

definition arrow :: string where
  "arrow = '' '' @ [CHR 0xE2, CHR 0x86, CHR 0x92] @ '' ''"

definition storage_Store ::
    "(string \<Rightarrow> bool) \<Rightarrow> 'w HostRPC \<Rightarrow> 'w http_client \<Rightarrow> HttpRequest \<Rightarrow> ('a, 'h) storageService \<Rightarrow> 'w \<Rightarrow>
     ('a, 'h) storageService \<times> 'w \<times> HttpResponse option" where
  "storage_Store hostOk rpc send req s w =
     (if hq_Method req \<noteq> ''POST'' then (s, w, Some (errorResponse StatusMethodNotAllowed ''Method not allowed''))
      else
        let shortCode = queryGet (hq_RawQuery req) ''code'';
            url = queryGet (hq_RawQuery req) ''url''
        in if shortCode = '''' \<or> url = '''' then (s, w, Some (errorResponse StatusBadRequest ''Missing code or url''))
           else
             let s' = s\<lparr>st_data := (st_data s)(shortCode \<mapsto> url)\<rparr>
             in (case logOperation hostOk rpc send (''STORE '' @ shortCode @ arrow @ url) (st_client s') w of
                   (w', ok) \<Rightarrow> (s', w', if ok then Some (jsonResponse ''{\"success\": true}'') else None)))"

definition urlJSON :: "string \<Rightarrow> string" where
  "urlJSON url = ''{\"url\": \"'' @ url @ ''\"}''"

definition storage_Get ::
    "(string \<Rightarrow> bool) \<Rightarrow> 'w HostRPC \<Rightarrow> 'w http_client \<Rightarrow> HttpRequest \<Rightarrow> ('a, 'h) storageService \<Rightarrow> 'w \<Rightarrow>
     'w \<times> HttpResponse option" where
  "storage_Get hostOk rpc send req s w =
     (let shortCode = queryGet (hq_RawQuery req) ''code''
      in if shortCode = '''' then (w, Some (errorResponse StatusBadRequest ''Missing code''))
         else (case st_data s shortCode of
             None \<Rightarrow> (w, Some (errorResponse StatusNotFound ''Not found''))
           | Some url \<Rightarrow>
               (case logOperation hostOk rpc send (''GET '' @ shortCode @ arrow @ url) (st_client s) w of
                  (w', ok) \<Rightarrow> (w', if ok then Some (jsonResponse (urlJSON url)) else None))))"

text \<open>The service patterns of the mux, with what answers other paths (the control and identity services) left out.\<close>

definition storageHandler ::
    "(string \<Rightarrow> bool) \<Rightarrow> 'w HostRPC \<Rightarrow> 'w http_client \<Rightarrow> HttpRequest \<Rightarrow> ('a, 'h) storageService \<Rightarrow> 'w \<Rightarrow>
     ('a, 'h) storageService \<times> 'w \<times> HttpResponse option" where
  "storageHandler hostOk rpc send req s w =
     (if hq_Path req = ''/storage.v1.Storage/Store'' then storage_Store hostOk rpc send req s w
      else if hq_Path req = ''/storage.v1.Storage/Get'' then (s, storage_Get hostOk rpc send req s w)
      else (s, w, Some (errorResponse StatusNotFound ''404 page not found'')))"

section \<open>The API\<close>

text \<open>The code and the URL stand in the query as they are, unescaped.\<close>

definition storeRequestURL :: "string \<Rightarrow> string \<Rightarrow> string \<Rightarrow> string \<Rightarrow> string" where
  "storeRequestURL hostURL endpoint shortCode url =
     hostURL @ endpoint @ ''/Store?code='' @ shortCode @ ''&url='' @ url"

definition getRequestURL :: "string \<Rightarrow> string \<Rightarrow> string \<Rightarrow> string" where
  "getRequestURL hostURL endpoint shortCode = hostURL @ endpoint @ ''/Get?code='' @ shortCode"

definition storeURL ::
    "(string \<Rightarrow> bool) \<Rightarrow> 'w HostRPC \<Rightarrow> 'w http_client \<Rightarrow> string \<Rightarrow> string \<Rightarrow> ('a, 'h) Client \<Rightarrow> 'w \<Rightarrow>
     'w \<times> CallError option option" where
  "storeURL hostOk rpc send shortCode url c w =
     (case findEndpoint rpc ''storage'' c w of
        (w', Inl e) \<Rightarrow> (w', Some (Some e))
      | (w', Inr endpoint) \<Rightarrow>
          (case callHost hostOk send ''POST'' (storeRequestURL (cl_HostURL (c_cfg c)) endpoint shortCode url) c w' of
             (w'', None) \<Rightarrow> (w'', None)
           | (w'', Some (Inl e)) \<Rightarrow> (w'', Some (Some (RequestError e)))
           | (w'', Some (Inr resp)) \<Rightarrow>
               (w'', Some (if rs_StatusCode resp \<noteq> StatusOK then Some (StorageReturned (rs_StatusCode resp)) else None))))"

text \<open>\<open>unmarshal\<close> is \<open>json.Unmarshal\<close> into a structure with the one field \<open>url\<close>.\<close>

definition getURL ::
    "(string \<Rightarrow> bool) \<Rightarrow> (string \<Rightarrow> string + string) \<Rightarrow> 'w HostRPC \<Rightarrow> 'w http_client \<Rightarrow> string \<Rightarrow> ('a, 'h) Client \<Rightarrow> 'w \<Rightarrow>
     'w \<times> (CallError + string) option" where
  "getURL hostOk unmarshal rpc send shortCode c w =
     (case findEndpoint rpc ''storage'' c w of
        (w', Inl e) \<Rightarrow> (w', Some (Inl e))
      | (w', Inr endpoint) \<Rightarrow>
          (case callHost hostOk send ''GET'' (getRequestURL (cl_HostURL (c_cfg c)) endpoint shortCode) c w' of
             (w'', None) \<Rightarrow> (w'', None)
           | (w'', Some (Inl e)) \<Rightarrow> (w'', Some (Inl (RequestError e)))
           | (w'', Some (Inr resp)) \<Rightarrow>
               (w'', Some (if rs_StatusCode resp \<noteq> StatusOK then Inl CodeNotFound
                           else (case unmarshal (rs_Body resp) of Inl e \<Rightarrow> Inl (InvalidJSON e) | Inr url \<Rightarrow> Inr url)))))"

definition shortenedJSON :: "string \<Rightarrow> string \<Rightarrow> string" where
  "shortenedJSON shortCode url = ''{\"short_code\": \"'' @ shortCode @ ''\", \"url\": \"'' @ url @ ''\"}''"

text \<open>The four bytes the random source filled in.\<close>

definition generateShortCode :: "string \<Rightarrow> string" where
  "generateShortCode b = hexEncode (take 4 b)"

definition Shorten ::
    "(string \<Rightarrow> bool) \<Rightarrow> 'w HostRPC \<Rightarrow> 'w http_client \<Rightarrow> string \<Rightarrow> HttpRequest \<Rightarrow> ('a, 'h) Client \<Rightarrow> 'w \<Rightarrow>
     'w \<times> HttpResponse option" where
  "Shorten hostOk rpc send b req c w =
     (let url = queryGet (hq_RawQuery req) ''url''
      in if url = '''' then (w, Some (errorResponse StatusBadRequest ''Missing url parameter''))
         else
           let shortCode = generateShortCode b
           in (case storeURL hostOk rpc send shortCode url c w of
                 (w', None) \<Rightarrow> (w', None)
               | (w', Some (Some e)) \<Rightarrow>
                   (w', Some (errorResponse StatusInternalServerError (''Storage failed: '' @ errorText e)))
               | (w', Some None) \<Rightarrow>
                   (w', Some (jsonResponse (shortenedJSON shortCode url)))))"

definition Resolve ::
    "(string \<Rightarrow> bool) \<Rightarrow> (string \<Rightarrow> string + string) \<Rightarrow> 'w HostRPC \<Rightarrow> 'w http_client \<Rightarrow> HttpRequest \<Rightarrow> ('a, 'h) Client \<Rightarrow> 'w \<Rightarrow>
     'w \<times> HttpResponse option" where
  "Resolve hostOk unmarshal rpc send req c w =
     (let shortCode = queryGet (hq_RawQuery req) ''code''
      in if shortCode = '''' then (w, Some (errorResponse StatusBadRequest ''Missing code parameter''))
         else (case getURL hostOk unmarshal rpc send shortCode c w of
             (w', None) \<Rightarrow> (w', None)
           | (w', Some (Inl e)) \<Rightarrow> (w', Some (errorResponse StatusNotFound (''Not found: '' @ errorText e)))
           | (w', Some (Inr url)) \<Rightarrow> (w', Some (jsonResponse (urlJSON url)))))"

section \<open>The command line client\<close>

text \<open>
  \<^verbatim>\<open>examples/url-client/main.go\<close>: the arguments after the program's name; \<open>decode\<close> is the decoding of
  the answer into the code and the URL, respectively into the URL. What is printed are these values; an
  exit by \<open>log.Fatal\<close> is an error, a panic is \<open>None\<close>.
\<close>

datatype ClientExit = Usage | MissingArgument | UnknownCommand string | RequestFailed string | APIReturned int string | BadResponse string

definition client_call ::
    "(string \<Rightarrow> bool) \<Rightarrow> 'w http_client \<Rightarrow> (string \<Rightarrow> string + 'r) \<Rightarrow> string \<Rightarrow> string \<Rightarrow> 'w \<Rightarrow> 'w \<times> (ClientExit + 'r) option" where
  "client_call hostOk send decode meth url w =
     (case parseURL hostOk url of
        None \<Rightarrow> (w, None)
      | Some u \<Rightarrow>
          (case send meth u Map.empty w of
             (w', Inl e) \<Rightarrow> (w', Some (Inl (RequestFailed e)))
           | (w', Inr resp) \<Rightarrow>
               (w', Some (if rs_StatusCode resp \<noteq> StatusOK then Inl (APIReturned (rs_StatusCode resp) (rs_Body resp))
                          else (case decode (rs_Body resp) of Inl e \<Rightarrow> Inl (BadResponse e) | Inr r \<Rightarrow> Inr r)))))"

definition shortenURL :: "string \<Rightarrow> string \<Rightarrow> string" where
  "shortenURL apiURL url = apiURL @ ''/api.v1.API/Shorten?url='' @ url"

definition client_shorten ::
    "(string \<Rightarrow> bool) \<Rightarrow> 'w http_client \<Rightarrow> (string \<Rightarrow> string + string \<times> string) \<Rightarrow> string \<Rightarrow> string \<Rightarrow> 'w \<Rightarrow>
     'w \<times> (ClientExit + string \<times> string) option" where
  "client_shorten hostOk send decode apiURL url = client_call hostOk send decode ''POST'' (shortenURL apiURL url)"

definition client_resolve ::
    "(string \<Rightarrow> bool) \<Rightarrow> 'w http_client \<Rightarrow> (string \<Rightarrow> string + string) \<Rightarrow> string \<Rightarrow> string \<Rightarrow> 'w \<Rightarrow> 'w \<times> (ClientExit + string) option" where
  "client_resolve hostOk send decode apiURL code = client_call hostOk send decode ''GET'' (apiURL @ ''/api.v1.API/Resolve?code='' @ code)"

datatype ClientOutput = Shortened string string | Resolved string

definition client_main ::
    "(string \<Rightarrow> bool) \<Rightarrow> 'w http_client \<Rightarrow> (string \<Rightarrow> string + string \<times> string) \<Rightarrow> (string \<Rightarrow> string + string) \<Rightarrow> string \<Rightarrow> string list \<Rightarrow> 'w \<Rightarrow>
     'w \<times> (ClientExit + ClientOutput) option" where
  "client_main hostOk send decode2 decode1 apiEnv args w =
     (case args of
        [] \<Rightarrow> (w, Some (Inl Usage))
      | command # rest \<Rightarrow>
          let apiURL = (if apiEnv = '''' then ''http://localhost:8083'' else apiEnv)
          in if command = ''shorten''
             then (case rest of
                     [] \<Rightarrow> (w, Some (Inl MissingArgument))
                   | url # _ \<Rightarrow> map_prod id (map_option (map_sum id (\<lambda>(code, u). Shortened u code)))
                                  (client_shorten hostOk send decode2 apiURL url w))
             else if command = ''resolve''
             then (case rest of
                     [] \<Rightarrow> (w, Some (Inl MissingArgument))
                   | code # _ \<Rightarrow> map_prod id (map_option (map_sum id Resolved)) (client_resolve hostOk send decode1 apiURL code w))
             else (w, Some (Inl (UnknownCommand command))))"

end
