(* ===== verification/PluginProgramsProps.thy ===== *)
theory PluginProgramsProps
  imports PluginPrograms PlatformProps
begin

text \<open>
  The plugin programs against the host: a program that connected by itself ends up registered, selected by
  the registry and with its health reported; a program that waits for the platform never speaks to the
  host, so that adding it fails.
\<close>

section \<open>The host's procedures\<close>

text \<open>The handlers of the registry and of the lifecycle server on the state of the platform.\<close>

record HostEnv =
  he_keys :: "RegisterServiceRequest \<Rightarrow> string list"
  he_rnd :: "Platform \<Rightarrow> random_read"
  he_now :: time
  he_draw :: "nat \<Rightarrow> nat"

definition platformRPC :: "HostEnv \<Rightarrow> Platform HostRPC" where
  "platformRPC env =
     \<lparr>rpc_Register = (\<lambda>_ header req p.
        case RegisterService (Some (pf_lifecycleServer p)) (he_keys env req) (he_rnd env p) (he_now env) header req (pf_registry p) of
          (r, res) \<Rightarrow> (p\<lparr>pf_registry := r\<rparr>, case res of Inl _ \<Rightarrow> Some ''refused'' | Inr _ \<Rightarrow> None)),
      rpc_Discover = (\<lambda>_ header t v p.
        case DiscoverService (he_draw env) (Some (pf_lifecycleServer p)) id t v (pf_registry p) of
          (r, res) \<Rightarrow> (p\<lparr>pf_registry := r\<rparr>,
            case res of Inl _ \<Rightarrow> Inl ''not found'' | Inr None \<Rightarrow> Inl ''panic'' | Inr (Some resp) \<Rightarrow> Inr resp)),
      rpc_Report = (\<lambda>_ header req p.
        case ReportHealth header req (pf_lifecycleServer p) of
          (l, res) \<Rightarrow> (p\<lparr>pf_lifecycleServer := l\<rparr>, case res of Inl _ \<Rightarrow> Some ''refused'' | Inr _ \<Rightarrow> None))\<rparr>"

abbreviation regs :: "Platform \<Rightarrow> (string, ServiceProvider) gomap" where "regs p \<equiv> r_registrations (pf_registry p)"

text \<open>
  The order of the range over the metadata is one, the random numbers are in range, and the ids drawn in
  the loop are new.
\<close>

definition host_ok :: "HostEnv \<Rightarrow> (string, string) gomap \<Rightarrow> bool" where
  "host_ok env metadata \<longleftrightarrow> (\<forall>svc. iter_order metadata (he_keys env (serviceRequest metadata svc))) \<and> draw_ok (he_draw env)"

definition fresh_id :: "HostEnv \<Rightarrow> Platform \<Rightarrow> bool" where
  "fresh_id env p \<longleftrightarrow> (case generateRegistrationID (he_rnd env p) of None \<Rightarrow> False | Some i \<Rightarrow> regs p i = None)"

fun fresh_ids :: "HostEnv \<Rightarrow> string \<Rightarrow> http_header \<Rightarrow> (string, string) gomap \<Rightarrow> ServiceDeclaration list \<Rightarrow> Platform \<Rightarrow> bool" where
  "fresh_ids env ep h metadata [] p = True"
| "fresh_ids env ep h metadata (svc # svcs) p \<longleftrightarrow> fresh_id env p \<and>
     fresh_ids env ep h metadata svcs (fst (rpc_Register (platformRPC env) ep h (serviceRequest metadata svc) p))"

text \<open>A service the registry accepts from a plugin.\<close>

definition acceptable :: "(string, string) gomap \<Rightarrow> string \<Rightarrow> ServiceRegistry \<Rightarrow> ServiceDeclaration \<Rightarrow> bool" where
  "acceptable metadata rid r svc \<longleftrightarrow>
     ValidateServiceType (sd_Type svc) = None \<and> ValidateVersion (sd_Version svc) = None \<and>
     ValidateEndpointPath (sd_Path svc) = None \<and>
     finite (dom metadata) \<and> card (dom metadata) \<le> 100 \<and> (\<forall>k v. metadata k = Some v \<longrightarrow> entry_ok k v) \<and>
     (\<forall>ts. r_allowedServices r rid = Some ts \<longrightarrow> sd_Type svc \<in> set ts)"

definition offered :: "string \<Rightarrow> (string, string) gomap \<Rightarrow> ServiceDeclaration \<Rightarrow> ServiceProvider \<Rightarrow> bool" where
  "offered rid metadata svc q \<longleftrightarrow>
     sp_RuntimeID q = rid \<and> sp_ServiceType q = sd_Type svc \<and> sp_Version q = sd_Version svc \<and>
     sp_EndpointPath q = sd_Path svc \<and> sp_Metadata q = metadata"

text \<open>A state that has everything an earlier one has.\<close>

definition keeps :: "Platform \<Rightarrow> Platform \<Rightarrow> bool" where
  "keeps p p' \<longleftrightarrow> wf_registry (pf_registry p') \<and> regs p \<subseteq>\<^sub>m regs p' \<and>
     r_allowedServices (pf_registry p') = r_allowedServices (pf_registry p) \<and> pf_lifecycleServer p' = pf_lifecycleServer p"

lemma keeps_trans: "keeps p q \<Longrightarrow> keeps q r \<Longrightarrow> keeps p r"
  by (auto simp: keeps_def intro: map_le_trans)

lemma register_one:
  assumes host: "host_ok env metadata" and new: "fresh_id env p" and wf: "wf_registry (pf_registry p)"
    and rid: "header_get h ''X-Plugin-Runtime-ID'' = rid" "rid \<noteq> ''''"
    and ok: "acceptable metadata rid (pf_registry p) svc"
  shows "\<exists>p' q. rpc_Register (platformRPC env) ep h (serviceRequest metadata svc) p = (p', None) \<and> keeps p p' \<and>
    q \<in> ran (regs p') \<and> offered rid metadata svc q"
proof -
  let ?req = "serviceRequest metadata svc"
  obtain i where i: "generateRegistrationID (he_rnd env p) = Some i" "regs p i = None"
    using new by (auto simp: fresh_id_def split: option.splits)
  have keys: "iter_order (rsr_Metadata ?req) (he_keys env ?req)"
    using host unfolding host_ok_def by (simp add: serviceRequest_def)
  have may: "mayRegister (he_keys env ?req) h ?req (pf_registry p)"
    using ok rid unfolding mayRegister_def validateMetadata_ok [OF keys]
    by (simp add: acceptable_def serviceRequest_def)
  let ?q = "newProvider i (he_now env) h ?req"
  let ?r = "notifyWatchersLocked (Some (pf_lifecycleServer p)) (sd_Type svc) (storeProvider ?q (pf_registry p))"
  have reg: "RegisterService (Some (pf_lifecycleServer p)) (he_keys env ?req) (he_rnd env p) (he_now env) h ?req (pf_registry p) = (?r, Inr i)"
  proof -
    have "rsr_ServiceType ?req = sd_Type svc" by (simp add: serviceRequest_def)
    then show ?thesis by (simp only: RegisterService_accepted [OF may] i(1) option.case)
  qed
  have wf': "wf_registry ?r"
    using wf_registry_RegisterService [OF wf keys, of "he_rnd env p" "Some (pf_lifecycleServer p)" "he_now env" h] i
    by (simp add: reg)
  have regs: "r_registrations ?r = (regs p)(i \<mapsto> ?q)"
    by (simp add: frame storeProvider_def) (simp add: newProvider_def)
  have "regs p \<subseteq>\<^sub>m (regs p)(i \<mapsto> ?q)" using i(2) by (auto simp: map_le_def dom_def)
  then have "keeps p (p\<lparr>pf_registry := ?r\<rparr>)"
    using wf' by (simp add: keeps_def regs) (simp add: frame storeProvider_def)
  moreover have "?q \<in> ran (regs (p\<lparr>pf_registry := ?r\<rparr>))" by (auto simp: regs ran_def)
  moreover have "offered rid metadata svc ?q" using rid by (simp add: offered_def newProvider_def serviceRequest_def)
  moreover have "rpc_Register (platformRPC env) ep h ?req p = (p\<lparr>pf_registry := ?r\<rparr>, None)"
    by (simp add: platformRPC_def reg)
  ultimately show ?thesis by blast
qed

lemma registerLoop_ok:
  assumes host: "host_ok env metadata" and rid: "header_get h ''X-Plugin-Runtime-ID'' = rid" "rid \<noteq> ''''"
  shows "wf_registry (pf_registry p) \<Longrightarrow> fresh_ids env ep h metadata svcs p \<Longrightarrow> \<forall>svc\<in>set svcs. acceptable metadata rid (pf_registry p) svc \<Longrightarrow>
    \<exists>p'. registerLoop (platformRPC env) ep h metadata svcs p = (p', None) \<and> keeps p p' \<and>
      (\<forall>svc\<in>set svcs. \<exists>q\<in>ran (regs p'). offered rid metadata svc q)"
proof (induction svcs arbitrary: p)
  case Nil
  then show ?case by (simp add: keeps_def)
next
  case (Cons svc svcs)
  obtain p1 q where p1: "rpc_Register (platformRPC env) ep h (serviceRequest metadata svc) p = (p1, None)" "keeps p p1"
      "q \<in> ran (regs p1)" "offered rid metadata svc q"
    using register_one [OF host _ Cons.prems(1) rid, of svc ep] Cons.prems(2,3) by auto
  have "\<forall>s\<in>set svcs. acceptable metadata rid (pf_registry p1) s"
    using Cons.prems(3) p1(2) by (simp add: acceptable_def keeps_def)
  moreover have "fresh_ids env ep h metadata svcs p1" using Cons.prems(2) by (simp add: p1(1))
  ultimately obtain p' where p': "registerLoop (platformRPC env) ep h metadata svcs p1 = (p', None)" "keeps p1 p'"
      "\<forall>s\<in>set svcs. \<exists>q\<in>ran (regs p'). offered rid metadata s q"
    using Cons.IH [of p1] p1(2) by (auto simp: keeps_def)
  have "q \<in> ran (regs p')"
    using p1(3) p'(2) by (force simp: keeps_def map_le_def ran_def dom_def)
  then show ?case using p1 p' keeps_trans [OF p1(2) p'(2)] by auto
qed


section \<open>Reporting\<close>

lemma clientHeader_id: "header_get (clientHeader c) ''X-Plugin-Runtime-ID'' = c_runtimeID c"
  by (simp add: clientHeader_def identityHeader_def header_get_set canonical_keys)

lemma reportHealth_ok:
  assumes "c_lifecycleClient c = Some ep" and "c_runtimeID c \<noteq> ''''"
  shows "fst (reportHealth (platformRPC env) state reason deps c p) =
    p\<lparr>pf_lifecycleServer := (pf_lifecycleServer p)\<lparr>lc_states := (lc_states (pf_lifecycleServer p))(c_runtimeID c \<mapsto>
        \<lparr>phs_State = state, phs_Reason = reason, phs_UnavailableDependencies = deps\<rparr>)\<rparr>\<rparr>"
  using assms by (simp add: reportHealth_def platformRPC_def ReportHealth_def clientHeader_id)

text \<open>What is left alone when a provider is selected and a health state reported.\<close>

definition sameServices :: "Platform \<Rightarrow> Platform \<Rightarrow> bool" where
  "sameServices p p' \<longleftrightarrow> regs p' = regs p \<and> r_providers (pf_registry p') = r_providers (pf_registry p)"

lemma DiscoverService_result:
  assumes "draw_ok draw"
  shows "r_registrations (fst (DiscoverService draw lc id t v r)) = r_registrations r"
    "r_providers (fst (DiscoverService draw lc id t v r)) = r_providers r"
    "eligible lc t v r = [] \<Longrightarrow> \<exists>e. snd (DiscoverService draw lc id t v r) = Inl e"
    "eligible lc t v r \<noteq> [] \<Longrightarrow> \<exists>resp. snd (DiscoverService draw lc id t v r) = Inr (Some resp)"
proof -
  obtain r1 res where s: "SelectProvider draw lc t v r = (r1, res)" by (metis surj_pair)
  have f: "r_registrations r1 = r_registrations r" "r_providers r1 = r_providers r"
    using SelectProvider_frame(1,2) [of draw lc t v r] by (simp_all add: s)
  show "r_registrations (fst (DiscoverService draw lc id t v r)) = r_registrations r"
    "r_providers (fst (DiscoverService draw lc id t v r)) = r_providers r"
    using f by (auto simp: DiscoverService_def s split: sum.split option.split)
  show "\<exists>e. snd (DiscoverService draw lc id t v r) = Inl e" if "eligible lc t v r = []"
    using SelectProvider_fails [OF that, of draw] s by (auto simp: DiscoverService_def)
  show "\<exists>resp. snd (DiscoverService draw lc id t v r) = Inr (Some resp)" if "eligible lc t v r \<noteq> []"
    using SelectProvider_succeeds [OF assms that] s by (auto simp: DiscoverService_def)
qed

lemma checkDependency_ok:
  assumes host: "draw_ok (he_draw env)" and c: "c_lifecycleClient c = Some ep'" "c_runtimeID c \<noteq> ''''"
  shows "sameServices (sleep p) (checkDependency (platformRPC env) sleep dep ep c p) \<and>
    (\<exists>st. GetHealthState (pf_lifecycleServer (checkDependency (platformRPC env) sleep dep ep c p)) (c_runtimeID c) = Some st \<and>
       phs_State st = (if eligible (Some (pf_lifecycleServer (sleep p))) dep ''1.0.0'' (pf_registry (sleep p)) = []
                       then HEALTH_STATE_DEGRADED else HEALTH_STATE_HEALTHY))"
proof -
  let ?q = "sleep p"
  note d = DiscoverService_result [OF host, of "Some (pf_lifecycleServer ?q)" dep "''1.0.0''" "pf_registry ?q"]
  obtain r res where r: "DiscoverService (he_draw env) (Some (pf_lifecycleServer ?q)) id dep ''1.0.0'' (pf_registry ?q) = (r, res)"
    by (metis surj_pair)
  have same: "r_registrations r = regs ?q" "r_providers r = r_providers (pf_registry ?q)" using d(1,2) by (simp_all add: r)
  show ?thesis
  proof (cases "eligible (Some (pf_lifecycleServer ?q)) dep ''1.0.0'' (pf_registry ?q) = []")
    case True
    then obtain e where "res = Inl e" using d(3) r by auto
    then have "checkDependency (platformRPC env) sleep dep ep c p =
        fst (reportHealth (platformRPC env) HEALTH_STATE_DEGRADED (dep @ '' dependency not available'') [dep] c (?q\<lparr>pf_registry := r\<rparr>))"
      by (simp add: checkDependency_def platformRPC_def r)
    then show ?thesis using True same by (simp add: reportHealth_ok [OF c] sameServices_def GetHealthState_def)
  next
    case False
    then obtain resp where "res = Inr (Some resp)" using d(4) r by auto
    then have "checkDependency (platformRPC env) sleep dep ep c p =
        fst (reportHealth (platformRPC env) HEALTH_STATE_HEALTHY '''' [] c (?q\<lparr>pf_registry := r\<rparr>))"
      by (simp add: checkDependency_def platformRPC_def r)
    then show ?thesis using False same by (simp add: reportHealth_ok [OF c] sameServices_def GetHealthState_def)
  qed
qed

text \<open>The key-value server is registered, and known as healthy, when the host accepts the registration.\<close>

lemma kv_registerService_ok:
  fixes c :: "('a, 'h) Client"
  assumes c: "c_registryClient c = Some ep" "c_lifecycleClient c = Some ep'" "c_runtimeID c = rid" "rid \<noteq> ''''"
    and m: "m = [''base_url'' \<mapsto> myBaseURL port (pe\<lparr>pe_PORT := ''''\<rparr>)]"
    and host: "host_ok env m" "fresh_id env p" "wf_registry (pf_registry p)"
    and ok: "acceptable m rid (pf_registry p) (version1 ''kv'' ''/kv.v1.KVService/'')"
  defines "p' \<equiv> kv_registerService port pe (platformRPC env) c p"
  shows "\<exists>q\<in>ran (regs p'). offered rid m (version1 ''kv'' ''/kv.v1.KVService/'') q"
    and "\<exists>st. GetHealthState (pf_lifecycleServer p') rid = Some st \<and> phs_State st = HEALTH_STATE_HEALTHY"
proof -
  have rid: "header_get (clientHeader c) ''X-Plugin-Runtime-ID'' = rid" by (simp add: clientHeader_id c(3))
  obtain p1 q where p1: "rpc_Register (platformRPC env) ep (clientHeader c) (serviceRequest m (version1 ''kv'' ''/kv.v1.KVService/'')) p = (p1, None)"
      "q \<in> ran (regs p1)" "offered rid m (version1 ''kv'' ''/kv.v1.KVService/'') q"
    using register_one [OF host rid c(4) ok, of ep] by blast
  have "c_runtimeID c \<noteq> ''''" using c(3,4) by simp
  note report = reportHealth_ok [OF c(2) this, of env HEALTH_STATE_HEALTHY "''''" "[]" p1]
  have "p' = fst (reportHealth (platformRPC env) HEALTH_STATE_HEALTHY '''' [] c p1)"
    using p1(1) by (simp add: p'_def kv_registerService_def c(1) m serviceRequest_def version1_def)
  then show "\<exists>q\<in>ran (regs p'). offered rid m (version1 ''kv'' ''/kv.v1.KVService/'') q"
    and "\<exists>st. GetHealthState (pf_lifecycleServer p') rid = Some st \<and> phs_State st = HEALTH_STATE_HEALTHY"
    using p1(2,3) unfolding report by (auto simp: GetHealthState_def c(3))
qed

section \<open>The programs in one form\<close>

definition programDependency :: "PluginProgram \<Rightarrow> string option" where
  "programDependency prog = (case prog of LoggerPlugin \<Rightarrow> None | CachePlugin \<Rightarrow> Some ''logger'' | AppPlugin \<Rightarrow> Some ''cache''
     | StoragePlugin \<Rightarrow> Some ''logger'' | ApiPlugin \<Rightarrow> Some ''storage'')"

definition programMetadata :: "PluginProgram \<Rightarrow> PluginEnv \<Rightarrow> (string, string) gomap" where
  "programMetadata prog pe = (case prog of LoggerPlugin \<Rightarrow> [''base_url'' \<mapsto> myBaseURL ''8081'' pe] | CachePlugin \<Rightarrow> Map.empty
     | AppPlugin \<Rightarrow> Map.empty | StoragePlugin \<Rightarrow> [''base_url'' \<mapsto> myBaseURL ''8082'' pe]
     | ApiPlugin \<Rightarrow> [''base_url'' \<mapsto> myBaseURL ''8083'' pe])"

abbreviation declared :: "PluginProgram \<Rightarrow> ServiceDeclaration list" where
  "declared prog \<equiv> pm_Provides (cl_Metadata (programConfig prog '''' :: (unit, unit) ClientConfig))"

lemma registerServices_eq:
  assumes "c_registryClient c = Some ep" and "myServices c = declared prog"
  shows "registerServices prog pe rpc sleep c w =
    (case registerLoop rpc ep (clientHeader c) (programMetadata prog pe) (myServices c) w of
       (w', Some e) \<Rightarrow> (w', Some e)
     | (w', None) \<Rightarrow> (case programDependency prog of
           None \<Rightarrow> fst (reportHealth rpc HEALTH_STATE_HEALTHY '''' [] c (sleep w'))
         | Some dep \<Rightarrow> checkDependency rpc sleep dep ep c w', None))"
  using assms
  by (cases prog; hypsubst_thin)
    (simp_all add: registerServices_def programDependency_def programMetadata_def logger_registerServices_def
      cache_registerServices_def app_registerServices_def storage_registerServices_def api_registerServices_def
      programConfig_defs programClient_def split: prod.split option.split)

lemma declared_valid:
  assumes "svc \<in> set (declared prog)"
  shows "ValidateServiceType (sd_Type svc) = None \<and> ValidateVersion (sd_Version svc) = None \<and> ValidateEndpointPath (sd_Path svc) = None"
proof -
  have v: "ValidateServiceType ''logger'' = None" "ValidateServiceType ''cache'' = None" "ValidateServiceType ''storage'' = None"
    "ValidateServiceType ''api'' = None" "ValidateVersion ''1.0.0'' = None" "ValidateEndpointPath ''/logger.v1.Logger/'' = None"
    "ValidateEndpointPath ''/cache.v1.Cache/'' = None" "ValidateEndpointPath ''/storage.v1.Storage/'' = None"
    "ValidateEndpointPath ''/api.v1.API/'' = None"
    by code_simp+
  show ?thesis
    using assms by (cases prog) (simp_all add: programConfig_defs programClient_def version1_def v)
qed


section \<open>A program that connects by itself\<close>

text \<open>Whatever happens while the program sleeps, its own registrations stay.\<close>

definition undisturbed :: "string \<Rightarrow> (Platform \<Rightarrow> Platform) \<Rightarrow> bool" where
  "undisturbed rid sleep \<longleftrightarrow> (\<forall>p. wf_registry (pf_registry p) \<longrightarrow> wf_registry (pf_registry (sleep p)) \<and>
     (\<forall>q\<in>ran (regs p). sp_RuntimeID q = rid \<longrightarrow> q \<in> ran (regs (sleep p))))"

lemma wf_sameServices: "sameServices p p' \<Longrightarrow> wf_registry (pf_registry p') = wf_registry (pf_registry p)"
  by (intro wf_registry_cong) (simp_all add: sameServices_def)

text \<open>The last part of \<open>registerServices\<close>: the health a program reports about itself.\<close>

definition dependencyMet :: "PluginProgram \<Rightarrow> Platform \<Rightarrow> bool" where
  "dependencyMet prog q \<longleftrightarrow> (\<forall>dep. programDependency prog = Some dep \<longrightarrow>
     eligible (Some (pf_lifecycleServer q)) dep ''1.0.0'' (pf_registry q) \<noteq> [])"

lemma finish_ok:
  assumes host: "draw_ok (he_draw env)" and c: "c_lifecycleClient c = Some ep'" "c_runtimeID c \<noteq> ''''"
    and p': "p' = (case programDependency prog of
           None \<Rightarrow> fst (reportHealth (platformRPC env) HEALTH_STATE_HEALTHY '''' [] c (sleep p))
         | Some dep \<Rightarrow> checkDependency (platformRPC env) sleep dep ep c p)"
  shows "sameServices (sleep p) p' \<and> (\<exists>st. GetHealthState (pf_lifecycleServer p') (c_runtimeID c) = Some st \<and>
     phs_State st = (if dependencyMet prog (sleep p) then HEALTH_STATE_HEALTHY else HEALTH_STATE_DEGRADED))"
proof (cases "programDependency prog")
  case None
  then show ?thesis by (simp add: p' reportHealth_ok [OF c] sameServices_def GetHealthState_def dependencyMet_def)
next
  case (Some dep)
  then show ?thesis using checkDependency_ok [OF host c, of sleep p dep ep] by (simp add: p' dependencyMet_def split: if_splits)
qed

lemma registerServices_served:
  assumes host: "host_ok env (programMetadata prog pe)" and wf: "wf_registry (pf_registry p)"
    and new: "fresh_ids env ep (clientHeader c) (programMetadata prog pe) (declared prog) p"
    and c: "c_registryClient c = Some ep" "c_lifecycleClient c = Some ep'" "c_runtimeID c = rid" "rid \<noteq> ''''"
    and services: "myServices c = declared prog"
    and metadata: "\<forall>k v. programMetadata prog pe k = Some v \<longrightarrow> entry_ok k v"
    and allowed: "\<forall>ts. r_allowedServices (pf_registry p) rid = Some ts \<longrightarrow> sd_Type ` set (declared prog) \<subseteq> set ts"
    and sleep: "undisturbed rid sleep"
  shows "\<exists>p' q. registerServices prog pe (platformRPC env) sleep c p = (p', None) \<and> wf_registry (pf_registry p') \<and>
    (\<forall>svc\<in>set (declared prog). \<exists>x\<in>set (eligible (Some (pf_lifecycleServer p')) (sd_Type svc) (sd_Version svc) (pf_registry p')).
       offered rid (programMetadata prog pe) svc x) \<and>
    registerLoop (platformRPC env) ep (clientHeader c) (programMetadata prog pe) (declared prog) p = (q, None) \<and>
    (\<exists>st. GetHealthState (pf_lifecycleServer p') rid = Some st \<and>
       phs_State st = (if dependencyMet prog (sleep q) then HEALTH_STATE_HEALTHY else HEALTH_STATE_DEGRADED))"
proof -
  let ?m = "programMetadata prog pe"
  have rid: "header_get (clientHeader c) ''X-Plugin-Runtime-ID'' = rid" by (simp add: clientHeader_id c(3))
  have small: "finite (dom ?m) \<and> card (dom ?m) \<le> 100" by (cases prog) (simp_all add: programMetadata_def)
  have "\<forall>svc\<in>set (declared prog). acceptable ?m rid (pf_registry p) svc"
  proof
    fix svc
    assume svc: "svc \<in> set (declared prog)"
    have "\<forall>ts. r_allowedServices (pf_registry p) rid = Some ts \<longrightarrow> sd_Type svc \<in> set ts" using allowed svc by blast
    then show "acceptable ?m rid (pf_registry p) svc"
      using declared_valid [OF svc] small metadata unfolding acceptable_def by blast
  qed
  from registerLoop_ok [OF host rid c(4) wf new this] obtain q where
    q: "registerLoop (platformRPC env) ep (clientHeader c) ?m (declared prog) p = (q, None)" "keeps p q"
      "\<forall>svc\<in>set (declared prog). \<exists>x\<in>ran (regs q). offered rid ?m svc x" by blast
  define p' where "p' = (case programDependency prog of
           None \<Rightarrow> fst (reportHealth (platformRPC env) HEALTH_STATE_HEALTHY '''' [] c (sleep q))
         | Some dep \<Rightarrow> checkDependency (platformRPC env) sleep dep ep c q)"
  have reg: "registerServices prog pe (platformRPC env) sleep c p = (p', None)"
    by (simp add: registerServices_eq [OF c(1) services] services q(1) p'_def)
  have id: "c_runtimeID c \<noteq> ''''" using c(3,4) by simp
  obtain st where same: "sameServices (sleep q) p'" and st: "GetHealthState (pf_lifecycleServer p') rid = Some st"
      "phs_State st = (if dependencyMet prog (sleep q) then HEALTH_STATE_HEALTHY else HEALTH_STATE_DEGRADED)"
    using finish_ok [OF _ c(2) id p'_def] host c(3) by (auto simp: host_ok_def)
  have wfq: "wf_registry (pf_registry q)" using q(2) by (simp add: keeps_def)
  then have wf': "wf_registry (pf_registry p')"
    using sleep wf_sameServices [OF same] by (simp add: undisturbed_def)
  have routed: "ShouldRouteTraffic (pf_lifecycleServer p') rid"
    using st by (simp add: ShouldRouteTraffic_def split: if_splits)
  have "\<exists>x\<in>set (eligible (Some (pf_lifecycleServer p')) (sd_Type svc) (sd_Version svc) (pf_registry p')). offered rid ?m svc x"
    if svc: "svc \<in> set (declared prog)" for svc
  proof -
    from bspec [OF q(3) svc] obtain x where x: "x \<in> ran (regs q)" "offered rid ?m svc x" by (elim bexE) (rule that)
    then have "x \<in> ran (regs p')"
      using sleep wfq same by (simp add: undisturbed_def sameServices_def offered_def)
    then have "regs p' (sp_RegistrationID x) = Some x" using wf_registryD(2) [OF wf'] by (auto simp: ran_def)
    moreover have "available (Some (pf_lifecycleServer p')) x" using routed x(2) by (simp add: available_def offered_def)
    ultimately have "x \<in> set (eligible (Some (pf_lifecycleServer p')) (sd_Type svc) (sd_Version svc) (pf_registry p'))"
      using x(2) by (simp add: eligible_registered [OF wf'] offered_def compatible_def)
    then show ?thesis using x(2) by (rule bexI [rotated])
  qed
  then show ?thesis
    using reg wf' q(1) st by (intro exI [of _ p'] exI [of _ q] conjI ballI; (assumption | simp)?)
qed

text \<open>C14. A plugin program that connects to the host by itself is served: it starts without an exit,
  every service it declares is then registered under its runtime id with its version, path and base URL,
  and the registry may select it; the host knows the plugin as healthy when it found what it depends on
  after its sleep, and as degraded otherwise. (The app plugin is left out: it reports nothing.)\<close>
theorem started_program_served:
  fixes c :: "('a, 'h) Client"
  assumes start: "prog \<noteq> AppPlugin" "pe_HOST_URL pe \<noteq> ''''"
    and connect: "\<forall>c0. NewClient [] (programConfig prog (pe_HOST_URL pe)) = Inr c0 \<longrightarrow> connect c0 w = (p, c, None)"
    and host: "host_ok env (programMetadata prog pe)" and wf: "wf_registry (pf_registry p)"
    and new: "fresh_ids env ep (clientHeader c) (programMetadata prog pe) (declared prog) p"
    and c: "c_registryClient c = Some ep" "c_lifecycleClient c = Some ep'" "c_runtimeID c = rid" "rid \<noteq> ''''"
    and services: "myServices c = declared prog"
    and metadata: "\<forall>k v. programMetadata prog pe k = Some v \<longrightarrow> entry_ok k v"
    and allowed: "\<forall>ts. r_allowedServices (pf_registry p) rid = Some ts \<longrightarrow> sd_Type ` set (declared prog) \<subseteq> set ts"
    and sleep: "undisturbed rid sleep"
  shows "\<exists>p' q. startProgram prog pe (platformRPC env) connect sleep w = (p', Inr c) \<and> wf_registry (pf_registry p') \<and>
    (\<forall>svc\<in>set (declared prog). \<exists>x\<in>set (eligible (Some (pf_lifecycleServer p')) (sd_Type svc) (sd_Version svc) (pf_registry p')).
       offered rid (programMetadata prog pe) svc x) \<and>
    registerLoop (platformRPC env) ep (clientHeader c) (programMetadata prog pe) (declared prog) p = (q, None) \<and>
    (\<exists>st. GetHealthState (pf_lifecycleServer p') rid = Some st \<and>
       phs_State st = (if dependencyMet prog (sleep q) then HEALTH_STATE_HEALTHY else HEALTH_STATE_DEGRADED))"
proof -
  obtain c0 :: "('a, 'h) Client" where c0: "NewClient [] (programConfig prog (pe_HOST_URL pe)) = Inr c0"
    using start(2) by (cases prog)
      (auto simp: NewClient_def ClientConfig_Validate_def programConfig_defs programClient_def Let_def split: if_splits)
  have "startProgram prog pe (platformRPC env) connect sleep w =
      (case registerServices prog pe (platformRPC env) sleep c p of (w2, Some e) \<Rightarrow> (w2, Inl e) | (w2, None) \<Rightarrow> (w2, Inr c))"
    using start c0 connect by (simp add: startProgram_def Let_def)
  then show ?thesis
    using registerServices_served [OF host wf new c services metadata allowed sleep]
    by (elim exE conjE) (intro exI conjI; (assumption | simp)?)
qed

section \<open>A program that waits for the platform\<close>

lemma NewClient_fresh:
  "NewClient [] (programConfig prog url) = Inr c \<Longrightarrow> c_httpClient c = None \<and> c_registryClient c = None \<and> c_lifecycleClient c = None"
  by (cases prog) (auto simp: NewClient_def ClientConfig_Validate_def programConfig_defs programClient_def Let_def split: if_splits)

text \<open>The identity the platform assigns does not make the clients: there is no HTTP client to make them with.\<close>

lemma handleIdentity_silent:
  assumes "c_httpClient c = None" "c_registryClient c = None" and "handleIdentity prog rid tok url c = Some c'"
  shows "c_httpClient c' = None \<and> c_registryClient c' = None"
  using assms
  by (auto simp: handleIdentity_def logger_SetRuntimeIdentity_def storage_SetRuntimeIdentity_def SetRuntimeIdentity_def Let_def split: if_splits)

lemma registerServices_silent: "c_registryClient c = None \<Longrightarrow> registerServices prog pe rpc sleep c w = (w, None)"
  by (cases prog) (simp_all add: registerServices_def logger_registerServices_def cache_registerServices_def
      app_registerServices_def storage_registerServices_def api_registerServices_def)

text \<open>What the program and the rest of the system may do at a tick: nobody else speaks for the plugin.\<close>

inductive managed_tick :: "('a, 'h) Client \<Rightarrow> PluginProgram \<Rightarrow> string \<Rightarrow> (Platform \<Rightarrow> Platform) \<Rightarrow> bool" for c prog rid where
  tick_program: "handleIdentity prog rid' tok url c = Some c' \<Longrightarrow>
      managed_tick c prog rid (\<lambda>p. fst (registerServices prog pe rpc sleep c' p))"
| tick_others: "(\<And>p. GetHealthState (pf_lifecycleServer (f p)) rid = GetHealthState (pf_lifecycleServer p) rid) \<Longrightarrow>
      managed_tick c prog rid f"
| tick_both: "managed_tick c prog rid f \<Longrightarrow> managed_tick c prog rid g \<Longrightarrow> managed_tick c prog rid (\<lambda>p. g (f p))"

lemma managed_tick_silent:
  assumes "managed_tick c prog rid f" and "c_httpClient c = None" "c_registryClient c = None"
  shows "GetHealthState (pf_lifecycleServer (f p)) rid = GetHealthState (pf_lifecycleServer p) rid"
  using assms(1)
proof (induction arbitrary: p rule: managed_tick.induct)
  case (tick_program rid' tok url c' pe rpc sleep)
  then have "c_registryClient c' = None" using handleIdentity_silent [OF assms(2,3)] by blast
  then have "registerServices prog pe rpc sleep c' p = (p, None)" by (rule registerServices_silent)
  then show ?case by simp
qed simp_all

lemma waitForHealthy_silent:
  assumes "\<forall>ev\<in>set events. \<forall>t f. ev = TickAt t f \<longrightarrow>
      (\<forall>p. GetHealthState (pf_lifecycleServer (f p)) rid = GetHealthState (pf_lifecycleServer p) rid)"
    and "GetHealthState (pf_lifecycleServer p) rid = None"
  shows "waitForHealthy deadline rid events p \<noteq> Some (p', None)"
  using assms
proof (induction deadline rid events p rule: waitForHealthy.induct)
  case (3 deadline rid now f es p)
  have "GetHealthState (pf_lifecycleServer (f p)) rid = None" using "3.prems" by simp
  then show ?case using "3.IH" "3.prems" by (simp add: Let_def reportsHealthy_def)
qed simp_all

text \<open>C32. A managed plugin program is never added: it has no HTTP client before it connects, so the identity
  the platform sends gives it no clients of the host's services, its \<open>registerServices\<close> returns at once,
  and the platform waits for a health report in vain.\<close>
theorem managed_program_never_added:
  assumes "NewClient [] (programConfig prog url) = Inr c"
    and "\<forall>rid. generateRuntimeID selfID rnd1 = Some rid \<longrightarrow> GetHealthState (pf_lifecycleServer (env p)) rid = None \<and>
           (\<forall>ev\<in>set events. \<forall>t f. ev = TickAt t f \<longrightarrow> managed_tick c prog rid f)"
    and "selfID = cl_SelfID (programConfig prog url :: ('a, 'h) ClientConfig)"
  shows "AddPlugin (\<lambda>_. Inr (GetPluginInfo (c :: ('a, 'h) Client)))
      (\<lambda>_ (rid, tok, url). if handleIdentity prog rid tok url c = None then Some ''panic'' else None)
      env rnd1 rnd2 now events config p \<noteq> Some (p', None)"
proof
  assume add: "AddPlugin (\<lambda>_. Inr (GetPluginInfo c))
      (\<lambda>_ (rid, tok, url). if handleIdentity prog rid tok url c = None then Some ''panic'' else None)
      env rnd1 rnd2 now events config p = Some (p', None)"
  have fresh: "c_httpClient c = None" "c_registryClient c = None" using NewClient_fresh [OF assms(1)] by simp_all
  have self: "gpi_SelfId (GetPluginInfo c) = selfID" "selfID \<noteq> ''''"
    using assms(1,3) by (cases prog; auto simp: NewClient_def ClientConfig_Validate_def programConfig_defs programClient_def
        GetPluginInfo_def Let_def split: if_splits)+
  obtain rid p2 p3 where rid: "generateRuntimeID selfID rnd1 = Some rid"
    and wait: "waitForHealthy (time_add now (30 * Second)) rid events p2 = Some (p3, None)"
    and p2: "pf_lifecycleServer p2 = pf_lifecycleServer (env p)"
    using add self
    by (auto simp: AddPlugin_def Let_def AddToDependencyGraph_def split: option.splits prod.splits if_splits)
  have "GetHealthState (pf_lifecycleServer p2) rid = None" using assms(2) rid p2 by simp
  moreover have "\<forall>ev\<in>set events. \<forall>t f. ev = TickAt t f \<longrightarrow>
      (\<forall>p. GetHealthState (pf_lifecycleServer (f p)) rid = GetHealthState (pf_lifecycleServer p) rid)"
    using assms(2) rid managed_tick_silent [OF _ fresh] by blast
  ultimately show False using waitForHealthy_silent wait by blast
qed


section \<open>Examples\<close>

definition example_platform :: Platform where
  "example_platform = NewPlatform NewServiceRegistry NewLifecycleServer NewServiceRouter"

definition example_host_env :: HostEnv where
  "example_host_env = \<lparr>he_keys = \<lambda>_. [''base_url''], he_rnd = \<lambda>_. Some ''abcdefgh'', he_now = 5, he_draw = \<lambda>_. 0\<rparr>"

definition example_plugin_env :: PluginEnv where
  "example_plugin_env = \<lparr>pe_PORT = '''', pe_HOSTNAME = '''', pe_HOST_URL = ''http://host''\<rparr>"

definition example_logger :: "(unit, unit) Client" where
  "example_logger = \<lparr>c_cfg = programConfig LoggerPlugin ''http://host'', c_connected = True, c_closed = False, c_httpClient = Some (),
     c_runtimeID = ''logger-a1b2'', c_runtimeToken = ''secret'', c_lifecycleClient = Some ''http://host'',
     c_registryClient = Some ''http://host''\<rparr>"

lemma started_program_served_witness:
  "\<exists>p'. startProgram LoggerPlugin example_plugin_env (platformRPC example_host_env) (\<lambda>c0 w. (w, example_logger, None)) id
       example_platform = (p', Inr example_logger) \<and>
     (\<exists>x\<in>set (eligible (Some (pf_lifecycleServer p')) ''logger'' ''1.0.0'' (pf_registry p')). sp_RuntimeID x = ''logger-a1b2'') \<and>
     (\<exists>st. GetHealthState (pf_lifecycleServer p') ''logger-a1b2'' = Some st \<and> phs_State st = HEALTH_STATE_HEALTHY)"
proof -
  have svc: "declared LoggerPlugin = [version1 ''logger'' ''/logger.v1.Logger/'']" by (simp add: programConfig_defs programClient_def)
  have md: "programMetadata LoggerPlugin example_plugin_env = [''base_url'' \<mapsto> ''http://localhost:8081'']"
    by (simp add: programMetadata_def myBaseURL_def example_plugin_env_def)
  have "validateEntry ''base_url'' ''http://localhost:8081'' = None" by code_simp
  then have entry: "\<forall>k v. programMetadata LoggerPlugin example_plugin_env k = Some v \<longrightarrow> entry_ok k v"
    unfolding md by (simp add: validateEntry_ok)
  have "generateRegistrationID (Some ''abcdefgh'') \<noteq> None" by code_simp
  then have fresh: "fresh_ids example_host_env ''http://host'' (clientHeader example_logger)
      (programMetadata LoggerPlugin example_plugin_env) (declared LoggerPlugin) example_platform"
    unfolding svc by (auto simp: fresh_id_def example_host_env_def example_platform_def NewPlatform_def NewServiceRegistry_def)
  have host: "host_ok example_host_env (programMetadata LoggerPlugin example_plugin_env)"
    unfolding md by (simp add: host_ok_def example_host_env_def iter_order_def draw_ok_def)
  have wf: "wf_registry (pf_registry example_platform)"
    using registry_inv_new by (simp add: example_platform_def NewPlatform_def registry_inv_def)
  have "\<exists>p' q. startProgram LoggerPlugin example_plugin_env (platformRPC example_host_env) (\<lambda>c0 w. (w, example_logger, None)) id
       example_platform = (p', Inr example_logger) \<and> wf_registry (pf_registry p') \<and>
    (\<forall>svc\<in>set (declared LoggerPlugin). \<exists>x\<in>set (eligible (Some (pf_lifecycleServer p')) (sd_Type svc) (sd_Version svc) (pf_registry p')).
       offered ''logger-a1b2'' (programMetadata LoggerPlugin example_plugin_env) svc x) \<and>
    registerLoop (platformRPC example_host_env) ''http://host'' (clientHeader example_logger)
      (programMetadata LoggerPlugin example_plugin_env) (declared LoggerPlugin) example_platform = (q, None) \<and>
    (\<exists>st. GetHealthState (pf_lifecycleServer p') ''logger-a1b2'' = Some st \<and>
       phs_State st = (if dependencyMet LoggerPlugin (id q) then HEALTH_STATE_HEALTHY else HEALTH_STATE_DEGRADED))"
    by (rule started_program_served [OF _ _ _ host wf fresh _ _ _ _ _ entry])
      (simp_all add: example_plugin_env_def example_logger_def myServices_def undisturbed_def programConfig_defs programClient_def
        example_platform_def NewPlatform_def NewServiceRegistry_def)
  then show ?thesis
    unfolding svc by (elim exE conjE) (intro exI conjI; (assumption | force simp: version1_def offered_def dependencyMet_def programDependency_def)?)
qed

definition example_config_of :: PluginConfig where
  "example_config_of = \<lparr>pc_SelfID = '''', pc_SelfVersion = '''', pc_Endpoint = ''http://p'',
     pc_Metadata = \<lparr>pm_Name = '''', pm_Path = '''', pm_Version = '''', pm_Provides = [], pm_Requires = []\<rparr>\<rparr>"

lemma managed_program_never_added_witness:
  "\<exists>c c' :: (unit, unit) Client. NewClient [] (programConfig LoggerPlugin ''http://host'') = Inr c \<and>
     handleIdentity LoggerPlugin ''logger-plugin-6162'' ''0123456789'' '''' c = Some c' \<and>
     (\<forall>p'. AddPlugin (\<lambda>_. Inr (GetPluginInfo c))
        (\<lambda>_ (rid, tok, url). if handleIdentity LoggerPlugin rid tok url c = None then Some ''panic'' else None)
        id (Some ''ab'') (Some ''0123456789abcdef0123456789abcdef'') 0
        [TickAt 1 (\<lambda>p. fst (registerServices LoggerPlugin example_plugin_env (platformRPC example_host_env) id c' p)),
         TickAt (31 * Second) id]
        example_config_of example_platform \<noteq> Some (p', None))"
proof -
  obtain c :: "(unit, unit) Client" where c: "NewClient [] (programConfig LoggerPlugin ''http://host'') = Inr c"
    by (simp add: NewClient_def ClientConfig_Validate_def programConfig_defs programClient_def)
  obtain c' where c': "handleIdentity LoggerPlugin ''logger-plugin-6162'' ''0123456789'' '''' c = Some c'"
    by (simp add: handleIdentity_def logger_SetRuntimeIdentity_def)
  let ?f = "\<lambda>p. fst (registerServices LoggerPlugin example_plugin_env (platformRPC example_host_env) id c' p)"
  have tick: "managed_tick c LoggerPlugin rid ?f" "managed_tick c LoggerPlugin rid id" for rid
    using tick_program [OF c'] tick_others [of id rid c LoggerPlugin] by simp_all
  have "AddPlugin (\<lambda>_. Inr (GetPluginInfo c))
        (\<lambda>_ (rid, tok, url). if handleIdentity LoggerPlugin rid tok url c = None then Some ''panic'' else None)
        id (Some ''ab'') (Some ''0123456789abcdef0123456789abcdef'') 0 [TickAt 1 ?f, TickAt (31 * Second) id]
        example_config_of example_platform \<noteq> Some (p', None)" for p'
    by (rule managed_program_never_added [OF c])
      (use tick in \<open>auto simp: GetHealthState_def example_platform_def NewPlatform_def NewLifecycleServer_def\<close>)
  then show ?thesis using c c' by blast
qed

end
