(* ===== verification/UrlShortenerProps.thy ===== *)
theory UrlShortenerProps
  imports UrlShortener PluginProgramsProps
begin

text \<open>
  The URL shortener end to end: what the API is asked to shorten, through the host's router to the
  storage, and back; and the log messages from the storage to the logger.
\<close>

section \<open>Queries\<close>

lemma parseQuery_single: "CHR ''&'' \<notin> set a \<Longrightarrow> parseQuery a = (case queryPair a of None \<Rightarrow> [] | Some p \<Rightarrow> [p])"
  by (simp add: parseQuery_def List.map_filter_def split: option.split)

lemma parseQuery_Cons:
  "CHR ''&'' \<notin> set a \<Longrightarrow> parseQuery (a @ CHR ''&'' # b) = (case queryPair a of None \<Rightarrow> [] | Some p \<Rightarrow> [p]) @ parseQuery b"
  by (simp add: parseQuery_def List.map_filter_def split: option.split)

text \<open>A key that is read as it is, and a pair with it.\<close>

definition plainKey :: "string \<Rightarrow> bool" where
  "plainKey k \<longleftrightarrow> k \<noteq> [] \<and> list_all unreserved k"

lemma unreserved_special: "unreserved c \<Longrightarrow> c \<notin> set ''=;&%+# ''"
  by (auto simp: unreserved_def byteOf_def Let_def)

lemma unreserved_not_CTL: "unreserved c \<Longrightarrow> \<not> isCTL c"
  by (auto simp: unreserved_def isCTL_def byteOf_def Let_def)

lemma queryPair_kv:
  assumes "plainKey k" and "CHR '';'' \<notin> set v" and "unescape True v = Some v'"
  shows "queryPair (k @ CHR ''='' # v) = Some (k, v')"
proof -
  have k: "k \<noteq> []" "\<And>c. c \<in> set k \<Longrightarrow> c \<notin> set ''=;&%+# ''"
    using assms(1) unreserved_special unfolding plainKey_def list_all_iff by blast+
  have "CHR ''='' \<notin> set k" "CHR '';'' \<notin> set k" "CHR ''%'' \<notin> set k" "CHR ''+'' \<notin> set k"
    using k(2) [of "CHR ''=''"] k(2) [of "CHR '';''"] k(2) [of "CHR ''%''"] k(2) [of "CHR ''+''"] by auto
  then show ?thesis using assms(2,3) by (simp add: queryPair_def strCut_here unescape_plain)
qed

lemma plainKey_no_amp: "plainKey k \<Longrightarrow> CHR ''&'' \<notin> set k"
  using unreserved_special [of "CHR ''&''"] by (auto simp: plainKey_def list_all_iff)

lemma queryGet_escaped:
  assumes "plainKey k"
  shows "queryGet (k @ CHR ''='' # queryEscape v) k = v"
proof -
  have "CHR ''&'' \<notin> set (queryEscape v)" "CHR '';'' \<notin> set (queryEscape v)"
    using set_queryEscape [of _ v] unreserved_special by fastforce+
  then show ?thesis
    using assms plainKey_no_amp [OF assms] unescape_queryEscape [of v]
    by (simp add: queryGet_def parseQuery_single queryPair_kv)
qed

text \<open>A pair cut off at its first ampersand, and the same after another pair.\<close>

lemma parseQuery_first:
  assumes l: "plainKey l" and w: "CHR '';'' \<notin> set w" "CHR ''%'' \<notin> set w" "CHR ''+'' \<notin> set w"
  shows "\<exists>rest. parseQuery (l @ CHR ''='' # w) = (l, takeWhile (\<lambda>c. c \<noteq> CHR ''&'') w) # rest"
proof -
  let ?w = "takeWhile (\<lambda>c. c \<noteq> CHR ''&'') w"
  have wc: "CHR '';'' \<notin> set ?w" "CHR ''%'' \<notin> set ?w" "CHR ''+'' \<notin> set ?w" "CHR ''&'' \<notin> set ?w"
    using w by (auto dest: set_takeWhileD)
  have second: "queryPair (l @ CHR ''='' # ?w) = Some (l, ?w)"
    using queryPair_kv [OF l wc(1)] wc by (simp add: unescape_plain)
  show ?thesis
  proof (cases "dropWhile (\<lambda>c. c \<noteq> CHR ''&'') w")
    case Nil
    then have eq: "?w = w" by (metis append_Nil2 takeWhile_dropWhile_id)
    have "CHR ''&'' \<notin> set (l @ CHR ''='' # w)" using wc(4) plainKey_no_amp [OF l] unfolding eq by simp
    then show ?thesis using second unfolding eq by (simp add: parseQuery_single del: set_append)
  next
    case (Cons x rest)
    then have "x = CHR ''&''" using hd_dropWhile [of "\<lambda>c. c \<noteq> CHR ''&''" w] by simp
    then have "l @ CHR ''='' # w = (l @ CHR ''='' # ?w) @ CHR ''&'' # rest"
      using takeWhile_dropWhile_id [of "\<lambda>c. c \<noteq> CHR ''&''" w] Cons by simp
    moreover have "CHR ''&'' \<notin> set (l @ CHR ''='' # ?w)" using wc(4) plainKey_no_amp [OF l] by simp
    note parseQuery_Cons [OF this, of rest]
    ultimately have "parseQuery (l @ CHR ''='' # w) = [(l, ?w)] @ parseQuery rest"
      unfolding second option.case by (rule trans [OF arg_cong])
    then show ?thesis by simp
  qed
qed

lemma queryGet_first:
  assumes "plainKey l" and "CHR '';'' \<notin> set w" "CHR ''%'' \<notin> set w" "CHR ''+'' \<notin> set w"
  shows "queryGet (l @ CHR ''='' # w) l = takeWhile (\<lambda>c. c \<noteq> CHR ''&'') w"
  using parseQuery_first [OF assms] by (auto simp: queryGet_def)

lemma queryGet_two:
  assumes "plainKey k" "plainKey l" "l \<noteq> k" and "list_all unreserved v" and w: "CHR '';'' \<notin> set w" "CHR ''%'' \<notin> set w" "CHR ''+'' \<notin> set w"
  defines "q \<equiv> k @ CHR ''='' # v @ CHR ''&'' # l @ CHR ''='' # w"
  shows "queryGet q k = v" and "queryGet q l = takeWhile (\<lambda>c. c \<noteq> CHR ''&'') w"
proof -
  let ?w = "takeWhile (\<lambda>c. c \<noteq> CHR ''&'') w"
  have v: "c \<in> set v \<Longrightarrow> c \<notin> set ''=;&%+# ''" for c
    using assms(4) unreserved_special by (auto simp: list_all_iff)
  have vc: "CHR '';'' \<notin> set v" "CHR ''%'' \<notin> set v" "CHR ''+'' \<notin> set v" "CHR ''&'' \<notin> set v"
    using v [of "CHR '';''"] v [of "CHR ''%''"] v [of "CHR ''+''"] v [of "CHR ''&''"] by auto
  have first: "queryPair (k @ CHR ''='' # v) = Some (k, v)"
    using queryPair_kv [OF assms(1) vc(1)] vc by (simp add: unescape_plain)
  obtain rest where "parseQuery (l @ CHR ''='' # w) = (l, ?w) # rest" using parseQuery_first [OF assms(2) w] by blast
  moreover have "q = (k @ CHR ''='' # v) @ CHR ''&'' # l @ CHR ''='' # w" by (simp add: q_def)
  moreover have "CHR ''&'' \<notin> set (k @ CHR ''='' # v)" using vc(4) plainKey_no_amp [OF assms(1)] by simp
  ultimately have "parseQuery q = (k, v) # (l, ?w) # rest"
    using parseQuery_Cons [of "k @ CHR ''='' # v" "l @ CHR ''='' # w"] by (simp only: first option.case) simp
  then show "queryGet q k = v" "queryGet q l = ?w" using assms(3) by (simp_all add: queryGet_def)
qed

section \<open>Log messages\<close>

lemma query_of_escaped:
  assumes "plainKey k"
  shows "\<not> list_ex isCTL (k @ CHR ''='' # queryEscape v)" "CHR ''#'' \<notin> set (k @ CHR ''='' # queryEscape v)"
    "CHR '' '' \<notin> set (k @ CHR ''='' # queryEscape v)"
proof -
  have ok: "unreserved c \<or> c \<in> set ''%+=''" if "c \<in> set (k @ CHR ''='' # queryEscape v)" for c
    using that assms set_queryEscape [of c v] by (auto simp: plainKey_def list_all_iff)
  have ctl: "\<not> isCTL CHR ''%''" "\<not> isCTL CHR ''+''" "\<not> isCTL CHR ''=''" by code_simp+
  show "\<not> list_ex isCTL (k @ CHR ''='' # queryEscape v)"
    using ok unreserved_not_CTL ctl unfolding list_ex_iff by (metis (no_types, opaque_lifting) insert_iff list.set(1,2) empty_iff)
  show "CHR ''#'' \<notin> set (k @ CHR ''='' # queryEscape v)" "CHR '' '' \<notin> set (k @ CHR ''='' # queryEscape v)"
    using ok [of "CHR ''#''"] ok [of "CHR '' ''"] unreserved_special [of "CHR ''#''"] unreserved_special [of "CHR '' ''"] by auto
qed

text \<open>C21. The messages the storage logs reach the logger as they are: the URL \<open>logOperation\<close> builds
  parses, so that it does not panic; the host receives a request for the endpoint that discovery
  returned; and when the router proxies it to the logger, the logger reads exactly the message, whatever
  bytes it consists of.\<close>
theorem log_message_intact:
  assumes "hostURL_ok hostOk hostURL" and "plainPath endpoint" and "hostURL_ok hostOk base" and "plainPath path" and "message \<noteq> ''''"
  shows "\<exists>u req u' req'. parseURL hostOk (logURL hostURL endpoint message) = Some u \<and> sendable u \<and> u_Host u = authorityOf hostURL \<and>
    received ''POST'' u header [] = Some req \<and> hq_Path req = endpoint @ ''/Log'' \<and>
    parseURL hostOk (proxyURL (base @ path) (hq_RawQuery req)) = Some u' \<and> u_Host u' = authorityOf base \<and>
    received ''POST'' u' header' [] = Some req' \<and> hq_Path req' = path \<and> fst (logger_Log req') = Some message"
proof -
  have key: "plainKey ''message''" by code_simp
  let ?q = "''message'' @ CHR ''='' # queryEscape message"
  have log: "plainPath (endpoint @ ''/Log'')" using assms(2) by (rule plainPath_append) code_simp
  have "logURL hostURL endpoint message = hostURL @ (endpoint @ ''/Log'') @ CHR ''?'' # ?q" by (simp add: logURL_def)
  then have u: "parseURL hostOk (logURL hostURL endpoint message) =
      Some \<lparr>u_Scheme = ''http'', u_Opaque = [], u_Host = authorityOf hostURL, u_Path = endpoint @ ''/Log'', u_RawQuery = ?q\<rparr>"
    using parse_http_query [OF assms(1) log query_of_escaped(1,2) [OF key]] by simp
  have "proxyURL (base @ path) ?q = base @ path @ CHR ''?'' # ?q" by (simp add: proxyURL_def)
  then have u': "parseURL hostOk (proxyURL (base @ path) ?q) =
      Some \<lparr>u_Scheme = ''http'', u_Opaque = [], u_Host = authorityOf base, u_Path = path, u_RawQuery = ?q\<rparr>"
    using parse_http_query [OF assms(3,4) query_of_escaped(1,2) [OF key]] by simp
  have ne: "authorityOf hostURL \<noteq> []" using assms(1) by (auto simp: hostURL_ok_def authorityOf_def simp del: append_Cons)
  have "path \<noteq> []" using assms(4) by (auto simp: plainPath_def)
  then show ?thesis
    using u u' ne query_of_escaped(3) [OF key, of message] queryGet_escaped [OF key, of message] assms(5)
    by (simp add: sendable_def received_def logger_Log_def)
qed


section \<open>The host between the plugins\<close>

text \<open>
  The state of the host that a plugin talks to, and of the storage plugin behind it. What the host's
  environment decides is in one record: the clock, the orders of ranges, the random numbers, the
  authority under which the storage plugin listens, and the network on which it reaches the logger.
\<close>

record HostState =
  ho_platform :: Platform
  ho_handshake :: HandshakeServer

record Web =
  wb_hostOk :: "string \<Rightarrow> bool"
  wb_env :: HostEnv
  wb_now :: time
  wb_order :: "(string, ServiceProvider) gomap \<Rightarrow> string list"
  wb_keys :: "string list"
  wb_rkeys :: "string list"
  wb_addr :: string
  wb_logger :: "HostState http_client"

text \<open>The procedures of the host on a state with more parts.\<close>

definition liftRPC :: "('w \<Rightarrow> 'v) \<Rightarrow> ('v \<Rightarrow> 'w \<Rightarrow> 'w) \<Rightarrow> 'v HostRPC \<Rightarrow> 'w HostRPC" where
  "liftRPC get put rpc =
     \<lparr>rpc_Register = (\<lambda>ep h req w. case rpc_Register rpc ep h req (get w) of (v, r) \<Rightarrow> (put v w, r)),
      rpc_Discover = (\<lambda>ep h t m w. case rpc_Discover rpc ep h t m (get w) of (v, r) \<Rightarrow> (put v w, r)),
      rpc_Report = (\<lambda>ep h req w. case rpc_Report rpc ep h req (get w) of (v, r) \<Rightarrow> (put v w, r))\<rparr>"

definition hostRPC :: "Web \<Rightarrow> HostState HostRPC" where
  "hostRPC web = liftRPC ho_platform (\<lambda>p h. h\<lparr>ho_platform := p\<rparr>) (platformRPC (wb_env web))"

definition apiRPC :: "Web \<Rightarrow> (HostState \<times> ('a, 'h) storageService) HostRPC" where
  "apiRPC web = liftRPC fst (\<lambda>h w. (h, snd w)) (hostRPC web)"

text \<open>The storage plugin as the router reaches it.\<close>

definition serveStorage ::
    "Web \<Rightarrow> ProxyRequest \<Rightarrow> HostState \<times> ('a, 'h) storageService \<Rightarrow>
     (HostState \<times> ('a, 'h) storageService) \<times> HttpResponse option" where
  "serveStorage web pq w =
     (case parseURL (wb_hostOk web) (pq_URL pq) of
        None \<Rightarrow> (w, None)
      | Some u \<Rightarrow>
          if \<not> sendable u \<or> u_Host u \<noteq> wb_addr web then (w, None)
          else (case received (pq_Method pq) u (pq_Header pq) (pq_Body pq) of
              None \<Rightarrow> (w, Some (errorResponse StatusBadRequest ''''))
            | Some req \<Rightarrow>
                (case storageHandler (wb_hostOk web) (hostRPC web) (wb_logger web) req (snd w) (fst w) of
                   (s, h, r) \<Rightarrow> ((h, s), r))))"

text \<open>A request to \<^verbatim>\<open>/services/\<close> on the host, proxied to the storage plugin.\<close>

definition serveHost ::
    "Web \<Rightarrow> HttpRequest \<Rightarrow> HostState \<times> ('a, 'h) storageService \<Rightarrow> (HostState \<times> ('a, 'h) storageService) \<times> HttpResponse" where
  "serveHost web req w =
     (let p = ho_platform (fst w);
          (hs, route) = routeRequest (wb_now web) (wb_order web (regs p)) (pf_registry p) (pf_lifecycleServer p) (pf_router p)
                          req (ho_handshake (fst w));
          w1 = ((fst w)\<lparr>ho_handshake := hs\<rparr>, snd w)
      in case route of
           HttpError code msg \<Rightarrow> (w1, errorResponse code msg)
         | Forward target \<Rightarrow>
             (fst (serveStorage web (proxiedRequest (wb_keys web) req target) w1),
              case proxyRequest (\<lambda>_ url. parseURL (wb_hostOk web) url \<noteq> None) (\<lambda>pq. snd (serveStorage web pq w1))
                     (wb_keys web) (wb_rkeys web) req target of
                HttpError code msg \<Rightarrow> errorResponse code msg
              | Forward resp \<Rightarrow> resp))"

definition apiSend :: "Web \<Rightarrow> (HostState \<times> ('a, 'h) storageService) http_client" where
  "apiSend web meth u header w =
     (if \<not> sendable u then (w, Inl ''unsupported protocol scheme or no host'')
      else (case received meth u header [] of
          None \<Rightarrow> (w, Inr (errorResponse StatusBadRequest ''''))
        | Some req \<Rightarrow> (case serveHost web req w of (w', resp) \<Rightarrow> (w', Inr resp))))"

text \<open>
  A host that has the one storage provider \<open>prov\<close>, can reach it, and accepts the token of the API until
  the time \<open>T\<close>.
\<close>

definition storageReady :: "Web \<Rightarrow> time \<Rightarrow> string \<Rightarrow> string \<Rightarrow> ServiceProvider \<Rightarrow> HostState \<Rightarrow> bool" where
  "storageReady web T api tok prov h \<longleftrightarrow>
     (let p = ho_platform h in
        wf_registry (pf_registry p) \<and>
        eligible (Some (pf_lifecycleServer p)) ''storage'' ''1.0.0'' (pf_registry p) = [prov] \<and>
        (\<forall>q\<in>ran (regs p). list_all plainByte (sp_RuntimeID q) \<and> CHR ''/'' \<notin> set (sp_RuntimeID q) \<and>
           (sp_RuntimeID q = sp_RuntimeID prov \<longrightarrow> q = prov)) \<and>
        providerBase (pf_router p) prov = Some (''http://'' @ wb_addr web)) \<and>
     (\<exists>info. hs_tokens (ho_handshake h) api = Some info \<and> ti_token info = tok \<and> T \<le> ti_expiresAt info)"

text \<open>The programs and the network: the constants of the run.\<close>

definition web_ok :: "Web \<Rightarrow> time \<Rightarrow> string \<Rightarrow> string \<Rightarrow> ServiceProvider \<Rightarrow> bool" where
  "web_ok web T api tok prov \<longleftrightarrow>
     draw_ok (he_draw (wb_env web)) \<and> wb_now web \<le> T \<and> api \<noteq> '''' \<and> sp_EndpointPath prov = ''/storage.v1.Storage/'' \<and>
     hostURL_ok (wb_hostOk web) (''http://'' @ wb_addr web) \<and> (\<forall>r. finite (dom r) \<longrightarrow> iter_order r (wb_order web r)) \<and>
     (\<forall>meth u header h. storageReady web T api tok prov h \<longrightarrow> storageReady web T api tok prov (fst (wb_logger web meth u header h)))"

lemma ready_platform:
  assumes "storageReady web T api tok prov h" and "regs p = regs (ho_platform h)"
    and "r_providers (pf_registry p) = r_providers (pf_registry (ho_platform h))"
    and "pf_lifecycleServer p = pf_lifecycleServer (ho_platform h)" and "pf_router p = pf_router (ho_platform h)"
  shows "storageReady web T api tok prov (h\<lparr>ho_platform := p\<rparr>)"
  using assms wf_registry_cong [OF assms(2,3)] eligible_cong [OF assms(3)] by (simp add: storageReady_def Let_def)

lemma ready_validate:
  assumes "storageReady web T api tok prov h" and "now \<le> T"
  shows "storageReady web T api tok prov (h\<lparr>ho_handshake := fst (ValidateToken now api tok' (ho_handshake h))\<rparr>)"
  using assms by (auto simp: storageReady_def Let_def ValidateToken_tokens)

section \<open>Discovery\<close>

lemma platform_Discover:
  assumes draw: "draw_ok (he_draw env)" and d: "rpc_Discover (platformRPC env) ep hdr t v p = (p', res)"
  shows "regs p' = regs p \<and> r_providers (pf_registry p') = r_providers (pf_registry p) \<and>
      pf_lifecycleServer p' = pf_lifecycleServer p \<and> pf_router p' = pf_router p"
    and "res = Inr resp \<Longrightarrow> \<exists>q\<in>set (eligible (Some (pf_lifecycleServer p)) t v (pf_registry p)). dsr_Endpoint resp = providerEndpoint q"
    and "eligible (Some (pf_lifecycleServer p)) t v (pf_registry p) \<noteq> [] \<Longrightarrow> \<exists>resp. res = Inr resp"
proof -
  let ?lc = "Some (pf_lifecycleServer p)"
  obtain r1 x where s: "SelectProvider (he_draw env) ?lc t v (pf_registry p) = (r1, x)" by (metis surj_pair)
  have f: "r_registrations r1 = regs p" "r_providers r1 = r_providers (pf_registry p)"
    using SelectProvider_frame(1,2) [of "he_draw env" ?lc t v "pf_registry p"] by (simp_all add: s)
  have p': "p' = p\<lparr>pf_registry := r1\<rparr>" using d s by (auto simp: platformRPC_def DiscoverService_def split: sum.splits option.splits)
  show "regs p' = regs p \<and> r_providers (pf_registry p') = r_providers (pf_registry p) \<and>
      pf_lifecycleServer p' = pf_lifecycleServer p \<and> pf_router p' = pf_router p" using f by (simp add: p')
  show "\<exists>resp. res = Inr resp" if "eligible ?lc t v (pf_registry p) \<noteq> []"
    using SelectProvider_succeeds [OF draw that] d s by (auto simp: platformRPC_def DiscoverService_def)
  show "\<exists>q\<in>set (eligible ?lc t v (pf_registry p)). dsr_Endpoint resp = providerEndpoint q" if r: "res = Inr resp"
  proof -
    have "eligible ?lc t v (pf_registry p) \<noteq> []"
    proof
      assume "eligible ?lc t v (pf_registry p) = []"
      then obtain e where "x = Inl e" using SelectProvider_fails [of ?lc t v "pf_registry p" "he_draw env"] s by auto
      then show False using d s r by (simp add: platformRPC_def DiscoverService_def)
    qed
    then obtain q where "q \<in> set (eligible ?lc t v (pf_registry p))" "x = Inr (Some q)"
      using SelectProvider_succeeds [OF draw] s by force
    then show ?thesis using d s r by (intro bexI [of _ q]) (auto simp: platformRPC_def DiscoverService_def)
  qed
qed

lemma hostRPC_Discover:
  assumes ok: "web_ok web T api tok prov" "storageReady web T api tok prov h"
    and d: "rpc_Discover (hostRPC web) ep hdr t v h = (h', res)"
  shows "storageReady web T api tok prov h'"
    and "res = Inr resp \<Longrightarrow> \<exists>rid. se_EndpointUrl (dsr_Endpoint resp) = serviceURL t rid \<and> list_all plainByte rid"
    and "t = ''storage'' \<Longrightarrow> v = ''1.0.0'' \<Longrightarrow> \<exists>resp. res = Inr resp \<and> se_EndpointUrl (dsr_Endpoint resp) = serviceURL t (sp_RuntimeID prov)"
proof -
  let ?p = "ho_platform h"
  obtain p' where p: "rpc_Discover (platformRPC (wb_env web)) ep hdr t v ?p = (p', res)" "h' = h\<lparr>ho_platform := p'\<rparr>"
    using d by (auto simp: hostRPC_def liftRPC_def split: prod.splits)
  have draw: "draw_ok (he_draw (wb_env web))" using ok(1) by (simp add: web_ok_def)
  have r: "wf_registry (pf_registry ?p)" "eligible (Some (pf_lifecycleServer ?p)) ''storage'' ''1.0.0'' (pf_registry ?p) = [prov]"
      "\<forall>q\<in>ran (regs ?p). list_all plainByte (sp_RuntimeID q)"
    using ok(2) by (simp_all add: storageReady_def Let_def)
  show "storageReady web T api tok prov h'"
    unfolding p(2) using platform_Discover(1) [OF draw p(1)] by (intro ready_platform [OF ok(2)]) simp_all
  have el: "sp_ServiceType q = t \<and> q \<in> ran (regs ?p)"
    if "q \<in> set (eligible (Some (pf_lifecycleServer ?p)) t v (pf_registry ?p))" for q
    using that unfolding eligible_registered [OF r(1)] by (auto intro: ranI)
  show "\<exists>rid. se_EndpointUrl (dsr_Endpoint resp) = serviceURL t rid \<and> list_all plainByte rid" if "res = Inr resp"
    using platform_Discover(2) [OF draw p(1) that] el r(3) by (auto simp: providerEndpoint_def)
  show "\<exists>resp. res = Inr resp \<and> se_EndpointUrl (dsr_Endpoint resp) = serviceURL t (sp_RuntimeID prov)"
    if t: "t = ''storage''" "v = ''1.0.0''"
  proof -
    obtain resp where "res = Inr resp" using platform_Discover(3) [OF draw p(1)] r(2) t by auto
    then show ?thesis using platform_Discover(2) [OF draw p(1)] r(2) el t by (auto simp: providerEndpoint_def)
  qed
qed


section \<open>The storage plugin\<close>

lemma plainPath_service: "list_all plainByte t \<Longrightarrow> list_all plainByte rid \<Longrightarrow> plainPath (serviceURL t rid)"
proof -
  have "list_all plainByte ''/services/''" "plainByte CHR ''/''" by code_simp+
  then show "list_all plainByte t \<Longrightarrow> list_all plainByte rid \<Longrightarrow> plainPath (serviceURL t rid)"
    by (simp add: plainPath_def serviceURL_def)
qed

lemma logURL_parses:
  assumes "hostURL_ok hostOk hostURL" and "plainPath endpoint"
  shows "parseURL hostOk (logURL hostURL endpoint message) \<noteq> None"
proof -
  have key: "plainKey ''message''" by code_simp
  have log: "plainPath (endpoint @ ''/Log'')" using assms(2) by (rule plainPath_append) code_simp
  show ?thesis
    using parse_http_query [OF assms(1) log query_of_escaped(1,2) [OF key, of message]] by (simp add: logURL_def)
qed

lemma logOperation_ready:
  assumes ok: "web_ok web T api tok prov" "storageReady web T api tok prov h"
    and host: "hostURL_ok (wb_hostOk web) (cl_HostURL (c_cfg c))"
  shows "\<exists>h'. logOperation (wb_hostOk web) (hostRPC web) (wb_logger web) message c h = (h', True) \<and> storageReady web T api tok prov h'"
proof (cases "c_registryClient c")
  case None
  then show ?thesis using ok(2) by (simp add: logOperation_def findEndpoint_def)
next
  case (Some ep)
  obtain h1 res where d: "rpc_Discover (hostRPC web) ep (clientHeader c) ''logger'' ''1.0.0'' h = (h1, res)" by (metis surj_pair)
  note d1 = hostRPC_Discover(1) [OF ok d]
  show ?thesis
  proof (cases res)
    case (Inl e)
    then show ?thesis using d1 d by (simp add: logOperation_def findEndpoint_def Some)
  next
    case (Inr resp)
    obtain rid where rid: "se_EndpointUrl (dsr_Endpoint resp) = serviceURL ''logger'' rid" "list_all plainByte rid"
      using hostRPC_Discover(2) [OF ok d Inr] by blast
    have "list_all plainByte ''logger''" by code_simp
    then obtain u where u: "parseURL (wb_hostOk web) (logURL (cl_HostURL (c_cfg c)) (serviceURL ''logger'' rid) message) = Some u"
      using logURL_parses [OF host plainPath_service] rid(2) by blast
    have "storageReady web T api tok prov (fst (wb_logger web ''POST'' u (clientHeader c) h1))"
      using ok(1) d1 by (simp add: web_ok_def)
    then show ?thesis using d Inr rid(1) u by (simp add: logOperation_def findEndpoint_def callHost_def Some case_prod_unfold)
  qed
qed

lemma storage_Store_ok:
  assumes ok: "web_ok web T api tok prov" "storageReady web T api tok prov h"
    and host: "hostURL_ok (wb_hostOk web) (cl_HostURL (c_cfg (st_client s)))"
    and req: "hq_Method req = ''POST''" "queryGet (hq_RawQuery req) ''code'' = k" "queryGet (hq_RawQuery req) ''url'' = v" "k \<noteq> ''''" "v \<noteq> ''''"
  shows "\<exists>h'. storage_Store (wb_hostOk web) (hostRPC web) (wb_logger web) req s h =
      (s\<lparr>st_data := (st_data s)(k \<mapsto> v)\<rparr>, h', Some (jsonResponse ''{\"success\": true}'')) \<and> storageReady web T api tok prov h'"
  using logOperation_ready [OF ok host, of "''STORE '' @ k @ arrow @ v"] req
  by (auto simp: storage_Store_def Let_def)

lemma storage_Get_ok:
  assumes ok: "web_ok web T api tok prov" "storageReady web T api tok prov h"
    and host: "hostURL_ok (wb_hostOk web) (cl_HostURL (c_cfg (st_client s)))"
    and req: "queryGet (hq_RawQuery req) ''code'' = k" "k \<noteq> ''''" "st_data s k = Some v"
  shows "\<exists>h'. storage_Get (wb_hostOk web) (hostRPC web) (wb_logger web) req s h = (h', Some (jsonResponse (urlJSON v))) \<and>
    storageReady web T api tok prov h'"
  using logOperation_ready [OF ok host, of "''GET '' @ k @ arrow @ v"] req
  by (auto simp: storage_Get_def Let_def)

section \<open>Through the router\<close>

lemma request_routed:
  assumes ok: "web_ok web T api tok prov" "storageReady web T api tok prov h"
    and req: "hq_Path req = serviceURL ''storage'' (sp_RuntimeID prov) @ ''/'' @ m" "hq_Header req = identityHeader api tok"
  defines "p \<equiv> ho_platform h"
  shows "routeRequest (wb_now web) (wb_order web (regs p)) (pf_registry p) (pf_lifecycleServer p) (pf_router p) req (ho_handshake h) =
    (fst (ValidateToken (wb_now web) api tok (ho_handshake h)), Forward ((''http://'' @ wb_addr web) @ sp_EndpointPath prov @ m))"
proof (rule routeRequest_authorized)
  have r: "wf_registry (pf_registry p)" "eligible (Some (pf_lifecycleServer p)) ''storage'' ''1.0.0'' (pf_registry p) = [prov]"
      "\<forall>q\<in>ran (regs p). CHR ''/'' \<notin> set (sp_RuntimeID q) \<and> (sp_RuntimeID q = sp_RuntimeID prov \<longrightarrow> q = prov)"
      "providerBase (pf_router p) prov = Some (''http://'' @ wb_addr web)"
    using ok(2) by (simp_all add: storageReady_def Let_def p_def)
  have "prov \<in> set (eligible (Some (pf_lifecycleServer p)) ''storage'' ''1.0.0'' (pf_registry p))" by (simp add: r(2))
  then have prov: "prov \<in> ran (regs p)" "ShouldRouteTraffic (pf_lifecycleServer p) (sp_RuntimeID prov)"
    unfolding eligible_registered [OF r(1)] by (auto intro: ranI simp: available_def)
  show "CHR ''/'' \<notin> set ''storage''" "CHR ''/'' \<notin> set (sp_RuntimeID prov)" using r(3) prov(1) by simp_all
  show "hq_Path req = ''/services/'' @ ''storage'' @ ''/'' @ sp_RuntimeID prov @ ''/'' @ m" unfolding req(1) serviceURL_def by simp
  show "header_get (hq_Header req) ''X-Plugin-Runtime-ID'' = api" "bearerToken (hq_Header req) = Some tok"
    unfolding req(2) by (simp_all add: identityHeader_def header_get_set canonical_keys bearerToken_Some)
  show "api \<noteq> ''''" using ok(1) by (simp add: web_ok_def)
  obtain info where "hs_tokens (ho_handshake h) api = Some info" "ti_token info = tok" "T \<le> ti_expiresAt info"
    using ok(2) unfolding storageReady_def by blast
  moreover have "wb_now web \<le> T" using ok(1) by (simp add: web_ok_def)
  ultimately show "snd (ValidateToken (wb_now web) api tok (ho_handshake h))" by (auto simp: ValidateToken_iff)
  have it: "iter_order (regs p) (wb_order web (regs p))" using ok(1) wf_registryD(1) [OF r(1)] by (simp add: web_ok_def)
  then have "GetProviderByRuntimeID (wb_order web (regs p)) (pf_registry p) (sp_RuntimeID prov) \<noteq> None"
    using GetProviderByRuntimeID_correct(1) [OF it] prov(1) by auto
  then obtain q where q: "GetProviderByRuntimeID (wb_order web (regs p)) (pf_registry p) (sp_RuntimeID prov) = Some q" by blast
  then have "q = prov" using GetProviderByRuntimeID_correct(2) [OF it] r(3) by auto
  with q show "GetProviderByRuntimeID (wb_order web (regs p)) (pf_registry p) (sp_RuntimeID prov) = Some prov" by simp
  show "ShouldRouteTraffic (pf_lifecycleServer p) (sp_RuntimeID prov)" by (rule prov(2))
  show "providerBase (pf_router p) prov = Some (''http://'' @ wb_addr web)" by (rule r(4))
qed simp

text \<open>What the storage plugin receives for a query that the host received.\<close>

lemma serveHost_storage:
  fixes s :: "('a, 'h) storageService"
  assumes ok: "web_ok web T api tok prov" "storageReady web T api tok prov h"
    and req: "hq_Path req = serviceURL ''storage'' (sp_RuntimeID prov) @ ''/'' @ m" "hq_Header req = identityHeader api tok"
    and m: "list_all plainByte m"
    and q: "hq_RawQuery req = q" "q \<noteq> []" "\<not> list_ex isCTL q" "CHR ''#'' \<notin> set q" "CHR '' '' \<notin> set q"
  shows "\<exists>hdr h1. storageReady web T api tok prov h1 \<and>
    (\<forall>s' h' body. storageHandler (wb_hostOk web) (hostRPC web) (wb_logger web)
       \<lparr>hq_Method = hq_Method req, hq_Path = ''/storage.v1.Storage/'' @ m, hq_RawQuery = q, hq_Header = hdr, hq_Body = hq_Body req\<rparr> s h1 =
         (s', h', Some (jsonResponse body)) \<longrightarrow>
     (\<exists>rh. serveHost web req (h, s) = ((h', s'), (jsonResponse body)\<lparr>rs_Header := rh\<rparr>)))"
proof -
  let ?h1 = "h\<lparr>ho_handshake := fst (ValidateToken (wb_now web) api tok (ho_handshake h))\<rparr>"
  let ?url = "(''http://'' @ wb_addr web) @ ''/storage.v1.Storage/'' @ m"
  let ?hdr = "copyRequestHeaders (wb_keys web) (hq_Header req)"
  let ?req = "\<lparr>hq_Method = hq_Method req, hq_Path = ''/storage.v1.Storage/'' @ m, hq_RawQuery = q, hq_Header = ?hdr, hq_Body = hq_Body req\<rparr>"
  have addr: "hostURL_ok (wb_hostOk web) (''http://'' @ wb_addr web)" and path: "sp_EndpointPath prov = ''/storage.v1.Storage/''"
    and now: "wb_now web \<le> T" using ok(1) by (simp_all add: web_ok_def)
  have pp: "plainPath (''/storage.v1.Storage/'' @ m)" by (rule plainPath_append [OF _ m]) code_simp
  have au: "authorityOf (''http://'' @ wb_addr web) = wb_addr web" unfolding authorityOf_def by (rule trimPrefix_append)
  have ne: "wb_addr web \<noteq> []" using addr by (simp add: hostURL_ok_def)
  have proxy: "proxyURL ?url q = (''http://'' @ wb_addr web) @ (''/storage.v1.Storage/'' @ m) @ CHR ''?'' # q"
    using q(2) by (simp add: proxyURL_def)
  have parse: "parseURL (wb_hostOk web) (proxyURL ?url q) =
      Some \<lparr>u_Scheme = ''http'', u_Opaque = [], u_Host = wb_addr web, u_Path = ''/storage.v1.Storage/'' @ m, u_RawQuery = q\<rparr>"
    unfolding proxy parse_http_query [OF addr pp q(3,4)] au ..
  note route = request_routed [OF ok req, unfolded path]
  have serve: "serveStorage web (proxiedRequest (wb_keys web) req ?url) (?h1, s) =
      (case storageHandler (wb_hostOk web) (hostRPC web) (wb_logger web) ?req s ?h1 of (s', h', r) \<Rightarrow> ((h', s'), r))"
    using parse ne q(5) by (simp add: serveStorage_def proxiedRequest_def q(1) sendable_def received_def)
  have "\<exists>rh. serveHost web req (h, s) = ((h', s'), (jsonResponse body)\<lparr>rs_Header := rh\<rparr>)"
    if r: "storageHandler (wb_hostOk web) (hostRPC web) (wb_logger web) ?req s ?h1 = (s', h', Some (jsonResponse body))" for s' h' body
    using serve parse unfolding r
    by (simp add: serveHost_def route Let_def proxyRequest_def q(1)) (rule exI, rule refl)
  moreover have "storageReady web T api tok prov ?h1" by (rule ready_validate [OF ok(2) now])
  ultimately show ?thesis by blast
qed


section \<open>Shortening and resolving\<close>

text \<open>
  A URL of ASCII characters without the bytes that a query or JSON gives a meaning of their own: no
  control character, no \<^verbatim>\<open>%\<close>, \<^verbatim>\<open>+\<close>, \<^verbatim>\<open>;\<close>, space, quotation mark or backslash. Only \<^verbatim>\<open>&\<close> and \<^verbatim>\<open>#\<close> may be there.
\<close>

definition plainURL :: "string \<Rightarrow> bool" where
  "plainURL u \<longleftrightarrow> list_all (\<lambda>c. \<not> isCTL c \<and> c \<notin> set ''%+; '' \<and> byteOf c \<notin> {34, 92} \<and> byteOf c < 128) u"

text \<open>What of a URL reaches the storage.\<close>

definition kept :: "string \<Rightarrow> string" where
  "kept u = takeWhile (\<lambda>c. c \<noteq> CHR ''&'' \<and> c \<noteq> CHR ''#'') u"

lemma kept_twice: "kept u = takeWhile (\<lambda>c. c \<noteq> CHR ''&'') (takeWhile (\<lambda>c. c \<noteq> CHR ''#'') u)"
  unfolding kept_def by (induction u) auto

lemma kept_all: "kept u = u \<longleftrightarrow> CHR ''&'' \<notin> set u \<and> CHR ''#'' \<notin> set u"
  unfolding kept_def by (auto simp: takeWhile_eq_all_conv)

lemma plainURL_set: "plainURL u \<Longrightarrow> c \<in> set u \<Longrightarrow> \<not> isCTL c \<and> c \<notin> set ''%+; ''"
  by (simp add: plainURL_def list_all_iff)

lemma fragment_plain:
  assumes v: "plainURL v"
  defines "rest \<equiv> dropWhile (\<lambda>c. c \<noteq> CHR ''#'') v"
  shows "rest = [] \<and> tl rest = [] \<or> rest = CHR ''#'' # tl rest" and "unescape False (tl rest) \<noteq> None"
proof -
  show "rest = [] \<and> tl rest = [] \<or> rest = CHR ''#'' # tl rest"
  proof (cases "rest = []")
    case True
    then have "tl rest = []" by (metis list.sel(2))
    with True show ?thesis by blast
  next
    case False
    have "hd rest = CHR ''#''" using hd_dropWhile [OF False [unfolded rest_def]] by (simp add: rest_def)
    then show ?thesis by (metis list.collapse [OF False])
  qed
  have "c \<in> set v" if "c \<in> set (tl rest)" for c
    using that unfolding rest_def by (intro set_dropWhileD [of c "\<lambda>c. c \<noteq> CHR ''#''" v]) (metis list.sel(2) list.set_sel(2))
  then have "CHR ''%'' \<notin> set (tl rest)" using plainURL_set [OF v, of "CHR ''%''"] by auto
  then show "unescape False (tl rest) \<noteq> None" by (simp add: unescape_plain)
qed

text \<open>The two URLs that the API sends, as the host receives them.\<close>

lemma storeRequestURL_parses:
  assumes host: "hostURL_ok hostOk hostURL" and endpoint: "plainPath endpoint"
    and k: "list_all unreserved k" and v: "plainURL v"
  defines "q \<equiv> ''code'' @ CHR ''='' # k @ CHR ''&'' # ''url'' @ CHR ''='' # takeWhile (\<lambda>c. c \<noteq> CHR ''#'') v"
  shows "parseURL hostOk (storeRequestURL hostURL endpoint k v) =
      Some \<lparr>u_Scheme = ''http'', u_Opaque = [], u_Host = authorityOf hostURL, u_Path = endpoint @ ''/Store'', u_RawQuery = q\<rparr>"
    and "\<not> list_ex isCTL q" "CHR ''#'' \<notin> set q" "CHR '' '' \<notin> set q"
    and "queryGet q ''code'' = k" "queryGet q ''url'' = kept v"
proof -
  let ?v = "takeWhile (\<lambda>c. c \<noteq> CHR ''#'') v" and ?rest = "dropWhile (\<lambda>c. c \<noteq> CHR ''#'') v"
  have kc: "\<not> isCTL c \<and> c \<notin> set ''=;&%+# ''" if "c \<in> set k" for c
    using that k unreserved_not_CTL unreserved_special unfolding list_all_iff by blast
  have vc: "\<not> isCTL c \<and> c \<notin> set ''%+; '' \<and> c \<noteq> CHR ''#''" if "c \<in> set ?v" for c
    using set_takeWhileD [OF that] plainURL_set [OF v] by blast
  have "\<not> list_ex isCTL ''code=''" "\<not> list_ex isCTL ''&url=''" by code_simp+
  moreover have "q = ''code='' @ k @ ''&url='' @ ?v" by (simp add: q_def)
  ultimately show ctl: "\<not> list_ex isCTL q" and hash: "CHR ''#'' \<notin> set q" and "CHR '' '' \<notin> set q"
    using kc vc by (auto simp: list_ex_iff)
  have pk: "plainKey ''code''" "plainKey ''url''" by code_simp+
  have "CHR '';'' \<notin> set ?v" "CHR ''%'' \<notin> set ?v" "CHR ''+'' \<notin> set ?v" using vc by auto
  note two = queryGet_two [OF pk _ k this]
  show "queryGet q ''code'' = k" unfolding q_def by (rule two(1)) simp
  show "queryGet q ''url'' = kept v" unfolding q_def kept_twice by (rule two(2)) simp
  have path: "plainPath (endpoint @ ''/Store'')" using endpoint by (rule plainPath_append) code_simp
  note tail = fragment_plain [OF v]
  have "storeRequestURL hostURL endpoint k v = hostURL @ (endpoint @ ''/Store'') @ CHR ''?'' # q @ ?rest"
    by (simp add: storeRequestURL_def q_def)
  then show "parseURL hostOk (storeRequestURL hostURL endpoint k v) =
      Some \<lparr>u_Scheme = ''http'', u_Opaque = [], u_Host = authorityOf hostURL, u_Path = endpoint @ ''/Store'', u_RawQuery = q\<rparr>"
    using parse_http [OF host path ctl hash tail(2,1)] by simp
qed

lemma getRequestURL_parses:
  assumes host: "hostURL_ok hostOk hostURL" and endpoint: "plainPath endpoint" and k: "list_all unreserved k"
  defines "q \<equiv> ''code'' @ CHR ''='' # k"
  shows "parseURL hostOk (getRequestURL hostURL endpoint k) =
      Some \<lparr>u_Scheme = ''http'', u_Opaque = [], u_Host = authorityOf hostURL, u_Path = endpoint @ ''/Get'', u_RawQuery = q\<rparr>"
    and "\<not> list_ex isCTL q" "CHR ''#'' \<notin> set q" "CHR '' '' \<notin> set q" and "queryGet q ''code'' = k"
proof -
  have kc: "\<not> isCTL c \<and> c \<notin> set ''=;&%+# ''" if "c \<in> set k" for c
    using that k unreserved_not_CTL unreserved_special unfolding list_all_iff by blast
  have "\<not> list_ex isCTL ''code=''" by code_simp
  moreover have "q = ''code='' @ k" by (simp add: q_def)
  ultimately show ctl: "\<not> list_ex isCTL q" and hash: "CHR ''#'' \<notin> set q" and "CHR '' '' \<notin> set q"
    using kc by (auto simp: list_ex_iff)
  have pk: "plainKey ''code''" by code_simp
  have kk: "CHR '';'' \<notin> set k" "CHR ''%'' \<notin> set k" "CHR ''+'' \<notin> set k" "CHR ''&'' \<notin> set k" using kc by auto
  have "CHR ''&'' \<notin> set q" unfolding q_def using kk(4) by simp
  then show "queryGet q ''code'' = k"
    using queryPair_kv [OF pk kk(1), of k] kk by (simp add: queryGet_def parseQuery_single unescape_plain q_def)
  have path: "plainPath (endpoint @ ''/Get'')" using endpoint by (rule plainPath_append) code_simp
  have "getRequestURL hostURL endpoint k = hostURL @ (endpoint @ ''/Get'') @ CHR ''?'' # q"
    by (simp add: getRequestURL_def q_def)
  then show "parseURL hostOk (getRequestURL hostURL endpoint k) =
      Some \<lparr>u_Scheme = ''http'', u_Opaque = [], u_Host = authorityOf hostURL, u_Path = endpoint @ ''/Get'', u_RawQuery = q\<rparr>"
    using parse_http_query [OF host path ctl hash] by simp
qed


text \<open>The command line client cuts the URL in the same way before the API sees it.\<close>

lemma client_sends_kept:
  assumes host: "hostURL_ok hostOk apiURL" and v: "plainURL v"
  obtains u where "parseURL hostOk (shortenURL apiURL v) = Some u" "u_Path u = ''/api.v1.API/Shorten''"
    "queryGet (u_RawQuery u) ''url'' = kept v"
proof -
  let ?v = "takeWhile (\<lambda>c. c \<noteq> CHR ''#'') v" and ?rest = "dropWhile (\<lambda>c. c \<noteq> CHR ''#'') v"
  have vc: "\<not> isCTL c \<and> c \<notin> set ''%+; '' \<and> c \<noteq> CHR ''#''" if "c \<in> set ?v" for c
    using set_takeWhileD [OF that] plainURL_set [OF v] by blast
  have "\<not> list_ex isCTL ''url=''" by code_simp
  then have ctl: "\<not> list_ex isCTL (''url='' @ ?v)" and hash: "CHR ''#'' \<notin> set (''url='' @ ?v)"
    using vc by (auto simp: list_ex_iff)
  have path: "plainPath ''/api.v1.API/Shorten''" by code_simp
  note tail = fragment_plain [OF v]
  have "shortenURL apiURL v = apiURL @ ''/api.v1.API/Shorten'' @ CHR ''?'' # (''url='' @ ?v) @ ?rest"
    by (simp add: shortenURL_def)
  then have "parseURL hostOk (shortenURL apiURL v) =
      Some \<lparr>u_Scheme = ''http'', u_Opaque = [], u_Host = authorityOf apiURL, u_Path = ''/api.v1.API/Shorten'', u_RawQuery = ''url='' @ ?v\<rparr>"
    using parse_http [OF host path ctl hash tail(2,1)] by simp
  moreover have "queryGet (''url='' @ ?v) ''url'' = kept v"
  proof -
    have "plainKey ''url''" by code_simp
    moreover have "CHR '';'' \<notin> set ?v" "CHR ''%'' \<notin> set ?v" "CHR ''+'' \<notin> set ?v" using vc by auto
    ultimately show ?thesis using queryGet_first [of "''url''" ?v] by (simp add: kept_twice)
  qed
  ultimately show thesis using that by simp
qed

text \<open>The API client of a run: connected, with the identity the host knows.\<close>

definition apiClient :: "Web \<Rightarrow> string \<Rightarrow> string \<Rightarrow> ('a, 'h) Client \<Rightarrow> bool" where
  "apiClient web api tok c \<longleftrightarrow>
     c_registryClient c \<noteq> None \<and> c_runtimeID c = api \<and> c_runtimeToken c = tok \<and> hostURL_ok (wb_hostOk web) (cl_HostURL (c_cfg c))"

lemma api_discover:
  fixes s :: "('a, 'h) storageService"
  assumes ok: "web_ok web T api tok prov" "storageReady web T api tok prov h" and c: "apiClient web api tok c"
  shows "\<exists>h'. findEndpoint (apiRPC web) ''storage'' c (h, s) = ((h', s), Inr (serviceURL ''storage'' (sp_RuntimeID prov))) \<and>
    storageReady web T api tok prov h'"
proof -
  obtain ep where ep: "c_registryClient c = Some ep" using c by (auto simp: apiClient_def)
  obtain h' res where d: "rpc_Discover (hostRPC web) ep (clientHeader c) ''storage'' ''1.0.0'' h = (h', res)" by (metis surj_pair)
  then show ?thesis
    using hostRPC_Discover(1,3) [OF ok d] by (auto simp: findEndpoint_def ep apiRPC_def liftRPC_def)
qed

lemma plainPath_storage:
  assumes "web_ok web T api tok prov" and "storageReady web T api tok prov h"
  shows "plainPath (serviceURL ''storage'' (sp_RuntimeID prov))"
proof (rule plainPath_service)
  show "list_all plainByte ''storage''" by code_simp
  let ?p = "ho_platform h"
  have r: "wf_registry (pf_registry ?p)" "eligible (Some (pf_lifecycleServer ?p)) ''storage'' ''1.0.0'' (pf_registry ?p) = [prov]"
      "\<forall>q\<in>ran (regs ?p). list_all plainByte (sp_RuntimeID q)"
    using assms(2) by (simp_all add: storageReady_def Let_def)
  have "prov \<in> set (eligible (Some (pf_lifecycleServer ?p)) ''storage'' ''1.0.0'' (pf_registry ?p))" by (simp add: r(2))
  then show "list_all plainByte (sp_RuntimeID prov)" using r(3) unfolding eligible_registered [OF r(1)] by (auto intro: ranI)
qed

lemma hostURL_sendable: "hostURL_ok hostOk url \<Longrightarrow> authorityOf url \<noteq> []"
  by (auto simp: hostURL_ok_def authorityOf_def simp del: append_Cons)

lemma callHost_storage:
  fixes s :: "('a, 'h) storageService"
  assumes ok: "web_ok web T api tok prov" "storageReady web T api tok prov h" and c: "apiClient web api tok c"
    and m: "list_all plainByte m"
    and parse: "parseURL (wb_hostOk web) url = Some \<lparr>u_Scheme = ''http'', u_Opaque = [], u_Host = authorityOf (cl_HostURL (c_cfg c)),
        u_Path = serviceURL ''storage'' (sp_RuntimeID prov) @ CHR ''/'' # m, u_RawQuery = q\<rparr>"
    and q: "q \<noteq> []" "\<not> list_ex isCTL q" "CHR ''#'' \<notin> set q" "CHR '' '' \<notin> set q"
  obtains hdr h1 where "storageReady web T api tok prov h1"
    and "\<And>s' h' body. storageHandler (wb_hostOk web) (hostRPC web) (wb_logger web)
       \<lparr>hq_Method = meth, hq_Path = ''/storage.v1.Storage/'' @ m, hq_RawQuery = q, hq_Header = hdr, hq_Body = ''''\<rparr> s h1 =
         (s', h', Some (jsonResponse body)) \<Longrightarrow>
       \<exists>rh. callHost (wb_hostOk web) (apiSend web) meth url c (h, s) = ((h', s'), Some (Inr ((jsonResponse body)\<lparr>rs_Header := rh\<rparr>)))"
proof -
  define req where "req = \<lparr>hq_Method = meth, hq_Path = serviceURL ''storage'' (sp_RuntimeID prov) @ ''/'' @ m,
    hq_RawQuery = q, hq_Header = identityHeader api tok, hq_Body = ''''\<rparr>"
  have fields: "hq_Path req = serviceURL ''storage'' (sp_RuntimeID prov) @ ''/'' @ m" "hq_Header req = identityHeader api tok"
    "hq_RawQuery req = q" by (simp_all add: req_def)
  from serveHost_storage [OF ok fields(1,2) m fields(3) q, of s] obtain hdr h1 where
    h1: "storageReady web T api tok prov h1" and
    serve: "\<And>s' h' body. storageHandler (wb_hostOk web) (hostRPC web) (wb_logger web)
       \<lparr>hq_Method = meth, hq_Path = ''/storage.v1.Storage/'' @ m, hq_RawQuery = q, hq_Header = hdr, hq_Body = ''''\<rparr> s h1 =
         (s', h', Some (jsonResponse body)) \<Longrightarrow> \<exists>rh. serveHost web req (h, s) = ((h', s'), (jsonResponse body)\<lparr>rs_Header := rh\<rparr>)"
    by (auto simp: req_def)
  have c': "authorityOf (cl_HostURL (c_cfg c)) \<noteq> []" "clientHeader c = identityHeader api tok"
    using c hostURL_sendable by (auto simp: apiClient_def clientHeader_def)
  show thesis
  proof (rule that [OF h1])
    fix s' h' body
    assume "storageHandler (wb_hostOk web) (hostRPC web) (wb_logger web)
       \<lparr>hq_Method = meth, hq_Path = ''/storage.v1.Storage/'' @ m, hq_RawQuery = q, hq_Header = hdr, hq_Body = ''''\<rparr> s h1 =
         (s', h', Some (jsonResponse body))"
    from serve [OF this] show "\<exists>rh. callHost (wb_hostOk web) (apiSend web) meth url c (h, s) =
        ((h', s'), Some (Inr ((jsonResponse body)\<lparr>rs_Header := rh\<rparr>)))"
      using parse q(4) c' by (auto simp: callHost_def apiSend_def sendable_def received_def req_def serviceURL_def)
  qed
qed

lemma plain_Store: "list_all plainByte ''Store''"
  by code_simp

lemma plain_Get: "list_all plainByte ''Get''"
  by code_simp

lemma storeURL_ok:
  fixes s :: "('a, 'h) storageService"
  assumes ok: "web_ok web T api tok prov" "storageReady web T api tok prov h" and c: "apiClient web api tok c"
    and host: "hostURL_ok (wb_hostOk web) (cl_HostURL (c_cfg (st_client s)))"
    and k: "list_all unreserved k" "k \<noteq> ''''" and v: "plainURL v" "kept v \<noteq> ''''"
  shows "\<exists>h'. storeURL (wb_hostOk web) (apiRPC web) (apiSend web) k v c (h, s) = ((h', s\<lparr>st_data := (st_data s)(k \<mapsto> kept v)\<rparr>), Some None) \<and>
    storageReady web T api tok prov h'"
proof -
  obtain h0 where d: "findEndpoint (apiRPC web) ''storage'' c (h, s) = ((h0, s), Inr (serviceURL ''storage'' (sp_RuntimeID prov)))"
      and ready: "storageReady web T api tok prov h0" using api_discover [OF ok c] by blast
  have "hostURL_ok (wb_hostOk web) (cl_HostURL (c_cfg c))" using c by (simp add: apiClient_def)
  note parse = storeRequestURL_parses [OF this plainPath_storage [OF ok] k(1) v(1)]
  obtain hdr h1 where h1: "storageReady web T api tok prov h1" and
    call: "\<And>s' h' body. storageHandler (wb_hostOk web) (hostRPC web) (wb_logger web)
       \<lparr>hq_Method = ''POST'', hq_Path = ''/storage.v1.Storage/'' @ ''Store'',
        hq_RawQuery = ''code'' @ CHR ''='' # k @ CHR ''&'' # ''url'' @ CHR ''='' # takeWhile (\<lambda>c. c \<noteq> CHR ''#'') v,
        hq_Header = hdr, hq_Body = ''''\<rparr> s h1 = (s', h', Some (jsonResponse body)) \<Longrightarrow>
       \<exists>rh. callHost (wb_hostOk web) (apiSend web) ''POST''
         (storeRequestURL (cl_HostURL (c_cfg c)) (serviceURL ''storage'' (sp_RuntimeID prov)) k v) c (h0, s) =
           ((h', s'), Some (Inr ((jsonResponse body)\<lparr>rs_Header := rh\<rparr>)))"
    by (rule callHost_storage [OF ok(1) ready c plain_Store _ _ parse(2,3,4)]) (use parse(1) in simp, simp, blast)
  let ?req = "\<lparr>hq_Method = ''POST'', hq_Path = ''/storage.v1.Storage/'' @ ''Store'',
        hq_RawQuery = ''code'' @ CHR ''='' # k @ CHR ''&'' # ''url'' @ CHR ''='' # takeWhile (\<lambda>c. c \<noteq> CHR ''#'') v,
        hq_Header = hdr, hq_Body = ''''\<rparr>"
  have "hq_Method ?req = ''POST''" "queryGet (hq_RawQuery ?req) ''code'' = k" "queryGet (hq_RawQuery ?req) ''url'' = kept v"
    using parse(5,6) by simp_all
  from storage_Store_ok [OF ok(1) h1 host this k(2) v(2)] obtain h' where
    h': "storageHandler (wb_hostOk web) (hostRPC web) (wb_logger web) ?req s h1 =
      (s\<lparr>st_data := (st_data s)(k \<mapsto> kept v)\<rparr>, h', Some (jsonResponse ''{\"success\": true}''))" "storageReady web T api tok prov h'"
    by (auto simp: storageHandler_def)
  from call [OF h'(1)] show ?thesis using d h'(2) by (auto simp: storeURL_def jsonResponse_def)
qed

lemma getURL_ok:
  fixes s :: "('a, 'h) storageService"
  assumes ok: "web_ok web T api tok prov" "storageReady web T api tok prov h" and c: "apiClient web api tok c"
    and host: "hostURL_ok (wb_hostOk web) (cl_HostURL (c_cfg (st_client s)))"
    and k: "list_all unreserved k" "k \<noteq> ''''" "st_data s k = Some v" and json: "unmarshal (urlJSON v) = Inr v"
  shows "\<exists>h'. getURL (wb_hostOk web) unmarshal (apiRPC web) (apiSend web) k c (h, s) = ((h', s), Some (Inr v)) \<and> storageReady web T api tok prov h'"
proof -
  obtain h0 where d: "findEndpoint (apiRPC web) ''storage'' c (h, s) = ((h0, s), Inr (serviceURL ''storage'' (sp_RuntimeID prov)))"
      and ready: "storageReady web T api tok prov h0" using api_discover [OF ok c] by blast
  have "hostURL_ok (wb_hostOk web) (cl_HostURL (c_cfg c))" using c by (simp add: apiClient_def)
  note parse = getRequestURL_parses [OF this plainPath_storage [OF ok] k(1)]
  obtain hdr h1 where h1: "storageReady web T api tok prov h1" and
    call: "\<And>s' h' body. storageHandler (wb_hostOk web) (hostRPC web) (wb_logger web)
       \<lparr>hq_Method = ''GET'', hq_Path = ''/storage.v1.Storage/'' @ ''Get'', hq_RawQuery = ''code'' @ CHR ''='' # k,
        hq_Header = hdr, hq_Body = ''''\<rparr> s h1 = (s', h', Some (jsonResponse body)) \<Longrightarrow>
       \<exists>rh. callHost (wb_hostOk web) (apiSend web) ''GET''
         (getRequestURL (cl_HostURL (c_cfg c)) (serviceURL ''storage'' (sp_RuntimeID prov)) k) c (h0, s) =
           ((h', s'), Some (Inr ((jsonResponse body)\<lparr>rs_Header := rh\<rparr>)))"
    by (rule callHost_storage [OF ok(1) ready c plain_Get _ _ parse(2,3,4)]) (use parse(1) in simp, simp, blast)
  let ?req = "\<lparr>hq_Method = ''GET'', hq_Path = ''/storage.v1.Storage/'' @ ''Get'', hq_RawQuery = ''code'' @ CHR ''='' # k,
        hq_Header = hdr, hq_Body = ''''\<rparr>"
  have "queryGet (hq_RawQuery ?req) ''code'' = k" using parse(5) by simp
  from storage_Get_ok [OF ok(1) h1 host this k(2,3)] obtain h' where
    h': "storageHandler (wb_hostOk web) (hostRPC web) (wb_logger web) ?req s h1 = (s, h', Some (jsonResponse (urlJSON v)))"
      "storageReady web T api tok prov h'"
    by (auto simp: storageHandler_def)
  from call [OF h'(1)] show ?thesis using d h'(2) json by (auto simp: getURL_def jsonResponse_def)
qed

lemma web_later: "web_ok web T api tok prov \<Longrightarrow> now \<le> T \<Longrightarrow> web_ok (web\<lparr>wb_now := now\<rparr>) T api tok prov"
  by (simp add: web_ok_def storageReady_def)

lemma shortCode_ok:
  assumes "b \<noteq> ''''"
  shows "list_all unreserved (generateShortCode b)" and "generateShortCode b \<noteq> ''''"
proof -
  have "list_all unreserved ''0123456789abcdef''" by code_simp
  then have "isHexDigit c \<Longrightarrow> unreserved c" for c unfolding isHexDigit_def list_all_iff by blast
  then show "list_all unreserved (generateShortCode b)"
    by (auto simp: generateShortCode_def list_all_iff dest: set_hexEncode)
  have "length (generateShortCode b) \<noteq> 0" using assms by (simp add: generateShortCode_def)
  then show "generateShortCode b \<noteq> ''''" by simp
qed

text \<open>C17. The URL shortener end to end, through the host's registry and router, for URLs in
  plain ASCII (\<open>plainURL\<close>: without control characters, \<^verbatim>\<open>%\<close>, \<^verbatim>\<open>+\<close>, \<^verbatim>\<open>;\<close>, spaces, quotation marks and
  backslashes; \<open>percent_not_kept\<close> shows another one change). Such a URL, once shortened, resolves at
  any later time at which the API's token is valid to its part before the first \<^verbatim>\<open>&\<close> or \<^verbatim>\<open>#\<close>, since
  the API puts it unescaped into a query, so that of these URLs exactly those without the two
  bytes come back. In between (\<open>others\<close>) the plugins may do anything that leaves the storage
  registered and routable, its client and its entry for this code alone; the JSON library reads
  back the answer written for such a URL.\<close>
theorem shortened_resolves:
  fixes s :: "('a, 'h) storageService"
  assumes ok: "web_ok web T api tok prov" "storageReady web T api tok prov h" and c: "apiClient web api tok c"
    and host: "hostURL_ok (wb_hostOk web) (cl_HostURL (c_cfg (st_client s)))"
    and url: "queryGet (hq_RawQuery req) ''url'' = url" "plainURL url" "kept url \<noteq> ''''"
    and code: "b \<noteq> ''''" "queryGet (hq_RawQuery req') ''code'' = generateShortCode b"
    and others: "\<forall>h1 s1. storageReady web T api tok prov h1 \<longrightarrow>
      (\<exists>h2 s2. others (h1, s1) = (h2, s2) \<and> storageReady web T api tok prov h2 \<and> st_client s2 = st_client s1 \<and>
         st_data s2 (generateShortCode b) = st_data s1 (generateShortCode b))"
    and later: "later \<le> T"
    and json: "\<forall>u. plainURL u \<longrightarrow> unmarshal (urlJSON u) = Inr u"
  shows "\<exists>w w'. Shorten (wb_hostOk web) (apiRPC web) (apiSend web) b req c (h, s) =
      (w, Some (jsonResponse (shortenedJSON (generateShortCode b) url))) \<and>
    Resolve (wb_hostOk web) unmarshal (apiRPC web) (apiSend (web\<lparr>wb_now := later\<rparr>)) req' c (others w) =
      (w', Some (jsonResponse (urlJSON (kept url)))) \<and>
    (kept url = url \<longleftrightarrow> CHR ''&'' \<notin> set url \<and> CHR ''#'' \<notin> set url)"
proof -
  let ?k = "generateShortCode b" and ?web = "web\<lparr>wb_now := later\<rparr>"
  note k = shortCode_ok [OF code(1)]
  obtain h1 where st: "storeURL (wb_hostOk web) (apiRPC web) (apiSend web) ?k url c (h, s) =
      ((h1, s\<lparr>st_data := (st_data s)(?k \<mapsto> kept url)\<rparr>), Some None)" "storageReady web T api tok prov h1"
    using storeURL_ok [OF ok c host k url(2,3)] by blast
  have "url \<noteq> ''''" using url(3) by (auto simp: kept_def)
  then have shorten: "Shorten (wb_hostOk web) (apiRPC web) (apiSend web) b req c (h, s) = ((h1, s\<lparr>st_data := (st_data s)(?k \<mapsto> kept url)\<rparr>),
      Some (jsonResponse (shortenedJSON ?k url)))"
    by (simp add: Shorten_def Let_def url(1) st(1))
  from others [rule_format, OF st(2), of "s\<lparr>st_data := (st_data s)(?k \<mapsto> kept url)\<rparr>"] obtain h2 s2 where
    o2: "others (h1, s\<lparr>st_data := (st_data s)(?k \<mapsto> kept url)\<rparr>) = (h2, s2)" "storageReady web T api tok prov h2"
      "st_client s2 = st_client s" "st_data s2 ?k = Some (kept url)" by auto
  have "plainURL (kept url)" using url(2) by (auto simp: plainURL_def kept_def list_all_iff dest: set_takeWhileD)
  then have js: "unmarshal (urlJSON (kept url)) = Inr (kept url)" using json by blast
  have ready: "storageReady ?web T api tok prov h2" using o2(2) by (simp add: storageReady_def)
  have c': "apiClient ?web api tok c" using c by (simp add: apiClient_def)
  have host': "hostURL_ok (wb_hostOk ?web) (cl_HostURL (c_cfg (st_client s2)))" using host o2(3) by simp
  have rpc: "apiRPC ?web = apiRPC web" by (simp add: apiRPC_def hostRPC_def)
  obtain h3 where "getURL (wb_hostOk web) unmarshal (apiRPC web) (apiSend ?web) ?k c (h2, s2) = ((h3, s2), Some (Inr (kept url)))"
    using getURL_ok [where unmarshal = unmarshal, OF web_later [OF ok(1) later] ready c' host' k o2(4) js] by (auto simp: rpc)
  then show ?thesis using shorten o2(1) kept_all [of url] code(2) k(2) by (simp add: Resolve_def)
qed


text \<open>Another URL can change: the storage receives an escaped space as a space.\<close>

lemma percent_not_kept:
  "map_option (\<lambda>u. queryGet (u_RawQuery u) ''url'')
     (parseURL (\<lambda>_. True) (storeRequestURL ''http://host'' ''/services/storage/s-1'' ''61626364'' ''http://x/a%20b'')) =
   Some ''http://x/a b''"
  by code_simp

section \<open>A run\<close>

definition example_storage :: ServiceProvider where
  "example_storage = newProvider ''reg-6162636465666768'' 5 (identityHeader ''storage-a1b2'' ''t'')
     (serviceRequest [''base_url'' \<mapsto> ''http://localhost:8082''] (version1 ''storage'' ''/storage.v1.Storage/''))"

definition example_host :: HostState where
  "example_host = \<lparr>ho_platform = NewPlatform (storeProvider example_storage NewServiceRegistry) NewLifecycleServer NewServiceRouter,
     ho_handshake = example_tokens\<rparr>"

definition example_web :: Web where
  "example_web = \<lparr>wb_hostOk = \<lambda>_. True, wb_env = example_host_env, wb_now = 10, wb_order = \<lambda>r. sorted_list_of_set (dom r),
     wb_keys = [], wb_rkeys = [], wb_addr = ''localhost:8082'', wb_logger = \<lambda>_ _ _ h. (h, Inl ''connection refused'')\<rparr>"

definition example_api :: "(unit, unit) Client" where
  "example_api = example_logger\<lparr>c_cfg := programConfig ApiPlugin ''http://host'', c_runtimeID := ''app-1'', c_runtimeToken := ''secret''\<rparr>"

definition example_query :: "string \<Rightarrow> HttpRequest" where
  "example_query q = \<lparr>hq_Method = ''GET'', hq_Path = '''', hq_RawQuery = q, hq_Header = Map.empty, hq_Body = ''''\<rparr>"

definition example_unmarshal :: "string \<Rightarrow> string + string" where
  "example_unmarshal body = Inr (take (length body - 11) (drop 9 body))"

lemma example_storage_fields:
  "sp_RegistrationID example_storage = ''reg-6162636465666768''" "sp_RuntimeID example_storage = ''storage-a1b2''"
  "sp_ServiceType example_storage = ''storage''" "sp_Version example_storage = ''1.0.0''"
  "sp_EndpointPath example_storage = ''/storage.v1.Storage/''" "sp_Metadata example_storage = [''base_url'' \<mapsto> ''http://localhost:8082'']"
  by (simp_all add: example_storage_def newProvider_def serviceRequest_def version1_def identityHeader_def header_get_set canonical_keys)

lemma example_storage_registry:
  "r_registrations (storeProvider example_storage NewServiceRegistry) = [''reg-6162636465666768'' \<mapsto> example_storage]"
  "get_slice (r_providers (storeProvider example_storage NewServiceRegistry)) t = (if t = ''storage'' then [example_storage] else [])"
  by (simp_all add: storeProvider_def NewServiceRegistry_def example_storage_fields)

lemma example_hostURL: "hostURL_ok (\<lambda>_. True) ''http://host''" "hostURL_ok (\<lambda>_. True) ''http://localhost:8082''"
proof -
  have "list_all plainByte ''host''" "list_all plainByte ''localhost:8082''" by code_simp+
  then show "hostURL_ok (\<lambda>_. True) ''http://host''" "hostURL_ok (\<lambda>_. True) ''http://localhost:8082''"
    unfolding hostURL_ok_def by simp_all
qed

lemma example_storageReady: "storageReady example_web 50 ''app-1'' ''secret'' example_storage example_host"
proof -
  have "ValidateServiceType ''storage'' = None" "ValidateVersion ''1.0.0'' = None" "ValidateEndpointPath ''/storage.v1.Storage/'' = None"
    "validateEntry ''base_url'' ''http://localhost:8082'' = None" by code_simp+
  then have "valid_provider example_storage" by (simp add: valid_provider_def example_storage_fields validateEntry_ok)
  then have wf: "wf_registry (storeProvider example_storage NewServiceRegistry)"
    by (auto simp: wf_registry_def example_storage_registry example_storage_fields)
  have el: "eligible (Some NewLifecycleServer) ''storage'' ''1.0.0'' (storeProvider example_storage NewServiceRegistry) = [example_storage]"
    by (simp add: eligible_def filterCompatibleVersions_def filterAvailable_def example_storage_registry example_storage_fields
        ShouldRouteTraffic_iff NewLifecycleServer_def)
  have plain: "list_all plainByte ''storage-a1b2''" by code_simp
  show ?thesis
    using wf el plain
    by (simp add: storageReady_def example_host_def NewPlatform_def example_storage_registry example_storage_fields providerBase_def
        NewServiceRouter_def example_web_def example_tokens_def storeToken_def)
qed

lemma example_web_ok: "web_ok example_web 50 ''app-1'' ''secret'' example_storage"
  using example_hostURL(2)
  by (simp add: web_ok_def example_web_def example_host_env_def draw_ok_def example_storage_fields iter_order_def)

lemma shortened_resolves_witness:
  "\<exists>w w'. Shorten (\<lambda>_. True) (apiRPC example_web) (apiSend example_web) ''abcd''
        (example_query (''url='' @ queryEscape ''https://go.dev/?a=1&b=2'')) example_api
        (example_host, \<lparr>st_data = Map.empty, st_client = example_logger\<rparr>) =
      (w, Some (jsonResponse (shortenedJSON ''61626364'' ''https://go.dev/?a=1&b=2''))) \<and>
    Resolve (\<lambda>_. True) example_unmarshal (apiRPC example_web) (apiSend (example_web\<lparr>wb_now := 40\<rparr>))
        (example_query ''code=61626364'') example_api w =
      (w', Some (jsonResponse (urlJSON ''https://go.dev/?a=1'')))"
proof -
  let ?s = "\<lparr>st_data = Map.empty, st_client = example_logger\<rparr> :: (unit, unit) storageService"
  have c: "apiClient example_web ''app-1'' ''secret'' example_api"
    using example_hostURL(1)
    by (simp add: apiClient_def example_api_def example_logger_def example_web_def programConfig_defs programClient_def)
  have host: "hostURL_ok (wb_hostOk example_web) (cl_HostURL (c_cfg (st_client ?s)))"
    using example_hostURL(1) by (simp add: example_logger_def example_web_def programConfig_defs programClient_def)
  have keys: "plainKey ''url''" "plainKey ''code''" by code_simp+
  have q: "queryGet (hq_RawQuery (example_query (''url='' @ queryEscape ''https://go.dev/?a=1&b=2''))) ''url'' = ''https://go.dev/?a=1&b=2''"
    using queryGet_escaped [OF keys(1)] by (simp add: example_query_def)
  have code: "generateShortCode ''abcd'' = ''61626364''" by code_simp
  have q': "queryGet (hq_RawQuery (example_query ''code=61626364'')) ''code'' = generateShortCode ''abcd''" by code_simp
  have plain: "plainURL ''https://go.dev/?a=1&b=2''" and kept: "kept ''https://go.dev/?a=1&b=2'' = ''https://go.dev/?a=1''" by code_simp+
  have json: "\<forall>u. plainURL u \<longrightarrow> example_unmarshal (urlJSON u) = Inr u" by (simp add: example_unmarshal_def urlJSON_def)
  have ne: "kept ''https://go.dev/?a=1&b=2'' \<noteq> ''''" "''abcd'' \<noteq> ''''" "(40 :: time) \<le> 50" by (simp_all add: kept)
  have ok: "wb_hostOk example_web = (\<lambda>_. True)" by (simp add: example_web_def)
  show ?thesis
    using shortened_resolves [where others = id, OF example_web_ok example_storageReady c host q plain ne(1,2) q' _ ne(3) json]
    unfolding code kept ok by (simp add: id_def)
qed

lemma log_message_intact_witness:
  "\<exists>u req u' req'. parseURL (\<lambda>_. True) (logURL ''http://host'' ''/services/logger/l-a1'' ''STORE 1 & 2 #%+'') = Some u \<and>
    received ''POST'' u Map.empty [] = Some req \<and> hq_Path req = ''/services/logger/l-a1/Log'' \<and>
    parseURL (\<lambda>_. True) (proxyURL ''http://localhost:8082/logger.v1.Logger/Log'' (hq_RawQuery req)) = Some u' \<and>
    received ''POST'' u' Map.empty [] = Some req' \<and> fst (logger_Log req') = Some ''STORE 1 & 2 #%+''"
proof -
  have "plainPath ''/services/logger/l-a1''" "plainPath ''/logger.v1.Logger/Log''" by code_simp+
  from log_message_intact [OF example_hostURL(1) this(1) example_hostURL(2) this(2), of "''STORE 1 & 2 #%+''" Map.empty Map.empty]
  show ?thesis by simp blast
qed

end
