(* ===== verification/Testharness.thy ===== *)
theory Testharness
  imports Prelude
begin

text \<open>
  The process harness of the integration tests, \<^verbatim>\<open>internal/testharness/multiprocess.go\<close> and
  \<^verbatim>\<open>internal/testharness/harness.go\<close>: what it starts, signals and kills, as the list of these actions.
  A process is the number of its configuration. Whether a start fails and what the polls of a port see
  are arguments; when the polls of a port are used up its deadline has passed.
\<close>

section \<open>Several processes\<close>

record ProcessConfig =
  pc_Name :: string
  pc_Cmd :: string
  pc_Args :: "string list"
  pc_Env :: "string list"
  pc_Port :: int
  pc_WaitFor :: string

datatype HarnessAction =
    StartProcess nat string "string list" "string list"
  | InterruptProcess nat
  | KillProcess nat

datatype HarnessError = StartError string string | PortError string string | ClientError string

record HarnessEnv =
  hv_start :: "nat \<Rightarrow> string option"
  hv_ticks :: "nat \<Rightarrow> (bool \<times> string option) list"

text \<open>
  A poll dials; once it succeeds the answer of \<open>checkHTTP\<close> is the result, also when it is an error.
\<close>

fun waitForPort :: "(bool \<times> string option) list \<Rightarrow> string option" where
  "waitForPort [] = Some ''timeout''"
| "waitForPort ((dialled, http) # ticks) = (if dialled then http else waitForPort ticks)"

fun startProcesses ::
    "HarnessEnv \<Rightarrow> nat \<Rightarrow> ProcessConfig list \<Rightarrow> HarnessAction list \<times> nat list \<times> HarnessError option" where
  "startProcesses env i [] = ([], [], None)"
| "startProcesses env i (cfg # cfgs) =
     (case hv_start env i of
        Some e \<Rightarrow> ([], [], Some (StartError (pc_Name cfg) e))
      | None \<Rightarrow>
          let started = StartProcess i (pc_Cmd cfg) (pc_Args cfg) (pc_Env cfg)
          in (case (if 0 < pc_Port cfg then waitForPort (hv_ticks env i) else None) of
                Some e \<Rightarrow> ([started], [i], Some (PortError (pc_Name cfg) e))
              | None \<Rightarrow>
                  (case startProcesses env (Suc i) cfgs of
                     (acts, procs, r) \<Rightarrow> (started # acts, i # procs, r))))"

text \<open>The deferred function: interrupts in reverse order, a pause, and the kills.\<close>

definition cleanupProcesses :: "nat list \<Rightarrow> HarnessAction list" where
  "cleanupProcesses started = map InterruptProcess (rev started) @ map KillProcess started"

definition MultiProcess_Run :: "HarnessEnv \<Rightarrow> ProcessConfig list \<Rightarrow> HarnessAction list \<times> HarnessError option" where
  "MultiProcess_Run env cfgs =
     (case startProcesses env 0 cfgs of (acts, started, r) \<Rightarrow> (acts @ cleanupProcesses started, r))"

section \<open>A server and a client\<close>

datatype ServerAction = StartServer | RunClient | CancelContext | InterruptServer | KillServer

text \<open>\<open>start\<close> and \<open>client\<close> are the errors of starting the server and of running the client, if any.\<close>

definition Harness_Run ::
    "string option \<Rightarrow> (bool \<times> string option) list \<Rightarrow> string option \<Rightarrow> ServerAction list \<times> HarnessError option" where
  "Harness_Run start ticks client =
     (case start of
        Some e \<Rightarrow> ([CancelContext], Some (StartError ''server'' e))
      | None \<Rightarrow>
          let cleanup = [CancelContext, InterruptServer, KillServer, CancelContext]
          in (case waitForPort ticks of
                Some e \<Rightarrow> (StartServer # cleanup, Some (PortError ''server'' e))
              | None \<Rightarrow> (StartServer # RunClient # cleanup, map_option ClientError client)))"

section \<open>Nothing is left running\<close>

fun startAction :: "nat \<times> ProcessConfig \<Rightarrow> HarnessAction" where
  "startAction (i, cfg) = StartProcess i (pc_Cmd cfg) (pc_Args cfg) (pc_Env cfg)"

fun comesUp :: "HarnessEnv \<Rightarrow> nat \<times> ProcessConfig \<Rightarrow> bool" where
  "comesUp env (i, cfg) \<longleftrightarrow> hv_start env i = None \<and> (0 < pc_Port cfg \<longrightarrow> waitForPort (hv_ticks env i) = None)"

lemma startProcesses_prefix:
  "\<exists>n\<le>length cfgs. \<exists>r. startProcesses env i cfgs = (map startAction (List.enumerate i (take n cfgs)), [i..<i + n], r) \<and>
     list_all (comesUp env) (List.enumerate i (take (n - 1) cfgs)) \<and>
     (r = None \<longleftrightarrow> list_all (comesUp env) (List.enumerate i cfgs)) \<and> (r = None \<longrightarrow> n = length cfgs)"
proof (induction cfgs arbitrary: i)
  case (Cons cfg cfgs)
  show ?case
  proof (cases "comesUp env (i, cfg)")
    case True
    then have none: "hv_start env i = None" "(if 0 < pc_Port cfg then waitForPort (hv_ticks env i) else None) = None" by simp_all
    obtain n r where n: "n \<le> length cfgs"
      "startProcesses env (Suc i) cfgs = (map startAction (List.enumerate (Suc i) (take n cfgs)), [Suc i..<Suc i + n], r)"
      "list_all (comesUp env) (List.enumerate (Suc i) (take (n - 1) cfgs))"
      "r = None \<longleftrightarrow> list_all (comesUp env) (List.enumerate (Suc i) cfgs)" "r = None \<longrightarrow> n = length cfgs"
      using Cons.IH [of "Suc i"] by blast
    have "i # [Suc i..<Suc i + n] = [i..<i + Suc n]" by (simp add: upt_conv_Cons)
    then have "startProcesses env i (cfg # cfgs) =
        (map startAction (List.enumerate i (take (Suc n) (cfg # cfgs))), [i..<i + Suc n], r)"
      using n(2) by (simp add: none Let_def del: upt_Suc)
    moreover have "list_all (comesUp env) (List.enumerate i (take (Suc n - 1) (cfg # cfgs)))"
      using True n(3) by (cases n) simp_all
    ultimately show ?thesis using n(1,4,5) True by (intro exI [of _ "Suc n"] exI [of _ r] conjI) simp_all
  next
    case False
    show ?thesis
    proof (cases "hv_start env i")
      case None
      with False obtain e where "(if 0 < pc_Port cfg then waitForPort (hv_ticks env i) else None) = Some e" by auto
      with None False show ?thesis by (intro exI [of _ 1]) (simp add: Let_def)
    next
      case (Some e)
      then show ?thesis by (intro exI [of _ 0]) simp
    qed
  qed
qed simp

text \<open>
  Whatever goes wrong, the processes started are a prefix of the configuration, in its order, each of them
  started after those before it came up, and every one of them is interrupted and then killed; the result
  is nil exactly when all of them came up. (\<open>WaitFor\<close> is not read by anything: the order is that of the list.)
\<close>

theorem MultiProcess_Run_cleans_up:
  "\<exists>n r. n \<le> length cfgs \<and>
     MultiProcess_Run env cfgs = (map startAction (List.enumerate 0 (take n cfgs)) @
       map InterruptProcess (rev [0..<n]) @ map KillProcess [0..<n], r) \<and>
     list_all (comesUp env) (List.enumerate 0 (take (n - 1) cfgs)) \<and>
     (r = None \<longleftrightarrow> list_all (comesUp env) (List.enumerate 0 cfgs))"
proof -
  obtain n r where n: "n \<le> length cfgs"
    "startProcesses env 0 cfgs = (map startAction (List.enumerate 0 (take n cfgs)), [0..<0 + n], r)"
    "list_all (comesUp env) (List.enumerate 0 (take (n - 1) cfgs))" "r = None \<longleftrightarrow> list_all (comesUp env) (List.enumerate 0 cfgs)"
    using startProcesses_prefix [of cfgs env 0] by blast
  then show ?thesis by (intro exI [of _ n] exI [of _ r]) (simp add: MultiProcess_Run_def cleanupProcesses_def)
qed

end
