(* ===== verification/CodegenGolden.thy ===== *)
theory CodegenGolden
  imports CodegenProps
begin

text \<open>
  The generator against the files it generated: the repository has the output of the protoc plugin checked
  in, for the logger (\<^verbatim>\<open>gen/loggerv1delegate/delegate.go\<close>, \<^verbatim>\<open>gen/loggerv1plugin/plugin.go\<close>) and for the
  key-value service (\<^verbatim>\<open>testdata/kv/gen/kvv1delegate/delegate.go\<close>, \<^verbatim>\<open>testdata/kv/gen/kvv1plugin/plugin.go\<close>). The model of
  the generator produces these files line by line from the descriptors of the two proto files. The library
  protogen formats what it is given: the blanks that align the fields of a literal, and the blank line
  at the end of the text.
\<close>

section \<open>Formatting\<close>

fun squeeze :: "string \<Rightarrow> string" where
  "squeeze (c # d # s) = (if c = CHR '' '' \<and> d = CHR '' '' then squeeze (d # s) else c # squeeze (d # s))"
| "squeeze s = s"

definition formatted :: "string list \<Rightarrow> string list" where
  "formatted lines = map squeeze (rev (dropWhile (\<lambda>l. l = '''') (rev lines)))"

section \<open>Descriptors\<close>

text \<open>\<^verbatim>\<open>capability/logger/v1/logger.proto\<close>.\<close>

definition scalarField :: "string \<Rightarrow> string \<Rightarrow> Field" where
  "scalarField name kind = Field name kind False False None None"

definition LogRequest_desc :: Message where
  "LogRequest_desc = Message ''LogRequest''
     [scalarField ''Level'' ''string'', scalarField ''Message'' ''string'',
      Field ''Fields'' ''message'' False True
        (Some (Message ''LogRequest_FieldsEntry'' [scalarField ''Key'' ''string'', scalarField ''Value'' ''string''])) None]"

definition logger_service :: GenService where
  "logger_service = \<lparr>gs_GoName = ''Logger'', gs_Methods =
     [\<lparr>me_GoName = ''Log'', me_Leading = '' Log writes a log entry.'' @ [newline], me_Input = LogRequest_desc,
       me_Output = Message ''LogResponse'' [], me_IsStreamingServer = False, me_IsStreamingClient = False\<rparr>]\<rparr>"

definition logger_proto :: ProtoFile where
  "logger_proto = \<lparr>gf_Generate = True, gf_Path = ''capability/logger/v1/logger.proto'', gf_GoPackageName = ''loggerv1'',
     gf_GoImportPath = ''github.com/masegraye/connect-plugin-go/gen/capability/logger/v1'', gf_Services = [logger_service]\<rparr>"

text \<open>\<^verbatim>\<open>kv.proto\<close>.\<close>

definition unaryMethod :: "string \<Rightarrow> string \<Rightarrow> Message \<Rightarrow> Message \<Rightarrow> GenMethod" where
  "unaryMethod name comment input output =
     \<lparr>me_GoName = name, me_Leading = '' '' @ comment @ [newline], me_Input = input, me_Output = output,
      me_IsStreamingServer = False, me_IsStreamingClient = False\<rparr>"

definition kv_service :: GenService where
  "kv_service = \<lparr>gs_GoName = ''KVService'', gs_Methods =
     [unaryMethod ''Get'' ''Get retrieves a value by key.'' (Message ''GetRequest'' [scalarField ''Key'' ''string''])
        (Message ''GetResponse'' [scalarField ''Value'' ''bytes'', scalarField ''Found'' ''bool'']),
      unaryMethod ''Put'' ''Put stores a key-value pair.''
        (Message ''PutRequest'' [scalarField ''Key'' ''string'', scalarField ''Value'' ''bytes'']) (Message ''PutResponse'' []),
      unaryMethod ''Delete'' ''Delete removes a key.'' (Message ''DeleteRequest'' [scalarField ''Key'' ''string''])
        (Message ''DeleteResponse'' [scalarField ''Found'' ''bool'']),
      (unaryMethod ''Watch'' ''Watch streams changes to keys with the given prefix.''
        (Message ''WatchRequest'' [scalarField ''Prefix'' ''string''])
        (Message ''WatchEvent'' [Field ''Type'' ''enum'' False False None (Some ''EventType''), scalarField ''Key'' ''string'',
           scalarField ''Value'' ''bytes'']))\<lparr>me_IsStreamingServer := True\<rparr>]\<rparr>"

definition kv_proto :: ProtoFile where
  "kv_proto = \<lparr>gf_Generate = True, gf_Path = ''kv.proto'', gf_GoPackageName = ''kvv1'',
     gf_GoImportPath = ''github.com/masegraye/connect-plugin-go/testdata/kv/gen'', gf_Services = [kv_service]\<rparr>"

section \<open>The files of the repository\<close>

text \<open>\<^verbatim>\<open>gen/loggerv1delegate/delegate.go\<close>.\<close>

definition loggerv1delegate_go :: "string list" where
  "loggerv1delegate_go =
    [''// Code generated by protoc-gen-connect-plugin. DO NOT EDIT.'',
     '''',
     ''// source: capability/logger/v1/logger.proto'',
     '''',
     ''package loggerv1delegate'',
     '''',
     ''import ('',
     tabs 1 @ ''\"context\"'',
     tabs 1 @ ''\"net/http\"'',
     '''',
     tabs 1 @ ''\"connectrpc.com/connect\"'',
     tabs 1 @ ''loggerv1 \"github.com/masegraye/connect-plugin-go/gen/capability/logger/v1\"'',
     tabs 1 @ ''loggerv1connect \"github.com/masegraye/connect-plugin-go/gen/capability/logger/v1/loggerv1connect\"'',
     '')'',
     '''',
     ''// Ensure imports are used'',
     ''var _ = connect.IsAtLeastVersion1_13_0'',
     '''',
     ''// Logger is the domain interface for Logger.'',
     ''type Logger interface {'',
     tabs 1 @ ''// Log writes a log entry.'',
     tabs 1 @ ''Log(ctx context.Context, level string, message string, fields map[string]string) error'',
     ''}'',
     '''',
     ''// loggerDelegate implements Logger using a Connect client.'',
     ''type loggerDelegate struct {'',
     tabs 1 @ ''client loggerv1connect.LoggerClient'',
     ''}'',
     '''',
     ''var _ Logger = (*loggerDelegate)(nil)'',
     '''',
     ''// New creates a Logger from an existing Connect client.'',
     ''func New(client loggerv1connect.LoggerClient) Logger {'',
     tabs 1 @ ''return &loggerDelegate{client: client}'',
     ''}'',
     '''',
     ''// NewFromURL creates a Logger from a URL.'',
     ''func NewFromURL(url string, opts ...connect.ClientOption) Logger {'',
     tabs 1 @ ''client := loggerv1connect.NewLoggerClient(http.DefaultClient, url, opts...)'',
     tabs 1 @ ''return &loggerDelegate{client: client}'',
     ''}'',
     '''',
     ''// Log implements Log via Connect client.'',
     ''func (d *loggerDelegate) Log(ctx context.Context, level string, message string, fields map[string]string) error {'',
     tabs 1 @ ''req := &loggerv1.LogRequest{'',
     tabs 2 @ ''Level:   level,'',
     tabs 2 @ ''Message: message,'',
     tabs 2 @ ''Fields:  fields,'',
     tabs 1 @ ''}'',
     '''',
     tabs 1 @ ''_, err := d.client.Log(ctx, connect.NewRequest(req))'',
     tabs 1 @ ''if err != nil {'',
     tabs 2 @ ''return err'',
     tabs 1 @ ''}'',
     '''',
     tabs 1 @ ''return nil'',
     ''}'']"

text \<open>\<^verbatim>\<open>gen/loggerv1plugin/plugin.go\<close>.\<close>

definition loggerv1plugin_go :: "string list" where
  "loggerv1plugin_go =
    [''// Code generated by protoc-gen-connect-plugin. DO NOT EDIT.'',
     '''',
     ''// source: capability/logger/v1/logger.proto'',
     '''',
     ''package loggerv1plugin'',
     '''',
     ''import ('',
     tabs 1 @ ''\"fmt\"'',
     tabs 1 @ ''\"net/http\"'',
     '''',
     tabs 1 @ ''\"connectrpc.com/connect\"'',
     tabs 1 @ ''connectplugin \"github.com/masegraye/connect-plugin-go\"'',
     tabs 1 @ ''loggerv1connect \"github.com/masegraye/connect-plugin-go/gen/capability/logger/v1/loggerv1connect\"'',
     '')'',
     '''',
     ''// LoggerPlugin implements connectplugin.Plugin for Logger.'',
     ''type LoggerPlugin struct{}'',
     '''',
     ''var _ connectplugin.Plugin = (*LoggerPlugin)(nil)'',
     '''',
     ''// Metadata returns plugin metadata.'',
     ''func (p *LoggerPlugin) Metadata() connectplugin.PluginMetadata {'',
     tabs 1 @ ''return connectplugin.PluginMetadata{'',
     tabs 2 @ ''Name:    \"logger\",'',
     tabs 2 @ ''Path:    loggerv1connect.LoggerName,'',
     tabs 2 @ ''Version: \"1.0.0\",'',
     tabs 2 @ ''Provides: []connectplugin.ServiceDeclaration{'',
     tabs 3 @ ''{'',
     tabs 4 @ ''Type:    \"logger\",'',
     tabs 4 @ ''Version: \"1.0.0\",'',
     tabs 4 @ ''Path:    loggerv1connect.LoggerName,'',
     tabs 3 @ ''},'',
     tabs 2 @ ''},'',
     tabs 1 @ ''}'',
     ''}'',
     '''',
     ''// ConnectServer creates a server-side handler for this plugin.'',
     ''func (p *LoggerPlugin) ConnectServer(impl any) (string, http.Handler, error) {'',
     tabs 1 @ ''handler, ok := impl.(loggerv1connect.LoggerHandler)'',
     tabs 1 @ ''if !ok {'',
     tabs 2 @ ''return \"\", nil, fmt.Errorf(\"impl must implement LoggerHandler, got %T\", impl)'',
     tabs 1 @ ''}'',
     '''',
     tabs 1 @ ''path, h := loggerv1connect.NewLoggerHandler(handler)'',
     tabs 1 @ ''return path, h, nil'',
     ''}'',
     '''',
     ''// ConnectClient creates a client-side plugin instance.'',
     ''func (p *LoggerPlugin) ConnectClient(baseURL string, httpClient connect.HTTPClient) (any, error) {'',
     tabs 1 @ ''return loggerv1connect.NewLoggerClient(httpClient, baseURL), nil'',
     ''}'']"

text \<open>\<^verbatim>\<open>testdata/kv/gen/kvv1delegate/delegate.go\<close>.\<close>

definition kvv1delegate_go :: "string list" where
  "kvv1delegate_go =
    [''// Code generated by protoc-gen-connect-plugin. DO NOT EDIT.'',
     '''',
     ''// source: kv.proto'',
     '''',
     ''package kvv1delegate'',
     '''',
     ''import ('',
     tabs 1 @ ''\"context\"'',
     tabs 1 @ ''\"net/http\"'',
     '''',
     tabs 1 @ ''\"connectrpc.com/connect\"'',
     tabs 1 @ ''kvv1 \"github.com/masegraye/connect-plugin-go/testdata/kv/gen\"'',
     tabs 1 @ ''kvv1connect \"github.com/masegraye/connect-plugin-go/testdata/kv/gen/kvv1connect\"'',
     '')'',
     '''',
     ''// KV is the domain interface for KVService.'',
     ''type KV interface {'',
     tabs 1 @ ''// Get retrieves a value by key.'',
     tabs 1 @ ''Get(ctx context.Context, key string) (value []byte, found bool, err error)'',
     tabs 1 @ ''// Put stores a key-value pair.'',
     tabs 1 @ ''Put(ctx context.Context, key string, value []byte) error'',
     tabs 1 @ ''// Delete removes a key.'',
     tabs 1 @ ''Delete(ctx context.Context, key string) (found bool, err error)'',
     tabs 1 @ ''// Watch streams changes to keys with the given prefix.'',
     tabs 1 @ ''Watch(ctx context.Context, prefix string) (*connect.ServerStreamForClient[kvv1.WatchEvent], error)'',
     ''}'',
     '''',
     ''// kVDelegate implements KV using a Connect client.'',
     ''type kVDelegate struct {'',
     tabs 1 @ ''client kvv1connect.KVServiceClient'',
     ''}'',
     '''',
     ''var _ KV = (*kVDelegate)(nil)'',
     '''',
     ''// New creates a KV from an existing Connect client.'',
     ''func New(client kvv1connect.KVServiceClient) KV {'',
     tabs 1 @ ''return &kVDelegate{client: client}'',
     ''}'',
     '''',
     ''// NewFromURL creates a KV from a URL.'',
     ''func NewFromURL(url string, opts ...connect.ClientOption) KV {'',
     tabs 1 @ ''client := kvv1connect.NewKVServiceClient(http.DefaultClient, url, opts...)'',
     tabs 1 @ ''return &kVDelegate{client: client}'',
     ''}'',
     '''',
     ''// Get implements Get via Connect client.'',
     ''func (d *kVDelegate) Get(ctx context.Context, key string) (value []byte, found bool, err error) {'',
     tabs 1 @ ''req := &kvv1.GetRequest{'',
     tabs 2 @ ''Key: key,'',
     tabs 1 @ ''}'',
     '''',
     tabs 1 @ ''resp, err := d.client.Get(ctx, connect.NewRequest(req))'',
     tabs 1 @ ''if err != nil {'',
     tabs 2 @ ''return nil, false, err'',
     tabs 1 @ ''}'',
     '''',
     tabs 1 @ ''return resp.Msg.Value, resp.Msg.Found, nil'',
     ''}'',
     '''',
     ''// Put implements Put via Connect client.'',
     ''func (d *kVDelegate) Put(ctx context.Context, key string, value []byte) error {'',
     tabs 1 @ ''req := &kvv1.PutRequest{'',
     tabs 2 @ ''Key:   key,'',
     tabs 2 @ ''Value: value,'',
     tabs 1 @ ''}'',
     '''',
     tabs 1 @ ''_, err := d.client.Put(ctx, connect.NewRequest(req))'',
     tabs 1 @ ''if err != nil {'',
     tabs 2 @ ''return err'',
     tabs 1 @ ''}'',
     '''',
     tabs 1 @ ''return nil'',
     ''}'',
     '''',
     ''// Delete implements Delete via Connect client.'',
     ''func (d *kVDelegate) Delete(ctx context.Context, key string) (found bool, err error) {'',
     tabs 1 @ ''req := &kvv1.DeleteRequest{'',
     tabs 2 @ ''Key: key,'',
     tabs 1 @ ''}'',
     '''',
     tabs 1 @ ''resp, err := d.client.Delete(ctx, connect.NewRequest(req))'',
     tabs 1 @ ''if err != nil {'',
     tabs 2 @ ''return false, err'',
     tabs 1 @ ''}'',
     '''',
     tabs 1 @ ''return resp.Msg.Found, nil'',
     ''}'',
     '''',
     ''// Watch implements Watch via Connect client.'',
     ''func (d *kVDelegate) Watch(ctx context.Context, prefix string) (*connect.ServerStreamForClient[kvv1.WatchEvent], error) {'',
     tabs 1 @ ''req := &kvv1.WatchRequest{'',
     tabs 2 @ ''Prefix: prefix,'',
     tabs 1 @ ''}'',
     '''',
     tabs 1 @ ''return d.client.Watch(ctx, connect.NewRequest(req))'',
     ''}'']"

text \<open>\<^verbatim>\<open>testdata/kv/gen/kvv1plugin/plugin.go\<close>.\<close>

definition kvv1plugin_go :: "string list" where
  "kvv1plugin_go =
    [''// Code generated by protoc-gen-connect-plugin. DO NOT EDIT.'',
     '''',
     ''// source: kv.proto'',
     '''',
     ''package kvv1plugin'',
     '''',
     ''import ('',
     tabs 1 @ ''\"fmt\"'',
     tabs 1 @ ''\"net/http\"'',
     '''',
     tabs 1 @ ''\"connectrpc.com/connect\"'',
     tabs 1 @ ''connectplugin \"github.com/masegraye/connect-plugin-go\"'',
     tabs 1 @ ''kvv1connect \"github.com/masegraye/connect-plugin-go/testdata/kv/gen/kvv1connect\"'',
     '')'',
     '''',
     ''// KVServicePlugin implements connectplugin.Plugin for KVService.'',
     ''type KVServicePlugin struct{}'',
     '''',
     ''var _ connectplugin.Plugin = (*KVServicePlugin)(nil)'',
     '''',
     ''// Metadata returns plugin metadata.'',
     ''func (p *KVServicePlugin) Metadata() connectplugin.PluginMetadata {'',
     tabs 1 @ ''return connectplugin.PluginMetadata{'',
     tabs 2 @ ''Name:    \"kv\",'',
     tabs 2 @ ''Path:    kvv1connect.KVServiceName,'',
     tabs 2 @ ''Version: \"1.0.0\",'',
     tabs 2 @ ''Provides: []connectplugin.ServiceDeclaration{'',
     tabs 3 @ ''{'',
     tabs 4 @ ''Type:    \"kv\",'',
     tabs 4 @ ''Version: \"1.0.0\",'',
     tabs 4 @ ''Path:    kvv1connect.KVServiceName,'',
     tabs 3 @ ''},'',
     tabs 2 @ ''},'',
     tabs 1 @ ''}'',
     ''}'',
     '''',
     ''// ConnectServer creates a server-side handler for this plugin.'',
     ''func (p *KVServicePlugin) ConnectServer(impl any) (string, http.Handler, error) {'',
     tabs 1 @ ''handler, ok := impl.(kvv1connect.KVServiceHandler)'',
     tabs 1 @ ''if !ok {'',
     tabs 2 @ ''return \"\", nil, fmt.Errorf(\"impl must implement KVServiceHandler, got %T\", impl)'',
     tabs 1 @ ''}'',
     '''',
     tabs 1 @ ''path, h := kvv1connect.NewKVServiceHandler(handler)'',
     tabs 1 @ ''return path, h, nil'',
     ''}'',
     '''',
     ''// ConnectClient creates a client-side plugin instance.'',
     ''func (p *KVServicePlugin) ConnectClient(baseURL string, httpClient connect.HTTPClient) (any, error) {'',
     tabs 1 @ ''return kvv1connect.NewKVServiceClient(httpClient, baseURL), nil'',
     ''}'']"

section \<open>Conformance\<close>

text \<open>The model of the generator conforms to its checked-in output: from the descriptors of the logger and of the key-value
  service it generates, up to formatting, the four files of the repository that carry its header.\<close>
lemma generates_checked_in_files:
  "map_option (map (\<lambda>f. (gn_Name f, formatted (gn_Lines f)))) (generateAll [logger_proto, kv_proto]) =
   Some [(''loggerv1plugin/plugin.go'', formatted loggerv1plugin_go), (''loggerv1delegate/delegate.go'', formatted loggerv1delegate_go),
         (''kvv1plugin/plugin.go'', formatted kvv1plugin_go), (''kvv1delegate/delegate.go'', formatted kvv1delegate_go)]"
  by code_simp

end
