(* ===== verification/GeneratedPlugins.thy ===== *)
theory GeneratedPlugins
  imports ConnectRPC KVStore LoggedStore
begin

text \<open>
  What the protoc plugin of the repository generates, as programs: the plugin wrapper and the delegate of the
  logger (\<^verbatim>\<open>gen/loggerv1plugin/plugin.go\<close>, \<^verbatim>\<open>gen/loggerv1delegate/delegate.go\<close>) and those of the key-value service
  (\<^verbatim>\<open>testdata/kv/gen/kvv1plugin/plugin.go\<close>, \<^verbatim>\<open>testdata/kv/gen/kvv1delegate/delegate.go\<close>; the copies of these two that the
  examples import are made by the build). That their text is the generator's output is shown in \<open>CodegenGolden\<close>.
  The type assertion on an implementation is the argument \<open>asHandler\<close>, the name that \<^verbatim>\<open>%T\<close> prints \<open>typeOf\<close>, and
  the conversion of a client to \<open>any\<close> is \<open>asAny\<close>; the constructors of the package connect are arguments as in the
  theory \<open>ConnectRPC\<close>.
\<close>

section \<open>The logger's plugin\<close>

definition LoggerPlugin_Metadata :: PluginMetadata where
  "LoggerPlugin_Metadata =
     \<lparr>pm_Name = ''logger'', pm_Path = LoggerName, pm_Version = ''1.0.0'',
      pm_Provides = [\<lparr>sd_Type = ''logger'', sd_Version = ''1.0.0'', sd_Path = LoggerName\<rparr>], pm_Requires = []\<rparr>"

definition LoggerPlugin_ConnectServer ::
    "('a \<Rightarrow> 'log LoggerHandler option) \<Rightarrow> ('a \<Rightarrow> string) \<Rightarrow> (string \<Rightarrow> 'log \<Rightarrow> 'h) \<Rightarrow> 'a \<Rightarrow>
     string + string \<times> (string \<Rightarrow> 'h option)" where
  "LoggerPlugin_ConnectServer asHandler typeOf unaryLog impl =
     (case asHandler impl of
        None \<Rightarrow> Inl (''impl must implement LoggerHandler, got '' @ typeOf impl)
      | Some handler \<Rightarrow> (case NewLoggerHandler unaryLog handler of (path, h) \<Rightarrow> Inr (path, h)))"

definition LoggerPlugin_ConnectClient ::
    "(http_client LoggerClient \<Rightarrow> 'a) \<Rightarrow> string \<Rightarrow> http_client \<Rightarrow> string + 'a" where
  "LoggerPlugin_ConnectClient asAny baseURL httpClient = Inr (asAny (NewLoggerClient httpClient baseURL))"

definition LoggerPlugin ::
    "('a \<Rightarrow> 'log LoggerHandler option) \<Rightarrow> ('a \<Rightarrow> string) \<Rightarrow> (http_client LoggerClient \<Rightarrow> 'a) \<Rightarrow>
     (string \<Rightarrow> 'log \<Rightarrow> 'h) \<Rightarrow> ('a, string \<Rightarrow> 'h option) Plugin" where
  "LoggerPlugin asHandler typeOf asAny unaryLog =
     \<lparr>pl_Metadata = LoggerPlugin_Metadata, pl_ConnectServer = LoggerPlugin_ConnectServer asHandler typeOf unaryLog,
      pl_ConnectClient = LoggerPlugin_ConnectClient asAny\<rparr>"

section \<open>The logger's delegate\<close>

text \<open>
  The delegate holds a generated client; \<open>http.DefaultClient\<close> is an argument. A call threads the world
  through \<open>CallUnary\<close>.
\<close>

definition loggerDelegate_New :: "'c LoggerClient \<Rightarrow> 'c LoggerClient" where
  "loggerDelegate_New client = client"

definition loggerDelegate_NewFromURL :: "'c \<Rightarrow> string \<Rightarrow> 'c LoggerClient" where
  "loggerDelegate_NewFromURL defaultClient url = NewLoggerClient defaultClient url"

definition loggerDelegate_Log ::
    "('c ConnectClient \<Rightarrow> LogRequest \<Rightarrow> 'w \<Rightarrow> 'w \<times> (rpc_error + unit)) \<Rightarrow> 'c LoggerClient \<Rightarrow>
     string \<Rightarrow> string \<Rightarrow> (string, string) gomap \<Rightarrow> 'w \<Rightarrow> 'w \<times> rpc_error option" where
  "loggerDelegate_Log callUnary d level message fieldMap w =
     (let req = \<lparr>lr_Level = level, lr_Message = message, lr_Fields = fieldMap\<rparr>
      in case LoggerClient_Log callUnary d req w of
           (w', Inl err) \<Rightarrow> (w', Some err)
         | (w', Inr _) \<Rightarrow> (w', None))"

section \<open>The key-value plugin\<close>

definition KVServicePlugin_Metadata :: PluginMetadata where
  "KVServicePlugin_Metadata =
     \<lparr>pm_Name = ''kv'', pm_Path = KVServiceName, pm_Version = ''1.0.0'',
      pm_Provides = [\<lparr>sd_Type = ''kv'', sd_Version = ''1.0.0'', sd_Path = KVServiceName\<rparr>], pm_Requires = []\<rparr>"

definition KVServicePlugin_ConnectServer ::
    "('a \<Rightarrow> ('get, 'put, 'delete, 'watch) KVServiceHandler option) \<Rightarrow> ('a \<Rightarrow> string) \<Rightarrow>
     (string \<Rightarrow> 'get \<Rightarrow> 'h) \<Rightarrow> (string \<Rightarrow> 'put \<Rightarrow> 'h) \<Rightarrow> (string \<Rightarrow> 'delete \<Rightarrow> 'h) \<Rightarrow> (string \<Rightarrow> 'watch \<Rightarrow> 'h) \<Rightarrow> 'a \<Rightarrow>
     string + string \<times> (string \<Rightarrow> 'h option)" where
  "KVServicePlugin_ConnectServer asHandler typeOf unaryGet unaryPut unaryDelete serverStreamWatch impl =
     (case asHandler impl of
        None \<Rightarrow> Inl (''impl must implement KVServiceHandler, got '' @ typeOf impl)
      | Some handler \<Rightarrow>
          (case NewKVServiceHandler unaryGet unaryPut unaryDelete serverStreamWatch handler of (path, h) \<Rightarrow> Inr (path, h)))"

definition KVServicePlugin_ConnectClient ::
    "(http_client KVServiceClient \<Rightarrow> 'a) \<Rightarrow> string \<Rightarrow> http_client \<Rightarrow> string + 'a" where
  "KVServicePlugin_ConnectClient asAny baseURL httpClient = Inr (asAny (NewKVServiceClient httpClient baseURL))"

definition KVServicePlugin ::
    "('a \<Rightarrow> ('get, 'put, 'delete, 'watch) KVServiceHandler option) \<Rightarrow> ('a \<Rightarrow> string) \<Rightarrow> (http_client KVServiceClient \<Rightarrow> 'a) \<Rightarrow>
     (string \<Rightarrow> 'get \<Rightarrow> 'h) \<Rightarrow> (string \<Rightarrow> 'put \<Rightarrow> 'h) \<Rightarrow> (string \<Rightarrow> 'delete \<Rightarrow> 'h) \<Rightarrow> (string \<Rightarrow> 'watch \<Rightarrow> 'h) \<Rightarrow>
     ('a, string \<Rightarrow> 'h option) Plugin" where
  "KVServicePlugin asHandler typeOf asAny unaryGet unaryPut unaryDelete serverStreamWatch =
     \<lparr>pl_Metadata = KVServicePlugin_Metadata,
      pl_ConnectServer = KVServicePlugin_ConnectServer asHandler typeOf unaryGet unaryPut unaryDelete serverStreamWatch,
      pl_ConnectClient = KVServicePlugin_ConnectClient asAny\<rparr>"

section \<open>The key-value delegate\<close>

text \<open>The messages of the service.\<close>

record GetRequest = grq_Key :: string
record GetResponse =
  grs_Value :: string
  grs_Found :: bool
record PutRequest =
  prq_Key :: string
  prq_Value :: string
record DeleteRequest = drq_Key :: string
record DeleteResponse = drs_Found :: bool
record WatchRequest = wrq_Prefix :: string

text \<open>A call that does not return (the server's handler hangs or panics) is \<open>None\<close>.\<close>

type_synonym ('w, 'resp) rpc_call = "'w \<Rightarrow> ('w \<times> (rpc_error + 'resp)) option"

definition kVDelegate_New :: "'c KVServiceClient \<Rightarrow> 'c KVServiceClient" where
  "kVDelegate_New client = client"

definition kVDelegate_NewFromURL :: "'c \<Rightarrow> string \<Rightarrow> 'c KVServiceClient" where
  "kVDelegate_NewFromURL defaultClient url = NewKVServiceClient defaultClient url"

definition kVDelegate_Get ::
    "('c ConnectClient \<Rightarrow> GetRequest \<Rightarrow> ('w, GetResponse) rpc_call) \<Rightarrow> 'c KVServiceClient \<Rightarrow> string \<Rightarrow> 'w \<Rightarrow>
     ('w \<times> string \<times> bool \<times> rpc_error option) option" where
  "kVDelegate_Get callUnary d key w =
     (let req = \<lparr>grq_Key = key\<rparr>
      in case KVServiceClient_Get callUnary d req w of
           None \<Rightarrow> None
         | Some (w', Inl err) \<Rightarrow> Some (w', [], False, Some err)
         | Some (w', Inr resp) \<Rightarrow> Some (w', grs_Value resp, grs_Found resp, None))"

definition kVDelegate_Put ::
    "('c ConnectClient \<Rightarrow> PutRequest \<Rightarrow> ('w, unit) rpc_call) \<Rightarrow> 'c KVServiceClient \<Rightarrow> string \<Rightarrow> string \<Rightarrow> 'w \<Rightarrow>
     ('w \<times> rpc_error option) option" where
  "kVDelegate_Put callUnary d key value w =
     (let req = \<lparr>prq_Key = key, prq_Value = value\<rparr>
      in case KVServiceClient_Put callUnary d req w of
           None \<Rightarrow> None
         | Some (w', Inl err) \<Rightarrow> Some (w', Some err)
         | Some (w', Inr _) \<Rightarrow> Some (w', None))"

definition kVDelegate_Delete ::
    "('c ConnectClient \<Rightarrow> DeleteRequest \<Rightarrow> ('w, DeleteResponse) rpc_call) \<Rightarrow> 'c KVServiceClient \<Rightarrow> string \<Rightarrow> 'w \<Rightarrow>
     ('w \<times> bool \<times> rpc_error option) option" where
  "kVDelegate_Delete callUnary d key w =
     (let req = \<lparr>drq_Key = key\<rparr>
      in case KVServiceClient_Delete callUnary d req w of
           None \<Rightarrow> None
         | Some (w', Inl err) \<Rightarrow> Some (w', False, Some err)
         | Some (w', Inr resp) \<Rightarrow> Some (w', drs_Found resp, None))"

definition kVDelegate_Watch ::
    "('c ConnectClient \<Rightarrow> WatchRequest \<Rightarrow> 'stream) \<Rightarrow> 'c KVServiceClient \<Rightarrow> string \<Rightarrow> 'stream" where
  "kVDelegate_Watch callServerStream d prefix =
     (let req = \<lparr>wrq_Prefix = prefix\<rparr> in KVServiceClient_Watch callServerStream d req)"

section \<open>The declared path\<close>

text \<open>
  The generated metadata give the name of the service as the path, without slashes: it is not the path that
  \<open>ConnectServer\<close> mounts the handler on, and as the endpoint path of a registration it is refused.
\<close>

lemma declared_path_not_mounted:
  assumes "asHandler impl = Some handler"
  shows "KVServicePlugin_ConnectServer asHandler typeOf unaryGet unaryPut unaryDelete serverStreamWatch impl =
      Inr (''/'' @ pm_Path KVServicePlugin_Metadata @ ''/'',
        snd (NewKVServiceHandler unaryGet unaryPut unaryDelete serverStreamWatch handler))"
    and "\<forall>d\<in>set (pm_Provides KVServicePlugin_Metadata). ValidateEndpointPath (sd_Path d) = Some (EndpointPathNoSlash (sd_Path d))"
    and "\<forall>d\<in>set (pm_Provides LoggerPlugin_Metadata). ValidateEndpointPath (sd_Path d) = Some (EndpointPathNoSlash (sd_Path d))"
proof -
  show "KVServicePlugin_ConnectServer asHandler typeOf unaryGet unaryPut unaryDelete serverStreamWatch impl =
      Inr (''/'' @ pm_Path KVServicePlugin_Metadata @ ''/'',
        snd (NewKVServiceHandler unaryGet unaryPut unaryDelete serverStreamWatch handler))"
    by (simp add: KVServicePlugin_ConnectServer_def assms KVServicePlugin_Metadata_def KVServiceName_def NewKVServiceHandler_def Let_def)
  show "\<forall>d\<in>set (pm_Provides KVServicePlugin_Metadata). ValidateEndpointPath (sd_Path d) = Some (EndpointPathNoSlash (sd_Path d))"
    by (simp add: KVServicePlugin_Metadata_def KVServiceName_def ValidateEndpointPath_def)
  show "\<forall>d\<in>set (pm_Provides LoggerPlugin_Metadata). ValidateEndpointPath (sd_Path d) = Some (EndpointPathNoSlash (sd_Path d))"
    by (simp add: LoggerPlugin_Metadata_def LoggerName_def ValidateEndpointPath_def)
qed

end
