(* ===== verification/ConnectRPCProps.thy ===== *)
theory ConnectRPCProps
  imports ConnectRPC
begin

text \<open>
  Generated clients against the servers of the program: at the mux of \<open>Serve\<close>, and through the
  service router at the URL that discovery returns.
\<close>

section \<open>The handlers of the host's mux\<close>

text \<open>
  What the routes of \<open>Serve\<close> serve: the generated handlers, given as functions from paths, the
  broker's through the broker's own mux, and the handlers of the plugins. The others are not RPC services.
\<close>

definition routeHandler ::
    "(string \<Rightarrow> 'h option) \<Rightarrow> (string \<Rightarrow> 'h option) \<Rightarrow> (string \<Rightarrow> 'h option) \<Rightarrow> (string \<Rightarrow> 'h option) \<Rightarrow>
     (string \<Rightarrow> 'h option) \<Rightarrow> ('p \<Rightarrow> string \<Rightarrow> 'h option) \<Rightarrow> 'p Route \<Rightarrow> string \<Rightarrow> 'h option" where
  "routeHandler handshake health lifecycle registry broker plugin route =
     (case route of
        HandshakeHandler \<Rightarrow> handshake
      | HealthHandler \<Rightarrow> health
      | LifecycleHandler \<Rightarrow> lifecycle
      | RegistryHandler \<Rightarrow> registry
      | BrokerHandler \<Rightarrow> (\<lambda>path. if muxMatch brokerMux path = Some BrokerRPC then broker path else None)
      | PluginHandler name h \<Rightarrow> plugin h
      | _ \<Rightarrow> (\<lambda>_. None))"

lemma registerPlugins_mux:
  assumes "registerPlugins plugins impls ro mux health = (health', Inr mux')" and "distinct (map fst mux)"
  shows "\<exists>ps. mux' = mux @ map (\<lambda>(p, n, h). (p, PluginHandler n h)) ps \<and> distinct (map fst mux') \<and>
    (\<forall>(p, n, h)\<in>set ps. \<exists>plugin impl. plugins n = Some plugin \<and> impls n = Some impl \<and> pl_ConnectServer plugin impl = Inr (p, h))"
  using assms
proof (induction ro arbitrary: mux health)
  case Nil
  then show ?case by (intro exI [of _ "[]"]) simp
next
  case (Cons n ro)
  show ?case
  proof (cases "plugins n")
    case None
    then show ?thesis using Cons.IH Cons.prems by simp
  next
    case (Some plugin)
    obtain impl p h mux1 where c: "impls n = Some impl" "pl_ConnectServer plugin impl = Inr (p, h)"
      and m: "mux_handle p (PluginHandler n h) mux = Some mux1"
      and r: "registerPlugins plugins impls ro mux1 (map_option (SetServingStatus n SERVING_STATUS_SERVING) health) = (health', Inr mux')"
      using Cons.prems(1) Some by (auto split: option.splits sum.splits)
    have m1: "mux1 = mux @ [(p, PluginHandler n h)]" "distinct (map fst mux1)"
      using m Cons.prems(2) by (auto simp: mux_handle_Some)
    obtain ps where ps: "mux' = mux1 @ map (\<lambda>(p, n, h). (p, PluginHandler n h)) ps" "distinct (map fst mux')"
      "\<forall>(p, n, h)\<in>set ps. \<exists>plugin impl. plugins n = Some plugin \<and> impls n = Some impl \<and> pl_ConnectServer plugin impl = Inr (p, h)"
      using Cons.IH [OF r m1(2)] by (elim exE conjE) (rule that)
    show ?thesis
    proof (intro exI conjI)
      show "mux' = mux @ map (\<lambda>(p, n, h). (p, PluginHandler n h)) ((p, n, h) # ps)"
        using ps(1) by (simp add: m1(1))
      show "distinct (map fst mux')" by (rule ps(2))
      show "\<forall>(p, n, h)\<in>set ((p, n, h) # ps). \<exists>plugin impl. plugins n = Some plugin \<and> impls n = Some impl \<and>
          pl_ConnectServer plugin impl = Inr (p, h)"
        using ps(3) Some c by simp
    qed
  qed
qed

text \<open>The mux that \<open>Serve\<close> listens with: the host's patterns and the paths of the plugins.\<close>

definition servedPlugins :: "('a, 'h) ServerConfig \<Rightarrow> (string \<times> string \<times> 'h) set" where
  "servedPlugins cfg = {(n, p, h). \<exists>plugins impls plugin impl. cfg_Plugins cfg = Some plugins \<and> cfg_Impls cfg = Some impls \<and>
     plugins n = Some plugin \<and> impls n = Some impl \<and> pl_ConnectServer plugin impl = Inr (p, h)}"

lemma serveSetup_mux:
  assumes "serveSetup po io so ro cfg = (health, Inr (mux, hs))"
  shows "distinct (map fst mux)"
    and "\<exists>ps. mux = hostRoutes cfg @ map (\<lambda>(p, n, h). (p, PluginHandler n h)) ps \<and>
      (\<forall>(p, n, h)\<in>set ps. (n, p, h) \<in> servedPlugins cfg)"
proof -
  let ?cfg = "withServeDefaults cfg"
  have ok: "ServeConfig_Validate po io so ?cfg = None"
    using assms by (auto simp: serveSetup_def Let_def split: option.splits)
  then obtain plugins impls where set: "cfg_Plugins cfg = Some plugins" "cfg_Impls cfg = Some impls"
    by (auto simp: ServeConfig_Validate_def withServeDefaults_def split: option.splits)
  have same: "cfg_Plugins ?cfg = cfg_Plugins cfg" "cfg_Impls ?cfg = cfg_Impls cfg"
    by (simp_all add: withServeDefaults_def)
  have "\<exists>h0 health'. registerPlugins plugins impls ro (hostRoutes cfg) h0 = (health', Inr mux)"
    using assms by (auto simp: serveSetup_def ok handleAll_hostRoutes withServeDefaults_same set same Let_def split: prod.splits sum.splits)
  then obtain h0 health' where r: "registerPlugins plugins impls ro (hostRoutes cfg) h0 = (health', Inr mux)" by blast
  obtain ps where ps: "mux = hostRoutes cfg @ map (\<lambda>(p, n, h). (p, PluginHandler n h)) ps" "distinct (map fst mux)"
      "\<forall>(p, n, h)\<in>set ps. \<exists>plugin impl. plugins n = Some plugin \<and> impls n = Some impl \<and> pl_ConnectServer plugin impl = Inr (p, h)"
    using registerPlugins_mux [OF r distinct_hostRoutes] by (elim exE conjE) (rule that)
  show "distinct (map fst mux)" by (rule ps(2))
  have "\<forall>(p, n, h)\<in>set ps. (n, p, h) \<in> servedPlugins cfg"
    using ps(3) unfolding servedPlugins_def set by fastforce
  then show "\<exists>ps. mux = hostRoutes cfg @ map (\<lambda>(p, n, h). (p, PluginHandler n h)) ps \<and>
      (\<forall>(p, n, h)\<in>set ps. (n, p, h) \<in> servedPlugins cfg)" using ps(1) by blast
qed

text \<open>Two paths with nothing below both.\<close>

definition apart :: "string \<Rightarrow> string \<Rightarrow> bool" where
  "apart a b \<longleftrightarrow> \<not> hasPrefix a b \<and> \<not> hasPrefix b a"

lemma prefixes_comparable: "a @ s = b @ t \<Longrightarrow> hasPrefix a b \<or> hasPrefix b a"
  by (auto simp: append_eq_append_conv2 hasPrefix_iff)

lemma apart_no_match: "apart pat b \<Longrightarrow> hasPrefix p b \<Longrightarrow> \<not> patternMatches pat p"
proof
  assume a: "apart pat b" and b: "hasPrefix p b" and m: "patternMatches pat p"
  obtain s t where "p = pat @ s" "p = b @ t" using patternMatches_prefix [OF m] b unfolding hasPrefix_iff by metis
  then show False using prefixes_comparable [of pat s b t] a by (simp add: apart_def)
qed

text \<open>No plugin is mounted above or below the paths of the host.\<close>

definition hostPathsFree :: "('a, 'h) ServerConfig \<Rightarrow> bool" where
  "hostPathsFree cfg \<longleftrightarrow> (\<forall>(n, p, h)\<in>servedPlugins cfg. apart p ''/connectplugin.'' \<and> apart p ''/broker/'')"

lemma hostRoutes_patterns:
  "e \<in> set (hostRoutes cfg) \<Longrightarrow> fst e \<in> set [''/broker/'', ''/capabilities/'', ''/connectplugin.v1.HandshakeService/'',
     ''/connectplugin.health.v1.HealthService/'', ''/healthz'', ''/readyz'', ''/connectplugin.v1.PluginLifecycle/'',
     ''/connectplugin.v1.ServiceRegistry/'', ''/services/'']"
  by (auto simp: hostRoutes_def split: if_splits)

lemma host_pattern_wins:
  assumes up: "serveSetup po io so ro cfg = (health, Inr (mux, hs))" and free: "hostPathsFree cfg"
    and q: "hasPrefix q ''/connectplugin.'' \<or> hasPrefix q ''/broker/''"
    and "(pat, r) \<in> set (hostRoutes cfg)" and "patternMatches pat q"
    and other: "\<forall>e\<in>set (hostRoutes cfg). patternMatches (fst e) q \<longrightarrow> fst e = pat"
  shows "muxMatch mux q = Some r"
proof -
  obtain ps where mux: "mux = hostRoutes cfg @ map (\<lambda>(p, n, h). (p, PluginHandler n h)) ps"
    and ps: "\<forall>(p, n, h)\<in>set ps. (n, p, h) \<in> servedPlugins cfg"
    using serveSetup_mux(2) [OF up] by (elim exE conjE) (rule that)
  have "\<not> patternMatches p q" if "(p, n, h) \<in> set ps" for p n h
  proof -
    have "apart p ''/connectplugin.''" "apart p ''/broker/''"
      using free ps that by (fastforce simp: hostPathsFree_def)+
    then show ?thesis using q apart_no_match by blast
  qed
  then have "\<forall>e\<in>set mux. patternMatches (fst e) q \<longrightarrow> length (fst e) \<le> length pat"
    using other by (auto simp: mux)
  then show ?thesis
    using muxMatch_longest [OF serveSetup_mux(1) [OF up] _ assms(5)] assms(4) by (simp add: mux)
qed

lemma host_pattern_none:
  assumes up: "serveSetup po io so ro cfg = (health, Inr (mux, hs))" and free: "hostPathsFree cfg"
    and q: "hasPrefix q ''/connectplugin.'' \<or> hasPrefix q ''/broker/''"
    and other: "\<forall>e\<in>set (hostRoutes cfg). \<not> patternMatches (fst e) q"
  shows "muxMatch mux q = None"
proof -
  obtain ps where mux: "mux = hostRoutes cfg @ map (\<lambda>(p, n, h). (p, PluginHandler n h)) ps"
    and ps: "\<forall>(p, n, h)\<in>set ps. (n, p, h) \<in> servedPlugins cfg"
    using serveSetup_mux(2) [OF up] by (elim exE conjE) (rule that)
  have "\<not> patternMatches p q" if "(p, n, h) \<in> set ps" for p n h
  proof -
    have "apart p ''/connectplugin.''" "apart p ''/broker/''"
      using free ps that by (fastforce simp: hostPathsFree_def)+
    then show ?thesis using q apart_no_match by blast
  qed
  then have "muxEntry mux q = None" using other by (auto simp: mux muxEntry_None)
  then show ?thesis by (simp add: muxMatch_def)
qed

text \<open>The paths of the RPCs of the host, each under the pattern that matches it.\<close>

lemma host_procedures:
  assumes up: "serveSetup po io so ro cfg = (health, Inr (mux, hs))" and free: "hostPathsFree cfg"
  shows "muxMatch mux ''/connectplugin.v1.HandshakeService/Handshake'' = Some HandshakeHandler"
    and "sc_HealthService cfg \<noteq> None \<Longrightarrow> m \<in> {''Check'', ''Watch''} \<Longrightarrow>
      muxMatch mux (''/connectplugin.health.v1.HealthService/'' @ m) = Some HealthHandler"
    and "sc_LifecycleService cfg \<noteq> None \<Longrightarrow>
      muxMatch mux ''/connectplugin.v1.PluginLifecycle/ReportHealth'' = Some LifecycleHandler"
    and "sc_ServiceRegistry cfg \<noteq> None \<Longrightarrow>
      m \<in> {''RegisterService'', ''UnregisterService'', ''DiscoverService'', ''WatchService''} \<Longrightarrow>
      muxMatch mux (''/connectplugin.v1.ServiceRegistry/'' @ m) = Some RegistryHandler"
    and "sc_CapabilityBroker cfg \<noteq> None \<Longrightarrow>
      muxMatch mux ''/broker/connectplugin.v1.CapabilityBroker/RequestCapability'' = Some BrokerHandler"
    and "muxMatch mux ''/connectplugin.v1.CapabilityBroker/RequestCapability'' = None"
proof -
  have wins: "muxMatch mux (pat @ m) = Some r"
    if "(pat, r) \<in> set (hostRoutes cfg)" "hasPrefix pat ''/connectplugin.'' \<or> hasPrefix pat ''/broker/''"
      "last pat = CHR ''/''"
      "\<forall>p\<in>set [''/broker/'', ''/capabilities/'', ''/connectplugin.v1.HandshakeService/'',
     ''/connectplugin.health.v1.HealthService/'', ''/healthz'', ''/readyz'', ''/connectplugin.v1.PluginLifecycle/'',
     ''/connectplugin.v1.ServiceRegistry/'', ''/services/'']. p \<noteq> pat \<longrightarrow> \<not> patternMatches p (pat @ m)" for pat r m
  proof (rule host_pattern_wins [OF up free _ that(1)])
    have "pat \<noteq> []" using that(2) by auto
    then show "patternMatches pat (pat @ m)" using that(3) by (simp add: patternMatches_def)
    show "hasPrefix (pat @ m) ''/connectplugin.'' \<or> hasPrefix (pat @ m) ''/broker/''"
      using that(2) by (auto simp: hasPrefix_iff)
    show "\<forall>e\<in>set (hostRoutes cfg). patternMatches (fst e) (pat @ m) \<longrightarrow> fst e = pat"
      using that(4) hostRoutes_patterns by blast
  qed
  show "muxMatch mux ''/connectplugin.v1.HandshakeService/Handshake'' = Some HandshakeHandler"
    using wins [of "''/connectplugin.v1.HandshakeService/''" HandshakeHandler "''Handshake''"]
    by (simp add: hostRoutes_def patternMatches_def)
  show "muxMatch mux (''/connectplugin.health.v1.HealthService/'' @ m) = Some HealthHandler"
    if "sc_HealthService cfg \<noteq> None" "m \<in> {''Check'', ''Watch''}"
    using wins [of "''/connectplugin.health.v1.HealthService/''" HealthHandler m] that
    by (auto simp: hostRoutes_def patternMatches_def)
  show "muxMatch mux ''/connectplugin.v1.PluginLifecycle/ReportHealth'' = Some LifecycleHandler" if "sc_LifecycleService cfg \<noteq> None"
    using wins [of "''/connectplugin.v1.PluginLifecycle/''" LifecycleHandler "''ReportHealth''"] that
    by (simp add: hostRoutes_def patternMatches_def)
  show "muxMatch mux (''/connectplugin.v1.ServiceRegistry/'' @ m) = Some RegistryHandler"
    if "sc_ServiceRegistry cfg \<noteq> None" "m \<in> {''RegisterService'', ''UnregisterService'', ''DiscoverService'', ''WatchService''}"
    using wins [of "''/connectplugin.v1.ServiceRegistry/''" RegistryHandler m] that
    by (auto simp: hostRoutes_def patternMatches_def)
  show "muxMatch mux ''/broker/connectplugin.v1.CapabilityBroker/RequestCapability'' = Some BrokerHandler" if "sc_CapabilityBroker cfg \<noteq> None"
    using wins [of "''/broker/''" BrokerHandler "''connectplugin.v1.CapabilityBroker/RequestCapability''"] that
    by (simp add: hostRoutes_def patternMatches_def)
  show "muxMatch mux ''/connectplugin.v1.CapabilityBroker/RequestCapability'' = None"
  proof (rule host_pattern_none [OF up free])
    show "\<forall>e\<in>set (hostRoutes cfg). \<not> patternMatches (fst e) ''/connectplugin.v1.CapabilityBroker/RequestCapability''"
      using hostRoutes_patterns [of _ cfg] by (fastforce simp: patternMatches_def)
  qed simp
qed

text \<open>The clients of the host's services, at a mux that hands their paths to the generated handlers.\<close>

lemmas handler_defs = NewHandshakeServiceHandler_def NewHealthServiceHandler_def
  NewPluginLifecycleHandler_def NewServiceRegistryHandler_def NewKVServiceHandler_def Let_def

lemma handshake_reached:
  assumes "hostURL_ok hostOk url" and "muxMatch mux ''/connectplugin.v1.HandshakeService/Handshake'' = Some r"
    and "handler r = snd (NewHandshakeServiceHandler unaryHandshake hs)"
  shows "reached hostOk (authorityOf url) (serveMux mux handler)
      (cc_URL (HandshakeServiceClient_handshake (NewHandshakeServiceClient c (url @ replicate n CHR ''/'')))) =
    Some (unaryHandshake HandshakeServiceHandshakeProcedure (HandshakeServiceHandler_Handshake hs))"
  using handshakeService_rpc.mux_reached [where httpClient = c and unaryHandshake = unaryHandshake and svc = hs and
      i = 0 and n = n and mux = mux and handler = handler and r = r, OF _ assms(1)] assms(2,3)
  by (simp add: handler_defs)

lemma lifecycle_reached:
  assumes "hostURL_ok hostOk url" and "muxMatch mux ''/connectplugin.v1.PluginLifecycle/ReportHealth'' = Some r"
    and "handler r = snd (NewPluginLifecycleHandler unaryReport lc)"
  shows "reached hostOk (authorityOf url) (serveMux mux handler)
      (cc_URL (PluginLifecycleClient_reportHealth (NewPluginLifecycleClient c (url @ replicate n CHR ''/'')))) =
    Some (unaryReport PluginLifecycleReportHealthProcedure (PluginLifecycleHandler_ReportHealth lc))"
  using pluginLifecycle_rpc.mux_reached [where httpClient = c and unaryReportHealth = unaryReport and svc = lc and
      i = 0 and n = n and mux = mux and handler = handler and r = r, OF _ assms(1)] assms(2,3)
  by (simp add: handler_defs)

lemma health_reached:
  assumes "hostURL_ok hostOk url"
    and "\<forall>m\<in>{''Check'', ''Watch''}. muxMatch mux (''/connectplugin.health.v1.HealthService/'' @ m) = Some r"
    and "handler r = snd (NewHealthServiceHandler unaryCheck streamWatch hl)"
  shows "reached hostOk (authorityOf url) (serveMux mux handler)
      (cc_URL (HealthServiceClient_check (NewHealthServiceClient c (url @ replicate n CHR ''/'')))) =
    Some (unaryCheck HealthServiceCheckProcedure (HealthServiceHandler_Check hl))"
    "reached hostOk (authorityOf url) (serveMux mux handler)
      (cc_URL (HealthServiceClient_watch (NewHealthServiceClient c (url @ replicate n CHR ''/'')))) =
    Some (streamWatch HealthServiceWatchProcedure (HealthServiceHandler_Watch hl))"
  using healthService_rpc.mux_reached [where httpClient = c and unaryCheck = unaryCheck and serverStreamWatch = streamWatch and
      svc = hl and i = 0 and n = n and mux = mux and handler = handler and r = r, OF _ assms(1)]
    healthService_rpc.mux_reached [where httpClient = c and unaryCheck = unaryCheck and serverStreamWatch = streamWatch and
      svc = hl and i = 1 and n = n and mux = mux and handler = handler and r = r, OF _ assms(1)] assms(2,3)
  by (simp_all add: handler_defs)

lemma registry_reached:
  fixes c :: 'c and n :: nat
  assumes "hostURL_ok hostOk url"
    and "\<forall>m\<in>{''RegisterService'', ''UnregisterService'', ''DiscoverService'', ''WatchService''}.
      muxMatch mux (''/connectplugin.v1.ServiceRegistry/'' @ m) = Some r"
    and "handler r = snd (NewServiceRegistryHandler unaryRegister unaryUnregister unaryDiscover streamService rg)"
  defines "client \<equiv> NewServiceRegistryClient c (url @ replicate n CHR ''/'')"
    and "goes \<equiv> reached hostOk (authorityOf url) (serveMux mux handler)"
  shows "goes (cc_URL (ServiceRegistryClient_registerService client)) =
      Some (unaryRegister ServiceRegistryRegisterServiceProcedure (ServiceRegistryHandler_RegisterService rg))"
    "goes (cc_URL (ServiceRegistryClient_unregisterService client)) =
      Some (unaryUnregister ServiceRegistryUnregisterServiceProcedure (ServiceRegistryHandler_UnregisterService rg))"
    "goes (cc_URL (ServiceRegistryClient_discoverService client)) =
      Some (unaryDiscover ServiceRegistryDiscoverServiceProcedure (ServiceRegistryHandler_DiscoverService rg))"
    "goes (cc_URL (ServiceRegistryClient_watchService client)) =
      Some (streamService ServiceRegistryWatchServiceProcedure (ServiceRegistryHandler_WatchService rg))"
  using serviceRegistry_rpc.mux_reached [where httpClient = c and unaryRegisterService = unaryRegister and
      unaryUnregisterService = unaryUnregister and unaryDiscoverService = unaryDiscover and serverStreamWatchService = streamService and
      svc = rg and i = 0 and n = n and mux = mux and handler = handler and r = r, OF _ assms(1)]
    serviceRegistry_rpc.mux_reached [where httpClient = c and unaryRegisterService = unaryRegister and
      unaryUnregisterService = unaryUnregister and unaryDiscoverService = unaryDiscover and serverStreamWatchService = streamService and
      svc = rg and i = 1 and n = n and mux = mux and handler = handler and r = r, OF _ assms(1)]
    serviceRegistry_rpc.mux_reached [where httpClient = c and unaryRegisterService = unaryRegister and
      unaryUnregisterService = unaryUnregister and unaryDiscoverService = unaryDiscover and serverStreamWatchService = streamService and
      svc = rg and i = 2 and n = n and mux = mux and handler = handler and r = r, OF _ assms(1)]
    serviceRegistry_rpc.mux_reached [where httpClient = c and unaryRegisterService = unaryRegister and
      unaryUnregisterService = unaryUnregister and unaryDiscoverService = unaryDiscover and serverStreamWatchService = streamService and
      svc = rg and i = 3 and n = n and mux = mux and handler = handler and r = r, OF _ assms(1)] assms(2,3)
  by (simp_all add: handler_defs client_def goes_def eval_nat_numeral)

text \<open>The broker's client posts to its procedure, below the path of its base URL.\<close>

lemma broker_path:
  assumes "hostURL_ok hostOk url" and "basePath p"
  shows "requestPath hostOk (authorityOf url) (cc_URL (CapabilityBrokerClient_requestCapability (NewCapabilityBrokerClient c (url @ p)))) =
    Some (trimRight CHR ''/'' p @ ''/connectplugin.v1.CapabilityBroker/RequestCapability'')"
  using capabilityBroker_rpc.client_path [where httpClient = c and i = 0, OF _ assms]
  by (simp add: NewCapabilityBrokerHandler_def Let_def)

lemma broker_not_reached:
  assumes "hostURL_ok hostOk url" and "basePath p"
    and "serveMux mux handler (trimRight CHR ''/'' p @ ''/connectplugin.v1.CapabilityBroker/RequestCapability'') = None"
  shows "reached hostOk (authorityOf url) (serveMux mux handler)
      (cc_URL (CapabilityBrokerClient_requestCapability (NewCapabilityBrokerClient c (url @ p)))) = None"
  by (simp add: reached_def broker_path [OF assms(1,2)] assms(3))

lemma basePath_slashes: "basePath (replicate n CHR ''/'')"
  using plain_slash by (cases n) (simp_all add: basePath_def plainPath_def list_all_iff)

section \<open>Properties\<close>

text \<open>C16. Every RPC of the host reaches its method: on a server that \<open>Serve\<close> has set up with plugins that stay
  off the host's paths, a client that the generated code makes for the server's URL, with any number of slashes
  after it, posts to a URL that the mux hands to the handler of the service, and that handler to the method
  of the client's name: for the handshake, and, when they are configured, for health, lifecycle and
  registry. The exception is the broker, for which no base URL of its documentation works: neither the server's
  nor the one with \<^verbatim>\<open>/broker\<close>.\<close>
theorem generated_clients_reach:
  assumes up: "serveSetup po io so ro cfg = (health, Inr (mux, tokens))" and free: "hostPathsFree cfg"
    and url: "hostURL_ok hostOk url"
  shows "let base = url @ replicate n CHR ''/'';
      goes = reached hostOk (authorityOf url) (serveMux mux (routeHandler (snd (NewHandshakeServiceHandler unaryHandshake hs))
        (snd (NewHealthServiceHandler unaryCheck streamWatch hl)) (snd (NewPluginLifecycleHandler unaryReport lc))
        (snd (NewServiceRegistryHandler unaryRegister unaryUnregister unaryDiscover streamService rg))
        (snd (NewCapabilityBrokerHandler unaryRequest cb)) plugin))
    in goes (cc_URL (HandshakeServiceClient_handshake (NewHandshakeServiceClient c base))) =
         Some (unaryHandshake HandshakeServiceHandshakeProcedure (HandshakeServiceHandler_Handshake hs)) \<and>
       (sc_HealthService cfg \<noteq> None \<longrightarrow>
         goes (cc_URL (HealthServiceClient_check (NewHealthServiceClient c base))) =
           Some (unaryCheck HealthServiceCheckProcedure (HealthServiceHandler_Check hl)) \<and>
         goes (cc_URL (HealthServiceClient_watch (NewHealthServiceClient c base))) =
           Some (streamWatch HealthServiceWatchProcedure (HealthServiceHandler_Watch hl))) \<and>
       (sc_LifecycleService cfg \<noteq> None \<longrightarrow>
         goes (cc_URL (PluginLifecycleClient_reportHealth (NewPluginLifecycleClient c base))) =
           Some (unaryReport PluginLifecycleReportHealthProcedure (PluginLifecycleHandler_ReportHealth lc))) \<and>
       (sc_ServiceRegistry cfg \<noteq> None \<longrightarrow>
         goes (cc_URL (ServiceRegistryClient_registerService (NewServiceRegistryClient c base))) =
           Some (unaryRegister ServiceRegistryRegisterServiceProcedure (ServiceRegistryHandler_RegisterService rg)) \<and>
         goes (cc_URL (ServiceRegistryClient_unregisterService (NewServiceRegistryClient c base))) =
           Some (unaryUnregister ServiceRegistryUnregisterServiceProcedure (ServiceRegistryHandler_UnregisterService rg)) \<and>
         goes (cc_URL (ServiceRegistryClient_discoverService (NewServiceRegistryClient c base))) =
           Some (unaryDiscover ServiceRegistryDiscoverServiceProcedure (ServiceRegistryHandler_DiscoverService rg)) \<and>
         goes (cc_URL (ServiceRegistryClient_watchService (NewServiceRegistryClient c base))) =
           Some (streamService ServiceRegistryWatchServiceProcedure (ServiceRegistryHandler_WatchService rg))) \<and>
       goes (cc_URL (CapabilityBrokerClient_requestCapability (NewCapabilityBrokerClient c base))) = None \<and>
       (sc_CapabilityBroker cfg \<noteq> None \<longrightarrow>
         goes (cc_URL (CapabilityBrokerClient_requestCapability (NewCapabilityBrokerClient c (url @ ''/broker'')))) = None)"
proof -
  let ?h = "routeHandler (snd (NewHandshakeServiceHandler unaryHandshake hs))
        (snd (NewHealthServiceHandler unaryCheck streamWatch hl)) (snd (NewPluginLifecycleHandler unaryReport lc))
        (snd (NewServiceRegistryHandler unaryRegister unaryUnregister unaryDiscover streamService rg))
        (snd (NewCapabilityBrokerHandler unaryRequest cb)) plugin"
  let ?reach = "reached hostOk (authorityOf url) (serveMux mux ?h)"
  note match = host_procedures [OF up free]
  have route: "?h HandshakeHandler = snd (NewHandshakeServiceHandler unaryHandshake hs)"
    "?h HealthHandler = snd (NewHealthServiceHandler unaryCheck streamWatch hl)"
    "?h LifecycleHandler = snd (NewPluginLifecycleHandler unaryReport lc)"
    "?h RegistryHandler = snd (NewServiceRegistryHandler unaryRegister unaryUnregister unaryDiscover streamService rg)"
    by (simp_all add: routeHandler_def)
  have "?reach (cc_URL (CapabilityBrokerClient_requestCapability (NewCapabilityBrokerClient c (url @ replicate n CHR ''/'')))) = None"
    using trimRight_trim [of "CHR ''/''" "[]" n]
    by (intro broker_not_reached [OF url basePath_slashes]) (simp add: trimRight_def serveMux_def match(6))
  moreover have broker: "muxMatch brokerMux ''/broker/connectplugin.v1.CapabilityBroker/RequestCapability'' = None"
    by (simp add: muxMatch_def brokerMux_def patternMatches_def)
  have "?reach (cc_URL (CapabilityBrokerClient_requestCapability (NewCapabilityBrokerClient c (url @ ''/broker'')))) = None"
    if "sc_CapabilityBroker cfg \<noteq> None"
  proof (rule broker_not_reached [OF url])
    show "basePath ''/broker''" by (simp add: basePath_def plainPath_def plain_defs)
    show "serveMux mux ?h (trimRight CHR ''/'' ''/broker'' @ ''/connectplugin.v1.CapabilityBroker/RequestCapability'') = None"
      using match(5) [OF that] broker by (simp add: trimRight_def serveMux_def routeHandler_def)
  qed
  ultimately show ?thesis
    unfolding Let_def
    using handshake_reached [where c = c and n = n and handler = ?h, OF url match(1) route(1)]
      health_reached [where c = c and n = n and handler = ?h, OF url _ route(2)] match(2)
      lifecycle_reached [where c = c and n = n and handler = ?h, OF url match(3) route(3)]
      registry_reached [where c = c and n = n and handler = ?h, OF url _ route(4)] match(4)
    by (intro conjI impI) simp_all
qed

text \<open>A server with every service of the host and the broker, and the key-value plugin.\<close>

definition example_full_server :: "(unit, nat) ServerConfig" where
  "example_full_server = example_broker_server\<lparr>sc_LifecycleService := Some NewLifecycleServer,
     sc_ServiceRegistry := Some NewServiceRegistry\<rparr>"

lemma example_full_ready:
  "\<exists>mux health. serveSetup [''kv''] [''kv''] [''kv''] [''kv''] example_full_server = (health, Inr (mux, NewHandshakeServer))"
proof -
  have dom: "dom example_plugins = {''kv''}" by (simp add: example_plugins_def)
  have valid: "validServeConfig example_plugins [''kv'' \<mapsto> ()] (withServeDefaults example_full_server)"
    by (simp add: validServeConfig_def withServeDefaults_def example_full_server_def example_broker_server_def example_server_def dom)
      (simp add: example_plugins_def name_of_def)
  have orders: "iter_order example_plugins [''kv'']" "iter_order [''kv'' \<mapsto> ()] [''kv'']"
    by (simp_all add: iter_order_def dom)
  have con: "connects example_plugins [''kv'' \<mapsto> ()] (\<lambda>_. ''/kv.v1.KV/'') (\<lambda>_. 7)"
    by (simp add: connects_def example_plugins_def)
  have new: "\<forall>n\<in>dom example_plugins. ''/kv.v1.KV/'' \<notin> set (map fst (hostRoutes example_full_server))"
    by (simp add: hostRoutes_def example_full_server_def example_broker_server_def example_server_def)
  show ?thesis
    using Serve_ready [OF valid orders(1,2,1,1) con _ new] by (elim meta_impE exE conjE) (simp add: dom, blast)
qed

lemma example_full_free: "hostPathsFree example_full_server"
  by (auto simp: hostPathsFree_def servedPlugins_def example_full_server_def example_broker_server_def example_server_def
      example_plugins_def apart_def split: if_splits)

lemma generated_clients_reach_witness:
  "\<exists>mux. snd (serveSetup [''kv''] [''kv''] [''kv''] [''kv''] example_full_server) = Inr (mux, NewHandshakeServer) \<and>
     reached (\<lambda>_. True) ''localhost:8080'' (serveMux mux (routeHandler
         (snd (NewHandshakeServiceHandler (\<lambda>_ f. f) \<lparr>HandshakeServiceHandler_Handshake = 1 :: nat\<rparr>))
         (snd (NewHealthServiceHandler (\<lambda>_ f. f) (\<lambda>_ f. f) \<lparr>HealthServiceHandler_Check = 2, HealthServiceHandler_Watch = 3\<rparr>))
         (snd (NewPluginLifecycleHandler (\<lambda>_ f. f) \<lparr>PluginLifecycleHandler_ReportHealth = 4\<rparr>))
         (snd (NewServiceRegistryHandler (\<lambda>_ f. f) (\<lambda>_ f. f) (\<lambda>_ f. f) (\<lambda>_ f. f)
           \<lparr>ServiceRegistryHandler_RegisterService = 5, ServiceRegistryHandler_UnregisterService = 6,
            ServiceRegistryHandler_DiscoverService = 7, ServiceRegistryHandler_WatchService = 8\<rparr>))
         (snd (NewCapabilityBrokerHandler (\<lambda>_ f. f) \<lparr>CapabilityBrokerHandler_RequestCapability = 9\<rparr>)) (\<lambda>_ _. None)))
       (cc_URL (ServiceRegistryClient_discoverService (NewServiceRegistryClient () ''http://localhost:8080/''))) = Some 7"
proof -
  obtain mux health where up: "serveSetup [''kv''] [''kv''] [''kv''] [''kv''] example_full_server = (health, Inr (mux, NewHandshakeServer))"
    using example_full_ready by blast
  have url: "hostURL_ok (\<lambda>_. True) ''http://localhost:8080''"
    by (auto simp: hostURL_ok_def plain_defs intro: exI [of _ "''localhost:8080''"])
  have "''http://localhost:8080'' @ replicate 1 CHR ''/'' = ''http://localhost:8080/''" by simp
  moreover have "authorityOf ''http://localhost:8080'' = ''localhost:8080''" by (simp add: authorityOf_def trimPrefix_def)
  moreover have "sc_ServiceRegistry example_full_server \<noteq> None" by (simp add: example_full_server_def)
  ultimately show ?thesis
    using generated_clients_reach [OF up example_full_free url, where n = 1 and c = "()" and
        unaryHandshake = "\<lambda>_ f. f" and hs = "\<lparr>HandshakeServiceHandler_Handshake = 1 :: nat\<rparr>" and
        unaryCheck = "\<lambda>_ f. f" and streamWatch = "\<lambda>_ f. f" and
        hl = "\<lparr>HealthServiceHandler_Check = 2, HealthServiceHandler_Watch = 3\<rparr>" and
        unaryReport = "\<lambda>_ f. f" and lc = "\<lparr>PluginLifecycleHandler_ReportHealth = 4\<rparr>" and
        unaryRegister = "\<lambda>_ f. f" and unaryUnregister = "\<lambda>_ f. f" and unaryDiscover = "\<lambda>_ f. f" and streamService = "\<lambda>_ f. f" and
        rg = "\<lparr>ServiceRegistryHandler_RegisterService = 5, ServiceRegistryHandler_UnregisterService = 6,
            ServiceRegistryHandler_DiscoverService = 7, ServiceRegistryHandler_WatchService = 8\<rparr>" and
        unaryRequest = "\<lambda>_ f. f" and cb = "\<lparr>CapabilityBrokerHandler_RequestCapability = 9\<rparr>" and plugin = "\<lambda>_ _. None"]
    unfolding Let_def up snd_conv by (intro exI [of _ mux]) simp
qed

section \<open>Through the router\<close>

text \<open>The four methods of the key-value client, with the handlers they are for.\<close>

definition kvCalls ::
    "(string \<Rightarrow> 'get \<Rightarrow> 'h) \<Rightarrow> (string \<Rightarrow> 'put \<Rightarrow> 'h) \<Rightarrow> (string \<Rightarrow> 'delete \<Rightarrow> 'h) \<Rightarrow> (string \<Rightarrow> 'watch \<Rightarrow> 'h) \<Rightarrow>
     ('get, 'put, 'delete, 'watch) KVServiceHandler \<Rightarrow> 'c KVServiceClient \<Rightarrow> (string \<times> 'h) list" where
  "kvCalls unaryGet unaryPut unaryDelete serverStreamWatch svc c =
     [(cc_URL (KVServiceClient_get c), unaryGet KVServiceGetProcedure (KVServiceHandler_Get svc)),
      (cc_URL (KVServiceClient_put c), unaryPut KVServicePutProcedure (KVServiceHandler_Put svc)),
      (cc_URL (KVServiceClient_delete c), unaryDelete KVServiceDeleteProcedure (KVServiceHandler_Delete svc)),
      (cc_URL (KVServiceClient_watch c), serverStreamWatch KVServiceWatchProcedure (KVServiceHandler_Watch svc))]"

text \<open>What \<open>rpc_service\<close> says about one of them: the path it posts to, and what the service makes of it.\<close>

lemma kv_call:
  assumes call: "(u, h) \<in> set (kvCalls unaryGet unaryPut unaryDelete serverStreamWatch svc (NewKVServiceClient c (url @ p)))"
    and url: "hostURL_ok hostOk url" and p: "basePath p"
  obtains m where "requestPath hostOk (authorityOf url) u = Some (trimRight CHR ''/'' p @ ''/kv.v1.KVService/'' @ m)"
    "CHR ''/'' \<notin> set m" "plainPath (''/kv.v1.KVService/'' @ m)"
    "snd (NewKVServiceHandler unaryGet unaryPut unaryDelete serverStreamWatch svc) (''/kv.v1.KVService/'' @ m) = Some h"
    "\<forall>ep. snd (NewKVServiceHandler unaryGet unaryPut unaryDelete serverStreamWatch svc) (ep @ ''kv.v1.KVService/'' @ m) =
      (if ep = ''/'' then Some h else None)"
proof -
  let ?ms = "[(''Get'', unaryGet KVServiceGetProcedure (KVServiceHandler_Get svc)),
    (''Put'', unaryPut KVServicePutProcedure (KVServiceHandler_Put svc)),
    (''Delete'', unaryDelete KVServiceDeleteProcedure (KVServiceHandler_Delete svc)),
    (''Watch'', serverStreamWatch KVServiceWatchProcedure (KVServiceHandler_Watch svc))]"
  let ?urls = "let c = NewKVServiceClient c (url @ p) in [cc_URL (KVServiceClient_get c), cc_URL (KVServiceClient_put c),
    cc_URL (KVServiceClient_delete c), cc_URL (KVServiceClient_watch c)]"
  obtain i where i: "i < length ?ms" "u = ?urls ! i" "h = snd (?ms ! i)"
  proof -
    from call consider "u = ?urls ! 0 \<and> h = snd (?ms ! 0)" | "u = ?urls ! 1 \<and> h = snd (?ms ! 1)"
      | "u = ?urls ! 2 \<and> h = snd (?ms ! 2)" | "u = ?urls ! 3 \<and> h = snd (?ms ! 3)"
      by (auto simp: kvCalls_def Let_def eval_nat_numeral)
    then show ?thesis using that [of 0] that [of 1] that [of 2] that [of 3] by cases simp_all
  qed
  let ?m = "fst (?ms ! i)"
  have mem: "(?m, h) \<in> set ?ms" using nth_mem [OF i(1)] by (simp only: i(3) prod.collapse)
  have path: "fst (NewKVServiceHandler unaryGet unaryPut unaryDelete serverStreamWatch svc) = ''/kv.v1.KVService/''"
    by (simp add: NewKVServiceHandler_def)
  show thesis
  proof (rule that)
    show "requestPath hostOk (authorityOf url) u = Some (trimRight CHR ''/'' p @ ''/kv.v1.KVService/'' @ ?m)"
      unfolding i(2) using kVService_rpc.client_path [where httpClient = c and unaryGet = unaryGet and unaryPut = unaryPut and
          unaryDelete = unaryDelete and serverStreamWatch = serverStreamWatch and svc = svc and i = i, OF _ url p] i(1)
      by (simp only: path)
    show "CHR ''/'' \<notin> set ?m" using mem by auto
    show "plainPath (''/kv.v1.KVService/'' @ ?m)"
      using kVService_rpc.plain_procedure [where unaryGet = unaryGet and unaryPut = unaryPut and
      unaryDelete = unaryDelete and serverStreamWatch = serverStreamWatch and svc = svc, OF mem] by (simp only: path)
    show "snd (NewKVServiceHandler unaryGet unaryPut unaryDelete serverStreamWatch svc) (''/kv.v1.KVService/'' @ ?m) = Some h"
      using kVService_rpc.serve_procedure [where unaryGet = unaryGet and unaryPut = unaryPut and
      unaryDelete = unaryDelete and serverStreamWatch = serverStreamWatch and svc = svc, OF mem] by (simp only: path)
    show "\<forall>ep. snd (NewKVServiceHandler unaryGet unaryPut unaryDelete serverStreamWatch svc) (ep @ ''kv.v1.KVService/'' @ ?m) =
      (if ep = ''/'' then Some h else None)"
      using kVService_rpc.prefixed_procedure [where unaryGet = unaryGet and unaryPut = unaryPut and
      unaryDelete = unaryDelete and serverStreamWatch = serverStreamWatch and svc = svc, OF mem] by (simp add: KVServiceName_def)
  qed
qed

text \<open>Each of them reaches its method on a mux that hands the paths of the service to its handler.\<close>

lemma kv_reached:
  assumes call: "(u, h) \<in> set (kvCalls unaryGet unaryPut unaryDelete serverStreamWatch svc
      (NewKVServiceClient c (url @ replicate n CHR ''/'')))" and url: "hostURL_ok hostOk url"
    and mux: "\<forall>m. CHR ''/'' \<notin> set m \<longrightarrow> muxMatch mux (''/kv.v1.KVService/'' @ m) = Some r"
    and handler: "handler r = snd (NewKVServiceHandler unaryGet unaryPut unaryDelete serverStreamWatch svc)"
  shows "reached hostOk (authorityOf url) (serveMux mux handler) u = Some h"
proof -
  obtain m where m: "requestPath hostOk (authorityOf url) u =
      Some (trimRight CHR ''/'' (replicate n CHR ''/'') @ ''/kv.v1.KVService/'' @ m)" "CHR ''/'' \<notin> set m"
    "snd (NewKVServiceHandler unaryGet unaryPut unaryDelete serverStreamWatch svc) (''/kv.v1.KVService/'' @ m) = Some h"
    by (rule kv_call [OF call url basePath_slashes]) blast
  have "trimRight CHR ''/'' (replicate n CHR ''/'') = ''''"
    using trimRight_trim [of "CHR ''/''" "[]" n] by (simp add: trimRight_def)
  then show ?thesis
    using m mux by (simp add: reached_def serveMux_def handler)
qed

text \<open>A provider that serves the key-value service alone, at an authority of its own.\<close>

definition kvProvider ::
    "(string \<Rightarrow> 'get \<Rightarrow> 'h) \<Rightarrow> (string \<Rightarrow> 'put \<Rightarrow> 'h) \<Rightarrow> (string \<Rightarrow> 'delete \<Rightarrow> 'h) \<Rightarrow> (string \<Rightarrow> 'watch \<Rightarrow> 'h) \<Rightarrow>
     ('get, 'put, 'delete, 'watch) KVServiceHandler \<Rightarrow> string \<Rightarrow> 'h option" where
  "kvProvider unaryGet unaryPut unaryDelete serverStreamWatch svc =
     (case NewKVServiceHandler unaryGet unaryPut unaryDelete serverStreamWatch svc of
        (path, handler) \<Rightarrow> serveMux [(path, ())] (\<lambda>_. handler))"

lemma kvProvider_serves:
  "kvProvider unaryGet unaryPut unaryDelete serverStreamWatch svc q =
     snd (NewKVServiceHandler unaryGet unaryPut unaryDelete serverStreamWatch svc) q"
proof (cases "hasPrefix q ''/kv.v1.KVService/''")
  case True
  then show ?thesis
    by (simp add: kvProvider_def NewKVServiceHandler_def serveMux_def muxMatch_def patternMatches_def)
next
  case False
  then have "q \<notin> {KVServiceGetProcedure, KVServicePutProcedure, KVServiceDeleteProcedure, KVServiceWatchProcedure}"
    by (auto simp: KVServiceGetProcedure_def KVServicePutProcedure_def KVServiceDeleteProcedure_def KVServiceWatchProcedure_def)
  then show ?thesis using False
    by (simp add: kvProvider_def NewKVServiceHandler_def serveMux_def muxMatch_def patternMatches_def)
qed

text \<open>C33. A generated client and the router. A client of the key-value service made for the endpoint that
  discovery returns, below the URL of the host, posts to the path of its provider followed by the procedure.
  For an authorized caller and a routable provider the router forwards the request; and the request
  reaches the method it is for, whichever it is, exactly when the provider registered the endpoint path
  \<^verbatim>\<open>/\<close>. Registered under the path its handler is mounted on, as the programs of the repository do, it answers
  that the path is not found.\<close>
theorem generated_client_through_router:
  assumes call: "(u, h) \<in> set (kvCalls unaryGet unaryPut unaryDelete serverStreamWatch svc
      (NewKVServiceClient c (hostURL @ se_EndpointUrl (providerEndpoint p))))"
    and urls: "hostURL_ok hostOk hostURL" "hostURL_ok hostOk base"
    and names: "list_all plainByte (sp_ServiceType p)" "CHR ''/'' \<notin> set (sp_ServiceType p)"
      "list_all plainByte (sp_RuntimeID p)" "CHR ''/'' \<notin> set (sp_RuntimeID p)" "sp_RuntimeID p \<noteq> ''''"
    and endpoint: "plainPath (sp_EndpointPath p)"
    and req: "requestPath hostOk (authorityOf hostURL) u = Some (hq_Path req)"
    and caller: "header_get (hq_Header req) ''X-Plugin-Runtime-ID'' = caller" "caller \<noteq> ''''"
      "bearerToken (hq_Header req) = Some tok" "snd (ValidateToken now caller tok hs)"
    and provider: "GetProviderByRuntimeID order registry (sp_RuntimeID p) = Some p"
      "ShouldRouteTraffic lifecycle (sp_RuntimeID p)" "providerBase router p = Some base"
  shows "\<exists>targetURL. routeRequest now order registry lifecycle router req hs =
      (fst (ValidateToken now caller tok hs), Forward targetURL) \<and>
    reached hostOk (authorityOf base) (kvProvider unaryGet unaryPut unaryDelete serverStreamWatch svc) targetURL =
      (if sp_EndpointPath p = ''/'' then Some h else None)"
proof -
  let ?p = "serviceURL (sp_ServiceType p) (sp_RuntimeID p)"
  have p: "basePath ?p"
    using names plain_slash by (simp add: basePath_def serviceURL_def plainPath_def plain_defs)
  have trim: "trimRight CHR ''/'' ?p = ?p"
  proof (rule trimRight_id)
    show "?p \<noteq> []" by (simp add: serviceURL_def)
    have "last ?p = last (sp_RuntimeID p)" using names(5) by (simp add: serviceURL_def)
    then show "last ?p \<noteq> CHR ''/''" using names(4,5) last_in_set by metis
  qed
  have call': "(u, h) \<in> set (kvCalls unaryGet unaryPut unaryDelete serverStreamWatch svc (NewKVServiceClient c (hostURL @ ?p)))"
    using call by (simp add: providerEndpoint_def)
  obtain m where m: "requestPath hostOk (authorityOf hostURL) u = Some (trimRight CHR ''/'' ?p @ ''/kv.v1.KVService/'' @ m)"
    "plainPath (''/kv.v1.KVService/'' @ m)"
    "\<forall>ep. snd (NewKVServiceHandler unaryGet unaryPut unaryDelete serverStreamWatch svc) (ep @ ''kv.v1.KVService/'' @ m) =
      (if ep = ''/'' then Some h else None)"
    by (rule kv_call [OF call' urls(1) p]) blast
  have "hq_Path req = ''/services/'' @ sp_ServiceType p @ ''/'' @ sp_RuntimeID p @ ''/'' @ (''kv.v1.KVService/'' @ m)"
    using req m(1) unfolding trim by (simp add: serviceURL_def)
  note routeRequest_authorized [OF names(2,4) this caller provider refl]
  moreover have "list_all plainByte (''kv.v1.KVService/'' @ m)" using m(2) by (simp add: plainPath_def)
  then have "plainPath (sp_EndpointPath p @ ''kv.v1.KVService/'' @ m)"
    using plainPath_append [OF endpoint, of "''kv.v1.KVService/'' @ m"] by simp
  then have "reached hostOk (authorityOf base) (kvProvider unaryGet unaryPut unaryDelete serverStreamWatch svc)
      (base @ sp_EndpointPath p @ ''kv.v1.KVService/'' @ m) = (if sp_EndpointPath p = ''/'' then Some h else None)"
    by (simp only: reached_def requestPath_plain [OF urls(2)] bind.bind_lunit kvProvider_serves m(3) [rule_format])
  ultimately show ?thesis by blast
qed

definition example_rpc :: HttpRequest where
  "example_rpc = example_call\<lparr>hq_Path := ''/services/kv/kv-a1b2/kv.v1.KVService/Get''\<rparr>"

lemma generated_client_through_router_witness:
  "\<exists>targetURL. snd (routeRequest 50 [''reg-6162636465666768''] example_registry NewLifecycleServer
      (RegisterPluginEndpoint ''kv-a1b2'' ''http://p'' NewServiceRouter) example_rpc example_tokens) = Forward targetURL \<and>
    reached (\<lambda>_. True) ''p'' (kvProvider (\<lambda>_ f. f) (\<lambda>_ f. f) (\<lambda>_ f. f) (\<lambda>_ f. f)
      \<lparr>KVServiceHandler_Get = 1 :: nat, KVServiceHandler_Put = 2, KVServiceHandler_Delete = 3, KVServiceHandler_Watch = 4\<rparr>)
      targetURL = None"
proof -
  let ?svc = "\<lparr>KVServiceHandler_Get = 1 :: nat, KVServiceHandler_Put = 2, KVServiceHandler_Delete = 3, KVServiceHandler_Watch = 4\<rparr>"
  let ?client = "NewKVServiceClient () (''http://host'' @ se_EndpointUrl (providerEndpoint example_provider))"
  have type: "sp_ServiceType example_provider = ''kv''"
    by (simp add: example_provider_def newProvider_def example_request_def)
  have call: "(cc_URL (KVServiceClient_get ?client), 1) \<in> set (kvCalls (\<lambda>_ f. f) (\<lambda>_ f. f) (\<lambda>_ f. f) (\<lambda>_ f. f) ?svc ?client)"
    by (simp add: kvCalls_def)
  have urls: "hostURL_ok (\<lambda>_. True) ''http://host''" "hostURL_ok (\<lambda>_. True) ''http://p''"
    by (auto simp: hostURL_ok_def plain_defs intro: exI [of _ "''host''"] exI [of _ "''p''"])
  have names: "list_all plainByte (sp_ServiceType example_provider)" "CHR ''/'' \<notin> set (sp_ServiceType example_provider)"
      "list_all plainByte (sp_RuntimeID example_provider)" "CHR ''/'' \<notin> set (sp_RuntimeID example_provider)"
      "sp_RuntimeID example_provider \<noteq> ''''" "plainPath (sp_EndpointPath example_provider)"
    by (simp_all add: type example_routing plain_defs plainPath_def)
  have url: "cc_URL (KVServiceClient_get ?client) = ''http://host'' @ ''/services/kv/kv-a1b2/kv.v1.KVService/Get''"
    by (simp add: NewKVServiceClient_def providerEndpoint_def serviceURL_def type example_routing trimRight_def
        KVServiceGetProcedure_def)
  have plain: "plainPath ''/services/kv/kv-a1b2/kv.v1.KVService/Get''" by (simp add: plainPath_def plain_defs)
  have req: "requestPath (\<lambda>_. True) (authorityOf ''http://host'') (cc_URL (KVServiceClient_get ?client)) = Some (hq_Path example_rpc)"
    unfolding url requestPath_plain [OF urls(1) plain] by (simp add: example_rpc_def)
  have caller: "header_get (hq_Header example_rpc) ''X-Plugin-Runtime-ID'' = ''app-1''" "''app-1'' \<noteq> ''''"
    "bearerToken (hq_Header example_rpc) = Some ''secret''" "snd (ValidateToken 50 ''app-1'' ''secret'' example_tokens)"
    using example_routing by (simp_all add: example_rpc_def)
  have provider: "GetProviderByRuntimeID [''reg-6162636465666768''] example_registry (sp_RuntimeID example_provider) = Some example_provider"
    "ShouldRouteTraffic NewLifecycleServer (sp_RuntimeID example_provider)"
    "providerBase (RegisterPluginEndpoint ''kv-a1b2'' ''http://p'' NewServiceRouter) example_provider = Some ''http://p''"
    by (simp_all add: example_routing providerBase_def RegisterPluginEndpoint_def)
  have "authorityOf ''http://p'' = ''p''" by (simp add: authorityOf_def trimPrefix_def)
  then show ?thesis
    using generated_client_through_router [OF call urls names req caller provider]
    by (elim exE conjE) (rule exI, simp add: example_routing)
qed

end
