(* ===== verification/KVPrograms.thy ===== *)
theory KVPrograms
  imports GeneratedPlugins ConnectRPCProps Client Launcher KVStoreProps
begin

text \<open>
  The example programs around the key-value plugin: the server \<^verbatim>\<open>examples/kv/server\<close> (its standalone mode), its
  clients \<^verbatim>\<open>examples/kv/host\<close> and \<^verbatim>\<open>examples/kv/host-watch\<close>, the programs that run the plugin in memory,
  \<^verbatim>\<open>examples/direct-dispatch\<close> and \<^verbatim>\<open>examples/fx-direct\<close>, and \<^verbatim>\<open>examples/kv/integ-fx\<close> and \<^verbatim>\<open>examples/fx-managed\<close>. They
  are written over the generated client, the plugin client and the launcher; what they print is left
  out, what they observe is their result. The package connect is the record \<open>ConnectLib\<close>: how its clients
  answer. That a client's call is answered by the method that the client's URL reaches, on the
  server that its HTTP client is connected to, is what it documents, and the predicate \<open>delivers\<close>.
\<close>

section \<open>The methods a server offers\<close>

datatype Served =
    HandshakeMethod "HandshakeRequest \<Rightarrow> string + HandshakeResponse"
  | CheckMethod "string \<Rightarrow> rpc_error + ServingStatus"
  | HealthWatchMethod
  | GetMethod "GetRequest \<Rightarrow> (Store, GetResponse) rpc_call"
  | PutMethod "PutRequest \<Rightarrow> (Store, unit) rpc_call"
  | DeleteMethod "DeleteRequest \<Rightarrow> (Store, DeleteResponse) rpc_call"
  | WatchMethod "WatchRequest \<Rightarrow> nat \<Rightarrow> Store \<Rightarrow> Store"

record 'c ConnectLib =
  cn_Handshake :: "'c ConnectClient \<Rightarrow> HandshakeRequest \<Rightarrow> string + HandshakeResponse"
  cn_Check :: "'c ConnectClient \<Rightarrow> string \<Rightarrow> rpc_error + ServingStatus"
  cn_Get :: "'c ConnectClient \<Rightarrow> GetRequest \<Rightarrow> (Store, GetResponse) rpc_call"
  cn_Put :: "'c ConnectClient \<Rightarrow> PutRequest \<Rightarrow> (Store, unit) rpc_call"
  cn_Delete :: "'c ConnectClient \<Rightarrow> DeleteRequest \<Rightarrow> (Store, DeleteResponse) rpc_call"
  cn_Watch :: "'c ConnectClient \<Rightarrow> WatchRequest \<Rightarrow> nat \<Rightarrow> Store \<Rightarrow> Store"

definition delivers :: "('c ConnectClient \<Rightarrow> Served option) \<Rightarrow> 'c ConnectLib \<Rightarrow> bool" where
  "delivers dest cn \<longleftrightarrow>
     (\<forall>c f. dest c = Some (HandshakeMethod f) \<longrightarrow> cn_Handshake cn c = f) \<and>
     (\<forall>c f. dest c = Some (CheckMethod f) \<longrightarrow> cn_Check cn c = f) \<and>
     (\<forall>c f. dest c = Some (GetMethod f) \<longrightarrow> cn_Get cn c = f) \<and>
     (\<forall>c f. dest c = Some (PutMethod f) \<longrightarrow> cn_Put cn c = f) \<and>
     (\<forall>c f. dest c = Some (DeleteMethod f) \<longrightarrow> cn_Delete cn c = f) \<and>
     (\<forall>c f. dest c = Some (WatchMethod f) \<longrightarrow> cn_Watch cn c = f)"

section \<open>The store as an implementation\<close>

definition storeError :: "KVError connect_error \<Rightarrow> rpc_error" where
  "storeError e = (case e of NewError code KeyEmpty \<Rightarrow> ConnectError code ''key cannot be empty'')"

text \<open>\<open>skip\<close> is the choice of the runtime in \<open>notifyWatchers\<close>; a stream is the number of its call.\<close>

definition storeHandler ::
    "(nat \<Rightarrow> bool) \<Rightarrow> (GetRequest \<Rightarrow> (Store, GetResponse) rpc_call, PutRequest \<Rightarrow> (Store, unit) rpc_call,
       DeleteRequest \<Rightarrow> (Store, DeleteResponse) rpc_call, WatchRequest \<Rightarrow> nat \<Rightarrow> Store \<Rightarrow> Store) KVServiceHandler" where
  "storeHandler skip =
     \<lparr>KVServiceHandler_Get = (\<lambda>req s. case Get (grq_Key req) s of (value, found) \<Rightarrow> Some (s, Inr \<lparr>grs_Value = value, grs_Found = found\<rparr>)),
      KVServiceHandler_Put = (\<lambda>req s. map_option (\<lambda>(s', r). (s', case r of Inl e \<Rightarrow> Inl (storeError e) | Inr _ \<Rightarrow> Inr ()))
        (Put skip (prq_Key req) (prq_Value req) s)),
      KVServiceHandler_Delete = (\<lambda>req s. map_option (\<lambda>(s', found). (s', Inr \<lparr>drs_Found = found\<rparr>)) (Delete skip (drq_Key req) s)),
      KVServiceHandler_Watch = (\<lambda>req i s. Watch_register i (wrq_Prefix req) None s)\<rparr>"

text \<open>The values of type \<open>any\<close> in these programs.\<close>

datatype KVAny = StoreImpl | KVClientValue "http_client KVServiceClient"

definition asKVHandler :: "(nat \<Rightarrow> bool) \<Rightarrow> KVAny \<Rightarrow>
    (GetRequest \<Rightarrow> (Store, GetResponse) rpc_call, PutRequest \<Rightarrow> (Store, unit) rpc_call,
     DeleteRequest \<Rightarrow> (Store, DeleteResponse) rpc_call, WatchRequest \<Rightarrow> nat \<Rightarrow> Store \<Rightarrow> Store) KVServiceHandler option" where
  "asKVHandler skip impl = (case impl of StoreImpl \<Rightarrow> Some (storeHandler skip) | KVClientValue _ \<Rightarrow> None)"

definition asKVClient :: "KVAny \<Rightarrow> http_client KVServiceClient option" where
  "asKVClient v = (case v of StoreImpl \<Rightarrow> None | KVClientValue c \<Rightarrow> Some c)"

definition typeName :: "KVAny \<Rightarrow> string" where
  "typeName v = (case v of StoreImpl \<Rightarrow> ''*kvimpl.Store'' | KVClientValue _ \<Rightarrow> ''*kvv1connect.kVServiceClient'')"

definition kvPlugin :: "(nat \<Rightarrow> bool) \<Rightarrow> (KVAny, string \<Rightarrow> Served option) Plugin" where
  "kvPlugin skip = KVServicePlugin (asKVHandler skip) typeName KVClientValue
     (\<lambda>_. GetMethod) (\<lambda>_. PutMethod) (\<lambda>_. DeleteMethod) (\<lambda>_. WatchMethod)"

section \<open>The server\<close>

definition kv_server_config :: "(nat \<Rightarrow> bool) \<Rightarrow> string \<Rightarrow> (KVAny, string \<Rightarrow> Served option) ServerConfig" where
  "kv_server_config skip port =
     \<lparr>cfg_Plugins = Some [''kv'' \<mapsto> kvPlugin skip], cfg_Impls = Some [''kv'' \<mapsto> StoreImpl], cfg_ProtocolVersion = 0,
      cfg_MagicCookieKey = '''', cfg_MagicCookieValue = '''', cfg_ServerMetadata = Map.empty, cfg_RuntimeTokenTTL = 0,
      sc_Addr = CHR '':'' # port, sc_GracefulShutdownTimeout = 0, sc_Cleanup = None, sc_HealthService = Some NewHealthServer,
      sc_CapabilityBroker = None, sc_LifecycleService = None, sc_ServiceRegistry = None, sc_ServiceRouter = None\<rparr>"

text \<open>
  What it serves once it listens: its mux with the generated handlers of the handshake and the health server,
  and the plugin's. Nothing sends it a self id, so no random bytes are read.
\<close>

definition checkAnswer :: "HealthServer \<Rightarrow> string \<Rightarrow> rpc_error + ServingStatus" where
  "checkAnswer health service =
     (case Check health service of
        Inl (NewError code (UnknownService name)) \<Rightarrow> Inl (ConnectError code (''unknown service: '' @ name))
      | Inr status \<Rightarrow> Inr status)"

definition kv_server_serves ::
    "(nat \<Rightarrow> bool) \<Rightarrow> string \<Rightarrow> time \<Rightarrow> HandshakeServer \<Rightarrow> HealthServer \<Rightarrow> (string \<Rightarrow> Served option) Route mux \<Rightarrow>
     string \<Rightarrow> Served option" where
  "kv_server_serves skip port now tokens health mux =
     serveMux mux (routeHandler
       (snd (NewHandshakeServiceHandler (\<lambda>_. HandshakeMethod)
          \<lparr>HandshakeServiceHandler_Handshake = serve_handshake
             (\<lambda>req. Handshake (withServeDefaults (kv_server_config skip port)) None [] None None now req tokens) ''''\<rparr>))
       (snd (NewHealthServiceHandler (\<lambda>_. CheckMethod) (\<lambda>_ _. HealthWatchMethod)
          \<lparr>HealthServiceHandler_Check = checkAnswer health, HealthServiceHandler_Watch = ()\<rparr>))
       (\<lambda>_. None) (\<lambda>_. None) (\<lambda>_. None) (\<lambda>h. h))"

section \<open>Programs that stop at the first error\<close>

text \<open>
  A call and what is done with its answer; on an error the program ends with a message (\<open>log.Fatal\<close>,
  or the error a hook returns).
\<close>

type_synonym ('s, 'a) run = "'s \<Rightarrow> ('s \<times> (string + 'a)) option"

definition onAnswer :: "('s, 'a) rpc_call \<Rightarrow> string \<Rightarrow> ('a \<Rightarrow> ('s, 'b) run) \<Rightarrow> ('s, 'b) run" where
  "onAnswer call failure next s =
     (case call s of
        None \<Rightarrow> None
      | Some (s', Inl e) \<Rightarrow> Some (s', Inl failure)
      | Some (s', Inr resp) \<Rightarrow> next resp s')"

definition fatal :: "string \<Rightarrow> ('s, 'a) run" where
  "fatal message s = Some (s, Inl message)"

definition finish :: "'a \<Rightarrow> ('s, 'a) run" where
  "finish x s = Some (s, Inr x)"

section \<open>The client program\<close>

text \<open>The four tests of \<^verbatim>\<open>examples/kv/host/main.go\<close>; the result is the value got and whether the key was deleted.\<close>

definition kv_host_tests :: "'c ConnectLib \<Rightarrow> 'c KVServiceClient \<Rightarrow> (Store, string \<times> bool) run" where
  "kv_host_tests cn kvClient =
     onAnswer (KVServiceClient_Put (cn_Put cn) kvClient \<lparr>prq_Key = ''hello'', prq_Value = ''world''\<rparr>) ''Put failed:'' (\<lambda>_.
     onAnswer (KVServiceClient_Get (cn_Get cn) kvClient \<lparr>grq_Key = ''hello''\<rparr>) ''Get failed:'' (\<lambda>getResp.
     if \<not> grs_Found getResp then fatal ''Key not found'' else
     onAnswer (KVServiceClient_Delete (cn_Delete cn) kvClient \<lparr>drq_Key = ''hello''\<rparr>) ''Delete failed:'' (\<lambda>delResp.
     onAnswer (KVServiceClient_Get (cn_Get cn) kvClient \<lparr>grq_Key = ''hello''\<rparr>) ''Get failed:'' (\<lambda>getResp2.
     if grs_Found getResp2 then fatal ''Key should not be found after delete''
     else finish (grs_Value getResp, drs_Found delResp)))))"

definition kv_host_config :: "(nat \<Rightarrow> bool) \<Rightarrow> string \<Rightarrow> (KVAny, string \<Rightarrow> Served option) ClientConfig" where
  "kv_host_config skip endpoint =
     \<lparr>cl_Endpoint = endpoint, cl_HostURL = '''', cl_Plugins = Some [''kv'' \<mapsto> kvPlugin skip], cl_ProtocolVersion = 0,
      cl_MagicCookieKey = '''', cl_MagicCookieValue = '''', cl_SelfID = '''', cl_SelfVersion = '''',
      cl_Metadata = \<lparr>pm_Name = '''', pm_Path = '''', pm_Version = '''', pm_Provides = [], pm_Requires = []\<rparr>,
      cl_Discovery = None, cl_DiscoveryServiceName = ''''\<rparr>"

text \<open>The handshake of the plugin client goes through the generated client of the service.\<close>

definition handshakeOver :: "http_client ConnectLib \<Rightarrow> string \<Rightarrow> HandshakeRequest \<Rightarrow> string + HandshakeResponse" where
  "handshakeOver cn endpoint req =
     HandshakeServiceClient_Handshake (cn_Handshake cn) (NewHandshakeServiceClient (Some ()) endpoint) req"

text \<open>
  The program; \<open>vo\<close> and \<open>ko\<close> are the orders of the ranges over its plugins, and a failed type assertion panics.
  The result is the two health answers, and those of the tests.
\<close>

definition kv_host_main ::
    "(nat \<Rightarrow> bool) \<Rightarrow> string list \<Rightarrow> string list \<Rightarrow> http_client ConnectLib \<Rightarrow> string \<Rightarrow>
     (Store, (rpc_error + ServingStatus) \<times> (rpc_error + ServingStatus) \<times> string \<times> bool) run" where
  "kv_host_main skip vo ko cn pluginEndpoint s =
     (let endpoint = (if pluginEndpoint = '''' then ''http://localhost:8080'' else pluginEndpoint)
      in case NewClient vo (kv_host_config skip endpoint) of
           Inl e \<Rightarrow> fatal ''Failed to create client:'' s
         | Inr client \<Rightarrow>
             (case Connect (handshakeOver cn) ko client of
                (client, Some e) \<Rightarrow> fatal ''Failed to connect:'' s
              | (client, None) \<Rightarrow>
                  let healthClient = NewHealthServiceClient (Some ()) endpoint;
                      healthResp = HealthServiceClient_Check (cn_Check cn) healthClient '''';
                      kvHealthResp = HealthServiceClient_Check (cn_Check cn) healthClient ''kv''
                  in (case Dispense (handshakeOver cn) ko ''kv'' client of
                        (client, Inl e) \<Rightarrow> fatal ''Failed to dispense:'' s
                      | (client, Inr raw) \<Rightarrow>
                          (case asKVClient raw of
                             None \<Rightarrow> None
                           | Some kvClient \<Rightarrow>
                               (case kv_host_tests cn kvClient s of
                                  None \<Rightarrow> None
                                | Some (s', Inl e) \<Rightarrow> Some (s', Inl e)
                                | Some (s', Inr r) \<Rightarrow> Some (s', Inr (healthResp, kvHealthResp, r)))))))"

section \<open>A watch and what its stream has delivered\<close>

text \<open>
  The events that a call of \<open>Watch\<close> has sent; and what its server does while the program waits: it pumps
  what is in the channel.
\<close>

definition streamed :: "nat \<Rightarrow> Store \<Rightarrow> WatchEvent list" where
  "streamed i s = (case kv_calls s i of None \<Rightarrow> [] | Some w \<Rightarrow> pu_sent (wt_pump w))"

fun drain :: "nat \<Rightarrow> nat \<Rightarrow> Store \<Rightarrow> Store" where
  "drain 0 i s = s"
| "drain (Suc n) i s =
     (case Watch_pump (\<lambda>_. None) ChooseMsg i s of None \<Rightarrow> s | Some s' \<Rightarrow> drain n i s')"

text \<open>The stream of a new call: it registers, sends the first event and starts to pump.\<close>

definition openWatch :: "'c ConnectLib \<Rightarrow> 'c KVServiceClient \<Rightarrow> nat \<Rightarrow> string \<Rightarrow> Store \<Rightarrow> Store option" where
  "openWatch cn kvClient i keyPrefix s =
     map_option (drain eventsCap i) (Watch_initial i (KVServiceClient_Watch (cn_Watch cn) kvClient \<lparr>wrq_Prefix = keyPrefix\<rparr> i s))"

section \<open>The watching client\<close>

text \<open>
  \<^verbatim>\<open>examples/kv/host-watch/main.go\<close> from the call of \<open>Watch\<close> on; \<open>i\<close> is the new call. A sleep lets the server pump.
  The result is the number of events received, the first one left out, which has to be three.
\<close>

definition kv_watch_tests :: "'c ConnectLib \<Rightarrow> nat \<Rightarrow> 'c KVServiceClient \<Rightarrow> (Store, nat) run" where
  "kv_watch_tests cn i kvClient s =
     (case openWatch cn kvClient i ''test'' s of
        None \<Rightarrow> None
      | Some s1 \<Rightarrow>
          onAnswer (KVServiceClient_Put (cn_Put cn) kvClient \<lparr>prq_Key = ''test/a'', prq_Value = ''value-a''\<rparr>) ''Put failed:'' (\<lambda>_ s.
          onAnswer (KVServiceClient_Put (cn_Put cn) kvClient \<lparr>prq_Key = ''test/b'', prq_Value = ''value-b''\<rparr>) ''Put failed:'' (\<lambda>_ s.
          onAnswer (KVServiceClient_Put (cn_Put cn) kvClient \<lparr>prq_Key = ''other/c'', prq_Value = ''value-c''\<rparr>) ''Put failed:'' (\<lambda>_ s.
          onAnswer (KVServiceClient_Delete (cn_Delete cn) kvClient \<lparr>drq_Key = ''test/a''\<rparr>) ''Delete failed:'' (\<lambda>_ s.
            let s' = drain eventsCap i s;
                finalCount = length (filter (\<lambda>event. ev_Key event \<noteq> ''_watch_started'') (streamed i s'));
                s'' = Watch_cancel i ''context canceled'' s'
            in if finalCount \<noteq> 3 then fatal ''Expected 3 events'' s'' else finish finalCount s'')
          (drain eventsCap i s)) (drain eventsCap i s)) (drain eventsCap i s)) s1)"

text \<open>The whole program: up to the plugin it is the client program without the health checks.\<close>

definition kv_watch_main ::
    "(nat \<Rightarrow> bool) \<Rightarrow> string list \<Rightarrow> string list \<Rightarrow> http_client ConnectLib \<Rightarrow> nat \<Rightarrow> string \<Rightarrow> (Store, nat) run" where
  "kv_watch_main skip vo ko cn i pluginEndpoint s =
     (let endpoint = (if pluginEndpoint = '''' then ''http://localhost:8080'' else pluginEndpoint)
      in case NewClient vo (kv_host_config skip endpoint) of
           Inl e \<Rightarrow> fatal ''Failed to create client:'' s
         | Inr client \<Rightarrow>
             (case Connect (handshakeOver cn) ko client of
                (client, Some e) \<Rightarrow> fatal ''Failed to connect:'' s
              | (client, None) \<Rightarrow>
                  (case Dispense (handshakeOver cn) ko ''kv'' client of
                     (client, Inl e) \<Rightarrow> fatal ''Failed to dispense:'' s
                   | (client, Inr raw) \<Rightarrow>
                       (case asKVClient raw of None \<Rightarrow> None | Some kvClient \<Rightarrow> kv_watch_tests cn i kvClient s))))"

section \<open>The programs in memory\<close>

text \<open>
  The methods that a client with an in-memory HTTP client reaches: those of the server with this
  number, while it is not closed, whatever the host of the URL. Clients without one go to the network, where
  no in-memory server is.
\<close>

definition memHandler :: "(string \<Rightarrow> Served option) MemRoute \<Rightarrow> string \<Rightarrow> Served option" where
  "memHandler route = (case route of MemPlugin h \<Rightarrow> h | MemControl \<Rightarrow> (\<lambda>_. None))"

definition memDest :: "(string \<Rightarrow> Served option) LaunchState \<Rightarrow> nat option ConnectClient \<Rightarrow> Served option" where
  "memDest st c =
     (case cc_HTTPClient c of
        None \<Rightarrow> None
      | Some a \<Rightarrow>
          if a < length (la_servers st) \<and> \<not> ln_closed (ms_listener (la_servers st ! a))
          then Option.bind (parseURL (\<lambda>_. True) (cc_URL c))
                 (\<lambda>u. reached (\<lambda>_. True) (u_Host u) (serveMux (ms_mux (la_servers st ! a)) memHandler) (cc_URL c))
          else None)"

text \<open>The specification both programs configure, and their launcher.\<close>

definition inMemoryKV :: "(nat \<Rightarrow> bool) \<Rightarrow> (KVAny, string \<Rightarrow> Served option) PluginSpec" where
  "inMemoryKV skip =
     \<lparr>ps_Name = ''kv'', ps_Provides = [''kv''], ps_Strategy = ''in-memory'', ps_Port = 0, ps_BinaryPath = '''', ps_HostURL = '''',
      ps_Plugin = Some (kvPlugin skip), ps_ImplFactory = Some StoreImpl, ps_Metadata = Map.empty\<rparr>"

definition inMemoryLauncher :: "(nat \<Rightarrow> bool) \<Rightarrow> (KVAny, string \<Rightarrow> Served option) PluginLauncher" where
  "inMemoryLauncher skip = Configure [''kv'' \<mapsto> inMemoryKV skip] (RegisterStrategy (InMemoryStrategy True) NewPluginLauncher)"

text \<open>\<^verbatim>\<open>examples/direct-dispatch/main.go\<close>.\<close>

definition itemKey :: "nat \<Rightarrow> string" where "itemKey i = ''item:'' @ showInt (int i)"

definition itemValue :: "nat \<Rightarrow> string" where "itemValue i = ''value-'' @ showInt (int i)"

fun putItems :: "'c ConnectLib \<Rightarrow> 'c KVServiceClient \<Rightarrow> nat list \<Rightarrow> (Store, 'b) run \<Rightarrow> (Store, 'b) run" where
  "putItems cn kvClient [] next = next"
| "putItems cn kvClient (i # is) next =
     onAnswer (KVServiceClient_Put (cn_Put cn) kvClient \<lparr>prq_Key = itemKey i, prq_Value = itemValue i\<rparr>) ''Put failed''
       (\<lambda>_. putItems cn kvClient is next)"

text \<open>
  The streaming part: the write comes after the first event was received, and the program waits for the
  second, the only one it receives; the answer of the write is not looked at.
\<close>

definition direct_dispatch_watch :: "'c ConnectLib \<Rightarrow> nat \<Rightarrow> 'c KVServiceClient \<Rightarrow> (Store, WatchEvent list) run" where
  "direct_dispatch_watch cn i kvClient s =
     (case openWatch cn kvClient i ''live:'' s of
        None \<Rightarrow> None
      | Some s1 \<Rightarrow>
          (case KVServiceClient_Put (cn_Put cn) kvClient \<lparr>prq_Key = ''live:status'', prq_Value = ''streaming works!''\<rparr> s1 of
             None \<Rightarrow> None
           | Some (s2, _) \<Rightarrow>
               let s3 = drain eventsCap i s2
               in finish (take 1 (drop (length (streamed i s1)) (streamed i s3))) (Watch_cancel i ''context canceled'' s3)))"

definition direct_dispatch_calls ::
    "'c ConnectLib \<Rightarrow> nat \<Rightarrow> 'c KVServiceClient \<Rightarrow> (Store, GetResponse \<times> DeleteResponse \<times> GetResponse \<times> WatchEvent list) run" where
  "direct_dispatch_calls cn i kvClient =
     onAnswer (KVServiceClient_Put (cn_Put cn) kvClient \<lparr>prq_Key = ''greeting'', prq_Value = ''hello from direct dispatch''\<rparr>)
       ''Put failed:'' (\<lambda>_.
     onAnswer (KVServiceClient_Get (cn_Get cn) kvClient \<lparr>grq_Key = ''greeting''\<rparr>) ''Get failed:'' (\<lambda>getResp.
     putItems cn kvClient [0, 1, 2, 3, 4] (
     onAnswer (KVServiceClient_Delete (cn_Delete cn) kvClient \<lparr>drq_Key = ''item:2''\<rparr>) ''Delete failed:'' (\<lambda>delResp.
     onAnswer (KVServiceClient_Get (cn_Get cn) kvClient \<lparr>grq_Key = ''item:2''\<rparr>) ''Get failed:'' (\<lambda>getResp2 s.
       (case direct_dispatch_watch cn i kvClient s of
          None \<Rightarrow> None
        | Some (s', Inl e) \<Rightarrow> Some (s', Inl e)
        | Some (s', Inr events) \<Rightarrow> Some (s', Inr (getResp, delResp, getResp2, events))))))))"

text \<open>
  The program: \<open>lib\<close> is the package connect on a state of the host, \<open>so\<close> the order of the range over the
  strategies, \<open>co\<close> that of the final \<open>Shutdown\<close>.
\<close>

definition direct_dispatch_main ::
    "((string \<Rightarrow> Served option) LaunchState \<Rightarrow> nat option ConnectLib) \<Rightarrow> (nat \<Rightarrow> bool) \<Rightarrow> (string \<Rightarrow> Served option) LaunchEnv \<Rightarrow>
     string list \<Rightarrow> string list \<Rightarrow> nat \<Rightarrow> (string \<Rightarrow> Served option) LaunchState \<Rightarrow> Store \<Rightarrow>
     (string \<Rightarrow> Served option) LaunchState \<times>
     (Store \<times> (string + GetResponse \<times> DeleteResponse \<times> GetResponse \<times> WatchEvent list)) option" where
  "direct_dispatch_main lib skip env so co i st s =
     (case GetServiceClient env so ''kv'' ''kv'' (inMemoryLauncher skip) st of
        (launcher, st', Inl e) \<Rightarrow> (st', fatal ''Failed to get service'' s)
      | (launcher, st', Inr (endpoint, httpClient)) \<Rightarrow>
          (case direct_dispatch_calls (lib st') i (NewKVServiceClient httpClient endpoint) s of
             Some (s', Inr r) \<Rightarrow> (snd (Launcher_Shutdown co (launcher, st')), Some (s', Inr r))
           | result \<Rightarrow> (st', result)))"

text \<open>\<^verbatim>\<open>examples/fx-direct/main.go\<close>: the provider of the client, and the start hook that uses it.\<close>

definition fx_direct_client ::
    "(nat \<Rightarrow> bool) \<Rightarrow> (string \<Rightarrow> Served option) LaunchEnv \<Rightarrow> string list \<Rightarrow> (string \<Rightarrow> Served option) LaunchState \<Rightarrow>
     (KVAny, string \<Rightarrow> Served option) PluginLauncher \<times> (string \<Rightarrow> Served option) LaunchState \<times>
     (LauncherError + nat option KVServiceClient)" where
  "fx_direct_client skip env so st =
     (case GetServiceClient env so ''kv'' ''kv'' (inMemoryLauncher skip) st of
        (launcher, st', Inl e) \<Rightarrow> (launcher, st', Inl e)
      | (launcher, st', Inr (endpoint, httpClient)) \<Rightarrow> (launcher, st', Inr (NewKVServiceClient httpClient endpoint)))"

definition fx_direct_start :: "'c ConnectLib \<Rightarrow> 'c KVServiceClient \<Rightarrow> (Store, GetResponse \<times> DeleteResponse) run" where
  "fx_direct_start cn kv =
     onAnswer (KVServiceClient_Put (cn_Put cn) kv \<lparr>prq_Key = ''user:1'', prq_Value = ''Alice''\<rparr>) ''err'' (\<lambda>_.
     onAnswer (KVServiceClient_Put (cn_Put cn) kv \<lparr>prq_Key = ''user:2'', prq_Value = ''Bob''\<rparr>) ''err'' (\<lambda>_.
     onAnswer (KVServiceClient_Get (cn_Get cn) kv \<lparr>grq_Key = ''user:1''\<rparr>) ''err'' (\<lambda>resp.
     onAnswer (KVServiceClient_Delete (cn_Delete cn) kv \<lparr>drq_Key = ''user:2''\<rparr>) ''err'' (\<lambda>delResp.
     finish (resp, delResp)))))"

text \<open>
  \<^verbatim>\<open>examples/kv/integ-fx/main.go\<close>: the configuration of the server and the start hook of the client, which
  is configured like that of the client program.
\<close>

definition integ_fx_server_config ::
    "(nat \<Rightarrow> bool) \<Rightarrow> (string \<Rightarrow> Served option) CapabilityHandler \<Rightarrow> (KVAny, string \<Rightarrow> Served option) ServerConfig" where
  "integ_fx_server_config skip loggerCap =
     \<lparr>cfg_Plugins = Some [''kv'' \<mapsto> kvPlugin skip], cfg_Impls = Some [''kv'' \<mapsto> StoreImpl], cfg_ProtocolVersion = 0,
      cfg_MagicCookieKey = '''', cfg_MagicCookieValue = '''', cfg_ServerMetadata = Map.empty, cfg_RuntimeTokenTTL = 0,
      sc_Addr = ''localhost:18080'', sc_GracefulShutdownTimeout = 0, sc_Cleanup = None, sc_HealthService = Some NewHealthServer,
      sc_CapabilityBroker = Some (RegisterCapability loggerCap (NewCapabilityBroker ''http://localhost:18080'')),
      sc_LifecycleService = None, sc_ServiceRegistry = None, sc_ServiceRouter = None\<rparr>"

definition integ_fx_operations :: "'c ConnectLib \<Rightarrow> 'c KVServiceClient \<Rightarrow> (Store, GetResponse) run" where
  "integ_fx_operations cn kvClient =
     onAnswer (KVServiceClient_Put (cn_Put cn) kvClient \<lparr>prq_Key = ''test/key'', prq_Value = ''test-value''\<rparr>) ''err'' (\<lambda>_.
     onAnswer (KVServiceClient_Get (cn_Get cn) kvClient \<lparr>grq_Key = ''test/key''\<rparr>) ''err'' (\<lambda>getResp.
     onAnswer (KVServiceClient_Delete (cn_Delete cn) kvClient \<lparr>drq_Key = ''test/key''\<rparr>) ''err'' (\<lambda>_.
     finish getResp)))"

definition integ_fx_start ::
    "string list \<Rightarrow> http_client ConnectLib \<Rightarrow> (KVAny, string \<Rightarrow> Served option) Client \<Rightarrow> (Store, GetResponse) run" where
  "integ_fx_start ko cn client s =
     (case Connect (handshakeOver cn) ko client of
        (client, Some e) \<Rightarrow> fatal ''err'' s
      | (client, None) \<Rightarrow>
          (case Dispense (handshakeOver cn) ko ''kv'' client of
             (client, Inl e) \<Rightarrow> fatal ''err'' s
           | (client, Inr raw) \<Rightarrow>
               (case asKVClient raw of None \<Rightarrow> None | Some kvClient \<Rightarrow> integ_fx_operations cn kvClient s)))"

end
