(* ===== verification/HostPrograms.thy ===== *)
theory HostPrograms
  imports KVPrograms PluginPrograms NetURL
begin

text \<open>
  How the parts are assembled: the identity client the host calls its plugins with, \<^verbatim>\<open>pluginidentity.go\<close>, the module for
  the container fx, \<^verbatim>\<open>connectpluginfx/module.go\<close>, the muxes of the plugin programs and of the host
  \<^verbatim>\<open>examples/docker-compose/host\<close>, the unmanaged mode of \<^verbatim>\<open>examples/kv/server\<close>, and the programs
  \<^verbatim>\<open>examples/fx-managed\<close> and \<^verbatim>\<open>examples/kv/server-with-logger\<close>. The container is not modelled: a provider or a
  hook is a function.
\<close>

section \<open>The identity client\<close>

record IdentityClient =
  ic_client :: "http_client PluginIdentityClient"

definition NewIdentityClient :: "string \<Rightarrow> http_client \<Rightarrow> IdentityClient" where
  "NewIdentityClient baseURL httpClient =
     (let httpClient = (if httpClient = None then Some () else httpClient)
      in \<lparr>ic_client = NewPluginIdentityClient httpClient baseURL\<rparr>)"

record SetRuntimeIdentityRequest =
  sri_RuntimeId :: string
  sri_RuntimeToken :: string
  sri_HostUrl :: string

definition IdentityClient_GetPluginInfo ::
    "(http_client ConnectClient \<Rightarrow> unit \<Rightarrow> ('w, GetPluginInfoResponse) rpc_call) \<Rightarrow> IdentityClient \<Rightarrow>
     ('w, GetPluginInfoResponse) rpc_call" where
  "IdentityClient_GetPluginInfo callUnary c = PluginIdentityClient_GetPluginInfo callUnary (ic_client c) ()"

definition IdentityClient_SetRuntimeIdentity ::
    "(http_client ConnectClient \<Rightarrow> SetRuntimeIdentityRequest \<Rightarrow> ('w, bool) rpc_call) \<Rightarrow> IdentityClient \<Rightarrow>
     string \<Rightarrow> string \<Rightarrow> string \<Rightarrow> 'w \<Rightarrow> ('w \<times> rpc_error option) option" where
  "IdentityClient_SetRuntimeIdentity callUnary c runtimeID runtimeToken hostURL w =
     (let req = \<lparr>sri_RuntimeId = runtimeID, sri_RuntimeToken = runtimeToken, sri_HostUrl = hostURL\<rparr>
      in case PluginIdentityClient_SetRuntimeIdentity callUnary (ic_client c) req w of
           None \<Rightarrow> None
         | Some (w', Inl err) \<Rightarrow> Some (w', Some err)
         | Some (w', Inr _) \<Rightarrow> Some (w', None))"

text \<open>The control client of \<^verbatim>\<open>lifecycle.go\<close> is of theory \<open>Platform\<close>; its two calls go through the generated client.\<close>

record ShutdownRequest =
  sdr_GracePeriodSeconds :: int
  sdr_Reason :: string

definition controlClient :: "Platform.PluginControlClient \<Rightarrow> http_client ConnectRPC.PluginControlClient" where
  "controlClient p = ConnectRPC.NewPluginControlClient (pcc_httpClient p) (pcc_endpoint p)"

definition ControlClient_GetHealth ::
    "(http_client ConnectClient \<Rightarrow> unit \<Rightarrow> ('w, HealthState \<times> string) rpc_call) \<Rightarrow> Platform.PluginControlClient \<Rightarrow>
     ('w, HealthState \<times> string) rpc_call" where
  "ControlClient_GetHealth callUnary p = PluginControlClient_GetHealth callUnary (controlClient p) ()"

definition ControlClient_Shutdown ::
    "(http_client ConnectClient \<Rightarrow> ShutdownRequest \<Rightarrow> ('w, bool) rpc_call) \<Rightarrow> Platform.PluginControlClient \<Rightarrow>
     int \<Rightarrow> string \<Rightarrow> 'w \<Rightarrow> ('w \<times> bool \<times> rpc_error option) option" where
  "ControlClient_Shutdown callUnary p gracePeriodSeconds reason w =
     (let req = \<lparr>sdr_GracePeriodSeconds = gracePeriodSeconds, sdr_Reason = reason\<rparr>
      in case PluginControlClient_Shutdown callUnary (controlClient p) req w of
           None \<Rightarrow> None
         | Some (w', Inl err) \<Rightarrow> Some (w', False, Some err)
         | Some (w', Inr acknowledged) \<Rightarrow> Some (w', acknowledged, None))"

section \<open>The module for the container\<close>

text \<open>
  The provider of the module, its two hooks, and the provider of a typed plugin. The container makes the
  values before it runs the hooks; \<open>fx_start\<close> is an application that uses one typed plugin.
\<close>

definition PluginModule :: "string list \<Rightarrow> ('a, 'h) ClientConfig \<Rightarrow> ClientConfigError + ('a, 'h) Client" where
  "PluginModule order cfg = NewClient order cfg"

definition PluginModule_OnStart ::
    "(string \<Rightarrow> HandshakeRequest \<Rightarrow> string + HandshakeResponse) \<Rightarrow> string list \<Rightarrow> ('a, 'h) Client \<Rightarrow>
     ('a, 'h) Client \<times> ClientError option" where
  "PluginModule_OnStart handshake order client = Connect handshake order client"

definition PluginModule_OnStop :: "('a, 'h) Client \<Rightarrow> ('a, 'h) Client" where
  "PluginModule_OnStop client = Client_Close client"

definition ProvideTypedPlugin ::
    "('a \<Rightarrow> 'i option) \<Rightarrow> (string \<Rightarrow> HandshakeRequest \<Rightarrow> string + HandshakeResponse) \<Rightarrow> string list \<Rightarrow> string \<Rightarrow>
     ('a, 'h) Client \<Rightarrow> ('a, 'h) Client \<times> (ClientError + 'i)" where
  "ProvideTypedPlugin cast handshake order pluginName client = DispenseTyped cast handshake order pluginName client"

section \<open>The mux of a plugin program\<close>

text \<open>
  The handlers of the control and the identity service come with their paths from the generated code; a
  handler is a function from paths, and \<open>h\<close> gives the function that the program handles an endpoint with.
\<close>

definition logger_mux ::
    "string \<times> (string \<Rightarrow> 'h option) \<Rightarrow> string \<times> (string \<Rightarrow> 'h option) \<Rightarrow> (string \<Rightarrow> 'h) \<Rightarrow> ServeError + (string \<Rightarrow> 'h option) mux" where
  "logger_mux control identity h =
     handleAll [control, identity, (''/logger.v1.Logger/Log'', \<lambda>_. Some (h ''/logger.v1.Logger/Log''))] []"

definition cache_mux ::
    "string \<times> (string \<Rightarrow> 'h option) \<Rightarrow> string \<times> (string \<Rightarrow> 'h option) \<Rightarrow> (string \<Rightarrow> 'h) \<Rightarrow> ServeError + (string \<Rightarrow> 'h option) mux" where
  "cache_mux control identity h =
     handleAll [control, identity, (''/cache.v1.Cache/Get'', \<lambda>_. Some (h ''/cache.v1.Cache/Get''))] []"

definition app_mux ::
    "string \<times> (string \<Rightarrow> 'h option) \<Rightarrow> string \<times> (string \<Rightarrow> 'h option) \<Rightarrow> (string \<Rightarrow> 'h) \<Rightarrow> ServeError + (string \<Rightarrow> 'h option) mux" where
  "app_mux control identity h =
     handleAll [control, identity, (''/app.v1.App/Process'', \<lambda>_. Some (h ''/app.v1.App/Process''))] []"

definition storage_mux ::
    "string \<times> (string \<Rightarrow> 'h option) \<Rightarrow> string \<times> (string \<Rightarrow> 'h option) \<Rightarrow> (string \<Rightarrow> 'h) \<Rightarrow> ServeError + (string \<Rightarrow> 'h option) mux" where
  "storage_mux control identity h =
     handleAll [control, identity, (''/storage.v1.Storage/Store'', \<lambda>_. Some (h ''/storage.v1.Storage/Store'')),
       (''/storage.v1.Storage/Get'', \<lambda>_. Some (h ''/storage.v1.Storage/Get''))] []"

definition api_mux ::
    "string \<times> (string \<Rightarrow> 'h option) \<Rightarrow> string \<times> (string \<Rightarrow> 'h option) \<Rightarrow> (string \<Rightarrow> 'h) \<Rightarrow> ServeError + (string \<Rightarrow> 'h option) mux" where
  "api_mux control identity h =
     handleAll [control, identity, (''/api.v1.API/Shorten'', \<lambda>_. Some (h ''/api.v1.API/Shorten'')),
       (''/api.v1.API/Resolve'', \<lambda>_. Some (h ''/api.v1.API/Resolve''))] []"

definition programMux ::
    "PluginProgram \<Rightarrow> string \<times> (string \<Rightarrow> 'h option) \<Rightarrow> string \<times> (string \<Rightarrow> 'h option) \<Rightarrow> (string \<Rightarrow> 'h) \<Rightarrow>
     ServeError + (string \<Rightarrow> 'h option) mux" where
  "programMux prog =
     (case prog of
        LoggerPlugin \<Rightarrow> logger_mux
      | CachePlugin \<Rightarrow> cache_mux
      | AppPlugin \<Rightarrow> app_mux
      | StoragePlugin \<Rightarrow> storage_mux
      | ApiPlugin \<Rightarrow> api_mux)"

definition cache_Get :: HttpResponse where
  "cache_Get = jsonResponse ''{\"value\": \"cached-data\"}''"

definition app_Process :: HttpResponse where
  "app_Process = jsonResponse ''{\"result\": \"processed\"}''"

text \<open>The control handler acknowledges a shutdown, and its process exits a moment later.\<close>

definition control_Shutdown :: "PluginProcess \<Rightarrow> PluginProcess \<times> bool" where
  "control_Shutdown proc = (proc\<lparr>pp_Running := False\<rparr>, True)"

section \<open>The host of docker-compose\<close>

definition composeMux ::
    "string \<times> (string \<Rightarrow> 'h option) \<Rightarrow> string \<times> (string \<Rightarrow> 'h option) \<Rightarrow> string \<times> (string \<Rightarrow> 'h option) \<Rightarrow> (string \<Rightarrow> 'h option) \<Rightarrow> 'h \<Rightarrow>
     ServeError + (string \<Rightarrow> 'h option) mux" where
  "composeMux handshake lifecycle registry router healthFunc =
     handleAll [handshake, lifecycle, registry, (''/services/'', router), (''/health'', \<lambda>_. Some healthFunc)] []"

text \<open>The host that \<^verbatim>\<open>examples/fx-managed\<close> starts has the same routes without the last.\<close>

definition fxHostMux ::
    "string \<times> (string \<Rightarrow> 'h option) \<Rightarrow> string \<times> (string \<Rightarrow> 'h option) \<Rightarrow> string \<times> (string \<Rightarrow> 'h option) \<Rightarrow> (string \<Rightarrow> 'h option) \<Rightarrow>
     ServeError + (string \<Rightarrow> 'h option) mux" where
  "fxHostMux handshake lifecycle registry router = handleAll [handshake, lifecycle, registry, (''/services/'', router)] []"

section \<open>The key-value server in the unmanaged mode\<close>

definition kv_unmanaged_config :: "string \<Rightarrow> ('a, 'h) ClientConfig" where
  "kv_unmanaged_config hostURL =
     programClient hostURL ''kv-server'' ''KV Server'' [version1 ''kv'' (''/'' @ KVServiceName @ ''/'')] []"

text \<open>What it does before it serves: the registration is a goroutine that runs once the server should be up.\<close>

definition kv_runUnmanaged ::
    "(('a, 'h) Client \<Rightarrow> 'w \<Rightarrow> 'w \<times> ('a, 'h) Client \<times> ClientError option) \<Rightarrow> string \<Rightarrow> 'w \<Rightarrow> 'w \<times> (Fatal + ('a, 'h) Client)" where
  "kv_runUnmanaged connect hostURL w =
     (case NewClient [] (kv_unmanaged_config hostURL) of
        Inl e \<Rightarrow> (w, Inl (CreateClientFailed e))
      | Inr client \<Rightarrow>
          (case connect client w of
             (w', c, Some e) \<Rightarrow> (w', Inl (ConnectFailed e))
           | (w', c, None) \<Rightarrow> (w', Inr c)))"

section \<open>The logger in memory and the store in a process\<close>

text \<open>
  The plugin of \<^verbatim>\<open>fx-managed/logger_plugin.go\<close>: what is not a logger is replaced by a new one. Its metadata have the
  path with its slashes.
\<close>

definition fxLoggerPlugin ::
    "('a \<Rightarrow> 'log LoggerHandler option) \<Rightarrow> 'log LoggerHandler \<Rightarrow> (http_client LoggerClient \<Rightarrow> 'a) \<Rightarrow>
     (string \<Rightarrow> 'log \<Rightarrow> 'h) \<Rightarrow> ('a, string \<Rightarrow> 'h option) Plugin" where
  "fxLoggerPlugin asLogger newLogger asAny unaryLog =
     (let path = ''/'' @ LoggerName @ ''/''
      in \<lparr>pl_Metadata = \<lparr>pm_Name = ''logger'', pm_Path = path, pm_Version = ''1.0.0'',
            pm_Provides = [\<lparr>sd_Type = ''logger'', sd_Version = ''1.0.0'', sd_Path = path\<rparr>], pm_Requires = []\<rparr>,
          pl_ConnectServer = (\<lambda>impl.
            let logger = (case asLogger impl of None \<Rightarrow> newLogger | Some logger \<Rightarrow> logger)
            in case NewLoggerHandler unaryLog logger of (path, handler) \<Rightarrow> Inr (path, handler)),
          pl_ConnectClient = (\<lambda>baseURL httpClient. Inr (asAny (NewLoggerClient httpClient baseURL)))\<rparr>)"

text \<open>The launcher; \<open>loggerPlugin\<close> and \<open>impl\<close> are the plugin above and what its factory makes.\<close>

definition fxLauncher :: "('a, 'h) Plugin \<Rightarrow> 'a \<Rightarrow> ('a, 'h) PluginLauncher" where
  "fxLauncher loggerPlugin impl =
     Configure [''logger-inmemory'' \<mapsto>
         \<lparr>ps_Name = ''logger-inmemory'', ps_Provides = [''logger''], ps_Strategy = ''in-memory'', ps_Port = 0, ps_BinaryPath = '''',
          ps_HostURL = '''', ps_Plugin = Some loggerPlugin, ps_ImplFactory = Some impl, ps_Metadata = Map.empty\<rparr>,
       ''kv-server'' \<mapsto>
         \<lparr>ps_Name = ''kv-server'', ps_Provides = [''kv''], ps_Strategy = ''process'', ps_Port = 9082, ps_BinaryPath = ''./dist/kv-server'',
          ps_HostURL = ''http://localhost:19080'', ps_Plugin = None, ps_ImplFactory = None, ps_Metadata = Map.empty\<rparr>]
       (RegisterStrategy (InMemoryStrategy True) (RegisterStrategy ProcessStrategy NewPluginLauncher))"

text \<open>
  The providers of the two delegates. \<open>http.DefaultClient\<close> dials the network: as an HTTP client of the
  launcher it is \<open>None\<close>, while one over an in-memory listener is the number of its server.
\<close>

definition fxLogger ::
    "(nat \<Rightarrow> nat) \<Rightarrow> lifecycle \<Rightarrow> (ServiceRegistry \<Rightarrow> ServiceRegistry) \<Rightarrow> 'h LaunchEnv \<Rightarrow> string list \<Rightarrow>
     ('a, 'h) PluginLauncher \<Rightarrow> 'h LaunchState \<Rightarrow>
     ('a, 'h) PluginLauncher \<times> 'h LaunchState \<times> (LauncherError + nat option LoggerClient)" where
  "fxLogger draw lc between env so launcher st =
     (case GetService draw lc between env so ''logger-inmemory'' ''logger'' launcher st of
        (l, st', Inl e) \<Rightarrow> (l, st', Inl e)
      | (l, st', Inr endpoint) \<Rightarrow> (l, st', Inr (loggerDelegate_New (NewLoggerClient None endpoint))))"

definition fxKV ::
    "(nat \<Rightarrow> nat) \<Rightarrow> lifecycle \<Rightarrow> (ServiceRegistry \<Rightarrow> ServiceRegistry) \<Rightarrow> 'h LaunchEnv \<Rightarrow> string list \<Rightarrow>
     ('a, 'h) PluginLauncher \<Rightarrow> 'h LaunchState \<Rightarrow>
     ('a, 'h) PluginLauncher \<times> 'h LaunchState \<times> (LauncherError + nat option KVServiceClient)" where
  "fxKV draw lc between env so launcher st =
     (case GetService draw lc between env so ''kv-server'' ''kv'' launcher st of
        (l, st', Inl e) \<Rightarrow> (l, st', Inl e)
      | (l, st', Inr endpoint) \<Rightarrow> (l, st', Inr (kVDelegate_NewFromURL None endpoint)))"

text \<open>The start hook; what the logger answers is not looked at. The result is the value, if it was found.\<close>

definition fx_managed_start ::
    "('c ConnectClient \<Rightarrow> LogRequest \<Rightarrow> 'w \<Rightarrow> 'w \<times> (rpc_error + unit)) \<Rightarrow>
     ('c ConnectClient \<Rightarrow> PutRequest \<Rightarrow> ('w, unit) rpc_call) \<Rightarrow> ('c ConnectClient \<Rightarrow> GetRequest \<Rightarrow> ('w, GetResponse) rpc_call) \<Rightarrow>
     'c LoggerClient \<Rightarrow> 'c KVServiceClient \<Rightarrow> 'w \<Rightarrow> ('w \<times> (rpc_error + string option)) option" where
  "fx_managed_start sendLog sendPut sendGet logger kv w =
     (let (w, _) = loggerDelegate_Log sendLog logger ''INFO'' ''Application started'' Map.empty w
      in case kVDelegate_Put sendPut kv ''user:123'' ''Alice'' w of
           None \<Rightarrow> None
         | Some (w, Some err) \<Rightarrow> Some (w, Inl err)
         | Some (w, None) \<Rightarrow>
             let (w, _) = loggerDelegate_Log sendLog logger ''INFO'' ''Stored user data'' [''key'' \<mapsto> ''user:123''] w
             in case kVDelegate_Get sendGet kv ''user:123'' w of
                  None \<Rightarrow> None
                | Some (w, value, found, Some err) \<Rightarrow> Some (w, Inl err)
                | Some (w, value, found, None) \<Rightarrow>
                    let (w, _) = loggerDelegate_Log sendLog logger ''INFO'' ''Retrieved user data'' [''value'' \<mapsto> value] w
                    in Some (w, Inr (if found then Some value else None)))"

section \<open>The server with a logger\<close>

text \<open>
  \<open>request\<close> is the RPC \<open>RequestCapability\<close> at a URL, sent before the program listens; \<open>loggerCap\<close> is the capability
  and \<open>asImpl\<close> the conversion to \<open>any\<close>. The result is the configuration it serves.
\<close>

definition server_with_logger_main ::
    "(string \<Rightarrow> string \<Rightarrow> 'w \<Rightarrow> 'w \<times> (string + CapabilityGrant)) \<Rightarrow> ('a, 'h) Plugin \<Rightarrow> 'h CapabilityHandler \<Rightarrow> (StoreWithLogger \<Rightarrow> 'a) \<Rightarrow>
     'w \<Rightarrow> 'w \<times> (string + ('a, 'h) ServerConfig)" where
  "server_with_logger_main request plugin loggerCap asImpl w =
     (let broker = RegisterCapability loggerCap (NewCapabilityBroker ''http://localhost:8080'')
      in case NewStoreWithLogger request ''http://localhost:8080/broker'' w of
           (w', Inl e) \<Rightarrow> (w', Inl (''Failed to create store with logger:'' @ e))
         | (w', Inr store) \<Rightarrow>
             (w', Inr \<lparr>cfg_Plugins = Some [''kv'' \<mapsto> plugin], cfg_Impls = Some [''kv'' \<mapsto> asImpl store], cfg_ProtocolVersion = 0,
                cfg_MagicCookieKey = '''', cfg_MagicCookieValue = '''', cfg_ServerMetadata = Map.empty, cfg_RuntimeTokenTTL = 0,
                sc_Addr = '':8080'', sc_GracefulShutdownTimeout = 0, sc_Cleanup = None, sc_HealthService = Some NewHealthServer,
                sc_CapabilityBroker = Some broker, sc_LifecycleService = None, sc_ServiceRegistry = None, sc_ServiceRouter = None\<rparr>))"

end
