(* ===== verification/KVProgramsProps.thy ===== *)
theory KVProgramsProps
  imports KVPrograms LauncherProps
begin

text \<open>
  The example programs do what they check for: the client program against the server program, from the
  handshake to the deletion, and the programs in memory.
\<close>

section \<open>Calls that reach the store\<close>

lemma onAnswer_simps [simp]:
  "call s = Some (s', Inr resp) \<Longrightarrow> onAnswer call failure next s = next resp s'"
  "call s = Some (s', Inl e) \<Longrightarrow> onAnswer call failure next s = Some (s', Inl failure)"
  "call s = None \<Longrightarrow> onAnswer call failure next s = None"
  by (simp_all add: onAnswer_def)

lemma storeHandler_sel [simp]:
  "KVServiceHandler_Get (storeHandler skip) req s =
     (case Get (grq_Key req) s of (value, found) \<Rightarrow> Some (s, Inr \<lparr>grs_Value = value, grs_Found = found\<rparr>))"
  "KVServiceHandler_Put (storeHandler skip) reqp s =
     map_option (\<lambda>(s', r). (s', case r of Inl e \<Rightarrow> Inl (storeError e) | Inr _ \<Rightarrow> Inr ())) (Put skip (prq_Key reqp) (prq_Value reqp) s)"
  "KVServiceHandler_Delete (storeHandler skip) reqd s =
     map_option (\<lambda>(s', found). (s', Inr \<lparr>drs_Found = found\<rparr>)) (Delete skip (drq_Key reqd) s)"
  "KVServiceHandler_Watch (storeHandler skip) reqw i s = Watch_register i (wrq_Prefix reqw) None s"
  by (simp_all add: storeHandler_def)

text \<open>
  A client of the store: what its calls do when the package connect delivers them. This is the interface
  the example programs rely on.
\<close>

locale kv_client =
  fixes cn :: "'c ConnectLib" and client :: "'c KVServiceClient" and skip :: "nat \<Rightarrow> bool"
  assumes get: "cn_Get cn (KVServiceClient_get client) = KVServiceHandler_Get (storeHandler skip)"
    and put: "cn_Put cn (KVServiceClient_put client) = KVServiceHandler_Put (storeHandler skip)"
    and delete: "cn_Delete cn (KVServiceClient_delete client) = KVServiceHandler_Delete (storeHandler skip)"
    and watch: "cn_Watch cn (KVServiceClient_watch client) = KVServiceHandler_Watch (storeHandler skip)"
begin

lemma client_Get:
  "KVServiceClient_Get (cn_Get cn) client \<lparr>grq_Key = key\<rparr> s =
    Some (s, Inr \<lparr>grs_Value = get_string (kv_data s) key, grs_Found = (kv_data s key \<noteq> None)\<rparr>)"
  by (simp add: KVServiceClient_Get_def get Get_def get_string_def split: option.split)

lemma client_Put:
  assumes "kv_inv s" and "key \<noteq> ''''"
  shows "KVServiceClient_Put (cn_Put cn) client \<lparr>prq_Key = key, prq_Value = value\<rparr> s =
    Some (s\<lparr>kv_data := (kv_data s)(key \<mapsto> value), kv_calls := delivered skip (putEvent key value) s\<rparr>, Inr ())"
  by (simp add: KVServiceClient_Put_def put Put_eq [OF assms])

lemma client_Delete:
  assumes "kv_inv s"
  shows "KVServiceClient_Delete (cn_Delete cn) client \<lparr>drq_Key = key\<rparr> s =
    Some (if kv_data s key = None then s\<lparr>kv_data := (kv_data s)(key := None)\<rparr>
          else s\<lparr>kv_data := (kv_data s)(key := None), kv_calls := delivered skip (deleteEvent key) s\<rparr>,
      Inr \<lparr>drs_Found = (kv_data s key \<noteq> None)\<rparr>)"
  by (simp add: KVServiceClient_Delete_def delete Delete_eq [OF assms])

lemma client_Watch:
  "KVServiceClient_Watch (cn_Watch cn) client \<lparr>wrq_Prefix = pre\<rparr> i s = Watch_register i pre None s"
  by (simp add: KVServiceClient_Watch_def watch)

text \<open>The tests of the client program pass on every store.\<close>

lemma host_tests_pass:
  assumes inv: "kv_inv s"
  shows "\<exists>s'. kv_host_tests cn client s = Some (s', Inr (''world'', True)) \<and> kv_inv s' \<and>
    kv_data s' = (kv_data s)(''hello'' := None) \<and> kv_watchers s' = kv_watchers s"
proof -
  let ?s1 = "s\<lparr>kv_data := (kv_data s)(''hello'' \<mapsto> ''world''), kv_calls := delivered skip (putEvent ''hello'' ''world'') s\<rparr>"
  have inv1: "kv_inv ?s1" by (rule kv_inv_delivered [OF inv])
  let ?s2 = "?s1\<lparr>kv_data := (kv_data ?s1)(''hello'' := None), kv_calls := delivered skip (deleteEvent ''hello'') ?s1\<rparr>"
  have inv2: "kv_inv ?s2" by (rule kv_inv_delivered [OF inv1])
  have put: "KVServiceClient_Put (cn_Put cn) client \<lparr>prq_Key = ''hello'', prq_Value = ''world''\<rparr> s = Some (?s1, Inr ())"
    by (rule client_Put [OF inv]) simp
  have del: "KVServiceClient_Delete (cn_Delete cn) client \<lparr>drq_Key = ''hello''\<rparr> ?s1 = Some (?s2, Inr \<lparr>drs_Found = True\<rparr>)"
    using client_Delete [OF inv1, of "''hello''"] by simp
  have "kv_host_tests cn client s = Some (?s2, Inr (''world'', True))"
    unfolding kv_host_tests_def
    by (simp add: put del client_Get finish_def get_string_def)
  then show ?thesis using inv2 by (intro exI [of _ ?s2]) simp
qed

end

section \<open>Watching through a client\<close>

text \<open>The call \<open>i\<close> watches a prefix, its stream has delivered \<open>es\<close>, and nothing is waiting in its channel.\<close>

definition watching :: "nat \<Rightarrow> string \<Rightarrow> WatchEvent list \<Rightarrow> Store \<Rightarrow> bool" where
  "watching i keyPrefix es s \<longleftrightarrow>
     (case kv_calls s i of
        None \<Rightarrow> False
      | Some w \<Rightarrow> wt_prefix w = keyPrefix \<and> wt_ctxErr w = None \<and> wt_phase w = Pumping \<and>
          pu_ch (wt_pump w) = [] \<and> \<not> pu_chClosed (wt_pump w) \<and> pu_sent (wt_pump w) = es)"

lemma watching_streamed: "watching i keyPrefix es s \<Longrightarrow> streamed i s = es"
  by (auto simp: watching_def streamed_def split: option.splits)

lemma drain_call:
  assumes "kv_calls s i = Some w" and "wt_phase w = Pumping" and "\<not> pu_chClosed (wt_pump w)" and "length (pu_ch (wt_pump w)) \<le> n"
  shows "drain n i s = s\<lparr>kv_calls := (kv_calls s)(i \<mapsto> w\<lparr>wt_pump := (wt_pump w)\<lparr>pu_ch := [], pu_sent := pu_sent (wt_pump w) @ pu_ch (wt_pump w)\<rparr>\<rparr>)\<rparr>"
  using assms
proof (induction n arbitrary: s w)
  case 0
  then show ?case by (simp add: fun_upd_idem)
next
  case (Suc n)
  show ?case
  proof (cases "pu_ch (wt_pump w)")
    case Nil
    then have "Watch_pump (\<lambda>_. None) ChooseMsg i s = None"
      using Suc.prems by (simp add: Watch_pump_def pumpRound_def)
    then show ?thesis using Suc.prems Nil by (simp add: fun_upd_idem)
  next
    case (Cons e es)
    let ?w = "w\<lparr>wt_pump := (wt_pump w)\<lparr>pu_ch := es, pu_sent := pu_sent (wt_pump w) @ [e]\<rparr>\<rparr>"
    have "Watch_pump (\<lambda>_. None) ChooseMsg i s = Some (s\<lparr>kv_calls := (kv_calls s)(i \<mapsto> ?w)\<rparr>)"
      using Suc.prems Cons by (simp add: Watch_pump_def pumpRound_def Let_def)
    moreover have "drain n i (s\<lparr>kv_calls := (kv_calls s)(i \<mapsto> ?w)\<rparr>) =
        s\<lparr>kv_calls := (kv_calls s)(i \<mapsto> w\<lparr>wt_pump := (wt_pump w)\<lparr>pu_ch := [], pu_sent := pu_sent (wt_pump w) @ e # es\<rparr>\<rparr>)\<rparr>"
      using Suc.IH [of "s\<lparr>kv_calls := (kv_calls s)(i \<mapsto> ?w)\<rparr>" ?w] Suc.prems Cons by (simp add: fun_upd_def cong: if_cong)
    ultimately show ?thesis by (simp add: Cons fun_upd_def)
  qed
qed

lemma drain_keeps:
  "kv_inv s \<Longrightarrow> kv_inv (drain n i s) \<and> kv_data (drain n i s) = kv_data s \<and> kv_watchers (drain n i s) = kv_watchers s"
proof (induction n arbitrary: s)
  case (Suc n)
  show ?case
  proof (cases "Watch_pump (\<lambda>_. None) ChooseMsg i s")
    case None
    then show ?thesis using Suc.prems by simp
  next
    case (Some s')
    have "kv_inv s'" by (rule kv_inv_quiet(2) [OF Suc.prems Some])
    moreover have "kv_data s' = kv_data s" "kv_watchers s' = kv_watchers s"
      using Some by (auto simp: Watch_pump_def split: option.splits if_splits pump_round.splits)
    ultimately show ?thesis using Suc.IH [of s'] Some by simp
  qed
qed simp

text \<open>A write delivers its event to the stream, if its key has the prefix.\<close>

lemma watching_delivered:
  assumes inv: "kv_inv s" and "watching i keyPrefix es s"
  shows "watching i keyPrefix (es @ (if matches keyPrefix event then [event] else []))
    (drain eventsCap i (s\<lparr>kv_data := d, kv_calls := delivered skip event s\<rparr>))"
proof -
  obtain w where w: "kv_calls s i = Some w" "wt_prefix w = keyPrefix" "wt_ctxErr w = None" "wt_phase w = Pumping"
    "pu_ch (wt_pump w) = []" "\<not> pu_chClosed (wt_pump w)" "pu_sent (wt_pump w) = es"
    using assms(2) by (auto simp: watching_def split: option.splits)
  have "i \<in> set (kv_watchers s)" using kv_invD(2) [OF inv, of i] w(1,4) by simp
  then have call: "kv_calls (s\<lparr>kv_data := d, kv_calls := delivered skip event s\<rparr>) i = Some (deliver (skip i) event w)"
    by (simp add: delivered_def w(1))
  have len: "length (pu_ch (wt_pump (deliver (skip i) event w))) \<le> eventsCap" by (simp add: w(5))
  have ch: "pu_ch (wt_pump (deliver (skip i) event w)) = (if matches keyPrefix event then [event] else [])"
    by (simp add: deliver_def w(2,3,5) try_send_def eventsCap_def)
  show ?thesis
    using drain_call [OF call _ _ len] w by (simp add: watching_def ch)
qed

context kv_client begin

lemma watch_opens:
  assumes inv: "kv_inv s" and new: "kv_calls s i = None"
  shows "\<exists>s1. openWatch cn client i keyPrefix s = Some s1 \<and> kv_inv s1 \<and> watching i keyPrefix [startedEvent] s1 \<and> kv_data s1 = kv_data s"
proof -
  let ?s0 = "Watch_register i keyPrefix None s"
  have inv0: "kv_inv ?s0" by (rule kv_inv_register [OF inv new])
  have call: "kv_calls ?s0 i = Some \<lparr>wt_prefix = keyPrefix, wt_ctxErr = None, wt_pump = newPump, wt_phase = Starting\<rparr>"
    by (simp add: Watch_register_def)
  obtain s1 where s1: "Watch_initial i ?s0 = Some s1"
    and call1: "kv_calls s1 i = Some \<lparr>wt_prefix = keyPrefix, wt_ctxErr = None, wt_pump = newPump\<lparr>pu_ch := [startedEvent]\<rparr>, wt_phase = Pumping\<rparr>"
    and data: "kv_data s1 = kv_data s"
    using call by (simp add: Watch_initial_def newPump_def eventsCap_def) (simp add: Watch_register_def)
  have inv1: "kv_inv s1" by (rule kv_inv_quiet(1) [OF inv0 s1])
  have "watching i keyPrefix [startedEvent] (drain eventsCap i s1)"
    using drain_call [OF call1, of eventsCap] by (simp add: watching_def newPump_def eventsCap_def)
  then show ?thesis
    using drain_keeps [OF inv1, of eventsCap i] s1 data by (simp add: openWatch_def client_Watch)
qed

lemma put_streams:
  assumes inv: "kv_inv s" and "watching i keyPrefix es s" and "key \<noteq> ''''"
  obtains s' where "KVServiceClient_Put (cn_Put cn) client \<lparr>prq_Key = key, prq_Value = value\<rparr> s = Some (s', Inr ())"
    "kv_inv (drain eventsCap i s')" "kv_data (drain eventsCap i s') = (kv_data s)(key \<mapsto> value)"
    "watching i keyPrefix (es @ (if matches keyPrefix (putEvent key value) then [putEvent key value] else [])) (drain eventsCap i s')"
proof (rule that)
  let ?s = "s\<lparr>kv_data := (kv_data s)(key \<mapsto> value), kv_calls := delivered skip (putEvent key value) s\<rparr>"
  show "KVServiceClient_Put (cn_Put cn) client \<lparr>prq_Key = key, prq_Value = value\<rparr> s = Some (?s, Inr ())"
    by (rule client_Put [OF inv assms(3)])
  show "kv_inv (drain eventsCap i ?s)" "kv_data (drain eventsCap i ?s) = (kv_data s)(key \<mapsto> value)"
    using drain_keeps [OF kv_inv_delivered [OF inv, where d = "(kv_data s)(key \<mapsto> value)" and skip = skip and event = "putEvent key value"], of eventsCap i] by simp_all
  show "watching i keyPrefix (es @ (if matches keyPrefix (putEvent key value) then [putEvent key value] else [])) (drain eventsCap i ?s)"
    by (rule watching_delivered [OF inv assms(2)])
qed

lemma delete_streams:
  assumes inv: "kv_inv s" and "watching i keyPrefix es s" and "kv_data s key \<noteq> None"
  obtains s' where "KVServiceClient_Delete (cn_Delete cn) client \<lparr>drq_Key = key\<rparr> s = Some (s', Inr \<lparr>drs_Found = True\<rparr>)"
    "kv_inv (drain eventsCap i s')" "kv_data (drain eventsCap i s') = (kv_data s)(key := None)"
    "watching i keyPrefix (es @ (if matches keyPrefix (deleteEvent key) then [deleteEvent key] else [])) (drain eventsCap i s')"
proof (rule that)
  let ?s = "s\<lparr>kv_data := (kv_data s)(key := None), kv_calls := delivered skip (deleteEvent key) s\<rparr>"
  show "KVServiceClient_Delete (cn_Delete cn) client \<lparr>drq_Key = key\<rparr> s = Some (?s, Inr \<lparr>drs_Found = True\<rparr>)"
    using client_Delete [OF inv, of key] assms(3) by simp
  show "kv_inv (drain eventsCap i ?s)" "kv_data (drain eventsCap i ?s) = (kv_data s)(key := None)"
    using drain_keeps [OF kv_inv_delivered [OF inv, where d = "(kv_data s)(key := None)" and skip = skip and event = "deleteEvent key"], of eventsCap i] by simp_all
  show "watching i keyPrefix (es @ (if matches keyPrefix (deleteEvent key) then [deleteEvent key] else [])) (drain eventsCap i ?s)"
    by (rule watching_delivered [OF inv assms(2)])
qed

text \<open>The watching client receives its three events, whatever the store holds and whoever else watches it.\<close>

lemma watch_tests_pass:
  assumes inv: "kv_inv s" and new: "kv_calls s i = None"
  shows "\<exists>s'. kv_watch_tests cn i client s = Some (s', Inr 3)"
proof -
  obtain s1 where s1: "openWatch cn client i ''test'' s = Some s1" "kv_inv s1" "watching i ''test'' [startedEvent] s1"
    using watch_opens [OF inv new] by blast
  have ev: "matches ''test'' (putEvent ''test/a'' ''value-a'')" "matches ''test'' (putEvent ''test/b'' ''value-b'')"
    "\<not> matches ''test'' (putEvent ''other/c'' ''value-c'')" "matches ''test'' (deleteEvent ''test/a'')"
    by (simp_all add: matches_def putEvent_def deleteEvent_def)
  obtain s2 where s2: "KVServiceClient_Put (cn_Put cn) client \<lparr>prq_Key = ''test/a'', prq_Value = ''value-a''\<rparr> s1 = Some (s2, Inr ())"
    "kv_inv (drain eventsCap i s2)" "kv_data (drain eventsCap i s2) = (kv_data s1)(''test/a'' \<mapsto> ''value-a'')"
    "watching i ''test'' ([startedEvent] @ [putEvent ''test/a'' ''value-a'']) (drain eventsCap i s2)"
    using put_streams [OF s1(2,3), of "''test/a''" "''value-a''"] ev by auto
  obtain s3 where s3: "KVServiceClient_Put (cn_Put cn) client \<lparr>prq_Key = ''test/b'', prq_Value = ''value-b''\<rparr> (drain eventsCap i s2) = Some (s3, Inr ())"
    "kv_inv (drain eventsCap i s3)" "kv_data (drain eventsCap i s3) = (kv_data (drain eventsCap i s2))(''test/b'' \<mapsto> ''value-b'')"
    "watching i ''test'' ([startedEvent, putEvent ''test/a'' ''value-a''] @ [putEvent ''test/b'' ''value-b'']) (drain eventsCap i s3)"
    using put_streams [OF s2(2,4), of "''test/b''" "''value-b''"] ev by auto
  obtain s4 where s4: "KVServiceClient_Put (cn_Put cn) client \<lparr>prq_Key = ''other/c'', prq_Value = ''value-c''\<rparr> (drain eventsCap i s3) = Some (s4, Inr ())"
    "kv_inv (drain eventsCap i s4)" "kv_data (drain eventsCap i s4) = (kv_data (drain eventsCap i s3))(''other/c'' \<mapsto> ''value-c'')"
    "watching i ''test'' [startedEvent, putEvent ''test/a'' ''value-a'', putEvent ''test/b'' ''value-b''] (drain eventsCap i s4)"
    using put_streams [OF s3(2,4), of "''other/c''" "''value-c''"] ev by auto
  have "kv_data (drain eventsCap i s4) ''test/a'' \<noteq> None" by (simp add: s4(3) s3(3) s2(3))
  from delete_streams [OF s4(2,4) this] obtain s5 where
    s5: "KVServiceClient_Delete (cn_Delete cn) client \<lparr>drq_Key = ''test/a''\<rparr> (drain eventsCap i s4) = Some (s5, Inr \<lparr>drs_Found = True\<rparr>)"
    "watching i ''test'' [startedEvent, putEvent ''test/a'' ''value-a'', putEvent ''test/b'' ''value-b'', deleteEvent ''test/a''] (drain eventsCap i s5)"
    using ev(4) by auto
  show ?thesis
    using watching_streamed [OF s5(2)]
    by (simp add: kv_watch_tests_def s1(1) s2(1) s3(1) s4(1) s5(1) Let_def finish_def startedEvent_def putEvent_def deleteEvent_def)
qed

end

section \<open>Direct dispatch\<close>

lemma delivered_fresh: "kv_calls s i = None \<Longrightarrow> delivered skip event s i = None"
  by (simp add: delivered_def)

lemma itemKey_nonempty: "itemKey i \<noteq> ''''"
  by (simp add: itemKey_def)

lemma itemKey_2: "itemKey 2 = ''item:2''"
  by code_simp

context kv_client begin

lemma items_put:
  assumes "kv_inv s" and "kv_calls s i = None"
  shows "\<exists>s'. putItems cn client is rest s = rest s' \<and> kv_inv s' \<and> kv_calls s' i = None \<and>
    (\<forall>j\<in>set is. kv_data s' (itemKey j) \<noteq> None) \<and> (\<forall>key. kv_data s key \<noteq> None \<longrightarrow> kv_data s' key \<noteq> None)"
  using assms
proof (induction "is" arbitrary: s)
  case (Cons j js)
  let ?s = "s\<lparr>kv_data := (kv_data s)(itemKey j \<mapsto> itemValue j), kv_calls := delivered skip (putEvent (itemKey j) (itemValue j)) s\<rparr>"
  have put: "KVServiceClient_Put (cn_Put cn) client \<lparr>prq_Key = itemKey j, prq_Value = itemValue j\<rparr> s = Some (?s, Inr ())"
    by (rule client_Put [OF Cons.prems(1) itemKey_nonempty])
  have "kv_inv ?s" by (rule kv_inv_delivered [OF Cons.prems(1)])
  moreover have "kv_calls ?s i = None" using delivered_fresh [OF Cons.prems(2)] by simp
  ultimately obtain s' where s': "putItems cn client js rest ?s = rest s'" "kv_inv s'" "kv_calls s' i = None"
      "\<forall>j\<in>set js. kv_data s' (itemKey j) \<noteq> None" "\<forall>key. kv_data ?s key \<noteq> None \<longrightarrow> kv_data s' key \<noteq> None"
    using Cons.IH [of ?s] by blast
  have "putItems cn client (j # js) rest s = rest s'" using s'(1) put by simp
  moreover have "kv_data s' (itemKey j) \<noteq> None" using s'(5) by simp
  moreover have "\<forall>key. kv_data s key \<noteq> None \<longrightarrow> kv_data s' key \<noteq> None" using s'(5) by simp
  ultimately show ?case using s'(2-4) by auto
qed auto

lemma direct_watch_passes:
  assumes inv: "kv_inv s" and new: "kv_calls s i = None"
  shows "\<exists>s'. direct_dispatch_watch cn i client s = Some (s', Inr [putEvent ''live:status'' ''streaming works!''])"
proof -
  obtain s1 where s1: "openWatch cn client i ''live:'' s = Some s1" "kv_inv s1" "watching i ''live:'' [startedEvent] s1"
    using watch_opens [OF inv new] by blast
  have ev: "matches ''live:'' (putEvent ''live:status'' ''streaming works!'')" by (simp add: matches_def putEvent_def)
  obtain s2 where s2: "KVServiceClient_Put (cn_Put cn) client \<lparr>prq_Key = ''live:status'', prq_Value = ''streaming works!''\<rparr> s1 = Some (s2, Inr ())"
    "watching i ''live:'' ([startedEvent] @ [putEvent ''live:status'' ''streaming works!'']) (drain eventsCap i s2)"
    using put_streams [OF s1(2,3), of "''live:status''" "''streaming works!''"] ev by auto
  show ?thesis
    using watching_streamed [OF s1(3)] watching_streamed [OF s2(2)]
    by (simp add: direct_dispatch_watch_def s1(1) s2(1) Let_def finish_def)
qed

lemma direct_dispatch_passes:
  assumes inv: "kv_inv s" and new: "kv_calls s i = None"
  shows "\<exists>s'. direct_dispatch_calls cn i client s =
    Some (s', Inr (\<lparr>grs_Value = ''hello from direct dispatch'', grs_Found = True\<rparr>, \<lparr>drs_Found = True\<rparr>,
      \<lparr>grs_Value = '''', grs_Found = False\<rparr>, [putEvent ''live:status'' ''streaming works!'']))"
proof -
  let ?s1 = "s\<lparr>kv_data := (kv_data s)(''greeting'' \<mapsto> ''hello from direct dispatch''),
      kv_calls := delivered skip (putEvent ''greeting'' ''hello from direct dispatch'') s\<rparr>"
  have inv1: "kv_inv ?s1" by (rule kv_inv_delivered [OF inv])
  have new1: "kv_calls ?s1 i = None" using delivered_fresh [OF new] by simp
  have put: "KVServiceClient_Put (cn_Put cn) client \<lparr>prq_Key = ''greeting'', prq_Value = ''hello from direct dispatch''\<rparr> s = Some (?s1, Inr ())"
    by (rule client_Put [OF inv]) simp
  have get: "KVServiceClient_Get (cn_Get cn) client \<lparr>grq_Key = ''greeting''\<rparr> ?s1 =
      Some (?s1, Inr \<lparr>grs_Value = ''hello from direct dispatch'', grs_Found = True\<rparr>)"
    by (simp add: client_Get get_string_def)
  define rest where "rest = onAnswer (KVServiceClient_Delete (cn_Delete cn) client \<lparr>drq_Key = ''item:2''\<rparr>) ''Delete failed:'' (\<lambda>delResp.
     onAnswer (KVServiceClient_Get (cn_Get cn) client \<lparr>grq_Key = ''item:2''\<rparr>) ''Get failed:'' (\<lambda>getResp2 s.
       (case direct_dispatch_watch cn i client s of
          None \<Rightarrow> None
        | Some (s', Inl e) \<Rightarrow> Some (s', Inl e)
        | Some (s', Inr events) \<Rightarrow> Some (s', Inr (\<lparr>grs_Value = ''hello from direct dispatch'', grs_Found = True\<rparr>, delResp, getResp2, events)))))"
  obtain s2 where items: "putItems cn client [0, 1, 2, 3, 4] rest ?s1 = rest s2" and inv2: "kv_inv s2" and new2: "kv_calls s2 i = None"
    and found: "kv_data s2 (itemKey 2) \<noteq> None"
    using items_put [OF inv1 new1, of "[0, 1, 2, 3, 4]" rest] by auto
  have found: "kv_data s2 ''item:2'' \<noteq> None" using found unfolding itemKey_2 .
  let ?s3 = "s2\<lparr>kv_data := (kv_data s2)(''item:2'' := None), kv_calls := delivered skip (deleteEvent ''item:2'') s2\<rparr>"
  have inv3: "kv_inv ?s3" by (rule kv_inv_delivered [OF inv2])
  have new3: "kv_calls ?s3 i = None" using delivered_fresh [OF new2] by simp
  have del: "KVServiceClient_Delete (cn_Delete cn) client \<lparr>drq_Key = ''item:2''\<rparr> s2 = Some (?s3, Inr \<lparr>drs_Found = True\<rparr>)"
    using client_Delete [OF inv2, of "''item:2''"] found by simp
  have gone: "KVServiceClient_Get (cn_Get cn) client \<lparr>grq_Key = ''item:2''\<rparr> ?s3 = Some (?s3, Inr \<lparr>grs_Value = '''', grs_Found = False\<rparr>)"
    by (simp add: client_Get get_string_def)
  obtain s4 where watch: "direct_dispatch_watch cn i client ?s3 = Some (s4, Inr [putEvent ''live:status'' ''streaming works!''])"
    using direct_watch_passes [OF inv3 new3] by blast
  have "direct_dispatch_calls cn i client s = putItems cn client [0, 1, 2, 3, 4] rest ?s1"
    unfolding direct_dispatch_calls_def rest_def by (simp add: put get del: putItems.simps)
  also have "\<dots> = Some (s4, Inr (\<lparr>grs_Value = ''hello from direct dispatch'', grs_Found = True\<rparr>, \<lparr>drs_Found = True\<rparr>,
      \<lparr>grs_Value = '''', grs_Found = False\<rparr>, [putEvent ''live:status'' ''streaming works!'']))"
    unfolding items unfolding rest_def by (simp add: del gone watch)
  finally show ?thesis by blast
qed

end

section \<open>The server program\<close>

definition kv_mux :: "(nat \<Rightarrow> bool) \<Rightarrow> (string \<Rightarrow> Served option) Route mux" where
  "kv_mux skip =
     [(''/connectplugin.v1.HandshakeService/'', HandshakeHandler), (''/connectplugin.health.v1.HealthService/'', HealthHandler),
      (''/healthz'', HTTPHealth), (''/readyz'', HTTPHealth),
      (''/kv.v1.KVService/'', PluginHandler ''kv'' (snd (NewKVServiceHandler (\<lambda>_. GetMethod) (\<lambda>_. PutMethod) (\<lambda>_. DeleteMethod)
         (\<lambda>_. WatchMethod) (storeHandler skip))))]"

lemma kvPlugin_connects:
  "pl_ConnectServer (kvPlugin skip) StoreImpl =
     Inr (''/kv.v1.KVService/'', snd (NewKVServiceHandler (\<lambda>_. GetMethod) (\<lambda>_. PutMethod) (\<lambda>_. DeleteMethod) (\<lambda>_. WatchMethod)
       (storeHandler skip)))"
  by (simp add: kvPlugin_def KVServicePlugin_def KVServicePlugin_ConnectServer_def asKVHandler_def NewKVServiceHandler_def Let_def)

lemma kvPlugin_name: "pm_Name (pl_Metadata (kvPlugin skip)) = ''kv''"
  by (simp add: kvPlugin_def KVServicePlugin_def KVServicePlugin_Metadata_def)

lemma single_order: "iter_order [n \<mapsto> p] order \<longleftrightarrow> order = [n]"
proof
  assume "iter_order [n \<mapsto> p] order"
  then have "set order = {n}" "distinct order" by (auto simp: iter_order_def)
  then show "order = [n]" by (cases order; cases "tl order") auto
qed (simp add: iter_order_def)

lemma kv_server_up:
  "\<exists>health. serveSetup [''kv''] [''kv''] [''kv''] [''kv''] (kv_server_config skip port) =
     (Some health, Inr (kv_mux skip, NewHandshakeServer)) \<and>
     Check health '''' = Inr SERVING_STATUS_SERVING \<and> Check health ''kv'' = Inr SERVING_STATUS_SERVING"
proof -
  let ?cfg = "kv_server_config skip port"
  have valid: "ServeConfig_Validate [''kv''] [''kv''] [''kv''] (withServeDefaults ?cfg) = None"
    by (simp add: ServeConfig_Validate_def withServeDefaults_def kv_server_config_def PluginSet_Validate_def kvPlugin_name)
  have host: "hostRoutes ?cfg = [(''/connectplugin.v1.HandshakeService/'', HandshakeHandler),
      (''/connectplugin.health.v1.HealthService/'', HealthHandler), (''/healthz'', HTTPHealth), (''/readyz'', HTTPHealth)]"
    by (simp add: hostRoutes_def kv_server_config_def)
  let ?h = "SetServingStatus ''kv'' SERVING_STATUS_SERVING (SetServingStatus '''' SERVING_STATUS_SERVING NewHealthServer)"
  have parts: "cfg_Plugins (withServeDefaults ?cfg) = Some [''kv'' \<mapsto> kvPlugin skip]"
    "cfg_Impls (withServeDefaults ?cfg) = Some [''kv'' \<mapsto> StoreImpl]" "sc_HealthService ?cfg = Some NewHealthServer"
    by (simp_all add: withServeDefaults_def kv_server_config_def)
  have "mux_handle ''/kv.v1.KVService/'' (PluginHandler ''kv'' h) (hostRoutes ?cfg) =
      Some (hostRoutes ?cfg @ [(''/kv.v1.KVService/'', PluginHandler ''kv'' h)])" for h
    by (simp add: mux_handle_Some host)
  then have "registerPlugins [''kv'' \<mapsto> kvPlugin skip] [''kv'' \<mapsto> StoreImpl] [''kv''] (hostRoutes ?cfg)
      (Some (SetServingStatus '''' SERVING_STATUS_SERVING NewHealthServer)) = (Some ?h, Inr (kv_mux skip))"
    by (simp add: kvPlugin_connects) (simp add: host kv_mux_def)
  then have "serveSetup [''kv''] [''kv''] [''kv''] [''kv''] ?cfg = (Some ?h, Inr (kv_mux skip, NewHandshakeServer))"
    by (simp add: serveSetup_def valid handleAll_hostRoutes withServeDefaults_same parts Let_def)
  moreover have "Check ?h '''' = Inr SERVING_STATUS_SERVING" "Check ?h ''kv'' = Inr SERVING_STATUS_SERVING"
    by (simp_all add: Check_def SetServingStatus_def setStatusLocked_def NewHealthServer_def)
  ultimately show ?thesis by blast
qed

lemma kv_mux_matches:
  "muxMatch (kv_mux skip) ''/connectplugin.v1.HandshakeService/Handshake'' = Some HandshakeHandler"
  "\<forall>m\<in>{''Check'', ''Watch''}. muxMatch (kv_mux skip) (''/connectplugin.health.v1.HealthService/'' @ m) = Some HealthHandler"
  "muxMatch (kv_mux skip) (''/kv.v1.KVService/'' @ m) = Some (PluginHandler ''kv'' (snd (NewKVServiceHandler (\<lambda>_. GetMethod)
     (\<lambda>_. PutMethod) (\<lambda>_. DeleteMethod) (\<lambda>_. WatchMethod) (storeHandler skip))))"
  by (simp_all add: kv_mux_def muxMatch_def patternMatches_def)

text \<open>Where the clients of the client program get to on the server program.\<close>

lemma kv_server_reached:
  fixes skip :: "nat \<Rightarrow> bool" and port :: string and now :: time and tokens :: HandshakeServer and health :: HealthServer
  assumes "hostURL_ok hostOk url"
  defines "goes \<equiv> reached hostOk (authorityOf url) (kv_server_serves skip port now tokens health (kv_mux skip))"
  shows "goes (cc_URL (HandshakeServiceClient_handshake (NewHandshakeServiceClient c url))) =
      Some (HandshakeMethod (serve_handshake (\<lambda>req. Handshake (withServeDefaults (kv_server_config skip port)) None [] None None now req tokens) ''''))"
    and "goes (cc_URL (HealthServiceClient_check (NewHealthServiceClient c url))) = Some (CheckMethod (checkAnswer health))"
    and "goes (cc_URL (KVServiceClient_get (NewKVServiceClient c url))) = Some (GetMethod (KVServiceHandler_Get (storeHandler skip)))"
    and "goes (cc_URL (KVServiceClient_put (NewKVServiceClient c url))) = Some (PutMethod (KVServiceHandler_Put (storeHandler skip)))"
    and "goes (cc_URL (KVServiceClient_delete (NewKVServiceClient c url))) = Some (DeleteMethod (KVServiceHandler_Delete (storeHandler skip)))"
    and "goes (cc_URL (KVServiceClient_watch (NewKVServiceClient c url))) = Some (WatchMethod (KVServiceHandler_Watch (storeHandler skip)))"
proof -
  let ?hs = "\<lparr>HandshakeServiceHandler_Handshake = serve_handshake
             (\<lambda>req. Handshake (withServeDefaults (kv_server_config skip port)) None [] None None now req tokens) ''''\<rparr>"
  let ?hl = "\<lparr>HealthServiceHandler_Check = checkAnswer health, HealthServiceHandler_Watch = ()\<rparr>"
  let ?handler = "routeHandler (snd (NewHandshakeServiceHandler (\<lambda>_. HandshakeMethod) ?hs))
      (snd (NewHealthServiceHandler (\<lambda>_. CheckMethod) (\<lambda>_ _. HealthWatchMethod) ?hl)) (\<lambda>_. None) (\<lambda>_. None) (\<lambda>_. None)
      (\<lambda>h :: string \<Rightarrow> Served option. h)"
  have route: "?handler HandshakeHandler = snd (NewHandshakeServiceHandler (\<lambda>_. HandshakeMethod) ?hs)"
    "?handler HealthHandler = snd (NewHealthServiceHandler (\<lambda>_. CheckMethod) (\<lambda>_ _. HealthWatchMethod) ?hl)"
    by (simp_all add: routeHandler_def)
  show "goes (cc_URL (HandshakeServiceClient_handshake (NewHandshakeServiceClient c url))) =
      Some (HandshakeMethod (serve_handshake (\<lambda>req. Handshake (withServeDefaults (kv_server_config skip port)) None [] None None now req tokens) ''''))"
    using handshake_reached [where c = c and n = 0 and handler = ?handler, OF assms(1) kv_mux_matches(1) route(1)]
    by (simp add: goes_def kv_server_serves_def)
  show "goes (cc_URL (HealthServiceClient_check (NewHealthServiceClient c url))) = Some (CheckMethod (checkAnswer health))"
    using health_reached(1) [where c = c and n = 0 and handler = ?handler, OF assms(1) kv_mux_matches(2) route(2)]
    by (simp add: goes_def kv_server_serves_def)
  let ?client = "NewKVServiceClient c (url @ replicate 0 CHR ''/'')"
  have kv: "goes u = Some h" if "(u, h) \<in> set (kvCalls (\<lambda>_. GetMethod) (\<lambda>_. PutMethod) (\<lambda>_. DeleteMethod) (\<lambda>_. WatchMethod)
      (storeHandler skip) ?client)" for u h
    unfolding goes_def kv_server_serves_def
  proof (rule kv_reached [OF that assms(1)])
    let ?kv = "snd (NewKVServiceHandler (\<lambda>_. GetMethod) (\<lambda>_. PutMethod) (\<lambda>_. DeleteMethod) (\<lambda>_. WatchMethod) (storeHandler skip))"
    show "\<forall>m. CHR ''/'' \<notin> set m \<longrightarrow> muxMatch (kv_mux skip) (''/kv.v1.KVService/'' @ m) = Some (PluginHandler ''kv'' ?kv)"
      using kv_mux_matches(3) by blast
    show "?handler (PluginHandler ''kv'' ?kv) = ?kv" by (simp add: routeHandler_def)
  qed
  show "goes (cc_URL (KVServiceClient_get (NewKVServiceClient c url))) = Some (GetMethod (KVServiceHandler_Get (storeHandler skip)))"
    "goes (cc_URL (KVServiceClient_put (NewKVServiceClient c url))) = Some (PutMethod (KVServiceHandler_Put (storeHandler skip)))"
    "goes (cc_URL (KVServiceClient_delete (NewKVServiceClient c url))) = Some (DeleteMethod (KVServiceHandler_Delete (storeHandler skip)))"
    "goes (cc_URL (KVServiceClient_watch (NewKVServiceClient c url))) = Some (WatchMethod (KVServiceHandler_Watch (storeHandler skip)))"
    by (rule kv; simp add: kvCalls_def)+
qed

text \<open>The handshake of a client without a self id.\<close>

lemma kv_handshake:
  "\<exists>tokens' resp. Handshake (withServeDefaults (kv_server_config skip port)) None [] None None now
     (handshakeRequest [''kv''] (kv_host_config skip endpoint)) tokens = (tokens', Inr resp) \<and>
   hp_CoreProtocolVersion resp = 1 \<and> hp_AppProtocolVersion resp = 1 \<and> map pi_Name (hp_Plugins resp) = [''kv''] \<and>
   hp_RuntimeId resp = ''''"
proof -
  have req: "handshakeRequest [''kv''] (kv_host_config skip endpoint) =
     \<lparr>hr_CoreProtocolVersion = 1, hr_AppProtocolVersion = 1, hr_MagicCookieKey = DefaultMagicCookieKey,
      hr_MagicCookieValue = DefaultMagicCookieValue, hr_RequestedPlugins = [''kv''],
      hr_ClientMetadata = [''client_version'' \<mapsto> ''0.1.0''], hr_SelfId = '''', hr_SelfVersion = ''''\<rparr>"
    by (simp add: handshakeRequest_def kv_host_config_def clientVersion_def pluginKeys_def PluginSet_Keys_def int32_def)
  have cfg: "expectedCookie (withServeDefaults (kv_server_config skip port)) = (DefaultMagicCookieKey, DefaultMagicCookieValue)"
    "int32 (serverVersion (withServeDefaults (kv_server_config skip port))) = 1"
    "cfg_Plugins (withServeDefaults (kv_server_config skip port)) = Some [''kv'' \<mapsto> kvPlugin skip]"
    by (simp_all add: expectedCookie_def serverVersion_def withServeDefaults_def kv_server_config_def int32_def)
  show ?thesis
    unfolding req Handshake_def
    by (simp add: cfg assignIdentity_def buildPlugins_def List.map_filter_simps PluginSet_Get_def pluginInfo_def kvPlugin_name)
qed

lemma kv_new_client:
  assumes "endpoint \<noteq> ''''"
  shows "\<exists>client. NewClient [''kv''] (kv_host_config skip endpoint) = Inr client \<and> c_cfg client = kv_host_config skip endpoint \<and>
    \<not> c_closed client \<and> \<not> c_connected client"
  using assms by (simp add: NewClient_def ClientConfig_Validate_def kv_host_config_def PluginSet_Validate_def kvPlugin_name)

lemma kv_connects:
  assumes hs: "handshake endpoint = serve_handshake
      (\<lambda>req. Handshake (withServeDefaults (kv_server_config skip port)) None [] None None now req tokens) ''''"
    and client: "c_cfg client = kv_host_config skip endpoint" "\<not> c_closed client" "\<not> c_connected client"
  shows "\<exists>client'. Connect handshake [''kv''] client = (client', None) \<and>
    Dispense handshake [''kv''] ''kv'' client' = (client', Inr (KVClientValue (NewKVServiceClient (Some ()) endpoint)))"
proof -
  let ?c = "client\<lparr>c_httpClient := Some ()\<rparr>"
  obtain tokens' resp where h: "Handshake (withServeDefaults (kv_server_config skip port)) None [] None None now
     (handshakeRequest [''kv''] (kv_host_config skip endpoint)) tokens = (tokens', Inr resp)"
    and resp: "hp_CoreProtocolVersion resp = 1" "hp_AppProtocolVersion resp = 1" "map pi_Name (hp_Plugins resp) = [''kv'']"
      "hp_RuntimeId resp = ''''"
    using kv_handshake [of skip port now endpoint tokens] by (elim exE conjE) (rule that)
  have cfg: "cl_Endpoint (kv_host_config skip endpoint) = endpoint" "cl_Discovery (kv_host_config skip endpoint) = None"
    "int32 (clientVersion (kv_host_config skip endpoint)) = 1"
    "cl_Plugins (kv_host_config skip endpoint) = Some [''kv'' \<mapsto> kvPlugin skip]"
    "pluginKeys [''kv''] (Some [''kv'' \<mapsto> kvPlugin skip]) = [''kv'']"
    by (simp_all add: kv_host_config_def clientVersion_def int32_def pluginKeys_def PluginSet_Keys_def)
  have names: "set (map pi_Name (hp_Plugins resp)) = {''kv''}" by (simp only: resp(3)) simp
  have answer: "handshake endpoint (handshakeRequest [''kv''] (kv_host_config skip endpoint)) = Inr resp"
    by (simp add: hs serve_handshake_def h)
  have "doHandshake handshake [''kv''] ?c = (?c, None)"
    using names by (simp add: doHandshake_def client(1) cfg answer resp(1,2,4))
  then have con: "Connect handshake [''kv''] client = (?c\<lparr>c_connected := True\<rparr>, None)"
    by (simp add: Connect_def client cfg(2))
  have "Dispense handshake [''kv''] ''kv'' (?c\<lparr>c_connected := True\<rparr>) =
      (?c\<lparr>c_connected := True\<rparr>, Inr (KVClientValue (NewKVServiceClient (Some ()) endpoint)))"
    by (simp add: Dispense_def ensureConnected_def client(1) cfg PluginSet_Get_def kvPlugin_def KVServicePlugin_def
        KVServicePlugin_ConnectClient_def)
  then show ?thesis using con by blast
qed

section \<open>Properties\<close>

text \<open>What both client programs do first, against the server program.\<close>

lemma kv_programs_connect:
  assumes url: "hostURL_ok hostOk url"
    and up: "serveSetup po io so ro (kv_server_config skip port) = (Some health, Inr (mux, tokens))"
    and orders: "iter_order [''kv'' \<mapsto> kvPlugin skip] po" "iter_order [''kv'' \<mapsto> StoreImpl] io"
      "iter_order [''kv'' \<mapsto> kvPlugin skip] so" "iter_order [''kv'' \<mapsto> kvPlugin skip] ro"
    and lib: "delivers (\<lambda>c. reached hostOk (authorityOf url) (kv_server_serves skip port now tokens health mux) (cc_URL c)) cn"
  obtains client client' where "NewClient [''kv''] (kv_host_config skip url) = Inr client"
    "Connect (handshakeOver cn) [''kv''] client = (client', None)"
    "Dispense (handshakeOver cn) [''kv''] ''kv'' client' = (client', Inr (KVClientValue (NewKVServiceClient (Some ()) url)))"
    "kv_client cn (NewKVServiceClient (Some ()) url) skip"
    "\<And>n. n = '''' \<or> n = ''kv'' \<Longrightarrow>
       HealthServiceClient_Check (cn_Check cn) (NewHealthServiceClient (Some ()) url) n = Inr SERVING_STATUS_SERVING"
proof -
  have o: "po = [''kv'']" "io = [''kv'']" "so = [''kv'']" "ro = [''kv'']"
    using orders by (simp_all add: single_order)
  obtain health' where "serveSetup [''kv''] [''kv''] [''kv''] [''kv''] (kv_server_config skip port) =
      (Some health', Inr (kv_mux skip, NewHandshakeServer))"
    and serving: "Check health' '''' = Inr SERVING_STATUS_SERVING" "Check health' ''kv'' = Inr SERVING_STATUS_SERVING"
    using kv_server_up [of skip port] by (elim exE conjE) (rule that)
  then have same: "health' = health" "mux = kv_mux skip" using up by (simp_all add: o)
  note goes = kv_server_reached [OF url, of skip port now tokens health "Some ()", folded same(2)]
  note cn = lib [unfolded delivers_def]
  have kv: "kv_client cn (NewKVServiceClient (Some ()) url) skip"
    using cn goes(3-6) by (intro kv_client.intro) simp_all
  have hs: "handshakeOver cn url = serve_handshake
      (\<lambda>req. Handshake (withServeDefaults (kv_server_config skip port)) None [] None None now req tokens) ''''"
    using cn goes(1) by (simp add: fun_eq_iff handshakeOver_def HandshakeServiceClient_Handshake_def)
  have checks: "HealthServiceClient_Check (cn_Check cn) (NewHealthServiceClient (Some ()) url) n = checkAnswer health n" for n
    using cn goes(2) by (simp add: HealthServiceClient_Check_def)
  have "url \<noteq> ''''" using url by (auto simp: hostURL_ok_def)
  from kv_new_client [OF this, of skip] obtain client where
    new: "NewClient [''kv''] (kv_host_config skip url) = Inr client" and c: "c_cfg client = kv_host_config skip url"
      "\<not> c_closed client" "\<not> c_connected client" by (elim exE conjE) (rule that)
  obtain client' where con: "Connect (handshakeOver cn) [''kv''] client = (client', None)"
    "Dispense (handshakeOver cn) [''kv''] ''kv'' client' = (client', Inr (KVClientValue (NewKVServiceClient (Some ()) url)))"
    using kv_connects [where handshake = "handshakeOver cn" and endpoint = url, OF hs c] by (elim exE conjE) (rule that)
  show ?thesis
  proof (rule that [OF new con kv])
    show "HealthServiceClient_Check (cn_Check cn) (NewHealthServiceClient (Some ()) url) n = Inr SERVING_STATUS_SERVING"
      if "n = '''' \<or> n = ''kv''" for n
      using that serving by (auto simp: checks checkAnswer_def same)
  qed
qed

text \<open>C15. The client program against the server program, end to end: whatever the port and the plugin endpoint, as
  long as the endpoint is the server's URL, the server's configuration is valid and listens; the client
  connects through the generated handshake client, finds the server and the plugin healthy, dispenses the
  plugin, and its four tests pass: it gets the value it put, the deletion finds the key, and the key is gone
  afterwards. The rest of the store is as it was, whatever is watching it. This assumes only that
  the package connect delivers a call to the method that its URL reaches.\<close>
theorem kv_host_succeeds:
  assumes url: "hostURL_ok hostOk (if pluginEndpoint = '''' then ''http://localhost:8080'' else pluginEndpoint)"
    and up: "serveSetup po io so ro (kv_server_config skip port) = (Some health, Inr (mux, tokens))"
    and orders: "iter_order [''kv'' \<mapsto> kvPlugin skip] po" "iter_order [''kv'' \<mapsto> StoreImpl] io"
      "iter_order [''kv'' \<mapsto> kvPlugin skip] so" "iter_order [''kv'' \<mapsto> kvPlugin skip] ro"
      "iter_order [''kv'' \<mapsto> kvPlugin skip] vo" "iter_order [''kv'' \<mapsto> kvPlugin skip] ko"
    and lib: "delivers (\<lambda>c. reached hostOk (authorityOf (if pluginEndpoint = '''' then ''http://localhost:8080'' else pluginEndpoint))
      (kv_server_serves skip port now tokens health mux) (cc_URL c)) cn"
    and store: "trace kv_step NewStore ls s"
  shows "\<exists>s'. kv_host_main skip vo ko cn pluginEndpoint s =
      Some (s', Inr (Inr SERVING_STATUS_SERVING, Inr SERVING_STATUS_SERVING, ''world'', True)) \<and>
    kv_data s' = (kv_data s)(''hello'' := None) \<and> kv_watchers s' = kv_watchers s"
proof (rule kv_programs_connect [OF url up orders(1-4) lib], goal_cases)
  case (1 client client')
  have o: "vo = [''kv'']" "ko = [''kv'']" using orders by (simp_all add: single_order)
  from kv_client.host_tests_pass [OF 1(4) kv_trace_inv [OF store kv_inv_new]] show ?case
    using 1(1-3,5) unfolding kv_host_main_def Let_def o by (elim exE conjE) (simp add: asKVClient_def)
qed

text \<open>The watching client, end to end, under the same assumptions: it receives its three events.\<close>

lemma kv_watch_succeeds:
  assumes url: "hostURL_ok hostOk (if pluginEndpoint = '''' then ''http://localhost:8080'' else pluginEndpoint)"
    and up: "serveSetup po io so ro (kv_server_config skip port) = (Some health, Inr (mux, tokens))"
    and orders: "iter_order [''kv'' \<mapsto> kvPlugin skip] po" "iter_order [''kv'' \<mapsto> StoreImpl] io"
      "iter_order [''kv'' \<mapsto> kvPlugin skip] so" "iter_order [''kv'' \<mapsto> kvPlugin skip] ro"
      "iter_order [''kv'' \<mapsto> kvPlugin skip] vo" "iter_order [''kv'' \<mapsto> kvPlugin skip] ko"
    and lib: "delivers (\<lambda>c. reached hostOk (authorityOf (if pluginEndpoint = '''' then ''http://localhost:8080'' else pluginEndpoint))
      (kv_server_serves skip port now tokens health mux) (cc_URL c)) cn"
    and store: "trace kv_step NewStore ls s" "kv_calls s i = None"
  shows "\<exists>s'. kv_watch_main skip vo ko cn i pluginEndpoint s = Some (s', Inr 3)"
proof (rule kv_programs_connect [OF url up orders(1-4) lib], goal_cases)
  case (1 client client')
  have o: "vo = [''kv'']" "ko = [''kv'']" using orders by (simp_all add: single_order)
  from kv_client.watch_tests_pass [OF 1(4) kv_trace_inv [OF store(1) kv_inv_new] store(2)] show ?case
    using 1(1-3) unfolding kv_watch_main_def Let_def o by (simp add: asKVClient_def)
qed

text \<open>A package connect that delivers: it calls the method that a client reaches.\<close>

definition directLib :: "('c ConnectClient \<Rightarrow> Served option) \<Rightarrow> 'c ConnectLib" where
  "directLib dest =
     \<lparr>cn_Handshake = (\<lambda>c. case dest c of Some (HandshakeMethod f) \<Rightarrow> f | _ \<Rightarrow> (\<lambda>_. Inl ''not found'')),
      cn_Check = (\<lambda>c. case dest c of Some (CheckMethod f) \<Rightarrow> f | _ \<Rightarrow> (\<lambda>_. Inl (OtherError ''not found''))),
      cn_Get = (\<lambda>c. case dest c of Some (GetMethod f) \<Rightarrow> f | _ \<Rightarrow> (\<lambda>_ s. Some (s, Inl (OtherError ''not found'')))),
      cn_Put = (\<lambda>c. case dest c of Some (PutMethod f) \<Rightarrow> f | _ \<Rightarrow> (\<lambda>_ s. Some (s, Inl (OtherError ''not found'')))),
      cn_Delete = (\<lambda>c. case dest c of Some (DeleteMethod f) \<Rightarrow> f | _ \<Rightarrow> (\<lambda>_ s. Some (s, Inl (OtherError ''not found'')))),
      cn_Watch = (\<lambda>c. case dest c of Some (WatchMethod f) \<Rightarrow> f | _ \<Rightarrow> (\<lambda>_ _ s. s))\<rparr>"

lemma directLib_delivers: "delivers dest (directLib dest)"
  by (auto simp: delivers_def directLib_def)

text \<open>Its clients of the server program.\<close>

lemma localhost_ok: "hostURL_ok (\<lambda>_. True) ''http://localhost:8080''"
  by (auto simp: hostURL_ok_def plain_defs intro: exI [of _ "''localhost:8080''"])

definition localServer ::
    "(nat \<Rightarrow> bool) \<Rightarrow> HealthServer \<Rightarrow> 'c ConnectClient \<Rightarrow> Served option" where
  "localServer skip health c = reached (\<lambda>_. True) (authorityOf ''http://localhost:8080'')
     (kv_server_serves skip ''8080'' 0 NewHandshakeServer health (kv_mux skip)) (cc_URL c)"

interpretation local_kv: kv_client "directLib (localServer skip health)" "NewKVServiceClient c ''http://localhost:8080''" skip
  for skip health c
  using kv_server_reached(3-6) [OF localhost_ok, of skip "''8080''" 0 NewHandshakeServer health c]
  by unfold_locales (simp_all add: directLib_def localServer_def)

lemma kv_host_succeeds_witness:
  "\<exists>health s'. kv_host_main (\<lambda>_. False) [''kv''] [''kv''] (directLib (localServer (\<lambda>_. False) health)) '''' NewStore =
      Some (s', Inr (Inr SERVING_STATUS_SERVING, Inr SERVING_STATUS_SERVING, ''world'', True)) \<and> kv_data s' ''hello'' = None"
proof -
  let ?skip = "\<lambda>_ :: nat. False"
  obtain health where up: "serveSetup [''kv''] [''kv''] [''kv''] [''kv''] (kv_server_config ?skip ''8080'') =
      (Some health, Inr (kv_mux ?skip, NewHandshakeServer))"
    using kv_server_up [of ?skip "''8080''"] by blast
  have url: "hostURL_ok (\<lambda>_. True) (if '''' = '''' then ''http://localhost:8080'' else '''')" using localhost_ok by simp
  have orders: "iter_order [''kv'' \<mapsto> kvPlugin ?skip] [''kv'']" "iter_order [''kv'' \<mapsto> StoreImpl] [''kv'']"
    by (simp_all add: single_order)
  have lib: "delivers (\<lambda>c. reached (\<lambda>_. True) (authorityOf (if '''' = '''' then ''http://localhost:8080'' else ''''))
      (kv_server_serves ?skip ''8080'' 0 NewHandshakeServer health (kv_mux ?skip)) (cc_URL c)) (directLib (localServer ?skip health))"
    using directLib_delivers [of "localServer ?skip health"] by (simp add: localServer_def [abs_def])
  have "trace kv_step NewStore [] NewStore" by (rule trace.intros)
  from kv_host_succeeds [OF url up orders(1,2,1,1,1,1) lib this] show ?thesis
    by (elim exE conjE) (intro exI conjI, assumption, simp)
qed

section \<open>The server in memory\<close>

definition kvHandler :: "(nat \<Rightarrow> bool) \<Rightarrow> string \<Rightarrow> Served option" where
  "kvHandler skip = snd (NewKVServiceHandler (\<lambda>_. GetMethod) (\<lambda>_. PutMethod) (\<lambda>_. DeleteMethod) (\<lambda>_. WatchMethod)
     (storeHandler skip))"

definition kvMemMux :: "(nat \<Rightarrow> bool) \<Rightarrow> (string \<Rightarrow> Served option) MemRoute mux" where
  "kvMemMux skip = [(''/kv.v1.KVService/'', MemPlugin (kvHandler skip)), (controlPath, MemControl)]"

lemma in_memory_ok: "hostURL_ok (\<lambda>_. True) (memEndpoint ''kv'')"
  by (auto simp: hostURL_ok_def memEndpoint_def plain_defs intro: exI [of _ "''in-memory.kv''"])

lemma in_memory_dest:
  assumes "a < length (la_servers st)" and "\<not> ln_closed (ms_listener (la_servers st ! a))" and "ms_mux (la_servers st ! a) = kvMemMux skip"
    and call: "(u, h) \<in> set (kvCalls (\<lambda>_. GetMethod) (\<lambda>_. PutMethod) (\<lambda>_. DeleteMethod) (\<lambda>_. WatchMethod) (storeHandler skip)
      (NewKVServiceClient (Some a) (memEndpoint ''kv'')))"
  shows "memDest st \<lparr>cc_HTTPClient = Some a, cc_URL = u\<rparr> = Some h"
proof -
  have reach: "reached (\<lambda>_. True) (authorityOf (memEndpoint ''kv'')) (serveMux (kvMemMux skip) memHandler) u = Some h"
  proof (rule kv_reached)
    show "(u, h) \<in> set (kvCalls (\<lambda>_. GetMethod) (\<lambda>_. PutMethod) (\<lambda>_. DeleteMethod) (\<lambda>_. WatchMethod) (storeHandler skip)
      (NewKVServiceClient (Some a) (memEndpoint ''kv'' @ replicate 0 CHR ''/'')))" using call by simp
    show "\<forall>m. CHR ''/'' \<notin> set m \<longrightarrow> muxMatch (kvMemMux skip) (''/kv.v1.KVService/'' @ m) = Some (MemPlugin (kvHandler skip))"
      by (simp add: kvMemMux_def controlPath_def muxMatch_def patternMatches_def)
  qed (simp_all add: in_memory_ok memHandler_def kvHandler_def)
  then obtain x where "parseURL (\<lambda>_. True) u = Some x" "u_Host x = authorityOf (memEndpoint ''kv'')"
    by (auto simp: reached_def requestPath_def bind_eq_Some_conv split: option.splits if_splits)
  then show ?thesis using reach assms(1-3) by (simp add: memDest_def)
qed

lemma in_memory_client:
  assumes "a < length (la_servers st)" and "\<not> ln_closed (ms_listener (la_servers st ! a))" and "ms_mux (la_servers st ! a) = kvMemMux skip"
    and lib: "delivers (memDest st) cn"
  shows "kv_client cn (NewKVServiceClient (Some a) (memEndpoint ''kv'')) skip"
proof -
  note dest = in_memory_dest [OF assms(1-3)]
  have "memDest st (KVServiceClient_get (NewKVServiceClient (Some a) (memEndpoint ''kv''))) = Some (GetMethod (KVServiceHandler_Get (storeHandler skip)))"
    "memDest st (KVServiceClient_put (NewKVServiceClient (Some a) (memEndpoint ''kv''))) = Some (PutMethod (KVServiceHandler_Put (storeHandler skip)))"
    "memDest st (KVServiceClient_delete (NewKVServiceClient (Some a) (memEndpoint ''kv''))) = Some (DeleteMethod (KVServiceHandler_Delete (storeHandler skip)))"
    "memDest st (KVServiceClient_watch (NewKVServiceClient (Some a) (memEndpoint ''kv''))) = Some (WatchMethod (KVServiceHandler_Watch (storeHandler skip)))"
    using dest by (simp_all add: kvCalls_def NewKVServiceClient_def connectClient_def Let_def)
  then show ?thesis using lib by (intro kv_client.intro) (simp_all add: delivers_def)
qed

text \<open>What \<open>GetServiceClient\<close> starts: one server with the plugin's mux and the control service.\<close>

lemma in_memory_launch:
  assumes "quiet (le_sleep env)"
  obtains launcher st' where "GetServiceClient env so ''kv'' ''kv'' (inMemoryLauncher skip) st =
      (launcher, st', Inr (memEndpoint ''kv'', Some (length (la_servers st))))"
    "ms_mux (la_servers st' ! length (la_servers st)) = kvMemMux skip" "Server (length (la_servers st)) \<in> live st'"
    "live (snd (Launcher_Shutdown [''kv''] (launcher, st'))) = live st"
proof -
  let ?a = "length (la_servers st)"
  have spec: "ln_specs (inMemoryLauncher skip) ''kv'' = Some (inMemoryKV skip)"
    "ln_instances (inMemoryLauncher skip) ''kv'' = None"
    "ln_strategies (inMemoryLauncher skip) ''in-memory'' = Some (InMemoryStrategy True)"
    by (simp_all add: inMemoryLauncher_def Configure_def RegisterStrategy_def NewPluginLauncher_def strategyName_def)
  have sel: "ps_Provides (inMemoryKV skip) = [''kv'']" "ps_Strategy (inMemoryKV skip) = ''in-memory''"
    by (simp_all add: inMemoryKV_def)
  have mux: "memMux ''/kv.v1.KVService/'' (kvHandler skip) = Inr (kvMemMux skip)"
    by (simp add: memMux_def kvMemMux_def mux_handle_def controlPath_def)
  obtain s1 where launch: "memLaunch True env (inMemoryKV skip) st = (s1, Inr \<lparr>lr_Endpoint = memEndpoint ''kv'',
      lr_HTTPClient = Some ?a, lr_Cleanup = Some (StopServer ?a ''kv'')\<rparr>)"
    and s1: "la_servers s1 = la_servers st @ [\<lparr>ms_mux = kvMemMux skip, ms_listener = Listener_New\<rparr>]" "la_procs s1 = la_procs st"
    by (simp add: memLaunch_def inMemoryKV_def kvPlugin_connects mux [unfolded kvHandler_def] memStart_def Let_def)
  let ?st = "le_sleep env s1"
  have st: "la_servers ?st = la_servers s1" "la_procs ?st = la_procs s1" using assms by (simp_all add: quiet_def)
  have live: "live ?st = insert (Server ?a) (live st)"
    using live_add_server [of st "kvMemMux skip"] live_cong [of ?st "st\<lparr>la_servers := la_servers s1\<rparr>"] by (simp add: st s1)
  let ?inst = "\<lparr>in_pluginName = ''kv'', in_endpoint = memEndpoint ''kv'', in_httpClient = Some ?a,
      in_cleanup = Some (StopServer ?a ''kv''), in_provides = [''kv'']\<rparr>"
  let ?l = "inMemoryLauncher skip\<lparr>ln_instances := (ln_instances (inMemoryLauncher skip))(''kv'' \<mapsto> ?inst)\<rparr>"
  show ?thesis
  proof (rule that [of ?l ?st])
    show "GetServiceClient env so ''kv'' ''kv'' (inMemoryLauncher skip) st = (?l, ?st, Inr (memEndpoint ''kv'', Some ?a))"
      by (simp add: GetServiceClient_def ensureInstance_def launchPluginLocked_def Launch_def launch spec sel)
    show "ms_mux (la_servers ?st ! ?a) = kvMemMux skip" by (simp add: st s1)
    show "Server ?a \<in> live ?st" by (simp add: live)
    show "live (snd (Launcher_Shutdown [''kv''] (?l, ?st))) = live st"
      by (simp add: Launcher_Shutdown_def stopInstance_def live_runCleanup live target_def) (simp add: live_def)
  qed
qed

text \<open>C23. The program that runs the plugin in memory does what it prints it does, whatever runs on the host before: the
  launcher starts the plugin at its first use, the generated client over the in-memory connection reaches
  the store, the greeting is read back, the deleted item was there and is gone, and the stream delivers the
  event of the write that came after it was opened; the final \<open>Shutdown\<close> leaves running what ran before.
  This assumes that connect delivers a call to the method its client reaches and that nothing else starts or stops plugins meanwhile.\<close>
theorem direct_dispatch_succeeds:
  assumes "quiet (le_sleep env)" and lib: "\<And>host. delivers (memDest host) (lib host)"
  shows "\<exists>st' s'. direct_dispatch_main lib skip env so [''kv''] i st NewStore =
      (st', Some (s', Inr (\<lparr>grs_Value = ''hello from direct dispatch'', grs_Found = True\<rparr>, \<lparr>drs_Found = True\<rparr>,
        \<lparr>grs_Value = '''', grs_Found = False\<rparr>, [putEvent ''live:status'' ''streaming works!'']))) \<and> live st' = live st"
proof -
  let ?a = "length (la_servers st)"
  obtain launcher st' where launch: "GetServiceClient env so ''kv'' ''kv'' (inMemoryLauncher skip) st =
      (launcher, st', Inr (memEndpoint ''kv'', Some ?a))"
    and served: "ms_mux (la_servers st' ! ?a) = kvMemMux skip" "Server ?a \<in> live st'"
    and stopped: "live (snd (Launcher_Shutdown [''kv''] (launcher, st'))) = live st"
    by (rule in_memory_launch [OF assms(1)])
  have "kv_client (lib st') (NewKVServiceClient (Some ?a) (memEndpoint ''kv'')) skip"
    using served by (intro in_memory_client [OF _ _ served(1) lib]) (simp_all add: live_def)
  moreover have "kv_calls NewStore i = None" by (simp add: NewStore_def)
  ultimately obtain s' where "direct_dispatch_calls (lib st') i (NewKVServiceClient (Some ?a) (memEndpoint ''kv'')) NewStore =
    Some (s', Inr (\<lparr>grs_Value = ''hello from direct dispatch'', grs_Found = True\<rparr>, \<lparr>drs_Found = True\<rparr>,
      \<lparr>grs_Value = '''', grs_Found = False\<rparr>, [putEvent ''live:status'' ''streaming works!'']))"
    using kv_client.direct_dispatch_passes [OF _ kv_inv_new] by blast
  then show ?thesis using stopped by (auto simp: direct_dispatch_main_def launch)
qed

definition quietHost :: "(string \<Rightarrow> Served option) LaunchEnv" where
  "quietHost = \<lparr>le_rnds = (\<lambda>_. Some ''abcdefgh''), le_zeroTime = 0, le_startError = None, le_ticks = [], le_poll = (\<lambda>s. s), le_sleep = (\<lambda>s. s)\<rparr>"

definition emptyHost :: "(string \<Rightarrow> Served option) LaunchState" where
  "emptyHost = \<lparr>la_registry = NewServiceRegistry, la_servers = [], la_listeners = Map.empty, la_procs = [], la_processes = Map.empty\<rparr>"

lemma direct_dispatch_succeeds_witness:
  "\<exists>st' s'. direct_dispatch_main (\<lambda>host. directLib (memDest host)) (\<lambda>_. False) quietHost [] [''kv''] 0 emptyHost NewStore =
    (st', Some (s', Inr (\<lparr>grs_Value = ''hello from direct dispatch'', grs_Found = True\<rparr>, \<lparr>drs_Found = True\<rparr>,
        \<lparr>grs_Value = '''', grs_Found = False\<rparr>, [putEvent ''live:status'' ''streaming works!'']))) \<and> live st' = {}"
proof -
  have idle: "quiet (le_sleep quietHost)" by (simp add: quiet_def quietHost_def)
  have "live emptyHost = {}" by (simp add: live_def emptyHost_def)
  then show ?thesis
    using direct_dispatch_succeeds [where lib = "\<lambda>host. directLib (memDest host)" and skip = "\<lambda>_. False" and so = "[]"
        and i = 0 and st = emptyHost, OF idle directLib_delivers] by simp
qed

end
