(* ===== verification/HostProgramsProps.thy ===== *)
theory HostProgramsProps
  imports HostPrograms KVProgramsProps
begin

text \<open>
  The assembled programs: the platform's clients reach the services of every plugin program, the plugins'
  clients those of the docker-compose host; the module for fx connects once; and what the programs with a
  logger do with it.
\<close>

section \<open>The identity client and the plugin programs\<close>

lemma identity_client: "ic_client (NewIdentityClient url httpClient) =
    NewPluginIdentityClient (Some ()) url" if "httpClient = None \<or> httpClient = Some ()"
  using that by (auto simp: NewIdentityClient_def)

lemma identity_reached:
  fixes mux :: "'r mux" and handler :: "'r \<Rightarrow> string \<Rightarrow> 'h option"
  assumes "hostURL_ok hostOk url"
    and "\<forall>m\<in>{''GetPluginInfo'', ''SetRuntimeIdentity''}. muxMatch mux (''/connectplugin.v1.PluginIdentity/'' @ m) = Some r"
    and "handler r = snd (NewPluginIdentityHandler unaryInfo unarySet idt)"
  defines "goes \<equiv> reached hostOk (authorityOf url) (serveMux mux handler)"
  shows "goes (cc_URL (PluginIdentityClient_getPluginInfo (NewPluginIdentityClient c url))) =
      Some (unaryInfo PluginIdentityGetPluginInfoProcedure (PluginIdentityHandler_GetPluginInfo idt))"
    "goes (cc_URL (PluginIdentityClient_setRuntimeIdentity (NewPluginIdentityClient c url))) =
      Some (unarySet PluginIdentitySetRuntimeIdentityProcedure (PluginIdentityHandler_SetRuntimeIdentity idt))"
  using pluginIdentity_rpc.mux_reached [where httpClient = c and unaryGetPluginInfo = unaryInfo and unarySetRuntimeIdentity = unarySet and
      svc = idt and i = 0 and n = 0 and mux = mux and handler = handler and r = r, OF _ assms(1)]
    pluginIdentity_rpc.mux_reached [where httpClient = c and unaryGetPluginInfo = unaryInfo and unarySetRuntimeIdentity = unarySet and
      svc = idt and i = 1 and n = 0 and mux = mux and handler = handler and r = r, OF _ assms(1)] assms(2,3)
  by (simp_all add: NewPluginIdentityHandler_def Let_def goes_def)

lemma control_reached:
  fixes mux :: "'r mux" and handler :: "'r \<Rightarrow> string \<Rightarrow> 'h option"
  assumes "hostURL_ok hostOk url"
    and "\<forall>m\<in>{''GetHealth'', ''Shutdown''}. muxMatch mux (''/connectplugin.v1.PluginControl/'' @ m) = Some r"
    and "handler r = snd (NewPluginControlHandler unaryHealth unaryShutdown ctl)"
  defines "goes \<equiv> reached hostOk (authorityOf url) (serveMux mux handler)"
  shows "goes (cc_URL (PluginControlClient_getHealth (ConnectRPC.NewPluginControlClient c url))) =
      Some (unaryHealth PluginControlGetHealthProcedure (PluginControlHandler_GetHealth ctl))"
    "goes (cc_URL (PluginControlClient_shutdown (ConnectRPC.NewPluginControlClient c url))) =
      Some (unaryShutdown PluginControlShutdownProcedure (PluginControlHandler_Shutdown ctl))"
  using pluginControl_rpc.mux_reached [where httpClient = c and unaryGetHealth = unaryHealth and unaryShutdown = unaryShutdown and
      svc = ctl and i = 0 and n = 0 and mux = mux and handler = handler and r = r, OF _ assms(1)]
    pluginControl_rpc.mux_reached [where httpClient = c and unaryGetHealth = unaryHealth and unaryShutdown = unaryShutdown and
      svc = ctl and i = 1 and n = 0 and mux = mux and handler = handler and r = r, OF _ assms(1)] assms(2,3)
  by (simp_all add: NewPluginControlHandler_def Let_def goes_def)

lemma endpoint_reached:
  assumes "hostURL_ok hostOk url" and "plainPath p" and "muxMatch mux p = Some r" and "handler r p = Some h"
  shows "reached hostOk (authorityOf url) (serveMux mux handler) (url @ p) = Some h"
  using requestPath_plain [OF assms(1,2)] assms(3,4) by (simp add: reached_def serveMux_def)

text \<open>The mux of a program, and what it does with the paths of the two services and of its own endpoints.\<close>

definition programEndpoints :: "PluginProgram \<Rightarrow> string list" where
  "programEndpoints prog =
     (case prog of
        LoggerPlugin \<Rightarrow> [''/logger.v1.Logger/Log'']
      | CachePlugin \<Rightarrow> [''/cache.v1.Cache/Get'']
      | AppPlugin \<Rightarrow> [''/app.v1.App/Process'']
      | StoragePlugin \<Rightarrow> [''/storage.v1.Storage/Store'', ''/storage.v1.Storage/Get'']
      | ApiPlugin \<Rightarrow> [''/api.v1.API/Shorten'', ''/api.v1.API/Resolve''])"

lemma programMux_eq:
  "programMux prog (NewPluginControlHandler unaryHealth unaryShutdown ctl) (NewPluginIdentityHandler unaryInfo unarySet idt) h =
   Inr ([(''/connectplugin.v1.PluginControl/'', snd (NewPluginControlHandler unaryHealth unaryShutdown ctl)),
         (''/connectplugin.v1.PluginIdentity/'', snd (NewPluginIdentityHandler unaryInfo unarySet idt))] @
        map (\<lambda>p. (p, \<lambda>_. Some (h p))) (programEndpoints prog))"
  by (cases prog)
    (simp_all add: programMux_def logger_mux_def cache_mux_def app_mux_def storage_mux_def api_mux_def programEndpoints_def
      NewPluginControlHandler_def NewPluginIdentityHandler_def Let_def mux_handle_def)

lemma programMux_match:
  fixes control identity :: "string \<Rightarrow> 'h option" and prog :: PluginProgram and h :: "string \<Rightarrow> 'h"
  defines "mux \<equiv> [(''/connectplugin.v1.PluginControl/'', control), (''/connectplugin.v1.PluginIdentity/'', identity)] @
        map (\<lambda>p. (p, \<lambda>_. Some (h p))) (programEndpoints prog)"
  shows "muxMatch mux (''/connectplugin.v1.PluginControl/'' @ m) = Some control"
    and "muxMatch mux (''/connectplugin.v1.PluginIdentity/'' @ m) = Some identity"
    and "p \<in> set (programEndpoints prog) \<Longrightarrow> muxMatch mux p = Some (\<lambda>_. Some (h p)) \<and> plainPath p"
  by (cases prog; auto simp: mux_def programEndpoints_def muxMatch_def patternMatches_def plainPath_def plain_defs)+

text \<open>The platform against every plugin program, at whatever URL it runs: the identity client, also one made
  without an HTTP client, and the control client reach their methods, and every endpoint of the program its
  function.\<close>
theorem programs_wired:
  assumes url: "hostURL_ok hostOk url"
  shows "\<exists>mux. programMux prog (NewPluginControlHandler unaryHealth unaryShutdown ctl) (NewPluginIdentityHandler unaryInfo unarySet idt) h =
      Inr mux \<and>
    (let goes = reached hostOk (authorityOf url) (serveMux mux (\<lambda>serve. serve));
         identity = ic_client (NewIdentityClient url httpClient); control = controlClient (Platform.NewPluginControlClient url c)
     in goes (cc_URL (PluginIdentityClient_getPluginInfo identity)) =
          Some (unaryInfo PluginIdentityGetPluginInfoProcedure (PluginIdentityHandler_GetPluginInfo idt)) \<and>
        goes (cc_URL (PluginIdentityClient_setRuntimeIdentity identity)) =
          Some (unarySet PluginIdentitySetRuntimeIdentityProcedure (PluginIdentityHandler_SetRuntimeIdentity idt)) \<and>
        cc_HTTPClient (PluginIdentityClient_setRuntimeIdentity identity) \<noteq> None \<and>
        goes (cc_URL (PluginControlClient_getHealth control)) =
          Some (unaryHealth PluginControlGetHealthProcedure (PluginControlHandler_GetHealth ctl)) \<and>
        goes (cc_URL (PluginControlClient_shutdown control)) =
          Some (unaryShutdown PluginControlShutdownProcedure (PluginControlHandler_Shutdown ctl)) \<and>
        (\<forall>p\<in>set (programEndpoints prog). goes (url @ p) = Some (h p)))"
proof -
  let ?control = "snd (NewPluginControlHandler unaryHealth unaryShutdown ctl)"
  let ?identity = "snd (NewPluginIdentityHandler unaryInfo unarySet idt)"
  let ?mux = "[(''/connectplugin.v1.PluginControl/'', ?control), (''/connectplugin.v1.PluginIdentity/'', ?identity)] @
        map (\<lambda>p. (p, \<lambda>_. Some (h p))) (programEndpoints prog)"
  note match = programMux_match [where control = ?control and identity = ?identity and h = h and prog = prog]
  have ic: "ic_client (NewIdentityClient url httpClient) = NewPluginIdentityClient (Some ()) url"
    by (rule identity_client) (cases httpClient; simp)
  have cc: "controlClient (Platform.NewPluginControlClient url c) = ConnectRPC.NewPluginControlClient c url"
    by (simp add: controlClient_def Platform.NewPluginControlClient_def)
  note identity = identity_reached [where mux = ?mux and handler = "\<lambda>serve. serve" and c = "Some ()", OF url _ refl]
  note control = control_reached [where mux = ?mux and handler = "\<lambda>serve. serve" and c = c, OF url _ refl]
  have "reached hostOk (authorityOf url) (serveMux ?mux (\<lambda>serve. serve)) (url @ p) = Some (h p)" if "p \<in> set (programEndpoints prog)" for p
    using match(3) [OF that] by (intro endpoint_reached [OF url, where r = "\<lambda>_. Some (h p)"]) simp_all
  moreover have "cc_HTTPClient (PluginIdentityClient_setRuntimeIdentity (NewPluginIdentityClient (Some ()) url)) \<noteq> None"
    by (simp add: NewPluginIdentityClient_def connectClient_def Let_def)
  ultimately show ?thesis
    using identity [OF ballI [OF match(2)]] control [OF ballI [OF match(1)]] unfolding ic cc programMux_eq Let_def by blast
qed

lemma programs_wired_witness:
  "reached (\<lambda>_. True) ''localhost:8082''
     (serveMux [(''/connectplugin.v1.PluginControl/'', snd (NewPluginControlHandler (\<lambda>_ f. f) (\<lambda>_ f. f)
          \<lparr>PluginControlHandler_GetHealth = ''health'', PluginControlHandler_Shutdown = ''shutdown''\<rparr>)),
         (''/connectplugin.v1.PluginIdentity/'', snd (NewPluginIdentityHandler (\<lambda>_ f. f) (\<lambda>_ f. f)
          \<lparr>PluginIdentityHandler_GetPluginInfo = ''info'', PluginIdentityHandler_SetRuntimeIdentity = ''set''\<rparr>)),
         (''/storage.v1.Storage/Store'', \<lambda>_. Some ''/storage.v1.Storage/Store''),
         (''/storage.v1.Storage/Get'', \<lambda>_. Some ''/storage.v1.Storage/Get'')] (\<lambda>serve. serve))
     ''http://localhost:8082/storage.v1.Storage/Get'' = Some ''/storage.v1.Storage/Get''"
proof -
  have "hostURL_ok (\<lambda>_. True) ''http://localhost:8082''"
    by (auto simp: hostURL_ok_def plain_defs intro: exI [of _ "''localhost:8082''"])
  note wired = programs_wired [where c = "Some ()" and httpClient = None and h = "\<lambda>p. p" and prog = StoragePlugin and
      unaryHealth = "\<lambda>_ f. f" and unaryShutdown = "\<lambda>_ f. f" and unaryInfo = "\<lambda>_ f. f" and unarySet = "\<lambda>_ f. f" and
      ctl = "\<lparr>PluginControlHandler_GetHealth = ''health'', PluginControlHandler_Shutdown = ''shutdown''\<rparr>" and
      idt = "\<lparr>PluginIdentityHandler_GetPluginInfo = ''info'', PluginIdentityHandler_SetRuntimeIdentity = ''set''\<rparr>", OF this,
      unfolded programMux_eq]
  have "authorityOf ''http://localhost:8082'' = ''localhost:8082''" by code_simp
  then show ?thesis using wired by (auto simp: Let_def programEndpoints_def)
qed

section \<open>The docker-compose host\<close>

lemma composeMux_wired:
  assumes url: "hostURL_ok hostOk url"
  shows "\<exists>mux. composeMux (NewHandshakeServiceHandler unaryHandshake hs) (NewPluginLifecycleHandler unaryReport lc)
      (NewServiceRegistryHandler unaryRegister unaryUnregister unaryDiscover streamService rg) router health = Inr mux \<and>
    (let goes = reached hostOk (authorityOf url) (serveMux mux (\<lambda>serve. serve)); registry = NewServiceRegistryClient c url
     in goes (cc_URL (HandshakeServiceClient_handshake (NewHandshakeServiceClient c url))) =
          Some (unaryHandshake HandshakeServiceHandshakeProcedure (HandshakeServiceHandler_Handshake hs)) \<and>
        goes (cc_URL (PluginLifecycleClient_reportHealth (NewPluginLifecycleClient c url))) =
          Some (unaryReport PluginLifecycleReportHealthProcedure (PluginLifecycleHandler_ReportHealth lc)) \<and>
        goes (cc_URL (ServiceRegistryClient_registerService registry)) =
          Some (unaryRegister ServiceRegistryRegisterServiceProcedure (ServiceRegistryHandler_RegisterService rg)) \<and>
        goes (cc_URL (ServiceRegistryClient_discoverService registry)) =
          Some (unaryDiscover ServiceRegistryDiscoverServiceProcedure (ServiceRegistryHandler_DiscoverService rg)) \<and>
        (\<forall>p. plainPath (''/services/'' @ p) \<longrightarrow> goes (url @ ''/services/'' @ p) = router (''/services/'' @ p)))"
proof -
  let ?handshake = "snd (NewHandshakeServiceHandler unaryHandshake hs)"
  let ?lifecycle = "snd (NewPluginLifecycleHandler unaryReport lc)"
  let ?registry = "snd (NewServiceRegistryHandler unaryRegister unaryUnregister unaryDiscover streamService rg)"
  let ?mux = "[(''/connectplugin.v1.HandshakeService/'', ?handshake), (''/connectplugin.v1.PluginLifecycle/'', ?lifecycle),
    (''/connectplugin.v1.ServiceRegistry/'', ?registry), (''/services/'', router), (''/health'', \<lambda>_. Some health)]"
  have mux: "composeMux (NewHandshakeServiceHandler unaryHandshake hs) (NewPluginLifecycleHandler unaryReport lc)
      (NewServiceRegistryHandler unaryRegister unaryUnregister unaryDiscover streamService rg) router health = Inr ?mux"
    unfolding composeMux_def by (subst handleAll_ok) (simp_all add: handler_defs)
  have match: "muxMatch ?mux ''/connectplugin.v1.HandshakeService/Handshake'' = Some ?handshake"
    "muxMatch ?mux ''/connectplugin.v1.PluginLifecycle/ReportHealth'' = Some ?lifecycle"
    "\<forall>m\<in>{''RegisterService'', ''UnregisterService'', ''DiscoverService'', ''WatchService''}.
      muxMatch ?mux (''/connectplugin.v1.ServiceRegistry/'' @ m) = Some ?registry"
    "muxMatch ?mux (''/services/'' @ p) = Some router" for p
    by (simp_all add: muxMatch_def patternMatches_def)
  have "reached hostOk (authorityOf url) (serveMux ?mux (\<lambda>serve. serve)) (url @ ''/services/'' @ p) = router (''/services/'' @ p)"
    if "plainPath (''/services/'' @ p)" for p
    using requestPath_plain [OF url that] match(4) [of p] by (simp add: reached_def serveMux_def)
  moreover note handshake_reached [where mux = ?mux and handler = "\<lambda>serve. serve" and c = c and n = 0, OF url match(1) refl]
    lifecycle_reached [where mux = ?mux and handler = "\<lambda>serve. serve" and c = c and n = 0, OF url match(2) refl]
    registry_reached(1,3) [where mux = ?mux and handler = "\<lambda>serve. serve" and c = c and n = 0, OF url match(3) refl]
  ultimately show ?thesis unfolding mux Let_def by (intro exI [of _ ?mux]) simp
qed

section \<open>The module for the container\<close>

text \<open>
  A typed plugin connects the client when it is provided, which is before the hooks run; the hook that is
  to connect then does nothing, whatever the host would answer it.
\<close>

lemma fx_module_connects_once:
  assumes "PluginModule order cfg = Inr c" and "ProvideTypedPlugin cast handshake ko name c = (c', Inr typed)"
  shows "c_connected c' \<and> PluginModule_OnStart handshake' ko' c' = (c', None) \<and> c_closed (PluginModule_OnStop c')"
proof -
  have fresh: "\<not> c_closed c" "\<not> c_connected c"
    using assms(1) by (auto simp: PluginModule_def NewClient_def Let_def split: prod.splits option.splits)
  have con: "Connect handshake ko c = (c', None)"
    using assms(2) fresh
    by (auto simp: ProvideTypedPlugin_def DispenseTyped_def Dispense_def ensureConnected_def split: prod.splits option.splits sum.splits)
  let ?d = "if cl_Discovery (c_cfg c) \<noteq> None \<and> cl_Endpoint (c_cfg c) = '''' then discoverEndpoint c else (c, None)"
  obtain c1 c2 where c: "?d = (c1, None)" "doHandshake handshake ko (c1\<lparr>c_httpClient := Some ()\<rparr>) = (c2, None)"
    "c' = c2\<lparr>c_connected := True\<rparr>"
    using con fresh unfolding Connect_def by (simp split: prod.splits option.splits)
  have "c_closed (fst ?d) = c_closed c"
    by (simp add: discoverEndpoint_def Let_def split: option.split sum.split)
  then have "c_closed c1 = c_closed c" unfolding c(1) by simp
  then have "c_connected c'" "\<not> c_closed c'"
    using fresh(1) doHandshake_closed [of handshake ko "c1\<lparr>c_httpClient := Some ()\<rparr>"] by (simp_all add: c)
  then show ?thesis by (simp add: Connect_def PluginModule_OnStart_def PluginModule_OnStop_def Client_Close_def)
qed

section \<open>The logger in memory\<close>

text \<open>
  The plugin is started on an in-memory server and its endpoint is the URL of that server, but the client
  behind the delegate has the network's HTTP client: no in-memory server is where its calls go.
\<close>

lemma fxLogger_not_in_memory:
  assumes "fxLogger draw lc between env so launcher st = (l, st', Inr client)"
  shows "cc_HTTPClient (LoggerClient_log client) = None"
  using assms
  by (auto simp: fxLogger_def loggerDelegate_New_def NewLoggerClient_def connectClient_def Let_def split: prod.splits sum.splits)

context kv_client begin

text \<open>The start hook stores and reads its value, whether or not anything it logs arrives.\<close>

lemma fx_managed_passes:
  assumes inv: "kv_inv s" and lost: "\<And>c req s. fst (sendLog c req s) = s"
  shows "\<exists>s'. fx_managed_start sendLog (cn_Put cn) (cn_Get cn) logger client s = Some (s', Inr (Some ''Alice'')) \<and>
    kv_data s' = (kv_data s)(''user:123'' \<mapsto> ''Alice'')"
proof -
  have log: "\<exists>e. loggerDelegate_Log sendLog logger level message fields s = (s, e)" for level message fields s
    using lost [of "LoggerClient_log logger" "\<lparr>lr_Level = level, lr_Message = message, lr_Fields = fields\<rparr>" s]
    by (auto simp: loggerDelegate_Log_def LoggerClient_Log_def split: prod.splits sum.splits)
  let ?s = "s\<lparr>kv_data := (kv_data s)(''user:123'' \<mapsto> ''Alice''), kv_calls := delivered skip (putEvent ''user:123'' ''Alice'') s\<rparr>"
  have put: "kVDelegate_Put (cn_Put cn) client ''user:123'' ''Alice'' s = Some (?s, None)"
    using client_Put [OF inv, of "''user:123''" "''Alice''"] by (simp add: kVDelegate_Put_def)
  have get: "kVDelegate_Get (cn_Get cn) client ''user:123'' ?s = Some (?s, ''Alice'', True, None)"
    by (simp add: kVDelegate_Get_def client_Get get_string_def)
  obtain e1 e2 e3 where "loggerDelegate_Log sendLog logger ''INFO'' ''Application started'' Map.empty s = (s, e1)"
    "loggerDelegate_Log sendLog logger ''INFO'' ''Stored user data'' [''key'' \<mapsto> ''user:123''] ?s = (?s, e2)"
    "loggerDelegate_Log sendLog logger ''INFO'' ''Retrieved user data'' [''value'' \<mapsto> ''Alice''] ?s = (?s, e3)"
    using log by meson
  then show ?thesis by (simp add: fx_managed_start_def put get)
qed

text \<open>The two programs that use the generated client inside fx hooks.\<close>

lemma fx_direct_passes:
  assumes inv: "kv_inv s"
  shows "\<exists>s'. fx_direct_start cn client s = Some (s', Inr (\<lparr>grs_Value = ''Alice'', grs_Found = True\<rparr>, \<lparr>drs_Found = True\<rparr>)) \<and>
    kv_data s' = (kv_data s)(''user:1'' \<mapsto> ''Alice'', ''user:2'' := None)"
proof -
  let ?s1 = "s\<lparr>kv_data := (kv_data s)(''user:1'' \<mapsto> ''Alice''), kv_calls := delivered skip (putEvent ''user:1'' ''Alice'') s\<rparr>"
  have inv1: "kv_inv ?s1" by (rule kv_inv_delivered [OF inv])
  let ?s2 = "?s1\<lparr>kv_data := (kv_data ?s1)(''user:2'' \<mapsto> ''Bob''), kv_calls := delivered skip (putEvent ''user:2'' ''Bob'') ?s1\<rparr>"
  have inv2: "kv_inv ?s2" by (rule kv_inv_delivered [OF inv1])
  note calls = client_Put [OF inv, of "''user:1''" "''Alice''"] client_Put [OF inv1, of "''user:2''" "''Bob''"]
    client_Delete [OF inv2, of "''user:2''"]
  show ?thesis
    unfolding fx_direct_start_def using calls by (simp add: client_Get get_string_def finish_def)
qed

lemma integ_fx_passes:
  assumes inv: "kv_inv s"
  shows "\<exists>s'. integ_fx_operations cn client s = Some (s', Inr \<lparr>grs_Value = ''test-value'', grs_Found = True\<rparr>) \<and>
    kv_data s' = (kv_data s)(''test/key'' := None)"
proof -
  let ?s1 = "s\<lparr>kv_data := (kv_data s)(''test/key'' \<mapsto> ''test-value''), kv_calls := delivered skip (putEvent ''test/key'' ''test-value'') s\<rparr>"
  have inv1: "kv_inv ?s1" by (rule kv_inv_delivered [OF inv])
  note calls = client_Put [OF inv, of "''test/key''" "''test-value''"] client_Delete [OF inv1, of "''test/key''"]
  show ?thesis
    unfolding integ_fx_operations_def using calls by (simp add: client_Get get_string_def finish_def)
qed

end

end
