(* ===== verification/Spec2Isabelle.thy ===== *)
theory Spec2Isabelle
  imports DepgraphStartup DepgraphImpact PlatformProps CircuitBreaker Retry RateLimit Auth Channels Client Server
    LauncherProps CodegenProps RegistryRefine KVStoreProps LoggedStore UrlShortenerProps Testharness
    CodegenGolden HostProgramsProps
begin

text \<open>
  A verification library of connect-plugin-go, a plugin system for Go over Connect RPC: a host
  serves plugins and mediates between them; plugins are processes or goroutines that handshake with
  the host, register services, discover those of others, and call them through the host's router.

  \<^bold>\<open>How the program is modelled.\<close> A struct is a record with the names of its fields behind a short
  prefix, an enum a datatype, a Go map a partial function (with \<open>get_slice\<close> and \<open>append_at\<close> for maps
  of slices), an error a value of a sum type. A method takes the state of its receiver last and
  returns it changed. What the environment decides is an argument: the clock, random bytes, the
  order of a range over a map (\<open>iter_order\<close>), the choice of a \<open>select\<close>, the answer of an RPC, what
  other goroutines do while a lock is not held. Theorems hold for all values of these. A function
  that holds one lock throughout is one step; where the code drops the lock in between, the steps or
  an interleaving argument show it. Logging is left out.

  \<^bold>\<open>The theories.\<close>
  \<^item> \<open>Prelude\<close>, \<open>GoRuntime\<close>: Go's strings, maps and slices; instants, durations, \<open>int32\<close>, HTTP
    headers, Connect errors; the locales \<open>safe_component\<close> (initial states, steps, invariant), which
    every component with an invariant interprets on its own operations, and \<open>simulation\<close> (labelled
    steps of two components, and the inclusion of their traces).
  \<^item> \<open>Depgraph\<close>, \<open>DepgraphStartup\<close>, \<open>DepgraphImpact\<close> (\<^verbatim>\<open>internal/depgraph/depgraph.go\<close>): the graph and
    its invariant; Kahn's algorithm as a partial function proved to return, its order topological, its
    errors true, its result independent of map orders; the impact analysis, whose recursion
    \<open>findDependents\<close> carries fuel that is proved enough when it exceeds the number of plugins. What the
    walk computes (\<open>goesDown\<close>, \<open>hardDep\<close>, \<open>softDep\<close>) and what the comments on \<open>ImpactAnalysis\<close> promise
    (\<open>lost\<close>, \<open>softened\<close>) are told apart: the two agree when no service loses two providers at once, and
    \<open>GetImpact_omits_lost\<close> is a graph on which they do not.
  \<^item> \<open>Validation\<close>, \<open>Identity\<close> (\<^verbatim>\<open>validation.go\<close>, the generators of \<^verbatim>\<open>handshake.go\<close>, \<^verbatim>\<open>registry.go\<close>,
    \<^verbatim>\<open>broker.go\<close>): the languages the validators accept, by a derivative matcher for the two regular
    expressions; hexadecimal and base64 encoding, injective on the random bytes.
  \<^item> \<open>Lifecycle\<close>, \<open>Registry\<close>, \<open>RegistryInv\<close>, \<open>RegistryProps\<close>, \<open>RegistryRefine\<close> (\<^verbatim>\<open>lifecycle.go\<close>,
    \<^verbatim>\<open>registry.go\<close>): health reports; registration, selection, discovery and watching with the invariant
    that the two maps agree; selection is complete and the round robin fair; the registry refines a
    directory, a plain list of registrations with the calls of its users and their answers as events.
  \<^item> \<open>TokenStore\<close>, \<open>PluginSet\<close>, \<open>Broker\<close>, \<open>Handshake\<close>, \<open>Router\<close> (\<^verbatim>\<open>plugin.go\<close>, \<^verbatim>\<open>broker.go\<close>,
    \<^verbatim>\<open>handshake.go\<close>, \<^verbatim>\<open>router.go\<close>): the contract of a table of expiring secrets as a locale, with runtime
    tokens and capability grants as its two interpretations; the handshake; the authorisation and
    proxying of requests.
  \<^item> \<open>Platform\<close>, \<open>PlatformProps\<close> (\<^verbatim>\<open>platform.go\<close>): adding, removing and replacing plugins. A removal
    computes the impact, with the fuel of \<open>GetImpact\<close>, and drops it; the router keeps the endpoint. The wait for
    health is a recursion over the events the clock and the lifecycle server produce; an infinite wait
    is excluded by the 30 second timeout. Concurrent platform operations are excluded
    (\<open>plugin_env\<close>): the code does not guard its maps against them.
  \<^item> \<open>CircuitBreaker\<close>, \<open>Float64\<close>, \<open>Retry\<close>, \<open>RateLimit\<close> (\<^verbatim>\<open>circuitbreaker.go\<close>, \<^verbatim>\<open>retry.go\<close>,
    \<^verbatim>\<open>ratelimit.go\<close>): the breaker with the window in which its callback runs unlocked; retry with
    backoff, terminating by a measure; token buckets. Floating point is exact rational arithmetic
    followed by rounding to 53 bits, so that the bounds hold for the numbers the program computes.
  \<^item> \<open>Health\<close>, \<open>Auth\<close>, \<open>Channels\<close>, \<open>Discovery\<close> (\<^verbatim>\<open>health.go\<close>, \<^verbatim>\<open>auth*.go\<close>, \<^verbatim>\<open>streaming.go\<close>,
    \<^verbatim>\<open>internal/memtransport/listener.go\<close>, \<^verbatim>\<open>discovery.go\<close>): the health service and its watchers,
    authentication as transformers of handlers under a provider contract, the two components made of
    channels, static discovery under its interface.
  \<^item> \<open>Client\<close>, \<open>Server\<close> (\<^verbatim>\<open>client.go\<close>, \<^verbatim>\<open>server.go\<close>): connecting and dispensing against the handshake
    server; the configuration, the mux and the graceful shutdown of the host.
  \<^item> \<open>Launcher\<close>, \<open>LauncherProps\<close> (\<^verbatim>\<open>launcher.go\<close>, \<^verbatim>\<open>launch_strategy.go\<close>, \<^verbatim>\<open>launch_inmemory.go\<close>,
    \<^verbatim>\<open>launch_process.go\<close>): launching plugins at their first use; the contract of a strategy is the locale
    \<open>launch_strategy\<close>, interpreted on both; what is started is what the shutdown stops, where
    \<^verbatim>\<open>server.Shutdown\<close>, which waits for running requests, is taken to return. The readiness
    poll is a recursion over the ticks before its deadline.
  \<^item> \<open>Codegen\<close>, \<open>CodegenProps\<close> (\<^verbatim>\<open>cmd/protoc-gen-connect-plugin/main.go\<close>): the text the protoc plugin
    writes, line by line; the declarations of a delegate's file, read back from its text, are those that
    implement the interface; its error returns have the declared
    types, and the descriptors on which the generator panics.
  \<^item> \<open>KVStore\<close>, \<open>KVStoreProps\<close> (\<^verbatim>\<open>examples/kv/impl/store.go\<close>): the key-value plugin with its watchers, each
    call of \<open>Watch\<close> a process over the stream adapter of \<open>Channels\<close>.
  \<^item> \<open>LoggedStore\<close> (\<^verbatim>\<open>examples/kv/impl-with-logger/store.go\<close>, \<^verbatim>\<open>examples/capabilities/logger/logger.go\<close>):
    the store that logs through a capability of the host, against the store without logging.
  \<^item> \<open>Testharness\<close> (\<^verbatim>\<open>internal/testharness\<close>): the processes a test starts, and that none is left running.
  \<^item> \<open>PluginPrograms\<close>, \<open>PluginProgramsProps\<close> (\<^verbatim>\<open>examples/{logger,cache,app,storage,api}-plugin/main.go\<close>):
    how a plugin built on the client starts, registers and reports its health, and what becomes of it on
    the host, started by itself or by the platform.
  \<^item> \<open>NetURL\<close>, \<open>UrlShortener\<close>, \<open>UrlShortenerProps\<close> (the handlers of the same files): URLs and queries as
    \<open>net/url\<close> parses them; the URL shortener made of three plugins, whose calls go through the registry and
    the router of the host.
  \<^item> \<open>ConnectRPC\<close>, \<open>ConnectRPCProps\<close> (the \<^verbatim>\<open>*.connect.go\<close> files): the generated clients and handlers of nine
    services, with what a generated file promises as the locale \<open>rpc_service\<close>, interpreted on each; which method a
    client reaches on the mux of \<open>Serve\<close>, and through the router.
  \<^item> \<open>GeneratedPlugins\<close>, \<open>CodegenGolden\<close> (\<^verbatim>\<open>gen/loggerv1plugin\<close>, \<^verbatim>\<open>gen/loggerv1delegate\<close>, \<^verbatim>\<open>testdata/kv/gen\<close>): the
    plugins and delegates that are checked in, as programs, and as the text that the generator of \<open>Codegen\<close> writes
    for their services (a computation that tests the model of the generator).
  \<^item> \<open>KVPrograms\<close>, \<open>KVProgramsProps\<close> (\<^verbatim>\<open>examples/kv/{server,host,host-watch,integ-fx}\<close>,
    \<^verbatim>\<open>examples/direct-dispatch\<close>, \<^verbatim>\<open>examples/fx-direct\<close>): the client programs against the server program and in memory, from
    the handshake to the last call. Their interface to the store is the locale \<open>kv_client\<close>; that the package connect
    delivers a call to the method its URL reaches is the hypothesis \<open>delivers\<close>.
  \<^item> \<open>HostPrograms\<close>, \<open>HostProgramsProps\<close> (\<^verbatim>\<open>pluginidentity.go\<close>, \<^verbatim>\<open>connectpluginfx/module.go\<close>,
    \<^verbatim>\<open>examples/docker-compose/host\<close>, \<^verbatim>\<open>examples/fx-managed\<close>, the muxes of the plugin programs): how hosts and plugins are
    assembled, and that their clients reach one another.
  \<^item> this theory: the properties that span components, from discovery to routing and from a health
    report to the traffic.

  \<^bold>\<open>What is not modelled.\<close> The network, processes and TLS, whose behaviour is an argument where the code
  depends on it; the package connect, the container fx and the protoc libraries, which are not under \<^verbatim>\<open>src\<close>; the
  encoding of the messages (\<^verbatim>\<open>*.pb.go\<close>), which are records; logging and the readers of single fields.
\<close>

section \<open>Discovery and routing\<close>

text \<open>The router does not read the service type of the path.\<close>

lemma routing_ignores_type:
  assumes "CHR ''/'' \<notin> set t" and "CHR ''/'' \<notin> set t'" and "CHR ''/'' \<notin> set rid"
  shows "routeRequest now order r l router (req\<lparr>hq_Path := serviceURL t rid @ ''/'' @ m\<rparr>) hs =
    routeRequest now order r l router (req\<lparr>hq_Path := serviceURL t' rid @ ''/'' @ m\<rparr>) hs"
proof -
  have path: "hq_Path (req\<lparr>hq_Path := serviceURL u rid @ ''/'' @ m\<rparr>) = ''/services/'' @ u @ ''/'' @ rid @ ''/'' @ m"
      "hq_Header (req\<lparr>hq_Path := serviceURL u rid @ ''/'' @ m\<rparr>) = hq_Header req" for u
    by (simp_all add: serviceURL_def)
  note split = service_path_split [OF assms(1,3), of m] service_path_split [OF assms(2,3), of m]
  have parts: "length [u, rid, m] = 3" "[u, rid, m] ! 1 = rid" "[u, rid, m] ! 2 = m" for u by simp_all
  have pre: "hasPrefix (''/services/'' @ u @ ''/'' @ rid @ ''/'' @ m) ''/services/'' = True" for u
    using hasPrefix_append by blast
  show ?thesis
    unfolding routeRequest_def path split Let_def pre parts by (rule refl)
qed

lemma DiscoverService_Some:
  assumes "DiscoverService draw lc id t v r = (r', Inr (Some resp))"
  obtains p where "SelectProvider draw lc t v r = (r', Inr (Some p))" "dsr_Endpoint resp = providerEndpoint p"
  using assms by (auto simp: DiscoverService_def Let_def split: prod.splits sum.splits option.splits)

text \<open>C2. From discovery to the request: in a registry reached from the empty one, in which no plugin
  registers two services, the URL that discovery returns, with a method appended, is forwarded by the
  router, for every authenticated caller, to a healthy provider of exactly the service and version
  asked for.\<close>
theorem discovered_service_routed:
  assumes reach: "reach (\<lambda>r. r = NewServiceRegistry) registry_step r" and draw: "draw_ok draw"
    and disc: "DiscoverService draw (Some l) id t v r = (r', Inr (Some resp))"
    and path: "hq_Path req = se_EndpointUrl (dsr_Endpoint resp) @ ''/'' @ m"
    and slash: "CHR ''/'' \<notin> set (se_ProviderId (dsr_Endpoint resp))"
    and caller: "header_get (hq_Header req) ''X-Plugin-Runtime-ID'' = caller" "caller \<noteq> ''''"
      "bearerToken (hq_Header req) = Some tok" "snd (ValidateToken now caller tok hs)"
    and order: "iter_order (r_registrations r) order"
    and single: "\<forall>p\<in>ran (r_registrations r). \<forall>q\<in>ran (r_registrations r). sp_RuntimeID p = sp_RuntimeID q \<longrightarrow> p = q"
    and base: "\<forall>p\<in>ran (r_registrations r). providerBase router p \<noteq> None"
  shows "\<exists>p base. p \<in> ran (r_registrations r) \<and> sp_ServiceType p = t \<and> compatible v p \<and>
    ShouldRouteTraffic l (sp_RuntimeID p) \<and> providerBase router p = Some base \<and>
    routeRequest now order r' l router req hs =
      (fst (ValidateToken now caller tok hs), Forward (base @ sp_EndpointPath p @ m))"
proof -
  have wf: "wf_registry r" using rg.reach_inv [OF reach] by (simp add: registry_inv_def)
  obtain p where sel: "SelectProvider draw (Some l) t v r = (r', Inr (Some p))" and ep: "dsr_Endpoint resp = providerEndpoint p"
    by (rule DiscoverService_Some [OF disc])
  have "eligible (Some l) t v r \<noteq> []" using SelectProvider_fails sel by (metis Pair_inject sum.distinct(1))
  then have "p \<in> set (eligible (Some l) t v r)"
    using SelectProvider_succeeds [OF draw] sel by (metis snd_conv sum.inject(2) option.inject)
  then have p: "r_registrations r (sp_RegistrationID p) = Some p" "sp_ServiceType p = t" "compatible v p"
      "ShouldRouteTraffic l (sp_RuntimeID p)"
    unfolding eligible_registered [OF wf] by (simp_all add: available_def)
  then have ran: "p \<in> ran (r_registrations r)" by (auto intro: ranI)
  have regs: "r_registrations r' = r_registrations r"
    using SelectProvider_frame [of draw "Some l" t v r] sel by simp
  have "GetProviderByRuntimeID order r' (sp_RuntimeID p) \<noteq> None"
    using GetProviderByRuntimeID_correct(1) [of r' order] order ran by (auto simp: regs)
  then obtain q where q: "GetProviderByRuntimeID order r' (sp_RuntimeID p) = Some q" by blast
  then have "q \<in> ran (r_registrations r)" "sp_RuntimeID q = sp_RuntimeID p"
    using GetProviderByRuntimeID_correct(2) [of r' order] order by (auto simp: regs)
  then have "q = p" using single ran by blast
  obtain b where b: "providerBase router p = Some b" using base ran by auto
  have "CHR ''/'' \<notin> set t"
    using wf_registryD(3) [OF wf p(1)] p(2) validateServiceType_segment(2) [of t] by (simp add: valid_provider_def)
  moreover have "CHR ''/'' \<notin> set (sp_RuntimeID p)" using slash by (simp add: ep providerEndpoint_def)
  moreover have "hq_Path req = ''/services/'' @ t @ ''/'' @ sp_RuntimeID p @ ''/'' @ m"
    by (simp add: path ep providerEndpoint_def serviceURL_def p(2))
  ultimately have "routeRequest now order r' l router req hs =
      (fst (ValidateToken now caller tok hs), Forward (b @ sp_EndpointPath p @ m))"
    using routeRequest_authorized caller q p(4) b \<open>q = p\<close> by blast
  then show ?thesis using ran p b by blast
qed

text \<open>C10. From a health report to the traffic: once a plugin reports itself unhealthy, the registry
  selects it for no service and the router forwards no request to it, whatever other plugins
  report afterwards.\<close>
theorem unhealthy_isolated:
  assumes "header_get header ''X-Plugin-Runtime-ID'' = rid" and "rid \<noteq> ''''" and "CHR ''/'' \<notin> set rid"
    and "rhr_State report = HEALTH_STATE_UNHEALTHY"
    and others: "\<forall>(h, q)\<in>set reports. header_get h ''X-Plugin-Runtime-ID'' \<noteq> rid"
    and l': "l' = fold (\<lambda>(h, q) l. fst (ReportHealth h q l)) reports (fst (ReportHealth header report l))"
    and reach: "reach (\<lambda>r. r = NewServiceRegistry) registry_step r" and draw: "draw_ok draw"
    and order: "iter_order (r_registrations r) order"
  shows "(\<forall>t v p. snd (SelectProvider draw (Some l') t v r) = Inr (Some p) \<longrightarrow> sp_RuntimeID p \<noteq> rid) \<and>
    (\<forall>req t m url. hq_Path req = serviceURL t rid @ ''/'' @ m \<and> CHR ''/'' \<notin> set t \<longrightarrow>
       snd (routeRequest now order r l' router req hs) \<noteq> Forward url)"
proof -
  have wf: "wf_registry r" using rg.reach_inv [OF reach] by (simp add: registry_inv_def)
  have "ShouldRouteTraffic l' rid = ShouldRouteTraffic (fst (ReportHealth header report l)) rid"
    unfolding l' by (rule lc.routable_frame) (use others in \<open>auto simp: case_prod_unfold\<close>)
  then have down: "\<not> ShouldRouteTraffic l' rid"
    using assms(1,2,4) by (simp add: ShouldRouteTraffic_ReportHealth)
  have "sp_RuntimeID p \<noteq> rid" if s: "snd (SelectProvider draw (Some l') t v r) = Inr (Some p)" for t v p
  proof -
    have "eligible (Some l') t v r \<noteq> []" using SelectProvider_fails s by (metis snd_conv sum.distinct(1))
    then have "p \<in> set (eligible (Some l') t v r)"
      using SelectProvider_succeeds [OF draw] s by (metis sum.inject(2) option.inject)
    then show ?thesis using down unfolding eligible_registered [OF wf] by (auto simp: available_def)
  qed
  moreover have "snd (routeRequest now order r l' router req hs) \<noteq> Forward url"
    if path: "hq_Path req = serviceURL t rid @ ''/'' @ m" and t: "CHR ''/'' \<notin> set t" for req t m url
  proof
    assume "snd (routeRequest now order r l' router req hs) = Forward url"
    then have "routeRequest now order r l' router req hs =
        (fst (routeRequest now order r l' router req hs), Forward url)"
      by (simp add: prod_eq_iff)
    from routeRequest_Forward [OF this order] obtain t' rid' m' where
      p': "hq_Path req = ''/services/'' @ t' @ ''/'' @ rid' @ ''/'' @ m'" "CHR ''/'' \<notin> set t'" "CHR ''/'' \<notin> set rid'"
      and up: "ShouldRouteTraffic l' rid'"
      by (elim exE conjE) (rule that)
    have eq: "''/services/'' @ t @ ''/'' @ rid @ ''/'' @ m = ''/services/'' @ t' @ ''/'' @ rid' @ ''/'' @ m'"
      using path p'(1) by (simp only: serviceURL_def append_assoc)
    have "[t', rid', m'] = [t, rid, m]"
      using service_path_split [OF t assms(3), of m] unfolding eq service_path_split [OF p'(2,3), of m'] .
    then show False using up down by simp
  qed
  ultimately show ?thesis by blast
qed

section \<open>Examples\<close>

definition example_router :: ServiceRouter where
  "example_router = RegisterPluginEndpoint ''kv-a1b2'' ''http://p'' NewServiceRouter"

definition example_response :: DiscoverServiceResponse where
  "example_response = \<lparr>dsr_Endpoint = providerEndpoint example_provider, dsr_SingleProvider = True\<rparr>"

lemma example_fields:
  "sp_RuntimeID example_provider = ''kv-a1b2''" "sp_EndpointPath example_provider = ''/kv''"
  "sp_ServiceType example_provider = ''kv''"
  by (simp_all add: example_routing) (simp add: example_provider_def newProvider_def example_request_def)

lemma example_discovered:
  "DiscoverService (\<lambda>_. 0) (Some NewLifecycleServer) id ''kv'' '''' example_registry = (example_registry, Inr (Some example_response))"
proof -
  have "strategyOf example_registry ''kv'' = SelectionFirst"
    by (simp add: strategyOf_def example_registry_def storeProvider_def NewServiceRegistry_def)
  moreover have "eligible (Some NewLifecycleServer) ''kv'' '''' example_registry = [example_provider]"
    by (simp add: eligible_def filterCompatibleVersions_def filterAvailable_def example_providers
        ShouldRouteTraffic_iff NewLifecycleServer_def)
  ultimately have "SelectProvider (\<lambda>_. 0) (Some NewLifecycleServer) ''kv'' '''' example_registry =
      (example_registry, Inr (Some example_provider))"
    by (simp add: SelectProvider_applies applyStrategy_def)
  then show ?thesis by (simp add: DiscoverService_def example_response_def example_providers)
qed

lemma example_caller:
  "header_get (hq_Header example_call) ''X-Plugin-Runtime-ID'' = ''app-1''"
  "bearerToken (hq_Header example_call) = Some ''secret''"
  "snd (ValidateToken 50 ''app-1'' ''secret'' example_tokens)"
  by (simp_all add: example_routing)

lemma discovered_service_routed_witness:
  "\<exists>base. snd (routeRequest 50 [''reg-6162636465666768''] example_registry NewLifecycleServer example_router example_call
     example_tokens) = Forward (base @ ''/kv'' @ ''Get'')"
proof -
  have "hq_Path example_call = se_EndpointUrl (dsr_Endpoint example_response) @ ''/'' @ ''Get''"
    by (simp add: example_call_def example_response_def providerEndpoint_def serviceURL_def example_fields)
  moreover have "CHR ''/'' \<notin> set (se_ProviderId (dsr_Endpoint example_response))"
    by (simp add: example_response_def providerEndpoint_def example_fields)
  moreover have "draw_ok (\<lambda>_. 0)" by (simp add: draw_ok_def)
  moreover have "iter_order (r_registrations example_registry) [''reg-6162636465666768'']"
    by (simp add: example_providers iter_order_def)
  moreover have ran: "ran (r_registrations example_registry) = {example_provider}"
    by (simp add: example_providers)
  moreover have "providerBase example_router example_provider \<noteq> None"
    by (simp add: example_router_def providerBase_def RegisterPluginEndpoint_def example_fields)
  ultimately obtain p base where "p \<in> ran (r_registrations example_registry)"
      "routeRequest 50 [''reg-6162636465666768''] example_registry NewLifecycleServer example_router example_call example_tokens =
        (fst (ValidateToken 50 ''app-1'' ''secret'' example_tokens), Forward (base @ sp_EndpointPath p @ ''Get''))"
    using discovered_service_routed [OF example_reach _ example_discovered, of example_call "''Get''" "''app-1''" "''secret''"
        50 example_tokens "[''reg-6162636465666768'']" example_router] example_caller
    by auto
  then show ?thesis by (intro exI [of _ base]) (simp add: ran example_fields)
qed

definition example_bad_report :: ReportHealthRequest where
  "example_bad_report = \<lparr>rhr_State = HEALTH_STATE_UNHEALTHY, rhr_Reason = '''', rhr_UnavailableDependencies = []\<rparr>"

lemma unhealthy_isolated_witness:
  "\<forall>url. snd (routeRequest 50 [''reg-6162636465666768''] example_registry
      (fst (ReportHealth example_header example_bad_report NewLifecycleServer)) example_router example_call example_tokens) \<noteq>
    Forward url"
proof
  fix url
  let ?l = "fst (ReportHealth example_header example_bad_report NewLifecycleServer)"
  have rid: "header_get example_header ''X-Plugin-Runtime-ID'' = ''kv-a1b2''" "''kv-a1b2'' \<noteq> ''''"
    "CHR ''/'' \<notin> set ''kv-a1b2''" by (simp_all add: example_header_def)
  have bad: "rhr_State example_bad_report = HEALTH_STATE_UNHEALTHY" by (simp add: example_bad_report_def)
  have draw: "draw_ok (\<lambda>_. 0)" by (simp add: draw_ok_def)
  have order: "iter_order (r_registrations example_registry) [''reg-6162636465666768'']"
    by (simp add: example_providers iter_order_def)
  have none: "\<forall>(h, q)\<in>set []. header_get h ''X-Plugin-Runtime-ID'' \<noteq> ''kv-a1b2''"
    and l: "?l = fold (\<lambda>(h, q) l. fst (ReportHealth h q l)) [] ?l" by simp_all
  have path: "hq_Path example_call = serviceURL ''kv'' ''kv-a1b2'' @ ''/'' @ ''Get'' \<and> CHR ''/'' \<notin> set ''kv''"
    by (simp add: example_call_def serviceURL_def)
  show "snd (routeRequest 50 [''reg-6162636465666768''] example_registry ?l example_router example_call example_tokens) \<noteq>
      Forward url"
    by (rule unhealthy_isolated [OF rid bad none l example_reach draw order, THEN conjunct2, rule_format, OF path])
qed

end
